(* ===== verification/Prelude.thy ===== *)
theory Prelude
  imports Complex_Main "HOL-Library.Sublist"
begin

text \<open>
  Shared ground of the development: the fragment of the JavaScript standard library that the
  Workers source uses (string trimming, case folding, splitting, suffix tests, number
  printing), the value shapes that cross module boundaries (parsed JSON, timestamps, DAL
  errors), and the generic list, option and sum lemmas the component theories rest on.

  Conventions of the model.
  \<^item> A JavaScript string is a \<^typ>\<open>string\<close>, a list of code units below 256; the white-space
    and case tables below are those of ECMAScript restricted to that range.
  \<^item> A timestamp string is represented by what \<^verbatim>\<open>Date.parse\<close> reads from it: \<open>At ms\<close>, or
    \<open>Unparsable s\<close> where the result is \<open>NaN\<close> (every comparison with \<open>NaN\<close> is false).
  \<^item> An optional field or a nullable column is an \<open>option\<close>; \<^verbatim>\<open>undefined\<close> and \<^verbatim>\<open>null\<close> are
    merged where the source treats them alike.
  \<^item> A thrown DAL error is the left summand of a sum.
\<close>

section \<open>Collections of rewrite rules\<close>

named_theorems js_simps \<open>unfoldings of the JavaScript standard-library fragment\<close>
named_theorems model_defs \<open>definitions a component unfolds when it is evaluated\<close>
named_theorems tenant_frame \<open>rows of other tenants are left alone\<close>

section \<open>Strings\<close>

definition is_ws :: "char \<Rightarrow> bool" where
  "is_ws c = ((of_char c :: nat) \<in> {9, 10, 11, 12, 13, 32, 160})"

definition js_trim :: "string \<Rightarrow> string" where
  "js_trim s = rev (dropWhile is_ws (rev (dropWhile is_ws s)))"

definition lower_char :: "char \<Rightarrow> char" where
  "lower_char c =
     (let n = (of_char c :: nat)
      in if (65 \<le> n \<and> n \<le> 90) \<or> (192 \<le> n \<and> n \<le> 222 \<and> n \<noteq> 215) then char_of (n + 32) else c)"

definition js_lower :: "string \<Rightarrow> string" where
  "js_lower s = map lower_char s"

text \<open>\<^verbatim>\<open>s.split(sep)\<close> for a one-character separator: never empty, as in JavaScript.\<close>

fun js_split :: "char \<Rightarrow> string \<Rightarrow> string list" where
  "js_split sep [] = [[]]"
| "js_split sep (c # cs) =
     (if c = sep then [] # js_split sep cs
      else (case js_split sep cs of [] \<Rightarrow> [[c]] | w # ws \<Rightarrow> (c # w) # ws))"

definition js_ends_with :: "string \<Rightarrow> string \<Rightarrow> bool" where
  "js_ends_with s t = (length t \<le> length s \<and> drop (length s - length t) s = t)"

definition js_starts_with :: "string \<Rightarrow> string \<Rightarrow> bool" where
  "js_starts_with s t = (take (length t) s = t)"

text \<open>\<^verbatim>\<open>xs.filter(Boolean)\<close> on strings, and the truthiness of an optional string.\<close>

definition non_empty :: "string list \<Rightarrow> string list" where
  "non_empty xs = filter (\<lambda>s. s \<noteq> []) xs"

definition truthy :: "string option \<Rightarrow> bool" where
  "truthy v = (case v of None \<Rightarrow> False | Some s \<Rightarrow> s \<noteq> [])"

text \<open>\<^verbatim>\<open>v || d\<close> and \<^verbatim>\<open>v ?? d\<close> on optional strings.\<close>

definition or_else :: "string option \<Rightarrow> string \<Rightarrow> string" where
  "or_else v d = (case v of None \<Rightarrow> d | Some s \<Rightarrow> if s = [] then d else s)"

definition coalesce :: "'a option \<Rightarrow> 'a \<Rightarrow> 'a" where
  "coalesce v d = (case v of None \<Rightarrow> d | Some s \<Rightarrow> s)"

abbreviation the_default :: "'a \<Rightarrow> 'a option \<Rightarrow> 'a" where
  "the_default d v \<equiv> coalesce v d"

lemma coalesce_simps [simp]: "coalesce None d = d" "coalesce (Some x) d = x"
  by (simp_all add: coalesce_def)

lemma or_else_simps [simp]: "or_else None d = d" "or_else (Some []) d = d" "s \<noteq> [] \<Longrightarrow> or_else (Some s) d = s"
  by (simp_all add: or_else_def)

lemma truthy_simps [simp]: "\<not> truthy None" "truthy (Some s) = (s \<noteq> [])"
  by (simp_all add: truthy_def)

subsection \<open>Printing numbers\<close>

fun show_nat :: "nat \<Rightarrow> string" where
  "show_nat n =
     (if n < 10 then [char_of (48 + n)] else show_nat (n div 10) @ [char_of (48 + n mod 10)])"

declare show_nat.simps [simp del]

definition show_int :: "int \<Rightarrow> string" where
  "show_int i = (if i < 0 then ''-'' @ show_nat (nat (- i)) else show_nat (nat i))"

lemma show_nat_not_Nil [simp]: "show_nat n \<noteq> []"
  by (subst show_nat.simps) simp

subsection \<open>Facts about trimming and splitting\<close>

lemma dropWhile_hd: "dropWhile P xs = y # ys \<Longrightarrow> \<not> P y"
  using hd_dropWhile [of P xs] by force

lemma js_trim_Nil [simp]: "js_trim [] = []"
  by (simp add: js_trim_def)

lemma dropWhile_idem: "dropWhile P (dropWhile P xs) = dropWhile P xs"
  by (induction xs) auto

lemma js_trim_last: "js_trim s \<noteq> [] \<Longrightarrow> \<not> is_ws (last (js_trim s))"
  unfolding js_trim_def last_rev by (metis hd_dropWhile rev.simps(1))

lemma dropWhile_eq_self: "xs = [] \<or> \<not> P (hd xs) \<Longrightarrow> dropWhile P xs = xs"
  by (cases xs) auto

lemma js_trim_hd: "js_trim s \<noteq> [] \<Longrightarrow> \<not> is_ws (hd (js_trim s))"
proof -
  assume ne: "js_trim s \<noteq> []"
  let ?d = "dropWhile is_ws s"
  obtain pre where pre: "rev ?d = pre @ dropWhile is_ws (rev ?d)"
    by (metis takeWhile_dropWhile_id)
  have "?d = rev (dropWhile is_ws (rev ?d)) @ rev pre"
    using arg_cong [OF pre, of rev] by simp
  then have split: "?d = js_trim s @ rev pre"
    by (simp add: js_trim_def)
  with ne have "hd ?d = hd (js_trim s)" and "?d \<noteq> []"
    by (auto simp: hd_append)
  then show ?thesis
    by (metis hd_dropWhile)
qed

lemma js_trim_idem [simp]: "js_trim (js_trim s) = js_trim s"
proof (cases "js_trim s = []")
  case True
  then show ?thesis by simp
next
  case False
  then have "dropWhile is_ws (js_trim s) = js_trim s"
    by (intro dropWhile_eq_self) (simp add: js_trim_hd)
  moreover have "dropWhile is_ws (rev (js_trim s)) = rev (js_trim s)"
    using False by (intro dropWhile_eq_self) (simp add: hd_rev js_trim_last)
  ultimately show ?thesis
    by (simp add: js_trim_def [of "js_trim s"])
qed

lemma js_split_not_Nil [simp]: "js_split sep s \<noteq> []"
  by (induction s) (auto split: list.splits)

section \<open>Values that cross module boundaries\<close>

datatype timestamp = At int | Unparsable string

fun date_parse :: "timestamp \<Rightarrow> int option" where
  "date_parse (At t) = Some t"
| "date_parse (Unparsable _) = None"

text \<open>A comparison with \<^verbatim>\<open>NaN\<close> on the left is false.\<close>

definition parsed_le :: "timestamp \<Rightarrow> int \<Rightarrow> bool" where
  "parsed_le ts n = (case date_parse ts of None \<Rightarrow> False | Some t \<Rightarrow> t \<le> n)"

lemma parsed_le_simps [simp]: "parsed_le (At t) n = (t \<le> n)" "\<not> parsed_le (Unparsable s) n"
  by (simp_all add: parsed_le_def)

datatype json =
    JNull
  | JBool bool
  | JNum real
  | JStr string
  | JArr "json list"
  | JObj "(string \<times> json) list"

record dal_error =
  err_code :: string
  err_message :: string
  err_status :: int

definition makeError :: "string \<Rightarrow> string \<Rightarrow> int \<Rightarrow> dal_error" where
  "makeError code message status = \<lparr>err_code = code, err_message = message, err_status = status\<rparr>"

lemma makeError_sel [simp]:
  "err_code (makeError c m s) = c" "err_message (makeError c m s) = m" "err_status (makeError c m s) = s"
  by (simp_all add: makeError_def)

text \<open>\<^verbatim>\<open>assertWorkspaceScope\<close>: the guard every DAL operation opens with.\<close>

definition assertWorkspaceScope :: "string option \<Rightarrow> dal_error option" where
  "assertWorkspaceScope ws =
     (if \<not> truthy ws \<or> js_trim (coalesce ws []) = []
      then Some (makeError ''UNAUTHORIZED'' ''workspace_id is required for all DAL operations'' 401)
      else None)"

lemma assertWorkspaceScope_None [simp]:
  "assertWorkspaceScope (Some ws) = None \<longleftrightarrow> js_trim ws \<noteq> []"
  by (auto simp: assertWorkspaceScope_def)

text \<open>
  A step that may throw inside a stateful operation: on \<open>Inl\<close> the operation ends with that error
  and the state reached so far.
\<close>

definition attempt :: "'s \<Rightarrow> 'e + 'a \<Rightarrow> ('a \<Rightarrow> 's \<times> ('e + 'b)) \<Rightarrow> 's \<times> ('e + 'b)" where
  "attempt s r f = (case r of Inl e \<Rightarrow> (s, Inl e) | Inr a \<Rightarrow> f a)"

lemma attempt_simps [simp]: "attempt s (Inl e) f = (s, Inl e)" "attempt s (Inr a) f = f a"
  by (simp_all add: attempt_def)

lemma attempt_Inr_iff: "snd (attempt s r f) = Inr y \<longleftrightarrow> (\<exists>a. r = Inr a \<and> snd (f a) = Inr y)"
  by (cases r) auto

lemma attempt_frame:
  assumes "\<And>a. r = Inr a \<Longrightarrow> obs (fst (f a)) = obs s"
  shows "obs (fst (attempt s r f)) = obs s"
  using assms by (cases r) auto

lemma attempt_inv:
  assumes "I s" and "\<And>a. r = Inr a \<Longrightarrow> I (fst (f a))"
  shows "I (fst (attempt s r f))"
  using assms by (cases r) auto

definition ensure :: "bool \<Rightarrow> 'e \<Rightarrow> 'e + unit" where
  "ensure ok e = (if ok then Inr () else Inl e)"

lemma ensure_simps [simp]: "ensure True e = Inr ()" "ensure False e = Inl e" "ensure b e = Inr u \<longleftrightarrow> b"
  by (simp_all add: ensure_def)

section \<open>Tenant isolation\<close>

text \<open>
  The contract every tenant-scoped store is held to: an operation issued for one workspace leaves
  what another workspace can observe as it was.
\<close>

locale tenant_store =
  fixes exec :: "'w \<Rightarrow> 'c \<Rightarrow> 's \<Rightarrow> 's"
    and view :: "'w \<Rightarrow> 's \<Rightarrow> 'v"
  assumes frame: "w' \<noteq> w \<Longrightarrow> view w' (exec w c s) = view w' s"
begin

lemma run_frame:
  assumes "\<forall>wc \<in> set cs. fst wc \<noteq> w'"
  shows "view w' (foldl (\<lambda>s wc. exec (fst wc) (snd wc) s) s cs) = view w' s"
  using assms by (induction cs arbitrary: s) (auto simp: frame)

end

section \<open>Generic lemmas\<close>

text \<open>A sequence of steps that each leave an observation alone leaves it alone altogether.\<close>

lemma foldl_frame:
  assumes "\<And>s x. x \<in> set xs \<Longrightarrow> obs (f s x) = obs s"
  shows "obs (foldl f s xs) = obs s"
  using assms by (induction xs arbitrary: s) auto

lemma foldl_inv:
  assumes "\<And>s x. x \<in> set xs \<Longrightarrow> I s \<Longrightarrow> I (f s x)" and "I s"
  shows "I (foldl f s xs)"
  using assms by (induction xs arbitrary: s) auto

lemma filter_map_other:
  assumes "\<And>x. P x \<Longrightarrow> f x = x" and "\<And>x. P (f x) = P x"
  shows "filter P (map f xs) = filter P xs"
  using assms by (induction xs) auto

lemma find_Some_in: "find P xs = Some x \<Longrightarrow> P x \<and> x \<in> set xs"
  by (auto simp: find_Some_iff)

lemma find_unique:
  assumes "x \<in> set xs" and "P x" and "\<And>y. y \<in> set xs \<Longrightarrow> P y \<Longrightarrow> y = x"
  shows "find P xs = Some x"
proof (cases "find P xs")
  case None
  with assms(1,2) show ?thesis by (auto simp: find_None_iff)
next
  case (Some y)
  then have "P y" "y \<in> set xs" using find_Some_in by metis+
  with Some assms(3) show ?thesis by simp
qed

lemma sum_case_Inr: "(case r of Inl e \<Rightarrow> Inl e | Inr a \<Rightarrow> f a) = Inr y \<longleftrightarrow> (\<exists>a. r = Inr a \<and> f a = Inr y)"
  by (cases r) auto

end
