(* ===== verification/Identity.thy ===== *)
theory Identity
  imports Prelude
begin

text \<open>
  The canonical identity contract (\<^verbatim>\<open>dal/types/xcp-identity-contracts.ts\<close>), the request's
  auth context (\<^verbatim>\<open>dal/types/auth.ts\<close>), the entitlement reader (\<^verbatim>\<open>dal/entitlement-store.ts\<close>),
  the principal builders (\<^verbatim>\<open>dal/principal-hydration.ts\<close>, \<^verbatim>\<open>dal/principal-adapter.ts\<close>) and
  the operating-mode store (\<^verbatim>\<open>dal/session-preferences-store.ts\<close>).

  The tables those functions read are the fields of \<open>authority_db\<close>; a query that may fail
  carries a flag \<open>up\<close> saying whether it answered.
\<close>

section \<open>Contract types\<close>

datatype xcp_app_id = App_xlooop | App_xcp | App_investor_data_room

datatype identity_source =
  Cloudflare_access | Oidc | Signed_url | Service_token | Local_dev | Test_fixture

datatype assurance_level = Low | Medium | High

datatype operating_mode = Watch | Test | Operator

datatype app_entitlement_status =
  Ent_active | Ent_disabled | Ent_expired | Ent_revoked | Ent_pending_approval

datatype membership_role =
    MOwner | MAdmin | MPM | MEngineer | MDesigner | MCompliance | MClient | MViewer | MAgent | MService

record tenant_membership =
  tm_tenant_id :: "string option"
  tm_workspace_id :: "string option"
  tm_role :: membership_role
  tm_permissions :: "string list"

record app_entitlement =
  ent_app_id :: xcp_app_id
  ent_status :: app_entitlement_status
  ent_enabled_by :: string
  ent_authority_ref :: string
  ent_risk_lane :: string
  ent_expires_at :: "timestamp option"
  ent_review_due :: "timestamp option"
  ent_allowed_modes :: "string list"
  ent_allowed_actions :: "string list"
  ent_denied_actions :: "string list"

record principal =
  pr_schema_version :: string
  pr_identity_id :: "string option"
  pr_actor_id :: "string option"
  pr_email :: "string option"
  pr_display_name :: "string option"
  pr_identity_source :: identity_source
  pr_tenant_id :: "string option"
  pr_owner_graph_id :: string
  pr_memberships :: "tenant_membership list"
  pr_app_entitlements :: "app_entitlement list"
  pr_permissions :: "string list"
  pr_session_issued_at :: timestamp
  pr_session_expires_at :: "timestamp option"
  pr_assurance_level :: assurance_level

datatype decision_reason =
    Active_entitlement
  | Missing_entitlement
  | Entitlement_not_active
  | Mode_not_allowed
  | Session_expired
  | Mode_requires_operator
  | Action_denied
  | Action_not_allowed

record app_access_decision =
  acc_allowed :: bool
  acc_app_id :: xcp_app_id
  acc_requested_mode :: operating_mode
  acc_reason :: decision_reason
  acc_entitlement :: "app_entitlement option"

text \<open>The runtime strings of the \<^verbatim>\<open>OperatingMode\<close> union.\<close>

fun mode_str :: "operating_mode \<Rightarrow> string" where
  "mode_str Watch = ''watch''"
| "mode_str Test = ''test''"
| "mode_str Operator = ''operator''"

lemma mode_str_inject [simp]: "mode_str m = mode_str m' \<longleftrightarrow> m = m'"
  by (cases m; cases m') auto

section \<open>Access evaluation\<close>

definition findAppEntitlement :: "principal \<Rightarrow> xcp_app_id \<Rightarrow> app_entitlement option" where
  "findAppEntitlement p app = find (\<lambda>e. ent_app_id e = app) (pr_app_entitlements p)"

definition session_expired :: "principal \<Rightarrow> int \<Rightarrow> bool" where
  "session_expired p now =
     (case pr_session_expires_at p of None \<Rightarrow> False | Some ts \<Rightarrow> parsed_le ts now)"

definition evaluateAppAccess ::
  "principal \<Rightarrow> xcp_app_id \<Rightarrow> operating_mode \<Rightarrow> int \<Rightarrow> app_access_decision" where
  "evaluateAppAccess p app m now =
     (if session_expired p now
      then \<lparr>acc_allowed = False, acc_app_id = app, acc_requested_mode = m,
            acc_reason = Session_expired, acc_entitlement = None\<rparr>
      else (case findAppEntitlement p app of
              None \<Rightarrow> \<lparr>acc_allowed = False, acc_app_id = app, acc_requested_mode = m,
                       acc_reason = Missing_entitlement, acc_entitlement = None\<rparr>
            | Some e \<Rightarrow>
                if ent_status e \<noteq> Ent_active
                then \<lparr>acc_allowed = False, acc_app_id = app, acc_requested_mode = m,
                      acc_reason = Entitlement_not_active, acc_entitlement = Some e\<rparr>
                else if mode_str m \<notin> set (ent_allowed_modes e)
                then \<lparr>acc_allowed = False, acc_app_id = app, acc_requested_mode = m,
                      acc_reason = Mode_not_allowed, acc_entitlement = Some e\<rparr>
                else \<lparr>acc_allowed = True, acc_app_id = app, acc_requested_mode = m,
                      acc_reason = Active_entitlement, acc_entitlement = Some e\<rparr>))"

definition hasActiveAppEntitlement ::
  "principal \<Rightarrow> xcp_app_id \<Rightarrow> operating_mode \<Rightarrow> int \<Rightarrow> bool" where
  "hasActiveAppEntitlement p app m now = acc_allowed (evaluateAppAccess p app m now)"

definition xlooopAccessDoesNotGrantXcp :: "principal \<Rightarrow> int \<Rightarrow> bool" where
  "xlooopAccessDoesNotGrantXcp p now =
     (hasActiveAppEntitlement p App_xlooop Watch now \<and> \<not> hasActiveAppEntitlement p App_xcp Watch now)"

lemma evaluateAppAccess_allowed:
  "acc_allowed (evaluateAppAccess p app m now) \<longleftrightarrow>
     \<not> session_expired p now \<and>
     (\<exists>e. findAppEntitlement p app = Some e \<and> ent_status e = Ent_active \<and>
          mode_str m \<in> set (ent_allowed_modes e))"
  by (auto simp: evaluateAppAccess_def split: option.splits)

lemma evaluateAppAccess_entitlement:
  "acc_allowed (evaluateAppAccess p app m now) \<Longrightarrow>
     acc_entitlement (evaluateAppAccess p app m now) = findAppEntitlement p app"
  by (auto simp: evaluateAppAccess_def split: option.splits if_splits)

section \<open>The auth context of a request\<close>

record auth_context =
  au_user_id :: "string option"
  au_workspace_id :: "string option"
  au_role :: "string option"
  au_email :: "string option"
  au_is_admin :: "bool option"
  au_service_principal :: "string option"
  au_token_expires_at :: "timestamp option"
  au_packet_prefix :: "string option"
  au_connector_scopes :: "string list option"
  au_auth_method :: "string option"
  au_client_id :: "string option"
  au_delegated_by_user_id :: "string option"

text \<open>\<^verbatim>\<open>{}\<close>, what the source substitutes for a missing auth context.\<close>

definition empty_auth :: auth_context where
  "empty_auth = \<lparr>au_user_id = None, au_workspace_id = None, au_role = None, au_email = None,
     au_is_admin = None, au_service_principal = None, au_token_expires_at = None,
     au_packet_prefix = None, au_connector_scopes = None, au_auth_method = None,
     au_client_id = None, au_delegated_by_user_id = None\<rparr>"

section \<open>The role-derived adapter\<close>

definition mapRole :: "string option \<Rightarrow> membership_role" where
  "mapRole r =
     (if r = Some ''owner'' then MOwner
      else if r = Some ''operator'' then MAdmin
      else if r = Some ''viewer'' then MViewer
      else if r = Some ''client'' then MClient
      else MViewer)"

definition modesForRole :: "string option \<Rightarrow> string list" where
  "modesForRole r =
     (if r = Some ''owner'' \<or> r = Some ''operator'' then [''watch'', ''test'', ''operator'']
      else [''watch''])"

definition permissionsForRole :: "string option \<Rightarrow> string list" where
  "permissionsForRole r =
     (if r = Some ''owner'' then
        [''workspace:read'', ''project:read'', ''event:read'', ''event:write'', ''signoff:write'',
         ''admin:read'', ''admin:write'']
      else if r = Some ''operator'' then
        [''workspace:read'', ''project:read'', ''event:read'', ''event:write'', ''signoff:write'',
         ''admin:read'']
      else if r = Some ''viewer'' then [''workspace:read'', ''project:read'', ''event:read'']
      else if r = Some ''client'' then [''event:read'']
      else [])"

record build_principal_args =
  bp_clerkUserId :: string
  bp_clerkOrgId :: string
  bp_email :: "string option"
  bp_displayName :: string
  bp_workspaceRole :: string
  bp_sessionIssuedAt :: timestamp
  bp_sessionExpiresAt :: "timestamp option"
  bp_identitySource :: "identity_source option"

definition email_local :: "string \<Rightarrow> string" where
  "email_local e = hd (js_split (CHR ''@'') e)"

definition buildPrincipal :: "build_principal_args \<Rightarrow> principal" where
  "buildPrincipal a =
     (let role = Some (bp_workspaceRole a);
          perms = permissionsForRole role;
          membership = \<lparr>tm_tenant_id = Some (bp_clerkOrgId a), tm_workspace_id = Some (bp_clerkOrgId a),
                        tm_role = mapRole role, tm_permissions = perms\<rparr>;
          entitlement = \<lparr>ent_app_id = App_xlooop, ent_status = Ent_active,
                         ent_enabled_by = ''r40_entitlement_gate'',
                         ent_authority_ref = ''users.status=approved+workspace_members.status=active'',
                         ent_risk_lane = ''customer-internal'', ent_expires_at = None,
                         ent_review_due = None, ent_allowed_modes = modesForRole role,
                         ent_allowed_actions = [''*''], ent_denied_actions = []\<rparr>;
          displayName =
            (if bp_displayName a \<noteq> [] then bp_displayName a
             else (let l = (if truthy (bp_email a) then email_local (coalesce (bp_email a) []) else [])
                   in if l \<noteq> [] then l else ''Unknown User''))
      in \<lparr>pr_schema_version = ''xcp.authenticated_principal.v1'',
          pr_identity_id = Some (bp_clerkUserId a), pr_actor_id = Some (bp_clerkUserId a),
          pr_email = bp_email a, pr_display_name = Some displayName,
          pr_identity_source = coalesce (bp_identitySource a) Oidc,
          pr_tenant_id = Some (bp_clerkOrgId a),
          pr_owner_graph_id = ''owner-graph:'' @ bp_clerkOrgId a,
          pr_memberships = [membership], pr_app_entitlements = [entitlement],
          pr_permissions = perms, pr_session_issued_at = bp_sessionIssuedAt a,
          pr_session_expires_at = bp_sessionExpiresAt a, pr_assurance_level = Medium\<rparr>)"

section \<open>The entitlement store\<close>

text \<open>A driver value of a text-array column: a JavaScript array, a literal, or neither.\<close>

datatype pg_array = Pg_list "string list" | Pg_text string | Pg_other

record entitlement_row =
  ce_user_id :: string
  ce_workspace_id :: string
  ce_app_id :: string
  ce_allowed_modes :: pg_array
  ce_allowed_actions :: pg_array
  ce_denied_actions :: pg_array
  ce_authority_ref :: "string option"
  ce_granted_at :: "int option"
  ce_granted_by :: "string option"
  ce_revoked_at :: "timestamp option"
  ce_expires_at :: "timestamp option"
  ce_review_due :: "timestamp option"
  ce_updated_at :: int

record member_row =
  wm_user_id :: string
  wm_workspace_id :: string
  wm_role :: string
  wm_status :: string
  wm_invited_by :: "string option"
  wm_joined_at :: int
  wm_removed_at :: "int option"
  wm_activated_at :: "int option"
  wm_activated_by :: "string option"

record pref_row =
  up_user_id :: string
  up_workspace_id :: string
  up_operating_mode :: string
  up_updated_at :: int

record audit_row =
  al_id :: nat
  al_actor_user_id :: string
  al_action :: string
  al_target_type :: string
  al_target_id :: string
  al_workspace_id :: string
  al_reason :: string
  al_causation_id :: "string option"
  al_metadata :: json

record authority_db =
  db_entitlements :: "entitlement_row list"
  db_members :: "member_row list"
  db_prefs :: "pref_row list"
  db_audit :: "audit_row list"
  db_audit_seq :: nat

definition PRODUCT_APP_ID :: string where
  "PRODUCT_APP_ID = ''xlooop-product''"

definition strip_quotes :: "string \<Rightarrow> string" where
  "strip_quotes s =
     (let a = (case s of [] \<Rightarrow> [] | c # cs \<Rightarrow> if c = CHR 0x22 then cs else s)
      in if a \<noteq> [] \<and> last a = CHR 0x22 then butlast a else a)"

definition asStringArray :: "pg_array \<Rightarrow> string list" where
  "asStringArray v =
     (case v of
        Pg_list xs \<Rightarrow> xs
      | Pg_text s \<Rightarrow>
          if js_starts_with s ''{'' \<and> js_ends_with s ''}''
          then non_empty (map (\<lambda>w. strip_quotes (js_trim w)) (js_split (CHR '','') (butlast (tl s))))
          else []
      | Pg_other \<Rightarrow> [])"

definition toIsoOrNull :: "timestamp option \<Rightarrow> timestamp option" where
  "toIsoOrNull v =
     (case v of
        None \<Rightarrow> None
      | Some (At t) \<Rightarrow> Some (At t)
      | Some (Unparsable s) \<Rightarrow> if js_trim s = [] then None else Some (Unparsable (js_trim s)))"

definition toAppEntitlement :: "entitlement_row \<Rightarrow> app_entitlement" where
  "toAppEntitlement r =
     \<lparr>ent_app_id = App_xlooop,
      ent_status = (if ce_revoked_at r \<noteq> None then Ent_revoked else Ent_active),
      ent_enabled_by = ''customer_entitlements'',
      ent_authority_ref = coalesce (ce_authority_ref r) [],
      ent_risk_lane = ''customer-internal'',
      ent_expires_at = toIsoOrNull (ce_expires_at r),
      ent_review_due = toIsoOrNull (ce_review_due r),
      ent_allowed_modes = asStringArray (ce_allowed_modes r),
      ent_allowed_actions = asStringArray (ce_allowed_actions r),
      ent_denied_actions = asStringArray (ce_denied_actions r)\<rparr>"

definition live_member :: "member_row list \<Rightarrow> string \<Rightarrow> string \<Rightarrow> bool" where
  "live_member ms u w =
     (\<exists>m \<in> set ms. wm_user_id m = u \<and> wm_workspace_id m = w \<and> wm_removed_at m = None \<and>
                   wm_status m = ''active'')"

text \<open>\<^verbatim>\<open>ORDER BY granted_at DESC NULLS LAST LIMIT 1\<close>; among equal keys the earlier row is taken.\<close>

fun granted_before :: "int option \<Rightarrow> int option \<Rightarrow> bool" where
  "granted_before None None = False"
| "granted_before None (Some _) = True"
| "granted_before (Some _) None = False"
| "granted_before (Some a) (Some b) = (a < b)"

fun latest_grant :: "entitlement_row list \<Rightarrow> entitlement_row option" where
  "latest_grant [] = None"
| "latest_grant (r # rs) =
     (case latest_grant rs of
        None \<Rightarrow> Some r
      | Some b \<Rightarrow> if granted_before (ce_granted_at r) (ce_granted_at b) then Some b else Some r)"

definition entitlement_candidates :: "authority_db \<Rightarrow> string \<Rightarrow> string \<Rightarrow> entitlement_row list" where
  "entitlement_candidates db u w =
     filter (\<lambda>r. ce_user_id r = u \<and> ce_workspace_id r = w \<and> ce_app_id r = PRODUCT_APP_ID \<and>
                 live_member (db_members db) u w) (db_entitlements db)"

definition getAppEntitlementRow ::
  "bool \<Rightarrow> authority_db \<Rightarrow> string option \<Rightarrow> string option \<Rightarrow> app_entitlement option" where
  "getAppEntitlementRow up db u w =
     (if \<not> truthy u \<or> \<not> truthy w then None
      else if \<not> up then None
      else map_option toAppEntitlement
             (latest_grant (entitlement_candidates db (coalesce u []) (coalesce w []))))"

lemma latest_grant_in: "latest_grant rs = Some r \<Longrightarrow> r \<in> set rs"
  by (induction rs arbitrary: r) (auto split: option.splits if_splits)

lemma latest_grant_None [simp]: "latest_grant rs = None \<longleftrightarrow> rs = []"
  by (cases rs) (auto split: option.splits)

lemma getAppEntitlementRow_live:
  assumes "getAppEntitlementRow up db u w = Some e"
  shows "\<exists>uid wid r. u = Some uid \<and> w = Some wid \<and> live_member (db_members db) uid wid \<and>
           r \<in> set (db_entitlements db) \<and> ce_user_id r = uid \<and> ce_workspace_id r = wid \<and>
           e = toAppEntitlement r"
  using assms
  by (auto simp: getAppEntitlementRow_def entitlement_candidates_def truthy_def
      dest!: latest_grant_in split: if_splits option.splits)

section \<open>Principal builders\<close>

definition str_of_opt :: "string option \<Rightarrow> string" where
  "str_of_opt v = (case v of None \<Rightarrow> ''undefined'' | Some s \<Rightarrow> s)"

definition buildPrincipalFromAuthContext ::
  "int \<Rightarrow> auth_context \<Rightarrow> app_entitlement option \<Rightarrow> principal" where
  "buildPrincipalFromAuthContext now a ent =
     \<lparr>pr_schema_version = ''xcp.authenticated_principal.v1'',
      pr_identity_id = au_user_id a, pr_actor_id = au_user_id a,
      pr_email = au_email a,
      pr_display_name =
        (if truthy (au_email a) then Some (email_local (coalesce (au_email a) [])) else au_user_id a),
      pr_identity_source = (if truthy (au_service_principal a) then Service_token else Oidc),
      pr_tenant_id = au_workspace_id a,
      pr_owner_graph_id = ''owner-graph:'' @ str_of_opt (au_workspace_id a),
      pr_memberships =
        [\<lparr>tm_tenant_id = au_workspace_id a, tm_workspace_id = au_workspace_id a,
          tm_role = mapRole (au_role a), tm_permissions = []\<rparr>],
      pr_app_entitlements = (case ent of None \<Rightarrow> [] | Some e \<Rightarrow> [e]),
      pr_permissions = [], pr_session_issued_at = At now,
      pr_session_expires_at = au_token_expires_at a, pr_assurance_level = Medium\<rparr>"

definition resolvePrincipal :: "bool \<Rightarrow> authority_db \<Rightarrow> int \<Rightarrow> auth_context \<Rightarrow> principal" where
  "resolvePrincipal up db now a =
     buildPrincipalFromAuthContext now a (getAppEntitlementRow up db (au_user_id a) (au_workspace_id a))"

definition CUSTOMER_TOKEN_ALLOWED_ACTIONS :: "string list" where
  "CUSTOMER_TOKEN_ALLOWED_ACTIONS =
     [''packet:create'', ''evidence:submit'', ''approval:request'', ''tool_event:report'',
      ''metric_delta:record'']"

definition CUSTOMER_TOKEN_DENIED_ACTIONS :: "string list" where
  "CUSTOMER_TOKEN_DENIED_ACTIONS =
     [''signoff:decide'', ''approval:decide'', ''authority:revoke'', ''customer_data:delete'']"

definition buildCustomerTokenPrincipal :: "int \<Rightarrow> auth_context \<Rightarrow> principal" where
  "buildCustomerTokenPrincipal now a =
     (let operational = (au_role a = Some ''operator'')
      in buildPrincipalFromAuthContext now a
           (Some \<lparr>ent_app_id = App_xlooop, ent_status = Ent_active,
                  ent_enabled_by = ''customer_token_issuance'',
                  ent_authority_ref = ''customer-token:'' @ str_of_opt (au_user_id a),
                  ent_risk_lane = ''customer-agent'',
                  ent_expires_at = au_token_expires_at a, ent_review_due = None,
                  ent_allowed_modes = (if operational then [''operator''] else [''watch'']),
                  ent_allowed_actions = (if operational then CUSTOMER_TOKEN_ALLOWED_ACTIONS else []),
                  ent_denied_actions = CUSTOMER_TOKEN_DENIED_ACTIONS\<rparr>))"

datatype demo_error = Refusing_to_fabricate

definition buildDemoPrincipalFromRole :: "int \<Rightarrow> auth_context \<Rightarrow> bool \<Rightarrow> demo_error + principal" where
  "buildDemoPrincipalFromRole now a devFallbackEnabled =
     (if \<not> devFallbackEnabled then Inl Refusing_to_fabricate
      else Inr (buildPrincipalFromAuthContext now a
             (Some \<lparr>ent_app_id = App_xlooop, ent_status = Ent_active,
                    ent_enabled_by = ''DEV_FALLBACK_role_derived'', ent_authority_ref = ''dev-fallback'',
                    ent_risk_lane = ''dev'', ent_expires_at = None, ent_review_due = None,
                    ent_allowed_modes = modesForRole (au_role a), ent_allowed_actions = [''*''],
                    ent_denied_actions = []\<rparr>)))"

lemma buildPrincipalFromAuthContext_sel [simp]:
  "pr_session_expires_at (buildPrincipalFromAuthContext now a ent) = au_token_expires_at a"
  "pr_app_entitlements (buildPrincipalFromAuthContext now a ent) = (case ent of None \<Rightarrow> [] | Some e \<Rightarrow> [e])"
  by (simp_all add: buildPrincipalFromAuthContext_def)

lemma findAppEntitlement_hydrated:
  "findAppEntitlement (buildPrincipalFromAuthContext now a ent) app =
     (case ent of None \<Rightarrow> None | Some e \<Rightarrow> if ent_app_id e = app then Some e else None)"
  by (auto simp: findAppEntitlement_def split: option.splits)

section \<open>The operating-mode store\<close>

definition isOperatingMode :: "string option \<Rightarrow> operating_mode option" where
  "isOperatingMode v =
     (if v = Some ''watch'' then Some Watch
      else if v = Some ''test'' then Some Test
      else if v = Some ''operator'' then Some Operator
      else None)"

definition pref_lookup :: "pref_row list \<Rightarrow> string \<Rightarrow> string \<Rightarrow> pref_row option" where
  "pref_lookup ps u w = find (\<lambda>p. up_user_id p = u \<and> up_workspace_id p = w) ps"

definition getOperatingModeRow :: "bool \<Rightarrow> authority_db \<Rightarrow> string \<Rightarrow> string \<Rightarrow> operating_mode" where
  "getOperatingModeRow up db u w =
     (if u = [] \<or> w = [] then Watch
      else if \<not> up then Watch
      else (case isOperatingMode (map_option up_operating_mode (pref_lookup (db_prefs db) u w)) of
              None \<Rightarrow> Watch | Some m \<Rightarrow> m))"

text \<open>\<^verbatim>\<open>INSERT ... ON CONFLICT (user_id, workspace_id) DO UPDATE\<close> on the preference table.\<close>

definition upsert_pref :: "pref_row \<Rightarrow> pref_row list \<Rightarrow> pref_row list" where
  "upsert_pref r ps =
     (if pref_lookup ps (up_user_id r) (up_workspace_id r) = None then ps @ [r]
      else map (\<lambda>p. if up_user_id p = up_user_id r \<and> up_workspace_id p = up_workspace_id r
                    then p\<lparr>up_operating_mode := up_operating_mode r, up_updated_at := up_updated_at r\<rparr>
                    else p) ps)"

record mode_receipt =
  mr_operating_mode :: operating_mode
  mr_session_mode_revision_id :: string
  mr_audit_event_id :: string

definition setOperatingModeRow ::
  "(int \<Rightarrow> string) \<Rightarrow> int \<Rightarrow> authority_db \<Rightarrow> string \<Rightarrow> string \<Rightarrow> operating_mode \<Rightarrow> string
     \<Rightarrow> authority_db \<times> mode_receipt" where
  "setOperatingModeRow to_char now db u w m actor =
     (let aid = db_audit_seq db;
          db' = db\<lparr>db_prefs := upsert_pref \<lparr>up_user_id = u, up_workspace_id = w,
                                    up_operating_mode = mode_str m, up_updated_at = now\<rparr> (db_prefs db),
                   db_audit := db_audit db @
                     [\<lparr>al_id = aid, al_actor_user_id = actor, al_action = ''operating_mode_change'',
                       al_target_type = ''session'', al_target_id = u, al_workspace_id = w,
                       al_reason = ''mode -> '' @ mode_str m, al_causation_id = None, al_metadata = JNull\<rparr>],
                   db_audit_seq := Suc aid\<rparr>
      in (db', \<lparr>mr_operating_mode = m,
                mr_session_mode_revision_id =
                  ''session-mode:'' @ u @ '':'' @ w @ '':'' @ to_char now,
                mr_audit_event_id = show_nat aid\<rparr>))"

lemma isOperatingMode_mode_str [simp]: "isOperatingMode (Some (mode_str m)) = Some m"
  by (cases m) (simp_all add: isOperatingMode_def)

lemma find_append_last: "find P xs = None \<Longrightarrow> P y \<Longrightarrow> find P (xs @ [y]) = Some y"
  by (induction xs) (auto split: if_splits)

lemma find_map_same:
  assumes "\<And>x. P (f x) = P x"
  shows "find P (map f xs) = map_option f (find P xs)"
  using assms by (induction xs) auto

lemma find_cong_map:
  assumes "\<And>x. P x \<Longrightarrow> f x = x" and "\<And>x. P (f x) = P x"
  shows "find P (map f xs) = find P xs"
  using assms by (induction xs) auto

lemma pref_lookup_upsert_same:
  "map_option up_operating_mode (pref_lookup (upsert_pref r ps) (up_user_id r) (up_workspace_id r)) =
     Some (up_operating_mode r)"
proof (cases "pref_lookup ps (up_user_id r) (up_workspace_id r)")
  case None
  then show ?thesis
    by (simp add: upsert_pref_def) (simp add: pref_lookup_def find_append_last)
next
  case (Some p)
  then have "up_user_id p = up_user_id r \<and> up_workspace_id p = up_workspace_id r"
    by (auto simp: pref_lookup_def dest: find_Some_in)
  with Some show ?thesis
    by (simp add: upsert_pref_def) (simp add: pref_lookup_def find_map_same)
qed

lemma find_append_other: "\<not> P y \<Longrightarrow> find P (xs @ [y]) = find P xs"
  by (induction xs) auto

lemma pref_lookup_upsert_other:
  "(u, w) \<noteq> (up_user_id r, up_workspace_id r) \<Longrightarrow>
     pref_lookup (upsert_pref r ps) u w = pref_lookup ps u w"
  by (auto simp: upsert_pref_def pref_lookup_def intro!: find_cong_map find_append_other)

section \<open>Properties of the identity layer\<close>

text \<open>
  A mode flip is read back: after \<open>setOperatingModeRow\<close> the store answers the mode that was
  written for that user and workspace, every other (user, workspace) pair reads as before, and
  exactly one audit row, carrying the receipt's id, is appended.
\<close>

theorem setOperatingMode_roundtrip:
  assumes "u \<noteq> []" and "w \<noteq> []"
    and "setOperatingModeRow tc now db u w m actor = (db', rc)"
  shows "getOperatingModeRow True db' u w = m \<and> mr_operating_mode rc = m \<and>
    (\<forall>u' w'. (u', w') = (u, w) \<or> getOperatingModeRow True db' u' w' = getOperatingModeRow True db u' w') \<and>
    (\<exists>r. db_audit db' = db_audit db @ [r] \<and> show_nat (al_id r) = mr_audit_event_id rc \<and>
         al_target_id r = u \<and> al_workspace_id r = w \<and> al_actor_user_id r = actor)"
proof -
  from assms(3) have db': "db_prefs db' = upsert_pref \<lparr>up_user_id = u, up_workspace_id = w,
      up_operating_mode = mode_str m, up_updated_at = now\<rparr> (db_prefs db)"
    and rest: "mr_operating_mode rc = m"
      "\<exists>r. db_audit db' = db_audit db @ [r] \<and> show_nat (al_id r) = mr_audit_event_id rc \<and>
         al_target_id r = u \<and> al_workspace_id r = w \<and> al_actor_user_id r = actor"
    by (auto simp: setOperatingModeRow_def Let_def)
  have "map_option up_operating_mode (pref_lookup (db_prefs db') u w) = Some (mode_str m)"
    unfolding db' using pref_lookup_upsert_same
      [of "\<lparr>up_user_id = u, up_workspace_id = w, up_operating_mode = mode_str m, up_updated_at = now\<rparr>"]
    by auto
  then have same: "getOperatingModeRow True db' u w = m"
    unfolding getOperatingModeRow_def using assms(1,2) by (metis isOperatingMode_mode_str option.simps(5))
  have other: "(u', w') = (u, w) \<or> getOperatingModeRow True db' u' w' = getOperatingModeRow True db u' w'" for u' w'
    by (cases "(u', w') = (u, w)") (simp_all add: getOperatingModeRow_def db' pref_lookup_upsert_other)
  show ?thesis using same rest other by blast
qed

definition empty_authority_db :: authority_db where
  "empty_authority_db = \<lparr>db_entitlements = [], db_members = [], db_prefs = [], db_audit = [], db_audit_seq = 0\<rparr>"

theorem setOperatingMode_roundtrip_witness:
  "getOperatingModeRow True
     (fst (setOperatingModeRow (\<lambda>_. []) 5 empty_authority_db ''u1'' ''w1'' Operator ''u1'')) ''u1'' ''w1'' = Operator"
  using setOperatingMode_roundtrip [of "''u1''" "''w1''" "\<lambda>_. []" 5 empty_authority_db Operator "''u1''"
      "fst (setOperatingModeRow (\<lambda>_. []) 5 empty_authority_db ''u1'' ''w1'' Operator ''u1'')"
      "snd (setOperatingModeRow (\<lambda>_. []) 5 empty_authority_db ''u1'' ''w1'' Operator ''u1'')"]
  by simp

end
