(* ===== verification/Permissions.thy ===== *)
theory Permissions
  imports Identity
begin

text \<open>
  The RBAC single source of truth, \<^verbatim>\<open>lib/permissions.ts\<close>: the legacy role gates, the MB-P
  operator identity, and the canonical entitlement-backed decision \<open>canActOnSpine\<close>, together
  with \<^verbatim>\<open>lib/env-flag.ts\<close>.

  The locale \<open>spine_decider\<close> is the contract every decision procedure for governed writes
  offers to its consumers (enforcement, projection, workspace gates): a decision is positive
  exactly when its reason is \<open>Active_entitlement\<close>. It is interpreted below on the canonical
  procedure and, in \<open>Spine_Authority\<close>, on the legacy one and on the enforcement entry point.
\<close>

section \<open>Feature flags\<close>

definition is_quote :: "char \<Rightarrow> bool" where
  "is_quote c = (c = CHR 0x22 \<or> c = CHR 0x27)"

text \<open>\<^verbatim>\<open>.replace(/^['"]+|['"]+$/g, '')\<close>: both runs of quotes are removed.\<close>

definition strip_quote_runs :: "string \<Rightarrow> string" where
  "strip_quote_runs s = rev (dropWhile is_quote (rev (dropWhile is_quote s)))"

definition envFlagTrue :: "string option \<Rightarrow> bool" where
  "envFlagTrue v = (js_lower (js_trim (strip_quote_runs (js_trim (coalesce v [])))) = ''true'')"

section \<open>Legacy role gates and operator identity\<close>

definition canWrite :: "string option \<Rightarrow> bool" where
  "canWrite role = (role = Some ''owner'' \<or> role = Some ''operator'')"

definition isOperatorRole :: "string option \<Rightarrow> bool" where
  "isOperatorRole role = (role = Some ''owner'' \<or> role = Some ''operator'')"

record operator_env =
  env_MBP_OWNER_USER_ID :: "string option"
  env_MBP_OWNER_LINKED_USER_IDS :: "string option"

definition operatorIds :: "operator_env option \<Rightarrow> string \<times> string list" where
  "operatorIds env =
     (let ownerUserId = js_trim (or_else (Option.bind env env_MBP_OWNER_USER_ID) []);
          linked = non_empty (map js_trim
            (js_split (CHR '','') (or_else (Option.bind env env_MBP_OWNER_LINKED_USER_IDS) [])))
      in (ownerUserId, non_empty (ownerUserId # linked)))"

definition isMbpOperator :: "string option \<Rightarrow> operator_env option \<Rightarrow> bool" where
  "isMbpOperator userId env =
     (if \<not> truthy userId then False else coalesce userId [] \<in> set (snd (operatorIds env)))"

definition isOperatorContext :: "auth_context \<Rightarrow> operator_env option \<Rightarrow> bool" where
  "isOperatorContext auth env = (isOperatorRole (au_role auth) \<or> isMbpOperator (au_user_id auth) env)"

lemma operatorIds_non_empty: "[] \<notin> set (snd (operatorIds env))"
  by (simp add: operatorIds_def Let_def non_empty_def)

section \<open>Governed actions and decisions\<close>

datatype spine_action =
    Packet_create
  | Evidence_submit
  | Approval_request
  | Approval_decide
  | Tool_event_report
  | Metric_delta_record
  | Customer_data_export
  | Customer_data_delete
  | Customer_data_execute
  | Authority_revoke
  | Member_invite
  | Token_create
  | Token_read
  | Signoff_decide
  | Event_ingest
  | Event_self_service
  | Policy_write
  | Runtime_configure

fun action_str :: "spine_action \<Rightarrow> string" where
  "action_str Packet_create = ''packet:create''"
| "action_str Evidence_submit = ''evidence:submit''"
| "action_str Approval_request = ''approval:request''"
| "action_str Approval_decide = ''approval:decide''"
| "action_str Tool_event_report = ''tool_event:report''"
| "action_str Metric_delta_record = ''metric_delta:record''"
| "action_str Customer_data_export = ''customer_data:export''"
| "action_str Customer_data_delete = ''customer_data:delete''"
| "action_str Customer_data_execute = ''customer_data:execute''"
| "action_str Authority_revoke = ''authority:revoke''"
| "action_str Member_invite = ''member:invite''"
| "action_str Token_create = ''token:create''"
| "action_str Token_read = ''token:read''"
| "action_str Signoff_decide = ''signoff:decide''"
| "action_str Event_ingest = ''event:ingest''"
| "action_str Event_self_service = ''event:self_service''"
| "action_str Policy_write = ''policy:write''"
| "action_str Runtime_configure = ''runtime:configure''"

record spine_write_decision =
  sd_allowed :: bool
  sd_reason :: decision_reason

definition actionMatches :: "string list \<Rightarrow> spine_action \<Rightarrow> bool" where
  "actionMatches xs a = (''*'' \<in> set xs \<or> action_str a \<in> set xs)"

definition canActOnSpine ::
  "principal \<Rightarrow> xcp_app_id \<Rightarrow> operating_mode \<Rightarrow> spine_action \<Rightarrow> int \<Rightarrow> spine_write_decision" where
  "canActOnSpine p app m a now =
     (if m \<noteq> Operator then \<lparr>sd_allowed = False, sd_reason = Mode_requires_operator\<rparr>
      else (let d = evaluateAppAccess p app Operator now
            in case (acc_allowed d, acc_entitlement d) of
                 (True, Some e) \<Rightarrow>
                   if actionMatches (ent_denied_actions e) a
                   then \<lparr>sd_allowed = False, sd_reason = Action_denied\<rparr>
                   else if \<not> actionMatches (ent_allowed_actions e) a
                   then \<lparr>sd_allowed = False, sd_reason = Action_not_allowed\<rparr>
                   else \<lparr>sd_allowed = True, sd_reason = Active_entitlement\<rparr>
               | _ \<Rightarrow> \<lparr>sd_allowed = False, sd_reason = acc_reason d\<rparr>))"

section \<open>The contract of a decision procedure\<close>

locale spine_decider =
  fixes decide :: "'c \<Rightarrow> spine_action \<Rightarrow> spine_write_decision"
  assumes reason_iff: "sd_allowed (decide c a) \<longleftrightarrow> sd_reason (decide c a) = Active_entitlement"
begin

lemma decision_ext:
  "sd_reason (decide c a) = sd_reason (decide c' a') \<Longrightarrow> sd_allowed (decide c a) = sd_allowed (decide c' a')"
  by (simp add: reason_iff)

lemma denied_reason: "\<not> sd_allowed (decide c a) \<Longrightarrow> sd_reason (decide c a) \<noteq> Active_entitlement"
  by (simp add: reason_iff)

end

lemma canActOnSpine_cases:
  "canActOnSpine p app m a now =
     (if m \<noteq> Operator then \<lparr>sd_allowed = False, sd_reason = Mode_requires_operator\<rparr>
      else if session_expired p now then \<lparr>sd_allowed = False, sd_reason = Session_expired\<rparr>
      else (case findAppEntitlement p app of
              None \<Rightarrow> \<lparr>sd_allowed = False, sd_reason = Missing_entitlement\<rparr>
            | Some e \<Rightarrow>
                if ent_status e \<noteq> Ent_active
                then \<lparr>sd_allowed = False, sd_reason = Entitlement_not_active\<rparr>
                else if ''operator'' \<notin> set (ent_allowed_modes e)
                then \<lparr>sd_allowed = False, sd_reason = Mode_not_allowed\<rparr>
                else if actionMatches (ent_denied_actions e) a
                then \<lparr>sd_allowed = False, sd_reason = Action_denied\<rparr>
                else if \<not> actionMatches (ent_allowed_actions e) a
                then \<lparr>sd_allowed = False, sd_reason = Action_not_allowed\<rparr>
                else \<lparr>sd_allowed = True, sd_reason = Active_entitlement\<rparr>))"
  by (auto simp: canActOnSpine_def evaluateAppAccess_def Let_def split: option.splits)

interpretation canonical: spine_decider "\<lambda>(p, app, m, now) a. canActOnSpine p app m a now"
  by unfold_locales (auto simp: canActOnSpine_cases split: option.splits if_splits)

lemma canActOnSpine_allowed:
  "sd_allowed (canActOnSpine p app m a now) \<longleftrightarrow>
     m = Operator \<and> \<not> session_expired p now \<and>
     (\<exists>e. findAppEntitlement p app = Some e \<and> ent_status e = Ent_active \<and>
          ''operator'' \<in> set (ent_allowed_modes e) \<and>
          ''*'' \<notin> set (ent_denied_actions e) \<and> action_str a \<notin> set (ent_denied_actions e) \<and>
          (''*'' \<in> set (ent_allowed_actions e) \<or> action_str a \<in> set (ent_allowed_actions e)))"
  by (auto simp: canActOnSpine_cases actionMatches_def split: option.splits)

section \<open>Properties of the canonical decision\<close>

text \<open>The checks of the decision in the order in which they are reported: each with the reason its failure carries.\<close>

definition entitled :: "principal \<Rightarrow> xcp_app_id \<Rightarrow> (app_entitlement \<Rightarrow> bool) \<Rightarrow> bool" where
  "entitled p app P \<longleftrightarrow> (\<exists>e. findAppEntitlement p app = Some e \<and> P e)"

definition write_checks ::
  "principal \<Rightarrow> xcp_app_id \<Rightarrow> operating_mode \<Rightarrow> spine_action \<Rightarrow> int \<Rightarrow> (bool \<times> decision_reason) list" where
  "write_checks p app m a now =
     [(m = Operator, Mode_requires_operator),
      (\<not> session_expired p now, Session_expired),
      (entitled p app (\<lambda>e. True), Missing_entitlement),
      (entitled p app (\<lambda>e. ent_status e = Ent_active), Entitlement_not_active),
      (entitled p app (\<lambda>e. ''operator'' \<in> set (ent_allowed_modes e)), Mode_not_allowed),
      (entitled p app (\<lambda>e. ''*'' \<notin> set (ent_denied_actions e) \<and> action_str a \<notin> set (ent_denied_actions e)), Action_denied),
      (entitled p app (\<lambda>e. ''*'' \<in> set (ent_allowed_actions e) \<or> action_str a \<in> set (ent_allowed_actions e)), Action_not_allowed)]"

text \<open>
  C1. The canonical governed-write decision is exactly entitlement + mode + action, with its reason: the session is in operator
  mode and unexpired, the first entitlement for the app exists, is active, lists the operator mode, does not deny the action (by
  name or wildcard) and does allow it (by name or wildcard). A write is allowed iff all seven checks hold, and otherwise the
  reason is that of the first check, in this order, that fails. No role string enters the decision.
\<close>

theorem canActOnSpine_iff:
  "canActOnSpine p app m a now =
     (case find (\<lambda>c. \<not> fst c) (write_checks p app m a now) of
        None \<Rightarrow> \<lparr>sd_allowed = True, sd_reason = Active_entitlement\<rparr>
      | Some c \<Rightarrow> \<lparr>sd_allowed = False, sd_reason = snd c\<rparr>)"
proof (cases "findAppEntitlement p app")
  case None
  then show ?thesis by (simp add: canActOnSpine_cases write_checks_def entitled_def)
next
  case (Some e)
  then show ?thesis by (simp add: canActOnSpine_cases write_checks_def entitled_def actionMatches_def)
qed

text \<open>
  Deny wins: once the entitlement the access check selects denies the action (by name or by
  the wildcard), no allow list, mode or instant makes the write allowed, and when everything
  else passes the reported reason is \<open>Action_denied\<close>.
\<close>

theorem canActOnSpine_deny_wins:
  assumes "findAppEntitlement p app = Some e"
    and "''*'' \<in> set (ent_denied_actions e) \<or> action_str a \<in> set (ent_denied_actions e)"
  shows "\<not> sd_allowed (canActOnSpine p app m a now) \<and>
    (m = Operator \<and> \<not> session_expired p now \<and> ent_status e = Ent_active \<and>
       ''operator'' \<in> set (ent_allowed_modes e) \<longrightarrow>
     sd_reason (canActOnSpine p app m a now) = Action_denied)"
  using assms by (auto simp: canActOnSpine_cases actionMatches_def)

definition wildcard_entitlement :: app_entitlement where
  "wildcard_entitlement =
     \<lparr>ent_app_id = App_xlooop, ent_status = Ent_active, ent_enabled_by = ''test'',
      ent_authority_ref = ''test'', ent_risk_lane = ''test'', ent_expires_at = None,
      ent_review_due = None, ent_allowed_modes = [''watch'', ''operator''],
      ent_allowed_actions = [''*''], ent_denied_actions = [''signoff:decide'']\<rparr>"

theorem canActOnSpine_deny_wins_witness:
  "sd_reason (canActOnSpine (buildPrincipalFromAuthContext 0 empty_auth (Some wildcard_entitlement))
      App_xlooop Operator Signoff_decide 0) = Action_denied"
  using canActOnSpine_deny_wins
    [of "buildPrincipalFromAuthContext 0 empty_auth (Some wildcard_entitlement)" App_xlooop
        wildcard_entitlement Signoff_decide Operator 0]
  by (simp add: findAppEntitlement_hydrated wildcard_entitlement_def session_expired_def empty_auth_def)

end
