(* ===== verification/Spine_Authority.thy ===== *)
theory Spine_Authority
  imports Permissions
begin

text \<open>
  The flag-gated governed-write authority, \<^verbatim>\<open>lib/spine-authority.ts\<close>, with its consumer the
  customer-workspace gate, \<^verbatim>\<open>lib/workspace-gates.ts\<close>, and the operator workspace scope,
  \<^verbatim>\<open>lib/operator-workspace-scope.ts\<close>.

  \<open>spine_ctx\<close> is what the functions read from the Hono context: the enforcement flag, the
  verified auth context, the authority tables, whether the two reads answer, and the clock.
  The console warning of a denial and the call of the role/skill shadow observer are the
  values of \<open>spine_effect\<close> returned beside the decision.
\<close>

section \<open>Context, actions and the flag\<close>

definition SPINE_ACTIONS :: "spine_action list" where
  "SPINE_ACTIONS =
     [Packet_create, Evidence_submit, Approval_request, Approval_decide, Tool_event_report,
      Metric_delta_record, Customer_data_export, Customer_data_delete, Customer_data_execute,
      Authority_revoke, Member_invite, Token_create, Token_read, Signoff_decide,
      Event_ingest, Event_self_service, Policy_write, Runtime_configure]"

lemma SPINE_ACTIONS_complete: "a \<in> set SPINE_ACTIONS"
  by (cases a) (simp_all add: SPINE_ACTIONS_def)

lemma SPINE_ACTIONS_distinct: "distinct SPINE_ACTIONS"
  by (simp add: SPINE_ACTIONS_def)

record spine_ctx =
  sc_ENTITLEMENT_ENFORCEMENT :: "string option"
  sc_auth :: "auth_context option"
  sc_db :: authority_db
  sc_mode_read_up :: bool
  sc_ent_read_up :: bool
  sc_now :: int

definition entitlementEnforcementOn :: "string option \<Rightarrow> bool" where
  "entitlementEnforcementOn v = (js_lower (or_else v ''off'') = ''on'')"

definition legacyDecision :: "auth_context option \<Rightarrow> spine_write_decision" where
  "legacyDecision auth =
     (if canWrite (Option.bind auth au_role)
      then \<lparr>sd_allowed = True, sd_reason = Active_entitlement\<rparr>
      else \<lparr>sd_allowed = False, sd_reason = Mode_not_allowed\<rparr>)"

definition resolveEnforcement ::
  "spine_ctx \<Rightarrow> auth_context \<Rightarrow> operating_mode option \<Rightarrow> operating_mode \<times> principal" where
  "resolveEnforcement ctx auth presetMode =
     ((case presetMode of
         Some m \<Rightarrow> m
       | None \<Rightarrow> getOperatingModeRow (sc_mode_read_up ctx) (sc_db ctx)
                   (or_else (au_user_id auth) []) (or_else (au_workspace_id auth) [])),
      resolvePrincipal (sc_ent_read_up ctx) (sc_db ctx) (sc_now ctx) auth)"

section \<open>Enforcement\<close>

record observe_meta =
  om_action :: spine_action
  om_role :: string
  om_mode :: operating_mode
  om_workspace_id :: string
  om_principal_id :: string
  om_service_principal :: bool

datatype spine_effect =
    Deny_warned spine_action decision_reason "string option" "string option" bool
  | Role_skill_observed spine_write_decision observe_meta

definition is_platform_service :: "auth_context option \<Rightarrow> bool" where
  "is_platform_service auth =
     (truthy (Option.bind auth au_service_principal) \<and>
      Option.bind auth au_service_principal \<noteq> Some ''customer_token'')"

definition deny_warning ::
  "auth_context option \<Rightarrow> spine_action \<Rightarrow> spine_write_decision \<Rightarrow> bool \<Rightarrow> spine_effect list" where
  "deny_warning auth a d customer =
     (if sd_allowed d then []
      else [Deny_warned a (sd_reason d) (Option.bind auth au_user_id) (Option.bind auth au_workspace_id) customer])"

definition authorizeSpineWrite ::
  "spine_ctx \<Rightarrow> spine_action \<Rightarrow> spine_write_decision \<times> spine_effect list" where
  "authorizeSpineWrite ctx a =
     (let auth = sc_auth ctx;
          (d, m, warned) =
            (if \<not> entitlementEnforcementOn (sc_ENTITLEMENT_ENFORCEMENT ctx) \<or> is_platform_service auth
             then (legacyDecision auth, Operator, [])
             else if Option.bind auth au_service_principal = Some ''customer_token''
             then (let tok = the_default empty_auth auth;
                       m = (if au_role tok = Some ''operator'' then Operator else Watch);
                       d = canActOnSpine (buildCustomerTokenPrincipal (sc_now ctx) tok) App_xlooop m a (sc_now ctx)
                   in (d, m, deny_warning auth a d True))
             else (let (m, p) = resolveEnforcement ctx (the_default empty_auth auth) None;
                       d = canActOnSpine p App_xlooop m a (sc_now ctx)
                   in (d, m, deny_warning auth a d False)))
      in (d, warned @
            [Role_skill_observed d
               \<lparr>om_action = a, om_role = coalesce (Option.bind auth au_role) ''unknown'', om_mode = m,
                om_workspace_id = coalesce (Option.bind auth au_workspace_id) [],
                om_principal_id = coalesce (Option.bind auth au_user_id) [],
                om_service_principal = truthy (Option.bind auth au_service_principal)\<rparr>]))"

record governed_write_opts =
  go_adminOverride :: bool
  go_denyServicePrincipals :: bool

definition authorizeGovernedWrite ::
  "spine_ctx \<Rightarrow> spine_action \<Rightarrow> governed_write_opts \<Rightarrow> spine_write_decision \<times> spine_effect list" where
  "authorizeGovernedWrite ctx a opts =
     (if go_denyServicePrincipals opts \<and> truthy (Option.bind (sc_auth ctx) au_service_principal)
      then (\<lparr>sd_allowed = False, sd_reason = Mode_not_allowed\<rparr>, [])
      else if go_adminOverride opts \<and> Option.bind (sc_auth ctx) au_is_admin = Some True
      then (\<lparr>sd_allowed = True, sd_reason = Active_entitlement\<rparr>, [])
      else authorizeSpineWrite ctx a)"

section \<open>Projection\<close>

record spine_authority_envelope =
  env_allowed_actions :: "spine_action list"
  env_disabled_reasons :: "(spine_action \<times> decision_reason) list"
  env_enforced :: bool

definition toEnvelope ::
  "(spine_action \<Rightarrow> spine_write_decision) \<Rightarrow> spine_action list \<times> (spine_action \<times> decision_reason) list" where
  "toEnvelope m =
     (filter (\<lambda>a. sd_allowed (m a)) SPINE_ACTIONS,
      map (\<lambda>a. (a, sd_reason (m a))) (filter (\<lambda>a. \<not> sd_allowed (m a)) SPINE_ACTIONS))"

definition projection_map ::
  "spine_ctx \<Rightarrow> auth_context \<Rightarrow> operating_mode option \<Rightarrow> spine_action \<Rightarrow> spine_write_decision" where
  "projection_map ctx auth presetMode =
     (if \<not> entitlementEnforcementOn (sc_ENTITLEMENT_ENFORCEMENT ctx) \<or> truthy (au_service_principal auth)
      then (\<lambda>a. legacyDecision (Some auth))
      else (let (m, p) = resolveEnforcement ctx auth presetMode
            in (\<lambda>a. canActOnSpine p App_xlooop m a (sc_now ctx))))"

definition projectSpineAuthority ::
  "spine_ctx \<Rightarrow> auth_context option \<Rightarrow> operating_mode option \<Rightarrow> spine_authority_envelope" where
  "projectSpineAuthority ctx optAuth optMode =
     (let auth = (case optAuth of
                    Some x \<Rightarrow> x
                  | None \<Rightarrow> (case sc_auth ctx of Some x \<Rightarrow> x | None \<Rightarrow> empty_auth));
          (al, dis) = toEnvelope (projection_map ctx auth optMode)
      in \<lparr>env_allowed_actions = al, env_disabled_reasons = dis,
          env_enforced = entitlementEnforcementOn (sc_ENTITLEMENT_ENFORCEMENT ctx)\<rparr>)"

section \<open>The customer-workspace gate\<close>

text \<open>
  \<open>getSessionEntitlement\<close> is the DAL call the gate makes; its answer is the entitlement state.
\<close>

record gate_opts =
  gt_governedAction :: "spine_action option"
  gt_deniedMessage :: "string option"

datatype gate_result =
    Gate_ok string
  | Gate_denied int string "string option"

definition gateCustomerWorkspace ::
  "(string option \<Rightarrow> string \<Rightarrow> string option \<Rightarrow> string) \<Rightarrow> spine_ctx \<Rightarrow> gate_opts \<Rightarrow> gate_result" where
  "gateCustomerWorkspace getSessionEntitlement ctx opts =
     (let auth = the_default empty_auth (sc_auth ctx);
          ws = js_trim (or_else (au_workspace_id auth) [])
      in if ws = [] then Gate_denied 403 ''no signed-in workspace'' None
         else (let state = getSessionEntitlement (au_user_id auth) ws (au_email auth)
               in if state \<noteq> ''approved_workspace''
                  then Gate_denied 403 ''workspace is not provisioned for this organization'' (Some state)
                  else (case gt_governedAction opts of
                          None \<Rightarrow> Gate_ok ws
                        | Some a \<Rightarrow>
                            if \<not> sd_allowed (fst (authorizeGovernedWrite ctx a
                                   \<lparr>go_adminOverride = False, go_denyServicePrincipals = False\<rparr>))
                            then Gate_denied 403
                                   (coalesce (gt_deniedMessage opts)
                                      ''this surface requires the workspace owner or an operator'') None
                            else Gate_ok ws)))"

section \<open>The operator workspace scope\<close>

datatype scope_result = Scope_ok string | Scope_forbidden int string

definition resolveScopedWorkspace ::
  "string option \<Rightarrow> string \<Rightarrow> string \<Rightarrow> string option \<Rightarrow> (string \<Rightarrow> string \<Rightarrow> bool) \<Rightarrow>
     (string \<Rightarrow> string \<Rightarrow> bool) \<Rightarrow> bool \<Rightarrow> scope_result" where
  "resolveScopedWorkspace flag authWs userId requested userOwnsWorkspace userCanScopeWorkspace requireOwner =
     (if \<not> envFlagTrue flag then Scope_ok authWs
      else (let want = js_trim (coalesce requested [])
            in if want = [] \<or> want = authWs then Scope_ok authWs
               else if (if requireOwner then userOwnsWorkspace userId want else userCanScopeWorkspace userId want)
               then Scope_ok want
               else Scope_forbidden 403 ''you are not authorized to scope to this workspace''))"


section \<open>The decision procedures meet the contract\<close>

context spine_decider
begin

lemma envelope_allowed: "set (fst (toEnvelope (decide c))) = {a. sd_allowed (decide c a)}"
  by (auto simp: toEnvelope_def SPINE_ACTIONS_complete)

lemma envelope_disabled:
  "set (snd (toEnvelope (decide c))) = {(a, r). \<not> sd_allowed (decide c a) \<and> r = sd_reason (decide c a)}"
  by (auto simp: toEnvelope_def SPINE_ACTIONS_complete)

lemma envelope_reasons_genuine: "(a, r) \<in> set (snd (toEnvelope (decide c))) \<Longrightarrow> r \<noteq> Active_entitlement"
  by (auto simp: envelope_disabled denied_reason)

lemma envelope_keys_distinct:
  "distinct (fst (toEnvelope (decide c)) @ map fst (snd (toEnvelope (decide c))))"
  using SPINE_ACTIONS_distinct by (auto simp: toEnvelope_def comp_def)

end

interpretation legacy: spine_decider "\<lambda>auth a. legacyDecision auth"
  by unfold_locales (simp add: legacyDecision_def)

lemma canActOnSpine_reason_iff:
  "sd_allowed (canActOnSpine p app m a now) \<longleftrightarrow> sd_reason (canActOnSpine p app m a now) = Active_entitlement"
  using canonical.reason_iff [of "(p, app, m, now)" a] by simp

interpretation projected: spine_decider "\<lambda>(ctx, auth, m). projection_map ctx auth m"
  by unfold_locales
    (auto simp: projection_map_def legacyDecision_def canActOnSpine_reason_iff split: prod.splits)

text \<open>The enforced decision, path by path.\<close>

definition enforced_decision :: "spine_ctx \<Rightarrow> spine_action \<Rightarrow> spine_write_decision" where
  "enforced_decision ctx a = fst (authorizeSpineWrite ctx a)"

abbreviation flag_on :: "spine_ctx \<Rightarrow> bool" where
  "flag_on ctx \<equiv> entitlementEnforcementOn (sc_ENTITLEMENT_ENFORCEMENT ctx)"

abbreviation ctx_auth :: "spine_ctx \<Rightarrow> auth_context" where
  "ctx_auth ctx \<equiv> the_default empty_auth (sc_auth ctx)"

abbreviation principal_kind :: "spine_ctx \<Rightarrow> string option" where
  "principal_kind ctx \<equiv> Option.bind (sc_auth ctx) au_service_principal"

lemma enforced_legacy:
  "\<not> flag_on ctx \<or> is_platform_service (sc_auth ctx) \<Longrightarrow> enforced_decision ctx a = legacyDecision (sc_auth ctx)"
  by (auto simp: enforced_decision_def authorizeSpineWrite_def Let_def)

lemma enforced_customer_token:
  assumes "flag_on ctx" and "principal_kind ctx = Some ''customer_token''"
  shows "enforced_decision ctx a =
    canActOnSpine (buildCustomerTokenPrincipal (sc_now ctx) (ctx_auth ctx)) App_xlooop
      (if au_role (ctx_auth ctx) = Some ''operator'' then Operator else Watch) a (sc_now ctx)"
  using assms by (simp add: enforced_decision_def authorizeSpineWrite_def is_platform_service_def Let_def)

lemma enforced_human:
  assumes "flag_on ctx" and "\<not> truthy (principal_kind ctx)"
  shows "enforced_decision ctx a =
    canActOnSpine (resolvePrincipal (sc_ent_read_up ctx) (sc_db ctx) (sc_now ctx) (ctx_auth ctx)) App_xlooop
      (getOperatingModeRow (sc_mode_read_up ctx) (sc_db ctx)
         (or_else (au_user_id (ctx_auth ctx)) []) (or_else (au_workspace_id (ctx_auth ctx)) [])) a (sc_now ctx)"
proof -
  from assms(2) have "principal_kind ctx \<noteq> Some ''customer_token''" by auto
  with assms show ?thesis
    by (simp add: enforced_decision_def authorizeSpineWrite_def is_platform_service_def
        resolveEnforcement_def Let_def)
qed

lemma ctx_principal_cases:
  obtains (platform) "is_platform_service (sc_auth ctx)"
    | (token) "principal_kind ctx = Some ''customer_token''"
    | (human) "\<not> truthy (principal_kind ctx)"
  by (auto simp: is_platform_service_def)

interpretation enforced: spine_decider enforced_decision
proof unfold_locales
  fix ctx a
  show "sd_allowed (enforced_decision ctx a) \<longleftrightarrow> sd_reason (enforced_decision ctx a) = Active_entitlement"
  proof (cases "flag_on ctx")
    case False
    then show ?thesis by (simp add: enforced_legacy legacy.reason_iff)
  next
    case True
    then show ?thesis
      by (cases ctx rule: ctx_principal_cases)
        (simp_all only: enforced_legacy enforced_customer_token enforced_human simp_thms
          legacy.reason_iff canActOnSpine_reason_iff)
  qed
qed

lemma legacyDecision_empty: "legacyDecision None = legacyDecision (Some empty_auth)"
  by (simp add: legacyDecision_def empty_auth_def canWrite_def)

lemma legacyDecision_default: "legacyDecision (Some (ctx_auth ctx)) = legacyDecision (sc_auth ctx)"
  by (cases "sc_auth ctx") (simp_all add: legacyDecision_empty)

lemma ctx_auth_service: "au_service_principal (ctx_auth ctx) = principal_kind ctx"
  by (cases "sc_auth ctx") (simp_all add: empty_auth_def)

lemma projection_is_enforcement:
  assumes "\<not> flag_on ctx \<or> principal_kind ctx \<noteq> Some ''customer_token''"
  shows "projection_map ctx (ctx_auth ctx) None a = enforced_decision ctx a"
proof (cases "flag_on ctx")
  case False
  then show ?thesis by (simp add: projection_map_def enforced_legacy legacyDecision_default)
next
  case on: True
  show ?thesis
  proof (cases ctx rule: ctx_principal_cases)
    case platform
    then have "truthy (au_service_principal (ctx_auth ctx))"
      by (simp add: ctx_auth_service is_platform_service_def)
    with platform show ?thesis by (simp add: projection_map_def enforced_legacy legacyDecision_default)
  next
    case token
    with assms on show ?thesis by simp
  next
    case human
    with on show ?thesis
      by (simp add: projection_map_def ctx_auth_service enforced_human resolveEnforcement_def)
  qed
qed

section \<open>Properties of the authority layer\<close>

text \<open>
  Affordance and enforcement agree: for every caller that is not a customer connector token
  (and for every caller while the flag is off) the envelope projected for the UI lists an action
  as allowed exactly when the write would be authorised, and the reason shown for a disabled
  action is the reason enforcement gives.
\<close>

theorem projection_matches_enforcement:
  assumes "\<not> flag_on ctx \<or> principal_kind ctx \<noteq> Some ''customer_token''"
  shows "(a \<in> set (env_allowed_actions (projectSpineAuthority ctx None None)) \<longleftrightarrow>
          sd_allowed (fst (authorizeSpineWrite ctx a))) \<and>
    ((a, r) \<in> set (env_disabled_reasons (projectSpineAuthority ctx None None)) \<longleftrightarrow>
          \<not> sd_allowed (fst (authorizeSpineWrite ctx a)) \<and> r = sd_reason (fst (authorizeSpineWrite ctx a)))"
proof -
  have "projectSpineAuthority ctx None None =
      \<lparr>env_allowed_actions = fst (toEnvelope (enforced_decision ctx)),
       env_disabled_reasons = snd (toEnvelope (enforced_decision ctx)), env_enforced = flag_on ctx\<rparr>"
  proof -
    have "projection_map ctx (ctx_auth ctx) None = enforced_decision ctx"
      using projection_is_enforcement [OF assms] by (rule ext)
    then show ?thesis
      by (cases "sc_auth ctx") (simp_all add: projectSpineAuthority_def case_prod_unfold Let_def)
  qed
  then show ?thesis
    by (simp add: enforced.envelope_allowed enforced.envelope_disabled) (simp add: enforced_decision_def)
qed

text \<open>
  What a customer connector token may do: with enforcement on, a token principal is
  authorised exactly for the five reporting actions, and only while it carries the operator role
  and has not expired; in particular it never decides, revokes or deletes.
\<close>

theorem customer_token_authority:
  assumes "flag_on ctx" and "principal_kind ctx = Some ''customer_token''"
  shows "sd_allowed (fst (authorizeSpineWrite ctx a)) \<longleftrightarrow>
    au_role (ctx_auth ctx) = Some ''operator'' \<and>
    \<not> (\<exists>ts. au_token_expires_at (ctx_auth ctx) = Some ts \<and> parsed_le ts (sc_now ctx)) \<and>
    a \<in> {Packet_create, Evidence_submit, Approval_request, Tool_event_report, Metric_delta_record}"
proof -
  have acts: "(action_str a \<in> set CUSTOMER_TOKEN_ALLOWED_ACTIONS) =
      (a \<in> {Packet_create, Evidence_submit, Approval_request, Tool_event_report, Metric_delta_record})"
    by (cases a) (simp_all add: CUSTOMER_TOKEN_ALLOWED_ACTIONS_def)
  have dn: "action_str a \<in> set CUSTOMER_TOKEN_ALLOWED_ACTIONS \<Longrightarrow>
      action_str a \<notin> set CUSTOMER_TOKEN_DENIED_ACTIONS"
    by (cases a) (simp_all add: CUSTOMER_TOKEN_ALLOWED_ACTIONS_def CUSTOMER_TOKEN_DENIED_ACTIONS_def)
  have nw: "''*'' \<notin> set CUSTOMER_TOKEN_ALLOWED_ACTIONS" "''*'' \<notin> set CUSTOMER_TOKEN_DENIED_ACTIONS"
    by (simp_all add: CUSTOMER_TOKEN_ALLOWED_ACTIONS_def CUSTOMER_TOKEN_DENIED_ACTIONS_def)
  have "sd_allowed (enforced_decision ctx a) \<longleftrightarrow>
      au_role (ctx_auth ctx) = Some ''operator'' \<and>
      \<not> (\<exists>ts. au_token_expires_at (ctx_auth ctx) = Some ts \<and> parsed_le ts (sc_now ctx)) \<and>
      action_str a \<in> set CUSTOMER_TOKEN_ALLOWED_ACTIONS"
    unfolding enforced_customer_token [OF assms] canActOnSpine_allowed
    using dn nw
    by (auto simp: buildCustomerTokenPrincipal_def findAppEntitlement_hydrated session_expired_def Let_def
        split: option.splits)
  then show ?thesis by (simp add: enforced_decision_def acts)
qed

text \<open>What an allowed human write rests on.\<close>

lemma human_write_needs:
  assumes "flag_on ctx" and "\<not> truthy (principal_kind ctx)" and "sd_allowed (fst (authorizeSpineWrite ctx a))"
  shows "sc_ent_read_up ctx" "sc_mode_read_up ctx"
    "live_member (db_members (sc_db ctx)) (coalesce (au_user_id (ctx_auth ctx)) [])
       (coalesce (au_workspace_id (ctx_auth ctx)) [])"
    "\<exists>r \<in> set (db_entitlements (sc_db ctx)). au_user_id (ctx_auth ctx) = Some (ce_user_id r) \<and>
       au_workspace_id (ctx_auth ctx) = Some (ce_workspace_id r) \<and> ce_app_id r = PRODUCT_APP_ID \<and>
       ''operator'' \<in> set (asStringArray (ce_allowed_modes r))"
proof -
  let ?a = "ctx_auth ctx"
  from assms(3) have "sd_allowed (enforced_decision ctx a)" by (simp add: enforced_decision_def)
  then obtain e where mode: "getOperatingModeRow (sc_mode_read_up ctx) (sc_db ctx)
      (or_else (au_user_id ?a) []) (or_else (au_workspace_id ?a) []) = Operator"
    and ent: "getAppEntitlementRow (sc_ent_read_up ctx) (sc_db ctx) (au_user_id ?a) (au_workspace_id ?a) = Some e"
    and op: "''operator'' \<in> set (ent_allowed_modes e)"
    unfolding enforced_human [OF assms(1,2)] canActOnSpine_allowed
    by (auto simp: resolvePrincipal_def findAppEntitlement_hydrated split: option.splits if_splits)
  from ent show "sc_ent_read_up ctx" by (auto simp: getAppEntitlementRow_def split: if_splits)
  from mode show "sc_mode_read_up ctx" by (auto simp: getOperatingModeRow_def split: if_splits)
  from ent show "live_member (db_members (sc_db ctx)) (coalesce (au_user_id ?a) []) (coalesce (au_workspace_id ?a) [])"
    by (auto dest!: getAppEntitlementRow_live)
  from ent op show "\<exists>r \<in> set (db_entitlements (sc_db ctx)). au_user_id ?a = Some (ce_user_id r) \<and>
       au_workspace_id ?a = Some (ce_workspace_id r) \<and> ce_app_id r = PRODUCT_APP_ID \<and>
       ''operator'' \<in> set (asStringArray (ce_allowed_modes r))"
    by (auto simp: getAppEntitlementRow_def entitlement_candidates_def toAppEntitlement_def truthy_def
        dest!: latest_grant_in split: if_splits option.splits)
qed

text \<open>
  C2. Authority follows live membership and a live grant, and fails closed: with enforcement on, a human caller is allowed a governed
  action exactly when both reads answer, the caller and the workspace are named and the session has not expired, the stored mode is
  operator, the caller is an active, non-removed member of the workspace, and the latest grant of the product there is not revoked,
  lists the operator mode, does not deny the action and allows it. (The expiry column of a grant is carried along and not consulted.)
\<close>

theorem governed_writes_fail_closed:
  assumes "flag_on ctx" and "\<not> truthy (principal_kind ctx)"
  shows "sd_allowed (fst (authorizeSpineWrite ctx a)) \<longleftrightarrow>
    sc_ent_read_up ctx \<and> sc_mode_read_up ctx \<and>
    (\<exists>u w. au_user_id (ctx_auth ctx) = Some u \<and> au_workspace_id (ctx_auth ctx) = Some w \<and> u \<noteq> [] \<and> w \<noteq> [] \<and>
       \<not> (\<exists>ts. au_token_expires_at (ctx_auth ctx) = Some ts \<and> parsed_le ts (sc_now ctx)) \<and>
       map_option up_operating_mode (pref_lookup (db_prefs (sc_db ctx)) u w) = Some ''operator'' \<and>
       live_member (db_members (sc_db ctx)) u w \<and>
       (\<exists>r. latest_grant (filter (\<lambda>r. ce_user_id r = u \<and> ce_workspace_id r = w \<and> ce_app_id r = PRODUCT_APP_ID) (db_entitlements (sc_db ctx))) = Some r \<and>
          ce_revoked_at r = None \<and> ''operator'' \<in> set (asStringArray (ce_allowed_modes r)) \<and>
          ''*'' \<notin> set (asStringArray (ce_denied_actions r)) \<and> action_str a \<notin> set (asStringArray (ce_denied_actions r)) \<and>
          (''*'' \<in> set (asStringArray (ce_allowed_actions r)) \<or> action_str a \<in> set (asStringArray (ce_allowed_actions r)))))"
proof -
  let ?a = "ctx_auth ctx"
  have e: "sd_allowed (fst (authorizeSpineWrite ctx a)) \<longleftrightarrow> sd_allowed (enforced_decision ctx a)" by (simp add: enforced_decision_def)
  show ?thesis
  proof (cases "\<exists>u w. au_user_id ?a = Some u \<and> au_workspace_id ?a = Some w \<and> u \<noteq> [] \<and> w \<noteq> []")
    case False
    then have "getAppEntitlementRow (sc_ent_read_up ctx) (sc_db ctx) (au_user_id ?a) (au_workspace_id ?a) = None"
      by (auto simp: getAppEntitlementRow_def truthy_def split: option.splits)
    then have "\<not> sd_allowed (enforced_decision ctx a)"
      unfolding enforced_human [OF assms] canActOnSpine_allowed resolvePrincipal_def findAppEntitlement_hydrated by simp
    with e False show ?thesis by blast
  next
    case True
    then obtain u w where uw: "au_user_id ?a = Some u" "au_workspace_id ?a = Some w" "u \<noteq> []" "w \<noteq> []" by blast
    have mode: "getOperatingModeRow up (sc_db ctx) (or_else (au_user_id ?a) []) (or_else (au_workspace_id ?a) []) = Operator \<longleftrightarrow>
        up \<and> map_option up_operating_mode (pref_lookup (db_prefs (sc_db ctx)) u w) = Some ''operator''" for up
      using uw by (auto simp: getOperatingModeRow_def or_else_def isOperatingMode_def split: option.splits)
    have cand: "entitlement_candidates (sc_db ctx) u w = (if live_member (db_members (sc_db ctx)) u w
        then filter (\<lambda>r. ce_user_id r = u \<and> ce_workspace_id r = w \<and> ce_app_id r = PRODUCT_APP_ID) (db_entitlements (sc_db ctx)) else [])"
      by (simp add: entitlement_candidates_def)
    have ent: "getAppEntitlementRow up (sc_db ctx) (au_user_id ?a) (au_workspace_id ?a) = Some e \<longleftrightarrow> up \<and> live_member (db_members (sc_db ctx)) u w \<and>
        (\<exists>r. latest_grant (filter (\<lambda>r. ce_user_id r = u \<and> ce_workspace_id r = w \<and> ce_app_id r = PRODUCT_APP_ID) (db_entitlements (sc_db ctx))) = Some r \<and>
           e = toAppEntitlement r)" for up e
      using uw by (auto simp: getAppEntitlementRow_def cand)
    have found: "findAppEntitlement (resolvePrincipal up (sc_db ctx) n ?a) App_xlooop = Some e \<longleftrightarrow>
        getAppEntitlementRow up (sc_db ctx) (au_user_id ?a) (au_workspace_id ?a) = Some e" for up n e
      by (auto simp: resolvePrincipal_def findAppEntitlement_hydrated getAppEntitlementRow_def toAppEntitlement_def split: option.splits if_splits)
    have expired: "session_expired (resolvePrincipal up (sc_db ctx) n ?a) t \<longleftrightarrow> (\<exists>ts. au_token_expires_at ?a = Some ts \<and> parsed_le ts t)" for up n t
      by (simp add: session_expired_def resolvePrincipal_def split: option.split)
    have row: "ent_status (toAppEntitlement r) = Ent_active \<longleftrightarrow> ce_revoked_at r = None"
      "ent_allowed_modes (toAppEntitlement r) = asStringArray (ce_allowed_modes r)"
      "ent_denied_actions (toAppEntitlement r) = asStringArray (ce_denied_actions r)"
      "ent_allowed_actions (toAppEntitlement r) = asStringArray (ce_allowed_actions r)" for r by (simp_all add: toAppEntitlement_def)
    have "sd_allowed (enforced_decision ctx a) \<longleftrightarrow>
      (sc_mode_read_up ctx \<and> map_option up_operating_mode (pref_lookup (db_prefs (sc_db ctx)) u w) = Some ''operator'') \<and>
      \<not> (\<exists>ts. au_token_expires_at ?a = Some ts \<and> parsed_le ts (sc_now ctx)) \<and>
      (\<exists>e. (sc_ent_read_up ctx \<and> live_member (db_members (sc_db ctx)) u w \<and>
        (\<exists>r. latest_grant (filter (\<lambda>r. ce_user_id r = u \<and> ce_workspace_id r = w \<and> ce_app_id r = PRODUCT_APP_ID) (db_entitlements (sc_db ctx))) = Some r \<and>
           e = toAppEntitlement r)) \<and> ent_status e = Ent_active \<and>
          ''operator'' \<in> set (ent_allowed_modes e) \<and>
          ''*'' \<notin> set (ent_denied_actions e) \<and> action_str a \<notin> set (ent_denied_actions e) \<and>
          (''*'' \<in> set (ent_allowed_actions e) \<or> action_str a \<in> set (ent_allowed_actions e)))"
      unfolding enforced_human [OF assms] canActOnSpine_allowed mode found expired ent by (rule refl)
    with e uw show ?thesis by (auto simp: row)
  qed
qed

text \<open>
  The customer-workspace gate admits exactly: a caller with a non-blank verified workspace
  whose session entitlement state is \<open>approved_workspace\<close> and, on a governed surface, whose
  governed write is authorised; the workspace it hands on is the verified one, trimmed.
\<close>

theorem gateCustomerWorkspace_iff:
  "gateCustomerWorkspace ent ctx opts = Gate_ok ws \<longleftrightarrow>
     ws = js_trim (or_else (au_workspace_id (ctx_auth ctx)) []) \<and> ws \<noteq> [] \<and>
     ent (au_user_id (ctx_auth ctx)) ws (au_email (ctx_auth ctx)) = ''approved_workspace'' \<and>
     (case gt_governedAction opts of None \<Rightarrow> True | Some a \<Rightarrow> sd_allowed (fst (authorizeSpineWrite ctx a)))"
  by (auto simp: gateCustomerWorkspace_def authorizeGovernedWrite_def Let_def split: option.splits)

text \<open>
  The workspace override never widens silently: the resolved workspace is the caller's verified
  one, or a different one for which the flag is on and the caller passed the ownership check (for
  writes) or the membership check (for reads); any other request is refused with 403.
\<close>

theorem resolveScopedWorkspace_safe:
  "(case resolveScopedWorkspace flag authWs uid req owns canScope requireOwner of
      Scope_ok w \<Rightarrow> w = authWs \<or>
        (envFlagTrue flag \<and> w = js_trim (coalesce req []) \<and>
         (if requireOwner then owns uid w else canScope uid w))
    | Scope_forbidden st _ \<Rightarrow> st = 403 \<and> envFlagTrue flag \<and>
         \<not> (if requireOwner then owns uid (js_trim (coalesce req [])) else canScope uid (js_trim (coalesce req []))))"
  by (simp add: resolveScopedWorkspace_def Let_def)

section \<open>Witnesses and the customer-token divergence\<close>

definition demo_ctx :: "string option \<Rightarrow> spine_ctx" where
  "demo_ctx sp =
     \<lparr>sc_ENTITLEMENT_ENFORCEMENT = Some ''on'',
      sc_auth = Some (empty_auth\<lparr>au_user_id := Some ''u1'', au_workspace_id := Some ''w1'',
                                au_role := Some ''operator'', au_service_principal := sp\<rparr>),
      sc_db = empty_authority_db, sc_mode_read_up = True, sc_ent_read_up = True, sc_now = 100\<rparr>"

lemma demo_ctx_flag: "flag_on (demo_ctx sp)"
  by (simp add: demo_ctx_def entitlementEnforcementOn_def js_lower_def lower_char_def)

theorem projection_matches_enforcement_witness:
  "Packet_create \<in> set (env_allowed_actions (projectSpineAuthority (demo_ctx (Some ''canary_read'')) None None)) \<longleftrightarrow>
   sd_allowed (fst (authorizeSpineWrite (demo_ctx (Some ''canary_read'')) Packet_create))"
  using projection_matches_enforcement [of "demo_ctx (Some ''canary_read'')" Packet_create Session_expired]
  by (simp add: demo_ctx_def)

theorem customer_token_authority_witness:
  "sd_allowed (fst (authorizeSpineWrite (demo_ctx (Some ''customer_token'')) Evidence_submit)) \<and>
   \<not> sd_allowed (fst (authorizeSpineWrite (demo_ctx (Some ''customer_token'')) Signoff_decide))"
  using customer_token_authority [OF demo_ctx_flag, of "Some ''customer_token''" Evidence_submit]
    customer_token_authority [OF demo_ctx_flag, of "Some ''customer_token''" Signoff_decide]
  by (simp add: demo_ctx_def empty_auth_def)

theorem governed_writes_fail_closed_witness:
  "\<not> sd_allowed (fst (authorizeSpineWrite (demo_ctx None) Packet_create))"
  using governed_writes_fail_closed [OF demo_ctx_flag, of None Packet_create]
  by (simp add: demo_ctx_def empty_authority_db_def live_member_def)

text \<open>
  For customer connector tokens the projection does not follow enforcement: with the flag on,
  an operator-role token is shown every governed action as allowed, sign-off decisions included,
  while the write path refuses sign-off decisions (and everything but the five reporting actions).
\<close>

theorem projection_diverges_for_customer_tokens:
  assumes "flag_on ctx" and "principal_kind ctx = Some ''customer_token''"
    and "au_role (ctx_auth ctx) = Some ''operator''"
  shows "env_allowed_actions (projectSpineAuthority ctx None None) = SPINE_ACTIONS \<and>
    \<not> sd_allowed (fst (authorizeSpineWrite ctx Signoff_decide))"
proof
  have "truthy (au_service_principal (ctx_auth ctx))"
    using assms(2) by (simp add: ctx_auth_service)
  then have "projection_map ctx (ctx_auth ctx) None a = \<lparr>sd_allowed = True, sd_reason = Active_entitlement\<rparr>" for a
    using assms(3) by (simp add: projection_map_def legacyDecision_def canWrite_def)
  then show "env_allowed_actions (projectSpineAuthority ctx None None) = SPINE_ACTIONS"
    by (cases "sc_auth ctx") (simp_all add: projectSpineAuthority_def toEnvelope_def)
  have "\<not> sd_allowed (enforced_decision ctx Signoff_decide)"
    unfolding enforced_customer_token [OF assms(1,2)] canActOnSpine_allowed
    by (auto simp: buildCustomerTokenPrincipal_def findAppEntitlement_hydrated Let_def
        CUSTOMER_TOKEN_DENIED_ACTIONS_def split: if_splits)
  then show "\<not> sd_allowed (fst (authorizeSpineWrite ctx Signoff_decide))"
    by (simp add: enforced_decision_def)
qed

theorem projection_diverges_for_customer_tokens_witness:
  "Signoff_decide \<in> set (env_allowed_actions (projectSpineAuthority (demo_ctx (Some ''customer_token'')) None None)) \<and>
   \<not> sd_allowed (fst (authorizeSpineWrite (demo_ctx (Some ''customer_token'')) Signoff_decide))"
  using projection_diverges_for_customer_tokens [OF demo_ctx_flag, of "Some ''customer_token''"]
  by (simp add: demo_ctx_def SPINE_ACTIONS_complete)

end
