(* ===== verification/Access_Rules.thy ===== *)
theory Access_Rules
  imports Permissions
begin

text \<open>
  The role-derived access rules: the authority projection of \<^verbatim>\<open>lib/allowed-actions.ts\<close>, the
  visibility tiers of \<^verbatim>\<open>dal/visibility.ts\<close>, the context-admissibility states of
  \<^verbatim>\<open>lib/admissibility.ts\<close> and the admin gate of \<^verbatim>\<open>middleware/admin.ts\<close>.

  The rule objects of the matrix are compared by identity in the source, so they are the
  constructors of a datatype here.
\<close>

section \<open>The authority matrix\<close>

datatype resource_kind =
    RK_project | RK_event | RK_project_source | RK_source | RK_member | RK_sign_off
  | RK_api_token | RK_document | RK_workspace | RK_synthetic_domain | RK_model_runtime | RK_current_work

datatype rule = OwnerOnly | OwnerOrOperator | MemberRead | AnyMember | EveryoneRead

definition isOwner :: "auth_context \<Rightarrow> bool" where
  "isOwner a = (au_role a = Some ''owner'')"

definition isOwnerOrOperator :: "auth_context \<Rightarrow> bool" where
  "isOwnerOrOperator a = (au_role a = Some ''owner'' \<or> au_role a = Some ''operator'')"

definition isMemberRole :: "auth_context \<Rightarrow> bool" where
  "isMemberRole a =
     (au_role a = Some ''owner'' \<or> au_role a = Some ''operator'' \<or> au_role a = Some ''viewer'')"

definition isServicePrincipal :: "auth_context \<Rightarrow> bool" where
  "isServicePrincipal a = truthy (au_service_principal a)"

fun rule_allow :: "rule \<Rightarrow> auth_context \<Rightarrow> bool" where
  "rule_allow OwnerOnly a = isOwner a"
| "rule_allow OwnerOrOperator a = (isOwnerOrOperator a \<and> \<not> isServicePrincipal a)"
| "rule_allow MemberRead a = isMemberRole a"
| "rule_allow AnyMember a = (au_role a \<noteq> Some ''client'')"
| "rule_allow EveryoneRead a = True"

fun rule_deny :: "rule \<Rightarrow> string" where
  "rule_deny OwnerOnly = ''requires the workspace owner role''"
| "rule_deny OwnerOrOperator = ''requires the owner or operator role''"
| "rule_deny MemberRead = ''the client role cannot read this resource''"
| "rule_deny AnyMember = ''not permitted for the client role''"
| "rule_deny EveryoneRead = ''unreachable''"

fun MATRIX :: "resource_kind \<Rightarrow> (string \<times> rule) list" where
  "MATRIX RK_project =
     [(''read'', MemberRead), (''create'', OwnerOrOperator), (''edit'', OwnerOrOperator),
      (''archive'', OwnerOrOperator), (''restore'', OwnerOrOperator)]"
| "MATRIX RK_event =
     [(''read'', EveryoneRead), (''create'', OwnerOrOperator), (''status_repoint'', OwnerOrOperator),
      (''archive'', OwnerOrOperator), (''restore'', OwnerOrOperator)]"
| "MATRIX RK_project_source =
     [(''read'', MemberRead), (''connect'', OwnerOrOperator), (''disconnect'', OwnerOrOperator),
      (''reconnect'', OwnerOrOperator)]"
| "MATRIX RK_source =
     [(''read'', AnyMember), (''connect'', OwnerOrOperator), (''disconnect'', OwnerOrOperator),
      (''sync'', OwnerOrOperator)]"
| "MATRIX RK_member =
     [(''read'', MemberRead), (''role_change'', OwnerOnly), (''invite'', OwnerOrOperator)]"
| "MATRIX RK_sign_off = [(''read'', MemberRead), (''create'', OwnerOrOperator)]"
| "MATRIX RK_api_token =
     [(''read'', OwnerOrOperator), (''mint'', OwnerOrOperator), (''revoke'', OwnerOrOperator)]"
| "MATRIX RK_document = [(''read'', AnyMember), (''upload'', AnyMember)]"
| "MATRIX RK_workspace =
     [(''read'', MemberRead), (''create'', OwnerOrOperator), (''edit'', OwnerOrOperator),
      (''archive'', OwnerOrOperator), (''create_project'', OwnerOrOperator)]"
| "MATRIX RK_synthetic_domain =
     [(''read'', MemberRead), (''create'', OwnerOrOperator), (''edit'', OwnerOrOperator),
      (''archive'', OwnerOrOperator), (''refresh_membership'', OwnerOrOperator)]"
| "MATRIX RK_model_runtime =
     [(''read'', MemberRead), (''set'', OwnerOrOperator), (''delete'', OwnerOrOperator),
      (''set_default'', OwnerOrOperator), (''set_override'', AnyMember)]"
| "MATRIX RK_current_work = [(''read'', MemberRead), (''review'', AnyMember)]"

lemma MATRIX_distinct [simp]: "distinct (map fst (MATRIX res))"
  by (cases res) simp_all

section \<open>Projecting authority\<close>

definition SERVICE_PRINCIPAL_WRITE_DENY :: string where
  "SERVICE_PRINCIPAL_WRITE_DENY = ''service-principal tokens are read-only on tenant resources''"

record authority =
  allowed_actions :: "string list"
  disabled_reasons :: "(string \<times> string) list"

definition deny_reason :: "auth_context \<Rightarrow> rule \<Rightarrow> string" where
  "deny_reason auth r =
     (if isServicePrincipal auth \<and> r = OwnerOrOperator then SERVICE_PRINCIPAL_WRITE_DENY else rule_deny r)"

fun project_rules :: "auth_context \<Rightarrow> (string \<times> rule) list \<Rightarrow> authority" where
  "project_rules auth [] = \<lparr>allowed_actions = [], disabled_reasons = []\<rparr>"
| "project_rules auth ((act, r) # rs) =
     (let rest = project_rules auth rs
      in if rule_allow r auth then rest\<lparr>allowed_actions := act # allowed_actions rest\<rparr>
         else rest\<lparr>disabled_reasons := (act, deny_reason auth r) # disabled_reasons rest\<rparr>)"

definition apply_grant :: "(string \<times> rule) list \<Rightarrow> authority \<Rightarrow> string \<Rightarrow> authority" where
  "apply_grant rules acc act =
     (if act \<notin> fst ` set rules then acc
      else \<lparr>allowed_actions = (if act \<in> set (allowed_actions acc) then allowed_actions acc
                               else allowed_actions acc @ [act]),
            disabled_reasons = filter (\<lambda>(k, _). k \<noteq> act) (disabled_reasons acc)\<rparr>)"

definition authorityFor :: "auth_context \<Rightarrow> resource_kind \<Rightarrow> string list option \<Rightarrow> authority" where
  "authorityFor auth res grant =
     (let base = project_rules auth (MATRIX res)
      in case grant of None \<Rightarrow> base | Some acts \<Rightarrow> foldl (apply_grant (MATRIX res)) base acts)"

definition withAuthority ::
  "(string \<rightharpoonup> json) \<Rightarrow> auth_context \<Rightarrow> resource_kind \<Rightarrow> string list option \<Rightarrow> (string \<rightharpoonup> json)" where
  "withAuthority payload auth res grant =
     payload(''allowed_actions'' \<mapsto> JArr (map JStr (allowed_actions (authorityFor auth res grant))),
             ''disabled_reasons'' \<mapsto>
               JObj (map (\<lambda>(k, v). (k, JStr v)) (disabled_reasons (authorityFor auth res grant))))"

section \<open>What the projection contains\<close>

text \<open>
  The invariant of the projection: allowed and disabled actions are, without repetition, the
  actions of the matrix, split by \<open>P\<close>; every reason is the one of the action's rule.
\<close>

definition splits_matrix :: "auth_context \<Rightarrow> (string \<times> rule) list \<Rightarrow> (string \<Rightarrow> rule \<Rightarrow> bool) \<Rightarrow> authority \<Rightarrow> bool" where
  "splits_matrix auth rules P acc \<longleftrightarrow>
     distinct (allowed_actions acc) \<and> distinct (map fst (disabled_reasons acc)) \<and>
     set (allowed_actions acc) = {k. \<exists>r. (k, r) \<in> set rules \<and> P k r} \<and>
     set (disabled_reasons acc) = {(k, deny_reason auth r) | k r. (k, r) \<in> set rules \<and> \<not> P k r}"

lemma allowed_insert:
  "{k. \<exists>r. (k, r) \<in> insert (k0, r0) S \<and> P k r} =
     (if P k0 r0 then {k0} else {}) \<union> {k. \<exists>r. (k, r) \<in> S \<and> P k r}"
  by auto

lemma disabled_insert:
  "{(k, d r) | k r. (k, r) \<in> insert (k0, r0) S \<and> \<not> P k r} =
     (if P k0 r0 then {} else {(k0, d r0)}) \<union> {(k, d r) | k r. (k, r) \<in> S \<and> \<not> P k r}"
  by auto

lemma key_in_image: "(k, r) \<in> S \<Longrightarrow> k \<in> fst ` S"
  by force

lemma splits_matrix_keys:
  assumes "splits_matrix auth rules P acc" and "k \<notin> fst ` set rules"
  shows "k \<notin> set (allowed_actions acc) \<and> k \<notin> fst ` set (disabled_reasons acc)"
proof -
  have "k' \<in> fst ` set rules" if "k' \<in> set (allowed_actions acc)" for k'
    using that assms(1) by (auto simp: splits_matrix_def intro: key_in_image)
  moreover have "k' \<in> fst ` set rules" if "(k', v) \<in> set (disabled_reasons acc)" for k' v
    using that assms(1) by (auto simp: splits_matrix_def intro: key_in_image)
  ultimately show ?thesis using assms(2) by auto
qed

lemma project_rules_splits:
  "distinct (map fst rules) \<Longrightarrow> splits_matrix auth rules (\<lambda>k r. rule_allow r auth) (project_rules auth rules)"
proof (induction rules)
  case Nil
  then show ?case by (simp add: splits_matrix_def)
next
  case (Cons x rs)
  obtain k r where x: "x = (k, r)" by (cases x)
  from Cons have IH: "splits_matrix auth rs (\<lambda>k r. rule_allow r auth) (project_rules auth rs)" by simp
  from Cons.prems x have new: "k \<notin> fst ` set rs" by auto
  from splits_matrix_keys [OF IH new] IH show ?case
    unfolding splits_matrix_def x list.set(2) allowed_insert disabled_insert
    by (cases "rule_allow r auth") (simp_all add: Let_def)
qed

lemma splits_matrix_cong:
  assumes "\<And>k r. (k, r) \<in> set rules \<Longrightarrow> P k r = Q k r"
  shows "splits_matrix auth rules P acc = splits_matrix auth rules Q acc"
proof -
  have "{k. \<exists>r. (k, r) \<in> set rules \<and> P k r} = {k. \<exists>r. (k, r) \<in> set rules \<and> Q k r}"
    using assms by blast
  moreover have "{(k, deny_reason auth r) | k r. (k, r) \<in> set rules \<and> \<not> P k r} =
      {(k, deny_reason auth r) | k r. (k, r) \<in> set rules \<and> \<not> Q k r}"
    using assms by blast
  ultimately show ?thesis by (simp add: splits_matrix_def)
qed

lemma apply_grant_splits:
  assumes "splits_matrix auth rules P acc"
  shows "splits_matrix auth rules (\<lambda>k r. P k r \<or> k = act) (apply_grant rules acc act)"
proof (cases "act \<in> fst ` set rules")
  case False
  then have "splits_matrix auth rules (\<lambda>k r. P k r \<or> k = act) acc = splits_matrix auth rules P acc"
    by (intro splits_matrix_cong) (auto dest: key_in_image)
  with False assms show ?thesis by (simp add: apply_grant_def)
next
  case True
  then have al: "{k. \<exists>r. (k, r) \<in> set rules \<and> (P k r \<or> k = act)} =
      insert act {k. \<exists>r. (k, r) \<in> set rules \<and> P k r}"
    by auto
  have dis: "{(k, deny_reason auth r) | k r. (k, r) \<in> set rules \<and> \<not> (P k r \<or> k = act)} =
      {x \<in> {(k, deny_reason auth r) | k r. (k, r) \<in> set rules \<and> \<not> P k r}. case x of (k, _) \<Rightarrow> k \<noteq> act}"
    by auto
  from assms have "distinct (map fst (filter (\<lambda>(k, _). k \<noteq> act) (disabled_reasons acc)))"
    by (simp add: splits_matrix_def distinct_map_filter)
  with True assms show ?thesis
    unfolding splits_matrix_def al dis by (simp add: apply_grant_def insert_absorb)
qed

lemma authorityFor_splits:
  "splits_matrix auth (MATRIX res) (\<lambda>k r. rule_allow r auth \<or> k \<in> set (coalesce grant []))
     (authorityFor auth res grant)"
proof -
  have fold: "splits_matrix auth (MATRIX res) P acc \<Longrightarrow>
      splits_matrix auth (MATRIX res) (\<lambda>k r. P k r \<or> k \<in> set acts) (foldl (apply_grant (MATRIX res)) acc acts)"
    for P acc acts
  proof (induction acts arbitrary: P acc)
    case Nil
    then show ?case by simp
  next
    case (Cons x xs)
    from Cons.IH [OF apply_grant_splits [OF Cons.prems, of x]] show ?case
      by (simp add: disj_assoc)
  qed
  show ?thesis
    using fold [OF project_rules_splits [OF MATRIX_distinct]] project_rules_splits [OF MATRIX_distinct]
    by (cases grant) (simp_all add: authorityFor_def)
qed

text \<open>
  The projected authority is the matrix and nothing else: an action is offered iff the matrix
  defines it for the resource and its rule admits the caller or the route granted it out of band
  (so a grant can never inject an action the matrix does not define); every other defined action
  is listed once, with the deny reason of its rule, and no action is listed twice.
\<close>

theorem authorityFor_spec:
  "(act \<in> set (allowed_actions (authorityFor auth res grant)) \<longleftrightarrow>
      (\<exists>r. (act, r) \<in> set (MATRIX res) \<and> (rule_allow r auth \<or> act \<in> set (coalesce grant [])))) \<and>
   ((act, why) \<in> set (disabled_reasons (authorityFor auth res grant)) \<longleftrightarrow>
      (\<exists>r. (act, r) \<in> set (MATRIX res) \<and> \<not> rule_allow r auth \<and> act \<notin> set (coalesce grant []) \<and>
           why = deny_reason auth r)) \<and>
   distinct (allowed_actions (authorityFor auth res grant)) \<and>
   distinct (map fst (disabled_reasons (authorityFor auth res grant)))"
  using authorityFor_splits [of auth res grant] by (auto simp: splits_matrix_def)

section \<open>Visibility tiers\<close>

datatype visibility = Internal_workspace | Internal_project | Internal_owner_only | Public_safe

definition visibilityForRole :: "string \<Rightarrow> visibility list" where
  "visibilityForRole role =
     (if role = ''owner'' then [Internal_workspace, Internal_project, Internal_owner_only, Public_safe]
      else if role = ''operator'' then [Internal_workspace, Internal_project, Public_safe]
      else if role = ''viewer'' then [Internal_project, Public_safe]
      else if role = ''client'' then [Public_safe]
      else [Public_safe])"

definition clerkRoleToWorkspaceRole :: "string option \<Rightarrow> string" where
  "clerkRoleToWorkspaceRole r =
     (if \<not> truthy r then ''viewer''
      else if r = Some ''org:admin'' then ''operator''
      else if r = Some ''org:member'' then ''viewer''
      else ''viewer'')"

text \<open>
  Clerk identities never reach owner visibility: whatever organisation role Clerk reports, the
  mapped workspace role is operator (for an organisation admin) or viewer, and the tiers it opens
  exclude the owner-only tier; every role sees the public tier.
\<close>

theorem clerk_role_never_owner_tier:
  "Internal_owner_only \<notin> set (visibilityForRole (clerkRoleToWorkspaceRole r)) \<and>
   (clerkRoleToWorkspaceRole r = ''operator'' \<longleftrightarrow> r = Some ''org:admin'') \<and>
   Public_safe \<in> set (visibilityForRole role)"
  by (auto simp: clerkRoleToWorkspaceRole_def visibilityForRole_def)

section \<open>Context admissibility\<close>

datatype admissibility = Adm_visible | Adm_excluded | Adm_candidate | Adm_approved

definition isAdmissibility :: "json \<Rightarrow> admissibility option" where
  "isAdmissibility v =
     (if v = JStr ''visible'' then Some Adm_visible
      else if v = JStr ''excluded'' then Some Adm_excluded
      else if v = JStr ''candidate'' then Some Adm_candidate
      else if v = JStr ''approved'' then Some Adm_approved
      else None)"

definition isAdmissibleForContext :: "json \<Rightarrow> bool" where
  "isAdmissibleForContext v =
     (case isAdmissibility v of None \<Rightarrow> True | Some s \<Rightarrow> s \<in> {Adm_approved, Adm_visible})"

section \<open>The admin gate\<close>

definition envAdminIds :: "string option \<Rightarrow> string set" where
  "envAdminIds raw = set (non_empty (map js_trim (js_split (CHR '','') (or_else raw []))))"

definition isAdminFromEnv :: "string option \<Rightarrow> string option \<Rightarrow> bool" where
  "isAdminFromEnv raw uid = (case uid of None \<Rightarrow> False | Some u \<Rightarrow> u \<in> envAdminIds raw)"

datatype admin_outcome = Admin_next auth_context | Admin_refused int string

text \<open>
  \<open>lookup\<close> is the answer of \<^verbatim>\<open>dal.getUser\<close>: \<open>None\<close> when the DAL is absent or the read throws,
  \<open>Some None\<close> when there is no such user, \<open>Some (Some b)\<close> when the row's \<^verbatim>\<open>is_admin\<close> is \<open>b\<close>.
\<close>

definition requireAdmin ::
  "string option \<Rightarrow> (string option \<Rightarrow> bool option option) \<Rightarrow> auth_context option \<Rightarrow> admin_outcome" where
  "requireAdmin rawIds lookup auth =
     (case auth of
        None \<Rightarrow> Admin_refused 401 ''auth context missing - clerkAuth must run first''
      | Some a \<Rightarrow>
          if isAdminFromEnv rawIds (au_user_id a) then Admin_next (a\<lparr>au_is_admin := Some True\<rparr>)
          else if lookup (au_user_id a) = Some (Some True) then Admin_next (a\<lparr>au_is_admin := Some True\<rparr>)
          else Admin_refused 403 ''admin privilege required'')"

text \<open>
  The admin gate passes exactly the callers whose id is in the configured list or whose user
  row carries the admin bit; an unanswered user read is a refusal, and an empty id is never in the
  configured list.
\<close>

theorem requireAdmin_iff:
  "(\<exists>a'. requireAdmin rawIds lookup (Some a) = Admin_next a' \<and> au_is_admin a' = Some True \<and>
         au_user_id a' = au_user_id a) \<longleftrightarrow>
     (\<exists>u. au_user_id a = Some u \<and> u \<in> envAdminIds rawIds) \<or> lookup (au_user_id a) = Some (Some True)"
  by (auto simp: requireAdmin_def isAdminFromEnv_def split: option.splits)

end
