(* ===== verification/Idempotency.thy ===== *)
theory Idempotency
  imports Permissions
begin

text \<open>
  The reserve-first retry guard: the store \<^verbatim>\<open>dal/idempotency-store.ts\<close> and the wrappers
  \<^verbatim>\<open>lib/idempotency.ts\<close> (\<^verbatim>\<open>withIdempotency\<close> around one handler, \<^verbatim>\<open>idempotencyMiddleware\<close> around a
  route group).

  The table \<^verbatim>\<open>idempotency_keys\<close> is a list of rows; the partial unique index on
  (workspace_id, idempotency_key) for the ordinary mode is the invariant \<open>idem_wf\<close>. Each SQL
  statement is one function on the table. A statement that throws is a flag of
  \<open>idem_faults\<close>; what other requests do between the INSERT and the SELECT of a reservation is
  the argument \<open>interfere\<close>. The locale \<open>reservation_store\<close> is the contract the wrappers rely
  on, interpreted on the table; the step relation \<open>idem_step\<close> interleaves the statements of any
  number of requests that carry the same key.
\<close>

section \<open>The store\<close>

record idem_row =
  ik_workspace_id :: string
  ik_key :: string
  ik_route :: string
  ik_mode :: string
  ik_response_status :: "int option"
  ik_response_body :: json

type_synonym idem_table = "idem_row list"

datatype reserve_result = Owned | In_progress | Replay int json

definition ORDINARY :: string where
  "ORDINARY = ''ordinary_retry_guard''"

definition is_slot :: "string \<Rightarrow> string \<Rightarrow> idem_row \<Rightarrow> bool" where
  "is_slot ws k r = (ik_workspace_id r = ws \<and> ik_key r = k \<and> ik_mode r = ORDINARY)"

text \<open>\<^verbatim>\<open>INSERT ... ON CONFLICT ... DO NOTHING RETURNING id\<close>: the table and whether a row came back.\<close>

definition insert_reservation :: "string \<Rightarrow> string \<Rightarrow> string \<Rightarrow> idem_table \<Rightarrow> idem_table \<times> bool" where
  "insert_reservation ws k route t =
     (if (\<exists>r \<in> set t. is_slot ws k r) then (t, False)
      else (t @ [\<lparr>ik_workspace_id = ws, ik_key = k, ik_route = js_trim route, ik_mode = ORDINARY,
                  ik_response_status = None, ik_response_body = JNull\<rparr>], True))"

definition select_reservation :: "string \<Rightarrow> string \<Rightarrow> idem_table \<Rightarrow> idem_row option" where
  "select_reservation ws k t = find (is_slot ws k) t"

text \<open>What the code makes of the selected row, or of its absence.\<close>

definition read_reservation :: "idem_row option \<Rightarrow> reserve_result" where
  "read_reservation row =
     (case row of
        None \<Rightarrow> Owned
      | Some r \<Rightarrow> (case ik_response_status r of
                     None \<Rightarrow> In_progress
                   | Some st \<Rightarrow> Replay (if st = 0 then 200 else st) (ik_response_body r)))"

record idem_faults =
  ft_insert_up :: bool
  ft_select_up :: bool
  ft_complete_up :: bool
  ft_release_up :: bool

definition reserveIdempotencyKey ::
  "idem_faults \<Rightarrow> (idem_table \<Rightarrow> idem_table) \<Rightarrow> string \<Rightarrow> string \<Rightarrow> string \<Rightarrow> idem_table
     \<Rightarrow> idem_table \<times> reserve_result" where
  "reserveIdempotencyKey ft interfere workspaceId key route t =
     (let ws = js_trim workspaceId; k = js_trim key
      in if ws = [] \<or> k = [] then (t, Owned)
         else if \<not> ft_insert_up ft then (t, Owned)
         else (let (t1, inserted) = insert_reservation ws k route t
               in if inserted then (t1, Owned)
                  else (let t2 = interfere t1
                        in if \<not> ft_select_up ft then (t2, Owned)
                           else (t2, read_reservation (select_reservation ws k t2)))))"

definition completeIdempotencyKey ::
  "idem_faults \<Rightarrow> string \<Rightarrow> string \<Rightarrow> int \<Rightarrow> json \<Rightarrow> idem_table \<Rightarrow> idem_table" where
  "completeIdempotencyKey ft workspaceId key st body t =
     (let ws = js_trim workspaceId; k = js_trim key
      in if ws = [] \<or> k = [] \<or> \<not> ft_complete_up ft then t
         else map (\<lambda>r. if is_slot ws k r \<and> ik_response_status r = None
                       then r\<lparr>ik_response_status := Some (if st = 0 then 200 else st),
                              ik_response_body := body\<rparr>
                       else r) t)"

definition releaseIdempotencyKey :: "idem_faults \<Rightarrow> string \<Rightarrow> string \<Rightarrow> idem_table \<Rightarrow> idem_table" where
  "releaseIdempotencyKey ft workspaceId key t =
     (let ws = js_trim workspaceId; k = js_trim key
      in if ws = [] \<or> k = [] \<or> \<not> ft_release_up ft then t
         else filter (\<lambda>r. \<not> (is_slot ws k r \<and> ik_response_status r = None)) t)"

section \<open>The wrappers\<close>

record response =
  rs_status :: int
  rs_body :: "json option"
  rs_replayed :: bool

record idem_request =
  rq_method :: string
  rq_pathname :: "string option"
  rq_key_header :: "string option"
  rq_workspace_id :: "string option"
  rq_flag :: "string option"
  rq_marker :: "string option"

record 'w idem_world =
  iw_table :: idem_table
  iw_app :: 'w

text \<open>A handler acts on the application state and answers or throws.\<close>

type_synonym ('w, 'e) handler = "'w \<Rightarrow> ('e + response) \<times> 'w"

definition idempotencyEnabled :: "string option \<Rightarrow> bool" where
  "idempotencyEnabled flag = envFlagTrue flag"

definition in_progress_response :: response where
  "in_progress_response =
     \<lparr>rs_status = 409,
      rs_body = Some (JObj [(''error'', JObj
        [(''code'', JStr ''IDEMPOTENCY_IN_PROGRESS''),
         (''message'', JStr ''a request with this Idempotency-Key is already being processed'')])]),
      rs_replayed = False\<rparr>"

text \<open>\<^verbatim>\<open>res.clone().json()\<close> caught to \<^verbatim>\<open>null\<close>: \<open>None\<close> and JSON \<^verbatim>\<open>null\<close> both mean "nothing to replay".\<close>

definition replayable_body :: "response \<Rightarrow> json option" where
  "replayable_body res =
     (case rs_body res of None \<Rightarrow> None | Some JNull \<Rightarrow> None | Some b \<Rightarrow> Some b)"

definition settle ::
  "idem_faults \<Rightarrow> string \<Rightarrow> string \<Rightarrow> 'e + response \<Rightarrow> idem_table \<Rightarrow> idem_table" where
  "settle ft ws key r t =
     (case r of
        Inl _ \<Rightarrow> releaseIdempotencyKey ft ws key t
      | Inr res \<Rightarrow>
          if 200 \<le> rs_status res \<and> rs_status res < 300
          then (case replayable_body res of
                  Some b \<Rightarrow> completeIdempotencyKey ft ws key (rs_status res) b t
                | None \<Rightarrow> releaseIdempotencyKey ft ws key t)
          else releaseIdempotencyKey ft ws key t)"

definition run_handler :: "('w, 'e) handler \<Rightarrow> 'w idem_world \<Rightarrow> ('e + response) \<times> 'w idem_world" where
  "run_handler h w = (let (r, app) = h (iw_app w) in (r, w\<lparr>iw_app := app\<rparr>))"

definition request_key :: "idem_request \<Rightarrow> string" where
  "request_key req = js_trim (or_else (rq_key_header req) [])"

definition request_workspace :: "idem_request \<Rightarrow> string" where
  "request_workspace req = js_trim (or_else (rq_workspace_id req) [])"

definition withIdempotency ::
  "idem_faults \<Rightarrow> (idem_table \<Rightarrow> idem_table) \<Rightarrow> idem_request \<Rightarrow> string \<Rightarrow> ('w, 'e) handler \<Rightarrow> 'w idem_world
     \<Rightarrow> ('e + response) \<times> 'w idem_world" where
  "withIdempotency ft interfere req route h w =
     (let key = request_key req; ws = request_workspace req
      in if \<not> idempotencyEnabled (rq_flag req) \<or> key = [] \<or> ws = [] then run_handler h w
         else if rq_marker req = Some key then run_handler h w
         else (let (t, reserved) = reserveIdempotencyKey ft interfere ws key route (iw_table w)
               in case reserved of
                    Replay st b \<Rightarrow> (Inr \<lparr>rs_status = st, rs_body = Some b, rs_replayed = True\<rparr>, w\<lparr>iw_table := t\<rparr>)
                  | In_progress \<Rightarrow> (Inr in_progress_response, w\<lparr>iw_table := t\<rparr>)
                  | Owned \<Rightarrow>
                      (let (r, w') = run_handler h (w\<lparr>iw_table := t\<rparr>)
                       in (r, w'\<lparr>iw_table := settle ft ws key r (iw_table w')\<rparr>))))"

definition IDEMPOTENT_METHODS :: "string set" where
  "IDEMPOTENT_METHODS = {''POST'', ''PATCH'', ''PUT'', ''DELETE''}"

definition upper_char :: "char \<Rightarrow> char" where
  "upper_char c = (let n = (of_char c :: nat) in if 97 \<le> n \<and> n \<le> 122 then char_of (n - 32) else c)"

text \<open>HTTP methods are ASCII; \<open>next\<close> is the rest of the chain, whose response is \<^verbatim>\<open>ctx.res\<close>.\<close>

definition idempotencyMiddleware ::
  "idem_faults \<Rightarrow> (idem_table \<Rightarrow> idem_table) \<Rightarrow> idem_request \<Rightarrow> ('w, 'e) handler \<Rightarrow> 'w idem_world
     \<Rightarrow> ('e + response) \<times> 'w idem_world" where
  "idempotencyMiddleware ft interfere req nxt w =
     (let method = map upper_char (rq_method req)
      in if method \<notin> IDEMPOTENT_METHODS then run_handler nxt w
         else (let key = request_key req; ws = request_workspace req
               in if \<not> idempotencyEnabled (rq_flag req) \<or> key = [] \<or> ws = [] then run_handler nxt w
                  else if rq_marker req = Some key then run_handler nxt w
                  else (let route = (case rq_pathname req of None \<Rightarrow> method | Some p \<Rightarrow> method @ '' '' @ p);
                            (t, reserved) = reserveIdempotencyKey ft interfere ws key route (iw_table w)
                        in case reserved of
                             Replay st b \<Rightarrow> (Inr \<lparr>rs_status = st, rs_body = Some b, rs_replayed = True\<rparr>, w\<lparr>iw_table := t\<rparr>)
                           | In_progress \<Rightarrow> (Inr in_progress_response, w\<lparr>iw_table := t\<rparr>)
                           | Owned \<Rightarrow>
                               (let (r, w') = run_handler nxt (w\<lparr>iw_table := t\<rparr>)
                                in (r, w'\<lparr>iw_table := settle ft ws key r (iw_table w')\<rparr>)))))"

section \<open>The contract of the store\<close>

datatype slot = Free | Pending | Completed int json

locale reservation_store =
  fixes invar :: "'t \<Rightarrow> bool"
    and slot_of :: "'t \<Rightarrow> 'k \<Rightarrow> slot"
    and claim :: "'k \<Rightarrow> 't \<Rightarrow> 't \<times> bool"
    and complete :: "'k \<Rightarrow> int \<Rightarrow> json \<Rightarrow> 't \<Rightarrow> 't"
    and release :: "'k \<Rightarrow> 't \<Rightarrow> 't"
  assumes invar_claim: "invar t \<Longrightarrow> invar (fst (claim k t))"
    and invar_complete: "invar t \<Longrightarrow> invar (complete k st b t)"
    and invar_release: "invar t \<Longrightarrow> invar (release k t)"
    and claim_won: "invar t \<Longrightarrow> snd (claim k t) \<longleftrightarrow> slot_of t k = Free"
    and slot_claim: "invar t \<Longrightarrow>
      slot_of (fst (claim k t)) k' = (if k' = k \<and> slot_of t k = Free then Pending else slot_of t k')"
    and slot_complete: "invar t \<Longrightarrow>
      slot_of (complete k st b t) k' = (if k' = k \<and> slot_of t k = Pending then Completed st b else slot_of t k')"
    and slot_release: "invar t \<Longrightarrow>
      slot_of (release k t) k' = (if k' = k \<and> slot_of t k = Pending then Free else slot_of t k')"
begin

lemma claim_complete_keeps:
  assumes "invar t" and "slot_of t k = Free"
  shows "slot_of (complete k st b (fst (claim k t))) k = Completed st b"
  using assms by (simp add: slot_complete slot_claim invar_claim)

lemma claim_release_restores:
  assumes "invar t"
  shows "slot_of t k = Free \<Longrightarrow> slot_of (release k (fst (claim k t))) k' = slot_of t k'"
  using assms by (simp add: slot_release slot_claim invar_claim)

lemma completed_is_final:
  assumes "invar t" and "slot_of t k = Completed st b"
  shows "slot_of (fst (claim k' t)) k = Completed st b"
    "slot_of (complete k' st' b' t) k = Completed st b"
    "slot_of (release k' t) k = Completed st b"
  using assms by (auto simp: slot_claim slot_complete slot_release)

end

definition idem_wf :: "idem_table \<Rightarrow> bool" where
  "idem_wf t \<longleftrightarrow> distinct (map (\<lambda>r. (ik_workspace_id r, ik_key r)) (filter (\<lambda>r. ik_mode r = ORDINARY) t))"

definition idem_slot :: "idem_table \<Rightarrow> string \<times> string \<Rightarrow> slot" where
  "idem_slot t = (\<lambda>(ws, k). case select_reservation ws k t of
       None \<Rightarrow> Free
     | Some r \<Rightarrow> (case ik_response_status r of None \<Rightarrow> Pending | Some st \<Rightarrow> Completed st (ik_response_body r)))"

definition complete_rows :: "string \<times> string \<Rightarrow> int \<Rightarrow> json \<Rightarrow> idem_table \<Rightarrow> idem_table" where
  "complete_rows = (\<lambda>(ws, k) st b.
     map (\<lambda>r. if is_slot ws k r \<and> ik_response_status r = None
              then r\<lparr>ik_response_status := Some st, ik_response_body := b\<rparr> else r))"

definition release_rows :: "string \<times> string \<Rightarrow> idem_table \<Rightarrow> idem_table" where
  "release_rows = (\<lambda>(ws, k). filter (\<lambda>r. \<not> (is_slot ws k r \<and> ik_response_status r = None)))"


lemma idem_wf_unique:
  assumes "idem_wf t" "r \<in> set t" "r' \<in> set t" "is_slot ws k r" "is_slot ws k r'"
  shows "r = r'"
proof -
  from assms(1) have "inj_on (\<lambda>r. (ik_workspace_id r, ik_key r)) {r \<in> set t. ik_mode r = ORDINARY}"
    by (simp add: idem_wf_def distinct_map)
  with assms(2-5) show ?thesis by (auto simp: is_slot_def inj_on_def)
qed

lemma find_filter_keep: "find P t = Some r \<Longrightarrow> Q r \<Longrightarrow> find P (filter Q t) = Some r"
  by (induction t) (auto split: if_splits)

lemma find_filter_all:
  assumes "\<And>r. r \<in> set t \<Longrightarrow> P r \<Longrightarrow> Q r"
  shows "find P (filter Q t) = find P t"
  using assms by (induction t) auto

lemma find_filter_none:
  assumes "\<And>r. r \<in> set t \<Longrightarrow> P r \<Longrightarrow> \<not> Q r"
  shows "find P (filter Q t) = None"
  using assms by (induction t) auto

lemma select_None: "select_reservation ws k t = None \<longleftrightarrow> \<not> (\<exists>r \<in> set t. is_slot ws k r)"
  by (auto simp: select_reservation_def find_None_iff)

lemma idem_wf_map:
  assumes "\<And>r. ik_workspace_id (f r) = ik_workspace_id r \<and> ik_key (f r) = ik_key r \<and> ik_mode (f r) = ik_mode r"
  shows "idem_wf (map f t) = idem_wf t"
  using assms by (simp add: idem_wf_def filter_map comp_def)

lemma idem_wf_filter: "idem_wf t \<Longrightarrow> idem_wf (filter P t)"
proof -
  have "filter (\<lambda>r. ik_mode r = ORDINARY) (filter P t) = filter P (filter (\<lambda>r. ik_mode r = ORDINARY) t)"
    by (induction t) auto
  then show "idem_wf t \<Longrightarrow> idem_wf (filter P t)"
    by (simp add: idem_wf_def distinct_map_filter del: filter_filter)
qed

lemma claim_slot:
  "idem_slot (fst (insert_reservation ws k route t)) (ws', k') =
     (if (ws', k') = (ws, k) \<and> idem_slot t (ws, k) = Free then Pending else idem_slot t (ws', k'))"
proof (cases "\<exists>r \<in> set t. is_slot ws k r")
  case True
  then obtain r where "select_reservation ws k t = Some r" by (metis select_None not_None_eq)
  then have "idem_slot t (ws, k) \<noteq> Free" by (simp add: idem_slot_def split: option.splits)
  with True show ?thesis by (auto simp: insert_reservation_def)
next
  case False
  then have none: "find (is_slot ws k) t = None"
    by (auto simp: find_None_iff)
  then have free: "idem_slot t (ws, k) = Free"
    by (simp add: idem_slot_def select_reservation_def)
  let ?new = "\<lparr>ik_workspace_id = ws, ik_key = k, ik_route = js_trim route, ik_mode = ORDINARY,
      ik_response_status = None, ik_response_body = JNull\<rparr>"
  have tab: "fst (insert_reservation ws k route t) = t @ [?new]"
    using False by (simp add: insert_reservation_def)
  show ?thesis
  proof (cases "(ws', k') = (ws, k)")
    case True
    then have "select_reservation ws' k' (t @ [?new]) = Some ?new"
      using none by (simp add: select_reservation_def find_append_last is_slot_def)
    with True free show ?thesis by (simp add: tab idem_slot_def)
  next
    case other: False
    then have "select_reservation ws' k' (t @ [?new]) = select_reservation ws' k' t"
      by (auto simp: select_reservation_def is_slot_def intro: find_append_other)
    with other show ?thesis by (auto simp: tab idem_slot_def)
  qed
qed

lemma complete_slot:
  "idem_slot (complete_rows (ws, k) st b t) (ws', k') =
     (if (ws', k') = (ws, k) \<and> idem_slot t (ws, k) = Pending then Completed st b else idem_slot t (ws', k'))"
proof -
  let ?f = "\<lambda>r. if is_slot ws k r \<and> ik_response_status r = None
              then r\<lparr>ik_response_status := Some st, ik_response_body := b\<rparr> else r"
  have sel: "select_reservation ws' k' (complete_rows (ws, k) st b t) = map_option ?f (select_reservation ws' k' t)"
    unfolding select_reservation_def complete_rows_def prod.case
    by (rule find_map_same) (simp add: is_slot_def)
  show ?thesis
  proof (cases "select_reservation ws' k' t")
    case None
    then show ?thesis by (auto simp: idem_slot_def sel)
  next
    case (Some r)
    then have r: "is_slot ws' k' r" by (auto simp: select_reservation_def dest: find_Some_in)
    show ?thesis
    proof (cases "(ws', k') = (ws, k)")
      case True
      with Some r sel show ?thesis by (cases "ik_response_status r") (simp_all add: idem_slot_def)
    next
      case False
      with r have "\<not> is_slot ws k r" by (auto simp: is_slot_def)
      with Some False show ?thesis by (auto simp: idem_slot_def sel)
    qed
  qed
qed

lemma release_slot:
  assumes "idem_wf t"
  shows "idem_slot (release_rows (ws, k) t) (ws', k') =
     (if (ws', k') = (ws, k) \<and> idem_slot t (ws, k) = Pending then Free else idem_slot t (ws', k'))"
proof (cases "(ws', k') = (ws, k)")
  case False
  then have "select_reservation ws' k' (release_rows (ws, k) t) = select_reservation ws' k' t"
    unfolding select_reservation_def release_rows_def prod.case
    by (intro find_filter_all) (auto simp: is_slot_def)
  with False show ?thesis by (auto simp: idem_slot_def)
next
  case True
  show ?thesis
  proof (cases "select_reservation ws k t")
    case None
    then have "select_reservation ws k (release_rows (ws, k) t) = None"
      by (auto simp: release_rows_def select_None)
    with None True show ?thesis by (simp add: idem_slot_def)
  next
    case (Some r)
    then have r: "r \<in> set t" "is_slot ws k r" "find (is_slot ws k) t = Some r"
      by (auto simp: select_reservation_def dest: find_Some_in)
    show ?thesis
    proof (cases "ik_response_status r")
      case None
      have "find (is_slot ws k) (release_rows (ws, k) t) = None"
        unfolding release_rows_def prod.case
        by (rule find_filter_none) (use idem_wf_unique [OF assms _ r(1) _ r(2)] None in auto)
      with True Some None show ?thesis by (simp add: idem_slot_def select_reservation_def)
    next
      case fin: (Some st)
      then have "find (is_slot ws k) (release_rows (ws, k) t) = Some r"
        unfolding release_rows_def prod.case by (intro find_filter_keep [OF r(3)]) simp
      with True Some fin show ?thesis by (simp add: idem_slot_def select_reservation_def)
    qed
  qed
qed

lemma claim_won_iff: "snd (insert_reservation ws k route t) \<longleftrightarrow> idem_slot t (ws, k) = Free"
  by (auto simp: insert_reservation_def idem_slot_def select_reservation_def find_None_iff
      split: option.splits dest: find_Some_in)

lemma claim_wf:
  assumes "idem_wf t"
  shows "idem_wf (fst (insert_reservation ws k route t))"
  using assms by (auto simp: insert_reservation_def idem_wf_def is_slot_def)

interpretation idem: reservation_store idem_wf idem_slot
  "\<lambda>(ws, k). insert_reservation ws k route" complete_rows release_rows for route
proof unfold_locales
  fix t :: idem_table and k k' :: "string \<times> string" and st :: int and b :: json
  assume wf: "idem_wf t"
  show "idem_wf (fst ((case k of (ws, k) \<Rightarrow> insert_reservation ws k route) t))"
    using claim_wf [OF wf] by (cases k) simp
  show "idem_wf (complete_rows k st b t)"
    using wf by (cases k) (simp add: complete_rows_def idem_wf_map)
  show "idem_wf (release_rows k t)"
    using wf by (cases k) (simp add: release_rows_def idem_wf_filter)
  show "snd ((case k of (ws, k) \<Rightarrow> insert_reservation ws k route) t) \<longleftrightarrow> idem_slot t k = Free"
    by (cases k) (simp add: claim_won_iff)
  show "idem_slot (fst ((case k of (ws, k) \<Rightarrow> insert_reservation ws k route) t)) k' =
      (if k' = k \<and> idem_slot t k = Free then Pending else idem_slot t k')"
    by (cases k; cases k') (simp add: claim_slot)
  show "idem_slot (complete_rows k st b t) k' =
      (if k' = k \<and> idem_slot t k = Pending then Completed st b else idem_slot t k')"
    by (cases k; cases k') (simp add: complete_slot)
  show "idem_slot (release_rows k t) k' =
      (if k' = k \<and> idem_slot t k = Pending then Free else idem_slot t k')"
    by (cases k; cases k') (simp add: release_slot [OF wf])
qed


section \<open>Sequential behaviour of the wrapper\<close>

definition all_up :: idem_faults where
  "all_up = \<lparr>ft_insert_up = True, ft_select_up = True, ft_complete_up = True, ft_release_up = True\<rparr>"

lemma all_up_sel [simp]:
  "ft_insert_up all_up" "ft_select_up all_up" "ft_complete_up all_up" "ft_release_up all_up"
  by (simp_all add: all_up_def)

definition guarded :: "idem_request \<Rightarrow> bool" where
  "guarded req \<longleftrightarrow> idempotencyEnabled (rq_flag req) \<and> request_key req \<noteq> [] \<and> request_workspace req \<noteq> [] \<and>
     rq_marker req \<noteq> Some (request_key req)"

definition slot_of_request :: "idem_request \<Rightarrow> idem_table \<Rightarrow> slot" where
  "slot_of_request req t = idem_slot t (request_workspace req, request_key req)"

lemma request_key_trim [simp]: "js_trim (request_key req) = request_key req"
  by (simp add: request_key_def)

lemma request_workspace_trim [simp]: "js_trim (request_workspace req) = request_workspace req"
  by (simp add: request_workspace_def)

lemma complete_is_complete_rows:
  "js_trim ws = ws \<Longrightarrow> js_trim k = k \<Longrightarrow> ws \<noteq> [] \<Longrightarrow> k \<noteq> [] \<Longrightarrow>
     completeIdempotencyKey all_up ws k st b t = complete_rows (ws, k) (if st = 0 then 200 else st) b t"
  by (simp add: completeIdempotencyKey_def complete_rows_def Let_def)

lemma release_is_release_rows:
  "js_trim ws = ws \<Longrightarrow> js_trim k = k \<Longrightarrow> ws \<noteq> [] \<Longrightarrow> k \<noteq> [] \<Longrightarrow>
     releaseIdempotencyKey all_up ws k t = release_rows (ws, k) t"
  by (simp add: releaseIdempotencyKey_def release_rows_def Let_def)

lemma reserve_free:
  assumes "guarded req" and "slot_of_request req t = Free"
  shows "reserveIdempotencyKey all_up f (request_workspace req) (request_key req) route t =
    (fst (insert_reservation (request_workspace req) (request_key req) route t), Owned)"
  using assms claim_won_iff [of "request_workspace req" "request_key req" route t]
  by (simp add: reserveIdempotencyKey_def guarded_def slot_of_request_def Let_def case_prod_unfold)

lemma reserve_taken:
  assumes "guarded req" and "slot_of_request req t \<noteq> Free"
  shows "reserveIdempotencyKey all_up id (request_workspace req) (request_key req) route t =
    (t, read_reservation (select_reservation (request_workspace req) (request_key req) t))"
proof -
  have "\<not> snd (insert_reservation (request_workspace req) (request_key req) route t)"
    using assms(2) by (simp add: claim_won_iff slot_of_request_def)
  then have "insert_reservation (request_workspace req) (request_key req) route t = (t, False)"
    by (auto simp: insert_reservation_def split: if_splits)
  with assms(1) show ?thesis
    by (simp add: reserveIdempotencyKey_def guarded_def Let_def)
qed

lemma reserve_completed:
  assumes "guarded req" and "slot_of_request req t = Completed st b" and "st \<noteq> 0"
  shows "reserveIdempotencyKey all_up id (request_workspace req) (request_key req) route t = (t, Replay st b)"
proof -
  from assms(2) have "read_reservation (select_reservation (request_workspace req) (request_key req) t) = Replay st b"
    using assms(3) by (auto simp: slot_of_request_def idem_slot_def read_reservation_def split: option.splits)
  with reserve_taken [OF assms(1)] assms(2) show ?thesis by simp
qed

definition succeeded :: "response \<Rightarrow> json \<Rightarrow> bool" where
  "succeeded res b \<longleftrightarrow> 200 \<le> rs_status res \<and> rs_status res < 300 \<and> rs_body res = Some b \<and> b \<noteq> JNull"

lemma succeeded_replayable: "succeeded res b \<Longrightarrow> replayable_body res = Some b"
  by (auto simp: succeeded_def replayable_body_def split: json.splits)

lemma first_request:
  assumes "guarded req" and "idem_wf (iw_table w)" and "slot_of_request req (iw_table w) = Free"
    and "h (iw_app w) = (r, app)"
  shows "withIdempotency all_up f req route h w =
    (r, \<lparr>iw_table = settle all_up (request_workspace req) (request_key req) r
           (fst (insert_reservation (request_workspace req) (request_key req) route (iw_table w))), iw_app = app\<rparr>)"
  using assms reserve_free [OF assms(1,3), of f route]
  by (simp add: withIdempotency_def guarded_def run_handler_def Let_def)

definition demo_req :: idem_request where
  "demo_req = \<lparr>rq_method = ''POST'', rq_pathname = None, rq_key_header = Some ''k1'', rq_workspace_id = Some ''acme'',
     rq_flag = Some ''true'', rq_marker = None\<rparr>"

definition demo_ok :: response where
  "demo_ok = \<lparr>rs_status = 201, rs_body = Some (JStr ''created''), rs_replayed = False\<rparr>"

definition demo_bad :: response where
  "demo_bad = \<lparr>rs_status = 500, rs_body = None, rs_replayed = False\<rparr>"

text \<open>The demo handler counts its executions.\<close>

definition demo_handler :: "response \<Rightarrow> (nat, unit) handler" where
  "demo_handler res n = (Inr res, n + 1)"

lemma demo_guarded: "guarded demo_req" "slot_of_request demo_req [] = Free" "idem_wf []"
  by code_simp+

text \<open>
  A retry replays: once a guarded request on a free key has answered 2xx with a JSON body, a
  later request with the same workspace and key (whatever its route label and handler) gets that
  status and body, marked as replayed, and neither its handler nor the table is touched.
\<close>

theorem idempotent_replay:
  assumes "guarded req" and "idem_wf (iw_table w)" and "slot_of_request req (iw_table w) = Free"
    and "h (iw_app w) = (Inr res, app)" and "succeeded res b"
    and "withIdempotency all_up f req route h w = (r1, w1)"
  shows "r1 = Inr res \<and> iw_app w1 = app \<and>
    withIdempotency all_up id req route' h' w1 =
      (Inr \<lparr>rs_status = rs_status res, rs_body = Some b, rs_replayed = True\<rparr>, w1)"
proof -
  let ?ws = "request_workspace req" and ?k = "request_key req"
  let ?t1 = "complete_rows (?ws, ?k) (rs_status res) b (fst (insert_reservation ?ws ?k route (iw_table w)))"
  have ne: "?ws \<noteq> []" "?k \<noteq> []" using assms(1) by (auto simp: guarded_def)
  have "settle all_up ?ws ?k (Inr res) t = complete_rows (?ws, ?k) (rs_status res) b t" for t
    using assms(5) by (simp add: settle_def succeeded_replayable complete_is_complete_rows ne)
      (auto simp: succeeded_def)
  then have w1: "r1 = Inr res" "w1 = \<lparr>iw_table = ?t1, iw_app = app\<rparr>"
    using first_request [of req w h "Inr res" app f route, OF assms(1-4)] assms(6) by auto
  have "slot_of_request req ?t1 = Completed (rs_status res) b"
    using idem.claim_complete_keeps [OF assms(2), of "(?ws, ?k)"] assms(3) by (simp add: slot_of_request_def)
  moreover have "rs_status res \<noteq> 0" using assms(5) by (simp add: succeeded_def)
  ultimately have "reserveIdempotencyKey all_up id ?ws ?k route' ?t1 = (?t1, Replay (rs_status res) b)"
    by (intro reserve_completed [OF assms(1)])
  with assms(1) w1 show ?thesis
    by (simp add: withIdempotency_def guarded_def Let_def)
qed

theorem idempotent_replay_witness:
  "\<exists>w1. withIdempotency all_up id demo_req ''r'' (demo_handler demo_ok) \<lparr>iw_table = [], iw_app = 0\<rparr> = (Inr demo_ok, w1) \<and>
     iw_app w1 = 1 \<and>
     withIdempotency all_up id demo_req ''r2'' (demo_handler demo_bad) w1 =
       (Inr \<lparr>rs_status = 201, rs_body = Some (JStr ''created''), rs_replayed = True\<rparr>, w1)"
proof -
  let ?w = "\<lparr>iw_table = [], iw_app = 0 :: nat\<rparr>"
  obtain r1 w1 where eq: "withIdempotency all_up id demo_req ''r'' (demo_handler demo_ok) ?w = (r1, w1)"
    by (cases "withIdempotency all_up id demo_req ''r'' (demo_handler demo_ok) ?w")
  have ok: "succeeded demo_ok (JStr ''created'')" by (simp add: succeeded_def demo_ok_def)
  from idempotent_replay [of demo_req ?w "demo_handler demo_ok" demo_ok 1, OF _ _ _ _ ok eq, of "''r2''" "demo_handler demo_bad"]
  show ?thesis using eq demo_guarded by (auto simp: demo_handler_def demo_ok_def)
qed

text \<open>
  A failed first attempt does not pin the key: when the handler throws, answers outside 2xx, or
  answers 2xx without a JSON body, every key's state is as before the request, so a genuine retry
  executes its own handler.
\<close>

theorem idempotent_failure_releases:
  assumes "guarded req" and "idem_wf (iw_table w)" and "slot_of_request req (iw_table w) = Free"
    and "h (iw_app w) = (r, app)" and "\<nexists>res b. r = Inr res \<and> succeeded res b"
    and "withIdempotency all_up f req route h w = (r1, w1)"
    and "h' (iw_app w1) = (r', app')"
  shows "r1 = r \<and> idem_slot (iw_table w1) = idem_slot (iw_table w) \<and>
    fst (withIdempotency all_up f req route h' w1) = r'"
proof -
  let ?ws = "request_workspace req" and ?k = "request_key req"
  let ?t0 = "fst (insert_reservation ?ws ?k route (iw_table w))"
  have ne: "?ws \<noteq> []" "?k \<noteq> []" using assms(1) by (auto simp: guarded_def)
  have set: "settle all_up ?ws ?k r ?t0 = release_rows (?ws, ?k) ?t0"
  proof (cases r)
    case (Inl e)
    then show ?thesis by (simp add: settle_def release_is_release_rows ne)
  next
    case (Inr res)
    have "replayable_body res = Some b \<Longrightarrow> \<not> (200 \<le> rs_status res \<and> rs_status res < 300)" for b
      using assms(5) Inr by (auto simp: succeeded_def replayable_body_def split: option.splits json.splits)
    with Inr show ?thesis
      by (auto simp: settle_def release_is_release_rows ne split: option.splits)
  qed
  have w1: "r1 = r" "w1 = \<lparr>iw_table = release_rows (?ws, ?k) ?t0, iw_app = app\<rparr>"
    using first_request [of req w h r app f route, OF assms(1-4)] assms(6) set by auto
  have slots: "idem_slot (iw_table w1) = idem_slot (iw_table w)"
    using idem.claim_release_restores [OF assms(2), where k = "(?ws, ?k)" and route = route] assms(3)
    by (auto simp: w1 slot_of_request_def intro!: ext)
  have wf1: "idem_wf (iw_table w1)"
    using idem.invar_release [OF idem.invar_claim [OF assms(2), where k = "(?ws, ?k)" and route = route]] by (simp add: w1)
  have "slot_of_request req (iw_table w1) = Free" using slots assms(3) by (simp add: slot_of_request_def)
  from first_request [of req w1 h' r' app' f route, OF assms(1) wf1 this assms(7)] slots w1(1) show ?thesis by simp
qed

theorem idempotent_failure_releases_witness:
  "\<exists>w1. withIdempotency all_up id demo_req ''r'' (demo_handler demo_bad) \<lparr>iw_table = [], iw_app = 0\<rparr> = (Inr demo_bad, w1) \<and>
     fst (withIdempotency all_up id demo_req ''r'' (demo_handler demo_ok) w1) = Inr demo_ok"
proof -
  let ?w = "\<lparr>iw_table = [], iw_app = 0 :: nat\<rparr>"
  obtain r1 w1 where eq: "withIdempotency all_up id demo_req ''r'' (demo_handler demo_bad) ?w = (r1, w1)"
    by (cases "withIdempotency all_up id demo_req ''r'' (demo_handler demo_bad) ?w")
  have bad: "\<nexists>res b. Inr demo_bad = (Inr res :: unit + response) \<and> succeeded res b"
    by (simp add: succeeded_def demo_bad_def)
  from idempotent_failure_releases [of demo_req ?w "demo_handler demo_bad" "Inr demo_bad" 1, OF _ _ _ _ bad eq,
      of "demo_handler demo_ok" "Inr demo_ok" "iw_app w1 + 1"]
  show ?thesis using eq demo_guarded by (auto simp: demo_handler_def)
qed

text \<open>
  The guard never costs availability: if the reservation statement fails, or the flag is off, or
  no key is sent, the caller gets exactly the handler's outcome and the handler's effect.
\<close>

theorem idempotency_fails_open:
  assumes "\<not> ft_insert_up ft \<or> \<not> guarded req"
  shows "fst (withIdempotency ft f req route h w) = fst (h (iw_app w)) \<and>
    iw_app (snd (withIdempotency ft f req route h w)) = snd (h (iw_app w))"
  using assms
  by (auto simp: withIdempotency_def guarded_def run_handler_def reserveIdempotencyKey_def Let_def
      case_prod_unfold)

theorem idempotency_fails_open_witness:
  "fst (withIdempotency (all_up\<lparr>ft_insert_up := False\<rparr>) id demo_req ''r'' (demo_handler demo_ok)
     \<lparr>iw_table = [], iw_app = 0\<rparr>) = Inr demo_ok"
  using idempotency_fails_open [of "all_up\<lparr>ft_insert_up := False\<rparr>" demo_req id "''r''" "demo_handler demo_ok"
      "\<lparr>iw_table = [], iw_app = 0\<rparr>"]
  by (simp add: demo_handler_def)

section \<open>Interleaved requests with one key\<close>

text \<open>
  Requests are numbered; each is before its INSERT, between a lost INSERT and its SELECT, running
  the handler, or answered. With \<open>racy\<close> the step exists in which the row has vanished by the time of
  the SELECT, because its holder released it in between. With \<open>faulty\<close> any one of the four
  statements may throw, which the store catches: a failed INSERT or SELECT counts as owned, a failed
  UPDATE or DELETE leaves the row.
\<close>

datatype phase =
    Ready
  | Lost
  | Running
  | Succeeded int json
  | Failed
  | Refused
  | Replayed int json

record idem_sys =
  sy_table :: idem_table
  sy_phase :: "nat \<Rightarrow> phase"

inductive idem_step :: "bool \<Rightarrow> bool \<Rightarrow> string \<times> string \<Rightarrow> idem_sys \<Rightarrow> idem_sys \<Rightarrow> bool"
  for racy faulty :: bool and key :: "string \<times> string" where
  win: "sy_phase s i = Ready \<Longrightarrow> insert_reservation (fst key) (snd key) route (sy_table s) = (t, True) \<Longrightarrow>
     idem_step racy faulty key s (s\<lparr>sy_table := t, sy_phase := (sy_phase s)(i := Running)\<rparr>)"
| lose: "sy_phase s i = Ready \<Longrightarrow> insert_reservation (fst key) (snd key) route (sy_table s) = (t, False) \<Longrightarrow>
     idem_step racy faulty key s (s\<lparr>sy_table := t, sy_phase := (sy_phase s)(i := Lost)\<rparr>)"
| pending: "sy_phase s i = Lost \<Longrightarrow>
     read_reservation (select_reservation (fst key) (snd key) (sy_table s)) = In_progress \<Longrightarrow>
     idem_step racy faulty key s (s\<lparr>sy_phase := (sy_phase s)(i := Refused)\<rparr>)"
| replay: "sy_phase s i = Lost \<Longrightarrow>
     read_reservation (select_reservation (fst key) (snd key) (sy_table s)) = Replay st b \<Longrightarrow>
     idem_step racy faulty key s (s\<lparr>sy_phase := (sy_phase s)(i := Replayed st b)\<rparr>)"
| vanished: "racy \<Longrightarrow> sy_phase s i = Lost \<Longrightarrow>
     read_reservation (select_reservation (fst key) (snd key) (sy_table s)) = Owned \<Longrightarrow>
     idem_step racy faulty key s (s\<lparr>sy_phase := (sy_phase s)(i := Running)\<rparr>)"
| insert_failed: "faulty \<Longrightarrow> sy_phase s i = Ready \<Longrightarrow>
     idem_step racy faulty key s (s\<lparr>sy_phase := (sy_phase s)(i := Running)\<rparr>)"
| finish: "sy_phase s i = Running \<Longrightarrow> st \<noteq> 0 \<Longrightarrow>
     idem_step racy faulty key s (s\<lparr>sy_table := complete_rows key st b (sy_table s),
                            sy_phase := (sy_phase s)(i := Succeeded st b)\<rparr>)"
| abort: "sy_phase s i = Running \<Longrightarrow>
     idem_step racy faulty key s (s\<lparr>sy_table := release_rows key (sy_table s),
                            sy_phase := (sy_phase s)(i := Failed)\<rparr>)"
| select_failed: "faulty \<Longrightarrow> sy_phase s i = Lost \<Longrightarrow>
     idem_step racy faulty key s (s\<lparr>sy_phase := (sy_phase s)(i := Running)\<rparr>)"
| complete_failed: "faulty \<Longrightarrow> sy_phase s i = Running \<Longrightarrow>
     idem_step racy faulty key s (s\<lparr>sy_phase := (sy_phase s)(i := Succeeded st b)\<rparr>)"
| release_failed: "faulty \<Longrightarrow> sy_phase s i = Running \<Longrightarrow>
     idem_step racy faulty key s (s\<lparr>sy_phase := (sy_phase s)(i := Failed)\<rparr>)"

inductive idem_reachable :: "bool \<Rightarrow> bool \<Rightarrow> string \<times> string \<Rightarrow> idem_sys \<Rightarrow> bool"
  for racy faulty :: bool and key :: "string \<times> string" where
  start: "idem_reachable racy faulty key \<lparr>sy_table = [], sy_phase = (\<lambda>_. Ready)\<rparr>"
| step: "idem_reachable racy faulty key s \<Longrightarrow> idem_step racy faulty key s s' \<Longrightarrow> idem_reachable racy faulty key s'"

inductive_cases idem_stepE: "idem_step racy faulty key s s'"















definition demo_row :: "string \<times> string \<Rightarrow> idem_row" where
  "demo_row key = \<lparr>ik_workspace_id = fst key, ik_key = snd key, ik_route = [], ik_mode = ORDINARY,
     ik_response_status = None, ik_response_body = JNull\<rparr>"

lemma insert_into_empty: "insert_reservation (fst key) (snd key) [] [] = ([demo_row key], True)"
  by (simp add: insert_reservation_def demo_row_def js_trim_def)

lemma insert_into_held: "insert_reservation (fst key) (snd key) [] [demo_row key] = ([demo_row key], False)"
  by (simp add: insert_reservation_def demo_row_def is_slot_def)

lemma release_held: "release_rows key [demo_row key] = []"
  by (simp add: release_rows_def demo_row_def is_slot_def case_prod_unfold)

abbreviation sys :: "idem_table \<Rightarrow> (nat \<Rightarrow> phase) \<Rightarrow> idem_sys" where
  "sys t p \<equiv> \<lparr>sy_table = t, sy_phase = p\<rparr>"

lemma reach_win:
  assumes "idem_reachable racy faulty key (sys [] p)" and "p i = Ready"
  shows "idem_reachable racy faulty key (sys [demo_row key] (p(i := Running)))"
  using idem_reachable.step [OF assms(1) idem_step.win [where i = i and route = "[]" and t = "[demo_row key]"]]
    assms(2) insert_into_empty
  by simp

lemma reach_lose:
  assumes "idem_reachable racy faulty key (sys [demo_row key] p)" and "p i = Ready"
  shows "idem_reachable racy faulty key (sys [demo_row key] (p(i := Lost)))"
  using idem_reachable.step [OF assms(1) idem_step.lose [where i = i and route = "[]" and t = "[demo_row key]"]]
    assms(2) insert_into_held
  by simp

lemma reach_abort:
  assumes "idem_reachable racy faulty key (sys [demo_row key] p)" and "p i = Running"
  shows "idem_reachable racy faulty key (sys [] (p(i := Failed)))"
  using idem_reachable.step [OF assms(1) idem_step.abort [where i = i]] assms(2) release_held
  by simp

lemma reach_vanished:
  assumes "idem_reachable True faulty key (sys [] p)" and "p i = Lost"
  shows "idem_reachable True faulty key (sys [] (p(i := Running)))"
  using idem_reachable.step [OF assms(1) idem_step.vanished [where i = i]] assms(2)
  by (simp add: read_reservation_def select_reservation_def)



text \<open>
  The fail-open path for a vanished row breaks that guarantee: for every key there is an
  interleaving with no failing statement in which two requests execute at the same time. The first
  holder releases its reservation between the loser's INSERT and SELECT, the loser then executes
  without a reservation, and a third request wins a fresh one.
\<close>

theorem idempotency_vanished_row_race:
  "\<exists>s. idem_reachable True False key s \<and> sy_phase s 1 = Running \<and> sy_phase s 2 = Running"
proof -
  have "idem_reachable True False key
      (sys [demo_row key] ((\<lambda>_. Ready)(0 := Running, 1 := Lost, 0 := Failed, 1 := Running, 2 := Running)))"
    by (intro reach_win reach_vanished reach_abort reach_lose idem_reachable.start) simp_all
  then show ?thesis by (intro exI conjI) (assumption, simp_all)
qed

end
