(* ===== verification/Rate_Limit.thy ===== *)
theory Rate_Limit
  imports Permissions
begin

text \<open>
  The rate-limit middleware, \<^verbatim>\<open>middleware/rate-limit.ts\<close>: the in-isolate fallback token bucket,
  the choice between it and a native binding, and the layered check of the IP, user, tenant and
  route buckets.

  The module-level \<^verbatim>\<open>fallbackBuckets\<close> map is explicit state. The native Cloudflare binding is not
  code of this repository: it is the argument \<open>native\<close>, which gives for a binding name the answers
  of that binding to this request, or \<open>None\<close> where no such binding is configured. The clock is
  read once per bucket check, so it is an argument indexed by the bucket. The locale
  \<open>metered_keys\<close> is what a window-based token bucket promises, interpreted on the fallback map.
\<close>

section \<open>Buckets\<close>

record bucket_config =
  bk_limit :: int
  bk_periodSeconds :: int
  bk_bindingName :: "string option"

record bucket_entry =
  be_tokens :: int
  be_refillAt :: int

type_synonym fallback_buckets = "string \<rightharpoonup> bucket_entry"

datatype bucket_kind = B_ip | B_user | B_tenant | B_route

fun kind_str :: "bucket_kind \<Rightarrow> string" where
  "kind_str B_ip = ''ip''"
| "kind_str B_user = ''user''"
| "kind_str B_tenant = ''tenant''"
| "kind_str B_route = ''route''"

definition checkFallbackBucket ::
  "int \<Rightarrow> string \<Rightarrow> bucket_config \<Rightarrow> fallback_buckets \<Rightarrow> fallback_buckets \<times> bool" where
  "checkFallbackBucket now key bucket m =
     (let fresh = \<lparr>be_tokens = bk_limit bucket - 1, be_refillAt = now + bk_periodSeconds bucket * 1000\<rparr>
      in case m key of
           None \<Rightarrow> (m(key \<mapsto> fresh), True)
         | Some entry \<Rightarrow>
             if now > be_refillAt entry then (m(key \<mapsto> fresh), True)
             else if be_tokens entry > 0 then (m(key \<mapsto> entry\<lparr>be_tokens := be_tokens entry - 1\<rparr>), True)
             else (m, False))"

datatype binding = Cloudflare | Fallback

definition native_binding :: "(string \<Rightarrow> (string \<Rightarrow> bool) option) \<Rightarrow> bucket_config \<Rightarrow> (string \<Rightarrow> bool) option" where
  "native_binding native bucket =
     (if truthy (bk_bindingName bucket) then native (coalesce (bk_bindingName bucket) []) else None)"

definition checkBucket ::
  "(string \<Rightarrow> (string \<Rightarrow> bool) option) \<Rightarrow> int \<Rightarrow> bucket_config \<Rightarrow> string \<Rightarrow> fallback_buckets
     \<Rightarrow> fallback_buckets \<times> bool \<times> binding" where
  "checkBucket native now bucket key m =
     (case native_binding native bucket of
        Some answer \<Rightarrow> (m, answer key, Cloudflare)
      | None \<Rightarrow>
          (let (m', allowed) = checkFallbackBucket now (coalesce (bk_bindingName bucket) ''anon'' @ '':'' @ key) bucket m
           in (m', allowed, Fallback)))"

section \<open>Configuration\<close>

record rate_limit_config =
  uc_ip :: "bucket_config option"
  uc_authenticatedIp :: "bucket_config option"
  uc_user :: "bucket_config option"
  uc_tenant :: "bucket_config option"
  uc_routeBucket :: "bucket_config option"
  uc_skipRoutes :: "string list option"

record resolved_config =
  rc_ip :: bucket_config
  rc_authenticatedIp :: bucket_config
  rc_user :: bucket_config
  rc_tenant :: bucket_config
  rc_routeBucket :: "bucket_config option"
  rc_skipRoutes :: "string list"

definition DEFAULT_CONFIG :: resolved_config where
  "DEFAULT_CONFIG =
     \<lparr>rc_ip = \<lparr>bk_limit = 100, bk_periodSeconds = 60, bk_bindingName = Some ''RATE_LIMITER_IP''\<rparr>,
      rc_authenticatedIp = \<lparr>bk_limit = 1000, bk_periodSeconds = 60, bk_bindingName = Some ''RATE_LIMITER_AUTH_IP''\<rparr>,
      rc_user = \<lparr>bk_limit = 1000, bk_periodSeconds = 60, bk_bindingName = Some ''RATE_LIMITER_USER''\<rparr>,
      rc_tenant = \<lparr>bk_limit = 5000, bk_periodSeconds = 60, bk_bindingName = Some ''RATE_LIMITER_TENANT''\<rparr>,
      rc_routeBucket = None,
      rc_skipRoutes = [''/api/v1/health'']\<rparr>"

definition empty_user_config :: rate_limit_config where
  "empty_user_config = \<lparr>uc_ip = None, uc_authenticatedIp = None, uc_user = None, uc_tenant = None,
     uc_routeBucket = None, uc_skipRoutes = None\<rparr>"

text \<open>\<^verbatim>\<open>{ ...default, ...(user ?? {}) }\<close>: only the optional binding name can be inherited.\<close>

definition merge_bucket :: "bucket_config \<Rightarrow> bucket_config option \<Rightarrow> bucket_config" where
  "merge_bucket d u =
     (case u of
        None \<Rightarrow> d
      | Some b \<Rightarrow> b\<lparr>bk_bindingName := (case bk_bindingName b of None \<Rightarrow> bk_bindingName d | Some n \<Rightarrow> Some n)\<rparr>)"

definition resolve_config :: "rate_limit_config \<Rightarrow> resolved_config" where
  "resolve_config u =
     \<lparr>rc_ip = merge_bucket (rc_ip DEFAULT_CONFIG) (uc_ip u),
      rc_authenticatedIp = merge_bucket (rc_authenticatedIp DEFAULT_CONFIG) (uc_authenticatedIp u),
      rc_user = merge_bucket (rc_user DEFAULT_CONFIG) (uc_user u),
      rc_tenant = merge_bucket (rc_tenant DEFAULT_CONFIG) (uc_tenant u),
      rc_routeBucket = uc_routeBucket u,
      rc_skipRoutes = coalesce (uc_skipRoutes u) (rc_skipRoutes DEFAULT_CONFIG)\<rparr>"

section \<open>The middleware\<close>

record rl_request =
  rl_path :: string
  rl_cf_connecting_ip :: "string option"
  rl_x_forwarded_for :: "string option"
  rl_authorization :: "string option"
  rl_user_id :: "string option"
  rl_workspace_id :: "string option"
  rl_request_id :: "string option"

record rl_response =
  rr_status :: int
  rr_retry_after :: string
  rr_limit :: string
  rr_remaining :: string
  rr_bucket :: string
  rr_body :: json

datatype rl_outcome = Proceed | Limited rl_response

definition resolveIp :: "rl_request \<Rightarrow> string" where
  "resolveIp req =
     (if truthy (rl_cf_connecting_ip req) then coalesce (rl_cf_connecting_ip req) []
      else if truthy (rl_x_forwarded_for req)
           then js_trim (hd (js_split CHR '','' (coalesce (rl_x_forwarded_for req) [])))
      else ''unknown'')"

definition resolveUserId :: "rl_request \<Rightarrow> string option" where
  "resolveUserId req = rl_user_id req"

definition resolveTenantId :: "rl_request \<Rightarrow> string option" where
  "resolveTenantId req = rl_workspace_id req"

text \<open>\<^verbatim>\<open>/^Bearer\s+\S/i\<close>.\<close>

definition claimsIdentity :: "rl_request \<Rightarrow> bool" where
  "claimsIdentity req =
     (let h = or_else (rl_authorization req) []; rest = drop 6 h
      in js_lower (take 6 h) = ''bearer'' \<and> rest \<noteq> [] \<and> is_ws (hd rest) \<and> dropWhile is_ws rest \<noteq> [])"

definition rateLimitResponse :: "rl_request \<Rightarrow> bucket_kind \<Rightarrow> bucket_config \<Rightarrow> rl_response" where
  "rateLimitResponse req kind cfg =
     \<lparr>rr_status = 429,
      rr_retry_after = show_int (bk_periodSeconds cfg),
      rr_limit = show_int (bk_limit cfg),
      rr_remaining = ''0'',
      rr_bucket = kind_str kind,
      rr_body = JObj
        [(''error'', JStr (''Rate limit exceeded on '' @ kind_str kind @ '' bucket ('' @ show_int (bk_limit cfg) @ ''/''
                           @ show_int (bk_periodSeconds cfg) @ ''s)'')),
         (''code'', JStr ''RATE_LIMIT_EXCEEDED''),
         (''request_id'', JStr (or_else (rl_request_id req) [])),
         (''bucket'', JStr (kind_str kind)),
         (''retry_after_seconds'', JNum (of_int (bk_periodSeconds cfg)))]\<rparr>"

definition skipped :: "resolved_config \<Rightarrow> rl_request \<Rightarrow> bool" where
  "skipped config req =
     list_ex (\<lambda>skip. rl_path req = skip \<or> js_ends_with (rl_path req) skip) (rc_skipRoutes config)"

text \<open>
  The checks that apply to a request, in the order of the source: each is a bucket kind, its
  configuration and its key.
\<close>

definition applicable_checks :: "resolved_config \<Rightarrow> rl_request \<Rightarrow> (bucket_kind \<times> bucket_config \<times> string) list" where
  "applicable_checks config req =
     (let ip = resolveIp req; userId = resolveUserId req; tenantId = resolveTenantId req
      in [(B_ip, if claimsIdentity req then rc_authenticatedIp config else rc_ip config, ''ip:'' @ ip)]
         @ (if truthy userId then [(B_user, rc_user config, ''user:'' @ coalesce userId [])] else [])
         @ (if truthy tenantId then [(B_tenant, rc_tenant config, ''tenant:'' @ coalesce tenantId [])] else [])
         @ (case rc_routeBucket config of
              None \<Rightarrow> []
            | Some b \<Rightarrow>
                [(B_route, b,
                  if truthy userId then ''route:'' @ rl_path req @ '':'' @ coalesce userId []
                  else ''route:'' @ rl_path req @ '':ip:'' @ ip)]))"

text \<open>Awaiting the checks one by one; the first refusal answers and the rest are not consulted.\<close>

fun run_bucket_checks ::
  "(string \<Rightarrow> (string \<Rightarrow> bool) option) \<Rightarrow> (bucket_kind \<Rightarrow> int) \<Rightarrow> rl_request
     \<Rightarrow> (bucket_kind \<times> bucket_config \<times> string) list \<Rightarrow> fallback_buckets \<Rightarrow> fallback_buckets \<times> rl_outcome" where
  "run_bucket_checks native clock req [] m = (m, Proceed)"
| "run_bucket_checks native clock req ((kind, cfg, key) # rest) m =
     (let (m', allowed, _) = checkBucket native (clock kind) cfg key m
      in if \<not> allowed then (m', Limited (rateLimitResponse req kind cfg))
         else run_bucket_checks native clock req rest m')"

definition rateLimit ::
  "rate_limit_config \<Rightarrow> (string \<Rightarrow> (string \<Rightarrow> bool) option) \<Rightarrow> (bucket_kind \<Rightarrow> int) \<Rightarrow> rl_request
     \<Rightarrow> fallback_buckets \<Rightarrow> fallback_buckets \<times> rl_outcome" where
  "rateLimit userConfig native clock req m =
     (let config = resolve_config userConfig
      in if skipped config req then (m, Proceed)
         else run_bucket_checks native clock req (applicable_checks config req) m)"

definition rateLimitWhenFlag ::
  "string option \<Rightarrow> rate_limit_config \<Rightarrow> (string \<Rightarrow> (string \<Rightarrow> bool) option) \<Rightarrow> (bucket_kind \<Rightarrow> int) \<Rightarrow> rl_request
     \<Rightarrow> fallback_buckets \<Rightarrow> fallback_buckets \<times> rl_outcome" where
  "rateLimitWhenFlag flag userConfig native clock req m =
     (if envFlagTrue flag then rateLimit userConfig native clock req m else (m, Proceed))"

section \<open>What a window bucket promises\<close>

text \<open>How many of the checks of key \<open>k\<close> in a sequence of timed checks are granted.\<close>

fun grants :: "(int \<Rightarrow> 'k \<Rightarrow> 's \<Rightarrow> 's \<times> bool) \<Rightarrow> 'k \<Rightarrow> (int \<times> 'k) list \<Rightarrow> 's \<Rightarrow> int" where
  "grants check k [] s = 0"
| "grants check k ((t, k') # evs) s =
     (let (s', ok) = check t k' s in (if k' = k \<and> ok then 1 else 0) + grants check k evs s')"

definition hits :: "'k \<Rightarrow> (int \<times> 'k) list \<Rightarrow> int" where
  "hits k evs = int (length (filter (\<lambda>e. snd e = k) evs))"

lemma hits_simps [simp]:
  "hits k [] = 0" "hits k ((t, k') # evs) = (if k' = k then 1 else 0) + hits k evs"
  by (simp_all add: hits_def)

lemma hits_nonneg [simp]: "0 \<le> hits k evs"
  by (simp add: hits_def)

locale metered_keys =
  fixes check :: "int \<Rightarrow> 'k \<Rightarrow> 's \<Rightarrow> 's \<times> bool"
    and meter :: "'s \<Rightarrow> 'k \<Rightarrow> (int \<times> int) option"
    and limit :: int
    and period :: int
  assumes opens: "meter s k = None \<or> (\<exists>n r. meter s k = Some (n, r) \<and> r < now) \<Longrightarrow>
      snd (check now k s) \<and> meter (fst (check now k s)) k = Some (limit - 1, now + period)"
    and spends: "meter s k = Some (n, r) \<Longrightarrow> now \<le> r \<Longrightarrow> 0 < n \<Longrightarrow>
      snd (check now k s) \<and> meter (fst (check now k s)) k = Some (n - 1, r)"
    and refuses: "meter s k = Some (n, r) \<Longrightarrow> now \<le> r \<Longrightarrow> n \<le> 0 \<Longrightarrow>
      \<not> snd (check now k s) \<and> meter (fst (check now k s)) k = Some (n, r)"
    and others: "k' \<noteq> k \<Longrightarrow> meter (fst (check now k s)) k' = meter s k'"
begin

lemma within_window:
  assumes "meter s k = Some (n, r)" and "0 \<le> n" and "\<And>e. e \<in> set evs \<Longrightarrow> fst e \<le> r"
  shows "grants check k evs s = min n (hits k evs)"
  using assms
proof (induction evs arbitrary: s n)
  case (Cons e evs)
  obtain t k' where e: "e = (t, k')" by (cases e)
  have t: "t \<le> r" using Cons.prems(3) [of e] e by simp
  have rest: "\<And>e. e \<in> set evs \<Longrightarrow> fst e \<le> r" using Cons.prems(3) by simp
  show ?case
  proof (cases "k' = k")
    case False
    with others [of k k' t s] Cons.prems have "meter (fst (check t k' s)) k = Some (n, r)" by simp
    from Cons.IH [OF this \<open>0 \<le> n\<close> rest] False show ?thesis by (simp add: e case_prod_unfold)
  next
    case same: True
    show ?thesis
    proof (cases "0 < n")
      case True
      from spends [OF Cons.prems(1) t True] have *: "snd (check t k s)" "meter (fst (check t k s)) k = Some (n - 1, r)" by auto
      from Cons.IH [OF *(2) _ rest] True *(1) same show ?thesis by (simp add: e case_prod_unfold)
    next
      case False
      with Cons.prems(2) have n: "n = 0" by simp
      from refuses [OF Cons.prems(1) t] n have *: "\<not> snd (check t k s)" "meter (fst (check t k s)) k = Some (0, r)" by auto
      from Cons.IH [OF *(2) _ rest] n *(1) same hits_nonneg [of k evs] show ?thesis by (simp add: e case_prod_unfold)
    qed
  qed
qed simp

text \<open>On opening a window all its later checks fall inside it when they are within a period.\<close>

lemma opened_window:
  assumes "meter s k = None \<or> (\<exists>n r. meter s k = Some (n, r) \<and> r < t)" and "1 \<le> limit" and "start \<le> t"
    and "\<And>e. e \<in> set evs \<Longrightarrow> fst e \<le> start + period"
  shows "grants check k ((t, k) # evs) s = min limit (1 + hits k evs)"
proof -
  from opens [OF assms(1)] have *: "snd (check t k s)" "meter (fst (check t k s)) k = Some (limit - 1, t + period)" by auto
  have "fst e \<le> t + period" if "e \<in> set evs" for e using assms(4) [OF that] assms(3) by simp
  from within_window [OF *(2) _ this] assms(2) *(1) show ?thesis by (simp add: case_prod_unfold)
qed

lemma fresh_window:
  assumes "meter s k = None" and "1 \<le> limit"
    and "\<And>e. e \<in> set evs \<Longrightarrow> start \<le> fst e \<and> fst e \<le> start + period"
  shows "grants check k evs s = min limit (hits k evs)"
  using assms
proof (induction evs arbitrary: s)
  case (Cons e evs)
  obtain t k' where e: "e = (t, k')" by (cases e)
  show ?case
  proof (cases "k' = k")
    case True
    have "start \<le> t" "\<And>e. e \<in> set evs \<Longrightarrow> fst e \<le> start + period"
      using Cons.prems(3) [of e] Cons.prems(3) e by simp_all
    from opened_window [OF _ \<open>1 \<le> limit\<close> this, of s k] Cons.prems(1) True show ?thesis by (simp add: e)
  next
    case False
    with others [of k k' t s] Cons.prems have "meter (fst (check t k' s)) k = None" by simp
    from Cons.IH [OF this \<open>1 \<le> limit\<close>] False Cons.prems(3) show ?thesis by (simp add: e case_prod_unfold)
  qed
qed simp

lemma sliding_window:
  assumes "meter s k = Some (n, r)" and "0 \<le> n" and "1 \<le> limit"
    and "\<And>e. e \<in> set evs \<Longrightarrow> start \<le> fst e \<and> fst e \<le> start + period"
  shows "grants check k evs s \<le> n + limit"
  using assms
proof (induction evs arbitrary: s n)
  case (Cons e evs)
  obtain t k' where e: "e = (t, k')" by (cases e)
  have rest: "\<And>e. e \<in> set evs \<Longrightarrow> start \<le> fst e \<and> fst e \<le> start + period" using Cons.prems(4) by simp
  consider "k' \<noteq> k" | "k' = k" "r < t" | "k' = k" "t \<le> r" "0 < n" | "k' = k" "t \<le> r" "n = 0"
    using Cons.prems(2) by linarith
  then show ?case
  proof cases
    case 1
    with others [of k k' t s] Cons.prems have "meter (fst (check t k' s)) k = Some (n, r)" by simp
    from Cons.IH [OF this \<open>0 \<le> n\<close> \<open>1 \<le> limit\<close> rest] 1 show ?thesis by (simp add: e case_prod_unfold)
  next
    case 2
    have "start \<le> t" "\<And>e. e \<in> set evs \<Longrightarrow> fst e \<le> start + period"
      using Cons.prems(4) [of e] Cons.prems(4) e by simp_all
    from opened_window [OF _ \<open>1 \<le> limit\<close> this, of s k] 2 Cons.prems(1,2) show ?thesis by (simp add: e)
  next
    case 3
    with spends [OF Cons.prems(1)] have *: "snd (check t k s)" "meter (fst (check t k s)) k = Some (n - 1, r)" by auto
    from Cons.IH [OF *(2) _ \<open>1 \<le> limit\<close> rest] 3 *(1) show ?thesis by (simp add: e case_prod_unfold)
  next
    case 4
    with refuses [OF Cons.prems(1)] have *: "\<not> snd (check t k s)" "meter (fst (check t k s)) k = Some (0, r)" by auto
    from Cons.IH [OF *(2) _ \<open>1 \<le> limit\<close> rest] 4 *(1) show ?thesis by (simp add: e case_prod_unfold)
  qed
qed simp

end

definition meter_of :: "fallback_buckets \<Rightarrow> string \<Rightarrow> (int \<times> int) option" where
  "meter_of m k = map_option (\<lambda>e. (be_tokens e, be_refillAt e)) (m k)"

interpretation fallback: metered_keys
  "\<lambda>now k. checkFallbackBucket now k cfg" meter_of "bk_limit cfg" "bk_periodSeconds cfg * 1000" for cfg
  by unfold_locales (auto simp: checkFallbackBucket_def meter_of_def Let_def split: option.splits)


section \<open>Properties\<close>

text \<open>
  Checks of one isolate: an instant, a key and the configuration of the caller. Callers may share a key and differ in the limit:
  the mounts of the signup funnel and of the OAuth endpoints do.
\<close>

type_synonym timed_check = "int \<times> string \<times> bucket_config"

fun after_checks :: "timed_check list \<Rightarrow> fallback_buckets \<Rightarrow> fallback_buckets" where
  "after_checks [] m = m"
| "after_checks ((t, k, cfg) # cs) m = after_checks cs (fst (checkFallbackBucket t k cfg m))"

fun granted :: "string \<Rightarrow> timed_check list \<Rightarrow> fallback_buckets \<Rightarrow> int" where
  "granted key [] m = 0"
| "granted key ((t, k, cfg) # cs) m =
     (if k = key \<and> snd (checkFallbackBucket t k cfg m) then 1 else 0) + granted key cs (fst (checkFallbackBucket t k cfg m))"

definition of_key :: "string \<Rightarrow> timed_check list \<Rightarrow> (int \<times> bucket_config) list" where
  "of_key key cs = map (\<lambda>(t, k, cfg). (t, cfg)) (filter (\<lambda>(t, k, cfg). k = key) cs)"

lemma of_key_simps [simp]: "of_key key [] = []" "of_key key ((t, k, cfg) # cs) = (if k = key then [(t, cfg)] else []) @ of_key key cs"
  by (simp_all add: of_key_def)

lemma check_other [simp]: "k \<noteq> key \<Longrightarrow> fst (checkFallbackBucket t k cfg m) key = m key"
  by (auto simp: checkFallbackBucket_def Let_def split: option.split)

text \<open>No more tokens are stored than a window of the largest limit leaves.\<close>

definition stored :: "string \<Rightarrow> fallback_buckets \<Rightarrow> int" where
  "stored key m = (case m key of None \<Rightarrow> 0 | Some e \<Rightarrow> max 0 (be_tokens e))"

lemma check_stored:
  assumes "stored key m \<le> L - 1" and "1 \<le> L" and "k = key \<Longrightarrow> bk_limit cfg \<le> L"
  shows "stored key (fst (checkFallbackBucket t k cfg m)) \<le> L - 1"
  using assms by (cases "k = key") (auto simp: stored_def checkFallbackBucket_def Let_def split: option.splits)

lemma after_checks_stored:
  assumes "stored key m \<le> L - 1" and "1 \<le> L" and "\<forall>(t, cfg) \<in> set (of_key key cs). bk_limit cfg \<le> L"
  shows "stored key (after_checks cs m) \<le> L - 1"
  using assms
proof (induction cs arbitrary: m)
  case (Cons c cs)
  obtain t k cfg where c: "c = (t, k, cfg)" by (cases c)
  have "stored key (fst (checkFallbackBucket t k cfg m)) \<le> L - 1"
    using Cons.prems by (intro check_stored) (auto simp: c)
  from Cons.IH [OF this Cons.prems(2)] Cons.prems(3) show ?case by (auto simp: c split: if_splits)
qed simp

text \<open>Within a window nothing is granted but its tokens.\<close>

lemma granted_within:
  assumes "m key = Some e" and "\<forall>(t, cfg) \<in> set (of_key key cs). t \<le> be_refillAt e"
  shows "granted key cs m \<le> stored key m"
  using assms
proof (induction cs arbitrary: m e)
  case (Cons c cs)
  obtain t k cfg where c: "c = (t, k, cfg)" by (cases c)
  let ?m = "fst (checkFallbackBucket t k cfg m)"
  show ?case
  proof (cases "k = key")
    case False
    with Cons.prems have "?m key = Some e" "\<forall>(t, cfg) \<in> set (of_key key cs). t \<le> be_refillAt e" by (simp_all add: c)
    from Cons.IH [where m = ?m, OF this] False show ?thesis by (simp add: c stored_def)
  next
    case True
    with Cons.prems have t: "t \<le> be_refillAt e" and rest: "\<forall>(t, cfg) \<in> set (of_key key cs). t \<le> be_refillAt e" by (simp_all add: c)
    show ?thesis
    proof (cases "0 < be_tokens e")
      case pos: True
      have m: "?m key = Some (e\<lparr>be_tokens := be_tokens e - 1\<rparr>)"
        using True t pos Cons.prems(1) by (simp add: checkFallbackBucket_def Let_def)
      from Cons.IH [where m = ?m, OF m] rest have "granted key cs ?m \<le> stored key ?m" by simp
      with m pos Cons.prems(1) True show ?thesis by (simp add: c stored_def)
    next
      case none: False
      have m: "?m = m \<and> \<not> snd (checkFallbackBucket t k cfg m)"
        using True t none Cons.prems(1) by (simp add: checkFallbackBucket_def Let_def)
      with Cons.IH [where m = m, OF Cons.prems(1) rest] True show ?thesis by (simp add: c)
    qed
  qed
qed (auto simp: stored_def split: option.split)

lemma granted_period:
  assumes "stored key m \<le> L - 1" and "1 \<le> L"
    and "\<forall>(t, cfg) \<in> set (of_key key cs). bk_limit cfg \<le> L \<and> start \<le> t \<and> t \<le> start + P \<and> P \<le> bk_periodSeconds cfg * 1000"
  shows "granted key cs m \<le> stored key m + L"
  using assms
proof (induction cs arbitrary: m)
  case Nil
  then show ?case by (auto simp: stored_def split: option.split)
next
  case (Cons c cs)
  obtain t k cfg where c: "c = (t, k, cfg)" by (cases c)
  let ?m = "fst (checkFallbackBucket t k cfg m)"
  have rest: "\<forall>(t, cfg) \<in> set (of_key key cs). bk_limit cfg \<le> L \<and> start \<le> t \<and> t \<le> start + P \<and> P \<le> bk_periodSeconds cfg * 1000"
    using Cons.prems(3) by (simp add: c split: if_splits)
  have st: "stored key ?m \<le> L - 1" using Cons.prems by (intro check_stored) (auto simp: c)
  note IH = Cons.IH [OF st Cons.prems(2) rest]
  show ?case
  proof (cases "k = key")
    case False
    with IH show ?thesis by (simp add: c stored_def)
  next
    case True
    then have cfg: "bk_limit cfg \<le> L" "start \<le> t" "P \<le> bk_periodSeconds cfg * 1000" using Cons.prems(3) by (simp_all add: c)
    show ?thesis
    proof (cases "m key = None \<or> (\<exists>e. m key = Some e \<and> be_refillAt e < t)")
      case opens: True
      have m: "?m key = Some \<lparr>be_tokens = bk_limit cfg - 1, be_refillAt = t + bk_periodSeconds cfg * 1000\<rparr>"
        using opens True by (auto simp: checkFallbackBucket_def Let_def)
      have "\<forall>(t', cfg') \<in> set (of_key key cs). t' \<le> t + bk_periodSeconds cfg * 1000" using rest cfg by fastforce
      with granted_within [where m = ?m, OF m, of cs] have "granted key cs ?m \<le> stored key ?m" by simp
      moreover have "stored key ?m \<le> L - 1" by (rule st)
      moreover have "0 \<le> stored key m" by (simp add: stored_def split: option.split)
      ultimately show ?thesis using True by (simp add: c)
    next
      case False
      then obtain e where e: "m key = Some e" "t \<le> be_refillAt e" by (cases "m key") (auto simp: not_less)
      have "(if snd (checkFallbackBucket t k cfg m) then 1 else 0) + stored key ?m \<le> stored key m"
        using e True by (auto simp: checkFallbackBucket_def stored_def Let_def)
      with IH True show ?thesis by (simp add: c)
    qed
  qed
qed

lemma granted_grants:
  assumes "\<forall>(t, cfg') \<in> set (of_key key cs). cfg' = cfg" and "m key = m' key"
  shows "granted key cs m = grants (\<lambda>now k. checkFallbackBucket now k cfg) key (map (\<lambda>(t, k, cfg). (t, k)) cs) m'"
  using assms
proof (induction cs arbitrary: m m')
  case (Cons c cs)
  obtain t k cfg' where c: "c = (t, k, cfg')" by (cases c)
  show ?case
  proof (cases "k = key")
    case False
    from Cons.IH [of "fst (checkFallbackBucket t k cfg' m)" "fst (checkFallbackBucket t k cfg m')"] Cons.prems False
    show ?thesis by (simp add: c case_prod_unfold)
  next
    case True
    with Cons.prems have cfg: "cfg' = cfg" by (simp add: c)
    have same: "snd (checkFallbackBucket t key cfg m) = snd (checkFallbackBucket t key cfg m')"
      "fst (checkFallbackBucket t key cfg m) key = fst (checkFallbackBucket t key cfg m') key"
      using Cons.prems(2) by (auto simp: checkFallbackBucket_def Let_def split: option.split)
    from Cons.IH [of "fst (checkFallbackBucket t key cfg m)" "fst (checkFallbackBucket t key cfg m')"] same Cons.prems True cfg show ?thesis
      by (simp add: c case_prod_unfold)
  qed
qed simp

lemma hits_of_key: "hits key (map (\<lambda>(t, k, cfg). (t, k)) cs) = int (length (of_key key cs))"
  by (induction cs) (auto simp: hits_def)

text \<open>
  C38. The cap holds over every period, wherever it starts and whatever happened before: of the checks of one key that fall within
  one period, at most twice \<open>L\<close> less one are granted, where \<open>L\<close> is the largest limit any caller of the key is configured with
  (the leftover tokens of a window and one fresh window). If all its callers have one configuration and the key was not used before,
  exactly the limit is granted and every further check is refused.
\<close>

theorem fallback_bucket_cap:
  assumes "1 \<le> L" and "\<forall>(t, cfg) \<in> set (of_key key (before @ period)). bk_limit cfg \<le> L"
    and "\<forall>(t, cfg) \<in> set (of_key key period). start \<le> t \<and> t \<le> start + P \<and> P \<le> bk_periodSeconds cfg * 1000"
  shows "granted key period (after_checks before Map.empty) \<le> 2 * L - 1 \<and>
    (of_key key before = [] \<and> 1 \<le> bk_limit cfg \<and> P = bk_periodSeconds cfg * 1000 \<and> (\<forall>(t, c) \<in> set (of_key key period). c = cfg) \<longrightarrow>
       granted key period (after_checks before Map.empty) = min (bk_limit cfg) (int (length (of_key key period))))"
proof (intro conjI impI)
  let ?m = "after_checks before Map.empty"
  have app: "of_key key (before @ period) = of_key key before @ of_key key period" by (simp add: of_key_def)
  have st: "stored key ?m \<le> L - 1"
    using assms(1,2) unfolding app by (intro after_checks_stored) (auto simp: stored_def)
  have "granted key period ?m \<le> stored key ?m + L"
    using assms unfolding app by (intro granted_period [OF st assms(1), of period start P]) fastforce
  with st show "granted key period ?m \<le> 2 * L - 1" by simp
next
  let ?m = "after_checks before Map.empty" and ?evs = "map (\<lambda>(t, k, cfg). (t, k)) period"
  assume fresh: "of_key key before = [] \<and> 1 \<le> bk_limit cfg \<and> P = bk_periodSeconds cfg * 1000 \<and> (\<forall>(t, c) \<in> set (of_key key period). c = cfg)"
  have untouched: "of_key key cs = [] \<Longrightarrow> after_checks cs m key = m key" for cs m
    by (induction cs m rule: after_checks.induct) (auto split: if_splits)
  have none: "?m key = None" using fresh untouched [of before Map.empty] by simp
  define evs where "evs = map (\<lambda>(t, k, c). (t, key)) (filter (\<lambda>(t, k, c). k = key) period)"
  have drop: "grants (\<lambda>now k. checkFallbackBucket now k cfg) key (map (\<lambda>(t, k, c). (t, k)) cs) m =
      grants (\<lambda>now k. checkFallbackBucket now k cfg) key (map (\<lambda>(t, k, c). (t, key)) (filter (\<lambda>(t, k, c). k = key) cs)) m'"
    if "m key = m' key" for cs m m'
    using that
  proof (induction cs arbitrary: m m')
    case (Cons c cs)
    obtain t k d where c: "c = (t, k, d)" by (cases c)
    show ?case
    proof (cases "k = key")
      case False
      with Cons.IH [of "fst (checkFallbackBucket t k cfg m)" m'] Cons.prems show ?thesis by (simp add: c case_prod_unfold)
    next
      case True
      have same: "snd (checkFallbackBucket t key cfg m) = snd (checkFallbackBucket t key cfg m')"
        "fst (checkFallbackBucket t key cfg m) key = fst (checkFallbackBucket t key cfg m') key"
        using Cons.prems by (auto simp: checkFallbackBucket_def Let_def split: option.split)
      with Cons.IH [of "fst (checkFallbackBucket t key cfg m)" "fst (checkFallbackBucket t key cfg m')"] True show ?thesis
        by (simp add: c case_prod_unfold)
    qed
  qed simp
  have "granted key period ?m = grants (\<lambda>now k. checkFallbackBucket now k cfg) key ?evs ?m"
    by (rule granted_grants) (use fresh in auto)
  also have "\<dots> = grants (\<lambda>now k. checkFallbackBucket now k cfg) key evs Map.empty"
    unfolding evs_def using none by (intro drop) simp
  also have "\<dots> = min (bk_limit cfg) (hits key evs)"
    by (rule fallback.fresh_window [where start = start])
      (use fresh assms(3) in \<open>fastforce simp: evs_def of_key_def meter_of_def\<close>)+
  also have "hits key evs = int (length (of_key key period))" by (simp add: evs_def hits_def of_key_def filter_map comp_def case_prod_unfold)
  finally show "granted key period ?m = min (bk_limit cfg) (int (length (of_key key period)))" .
qed

theorem fallback_bucket_cap_witness:
  "granted ''a'' [(0, ''a'', rc_ip DEFAULT_CONFIG), (5, ''b'', rc_user DEFAULT_CONFIG), (60000, ''a'', rc_ip DEFAULT_CONFIG)] Map.empty = 2"
  using fallback_bucket_cap [of 100 "''a''" "[]" "[(0, ''a'', rc_ip DEFAULT_CONFIG), (5, ''b'', rc_user DEFAULT_CONFIG), (60000, ''a'', rc_ip DEFAULT_CONFIG)]"
    0 60000 "rc_ip DEFAULT_CONFIG"]
  by (simp add: DEFAULT_CONFIG_def)

text \<open>
  The two mounts of \<^verbatim>\<open>workers/index.ts\<close> that share the key of the signup funnel: when an OAuth request opens the window, 29
  access requests of the address pass in the same minute, under a limit of five.
\<close>

definition signup_bucket :: "int \<Rightarrow> bucket_config" where
  "signup_bucket limit = \<lparr>bk_limit = limit, bk_periodSeconds = 60, bk_bindingName = Some ''RATE_LIMITER_SIGNUP''\<rparr>"

lemma shared_key_lifts_the_signup_limit:
  "granted ''RATE_LIMITER_SIGNUP:ip:1'' (replicate 40 (1, ''RATE_LIMITER_SIGNUP:ip:1'', signup_bucket 5))
     (after_checks [(0, ''RATE_LIMITER_SIGNUP:ip:1'', signup_bucket 30)] Map.empty) = 29"
  by code_simp

text \<open>
  The buckets a request must pass, evaluated left to right with the state each one leaves behind.
\<close>

fun all_pass ::
  "(string \<Rightarrow> (string \<Rightarrow> bool) option) \<Rightarrow> (bucket_kind \<Rightarrow> int) \<Rightarrow> (bucket_kind \<times> bucket_config \<times> string) list
     \<Rightarrow> fallback_buckets \<Rightarrow> bool" where
  "all_pass native clock [] m = True"
| "all_pass native clock ((kind, cfg, key) # rest) m =
     (fst (snd (checkBucket native (clock kind) cfg key m)) \<and>
      all_pass native clock rest (fst (checkBucket native (clock kind) cfg key m)))"

lemma run_bucket_checks_Proceed:
  "snd (run_bucket_checks native clock req cs m) = Proceed \<longleftrightarrow> all_pass native clock cs m"
  by (induction cs arbitrary: m) (auto simp: case_prod_unfold Let_def split: if_splits)

lemma run_bucket_checks_Limited:
  "snd (run_bucket_checks native clock req cs m) = Limited r \<Longrightarrow>
     (\<exists>kind cfg key. (kind, cfg, key) \<in> set cs \<and> r = rateLimitResponse req kind cfg)"
proof (induction cs arbitrary: m)
  case (Cons c cs)
  obtain kind cfg key where c: "c = (kind, cfg, key)" by (cases c)
  show ?case
  proof (cases "fst (snd (checkBucket native (clock kind) cfg key m))")
    case True
    with Cons.prems have "snd (run_bucket_checks native clock req cs (fst (checkBucket native (clock kind) cfg key m))) = Limited r"
      by (simp add: c case_prod_unfold)
    from Cons.IH [OF this] show ?thesis by auto
  next
    case False
    with Cons.prems have "r = rateLimitResponse req kind cfg" by (simp add: c case_prod_unfold)
    with c show ?thesis by auto
  qed
qed simp

text \<open>
  The layering: a request proceeds exactly when its path is skipped or the IP bucket (the wider
  one for a request that presents a bearer token), then the user, tenant and route buckets that apply
  to it all grant it; otherwise the answer is a 429 that names one of those buckets and its limits.
\<close>

theorem rateLimit_layers:
  "(snd (rateLimit uc native clock req m) = Proceed \<longleftrightarrow>
      skipped (resolve_config uc) req \<or> all_pass native clock (applicable_checks (resolve_config uc) req) m) \<and>
    (case snd (rateLimit uc native clock req m) of
       Proceed \<Rightarrow> True
     | Limited r \<Rightarrow> rr_status r = 429 \<and>
         (\<exists>kind cfg key. (kind, cfg, key) \<in> set (applicable_checks (resolve_config uc) req) \<and>
            r = rateLimitResponse req kind cfg))"
proof (cases "skipped (resolve_config uc) req")
  case True
  then show ?thesis by (simp add: rateLimit_def)
next
  case False
  show ?thesis
    using run_bucket_checks_Proceed [of native clock req "applicable_checks (resolve_config uc) req" m]
      run_bucket_checks_Limited [of native clock req "applicable_checks (resolve_config uc) req" m] False
    by (fastforce simp: rateLimit_def Let_def rateLimitResponse_def split: rl_outcome.splits)
qed

text \<open>
  An anonymous request under the default configuration without a native binding is one check of the
  IP bucket.
\<close>

definition anonymous :: "string \<Rightarrow> rl_request \<Rightarrow> bool" where
  "anonymous ip req \<longleftrightarrow> \<not> skipped DEFAULT_CONFIG req \<and> \<not> claimsIdentity req \<and>
     \<not> truthy (rl_user_id req) \<and> \<not> truthy (rl_workspace_id req) \<and> resolveIp req = ip"

lemma resolve_empty [simp]: "resolve_config empty_user_config = DEFAULT_CONFIG"
  by (simp add: resolve_config_def empty_user_config_def merge_bucket_def DEFAULT_CONFIG_def)

lemma anonymous_is_ip_check:
  assumes "anonymous ip req"
  shows "rateLimit empty_user_config (\<lambda>_. None) clock req m =
    (let (m', ok) = checkFallbackBucket (clock B_ip) (''RATE_LIMITER_IP:ip:'' @ ip) (rc_ip DEFAULT_CONFIG) m
     in (m', if ok then Proceed else Limited (rateLimitResponse req B_ip (rc_ip DEFAULT_CONFIG))))"
proof -
  have "applicable_checks DEFAULT_CONFIG req = [(B_ip, rc_ip DEFAULT_CONFIG, ''ip:'' @ ip)]"
    using assms by (simp add: anonymous_def applicable_checks_def resolveUserId_def resolveTenantId_def
        DEFAULT_CONFIG_def Let_def)
  moreover have "bk_bindingName (rc_ip DEFAULT_CONFIG) = Some ''RATE_LIMITER_IP''" by (simp add: DEFAULT_CONFIG_def)
  ultimately show ?thesis
    using assms by (simp add: rateLimit_def anonymous_def checkBucket_def native_binding_def Let_def case_prod_unfold)
qed

fun proceeds :: "(int \<times> rl_request) list \<Rightarrow> fallback_buckets \<Rightarrow> int" where
  "proceeds [] m = 0"
| "proceeds ((t, req) # rest) m =
     (let (m', r) = rateLimit empty_user_config (\<lambda>_. None) (\<lambda>_. t) req m
      in (if r = Proceed then 1 else 0) + proceeds rest m')"

lemma proceeds_grants:
  assumes "\<forall>e \<in> set evs. anonymous ip (snd e)"
  shows "proceeds evs m =
    grants (\<lambda>now k. checkFallbackBucket now k (rc_ip DEFAULT_CONFIG)) (''RATE_LIMITER_IP:ip:'' @ ip)
      (map (\<lambda>e. (fst e, ''RATE_LIMITER_IP:ip:'' @ ip)) evs) m"
  using assms
  by (induction evs arbitrary: m) (auto simp: anonymous_is_ip_check case_prod_unfold Let_def)

text \<open>
  End to end: of the anonymous requests that one address sends within a minute to a fresh
  isolate, exactly the first hundred proceed and the rest are refused.
\<close>

theorem anonymous_address_cap:
  assumes "\<forall>e \<in> set evs. anonymous ip (snd e) \<and> start \<le> fst e \<and> fst e \<le> start + 60000"
  shows "proceeds evs Map.empty = min 100 (int (length evs))"
proof -
  let ?k = "''RATE_LIMITER_IP:ip:'' @ ip" and ?evs = "map (\<lambda>e. (fst e, ''RATE_LIMITER_IP:ip:'' @ ip)) evs"
  have "grants (\<lambda>now k. checkFallbackBucket now k (rc_ip DEFAULT_CONFIG)) ?k ?evs Map.empty =
      min (bk_limit (rc_ip DEFAULT_CONFIG)) (hits ?k ?evs)"
    by (rule fallback.fresh_window [where start = start])
      (use assms in \<open>auto simp: DEFAULT_CONFIG_def meter_of_def\<close>)
  moreover have "hits ?k ?evs = int (length evs)" by (simp add: hits_def filter_map comp_def)
  ultimately show ?thesis using assms proceeds_grants [of evs ip Map.empty] by (simp add: DEFAULT_CONFIG_def)
qed

definition demo_anonymous :: rl_request where
  "demo_anonymous = \<lparr>rl_path = ''/api/v1/events'', rl_cf_connecting_ip = Some ''10.0.0.1'', rl_x_forwarded_for = None,
     rl_authorization = None, rl_user_id = None, rl_workspace_id = None, rl_request_id = None\<rparr>"

lemma demo_anonymous_ok: "anonymous ''10.0.0.1'' demo_anonymous"
  by code_simp

theorem anonymous_address_cap_witness:
  "proceeds (replicate 150 (7, demo_anonymous)) Map.empty = 100"
  using anonymous_address_cap [of "replicate 150 (7, demo_anonymous)" "''10.0.0.1''" 0] demo_anonymous_ok
  by simp

end
