(* ===== verification/Completion.thy ===== *)
theory Completion
  imports Prelude
begin

text \<open>
  The Definition-of-Done gate, \<^verbatim>\<open>lib/completion-contract.ts\<close>: a pure evaluator that lists every unmet
  condition of the completion contract.
\<close>

record completion_input =
  ci_hasRequestedOutput :: bool
  ci_acceptanceCriteriaRequired :: bool
  ci_acceptanceCriteriaPass :: bool
  ci_evidenceRequired :: bool
  ci_evidenceAttachedCount :: int
  ci_executionFinished :: bool
  ci_openBlockerCount :: int
  ci_blockersExplicitlyAccepted :: bool
  ci_approvalRequired :: bool
  ci_approvalPresent :: bool
  ci_approvedVersion :: "int option"
  ci_currentVersion :: int
  ci_receiptPresent :: bool
  ci_planProjectionUpdated :: bool

record completion_verdict =
  cv_can_complete :: bool
  cv_unmet :: "string list"

text \<open>\<^verbatim>\<open>String(n)\<close> for a number or \<^verbatim>\<open>null\<close>.\<close>

definition show_version :: "int option \<Rightarrow> string" where
  "show_version v = (case v of None \<Rightarrow> ''null'' | Some n \<Rightarrow> show_int n)"

definition push_if :: "bool \<Rightarrow> string \<Rightarrow> string list" where
  "push_if b s = (if b then [s] else [])"

definition evaluateCompletion :: "completion_input \<Rightarrow> completion_verdict" where
  "evaluateCompletion i =
     (let unmet =
        push_if (\<not> ci_hasRequestedOutput i) ''the requested output does not exist yet'' @
        push_if (ci_acceptanceCriteriaRequired i \<and> \<not> ci_acceptanceCriteriaPass i)
          ''the acceptance criteria have not passed'' @
        push_if (ci_evidenceRequired i \<and> ci_evidenceAttachedCount i < 1) ''required evidence is not attached'' @
        push_if (\<not> ci_executionFinished i) ''execution has not finished'' @
        push_if (ci_openBlockerCount i > 0 \<and> \<not> ci_blockersExplicitlyAccepted i)
          (show_int (ci_openBlockerCount i) @ '' blocker'' @ (if ci_openBlockerCount i = 1 then [] else ''s'') @
           '' still open and not explicitly accepted'') @
        (if ci_approvalRequired i
         then (if \<not> ci_approvalPresent i then [''required approval is missing'']
               else push_if (ci_approvedVersion i = None \<or> ci_approvedVersion i \<noteq> Some (ci_currentVersion i))
                      (''the approval is stale (approved v'' @ show_version (ci_approvedVersion i) @
                       '' but current is v'' @ show_int (ci_currentVersion i) @ '')''))
         else []) @
        push_if (\<not> ci_receiptPresent i) ''no durable receipt exists'' @
        push_if (\<not> ci_planProjectionUpdated i) ''the linked plan projection has not been updated''
      in \<lparr>cv_can_complete = (length unmet = 0), cv_unmet = unmet\<rparr>)"

text \<open>The contract in words: what must hold of a packet for it to be completed.\<close>

definition contract_met :: "completion_input \<Rightarrow> bool" where
  "contract_met i \<longleftrightarrow>
     ci_hasRequestedOutput i \<and>
     (ci_acceptanceCriteriaRequired i \<longrightarrow> ci_acceptanceCriteriaPass i) \<and>
     (ci_evidenceRequired i \<longrightarrow> 1 \<le> ci_evidenceAttachedCount i) \<and>
     ci_executionFinished i \<and>
     (0 < ci_openBlockerCount i \<longrightarrow> ci_blockersExplicitlyAccepted i) \<and>
     (ci_approvalRequired i \<longrightarrow> ci_approvalPresent i \<and> ci_approvedVersion i = Some (ci_currentVersion i)) \<and>
     ci_receiptPresent i \<and> ci_planProjectionUpdated i"

lemma push_if_Nil [simp]: "push_if b s = [] \<longleftrightarrow> \<not> b"
  by (simp add: push_if_def)

lemma evaluateCompletion_iff: "cv_can_complete (evaluateCompletion i) \<longleftrightarrow> contract_met i"
  by (auto simp: evaluateCompletion_def contract_met_def Let_def)

lemma evaluateCompletion_unmet: "cv_unmet (evaluateCompletion i) = [] \<longleftrightarrow> cv_can_complete (evaluateCompletion i)"
  by (simp add: evaluateCompletion_def Let_def)

end
