(* ===== verification/Spine_Store.thy ===== *)
theory Spine_Store
  imports Completion "HOL-Library.Product_Lexorder" "HOL-Library.List_Lexorder" "HOL-Library.Char_ord"
begin

text \<open>
  The operational spine: task packets, evidence, approvals, tool events and metric deltas of
  \<^verbatim>\<open>dal/operational-spine-store.ts\<close>, with the row types of \<^verbatim>\<open>dal/types/operational-spine.ts\<close>.

  The database is a record of tables, each a list of rows in insertion order. One transaction is one
  function on it; what PostgreSQL rejects (a duplicate primary key, a dangling or foreign reference,
  a CHECK of the migrations) is an error that leaves the tables as they were. \<open>now\<close> is the
  transaction's clock, \<open>nano\<close> the fresh identifiers drawn by \<^verbatim>\<open>randomNanoid\<close>, \<open>show_ts\<close> the way
  the driver prints a timestamp. Input fields that the code tests with \<^verbatim>\<open>typeof ... === 'string'\<close> are
  optional strings, \<open>None\<close> being any other value.
\<close>

section \<open>Rows\<close>

datatype packet_lifecycle_state =
    PS_draft | PS_ready | PS_in_progress | PS_evidence_ready | PS_approval_requested | PS_approved | PS_rejected
  | PS_completed | PS_archived

datatype approval_status = AS_requested | AS_approved | AS_rejected | AS_cancelled

datatype evidence_kind = EK_document | EK_screenshot | EK_log | EK_link | EK_commit | EK_metric | EK_receipt

datatype tool_event_action =
    Get_task_packet | Get_allowed_scope | Submit_evidence | Report_tool_event | Request_approval
  | Get_workflow_status | Get_public_policy_summary | Get_effective_templates | Get_effective_profile
  | Submit_learning_signal

datatype tool_event_status = TE_allowed | TE_denied | TE_completed | TE_failed

datatype acceptance_status = Acc_not_required | Acc_pending | Acc_passed | Acc_failed

datatype execution_status = Ex_not_required | Ex_pending | Ex_running | Ex_succeeded | Ex_failed

datatype redaction_status = Redacted | Metadata_only | Red_not_required

record task_packet =
  tp_id :: string
  tp_workspace_id :: string
  tp_project_id :: "string option"
  tp_event_id :: "string option"
  tp_title :: string
  tp_summary :: string
  tp_lifecycle_state :: packet_lifecycle_state
  tp_actor_user_id :: string
  tp_allowed_tools :: "string list"
  tp_forbidden_tools :: "string list"
  tp_source_refs :: "string list"
  tp_evidence_ref_ids :: "string list"
  tp_approval_required :: bool
  tp_version :: int
  tp_requested_output :: "string option"
  tp_acceptance_criteria :: "string list"
  tp_acceptance_status :: acceptance_status
  tp_evidence_required :: bool
  tp_execution_status :: execution_status
  tp_blockers_accepted :: bool
  tp_receipt_required :: bool
  tp_plan_projection_required :: bool
  tp_plan_projection_updated_at :: "int option"
  tp_completed_at :: "int option"
  tp_expires_at :: "int option"
  tp_created_at :: int
  tp_updated_at :: int

record task_packet_input =
  tpi_id :: "string option"
  tpi_project_id :: "string option"
  tpi_event_id :: "string option"
  tpi_title :: "string option"
  tpi_summary :: "string option"
  tpi_lifecycle_state :: "packet_lifecycle_state option"
  tpi_allowed_tools :: "string list"
  tpi_forbidden_tools :: "string list"
  tpi_source_refs :: "string list"
  tpi_approval_required :: "bool option"
  tpi_expires_at :: "int option"

record evidence_item =
  ei_id :: string
  ei_workspace_id :: string
  ei_packet_id :: "string option"
  ei_event_id :: "string option"
  ei_kind :: evidence_kind
  ei_title :: string
  ei_uri :: string
  ei_content_hash :: "string option"
  ei_summary :: "string option"
  ei_redaction_status :: redaction_status
  ei_actor_user_id :: string
  ei_created_at :: int

record evidence_item_input =
  eii_id :: "string option"
  eii_packet_id :: "string option"
  eii_event_id :: "string option"
  eii_kind :: evidence_kind
  eii_title :: "string option"
  eii_uri :: "string option"
  eii_content_hash :: "string option"
  eii_summary :: "string option"
  eii_redaction_status :: "redaction_status option"

record approval_request =
  ar_id :: string
  ar_workspace_id :: string
  ar_packet_id :: "string option"
  ar_packet_version :: "int option"
  ar_event_id :: "string option"
  ar_requested_by :: string
  ar_decided_by :: "string option"
  ar_status :: approval_status
  ar_reason :: string
  ar_decision_comment :: "string option"
  ar_requested_at :: int
  ar_decided_at :: "int option"

record approval_request_input =
  ari_id :: "string option"
  ari_packet_id :: "string option"
  ari_event_id :: "string option"
  ari_reason :: "string option"

text \<open>A decision is one of the three statuses other than \<open>requested\<close>.\<close>

datatype decision_status = Decide_approved | Decide_rejected | Decide_cancelled

fun status_of_decision :: "decision_status \<Rightarrow> approval_status" where
  "status_of_decision Decide_approved = AS_approved"
| "status_of_decision Decide_rejected = AS_rejected"
| "status_of_decision Decide_cancelled = AS_cancelled"

record approval_decision_input =
  adi_status :: decision_status
  adi_comment :: "string option"

record approval_decision_result =
  adr_approval :: approval_request
  adr_receipt_id :: string

record tool_event =
  te_id :: string
  te_workspace_id :: string
  te_packet_id :: "string option"
  te_event_id :: "string option"
  te_tool_name :: string
  te_action :: tool_event_action
  te_actor_user_id :: string
  te_status :: tool_event_status
  te_evidence_item_id :: "string option"
  te_summary :: string
  te_created_at :: int

record tool_event_input =
  tei_id :: "string option"
  tei_packet_id :: "string option"
  tei_tool_name :: string
  tei_action :: tool_event_action
  tei_status :: tool_event_status
  tei_evidence_item_id :: "string option"
  tei_summary :: "string option"

record metric_delta =
  md_id :: string
  md_workspace_id :: string
  md_packet_id :: "string option"
  md_metric_id :: string
  md_before_value :: "real option"
  md_after_value :: "real option"
  md_delta_value :: "real option"
  md_evidence_item_id :: "string option"
  md_recorded_by :: string
  md_recorded_at :: int

record metric_delta_input =
  mdi_id :: "string option"
  mdi_packet_id :: "string option"
  mdi_metric_id :: "string option"
  mdi_before_value :: "real option"
  mdi_after_value :: "real option"
  mdi_evidence_item_id :: "string option"

text \<open>The columns of \<^verbatim>\<open>operation_events\<close> this store reads or writes.\<close>

record operation_event =
  oe_id :: string
  oe_workspace_id :: string
  oe_source_tool :: string
  oe_status :: string
  oe_summary :: string
  oe_occurred_at :: int
  oe_visibility :: string
  oe_authorized_by_user_id :: "string option"
  oe_instrument_kind :: "string option"
  oe_authority_source :: "string option"
  oe_request_id :: "string option"
  oe_intent_id :: "string option"

record lineage =
  ln_authorized_by_user_id :: "string option"
  ln_instrument_kind :: "string option"
  ln_authority_source :: "string option"
  ln_request_id :: "string option"

text \<open>Of a project the spine needs its identifier and its workspace.\<close>

record project_ref =
  pj_id :: string
  pj_workspace_id :: string

record spine_db =
  sd_projects :: "project_ref list"
  sd_packets :: "task_packet list"
  sd_evidence :: "evidence_item list"
  sd_approvals :: "approval_request list"
  sd_tool_events :: "tool_event list"
  sd_metrics :: "metric_delta list"
  sd_events :: "operation_event list"

datatype spine_error =
    Dal dal_error
  | Unique_violation string
  | Foreign_key_violation string
  | Check_violation string
  | Raised string

section \<open>Shared guards\<close>

definition limitFor :: "int option \<Rightarrow> int" where
  "limitFor raw = max 1 (min (case raw of None \<Rightarrow> 50 | Some n \<Rightarrow> if n = 0 then 50 else n) 200)"

definition requireShortText :: "string \<Rightarrow> string option \<Rightarrow> nat \<Rightarrow> spine_error + string" where
  "requireShortText name value mx =
     (case value of
        None \<Rightarrow> Inl (Dal (makeError ''VALIDATION_ERROR'' (name @ '' must be a non-empty string <= '' @ show_nat mx @ '' chars'') 400))
      | Some v \<Rightarrow>
          if js_trim v = [] \<or> length v > mx
          then Inl (Dal (makeError ''VALIDATION_ERROR'' (name @ '' must be a non-empty string <= '' @ show_nat mx @ '' chars'') 400))
          else Inr (js_trim v))"

definition scope_guard :: "string \<Rightarrow> spine_error + unit" where
  "scope_guard ws = (case assertWorkspaceScope (Some ws) of Some e \<Rightarrow> Inl (Dal e) | None \<Rightarrow> Inr ())"

definition has_packet :: "string \<Rightarrow> string \<Rightarrow> spine_db \<Rightarrow> bool" where
  "has_packet ws p db = list_ex (\<lambda>r. tp_id r = p \<and> tp_workspace_id r = ws) (sd_packets db)"

definition has_event :: "string \<Rightarrow> string \<Rightarrow> spine_db \<Rightarrow> bool" where
  "has_event ws e db = list_ex (\<lambda>r. oe_id r = e \<and> oe_workspace_id r = ws) (sd_events db)"

definition has_evidence :: "string \<Rightarrow> string \<Rightarrow> spine_db \<Rightarrow> bool" where
  "has_evidence ws e db = list_ex (\<lambda>r. ei_id r = e \<and> ei_workspace_id r = ws) (sd_evidence db)"

definition assertPacketInWorkspace :: "string \<Rightarrow> string option \<Rightarrow> spine_db \<Rightarrow> spine_error + unit" where
  "assertPacketInWorkspace ws p db =
     (if \<not> truthy p then Inr ()
      else ensure (has_packet ws (coalesce p []) db)
             (Dal (makeError ''NOT_FOUND'' ''packet_id does not exist in this workspace'' 404)))"

definition assertEventInWorkspace :: "string \<Rightarrow> string option \<Rightarrow> spine_db \<Rightarrow> spine_error + unit" where
  "assertEventInWorkspace ws e db =
     (if \<not> truthy e then Inr ()
      else ensure (has_event ws (coalesce e []) db)
             (Dal (makeError ''NOT_FOUND'' ''event_id does not exist in this workspace'' 404)))"

definition assertEvidenceInWorkspace :: "string \<Rightarrow> string option \<Rightarrow> spine_db \<Rightarrow> spine_error + unit" where
  "assertEvidenceInWorkspace ws e db =
     (if \<not> truthy e then Inr ()
      else ensure (has_evidence ws (coalesce e []) db)
             (Dal (makeError ''NOT_FOUND'' ''evidence_item_id does not exist in this workspace'' 404)))"

text \<open>\<^verbatim>\<open>input.id?.trim() || `prefix_${randomNanoid()}`\<close>.\<close>

definition id_or_fresh :: "string option \<Rightarrow> string \<Rightarrow> string" where
  "id_or_fresh i fresh = or_else (map_option js_trim i) fresh"

section \<open>What the database enforces\<close>

text \<open>
  Primary keys, the foreign keys on projects and events (global), and the trigger
  \<^verbatim>\<open>xlooop_assert_operational_spine_same_workspace\<close> of migration 034 on packet and evidence references.
\<close>

definition pk :: "string \<Rightarrow> ('r \<Rightarrow> string) \<Rightarrow> string \<Rightarrow> 'r list \<Rightarrow> spine_error + unit" where
  "pk table key i rows = ensure (\<not> list_ex (\<lambda>r. key r = i) rows) (Unique_violation table)"

definition fk_project :: "string option \<Rightarrow> spine_db \<Rightarrow> spine_error + unit" where
  "fk_project p db =
     ensure (case p of None \<Rightarrow> True | Some i \<Rightarrow> list_ex (\<lambda>r. pj_id r = i) (sd_projects db)) (Foreign_key_violation ''project_id'')"

definition fk_event :: "string option \<Rightarrow> spine_db \<Rightarrow> spine_error + unit" where
  "fk_event e db =
     ensure (case e of None \<Rightarrow> True | Some i \<Rightarrow> list_ex (\<lambda>r. oe_id r = i) (sd_events db))
       (Foreign_key_violation ''event_id'')"

definition packet_same_workspace :: "string \<Rightarrow> string option \<Rightarrow> spine_db \<Rightarrow> spine_error + unit" where
  "packet_same_workspace ws p db =
     ensure (case p of None \<Rightarrow> True | Some i \<Rightarrow> has_packet ws i db) (Raised ''packet_id belongs to another workspace'')"

definition evidence_same_workspace :: "string \<Rightarrow> string option \<Rightarrow> spine_db \<Rightarrow> spine_error + unit" where
  "evidence_same_workspace ws e db =
     ensure (case e of None \<Rightarrow> True | Some i \<Rightarrow> has_evidence ws i db)
       (Raised ''evidence_item_id belongs to another workspace'')"

text \<open>The CHECK constraints of \<^verbatim>\<open>tool_events\<close>: migration 034 lists seven actions.\<close>

definition DB_TOOL_ACTIONS :: "tool_event_action set" where
  "DB_TOOL_ACTIONS =
     {Get_task_packet, Get_allowed_scope, Submit_evidence, Report_tool_event, Request_approval,
      Get_workflow_status, Get_public_policy_summary}"

definition tool_event_checks :: "tool_event_input \<Rightarrow> spine_error + unit" where
  "tool_event_checks i =
     (if length (tei_tool_name i) > 160 then Inl (Check_violation ''tool_events_tool_name_check'')
      else ensure (tei_action i \<in> DB_TOOL_ACTIONS) (Check_violation ''tool_events_action_check''))"


section \<open>Task packets\<close>

definition normalizePacket :: "task_packet \<Rightarrow> task_packet" where
  "normalizePacket row = row\<lparr>
     tp_allowed_tools := non_empty (tp_allowed_tools row),
     tp_forbidden_tools := non_empty (tp_forbidden_tools row),
     tp_source_refs := non_empty (tp_source_refs row),
     tp_evidence_ref_ids := non_empty (tp_evidence_ref_ids row),
     tp_version := (if tp_version row = 0 then 1 else tp_version row),
     tp_acceptance_criteria := non_empty (tp_acceptance_criteria row)\<rparr>"

text \<open>The row an INSERT leaves, with the column defaults of migrations 034 and 073.\<close>

definition createTaskPacketRow ::
  "string \<Rightarrow> int \<Rightarrow> string \<Rightarrow> string \<Rightarrow> task_packet_input \<Rightarrow> spine_db \<Rightarrow> spine_db \<times> (spine_error + task_packet)" where
  "createTaskPacketRow nano now ws actor inp db =
     attempt db (scope_guard ws) (\<lambda>_.
     (let i = id_or_fresh (tpi_id inp) (''pkt_'' @ nano) in
     attempt db (requireShortText ''title'' (tpi_title inp) 160) (\<lambda>title.
     attempt db (requireShortText ''summary'' (tpi_summary inp) 2000) (\<lambda>summary.
     attempt db (assertEventInWorkspace ws (tpi_event_id inp) db) (\<lambda>_.
     attempt db (pk ''task_packets'' tp_id i (sd_packets db)) (\<lambda>_.
     attempt db (fk_project (tpi_project_id inp) db) (\<lambda>_.
     attempt db (fk_event (tpi_event_id inp) db) (\<lambda>_.
     (let row = \<lparr>tp_id = i, tp_workspace_id = ws, tp_project_id = tpi_project_id inp, tp_event_id = tpi_event_id inp,
                 tp_title = title, tp_summary = summary,
                 tp_lifecycle_state = coalesce (tpi_lifecycle_state inp) PS_draft,
                 tp_actor_user_id = actor,
                 tp_allowed_tools = non_empty (tpi_allowed_tools inp),
                 tp_forbidden_tools = non_empty (tpi_forbidden_tools inp),
                 tp_source_refs = non_empty (tpi_source_refs inp),
                 tp_evidence_ref_ids = [],
                 tp_approval_required = (tpi_approval_required inp \<noteq> Some False),
                 tp_version = 1, tp_requested_output = None, tp_acceptance_criteria = [],
                 tp_acceptance_status = Acc_not_required, tp_evidence_required = True,
                 tp_execution_status = Ex_pending, tp_blockers_accepted = False, tp_receipt_required = True,
                 tp_plan_projection_required = True, tp_plan_projection_updated_at = None, tp_completed_at = None,
                 tp_expires_at = tpi_expires_at inp, tp_created_at = now, tp_updated_at = now\<rparr>
      in (db\<lparr>sd_packets := sd_packets db @ [row]\<rparr>, Inr (normalizePacket row)))))))))))"

record list_opts =
  lo_limit :: "int option"
  lo_packet_id :: "string option"

text \<open>\<^verbatim>\<open>ORDER BY at DESC, id DESC LIMIT n\<close>, identifiers compared byte by byte.\<close>

definition latest_first :: "('r \<Rightarrow> int) \<Rightarrow> ('r \<Rightarrow> string) \<Rightarrow> int \<Rightarrow> 'r list \<Rightarrow> 'r list" where
  "latest_first stamp key n rows = take (nat n) (rev (sort_key (\<lambda>r. (stamp r, key r)) rows))"

definition wants_packet :: "list_opts \<Rightarrow> string option \<Rightarrow> bool" where
  "wants_packet opts p = (case lo_packet_id opts of None \<Rightarrow> True | Some i \<Rightarrow> p = Some i)"

definition listTaskPacketsRow :: "string \<Rightarrow> list_opts \<Rightarrow> spine_db \<Rightarrow> spine_error + task_packet list" where
  "listTaskPacketsRow ws opts db =
     (case scope_guard ws of
        Inl e \<Rightarrow> Inl e
      | Inr _ \<Rightarrow> Inr (map normalizePacket (latest_first tp_updated_at tp_id (limitFor (lo_limit opts))
          (filter (\<lambda>r. tp_workspace_id r = ws \<and> wants_packet opts (Some (tp_id r)) \<and> tp_lifecycle_state r \<noteq> PS_archived)
             (sd_packets db)))))"

section \<open>Completion\<close>

record completion_facts =
  cf_evidence_attached_count :: int
  cf_open_blocker_count :: int
  cf_approval_required :: bool
  cf_approval_present_for_current_version :: bool
  cf_approved_version :: "int option"
  cf_receipt_present :: bool
  cf_plan_projection_updated :: bool

record completion_evaluation =
  ev_packet_id :: string
  ev_packet_version :: int
  ev_can_complete :: bool
  ev_unmet_reasons :: "string list"
  ev_facts :: completion_facts

text \<open>\<^verbatim>\<open>SELECT max(...)\<close>: NULLs are ignored, no rows give NULL.\<close>

definition sql_max :: "int option list \<Rightarrow> int option" where
  "sql_max vs = (case map the (filter (\<lambda>v. v \<noteq> None) vs) of [] \<Rightarrow> None | x # xs \<Rightarrow> Some (fold max xs x))"

definition attached :: "task_packet \<Rightarrow> evidence_item \<Rightarrow> bool" where
  "attached p e = (ei_workspace_id e = tp_workspace_id p \<and> ei_packet_id e = Some (tp_id p))"

definition approved_for :: "task_packet \<Rightarrow> approval_request \<Rightarrow> bool" where
  "approved_for p a =
     (ar_workspace_id a = tp_workspace_id p \<and> ar_packet_id a = Some (tp_id p) \<and> ar_status a = AS_approved)"

definition blocker_of :: "task_packet \<Rightarrow> operation_event \<Rightarrow> bool" where
  "blocker_of p e =
     (oe_workspace_id e = tp_workspace_id p \<and> Some (oe_id e) = tp_event_id p \<and> oe_status e = ''blocked'')"

definition approved_version :: "task_packet \<Rightarrow> spine_db \<Rightarrow> int option" where
  "approved_version p db = sql_max (map ar_packet_version (filter (approved_for p) (sd_approvals db)))"

definition completion_input_of :: "task_packet \<Rightarrow> spine_db \<Rightarrow> completion_input" where
  "completion_input_of p db =
     \<lparr>ci_hasRequestedOutput = (js_trim (coalesce (tp_requested_output p) []) \<noteq> []),
      ci_acceptanceCriteriaRequired = (non_empty (tp_acceptance_criteria p) \<noteq> []),
      ci_acceptanceCriteriaPass = (tp_acceptance_status p = Acc_passed \<or> tp_acceptance_status p = Acc_not_required),
      ci_evidenceRequired = tp_evidence_required p,
      ci_evidenceAttachedCount = int (length (filter (attached p) (sd_evidence db))),
      ci_executionFinished = (tp_execution_status p = Ex_succeeded \<or> tp_execution_status p = Ex_not_required),
      ci_openBlockerCount = int (length (filter (blocker_of p) (sd_events db))),
      ci_blockersExplicitlyAccepted = tp_blockers_accepted p,
      ci_approvalRequired = tp_approval_required p,
      ci_approvalPresent = (approved_version p db \<noteq> None),
      ci_approvedVersion = approved_version p db,
      ci_currentVersion = tp_version p,
      ci_receiptPresent = (\<not> tp_receipt_required p \<or>
        0 < length (filter (\<lambda>e. attached p e \<and> ei_kind e = EK_receipt) (sd_evidence db))),
      ci_planProjectionUpdated = (\<not> tp_plan_projection_required p \<or>
        (case tp_plan_projection_updated_at p of None \<Rightarrow> False | Some t \<Rightarrow> t \<ge> tp_updated_at p))\<rparr>"

definition evaluateTaskPacketCompletionRow ::
  "string \<Rightarrow> string \<Rightarrow> spine_db \<Rightarrow> spine_error + completion_evaluation option" where
  "evaluateTaskPacketCompletionRow ws packetId db =
     (case scope_guard ws of
        Inl e \<Rightarrow> Inl e
      | Inr _ \<Rightarrow>
          if js_trim packetId = [] then Inr None
          else (case find (\<lambda>p. tp_workspace_id p = ws \<and> tp_id p = packetId) (sd_packets db) of
                  None \<Rightarrow> Inr None
                | Some p \<Rightarrow>
                    (let i = completion_input_of p db; verdict = evaluateCompletion i
                     in Inr (Some
                          \<lparr>ev_packet_id = tp_id p, ev_packet_version = tp_version p,
                           ev_can_complete = cv_can_complete verdict, ev_unmet_reasons = cv_unmet verdict,
                           ev_facts =
                             \<lparr>cf_evidence_attached_count = ci_evidenceAttachedCount i,
                              cf_open_blocker_count = ci_openBlockerCount i,
                              cf_approval_required = tp_approval_required p,
                              cf_approval_present_for_current_version = (approved_version p db = Some (tp_version p)),
                              cf_approved_version = approved_version p db,
                              cf_receipt_present = ci_receiptPresent i,
                              cf_plan_projection_updated = ci_planProjectionUpdated i\<rparr>\<rparr>))))"

section \<open>Evidence\<close>

fun after_evidence :: "packet_lifecycle_state \<Rightarrow> packet_lifecycle_state" where
  "after_evidence st = (if st \<in> {PS_draft, PS_ready, PS_in_progress} then PS_evidence_ready else st)"

definition link_evidence :: "int \<Rightarrow> string \<Rightarrow> string \<Rightarrow> string \<Rightarrow> task_packet \<Rightarrow> task_packet" where
  "link_evidence now ws packetId evidenceId p =
     (if tp_id p = packetId \<and> tp_workspace_id p = ws
      then p\<lparr>tp_evidence_ref_ids := tp_evidence_ref_ids p @ [evidenceId],
             tp_lifecycle_state := after_evidence (tp_lifecycle_state p), tp_updated_at := now\<rparr>
      else p)"

definition createEvidenceItemRow ::
  "string \<Rightarrow> int \<Rightarrow> string \<Rightarrow> string \<Rightarrow> evidence_item_input \<Rightarrow> spine_db \<Rightarrow> spine_db \<times> (spine_error + evidence_item)" where
  "createEvidenceItemRow nano now ws actor inp db =
     attempt db (scope_guard ws) (\<lambda>_.
     (let i = id_or_fresh (eii_id inp) (''ev_'' @ nano) in
     attempt db (requireShortText ''title'' (eii_title inp) 160) (\<lambda>title.
     attempt db (requireShortText ''uri'' (eii_uri inp) 1024) (\<lambda>uri.
     attempt db (assertPacketInWorkspace ws (eii_packet_id inp) db) (\<lambda>_.
     attempt db (assertEventInWorkspace ws (eii_event_id inp) db) (\<lambda>_.
     attempt db (packet_same_workspace ws (eii_packet_id inp) db) (\<lambda>_.
     attempt db (pk ''evidence_items'' ei_id i (sd_evidence db)) (\<lambda>_.
     attempt db (fk_event (eii_event_id inp) db) (\<lambda>_.
     (let row = \<lparr>ei_id = i, ei_workspace_id = ws, ei_packet_id = eii_packet_id inp, ei_event_id = eii_event_id inp,
                 ei_kind = eii_kind inp, ei_title = title, ei_uri = uri, ei_content_hash = eii_content_hash inp,
                 ei_summary = eii_summary inp,
                 ei_redaction_status = coalesce (eii_redaction_status inp) Metadata_only,
                 ei_actor_user_id = actor, ei_created_at = now\<rparr>;
          packets = (if truthy (eii_packet_id inp)
                     then map (link_evidence now ws (coalesce (eii_packet_id inp) []) i) (sd_packets db)
                     else sd_packets db)
      in (db\<lparr>sd_evidence := sd_evidence db @ [row], sd_packets := packets\<rparr>, Inr row)))))))))))"

definition listEvidenceItemsRow :: "string \<Rightarrow> list_opts \<Rightarrow> spine_db \<Rightarrow> spine_error + evidence_item list" where
  "listEvidenceItemsRow ws opts db =
     (case scope_guard ws of
        Inl e \<Rightarrow> Inl e
      | Inr _ \<Rightarrow> Inr (latest_first ei_created_at ei_id (limitFor (lo_limit opts))
          (filter (\<lambda>r. ei_workspace_id r = ws \<and> wants_packet opts (ei_packet_id r)) (sd_evidence db))))"

section \<open>Approvals\<close>

definition createApprovalRequestRow ::
  "string \<Rightarrow> int \<Rightarrow> string \<Rightarrow> string \<Rightarrow> approval_request_input \<Rightarrow> spine_db
     \<Rightarrow> spine_db \<times> (spine_error + approval_request)" where
  "createApprovalRequestRow nano now ws actor inp db =
     attempt db (scope_guard ws) (\<lambda>_.
     (let i = id_or_fresh (ari_id inp) (''apr_'' @ nano) in
     attempt db (requireShortText ''reason'' (ari_reason inp) 1000) (\<lambda>reason.
     attempt db (assertPacketInWorkspace ws (ari_packet_id inp) db) (\<lambda>_.
     attempt db (assertEventInWorkspace ws (ari_event_id inp) db) (\<lambda>_.
     attempt db (packet_same_workspace ws (ari_packet_id inp) db) (\<lambda>_.
     attempt db (pk ''approval_requests'' ar_id i (sd_approvals db)) (\<lambda>_.
     attempt db (fk_event (ari_event_id inp) db) (\<lambda>_.
     (let row = \<lparr>ar_id = i, ar_workspace_id = ws, ar_packet_id = ari_packet_id inp,
                 ar_packet_version = map_option tp_version
                   (find (\<lambda>p. Some (tp_id p) = ari_packet_id inp \<and> tp_workspace_id p = ws) (sd_packets db)),
                 ar_event_id = ari_event_id inp, ar_requested_by = actor, ar_decided_by = None,
                 ar_status = AS_requested, ar_reason = reason, ar_decision_comment = None,
                 ar_requested_at = now, ar_decided_at = None\<rparr>
      in (db\<lparr>sd_approvals := sd_approvals db @ [row]\<rparr>, Inr row))))))))))"

definition decidable :: "string \<Rightarrow> string \<Rightarrow> approval_request \<Rightarrow> bool" where
  "decidable ws i a = (ar_id a = i \<and> ar_workspace_id a = ws \<and> ar_status a = AS_requested)"

definition decide :: "int \<Rightarrow> string \<Rightarrow> approval_decision_input \<Rightarrow> approval_request \<Rightarrow> approval_request" where
  "decide now actor inp a =
     a\<lparr>ar_status := status_of_decision (adi_status inp), ar_decided_by := Some actor,
       ar_decision_comment := adi_comment inp, ar_decided_at := Some now\<rparr>"

definition decideApprovalRequestRow ::
  "(int \<Rightarrow> string) \<Rightarrow> int \<Rightarrow> string \<Rightarrow> string \<Rightarrow> string \<Rightarrow> approval_decision_input \<Rightarrow> spine_db
     \<Rightarrow> spine_db \<times> (spine_error + approval_decision_result option)" where
  "decideApprovalRequestRow show_ts now ws approvalId actor inp db =
     attempt db (scope_guard ws) (\<lambda>_.
       if approvalId = [] then (db, Inr None)
       else (case find (decidable ws approvalId) (sd_approvals db) of
               None \<Rightarrow> (db, Inr None)
             | Some a \<Rightarrow>
                 (let db' = db\<lparr>sd_approvals := map (\<lambda>r. if decidable ws approvalId r then decide now actor inp r else r)
                                               (sd_approvals db)\<rparr>
                  in if actor = []
                     then (db', Inl (Dal (makeError ''CONFLICT'' ''approval decision was not durably recorded; receipt not issued'' 409)))
                     else (db', Inr (Some \<lparr>adr_approval = decide now actor inp a,
                                           adr_receipt_id = ''approval-decision:'' @ ar_id a @ '':'' @ show_ts now\<rparr>)))))"

definition listApprovalRequestsRow :: "string \<Rightarrow> list_opts \<Rightarrow> spine_db \<Rightarrow> spine_error + approval_request list" where
  "listApprovalRequestsRow ws opts db =
     (case scope_guard ws of
        Inl e \<Rightarrow> Inl e
      | Inr _ \<Rightarrow> Inr (latest_first ar_requested_at ar_id (limitFor (lo_limit opts))
          (filter (\<lambda>r. ar_workspace_id r = ws \<and> wants_packet opts (ar_packet_id r)) (sd_approvals db))))"


section \<open>Tool events\<close>

definition spineStatusForToolEvent :: "tool_event_status \<Rightarrow> string" where
  "spineStatusForToolEvent st = (if st = TE_failed \<or> st = TE_denied then ''failed'' else ''completed'')"

fun action_name :: "tool_event_action \<Rightarrow> string" where
  "action_name Get_task_packet = ''get_task_packet''"
| "action_name Get_allowed_scope = ''get_allowed_scope''"
| "action_name Submit_evidence = ''submit_evidence''"
| "action_name Report_tool_event = ''report_tool_event''"
| "action_name Request_approval = ''request_approval''"
| "action_name Get_workflow_status = ''get_workflow_status''"
| "action_name Get_public_policy_summary = ''get_public_policy_summary''"
| "action_name Get_effective_templates = ''get_effective_templates''"
| "action_name Get_effective_profile = ''get_effective_profile''"
| "action_name Submit_learning_signal = ''submit_learning_signal''"

record unification_opts =
  uo_emitSpineEvent :: bool
  uo_lineage :: "lineage option"

text \<open>The intent of the packet's event, joined inside the workspace.\<close>

definition packet_intent :: "string \<Rightarrow> string option \<Rightarrow> spine_db \<Rightarrow> string option" where
  "packet_intent ws p db =
     (case find (\<lambda>tp. Some (tp_id tp) = p \<and> tp_workspace_id tp = ws) (sd_packets db) of
        None \<Rightarrow> None
      | Some tp \<Rightarrow>
          (case find (\<lambda>oe. Some (oe_id oe) = tp_event_id tp \<and> oe_workspace_id oe = tp_workspace_id tp) (sd_events db) of
             None \<Rightarrow> None
           | Some oe \<Rightarrow> oe_intent_id oe))"

text \<open>
  \<open>nano\<close> names the tool event and \<open>nano2\<close> its companion. The dash of the companion's summary is
  outside the model's characters and is the argument \<open>dash\<close>.
\<close>

definition createToolEventRow ::
  "string \<Rightarrow> string \<Rightarrow> string \<Rightarrow> int \<Rightarrow> string \<Rightarrow> string \<Rightarrow> tool_event_input \<Rightarrow> unification_opts \<Rightarrow> spine_db
     \<Rightarrow> spine_db \<times> (spine_error + tool_event)" where
  "createToolEventRow dash nano nano2 now ws actor inp opts db =
     attempt db (scope_guard ws) (\<lambda>_.
     (let i = id_or_fresh (tei_id inp) (''te_'' @ nano) in
     attempt db (requireShortText ''summary'' (tei_summary inp) 512) (\<lambda>summary.
     attempt db (assertPacketInWorkspace ws (tei_packet_id inp) db) (\<lambda>_.
     attempt db (assertEvidenceInWorkspace ws (tei_evidence_item_id inp) db) (\<lambda>_.
     attempt db (packet_same_workspace ws (tei_packet_id inp) db) (\<lambda>_.
     attempt db (evidence_same_workspace ws (tei_evidence_item_id inp) db) (\<lambda>_.
     attempt db (tool_event_checks inp) (\<lambda>_.
     attempt db (pk ''tool_events'' te_id i (sd_tool_events db)) (\<lambda>_.
     (let row = \<lparr>te_id = i, te_workspace_id = ws, te_packet_id = tei_packet_id inp, te_event_id = None,
                 te_tool_name = tei_tool_name inp, te_action = tei_action inp, te_actor_user_id = actor,
                 te_status = tei_status inp, te_evidence_item_id = tei_evidence_item_id inp,
                 te_summary = summary, te_created_at = now\<rparr>
      in if \<not> uo_emitSpineEvent opts then (db\<lparr>sd_tool_events := sd_tool_events db @ [row]\<rparr>, Inr row)
         else (let spineEventId = ''ev_'' @ nano2;
                   lin = uo_lineage opts;
                   linked = row\<lparr>te_event_id := Some spineEventId\<rparr>;
                   companion = \<lparr>oe_id = spineEventId, oe_workspace_id = ws, oe_source_tool = ''tool_action'',
                     oe_status = spineStatusForToolEvent (tei_status inp),
                     oe_summary = take 512 (''[tool] '' @ tei_tool_name inp @ '':'' @ action_name (tei_action inp) @ '' '' @ dash @ '' '' @ summary),
                     oe_occurred_at = now, oe_visibility = ''internal_workspace'',
                     oe_authorized_by_user_id = Option.bind lin ln_authorized_by_user_id,
                     oe_instrument_kind = Option.bind lin ln_instrument_kind,
                     oe_authority_source = Option.bind lin ln_authority_source,
                     oe_request_id = Option.bind lin ln_request_id,
                     oe_intent_id = packet_intent ws (tei_packet_id inp) db\<rparr>
               in attempt db (pk ''operation_events'' oe_id spineEventId (sd_events db)) (\<lambda>_.
                    (db\<lparr>sd_tool_events := sd_tool_events db @ [linked], sd_events := sd_events db @ [companion]\<rparr>,
                     Inr linked)))))))))))))"

definition listToolEventsRow :: "string \<Rightarrow> list_opts \<Rightarrow> spine_db \<Rightarrow> spine_error + tool_event list" where
  "listToolEventsRow ws opts db =
     (case scope_guard ws of
        Inl e \<Rightarrow> Inl e
      | Inr _ \<Rightarrow> Inr (latest_first te_created_at te_id (limitFor (lo_limit opts))
          (filter (\<lambda>r. te_workspace_id r = ws \<and> wants_packet opts (te_packet_id r)) (sd_tool_events db))))"

section \<open>Metric deltas\<close>

definition createMetricDeltaRow ::
  "string \<Rightarrow> int \<Rightarrow> string \<Rightarrow> string \<Rightarrow> metric_delta_input \<Rightarrow> spine_db \<Rightarrow> spine_db \<times> (spine_error + metric_delta)" where
  "createMetricDeltaRow nano now ws actor inp db =
     attempt db (scope_guard ws) (\<lambda>_.
     (let i = id_or_fresh (mdi_id inp) (''md_'' @ nano) in
     attempt db (requireShortText ''metric_id'' (mdi_metric_id inp) 160) (\<lambda>metricId.
     attempt db (assertPacketInWorkspace ws (mdi_packet_id inp) db) (\<lambda>_.
     attempt db (assertEvidenceInWorkspace ws (mdi_evidence_item_id inp) db) (\<lambda>_.
     attempt db (packet_same_workspace ws (mdi_packet_id inp) db) (\<lambda>_.
     attempt db (evidence_same_workspace ws (mdi_evidence_item_id inp) db) (\<lambda>_.
     attempt db (pk ''metric_deltas'' md_id i (sd_metrics db)) (\<lambda>_.
     (let row = \<lparr>md_id = i, md_workspace_id = ws, md_packet_id = mdi_packet_id inp, md_metric_id = metricId,
                 md_before_value = mdi_before_value inp, md_after_value = mdi_after_value inp,
                 md_delta_value = (case (mdi_before_value inp, mdi_after_value inp) of
                                     (Some b, Some a) \<Rightarrow> Some (a - b) | _ \<Rightarrow> None),
                 md_evidence_item_id = mdi_evidence_item_id inp, md_recorded_by = actor, md_recorded_at = now\<rparr>
      in (db\<lparr>sd_metrics := sd_metrics db @ [row]\<rparr>, Inr row))))))))))"

definition listMetricDeltasRow :: "string \<Rightarrow> list_opts \<Rightarrow> spine_db \<Rightarrow> spine_error + metric_delta list" where
  "listMetricDeltasRow ws opts db =
     (case scope_guard ws of
        Inl e \<Rightarrow> Inl e
      | Inr _ \<Rightarrow> Inr (latest_first md_recorded_at md_id (limitFor (lo_limit opts))
          (filter (\<lambda>r. md_workspace_id r = ws \<and> wants_packet opts (md_packet_id r)) (sd_metrics db))))"

section \<open>Customer-data lifecycle requests\<close>

datatype lifecycle_kind = LK_export | LK_delete

record lifecycle_input =
  li_approval_id :: "string option"
  li_request_kind :: "lifecycle_kind option"
  li_target_packet_id :: "string option"
  li_execution_note :: "string option"

record lifecycle_execution =
  le_request_kind :: lifecycle_kind
  le_approval_id :: string
  le_target_packet_id :: "string option"
  le_archived_packet_ids :: "string list"
  le_evidence_item :: evidence_item
  le_tool_event :: tool_event

fun lifecycle_kind_str :: "lifecycle_kind \<Rightarrow> string" where
  "lifecycle_kind_str LK_export = ''export''"
| "lifecycle_kind_str LK_delete = ''delete''"

definition live_approval :: "string \<Rightarrow> string \<Rightarrow> spine_db \<Rightarrow> bool" where
  "live_approval ws approvalId db =
     list_ex (\<lambda>a. ar_id a = approvalId \<and> ar_workspace_id a = ws \<and> ar_status a = AS_approved) (sd_approvals db)"

definition archived_packet :: "string \<Rightarrow> string option \<Rightarrow> spine_db \<Rightarrow> bool" where
  "archived_packet ws target db =
     list_ex (\<lambda>p. Some (tp_id p) = target \<and> tp_workspace_id p = ws \<and> tp_lifecycle_state p = PS_archived) (sd_packets db)"

definition is_target :: "string \<Rightarrow> string option \<Rightarrow> task_packet \<Rightarrow> bool" where
  "is_target ws target p = (Some (tp_id p) = target \<and> tp_workspace_id p = ws)"

definition lifecycle_receipt ::
  "string \<Rightarrow> int \<Rightarrow> string \<Rightarrow> string \<Rightarrow> lifecycle_kind \<Rightarrow> string \<Rightarrow> lifecycle_input \<Rightarrow> evidence_item" where
  "lifecycle_receipt nano now ws actor kind approvalId inp =
     \<lparr>ei_id = ''ev_'' @ nano, ei_workspace_id = ws, ei_packet_id = li_target_packet_id inp, ei_event_id = None,
      ei_kind = EK_receipt,
      ei_title = (case kind of LK_delete \<Rightarrow> ''Customer data delete execution receipt''
                             | LK_export \<Rightarrow> ''Customer data export execution receipt''),
      ei_uri = ''xlooop://customer-data/'' @ lifecycle_kind_str kind @ ''-receipts/'' @ approvalId,
      ei_content_hash = None,
      ei_summary = Some (lifecycle_kind_str kind @ '' execution completed through the backend operational spine.'' @ '' '' @
        ''Output is metadata/redacted only; raw graph, full tenant memory, platform internals, and secrets are excluded.'' @
        (if truthy (li_execution_note inp) then '' Operator note: '' @ coalesce (li_execution_note inp) [] else [])),
      ei_redaction_status = Metadata_only, ei_actor_user_id = actor, ei_created_at = now\<rparr>"

definition lifecycle_tool_event ::
  "string \<Rightarrow> string \<Rightarrow> int \<Rightarrow> string \<Rightarrow> string \<Rightarrow> lifecycle_kind \<Rightarrow> lifecycle_input \<Rightarrow> tool_event" where
  "lifecycle_tool_event nano nano2 now ws actor kind inp =
     \<lparr>te_id = ''te_'' @ nano2, te_workspace_id = ws, te_packet_id = li_target_packet_id inp, te_event_id = None,
      te_tool_name = ''xlooop.customer_data_lifecycle'', te_action = Report_tool_event, te_actor_user_id = actor,
      te_status = TE_completed, te_evidence_item_id = Some (''ev_'' @ nano),
      te_summary = (case kind of LK_delete \<Rightarrow> ''approved customer delete/archive execution completed''
                               | LK_export \<Rightarrow> ''approved customer metadata export execution completed''),
      te_created_at = now\<rparr>"

text \<open>
  The statements of the one transaction: the approval probe, the guarded archive, then the guarded
  receipt and tool event. The result sets are returned with the tables.
\<close>

definition archive_statement :: "int \<Rightarrow> string \<Rightarrow> string option \<Rightarrow> string \<Rightarrow> spine_db \<Rightarrow> spine_db \<times> string list" where
  "archive_statement now ws target approvalId db =
     (if live_approval ws approvalId db
      then (db\<lparr>sd_packets := map (\<lambda>p. if is_target ws target p
                                     then p\<lparr>tp_lifecycle_state := PS_archived, tp_updated_at := now\<rparr> else p)
                                (sd_packets db)\<rparr>,
            map tp_id (filter (is_target ws target) (sd_packets db)))
      else (db, []))"

definition receipt_admissible :: "lifecycle_kind \<Rightarrow> string \<Rightarrow> string option \<Rightarrow> string \<Rightarrow> spine_db \<Rightarrow> bool" where
  "receipt_admissible kind ws target approvalId db =
     (case kind of LK_delete \<Rightarrow> archived_packet ws target db | LK_export \<Rightarrow> live_approval ws approvalId db)"

text \<open>The answer built from the result sets, after the transaction has committed.\<close>

definition lifecycle_answer ::
  "lifecycle_kind \<Rightarrow> string \<Rightarrow> string option \<Rightarrow> bool \<Rightarrow> string list \<Rightarrow> bool \<Rightarrow> evidence_item \<Rightarrow> tool_event
     \<Rightarrow> spine_error + lifecycle_execution" where
  "lifecycle_answer kind approvalId target approvalFound affected written receipt toolEvent =
     (let archivedPacketIds = (if kind = LK_delete then non_empty affected else [])
      in if \<not> approvalFound
         then Inl (Dal (makeError ''NOT_FOUND'' ''approved lifecycle approval request not found'' 404))
         else if kind = LK_delete \<and> archivedPacketIds = []
         then Inl (Dal (makeError ''NOT_FOUND'' ''target packet not found or already unavailable for deletion'' 404))
         else if \<not> written
         then Inl (Dal (makeError ''INTERNAL_ERROR''
           ''customer data lifecycle execution produced no receipt; the effect and its evidence disagree'' 500))
         else Inr \<lparr>le_request_kind = kind, le_approval_id = approvalId, le_target_packet_id = target,
                   le_archived_packet_ids = archivedPacketIds,
                   le_evidence_item = receipt, le_tool_event = toolEvent\<rparr>)"

definition lifecycle_transaction ::
  "string \<Rightarrow> string \<Rightarrow> int \<Rightarrow> string \<Rightarrow> string \<Rightarrow> lifecycle_kind \<Rightarrow> string \<Rightarrow> lifecycle_input \<Rightarrow> spine_db
     \<Rightarrow> spine_db \<times> (spine_error + lifecycle_execution)" where
  "lifecycle_transaction nano nano2 now ws actor kind approvalId inp db =
     (let target = li_target_packet_id inp;
          approvalFound = live_approval ws approvalId db;
          (db1, affected) = (if kind = LK_delete then archive_statement now ws target approvalId db else (db, []));
          receipt = lifecycle_receipt nano now ws actor kind approvalId inp;
          toolEvent = lifecycle_tool_event nano nano2 now ws actor kind inp;
          answer = lifecycle_answer kind approvalId target approvalFound affected
      in if receipt_admissible kind ws target approvalId db1
         then attempt db (packet_same_workspace ws target db) (\<lambda>_.
              attempt db (pk ''evidence_items'' ei_id (ei_id receipt) (sd_evidence db)) (\<lambda>_.
              attempt db (pk ''tool_events'' te_id (te_id toolEvent) (sd_tool_events db)) (\<lambda>_.
                (db1\<lparr>sd_evidence := sd_evidence db1 @ [receipt], sd_tool_events := sd_tool_events db1 @ [toolEvent]\<rparr>,
                 answer True receipt toolEvent))))
         else (db1, answer False receipt toolEvent))"

definition executeCustomerDataLifecycleRequestRow ::
  "string \<Rightarrow> string \<Rightarrow> int \<Rightarrow> string \<Rightarrow> string \<Rightarrow> lifecycle_input \<Rightarrow> spine_db
     \<Rightarrow> spine_db \<times> (spine_error + lifecycle_execution)" where
  "executeCustomerDataLifecycleRequestRow nano nano2 now ws actor inp db =
     attempt db (scope_guard ws) (\<lambda>_.
     attempt db (requireShortText ''approval_id'' (li_approval_id inp) 160) (\<lambda>approvalId.
     (case li_request_kind inp of
        None \<Rightarrow> (db, Inl (Dal (makeError ''VALIDATION_ERROR'' ''request_kind must be export or delete'' 400)))
      | Some kind \<Rightarrow>
          if kind = LK_delete \<and> \<not> truthy (li_target_packet_id inp)
          then (db, Inl (Dal (makeError ''VALIDATION_ERROR'' ''target_packet_id is required for delete execution'' 400)))
          else
          attempt db (assertPacketInWorkspace ws (li_target_packet_id inp) db) (\<lambda>_.
            lifecycle_transaction nano nano2 now ws actor kind approvalId inp db))))"

end
