(* ===== verification/Spine_Props.thy ===== *)
theory Spine_Props
  imports Spine_Store
begin

text \<open>
  What the operational spine promises. The abstract specification is the step relation
  \<open>spine_step\<close>: the only ways the tables may change on behalf of a workspace. Every operation of
  the store refines it; the integrity invariant, the append-only history and tenant isolation are
  proved on the relation and hold of the store through the refinement.
\<close>

section \<open>Commands\<close>

datatype spine_command =
    Create_packet string int string task_packet_input
  | Create_evidence string int string evidence_item_input
  | Create_approval string int string approval_request_input
  | Decide_approval int string string approval_decision_input
  | Create_tool_event string string int string tool_event_input unification_opts
  | Create_metric string int string metric_delta_input
  | Execute_lifecycle string string int string lifecycle_input

fun spine_exec :: "string \<Rightarrow> string \<Rightarrow> spine_command \<Rightarrow> spine_db \<Rightarrow> spine_db" where
  "spine_exec dash ws (Create_packet nano now actor inp) db = fst (createTaskPacketRow nano now ws actor inp db)"
| "spine_exec dash ws (Create_evidence nano now actor inp) db = fst (createEvidenceItemRow nano now ws actor inp db)"
| "spine_exec dash ws (Create_approval nano now actor inp) db = fst (createApprovalRequestRow nano now ws actor inp db)"
| "spine_exec dash ws (Decide_approval now i actor inp) db =
     fst (decideApprovalRequestRow (\<lambda>_. []) now ws i actor inp db)"
| "spine_exec dash ws (Create_tool_event nano nano2 now actor inp opts) db =
     fst (createToolEventRow dash nano nano2 now ws actor inp opts db)"
| "spine_exec dash ws (Create_metric nano now actor inp) db = fst (createMetricDeltaRow nano now ws actor inp db)"
| "spine_exec dash ws (Execute_lifecycle nano nano2 now actor inp) db =
     fst (executeCustomerDataLifecycleRequestRow nano nano2 now ws actor inp db)"

definition spine_run :: "string \<Rightarrow> (string \<times> spine_command) list \<Rightarrow> spine_db \<Rightarrow> spine_db" where
  "spine_run dash cs db = foldl (\<lambda>db wc. spine_exec dash (fst wc) (snd wc) db) db cs"

section \<open>The abstract specification\<close>

text \<open>A packet update that stays inside a workspace and never un-archives.\<close>

definition packet_update :: "string \<Rightarrow> (task_packet \<Rightarrow> task_packet) \<Rightarrow> bool" where
  "packet_update ws f \<longleftrightarrow>
     (\<forall>p. tp_id (f p) = tp_id p \<and> tp_workspace_id (f p) = tp_workspace_id p \<and> tp_version (f p) = tp_version p \<and>
          tp_project_id (f p) = tp_project_id p \<and> tp_event_id (f p) = tp_event_id p \<and>
          (tp_workspace_id p \<noteq> ws \<longrightarrow> f p = p) \<and>
          (tp_lifecycle_state p = PS_archived \<longrightarrow> tp_lifecycle_state (f p) = PS_archived))"

definition packet_ref_ok :: "string \<Rightarrow> string option \<Rightarrow> spine_db \<Rightarrow> bool" where
  "packet_ref_ok ws p db = (case p of None \<Rightarrow> True | Some i \<Rightarrow> has_packet ws i db)"

definition evidence_ref_ok :: "string \<Rightarrow> string option \<Rightarrow> spine_db \<Rightarrow> bool" where
  "evidence_ref_ok ws e db = (case e of None \<Rightarrow> True | Some i \<Rightarrow> has_evidence ws i db)"

definition event_ref_ok :: "string \<Rightarrow> string option \<Rightarrow> spine_db \<Rightarrow> bool" where
  "event_ref_ok ws e db = (case e of None \<Rightarrow> True | Some i \<Rightarrow> has_event ws i db)"

text \<open>
  The event an input names is looked up in the workspace unless its name is empty; the foreign key then asks for an event of that
  name in any workspace. A project is only asked to exist.
\<close>

definition event_input_ok :: "string \<Rightarrow> string option \<Rightarrow> spine_db \<Rightarrow> bool" where
  "event_input_ok ws e db \<longleftrightarrow> event_ref_ok ws e db \<or> e = Some [] \<and> list_ex (\<lambda>r. oe_id r = []) (sd_events db)"

definition project_ref_ok :: "string option \<Rightarrow> spine_db \<Rightarrow> bool" where
  "project_ref_ok p db = (case p of None \<Rightarrow> True | Some i \<Rightarrow> list_ex (\<lambda>r. pj_id r = i) (sd_projects db))"

inductive spine_step :: "string \<Rightarrow> spine_db \<Rightarrow> spine_db \<Rightarrow> bool" for ws :: string and db :: spine_db where
  packet: "tp_workspace_id row = ws \<Longrightarrow> tp_id row \<notin> tp_id ` set (sd_packets db) \<Longrightarrow>
     project_ref_ok (tp_project_id row) db \<Longrightarrow> event_input_ok ws (tp_event_id row) db \<Longrightarrow>
     spine_step ws db (db\<lparr>sd_packets := sd_packets db @ [row]\<rparr>)"
| evidence: "ei_workspace_id row = ws \<Longrightarrow> ei_id row \<notin> ei_id ` set (sd_evidence db) \<Longrightarrow>
     packet_ref_ok ws (ei_packet_id row) db \<Longrightarrow> event_input_ok ws (ei_event_id row) db \<Longrightarrow> packet_update ws f \<Longrightarrow>
     spine_step ws db (db\<lparr>sd_evidence := sd_evidence db @ [row], sd_packets := map f (sd_packets db)\<rparr>)"
| approval: "ar_workspace_id row = ws \<Longrightarrow> ar_id row \<notin> ar_id ` set (sd_approvals db) \<Longrightarrow>
     packet_ref_ok ws (ar_packet_id row) db \<Longrightarrow> event_input_ok ws (ar_event_id row) db \<Longrightarrow> ar_status row = AS_requested \<Longrightarrow> ar_decided_at row = None \<Longrightarrow>
     spine_step ws db (db\<lparr>sd_approvals := sd_approvals db @ [row]\<rparr>)"
| decision: "spine_step ws db (db\<lparr>sd_approvals :=
     map (\<lambda>r. if decidable ws i r then decide now actor inp r else r) (sd_approvals db)\<rparr>)"
| tool_event: "te_workspace_id row = ws \<Longrightarrow> te_id row \<notin> te_id ` set (sd_tool_events db) \<Longrightarrow>
     packet_ref_ok ws (te_packet_id row) db \<Longrightarrow> evidence_ref_ok ws (te_evidence_item_id row) db \<Longrightarrow>
     te_event_id row = None \<Longrightarrow>
     spine_step ws db (db\<lparr>sd_tool_events := sd_tool_events db @ [row]\<rparr>)"
| linked_tool_event: "te_workspace_id row = ws \<Longrightarrow> te_id row \<notin> te_id ` set (sd_tool_events db) \<Longrightarrow>
     packet_ref_ok ws (te_packet_id row) db \<Longrightarrow> evidence_ref_ok ws (te_evidence_item_id row) db \<Longrightarrow>
     te_event_id row = Some (oe_id ev) \<Longrightarrow> oe_workspace_id ev = ws \<Longrightarrow> oe_id ev \<noteq> [] \<Longrightarrow> oe_id ev \<notin> oe_id ` set (sd_events db) \<Longrightarrow>
     spine_step ws db (db\<lparr>sd_tool_events := sd_tool_events db @ [row], sd_events := sd_events db @ [ev]\<rparr>)"
| metric: "md_workspace_id row = ws \<Longrightarrow> md_id row \<notin> md_id ` set (sd_metrics db) \<Longrightarrow>
     packet_ref_ok ws (md_packet_id row) db \<Longrightarrow> evidence_ref_ok ws (md_evidence_item_id row) db \<Longrightarrow>
     spine_step ws db (db\<lparr>sd_metrics := sd_metrics db @ [row]\<rparr>)"
| lifecycle: "ei_workspace_id rcpt = ws \<Longrightarrow> ei_id rcpt \<notin> ei_id ` set (sd_evidence db) \<Longrightarrow>
     packet_ref_ok ws (ei_packet_id rcpt) db \<Longrightarrow> ei_event_id rcpt = None \<Longrightarrow>
     te_workspace_id row = ws \<Longrightarrow> te_id row \<notin> te_id ` set (sd_tool_events db) \<Longrightarrow>
     packet_ref_ok ws (te_packet_id row) db \<Longrightarrow> te_evidence_item_id row = Some (ei_id rcpt) \<Longrightarrow>
     te_event_id row = None \<Longrightarrow> packet_update ws f \<Longrightarrow>
     spine_step ws db (db\<lparr>sd_packets := map f (sd_packets db), sd_evidence := sd_evidence db @ [rcpt],
                          sd_tool_events := sd_tool_events db @ [row]\<rparr>)"

inductive_cases spine_stepE: "spine_step ws db db'"

section \<open>The store refines the specification\<close>

lemma pk_fresh: "pk t key i rows = Inr u \<longleftrightarrow> i \<notin> key ` set rows"
  by (auto simp: pk_def list_ex_iff)

lemma guards_Inr [simp]:
  "packet_same_workspace ws p db = Inr u \<longleftrightarrow> packet_ref_ok ws p db"
  "evidence_same_workspace ws e db = Inr u \<longleftrightarrow> evidence_ref_ok ws e db"
  by (auto simp: packet_same_workspace_def evidence_same_workspace_def packet_ref_ok_def evidence_ref_ok_def
      split: option.splits)

lemma event_guards:
  "assertEventInWorkspace ws e db = Inr u \<Longrightarrow> fk_event e db = Inr v \<Longrightarrow> event_input_ok ws e db"
  by (auto simp: assertEventInWorkspace_def fk_event_def event_input_ok_def event_ref_ok_def truthy_def split: option.splits if_splits)

lemma fk_project_Inr [simp]: "fk_project p db = Inr u \<longleftrightarrow> project_ref_ok p db"
  by (auto simp: fk_project_def project_ref_ok_def)

lemma packet_update_id [simp]: "packet_update ws (\<lambda>p. p)"
  by (simp add: packet_update_def)

lemma packet_update_link: "packet_update ws (link_evidence now ws i e)"
  by (auto simp: packet_update_def link_evidence_def)

lemma packet_update_archive:
  "packet_update ws (\<lambda>p. if is_target ws target p then p\<lparr>tp_lifecycle_state := PS_archived, tp_updated_at := now\<rparr> else p)"
  by (auto simp: packet_update_def is_target_def)

text \<open>An operation either leaves the tables alone or takes one step.\<close>

definition refines :: "string \<Rightarrow> spine_db \<Rightarrow> spine_db \<Rightarrow> bool" where
  "refines ws db db' \<longleftrightarrow> db' = db \<or> spine_step ws db db'"

lemma refines_attempt:
  "(\<And>a. r = Inr a \<Longrightarrow> refines ws db (fst (f a))) \<Longrightarrow> refines ws db (fst (attempt db r f))"
  by (rule attempt_inv) (simp_all add: refines_def)

lemma refines_refl [simp]: "refines ws db db"
  by (simp add: refines_def)

lemma refines_packet: "refines ws db (fst (createTaskPacketRow nano now ws actor inp db))"
  unfolding createTaskPacketRow_def Let_def
  by (intro refines_attempt) (auto simp: refines_def pk_fresh intro!: spine_step.packet event_guards)

lemma refines_evidence: "refines ws db (fst (createEvidenceItemRow nano now ws actor inp db))"
  unfolding createEvidenceItemRow_def Let_def
proof (intro refines_attempt, goal_cases)
  case (1 _ title uri _ _ _ _ _)
  let ?f = "if truthy (eii_packet_id inp) then link_evidence now ws (coalesce (eii_packet_id inp) [])
    (id_or_fresh (eii_id inp) (''ev_'' @ nano)) else (\<lambda>p. p)"
  have f: "packet_update ws ?f" by (simp add: packet_update_link)
  have m: "(if truthy (eii_packet_id inp) then map (link_evidence now ws (coalesce (eii_packet_id inp) [])
    (id_or_fresh (eii_id inp) (''ev_'' @ nano))) (sd_packets db) else sd_packets db) = map ?f (sd_packets db)" by simp
  show ?case unfolding m fst_conv refines_def
    by (rule disjI2, rule spine_step.evidence) (use 1 f in \<open>simp_all add: pk_fresh\<close>, rule event_guards)
qed

lemma refines_approval: "refines ws db (fst (createApprovalRequestRow nano now ws actor inp db))"
  unfolding createApprovalRequestRow_def Let_def
  by (intro refines_attempt) (auto simp: refines_def pk_fresh intro!: spine_step.approval event_guards)

lemma refines_decision: "refines ws db (fst (decideApprovalRequestRow show_ts now ws i actor inp db))"
  unfolding decideApprovalRequestRow_def Let_def
  by (intro refines_attempt) (auto simp: refines_def split: option.splits intro: spine_step.decision)

lemma refines_tool_event: "refines ws db (fst (createToolEventRow dash nano nano2 now ws actor inp opts db))"
  unfolding createToolEventRow_def Let_def
  by (intro refines_attempt)
    (auto simp: refines_def pk_fresh attempt_def split: sum.splits
      intro!: spine_step.tool_event spine_step.linked_tool_event)

lemma refines_metric: "refines ws db (fst (createMetricDeltaRow nano now ws actor inp db))"
  unfolding createMetricDeltaRow_def Let_def
  by (intro refines_attempt) (auto simp: refines_def pk_fresh intro!: spine_step.metric)


lemma asserted_target:
  assumes "truthy target" and "assertPacketInWorkspace ws target db = Inr u"
  obtains p where "p \<in> set (sd_packets db)" "is_target ws target p"
  using assms that
  by (cases target) (auto simp: assertPacketInWorkspace_def has_packet_def list_ex_iff is_target_def)

lemma archive_statement_archives:
  assumes "live_approval ws approvalId db" and "truthy target" and "assertPacketInWorkspace ws target db = Inr u"
  shows "archived_packet ws target (fst (archive_statement now ws target approvalId db))"
proof -
  from assms(2,3) obtain p where p: "p \<in> set (sd_packets db)" "is_target ws target p" by (rule asserted_target)
  let ?f = "\<lambda>p. if is_target ws target p then p\<lparr>tp_lifecycle_state := PS_archived, tp_updated_at := now\<rparr> else p"
  have "?f p \<in> set (map ?f (sd_packets db))" unfolding set_map using p(1) by (rule imageI)
  moreover have "Some (tp_id (?f p)) = target \<and> tp_workspace_id (?f p) = ws \<and> tp_lifecycle_state (?f p) = PS_archived"
    using p(2) by (simp add: is_target_def)
  moreover have "sd_packets (fst (archive_statement now ws target approvalId db)) = map ?f (sd_packets db)"
    using assms(1) by (simp add: archive_statement_def)
  ultimately show ?thesis unfolding archived_packet_def list_ex_iff by (intro bexI [of _ "?f p"]) simp_all
qed

lemma archive_statement_update:
  "\<exists>f. packet_update ws f \<and> fst (archive_statement now ws target approvalId db) = db\<lparr>sd_packets := map f (sd_packets db)\<rparr>"
proof (cases "live_approval ws approvalId db")
  case True
  then show ?thesis by (auto simp: archive_statement_def intro: packet_update_archive)
next
  case False
  then show ?thesis by (intro exI [of _ "\<lambda>p. p"]) (simp add: archive_statement_def)
qed

lemma lifecycle_rows [simp]:
  "ei_workspace_id (lifecycle_receipt nano now ws actor kind a inp) = ws"
  "ei_id (lifecycle_receipt nano now ws actor kind a inp) = ''ev_'' @ nano"
  "ei_kind (lifecycle_receipt nano now ws actor kind a inp) = EK_receipt"
  "ei_packet_id (lifecycle_receipt nano now ws actor kind a inp) = li_target_packet_id inp"
  "ei_event_id (lifecycle_receipt nano now ws actor kind a inp) = None"
  "te_workspace_id (lifecycle_tool_event nano nano2 now ws actor kind inp) = ws"
  "te_id (lifecycle_tool_event nano nano2 now ws actor kind inp) = ''te_'' @ nano2"
  "te_packet_id (lifecycle_tool_event nano nano2 now ws actor kind inp) = li_target_packet_id inp"
  "te_evidence_item_id (lifecycle_tool_event nano nano2 now ws actor kind inp) = Some (''ev_'' @ nano)"
  "te_event_id (lifecycle_tool_event nano nano2 now ws actor kind inp) = None"
  by (simp_all add: lifecycle_receipt_def lifecycle_tool_event_def)

lemma refines_lifecycle_transaction:
  assumes "assertPacketInWorkspace ws (li_target_packet_id inp) db = Inr u"
    and "kind = LK_delete \<Longrightarrow> truthy (li_target_packet_id inp)"
  shows "refines ws db (fst (lifecycle_transaction nano nano2 now ws actor kind approvalId inp db))"
proof -
  let ?t = "li_target_packet_id inp"
  define a where "a = (if kind = LK_delete then archive_statement now ws ?t approvalId db else (db, []))"
  obtain f where f: "packet_update ws f" "fst a = db\<lparr>sd_packets := map f (sd_packets db)\<rparr>"
    using archive_statement_update [of ws now ?t approvalId db] packet_update_id [of ws]
    by (cases "kind = LK_delete") (auto simp: a_def intro: that [of "\<lambda>p. p"])
  have same: "fst a = db" if "\<not> receipt_admissible kind ws ?t approvalId (fst a)"
    using that assms archive_statement_archives(1) [of ws approvalId db ?t u now]
    by (cases kind) (auto simp: a_def receipt_admissible_def archive_statement_def split: if_splits)
  have "refines ws db (fst a\<lparr>sd_evidence := sd_evidence (fst a) @ [lifecycle_receipt nano now ws actor kind approvalId inp],
      sd_tool_events := sd_tool_events (fst a) @ [lifecycle_tool_event nano nano2 now ws actor kind inp]\<rparr>)"
    if "packet_ref_ok ws ?t db" "''ev_'' @ nano \<notin> ei_id ` set (sd_evidence db)" "''te_'' @ nano2 \<notin> te_id ` set (sd_tool_events db)"
    unfolding refines_def f(2)
    using spine_step.lifecycle [of "lifecycle_receipt nano now ws actor kind approvalId inp" ws db
        "lifecycle_tool_event nano nano2 now ws actor kind inp" f] that f(1) by simp
  then show ?thesis
    unfolding lifecycle_transaction_def Let_def a_def [symmetric] case_prod_unfold
    using same by (auto simp: pk_fresh intro!: refines_attempt)
qed

lemma refines_lifecycle: "refines ws db (fst (executeCustomerDataLifecycleRequestRow nano nano2 now ws actor inp db))"
  unfolding executeCustomerDataLifecycleRequestRow_def
  by (intro refines_attempt)
    (auto split: option.splits intro!: refines_attempt refines_lifecycle_transaction)

lemma exec_refines: "refines ws db (spine_exec dash ws c db)"
  by (cases c) (simp_all add: refines_packet refines_evidence refines_approval refines_decision
      refines_tool_event refines_metric refines_lifecycle)

text \<open>
  C5. Refinement: whatever command is executed for a workspace, on whatever input and with whatever
  outcome, the tables are left alone or change by one step of the specification for that workspace.
\<close>

theorem spine_exec_refines: "spine_exec dash ws c db = db \<or> spine_step ws db (spine_exec dash ws c db)"
  using exec_refines [of ws db dash c] by (simp add: refines_def)


section \<open>Integrity\<close>

text \<open>
  Unique identifiers; every packet, evidence and event reference resolves inside the workspace of the
  row that holds it; an approval carries a decision time exactly when it is decided.
\<close>

definition spine_keys :: "spine_db \<Rightarrow> bool" where
  "spine_keys db \<longleftrightarrow> distinct (map tp_id (sd_packets db)) \<and> distinct (map ei_id (sd_evidence db)) \<and>
     distinct (map ar_id (sd_approvals db)) \<and> distinct (map te_id (sd_tool_events db)) \<and>
     distinct (map md_id (sd_metrics db)) \<and> distinct (map oe_id (sd_events db))"

definition spine_refs :: "spine_db \<Rightarrow> bool" where
  "spine_refs db \<longleftrightarrow>
     (\<forall>p \<in> set (sd_packets db). project_ref_ok (tp_project_id p) db \<and> event_ref_ok (tp_workspace_id p) (tp_event_id p) db) \<and>
     (\<forall>e \<in> set (sd_evidence db). packet_ref_ok (ei_workspace_id e) (ei_packet_id e) db \<and> event_ref_ok (ei_workspace_id e) (ei_event_id e) db) \<and>
     (\<forall>a \<in> set (sd_approvals db). packet_ref_ok (ar_workspace_id a) (ar_packet_id a) db \<and> event_ref_ok (ar_workspace_id a) (ar_event_id a) db) \<and>
     (\<forall>t \<in> set (sd_tool_events db). packet_ref_ok (te_workspace_id t) (te_packet_id t) db \<and>
        evidence_ref_ok (te_workspace_id t) (te_evidence_item_id t) db \<and> event_ref_ok (te_workspace_id t) (te_event_id t) db) \<and>
     (\<forall>m \<in> set (sd_metrics db). packet_ref_ok (md_workspace_id m) (md_packet_id m) db \<and>
        evidence_ref_ok (md_workspace_id m) (md_evidence_item_id m) db) \<and>
     (\<forall>e \<in> set (sd_events db). oe_id e \<noteq> [])"

definition spine_decisions :: "spine_db \<Rightarrow> bool" where
  "spine_decisions db \<longleftrightarrow> (\<forall>a \<in> set (sd_approvals db). ar_status a = AS_requested \<longleftrightarrow> ar_decided_at a = None)"

definition spine_wf :: "spine_db \<Rightarrow> bool" where
  "spine_wf db \<longleftrightarrow> spine_keys db \<and> spine_refs db \<and> spine_decisions db"

definition empty_spine :: "project_ref list \<Rightarrow> spine_db" where
  "empty_spine projects = \<lparr>sd_projects = projects, sd_packets = [], sd_evidence = [], sd_approvals = [],
     sd_tool_events = [], sd_metrics = [], sd_events = []\<rparr>"

lemma map_key_update: "packet_update ws f \<Longrightarrow> map tp_id (map f ps) = map tp_id ps"
  by (simp add: packet_update_def)

lemma decide_key: "map ar_id (map (\<lambda>r. if decidable ws i r then decide now actor inp r else r) rows) = map ar_id rows"
  by (simp add: decide_def)

lemma spine_step_keys: "spine_step ws db db' \<Longrightarrow> spine_keys db \<Longrightarrow> spine_keys db'"
proof (induction rule: spine_step.induct)
  case (decision i now actor inp)
  then show ?case by (simp add: spine_keys_def decide_key del: map_map)
qed (auto simp: spine_keys_def map_key_update simp del: map_map)

text \<open>References keep resolving because no step drops a row or moves it to another workspace.\<close>

lemma has_packet_mono:
  "spine_step ws db db' \<Longrightarrow> has_packet w i db \<Longrightarrow> has_packet w i db'"
  by (induction rule: spine_step.induct) (auto simp: has_packet_def list_ex_iff packet_update_def)

lemma has_evidence_mono: "spine_step ws db db' \<Longrightarrow> has_evidence w i db \<Longrightarrow> has_evidence w i db'"
  by (induction rule: spine_step.induct) (auto simp: has_evidence_def)

lemma has_event_mono: "spine_step ws db db' \<Longrightarrow> has_event w i db \<Longrightarrow> has_event w i db'"
  by (induction rule: spine_step.induct) (auto simp: has_event_def)

lemma project_mono: "spine_step ws db db' \<Longrightarrow> project_ref_ok p db' = project_ref_ok p db"
  by (induction rule: spine_step.induct) (auto simp: project_ref_ok_def split: option.splits)

lemma refs_mono:
  assumes "spine_step ws db db'"
  shows "packet_ref_ok w p db \<Longrightarrow> packet_ref_ok w p db'"
    "evidence_ref_ok w e db \<Longrightarrow> evidence_ref_ok w e db'"
    "event_ref_ok w v db \<Longrightarrow> event_ref_ok w v db'"
  using has_packet_mono [OF assms] has_evidence_mono [OF assms] has_event_mono [OF assms]
  by (auto simp: packet_ref_ok_def evidence_ref_ok_def event_ref_ok_def split: option.splits)

text \<open>Where every event has a name, an admitted event reference resolves in the workspace.\<close>

definition named_events :: "spine_db \<Rightarrow> bool" where
  "named_events db \<longleftrightarrow> (\<forall>e \<in> set (sd_events db). oe_id e \<noteq> [])"

lemma event_input_named: "named_events db \<Longrightarrow> event_input_ok w e db \<Longrightarrow> event_ref_ok w e db"
  by (auto simp: event_input_ok_def named_events_def list_ex_iff)

lemma named_events_step: "spine_step ws db db' \<Longrightarrow> named_events db \<Longrightarrow> named_events db'"
  by (induction rule: spine_step.induct) (auto simp: named_events_def)

text \<open>Every row of the new tables is an old one or carries references that resolve.\<close>

lemma spine_step_new_rows:
  assumes "spine_step ws db db'" and "named_events db"
  shows "e \<in> set (sd_evidence db') \<Longrightarrow> e \<in> set (sd_evidence db) \<or>
       (packet_ref_ok (ei_workspace_id e) (ei_packet_id e) db' \<and> event_ref_ok (ei_workspace_id e) (ei_event_id e) db')"
    "t \<in> set (sd_tool_events db') \<Longrightarrow> t \<in> set (sd_tool_events db) \<or>
       (packet_ref_ok (te_workspace_id t) (te_packet_id t) db' \<and>
        evidence_ref_ok (te_workspace_id t) (te_evidence_item_id t) db' \<and> event_ref_ok (te_workspace_id t) (te_event_id t) db')"
    "m \<in> set (sd_metrics db') \<Longrightarrow> m \<in> set (sd_metrics db) \<or>
       (packet_ref_ok (md_workspace_id m) (md_packet_id m) db' \<and>
        evidence_ref_ok (md_workspace_id m) (md_evidence_item_id m) db')"
proof -
  note mono = refs_mono [OF assms(1)] and named = event_input_named [OF assms(2)]
  have none: "event_ref_ok w None d" for w d by (simp add: event_ref_ok_def)
  show "e \<in> set (sd_evidence db') \<Longrightarrow> e \<in> set (sd_evidence db) \<or>
       (packet_ref_ok (ei_workspace_id e) (ei_packet_id e) db' \<and> event_ref_ok (ei_workspace_id e) (ei_event_id e) db')"
    using assms(1) mono(1,3) named none by (auto elim!: spine_stepE)
  show "t \<in> set (sd_tool_events db') \<Longrightarrow> t \<in> set (sd_tool_events db) \<or>
       (packet_ref_ok (te_workspace_id t) (te_packet_id t) db' \<and>
        evidence_ref_ok (te_workspace_id t) (te_evidence_item_id t) db' \<and> event_ref_ok (te_workspace_id t) (te_event_id t) db')"
    using assms(1) mono by (auto elim!: spine_stepE simp: event_ref_ok_def has_event_def evidence_ref_ok_def has_evidence_def)
  show "m \<in> set (sd_metrics db') \<Longrightarrow> m \<in> set (sd_metrics db) \<or>
       (packet_ref_ok (md_workspace_id m) (md_packet_id m) db' \<and>
        evidence_ref_ok (md_workspace_id m) (md_evidence_item_id m) db')"
    using assms(1) mono(1,2) by (auto elim!: spine_stepE)
qed

text \<open>A packet keeps its workspace, project and event through every update.\<close>

lemma spine_step_new_packet:
  assumes "spine_step ws db db'" and "named_events db" and "p \<in> set (sd_packets db')"
  shows "(project_ref_ok (tp_project_id p) db' \<and> event_ref_ok (tp_workspace_id p) (tp_event_id p) db') \<or>
    (\<exists>q \<in> set (sd_packets db). tp_workspace_id q = tp_workspace_id p \<and> tp_project_id q = tp_project_id p \<and> tp_event_id q = tp_event_id p)"
proof -
  have kept: "\<exists>q \<in> set ps. tp_workspace_id q = tp_workspace_id p \<and> tp_project_id q = tp_project_id p \<and> tp_event_id q = tp_event_id p"
    if "p \<in> set (map f ps)" "packet_update ws f" for f ps using that by (auto simp: packet_update_def)
  from assms(1,3) show ?thesis
    using kept refs_mono(3) [OF assms(1)] event_input_named [OF assms(2)] project_mono [OF assms(1)]
  proof (cases rule: spine_step.cases)
    case (packet row)
    with assms(3) have "p = row \<or> p \<in> set (sd_packets db)" by auto
    then show ?thesis
      using packet event_input_named [OF assms(2)] refs_mono(3) [OF assms(1)] project_mono [OF assms(1)] by metis
  next
    case (evidence row f)
    then have "p \<in> set (map f (sd_packets db))" using assms(3) by simp
    from kept [OF this] evidence show ?thesis by blast
  next
    case (lifecycle rcpt row f)
    then have "p \<in> set (map f (sd_packets db))" using assms(3) by simp
    from kept [OF this] lifecycle show ?thesis by blast
  qed auto
qed

lemma decided_row:
  assumes "a \<in> set (map (\<lambda>r. if decidable ws i r then decide now actor inp r else r) rows)"
  obtains a' where "a' \<in> set rows" "ar_workspace_id a' = ar_workspace_id a" "ar_packet_id a' = ar_packet_id a" "ar_event_id a' = ar_event_id a"
    "ar_id a' = ar_id a" "a = a' \<or> (ar_status a \<noteq> AS_requested \<and> ar_decided_at a \<noteq> None \<and> ar_status a' = AS_requested)"
proof -
  from assms obtain r where r: "r \<in> set rows" "a = (if decidable ws i r then decide now actor inp r else r)" by auto
  have "status_of_decision d \<noteq> AS_requested" for d by (cases d) simp_all
  with r show ?thesis by (intro that [of r]) (auto simp: decide_def decidable_def)
qed

lemma spine_step_new_approval:
  assumes "spine_step ws db db'" and "named_events db" and "a \<in> set (sd_approvals db')"
  shows "(packet_ref_ok (ar_workspace_id a) (ar_packet_id a) db' \<and> event_ref_ok (ar_workspace_id a) (ar_event_id a) db') \<or>
    (\<exists>a' \<in> set (sd_approvals db). ar_workspace_id a' = ar_workspace_id a \<and> ar_packet_id a' = ar_packet_id a \<and> ar_event_id a' = ar_event_id a)"
  using assms(1,3) refs_mono(1,3) [OF assms(1)] event_input_named [OF assms(2)]
proof (cases rule: spine_step.cases)
  case (decision i now actor inp)
  with assms(3) have "a \<in> set (map (\<lambda>r. if decidable ws i r then decide now actor inp r else r) (sd_approvals db))" by simp
  then obtain a' where "a' \<in> set (sd_approvals db)" "ar_workspace_id a' = ar_workspace_id a" "ar_packet_id a' = ar_packet_id a"
    "ar_event_id a' = ar_event_id a" by (rule decided_row)
  then show ?thesis by blast
qed auto

lemma spine_step_refs:
  assumes step: "spine_step ws db db'" and "spine_refs db"
  shows "spine_refs db'"
proof -
  note old = assms(2) [unfolded spine_refs_def]
  have named: "named_events db" using old by (simp add: named_events_def)
  note mono = refs_mono [OF step] and new = spine_step_new_rows [OF step named]
  have "project_ref_ok (tp_project_id p) db' \<and> event_ref_ok (tp_workspace_id p) (tp_event_id p) db'" if "p \<in> set (sd_packets db')" for p
    using spine_step_new_packet [OF step named that] mono(3) project_mono [OF step] old by metis
  moreover have "packet_ref_ok (ei_workspace_id e) (ei_packet_id e) db' \<and> event_ref_ok (ei_workspace_id e) (ei_event_id e) db'"
    if "e \<in> set (sd_evidence db')" for e
    using new(1) [OF that] mono(1,3) old by blast
  moreover have "packet_ref_ok (ar_workspace_id a) (ar_packet_id a) db' \<and> event_ref_ok (ar_workspace_id a) (ar_event_id a) db'"
    if "a \<in> set (sd_approvals db')" for a
    using spine_step_new_approval [OF step named that] mono(1,3) old by metis
  moreover have "packet_ref_ok (te_workspace_id t) (te_packet_id t) db' \<and>
      evidence_ref_ok (te_workspace_id t) (te_evidence_item_id t) db' \<and> event_ref_ok (te_workspace_id t) (te_event_id t) db'"
    if "t \<in> set (sd_tool_events db')" for t
    using new(2) [OF that] mono old by blast
  moreover have "packet_ref_ok (md_workspace_id m) (md_packet_id m) db' \<and>
      evidence_ref_ok (md_workspace_id m) (md_evidence_item_id m) db'" if "m \<in> set (sd_metrics db')" for m
    using new(3) [OF that] mono(1,2) old by blast
  moreover have "\<forall>e \<in> set (sd_events db'). oe_id e \<noteq> []" using named_events_step [OF step named] by (simp add: named_events_def)
  ultimately show ?thesis by (simp add: spine_refs_def)
qed

lemma spine_step_decisions:
  assumes "spine_step ws db db'" and "spine_decisions db"
  shows "spine_decisions db'"
  using assms
proof (cases rule: spine_step.cases)
  case (decision i now actor inp)
  have "ar_status a = AS_requested \<longleftrightarrow> ar_decided_at a = None"
    if "a \<in> set (map (\<lambda>r. if decidable ws i r then decide now actor inp r else r) (sd_approvals db))" for a
    using that
  proof (rule decided_row)
    fix a' assume "a' \<in> set (sd_approvals db)"
      "a = a' \<or> (ar_status a \<noteq> AS_requested \<and> ar_decided_at a \<noteq> None \<and> ar_status a' = AS_requested)"
    with assms(2) show ?thesis by (auto simp: spine_decisions_def)
  qed
  with decision show ?thesis by (simp add: spine_decisions_def del: set_map)
qed (auto simp: spine_decisions_def)

lemma spine_step_wf: "spine_step ws db db' \<Longrightarrow> spine_wf db \<Longrightarrow> spine_wf db'"
  by (auto simp: spine_wf_def intro: spine_step_keys spine_step_refs spine_step_decisions)

lemma spine_exec_wf: "spine_wf db \<Longrightarrow> spine_wf (spine_exec dash ws c db)"
  using exec_refines [of ws db dash c] spine_step_wf by (auto simp: refines_def)

lemma empty_spine_wf [simp]: "spine_wf (empty_spine projects)"
  by (simp add: spine_wf_def spine_keys_def spine_refs_def spine_decisions_def empty_spine_def)

text \<open>
  C4. Integrity of every reachable database: any sequence of commands of any tenants keeps a sound database sound. In a sound one
  identifiers are unique, every packet, evidence and event reference of a packet, an evidence item, an approval, a tool event and a
  metric delta resolves inside the tenant of its row, the project of a packet exists, events have names, and approvals are
  decided exactly when they carry a decision time. That the project is of the packet's tenant is not promised: the code does not
  check it.
\<close>

theorem spine_integrity:
  assumes "spine_wf db"
  shows "spine_wf (spine_run dash cs db)"
  unfolding spine_run_def using assms by (intro foldl_inv [where I = spine_wf]) (simp_all add: spine_exec_wf)

text \<open>A packet of one workspace on the project of another.\<close>

definition foreign_project_packet :: task_packet_input where
  "foreign_project_packet = \<lparr>tpi_id = Some ''p'', tpi_project_id = Some ''proj'', tpi_event_id = None, tpi_title = Some ''t'', tpi_summary = Some ''s'',
     tpi_lifecycle_state = None, tpi_allowed_tools = [], tpi_forbidden_tools = [], tpi_source_refs = [], tpi_approval_required = None,
     tpi_expires_at = None\<rparr>"

lemma packet_takes_a_foreign_project:
  "map (\<lambda>p. (tp_workspace_id p, tp_project_id p))
     (sd_packets (fst (createTaskPacketRow ''n'' 0 ''ours'' ''u'' foreign_project_packet (empty_spine [\<lparr>pj_id = ''proj'', pj_workspace_id = ''theirs''\<rparr>])))) =
   [(''ours'', Some ''proj'')]"
  by code_simp

theorem spine_integrity_witness:
  "spine_wf (spine_run ''-'' [(''ours'', Create_packet ''n'' 0 ''u'' foreign_project_packet)] (empty_spine [\<lparr>pj_id = ''proj'', pj_workspace_id = ''theirs''\<rparr>]))"
  by (rule spine_integrity) (rule empty_spine_wf)

section \<open>History\<close>

text \<open>
  What the spine never takes back: evidence, tool events, metrics and events are only appended to, a
  decided approval stays in its table unchanged, no packet disappears and an archived one stays so.
\<close>

definition packet_kept :: "task_packet \<Rightarrow> task_packet \<Rightarrow> bool" where
  "packet_kept p p' \<longleftrightarrow> tp_id p' = tp_id p \<and> tp_workspace_id p' = tp_workspace_id p \<and> tp_version p' = tp_version p \<and>
     (tp_lifecycle_state p = PS_archived \<longrightarrow> tp_lifecycle_state p' = PS_archived)"

definition spine_extends :: "spine_db \<Rightarrow> spine_db \<Rightarrow> bool" where
  "spine_extends db db' \<longleftrightarrow>
     prefix (sd_evidence db) (sd_evidence db') \<and> prefix (sd_tool_events db) (sd_tool_events db') \<and>
     prefix (sd_metrics db) (sd_metrics db') \<and> prefix (sd_events db) (sd_events db') \<and>
     (\<forall>a \<in> set (sd_approvals db). ar_status a \<noteq> AS_requested \<longrightarrow> a \<in> set (sd_approvals db')) \<and>
     (\<forall>p \<in> set (sd_packets db). \<exists>p' \<in> set (sd_packets db'). packet_kept p p')"

lemma packet_kept_refl [simp]: "packet_kept p p"
  by (simp add: packet_kept_def)

lemma packet_kept_self [intro]: "p \<in> S \<Longrightarrow> \<exists>p' \<in> S. packet_kept p p'"
  by (rule bexI [of _ p]) simp_all

lemma packet_kept_trans: "packet_kept p q \<Longrightarrow> packet_kept q r \<Longrightarrow> packet_kept p r"
  by (simp add: packet_kept_def)

lemma spine_extends_refl [simp]: "spine_extends db db"
  by (auto simp: spine_extends_def)

lemma spine_extends_trans:
  assumes "spine_extends a b" and "spine_extends b c"
  shows "spine_extends a c"
proof -
  have "\<exists>r \<in> set (sd_packets c). packet_kept p r" if "p \<in> set (sd_packets a)" for p
    using that assms packet_kept_trans unfolding spine_extends_def by meson
  with assms show ?thesis unfolding spine_extends_def by (auto intro: prefix_order.trans)
qed

lemma packets_updated: "packet_update ws f \<Longrightarrow> p \<in> set ps \<Longrightarrow> \<exists>x \<in> set ps. packet_kept p (f x)"
  by (rule bexI [of _ p]) (auto simp: packet_kept_def packet_update_def)

lemma spine_step_extends: "spine_step ws db db' \<Longrightarrow> spine_extends db db'"
proof (induction rule: spine_step.induct)
  case (decision i now actor inp)
  have "a \<in> set (map (\<lambda>r. if decidable ws i r then decide now actor inp r else r) (sd_approvals db))"
    if "a \<in> set (sd_approvals db)" "ar_status a \<noteq> AS_requested" for a
    using that by (force simp: decidable_def image_iff)
  then show ?case by (auto simp: spine_extends_def simp del: set_map)
qed (auto simp: spine_extends_def packets_updated)

lemma run_extends: "spine_extends db (spine_run dash cs db)"
  unfolding spine_run_def
proof (induction cs rule: rev_induct)
  case (snoc wc cs)
  have "spine_extends x (spine_exec dash (fst wc) (snd wc) x)" for x
    using exec_refines [of "fst wc" x dash "snd wc"] spine_step_extends by (auto simp: refines_def)
  with snoc show ?case by (auto intro: spine_extends_trans)
qed simp

text \<open>
  The audit trail survives: any sequence of commands of any tenants extends the database; nothing
  recorded is rewritten, a decision is final and an archived packet is never revived.
\<close>

theorem spine_history: "spine_extends db (spine_run dash cs db)"
  by (rule run_extends)

section \<open>Tenant isolation\<close>

definition tenant_view :: "string \<Rightarrow> spine_db \<Rightarrow>
    task_packet list \<times> evidence_item list \<times> approval_request list \<times> tool_event list \<times> metric_delta list \<times> operation_event list" where
  "tenant_view ws db =
     (filter (\<lambda>r. tp_workspace_id r = ws) (sd_packets db),
      filter (\<lambda>r. ei_workspace_id r = ws) (sd_evidence db),
      filter (\<lambda>r. ar_workspace_id r = ws) (sd_approvals db),
      filter (\<lambda>r. te_workspace_id r = ws) (sd_tool_events db),
      filter (\<lambda>r. md_workspace_id r = ws) (sd_metrics db),
      filter (\<lambda>r. oe_workspace_id r = ws) (sd_events db))"

lemma packet_update_view:
  "packet_update ws f \<Longrightarrow> w \<noteq> ws \<Longrightarrow>
     filter (\<lambda>r. tp_workspace_id r = w) (map f ps) = filter (\<lambda>r. tp_workspace_id r = w) ps"
  by (rule filter_map_other) (auto simp: packet_update_def)

lemma decision_view:
  "w \<noteq> ws \<Longrightarrow>
     filter (\<lambda>r. ar_workspace_id r = w) (map (\<lambda>r. if decidable ws i r then decide now actor inp r else r) rows) =
     filter (\<lambda>r. ar_workspace_id r = w) rows"
  by (rule filter_map_other) (auto simp: decidable_def decide_def)

lemma spine_step_view: "spine_step ws db db' \<Longrightarrow> w \<noteq> ws \<Longrightarrow> tenant_view w db' = tenant_view w db"
  by (induction rule: spine_step.induct) (auto simp: tenant_view_def packet_update_view decision_view)

interpretation spine: tenant_store "spine_exec dash" tenant_view for dash
proof unfold_locales
  fix w' w :: string and c :: spine_command and s :: spine_db assume "w' \<noteq> w"
  then show "tenant_view w' (spine_exec dash w c s) = tenant_view w' s"
    using exec_refines [of w s dash c] spine_step_view by (auto simp: refines_def)
qed

lemma filter_ws_cong:
  assumes "filter (\<lambda>r. key r = ws) xs = filter (\<lambda>r. key r = ws) ys"
  shows "filter (\<lambda>r. key r = ws \<and> P r) xs = filter (\<lambda>r. key r = ws \<and> P r) ys"
  using arg_cong [OF assms, of "filter P"] by (simp add: conj_commute)

lemma find_ws_split: "find (\<lambda>r. key r = ws \<and> P r) rows = find P (filter (\<lambda>r. key r = ws) rows)"
  by (induction rows) auto

lemma view_congs:
  assumes "tenant_view ws db' = tenant_view ws db"
  shows "filter (\<lambda>r. tp_workspace_id r = ws \<and> P1 r) (sd_packets db') = filter (\<lambda>r. tp_workspace_id r = ws \<and> P1 r) (sd_packets db)"
    "filter (\<lambda>r. ei_workspace_id r = ws \<and> P2 r) (sd_evidence db') = filter (\<lambda>r. ei_workspace_id r = ws \<and> P2 r) (sd_evidence db)"
    "filter (\<lambda>r. ar_workspace_id r = ws \<and> P3 r) (sd_approvals db') = filter (\<lambda>r. ar_workspace_id r = ws \<and> P3 r) (sd_approvals db)"
    "filter (\<lambda>r. te_workspace_id r = ws \<and> P4 r) (sd_tool_events db') = filter (\<lambda>r. te_workspace_id r = ws \<and> P4 r) (sd_tool_events db)"
    "filter (\<lambda>r. md_workspace_id r = ws \<and> P5 r) (sd_metrics db') = filter (\<lambda>r. md_workspace_id r = ws \<and> P5 r) (sd_metrics db)"
    "filter (\<lambda>r. oe_workspace_id r = ws \<and> P6 r) (sd_events db') = filter (\<lambda>r. oe_workspace_id r = ws \<and> P6 r) (sd_events db)"
  by (rule filter_ws_cong, use assms in \<open>simp add: tenant_view_def\<close>)+

lemma reads_local:
  assumes "tenant_view ws db' = tenant_view ws db"
  shows "listTaskPacketsRow ws opts db' = listTaskPacketsRow ws opts db"
    "listEvidenceItemsRow ws opts db' = listEvidenceItemsRow ws opts db"
    "listApprovalRequestsRow ws opts db' = listApprovalRequestsRow ws opts db"
    "listToolEventsRow ws opts db' = listToolEventsRow ws opts db"
    "listMetricDeltasRow ws opts db' = listMetricDeltasRow ws opts db"
  unfolding listTaskPacketsRow_def listEvidenceItemsRow_def listApprovalRequestsRow_def
      listToolEventsRow_def listMetricDeltasRow_def view_congs [OF assms] by (rule refl)+

lemma completion_local:
  assumes "tenant_view ws db' = tenant_view ws db" and "tp_workspace_id p = ws"
  shows "completion_input_of p db' = completion_input_of p db" "approved_version p db' = approved_version p db"
proof -
  note congs = view_congs [OF assms(1)]
  have ap: "approved_version p db' = approved_version p db"
    unfolding approved_version_def approved_for_def [abs_def] assms(2) congs ..
  moreover have "filter (attached p) (sd_evidence db') = filter (attached p) (sd_evidence db)"
    "filter (blocker_of p) (sd_events db') = filter (blocker_of p) (sd_events db)"
    "filter (\<lambda>e. attached p e \<and> ei_kind e = EK_receipt) (sd_evidence db') =
     filter (\<lambda>e. attached p e \<and> ei_kind e = EK_receipt) (sd_evidence db)"
    unfolding attached_def [abs_def] blocker_of_def [abs_def] assms(2) conj_assoc congs by (rule refl)+
  ultimately show "completion_input_of p db' = completion_input_of p db" "approved_version p db' = approved_version p db"
    by (simp_all add: completion_input_of_def)
qed

lemma evaluation_local:
  assumes "tenant_view ws db' = tenant_view ws db"
  shows "evaluateTaskPacketCompletionRow ws i db' = evaluateTaskPacketCompletionRow ws i db"
proof -
  have eq: "find (\<lambda>p. tp_workspace_id p = ws \<and> tp_id p = i) (sd_packets db') =
      find (\<lambda>p. tp_workspace_id p = ws \<and> tp_id p = i) (sd_packets db)"
    using assms by (simp add: tenant_view_def find_ws_split)
  show ?thesis
  proof (cases "find (\<lambda>p. tp_workspace_id p = ws \<and> tp_id p = i) (sd_packets db)")
    case None
    show ?thesis unfolding evaluateTaskPacketCompletionRow_def eq None option.case by (rule refl)
  next
    case (Some p)
    then have "tp_workspace_id p = ws" by (auto dest: find_Some_in)
    note loc = completion_local [OF assms this]
    show ?thesis unfolding evaluateTaskPacketCompletionRow_def eq Some option.case loc by (rule refl)
  qed
qed

text \<open>
  C3. Tenant isolation: whatever other workspaces do, in any order and on any input, every read of a
  workspace (packets, evidence, approvals, tool events, metrics, completion) answers as before.
\<close>

theorem spine_tenant_isolation:
  assumes "\<forall>wc \<in> set cs. fst wc \<noteq> ws" and "db' = spine_run dash cs db"
  shows "tenant_view ws db' = tenant_view ws db \<and>
    listTaskPacketsRow ws opts db' = listTaskPacketsRow ws opts db \<and>
    listEvidenceItemsRow ws opts db' = listEvidenceItemsRow ws opts db \<and>
    listApprovalRequestsRow ws opts db' = listApprovalRequestsRow ws opts db \<and>
    listToolEventsRow ws opts db' = listToolEventsRow ws opts db \<and>
    listMetricDeltasRow ws opts db' = listMetricDeltasRow ws opts db \<and>
    evaluateTaskPacketCompletionRow ws i db' = evaluateTaskPacketCompletionRow ws i db"
proof -
  have "tenant_view ws db' = tenant_view ws db"
    unfolding assms(2) spine_run_def using assms(1) by (rule spine.run_frame)
  then show ?thesis by (intro conjI reads_local evaluation_local)
qed


section \<open>Approvals are decided once\<close>

lemma run_wf: "spine_wf db \<Longrightarrow> spine_wf (spine_run dash cs db)"
  unfolding spine_run_def by (rule foldl_inv) (simp_all add: spine_exec_wf)

lemma status_of_decision_decided [simp]: "status_of_decision d \<noteq> AS_requested"
  by (cases d) simp_all

lemma decide_Some:
  assumes "decideApprovalRequestRow show_ts now ws i actor inp db = (db1, Inr (Some r))"
  obtains a where "a \<in> set (sd_approvals db)" "decidable ws i a" "adr_approval r = decide now actor inp a"
    "decide now actor inp a \<in> set (sd_approvals db1)"
proof -
  from assms obtain a where a: "find (decidable ws i) (sd_approvals db) = Some a" "adr_approval r = decide now actor inp a"
    and db1: "db1 = db\<lparr>sd_approvals := map (\<lambda>r. if decidable ws i r then decide now actor inp r else r) (sd_approvals db)\<rparr>"
    by (auto simp: decideApprovalRequestRow_def attempt_def Let_def split: sum.splits option.splits if_splits)
  from find_Some_in [OF a(1)] have *: "decidable ws i a" "a \<in> set (sd_approvals db)" by auto
  then have "(if decidable ws i a then decide now actor inp a else a) \<in> set (sd_approvals db1)"
    unfolding db1 by (simp del: if_split)
  with * a(2) show ?thesis by (intro that [of a]) simp_all
qed

lemma no_second_decision:
  assumes "spine_wf db" and "a \<in> set (sd_approvals db)" and "ar_id a = i" and "ar_status a \<noteq> AS_requested"
  shows "find (decidable ws i) (sd_approvals db) = None"
proof -
  have "r = a" if "r \<in> set (sd_approvals db)" "ar_id r = i" for r
    using assms(1-3) that by (auto simp: spine_wf_def spine_keys_def distinct_map dest: inj_onD)
  with assms(4) show ?thesis by (auto simp: find_None_iff decidable_def)
qed

text \<open>
  C6. A decision is taken once: when deciding an approval answers with a receipt, the stored row has
  the given status, actor and time, and after any further commands of any tenants it is still there
  unchanged and no decision on that identifier, by anyone, is accepted again.
\<close>

theorem approval_decided_once:
  assumes "spine_wf db" and "decideApprovalRequestRow show_ts now ws i actor inp db = (db1, Inr (Some r))"
    and "db2 = spine_run dash cs db1"
  shows "ar_id (adr_approval r) = i \<and> ar_workspace_id (adr_approval r) = ws \<and>
    ar_status (adr_approval r) = status_of_decision (adi_status inp) \<and> ar_decided_by (adr_approval r) = Some actor \<and>
    ar_decided_at (adr_approval r) = Some now \<and> adr_approval r \<in> set (sd_approvals db2) \<and>
    (\<nexists>r'. snd (decideApprovalRequestRow show_ts' now' ws' i actor' inp' db2) = Inr (Some r'))"
proof -
  from assms(2) obtain a where a: "decidable ws i a" "adr_approval r = decide now actor inp a"
    "decide now actor inp a \<in> set (sd_approvals db1)" by (rule decide_Some)
  let ?a = "decide now actor inp a"
  have fields: "ar_id ?a = i" "ar_workspace_id ?a = ws" "ar_status ?a = status_of_decision (adi_status inp)"
    using a(1) by (simp_all add: decide_def decidable_def)
  have "spine_wf db1"
    using spine_exec_wf [OF assms(1), of dash ws "Decide_approval now i actor inp"] assms(2)
    by (auto simp: decideApprovalRequestRow_def attempt_def Let_def split: sum.splits option.splits if_splits)
  then have wf2: "spine_wf db2" using run_wf assms(3) by simp
  have kept: "?a \<in> set (sd_approvals db2)"
    using run_extends [of db1 dash cs] a(3) fields(3) assms(3) by (simp add: spine_extends_def)
  have "find (decidable ws' i) (sd_approvals db2) = None"
    by (rule no_second_decision [OF wf2 kept fields(1)]) (simp add: fields(3))
  then have "\<nexists>r'. snd (decideApprovalRequestRow show_ts' now' ws' i actor' inp' db2) = Inr (Some r')"
    by (auto simp: decideApprovalRequestRow_def attempt_def split: sum.splits)
  with a(2) fields kept show ?thesis by (simp add: decide_def)
qed

end
