(* ===== verification/Spine_Lifecycle.thy ===== *)
theory Spine_Lifecycle
  imports Spine_Props
begin

text \<open>
  Behaviour of single spine operations: when a packet may be completed, what a tool event leaves on
  the causal spine, and what a customer-data lifecycle request does to the tables on each branch.
\<close>

section \<open>Completion\<close>

lemma scope_guard_ok [simp]: "js_trim ws \<noteq> [] \<Longrightarrow> scope_guard ws = Inr ()"
  by (auto simp: scope_guard_def assertWorkspaceScope_def)

lemma sql_max_Some: "sql_max vs = Some v \<longleftrightarrow> Some v \<in> set vs \<and> (\<forall>w. Some w \<in> set vs \<longrightarrow> w \<le> v)"
proof -
  define xs where "xs = map the (filter (\<lambda>v. v \<noteq> None) vs)"
  have mem: "w \<in> set xs \<longleftrightarrow> Some w \<in> set vs" for w by (force simp: xs_def image_iff)
  show ?thesis
  proof (cases xs)
    case Nil
    have "sql_max vs = None" unfolding sql_max_def xs_def [symmetric] Nil by simp
    with Nil mem show ?thesis by simp
  next
    case (Cons y ys)
    have "sql_max vs = Some (Max (set (y # ys)))"
      unfolding sql_max_def xs_def [symmetric] Cons list.case Max.set_eq_fold ..
    then have eq: "sql_max vs = Some (Max (set xs))" by (simp only: Cons)
    have "finite (set xs)" "set xs \<noteq> {}" using Cons by simp_all
    from Max_eq_iff [OF this, of v] show ?thesis by (auto simp: eq mem)
  qed
qed

text \<open>What the tables must hold for a packet to be done.\<close>

definition packet_done :: "task_packet \<Rightarrow> spine_db \<Rightarrow> bool" where
  "packet_done p db \<longleftrightarrow>
     js_trim (coalesce (tp_requested_output p) []) \<noteq> [] \<and>
     (non_empty (tp_acceptance_criteria p) = [] \<or> tp_acceptance_status p \<in> {Acc_passed, Acc_not_required}) \<and>
     (tp_evidence_required p \<longrightarrow> (\<exists>e \<in> set (sd_evidence db). attached p e)) \<and>
     tp_execution_status p \<in> {Ex_succeeded, Ex_not_required} \<and>
     ((\<exists>e \<in> set (sd_events db). blocker_of p e) \<longrightarrow> tp_blockers_accepted p) \<and>
     (tp_approval_required p \<longrightarrow>
        (\<exists>a \<in> set (sd_approvals db). approved_for p a \<and> ar_packet_version a = Some (tp_version p)) \<and>
        (\<forall>a \<in> set (sd_approvals db). \<forall>v. approved_for p a \<and> ar_packet_version a = Some v \<longrightarrow> v \<le> tp_version p)) \<and>
     (tp_receipt_required p \<longrightarrow> (\<exists>e \<in> set (sd_evidence db). attached p e \<and> ei_kind e = EK_receipt)) \<and>
     (tp_plan_projection_required p \<longrightarrow> (\<exists>t. tp_plan_projection_updated_at p = Some t \<and> tp_updated_at p \<le> t))"

lemma approved_version_current:
  "approved_version p db = Some (tp_version p) \<longleftrightarrow>
     (\<exists>a \<in> set (sd_approvals db). approved_for p a \<and> ar_packet_version a = Some (tp_version p)) \<and>
     (\<forall>a \<in> set (sd_approvals db). \<forall>v. approved_for p a \<and> ar_packet_version a = Some v \<longrightarrow> v \<le> tp_version p)"
  unfolding approved_version_def sql_max_Some by (force simp: image_iff)

lemma filter_count: "0 < length (filter P xs) \<longleftrightarrow> (\<exists>x \<in> set xs. P x)" "1 \<le> int (length (filter P xs)) \<longleftrightarrow> (\<exists>x \<in> set xs. P x)"
  "0 < int (length (filter P xs)) \<longleftrightarrow> (\<exists>x \<in> set xs. P x)"
proof -
  show "0 < length (filter P xs) \<longleftrightarrow> (\<exists>x \<in> set xs. P x)" by (simp add: filter_empty_conv)
  then show "1 \<le> int (length (filter P xs)) \<longleftrightarrow> (\<exists>x \<in> set xs. P x)" "0 < int (length (filter P xs)) \<longleftrightarrow> (\<exists>x \<in> set xs. P x)"
    by linarith+
qed

lemma contract_is_done: "contract_met (completion_input_of p db) \<longleftrightarrow> packet_done p db"
proof -
  have "(ci_approvalPresent i \<and> ci_approvedVersion i = Some (ci_currentVersion i)) \<longleftrightarrow>
      approved_version p db = Some (tp_version p)" if "i = completion_input_of p db" for i
    using that by (auto simp: completion_input_of_def)
  note app = this [OF refl, unfolded approved_version_current]
  have "ci_planProjectionUpdated (completion_input_of p db) \<longleftrightarrow>
      (tp_plan_projection_required p \<longrightarrow> (\<exists>t. tp_plan_projection_updated_at p = Some t \<and> tp_updated_at p \<le> t))"
    by (auto simp: completion_input_of_def split: option.splits)
  note plan = this
  have rest: "ci_hasRequestedOutput i \<longleftrightarrow> js_trim (coalesce (tp_requested_output p) []) \<noteq> []"
    "ci_acceptanceCriteriaRequired i \<longleftrightarrow> non_empty (tp_acceptance_criteria p) \<noteq> []"
    "ci_acceptanceCriteriaPass i \<longleftrightarrow> tp_acceptance_status p \<in> {Acc_passed, Acc_not_required}"
    "ci_evidenceRequired i = tp_evidence_required p"
    "ci_evidenceAttachedCount i = int (length (filter (attached p) (sd_evidence db)))"
    "ci_executionFinished i \<longleftrightarrow> tp_execution_status p \<in> {Ex_succeeded, Ex_not_required}"
    "ci_openBlockerCount i = int (length (filter (blocker_of p) (sd_events db)))"
    "ci_blockersExplicitlyAccepted i = tp_blockers_accepted p"
    "ci_approvalRequired i = tp_approval_required p"
    "ci_receiptPresent i \<longleftrightarrow> (tp_receipt_required p \<longrightarrow>
       0 < length (filter (\<lambda>e. attached p e \<and> ei_kind e = EK_receipt) (sd_evidence db)))"
    if "i = completion_input_of p db" for i
    using that by (auto simp: completion_input_of_def)
  show ?thesis unfolding contract_met_def packet_done_def app plan rest [OF refl] filter_count by blast
qed

text \<open>
  The completion verdict is exactly the contract over the tables: for a stored packet the
  evaluation exists, it allows completion and lists no unmet reason precisely when the output,
  acceptance, evidence, execution, blocker, current-version approval, receipt and plan-projection
  conditions all hold of the workspace's rows.
\<close>

theorem packet_completion:
  assumes "spine_wf db" and "p \<in> set (sd_packets db)" and "js_trim (tp_workspace_id p) \<noteq> []" and "js_trim (tp_id p) \<noteq> []"
  shows "\<exists>ev. evaluateTaskPacketCompletionRow (tp_workspace_id p) (tp_id p) db = Inr (Some ev) \<and>
    ev_packet_id ev = tp_id p \<and> ev_packet_version ev = tp_version p \<and>
    (ev_can_complete ev \<longleftrightarrow> packet_done p db) \<and> (ev_unmet_reasons ev = [] \<longleftrightarrow> packet_done p db)"
proof -
  have "q = p" if "q \<in> set (sd_packets db)" "tp_id q = tp_id p" for q
    using assms(1,2) that by (auto simp: spine_wf_def spine_keys_def distinct_map dest: inj_onD)
  then have "find (\<lambda>q. tp_workspace_id q = tp_workspace_id p \<and> tp_id q = tp_id p) (sd_packets db) = Some p"
    using assms(2) by (metis (mono_tags, lifting) find_None_iff find_Some_in not_None_eq)
  note found = this
  show ?thesis unfolding evaluateTaskPacketCompletionRow_def found scope_guard_ok [OF assms(3)]
    using assms(4) by (simp add: Let_def evaluateCompletion_unmet evaluateCompletion_iff contract_is_done)
qed


section \<open>Tool events\<close>

text \<open>
  Spine unification: a recorded tool event is appended for its workspace, and with unification on
  exactly one companion event is appended in the same step, linked to it, failed exactly when the tool
  event failed or was denied, with a bounded summary and the packet's intent; with it off the causal
  spine is untouched.
\<close>

theorem tool_event_companion:
  assumes "createToolEventRow dash nano nano2 now ws actor inp opts db = (db', Inr t)"
  shows "sd_tool_events db' = sd_tool_events db @ [t] \<and> te_workspace_id t = ws \<and> sd_packets db' = sd_packets db \<and>
    (if uo_emitSpineEvent opts
     then \<exists>ev. sd_events db' = sd_events db @ [ev] \<and> te_event_id t = Some (oe_id ev) \<and> oe_workspace_id ev = ws \<and>
       oe_source_tool ev = ''tool_action'' \<and> oe_status ev = (if te_status t \<in> {TE_failed, TE_denied} then ''failed'' else ''completed'') \<and>
       length (oe_summary ev) \<le> 512 \<and> oe_intent_id ev = packet_intent ws (te_packet_id t) db
     else sd_events db' = sd_events db \<and> te_event_id t = None)"
  using assms
  by (auto simp: createToolEventRow_def Let_def attempt_def spineStatusForToolEvent_def
      split: sum.splits if_splits)

text \<open>
  Three of the actions the type and the routes accept can never be recorded: the CHECK of
  migration 034 on \<^verbatim>\<open>tool_events.action\<close> does not list them, so the insert always fails and nothing is
  written.
\<close>

theorem effective_actions_never_recorded:
  assumes "tei_action inp \<in> {Get_effective_templates, Get_effective_profile, Submit_learning_signal}"
  shows "\<exists>e. createToolEventRow dash nano nano2 now ws actor inp opts db = (db, Inl e)"
proof -
  from assms have "\<exists>e. tool_event_checks inp = Inl e" by (auto simp: tool_event_checks_def DB_TOOL_ACTIONS_def)
  then show ?thesis by (auto simp: createToolEventRow_def Let_def attempt_def split: sum.splits)
qed

section \<open>Customer-data lifecycle\<close>

lemma archive_statement_tables [simp]:
  "sd_evidence (fst (archive_statement now ws target a db)) = sd_evidence db"
  "sd_tool_events (fst (archive_statement now ws target a db)) = sd_tool_events db"
  "\<not> live_approval ws a db \<Longrightarrow> archive_statement now ws target a db = (db, [])"
  by (simp_all add: archive_statement_def)

lemma execute_Inr:
  assumes "executeCustomerDataLifecycleRequestRow nano nano2 now ws actor inp db = (db', Inr ex)"
  obtains kind a u where "lifecycle_transaction nano nano2 now ws actor kind a inp db = (db', Inr ex)"
    "assertPacketInWorkspace ws (li_target_packet_id inp) db = Inr u" "kind = LK_delete \<Longrightarrow> truthy (li_target_packet_id inp)"
  using assms by (auto simp: executeCustomerDataLifecycleRequestRow_def attempt_def split: sum.splits option.splits if_splits)

lemma lifecycle_answer_Inr:
  "lifecycle_answer kind a target found affected written rcpt te = Inr ex \<Longrightarrow>
     found \<and> written \<and> ex = \<lparr>le_request_kind = kind, le_approval_id = a, le_target_packet_id = target,
       le_archived_packet_ids = (if kind = LK_delete then non_empty affected else []), le_evidence_item = rcpt, le_tool_event = te\<rparr>"
  by (simp add: lifecycle_answer_def Let_def split: if_splits)

text \<open>
  C8. An executed request was approved and is attested: the approval is live in the workspace, exactly
  one receipt and one tool event that points to it are appended, a delete has archived its target (and
  names it), and an export changes no packet.
\<close>

theorem lifecycle_executed:
  assumes "executeCustomerDataLifecycleRequestRow nano nano2 now ws actor inp db = (db', Inr ex)"
  shows "live_approval ws (le_approval_id ex) db \<and>
    sd_evidence db' = sd_evidence db @ [le_evidence_item ex] \<and> ei_kind (le_evidence_item ex) = EK_receipt \<and>
    sd_tool_events db' = sd_tool_events db @ [le_tool_event ex] \<and>
    te_evidence_item_id (le_tool_event ex) = Some (ei_id (le_evidence_item ex)) \<and>
    (case le_request_kind ex of
       LK_export \<Rightarrow> sd_packets db' = sd_packets db \<and> le_archived_packet_ids ex = []
     | LK_delete \<Rightarrow> archived_packet ws (le_target_packet_id ex) db' \<and> le_archived_packet_ids ex \<noteq> [])"
  using assms
proof (rule execute_Inr)
  fix kind a u
  assume tx: "lifecycle_transaction nano nano2 now ws actor kind a inp db = (db', Inr ex)"
  define st where "st = (if kind = LK_delete then archive_statement now ws (li_target_packet_id inp) a db else (db, []))"
  let ?r = "lifecycle_receipt nano now ws actor kind a inp" and ?t = "lifecycle_tool_event nano nano2 now ws actor kind inp"
  from tx have adm: "receipt_admissible kind ws (li_target_packet_id inp) a (fst st)"
    and db': "db' = fst st\<lparr>sd_evidence := sd_evidence (fst st) @ [?r], sd_tool_events := sd_tool_events (fst st) @ [?t]\<rparr>"
    and ans: "lifecycle_answer kind a (li_target_packet_id inp) (live_approval ws a db) (snd st) True ?r ?t = Inr ex"
    unfolding lifecycle_transaction_def Let_def st_def [symmetric] case_prod_unfold
    by (auto simp: attempt_def split: sum.splits if_splits dest: lifecycle_answer_Inr)
  note ex = lifecycle_answer_Inr [OF ans]
  have arch: "archived_packet ws t (x\<lparr>sd_evidence := e, sd_tool_events := te\<rparr>) = archived_packet ws t x" for t x e te
    by (simp add: archived_packet_def)
  have "le_archived_packet_ids ex \<noteq> []" if "kind = LK_delete"
    using ans that ex by (simp add: lifecycle_answer_def Let_def split: if_splits)
  with ex adm show ?thesis
    by (cases kind) (simp_all add: db' st_def receipt_admissible_def arch)
qed


lemma execute_delete:
  assumes "js_trim ws \<noteq> []" and "requireShortText ''approval_id'' (li_approval_id inp) 160 = Inr a"
    and "li_request_kind inp = Some LK_delete" and "li_target_packet_id inp = Some (tp_id p)" and "tp_id p \<noteq> []"
    and "p \<in> set (sd_packets db)" and "tp_workspace_id p = ws"
  shows "executeCustomerDataLifecycleRequestRow nano nano2 now ws actor inp db =
    lifecycle_transaction nano nano2 now ws actor LK_delete a inp db"
    "packet_ref_ok ws (li_target_packet_id inp) db"
proof -
  have hp: "has_packet ws (tp_id p) db" using assms(6,7) by (auto simp: has_packet_def list_ex_iff)
  then show "packet_ref_ok ws (li_target_packet_id inp) db" by (simp add: packet_ref_ok_def assms(4))
  from hp assms show "executeCustomerDataLifecycleRequestRow nano nano2 now ws actor inp db =
    lifecycle_transaction nano nano2 now ws actor LK_delete a inp db"
    by (simp add: executeCustomerDataLifecycleRequestRow_def assertPacketInWorkspace_def)
qed

lemma pk_ok: "i \<notin> key ` set rows \<Longrightarrow> pk t key i rows = Inr ()"
  by (auto simp: pk_def list_ex_iff)

lemma packet_same_workspace_ok: "packet_ref_ok ws p db \<Longrightarrow> packet_same_workspace ws p db = Inr ()"
  by simp

text \<open>
  C40. A delete request whose approval is not approved is refused with 404 and archives nothing, but
  when its target is already archived the receipt of an approved deletion and its tool event are
  committed all the same.
\<close>

theorem unapproved_delete_leaves_receipt:
  assumes "js_trim ws \<noteq> []" and "requireShortText ''approval_id'' (li_approval_id inp) 160 = Inr a"
    and "li_request_kind inp = Some LK_delete" and "li_target_packet_id inp = Some (tp_id p)" and "tp_id p \<noteq> []"
    and "p \<in> set (sd_packets db)" and "tp_workspace_id p = ws" and "tp_lifecycle_state p = PS_archived"
    and "\<not> live_approval ws a db"
    and "''ev_'' @ nano \<notin> ei_id ` set (sd_evidence db)" and "''te_'' @ nano2 \<notin> te_id ` set (sd_tool_events db)"
  shows "executeCustomerDataLifecycleRequestRow nano nano2 now ws actor inp db =
    (db\<lparr>sd_evidence := sd_evidence db @ [lifecycle_receipt nano now ws actor LK_delete a inp],
        sd_tool_events := sd_tool_events db @ [lifecycle_tool_event nano nano2 now ws actor LK_delete inp]\<rparr>,
     Inl (Dal (makeError ''NOT_FOUND'' ''approved lifecycle approval request not found'' 404)))"
proof -
  have "receipt_admissible LK_delete ws (li_target_packet_id inp) a db"
    using assms(4,6,7,8) by (auto simp: receipt_admissible_def archived_packet_def list_ex_iff)
  with assms(9) execute_delete(2) [OF assms(1-7)] pk_ok [OF assms(10)] pk_ok [OF assms(11)] show ?thesis
    unfolding execute_delete(1) [OF assms(1-7)] lifecycle_transaction_def
    by (simp add: Let_def packet_same_workspace_ok lifecycle_answer_def)
qed

text \<open>
  An approval is not bound to what it approved: any approved approval of the workspace, whatever
  packet or request it was made for, executes the deletion of any packet of the workspace.
\<close>

theorem any_approval_deletes_any_packet:
  assumes "js_trim ws \<noteq> []" and "requireShortText ''approval_id'' (li_approval_id inp) 160 = Inr (ar_id a)"
    and "li_request_kind inp = Some LK_delete" and "li_target_packet_id inp = Some (tp_id p)" and "tp_id p \<noteq> []"
    and "p \<in> set (sd_packets db)" and "tp_workspace_id p = ws"
    and "a \<in> set (sd_approvals db)" and "ar_workspace_id a = ws" and "ar_status a = AS_approved"
    and "ar_packet_id a \<noteq> Some (tp_id p)"
    and "''ev_'' @ nano \<notin> ei_id ` set (sd_evidence db)" and "''te_'' @ nano2 \<notin> te_id ` set (sd_tool_events db)"
  shows "\<exists>db' ex. executeCustomerDataLifecycleRequestRow nano nano2 now ws actor inp db = (db', Inr ex) \<and>
    archived_packet ws (Some (tp_id p)) db' \<and> tp_id p \<in> set (le_archived_packet_ids ex)"
proof -
  have live: "live_approval ws (ar_id a) db" using assms(8-10) by (auto simp: live_approval_def list_ex_iff)
  have asserted: "assertPacketInWorkspace ws (Some (tp_id p)) db = Inr ()"
    using assms(5-7) by (auto simp: assertPacketInWorkspace_def has_packet_def list_ex_iff)
  let ?st = "archive_statement now ws (Some (tp_id p)) (ar_id a) db"
  have arch: "archived_packet ws (Some (tp_id p)) (fst ?st)"
    by (rule archive_statement_archives [OF live _ asserted]) (simp add: assms(5))
  have ids: "tp_id p \<in> set (snd ?st)" using live assms(6,7) by (auto simp: archive_statement_def is_target_def)
  then have ids': "tp_id p \<in> set (non_empty (snd ?st))" "non_empty (snd ?st) \<noteq> []"
    using assms(5) by (auto simp: non_empty_def filter_empty_conv)
  have arch': "archived_packet ws t (x\<lparr>sd_evidence := e, sd_tool_events := te\<rparr>) = archived_packet ws t x" for t x e te
    by (simp add: archived_packet_def)
  show ?thesis
    unfolding execute_delete(1) [OF assms(1-7)] lifecycle_transaction_def
    using live arch ids' execute_delete(2) [OF assms(1-7)] pk_ok [OF assms(12)] pk_ok [OF assms(13)]
    by (simp add: Let_def case_prod_unfold packet_same_workspace_ok lifecycle_answer_def assms(4) receipt_admissible_def arch')
qed

section \<open>A worked database\<close>

definition demo_packet :: task_packet where
  "demo_packet = \<lparr>tp_id = ''pkt_1'', tp_workspace_id = ''acme'', tp_project_id = None, tp_event_id = None,
     tp_title = ''Title'', tp_summary = ''Summary'', tp_lifecycle_state = PS_archived, tp_actor_user_id = ''u1'',
     tp_allowed_tools = [], tp_forbidden_tools = [], tp_source_refs = [], tp_evidence_ref_ids = [],
     tp_approval_required = True, tp_version = 1, tp_requested_output = Some ''report'', tp_acceptance_criteria = [],
     tp_acceptance_status = Acc_not_required, tp_evidence_required = True, tp_execution_status = Ex_succeeded,
     tp_blockers_accepted = False, tp_receipt_required = True, tp_plan_projection_required = False,
     tp_plan_projection_updated_at = None, tp_completed_at = None, tp_expires_at = None, tp_created_at = 1, tp_updated_at = 1\<rparr>"

definition demo_approval :: "string \<Rightarrow> string option \<Rightarrow> approval_status \<Rightarrow> approval_request" where
  "demo_approval i p st = \<lparr>ar_id = i, ar_workspace_id = ''acme'', ar_packet_id = p, ar_packet_version = Some 1,
     ar_event_id = None, ar_requested_by = ''u1'', ar_decided_by = None, ar_status = st, ar_reason = ''why'',
     ar_decision_comment = None, ar_requested_at = 1, ar_decided_at = (if st = AS_requested then None else Some 2)\<rparr>"

definition demo_db :: spine_db where
  "demo_db = (empty_spine [])\<lparr>sd_packets := [demo_packet],
     sd_approvals := [demo_approval ''apr_1'' (Some ''pkt_1'') AS_requested, demo_approval ''apr_2'' None AS_approved]\<rparr>"

definition demo_delete :: "string \<Rightarrow> lifecycle_input" where
  "demo_delete approval = \<lparr>li_approval_id = Some approval, li_request_kind = Some LK_delete,
     li_target_packet_id = Some ''pkt_1'', li_execution_note = None\<rparr>"

lemmas demo_defs = demo_packet_def demo_approval_def demo_db_def demo_delete_def empty_spine_def

lemma demo_wf: "spine_wf demo_db"
  by (simp add: demo_defs spine_wf_def spine_keys_def spine_refs_def spine_decisions_def packet_ref_ok_def project_ref_ok_def event_ref_ok_def has_packet_def)

lemma demo_texts: "js_trim ''acme'' \<noteq> []" "js_trim ''pkt_1'' \<noteq> []"
  "requireShortText ''approval_id'' (Some ''apr_1'') 160 = Inr ''apr_1''"
  "requireShortText ''approval_id'' (Some ''apr_2'') 160 = Inr ''apr_2''"
  by code_simp+

theorem unapproved_delete_leaves_receipt_witness:
  "\<exists>db' r. executeCustomerDataLifecycleRequestRow ''n1'' ''n2'' 5 ''acme'' ''u1'' (demo_delete ''apr_1'') demo_db =
     (db', Inl (Dal (makeError ''NOT_FOUND'' ''approved lifecycle approval request not found'' 404))) \<and>
     sd_evidence db' = [r] \<and> ei_kind r = EK_receipt"
  using unapproved_delete_leaves_receipt [of "''acme''" "demo_delete ''apr_1''" "''apr_1''" demo_packet demo_db "''n1''" "''n2''" 5 "''u1''"]
    demo_texts by (simp add: demo_defs live_approval_def)

theorem any_approval_deletes_any_packet_witness:
  "\<exists>db' ex. executeCustomerDataLifecycleRequestRow ''n1'' ''n2'' 5 ''acme'' ''u1'' (demo_delete ''apr_2'') demo_db = (db', Inr ex) \<and>
     ''pkt_1'' \<in> set (le_archived_packet_ids ex)"
  using any_approval_deletes_any_packet [of "''acme''" "demo_delete ''apr_2''" "demo_approval ''apr_2'' None AS_approved"
      demo_packet demo_db "''n1''" "''n2''" 5 "''u1''"] demo_texts
  by (auto simp: demo_defs)

theorem packet_completion_witness:
  "\<exists>ev. evaluateTaskPacketCompletionRow ''acme'' ''pkt_1'' demo_db = Inr (Some ev) \<and> \<not> ev_can_complete ev"
  using packet_completion [OF demo_wf, of demo_packet] demo_texts
  by (auto simp: demo_defs packet_done_def)


theorem lifecycle_executed_witness:
  "\<exists>db' ex. executeCustomerDataLifecycleRequestRow ''n1'' ''n2'' 5 ''acme'' ''u1'' (demo_delete ''apr_2'') demo_db = (db', Inr ex) \<and>
     live_approval ''acme'' (le_approval_id ex) demo_db \<and> sd_evidence db' = [le_evidence_item ex]"
proof -
  have "\<exists>db' ex. executeCustomerDataLifecycleRequestRow ''n1'' ''n2'' 5 ''acme'' ''u1'' (demo_delete ''apr_2'') demo_db = (db', Inr ex)"
    by (simp add: executeCustomerDataLifecycleRequestRow_def lifecycle_transaction_def demo_defs demo_texts
        assertPacketInWorkspace_def has_packet_def live_approval_def archive_statement_def is_target_def Let_def
        receipt_admissible_def archived_packet_def packet_same_workspace_def pk_def lifecycle_answer_def non_empty_def)
  then obtain db' ex where run: "executeCustomerDataLifecycleRequestRow ''n1'' ''n2'' 5 ''acme'' ''u1'' (demo_delete ''apr_2'') demo_db = (db', Inr ex)"
    by blast
  from lifecycle_executed [OF run] have "live_approval ''acme'' (le_approval_id ex) demo_db"
    "sd_evidence db' = sd_evidence demo_db @ [le_evidence_item ex]" by auto
  with run show ?thesis by (auto simp: demo_defs)
qed

definition demo_tool :: "tool_event_action \<Rightarrow> tool_event_input" where
  "demo_tool action = \<lparr>tei_id = Some ''te_9'', tei_packet_id = Some ''pkt_1'', tei_tool_name = ''tool'', tei_action = action,
     tei_status = TE_denied, tei_evidence_item_id = None, tei_summary = Some ''did it''\<rparr>"

lemma demo_tool_texts: "requireShortText ''summary'' (Some ''did it'') 512 = Inr ''did it''"
  "id_or_fresh (Some ''te_9'') (''te_'' @ ''n1'') = ''te_9''"
  by code_simp+

lemmas demo_tool_eval = createToolEventRow_def demo_tool_def demo_defs demo_texts demo_tool_texts
  assertPacketInWorkspace_def assertEvidenceInWorkspace_def has_packet_def packet_same_workspace_def
  evidence_same_workspace_def tool_event_checks_def DB_TOOL_ACTIONS_def pk_def Let_def

theorem tool_event_companion_witness:
  "\<exists>db' t ev. createToolEventRow [] ''n1'' ''n2'' 5 ''acme'' ''u1'' (demo_tool Submit_evidence) \<lparr>uo_emitSpineEvent = True, uo_lineage = None\<rparr> demo_db = (db', Inr t) \<and>
     sd_events db' = [ev] \<and> te_event_id t = Some (oe_id ev) \<and> oe_status ev = ''failed''"
proof -
  let ?o = "\<lparr>uo_emitSpineEvent = True, uo_lineage = None\<rparr>"
  have "\<exists>db' t. createToolEventRow [] ''n1'' ''n2'' 5 ''acme'' ''u1'' (demo_tool Submit_evidence) ?o demo_db = (db', Inr t) \<and> te_status t = TE_denied"
    by (simp add: demo_tool_eval)
  then obtain db' t where run: "createToolEventRow [] ''n1'' ''n2'' 5 ''acme'' ''u1'' (demo_tool Submit_evidence) ?o demo_db = (db', Inr t)"
    "te_status t = TE_denied" by blast
  from tool_event_companion [OF run(1)] run(2)
  obtain ev where "sd_events db' = sd_events demo_db @ [ev]" "te_event_id t = Some (oe_id ev)" "oe_status ev = ''failed''" by auto
  with run(1) show ?thesis by (auto simp: demo_defs)
qed

theorem effective_actions_never_recorded_witness:
  "(\<exists>e. createToolEventRow [] ''n1'' ''n2'' 5 ''acme'' ''u1'' (demo_tool Get_effective_profile) \<lparr>uo_emitSpineEvent = False, uo_lineage = None\<rparr> demo_db = (demo_db, Inl e)) \<and>
   snd (createToolEventRow [] ''n1'' ''n2'' 5 ''acme'' ''u1'' (demo_tool Get_effective_profile) \<lparr>uo_emitSpineEvent = False, uo_lineage = None\<rparr> demo_db) =
     Inl (Check_violation ''tool_events_action_check'')"
proof (rule conjI)
  show "\<exists>e. createToolEventRow [] ''n1'' ''n2'' 5 ''acme'' ''u1'' (demo_tool Get_effective_profile) \<lparr>uo_emitSpineEvent = False, uo_lineage = None\<rparr> demo_db = (demo_db, Inl e)"
    by (rule effective_actions_never_recorded) (simp add: demo_tool_def)
  show "snd (createToolEventRow [] ''n1'' ''n2'' 5 ''acme'' ''u1'' (demo_tool Get_effective_profile) \<lparr>uo_emitSpineEvent = False, uo_lineage = None\<rparr> demo_db) =
     Inl (Check_violation ''tool_events_action_check'')"
    by (simp add: demo_tool_eval)
qed

theorem approval_decided_once_witness:
  "\<exists>db1 r. decideApprovalRequestRow (\<lambda>_. ''t'') 9 ''acme'' ''apr_1'' ''boss'' \<lparr>adi_status = Decide_approved, adi_comment = None\<rparr> demo_db = (db1, Inr (Some r)) \<and>
     ar_status (adr_approval r) = AS_approved \<and>
     (\<nexists>r'. snd (decideApprovalRequestRow (\<lambda>_. ''t'') 10 ''acme'' ''apr_1'' ''other'' \<lparr>adi_status = Decide_rejected, adi_comment = None\<rparr> db1) = Inr (Some r'))"
proof -
  let ?i = "\<lparr>adi_status = Decide_approved, adi_comment = None\<rparr>"
  have "\<exists>db1 r. decideApprovalRequestRow (\<lambda>_. ''t'') 9 ''acme'' ''apr_1'' ''boss'' ?i demo_db = (db1, Inr (Some r))"
    by (simp add: decideApprovalRequestRow_def demo_texts demo_defs decidable_def Let_def)
  then obtain db1 r where run: "decideApprovalRequestRow (\<lambda>_. ''t'') 9 ''acme'' ''apr_1'' ''boss'' ?i demo_db = (db1, Inr (Some r))" by blast
  have none: "db1 = spine_run [] [] db1" by (simp add: spine_run_def)
  from approval_decided_once [OF demo_wf run none] run show ?thesis by auto
qed

theorem spine_tenant_isolation_witness:
  "listApprovalRequestsRow ''acme'' \<lparr>lo_limit = None, lo_packet_id = None\<rparr>
     (spine_run [] [(''evil'', Decide_approval 9 ''apr_1'' ''mallory'' \<lparr>adi_status = Decide_approved, adi_comment = None\<rparr>)] demo_db) =
   listApprovalRequestsRow ''acme'' \<lparr>lo_limit = None, lo_packet_id = None\<rparr> demo_db"
  using spine_tenant_isolation [of "[(''evil'', Decide_approval 9 ''apr_1'' ''mallory'' \<lparr>adi_status = Decide_approved, adi_comment = None\<rparr>)]"
      "''acme''" _ "[]" demo_db, OF _ refl] by simp

end
