(* ===== verification/Members.thy ===== *)
theory Members
  imports Spine_Authority
begin

text \<open>
  Workspace membership: the roster and scope reads and the strict role-change command of
  \<^verbatim>\<open>dal/workspace-member-store.ts\<close>, the strict removal command of
  \<^verbatim>\<open>dal/workspace-member-removal-store.ts\<close>, their replay helpers
  (\<^verbatim>\<open>dal/workspace-member-authority-helpers.ts\<close>) and the provisioning writer of
  \<^verbatim>\<open>dal/member-authority-provisioning.ts\<close>.

  Each command is one SQL statement of common table expressions; the model performs the writes in
  their order on a copy of the tables and keeps it only when no assertion or unique index fails,
  except that a drawn audit sequence value stays drawn. \<open>now\<close> is the command timestamp,
  \<open>iso\<close> its ISO rendering, \<open>nano1\<close> and \<open>nano2\<close> the drawn event and outbox identifiers.
\<close>

section \<open>Tables\<close>

record workspace_row =
  ws_id :: string
  ws_owner_user_id :: string

record user_row =
  us_id :: string
  us_email :: "string option"
  us_status :: "string option"
  us_approved_at :: "int option"
  us_approved_by :: "string option"
  us_suspended_at :: "int option"

record member_event =
  me_id :: string
  me_workspace_id :: string
  me_source_tool :: string
  me_agent_id :: string
  me_status :: string
  me_summary :: string
  me_body :: string
  me_visibility :: string
  me_occurred_at :: int
  me_authorized_by_user_id :: string
  me_instrument_kind :: string
  me_authority_source :: string
  me_request_id :: "string option"

record outbox_row =
  ob_id :: string
  ob_workspace_id :: string
  ob_event_type :: string
  ob_aggregate_type :: string
  ob_aggregate_id :: string
  ob_payload :: json
  ob_created_at :: int

datatype receipt_target =
    Role_of string string string "string option" int
  | Removed string string int

record member_receipt =
  mm_target :: receipt_target
  mm_receipt_id :: string
  mm_operation_event_id :: string
  mm_audit_event_id :: string
  mm_projection_outbox_id :: string
  mm_watermark :: string
  mm_replayed :: bool

record strict_row =
  sr_workspace_id :: string
  sr_actor_user_id :: string
  sr_route :: string
  sr_key :: string
  sr_request_sha256 :: string
  sr_response :: "member_receipt option"

record member_db =
  mb_auth :: authority_db
  mb_workspaces :: "workspace_row list"
  mb_users :: "user_row list"
  mb_events :: "member_event list"
  mb_outbox :: "outbox_row list"
  mb_strict :: "strict_row list"

record idempotency_input =
  ii_key :: string
  ii_request_sha256 :: string
  ii_route :: string
  ii_request_id :: "string option"

datatype member_error = M_dal dal_error | M_unique_violation

section \<open>Roster and scope reads\<close>

record workspace_member =
  vm_user_id :: string
  vm_workspace_id :: string
  vm_role :: string
  vm_invited_by :: "string option"
  vm_joined_at :: int
  vm_email :: "string option"
  vm_status :: "string option"

definition member_view :: "user_row list \<Rightarrow> member_row \<Rightarrow> workspace_member" where
  "member_view us m =
     (let u = find (\<lambda>u. us_id u = wm_user_id m) us
      in \<lparr>vm_user_id = wm_user_id m, vm_workspace_id = wm_workspace_id m, vm_role = wm_role m,
          vm_invited_by = wm_invited_by m, vm_joined_at = wm_joined_at m,
          vm_email = Option.bind u us_email, vm_status = Option.bind u us_status\<rparr>)"

text \<open>
  \<open>has_column\<close> says whether migration 062 has added \<^verbatim>\<open>removed_at\<close>: without it the first query
  fails and the unfiltered fallback runs.
\<close>

definition on_roster :: "bool \<Rightarrow> member_row \<Rightarrow> bool" where
  "on_roster has_column m = (has_column \<longrightarrow> wm_removed_at m = None)"

definition listWorkspaceMembersRow :: "bool \<Rightarrow> string \<Rightarrow> member_db \<Rightarrow> dal_error + workspace_member list" where
  "listWorkspaceMembersRow has_column ws db =
     (case assertWorkspaceScope (Some ws) of
        Some e \<Rightarrow> Inl e
      | None \<Rightarrow> Inr (map (member_view (mb_users db)) (sort_key wm_joined_at
          (filter (\<lambda>m. wm_workspace_id m = ws \<and> on_roster has_column m) (db_members (mb_auth db))))))"

definition owned_by :: "member_db \<Rightarrow> string \<Rightarrow> string \<Rightarrow> bool" where
  "owned_by db u ws = list_ex (\<lambda>w. ws_id w = ws \<and> ws_owner_user_id w = u) (mb_workspaces db)"

text \<open>The grouped batch read: the rows visible to the caller, looked up by workspace.\<close>

definition listWorkspaceMembersForWorkspacesRow ::
  "bool \<Rightarrow> string list \<Rightarrow> string list \<Rightarrow> string option \<Rightarrow> member_db \<Rightarrow> string \<Rightarrow> workspace_member list" where
  "listWorkspaceMembersForWorkspacesRow has_column workspaceIds ownerUserIds currentWorkspaceId db ws =
     (let ids = non_empty (map js_trim workspaceIds);
          owners = non_empty (map js_trim ownerUserIds);
          currentWs = (if truthy currentWorkspaceId then js_trim (coalesce currentWorkspaceId []) else [])
      in if ids = [] then []
         else map (member_view (mb_users db)) (sort_key wm_joined_at
           (filter (\<lambda>m. wm_workspace_id m = ws \<and> wm_workspace_id m \<in> set ids \<and>
                        list_ex (\<lambda>w. ws_id w = wm_workspace_id m \<and>
                          (ws_owner_user_id w \<in> set owners \<or> wm_workspace_id m = currentWs)) (mb_workspaces db) \<and>
                        on_roster has_column m) (db_members (mb_auth db)))))"

definition userCanScopeWorkspaceRow :: "bool \<Rightarrow> string \<Rightarrow> string \<Rightarrow> member_db \<Rightarrow> dal_error + bool" where
  "userCanScopeWorkspaceRow has_column userId ws db =
     (case assertWorkspaceScope (Some ws) of
        Some e \<Rightarrow> Inl e
      | None \<Rightarrow>
          (let uid = js_trim userId
           in Inr (uid \<noteq> [] \<and>
                (owned_by db uid ws \<or>
                 list_ex (\<lambda>m. wm_workspace_id m = ws \<and> wm_user_id m = uid \<and> on_roster has_column m)
                   (db_members (mb_auth db))))))"

definition userOwnsWorkspaceRow :: "string \<Rightarrow> string \<Rightarrow> member_db \<Rightarrow> dal_error + bool" where
  "userOwnsWorkspaceRow userId ws db =
     (case assertWorkspaceScope (Some ws) of
        Some e \<Rightarrow> Inl e
      | None \<Rightarrow> (let uid = js_trim userId in Inr (uid \<noteq> [] \<and> owned_by db uid ws)))"

section \<open>The entitlement mirror\<close>

record mirror =
  mi_allowed_modes :: "string list"
  mi_allowed_actions :: "string list"
  mi_denied_actions :: "string list"

definition operator_grade :: "string \<Rightarrow> bool" where
  "operator_grade role = (role = ''owner'' \<or> role = ''operator'')"

definition roleMirrorEntitlement :: "string \<Rightarrow> mirror" where
  "roleMirrorEntitlement role =
     \<lparr>mi_allowed_modes = (if operator_grade role then [''watch'', ''test'', ''operator''] else [''watch'']),
      mi_allowed_actions = (if operator_grade role then [''*''] else []),
      mi_denied_actions = (if role = ''client'' then [''*''] else [])\<rparr>"

definition same_grant :: "entitlement_row \<Rightarrow> entitlement_row \<Rightarrow> bool" where
  "same_grant a b = (ce_user_id a = ce_user_id b \<and> ce_workspace_id a = ce_workspace_id b \<and> ce_app_id a = ce_app_id b)"

text \<open>
  \<^verbatim>\<open>INSERT ... ON CONFLICT (user_id, workspace_id, app_id) DO UPDATE\<close>: an existing row keeps its
  revocation, expiry and review; \<open>regrant\<close> says whether the grant columns are replaced too.
\<close>

definition upsert_entitlement :: "bool \<Rightarrow> entitlement_row \<Rightarrow> entitlement_row list \<Rightarrow> entitlement_row list" where
  "upsert_entitlement regrant r es =
     (if list_ex (same_grant r) es
      then map (\<lambda>e. if same_grant r e
                    then e\<lparr>ce_allowed_modes := ce_allowed_modes r, ce_allowed_actions := ce_allowed_actions r,
                           ce_denied_actions := ce_denied_actions r, ce_authority_ref := ce_authority_ref r,
                           ce_granted_at := (if regrant then ce_granted_at r else ce_granted_at e),
                           ce_granted_by := (if regrant then ce_granted_by r else ce_granted_by e),
                           ce_updated_at := ce_updated_at r\<rparr>
                    else e) es
      else es @ [r])"

definition grant_row :: "int \<Rightarrow> string \<Rightarrow> string \<Rightarrow> string \<Rightarrow> string \<Rightarrow> mirror \<Rightarrow> entitlement_row" where
  "grant_row now u w authority_ref granted_by m =
     \<lparr>ce_user_id = u, ce_workspace_id = w, ce_app_id = PRODUCT_APP_ID,
      ce_allowed_modes = Pg_list (mi_allowed_modes m), ce_allowed_actions = Pg_list (mi_allowed_actions m),
      ce_denied_actions = Pg_list (mi_denied_actions m), ce_authority_ref = Some authority_ref,
      ce_granted_at = Some now, ce_granted_by = Some granted_by, ce_revoked_at = None, ce_expires_at = None,
      ce_review_due = None, ce_updated_at = now\<rparr>"

text \<open>Operator grade seeds the mode without touching a stored choice; anything else forces watch.\<close>

definition mirror_pref :: "bool \<Rightarrow> int \<Rightarrow> string \<Rightarrow> string \<Rightarrow> pref_row list \<Rightarrow> pref_row list" where
  "mirror_pref operatorGrade now u w ps =
     (let row = \<lparr>up_user_id = u, up_workspace_id = w,
                 up_operating_mode = (if operatorGrade then ''operator'' else ''watch''), up_updated_at = now\<rparr>
      in if operatorGrade \<and> pref_lookup ps u w \<noteq> None then ps else upsert_pref row ps)"

definition memberAuthorityProvisioningStatements ::
  "int \<Rightarrow> string \<Rightarrow> string \<Rightarrow> string \<Rightarrow> string option \<Rightarrow> authority_db \<Rightarrow> authority_db" where
  "memberAuthorityProvisioningStatements now userId workspaceId role actorUserId db =
     db\<lparr>db_entitlements := upsert_entitlement False
          (grant_row now userId workspaceId ''provisioning:role-mirror'' (or_else actorUserId userId) (roleMirrorEntitlement role))
          (db_entitlements db),
        db_prefs := mirror_pref (operator_grade role) now userId workspaceId (db_prefs db)\<rparr>"

text \<open>The standalone form settles the two statements separately; a failed one is only logged.\<close>

definition ensureMemberAuthorityProvisioned ::
  "bool \<Rightarrow> bool \<Rightarrow> int \<Rightarrow> string \<Rightarrow> string \<Rightarrow> string \<Rightarrow> string option \<Rightarrow> authority_db \<Rightarrow> authority_db \<times> bool" where
  "ensureMemberAuthorityProvisioned ent_up pref_up now userId workspaceId role actorUserId db =
     (let full = memberAuthorityProvisioningStatements now userId workspaceId role actorUserId db
      in (db\<lparr>db_entitlements := (if ent_up then db_entitlements full else db_entitlements db),
             db_prefs := (if pref_up then db_prefs full else db_prefs db)\<rparr>,
          \<not> ent_up \<or> \<not> pref_up))"


section \<open>Strict replay\<close>

datatype mutation_kind = Kind_role | Kind_remove

definition cleanMemberMutationValue :: "string \<Rightarrow> string" where
  "cleanMemberMutationValue v = js_trim v"

fun target_complete :: "mutation_kind \<Rightarrow> receipt_target \<Rightarrow> bool" where
  "target_complete Kind_role (Role_of u w r i j) = (u \<noteq> [])"
| "target_complete Kind_remove (Removed u w t) = (u \<noteq> [])"
| "target_complete _ _ = False"

definition memberMutationReceiptFromBody :: "member_receipt \<Rightarrow> mutation_kind \<Rightarrow> bool \<Rightarrow> member_error + member_receipt" where
  "memberMutationReceiptFromBody body kind replayed =
     (if \<not> target_complete kind (mm_target body) \<or> mm_receipt_id body = [] \<or> mm_operation_event_id body = []
         \<or> mm_audit_event_id body = [] \<or> mm_projection_outbox_id body = [] \<or> mm_watermark body = []
      then Inl (M_dal (makeError ''INTERNAL_ERROR'' ''strict member mutation replay body is incomplete'' 500))
      else Inr (body\<lparr>mm_replayed := replayed\<rparr>))"

definition is_lower_hex :: "char \<Rightarrow> bool" where
  "is_lower_hex c = (c \<in> set ''0123456789abcdef'')"

definition validateMemberMutationIdempotency :: "idempotency_input \<Rightarrow> string \<Rightarrow> member_error + unit" where
  "validateMemberMutationIdempotency i expectedRoute =
     (let key = cleanMemberMutationValue (ii_key i)
      in if key = [] \<or> length key > 200
         then Inl (M_dal (makeError ''IDEMPOTENCY_KEY_REQUIRED'' ''Idempotency-Key is required (1-200 chars)'' 428))
         else if \<not> (length (ii_request_sha256 i) = 64 \<and> list_all is_lower_hex (ii_request_sha256 i))
         then Inl (M_dal (makeError ''VALIDATION_ERROR'' ''request_sha256 must be a lower-case SHA-256 value'' 400))
         else ensure (ii_route i = expectedRoute)
           (M_dal (makeError ''VALIDATION_ERROR'' ''strict member mutation route identity is invalid'' 400)))"

definition strict_key :: "string \<Rightarrow> string \<Rightarrow> idempotency_input \<Rightarrow> strict_row \<Rightarrow> bool" where
  "strict_key ws actor i r =
     (sr_workspace_id r = ws \<and> sr_actor_user_id r = actor \<and> sr_route r = ii_route i \<and> sr_key r = ii_key i)"

definition findStrictMemberMutationReplay ::
  "string \<Rightarrow> string \<Rightarrow> idempotency_input \<Rightarrow> mutation_kind \<Rightarrow> member_db \<Rightarrow> member_error + member_receipt option" where
  "findStrictMemberMutationReplay ws actor i kind db =
     (case find (strict_key ws actor i) (mb_strict db) of
        None \<Rightarrow> Inr None
      | Some row \<Rightarrow>
          if sr_request_sha256 row \<noteq> ii_request_sha256 i
          then Inl (M_dal (makeError ''IDEMPOTENCY_KEY_REUSED'' ''Idempotency-Key was already used with a different request'' 409))
          else (case sr_response row of
                  None \<Rightarrow> Inl (M_dal (makeError ''MEMBER_ATOMICITY_FAILED'' ''member mutation has no durable authority result'' 500))
                | Some body \<Rightarrow> (case memberMutationReceiptFromBody body kind True of
                                   Inl e \<Rightarrow> Inl e | Inr r \<Rightarrow> Inr (Some r))))"

definition readStrictMemberMutationReplay ::
  "string \<Rightarrow> string \<Rightarrow> idempotency_input \<Rightarrow> mutation_kind \<Rightarrow> member_db \<Rightarrow> member_error + member_receipt" where
  "readStrictMemberMutationReplay ws actor i kind db =
     (case findStrictMemberMutationReplay ws actor i kind db of
        Inl e \<Rightarrow> Inl e
      | Inr None \<Rightarrow> Inl (M_dal (makeError ''INTERNAL_ERROR'' ''strict member mutation did not create a replay record'' 500))
      | Inr (Some r) \<Rightarrow> Inr r)"

section \<open>The two strict commands\<close>

record command_env =
  cm_nano1 :: string
  cm_nano2 :: string
  cm_now :: int
  cm_iso :: "int \<Rightarrow> string"

definition is_live_member :: "string \<Rightarrow> string \<Rightarrow> member_row \<Rightarrow> bool" where
  "is_live_member ws u m = (wm_workspace_id m = ws \<and> wm_user_id m = u \<and> wm_removed_at m = None)"

definition live_targets :: "string \<Rightarrow> string \<Rightarrow> member_db \<Rightarrow> member_row list" where
  "live_targets ws u db = filter (is_live_member ws u) (db_members (mb_auth db))"

definition live_owners :: "string \<Rightarrow> member_row list \<Rightarrow> member_row list" where
  "live_owners ws ms = filter (\<lambda>m. wm_workspace_id m = ws \<and> wm_role m = ''owner'' \<and> wm_removed_at m = None) ms"

datatype statement_failure = Target_missing | Last_owner | Unique_clash

text \<open>A failed statement rolls everything back except the drawn sequence value.\<close>

definition draw_audit_id :: "member_db \<Rightarrow> member_db" where
  "draw_audit_id db = db\<lparr>mb_auth := (mb_auth db)\<lparr>db_audit_seq := Suc (db_audit_seq (mb_auth db))\<rparr>\<rparr>"

text \<open>What the two commands write once their guard holds; they differ in the arguments only.\<close>

record authority_change =
  ac_member :: "member_row \<Rightarrow> member_row"
  ac_mirror :: mirror
  ac_authority_ref :: string
  ac_operator_grade :: bool
  ac_summary :: string
  ac_body :: string
  ac_action :: string
  ac_reason :: string
  ac_metadata :: "(string \<times> json) list"
  ac_event_type :: string
  ac_payload :: "(string \<times> json) list"
  ac_verb :: string
  ac_target :: receipt_target

definition opt_str :: "string option \<Rightarrow> json" where
  "opt_str v = (case v of None \<Rightarrow> JNull | Some s \<Rightarrow> JStr s)"

definition apply_change ::
  "command_env \<Rightarrow> string \<Rightarrow> string \<Rightarrow> string \<Rightarrow> idempotency_input \<Rightarrow> authority_change \<Rightarrow> member_db
     \<Rightarrow> member_db \<times> (statement_failure + member_receipt)" where
  "apply_change env ws target actor i ch db =
     (let auth = mb_auth db; aid = db_audit_seq auth; now = cm_now env;
          eid = ''evt_'' @ cm_nano1 env; oid = ''out_'' @ cm_nano2 env;
          receipt = \<lparr>mm_target = ac_target ch,
                     mm_receipt_id = ''workspace-member:'' @ ws @ '':'' @ target @ '':'' @ ac_verb ch @ '':'' @ show_nat aid,
                     mm_operation_event_id = eid, mm_audit_event_id = show_nat aid, mm_projection_outbox_id = oid,
                     mm_watermark = cm_iso env now, mm_replayed = False\<rparr>
      in if list_ex (\<lambda>e. me_id e = eid) (mb_events db) \<or> list_ex (\<lambda>o'. ob_id o' = oid) (mb_outbox db)
         then (draw_audit_id db, Inl Unique_clash)
         else
         (db\<lparr>mb_auth := auth\<lparr>
               db_members := map (\<lambda>m. if is_live_member ws target m then ac_member ch m else m) (db_members auth),
               db_entitlements := upsert_entitlement True
                 (grant_row now target ws (ac_authority_ref ch) actor (ac_mirror ch)) (db_entitlements auth),
               db_prefs := mirror_pref (ac_operator_grade ch) now target ws (db_prefs auth),
               db_audit := db_audit auth @
                 [\<lparr>al_id = aid, al_actor_user_id = actor, al_action = ac_action ch, al_target_type = ''workspace_member'',
                   al_target_id = target, al_workspace_id = ws, al_reason = ac_reason ch,
                   al_causation_id = Some eid, al_metadata = JObj (ac_metadata ch)\<rparr>],
               db_audit_seq := Suc aid\<rparr>,
             mb_events := mb_events db @
               [\<lparr>me_id = eid, me_workspace_id = ws, me_source_tool = ''xlooop'', me_agent_id = actor,
                 me_status = ''completed'', me_summary = ac_summary ch, me_body = ac_body ch,
                 me_visibility = ''internal_workspace'', me_occurred_at = now, me_authorized_by_user_id = actor,
                 me_instrument_kind = ''human'', me_authority_source = ''role'', me_request_id = ii_request_id i\<rparr>],
             mb_outbox := mb_outbox db @
               [\<lparr>ob_id = oid, ob_workspace_id = ws, ob_event_type = ac_event_type ch,
                 ob_aggregate_type = ''workspace_member'', ob_aggregate_id = target,
                 ob_payload = JObj (ac_payload ch @
                   [(''operation_event_id'', JStr eid), (''audit_event_id'', JStr (show_nat aid)),
                    (''request_sha256'', JStr (ii_request_sha256 i))]),
                 ob_created_at = now\<rparr>],
             mb_strict := mb_strict db @
               [\<lparr>sr_workspace_id = ws, sr_actor_user_id = actor, sr_route = ii_route i, sr_key = ii_key i,
                 sr_request_sha256 = ii_request_sha256 i, sr_response = Some receipt\<rparr>]\<rparr>,
          Inr receipt))"

definition role_change :: "string \<Rightarrow> string \<Rightarrow> idempotency_input \<Rightarrow> member_row \<Rightarrow> authority_change" where
  "role_change ws role i m =
     \<lparr>ac_member = (\<lambda>m. m\<lparr>wm_role := role\<rparr>), ac_mirror = roleMirrorEntitlement role,
      ac_authority_ref = ''membership:role-mirror'', ac_operator_grade = operator_grade role,
      ac_summary = ''Workspace member role changed to '' @ role,
      ac_body = ''Member role and effective authority changed through an owner command.'',
      ac_action = ''member_role_change'', ac_reason = ''role -> '' @ role,
      ac_metadata = [(''request_id'', opt_str (ii_request_id i)), (''request_sha256'', JStr (ii_request_sha256 i)),
                     (''role'', JStr role)],
      ac_event_type = ''workspace_member.role_changed'',
      ac_payload = [(''user_id'', JStr (wm_user_id m)), (''role'', JStr role)],
      ac_verb = ''role'', ac_target = Role_of (wm_user_id m) ws role (wm_invited_by m) (wm_joined_at m)\<rparr>"

definition removal_change :: "int \<Rightarrow> string \<Rightarrow> idempotency_input \<Rightarrow> member_row \<Rightarrow> authority_change" where
  "removal_change now ws i m =
     \<lparr>ac_member = (\<lambda>m. m\<lparr>wm_removed_at := Some now\<rparr>),
      ac_mirror = \<lparr>mi_allowed_modes = [''watch''], mi_allowed_actions = [], mi_denied_actions = [''*'']\<rparr>,
      ac_authority_ref = ''membership:removed'', ac_operator_grade = False,
      ac_summary = ''Workspace member removed'',
      ac_body = ''Membership was revoked through an owner command; effective authority was downgraded.'',
      ac_action = ''member_removed'', ac_reason = ''removed from workspace'',
      ac_metadata = [(''request_id'', opt_str (ii_request_id i)), (''request_sha256'', JStr (ii_request_sha256 i))],
      ac_event_type = ''workspace_member.removed'', ac_payload = [(''user_id'', JStr (wm_user_id m))],
      ac_verb = ''remove'', ac_target = Removed (wm_user_id m) ws now\<rparr>"

text \<open>
  The statement: a replay row makes it write nothing and return no row; otherwise the guard looks at
  the live target and the live owners, and the change is applied. \<open>demotes\<close> says whether the change
  takes the owner role away.
\<close>

definition member_statement ::
  "command_env \<Rightarrow> string \<Rightarrow> string \<Rightarrow> string \<Rightarrow> idempotency_input \<Rightarrow> bool \<Rightarrow> (member_row \<Rightarrow> authority_change) \<Rightarrow> member_db
     \<Rightarrow> member_db \<times> (statement_failure + member_receipt option)" where
  "member_statement env ws target actor i demotes change db =
     (if list_ex (strict_key ws actor i) (mb_strict db) then (db, Inr None)
      else (case live_targets ws target db of
              [m] \<Rightarrow>
                if demotes \<and> wm_role m = ''owner'' \<and> length (live_owners ws (db_members (mb_auth db))) \<le> 1
                then (draw_audit_id db, Inl Last_owner)
                else (let (db', r) = apply_change env ws target actor i (change m) db
                      in (db', case r of Inl f \<Rightarrow> Inl f | Inr rc \<Rightarrow> Inr (Some rc)))
            | _ \<Rightarrow> (draw_audit_id db, Inl Target_missing)))"

definition ROLE_ROUTE :: string where
  "ROLE_ROUTE = ''PATCH /api/v1/members/:userId/role''"

definition REMOVE_ROUTE :: string where
  "REMOVE_ROUTE = ''DELETE /api/v1/members/:userId''"

definition member_scope :: "string \<Rightarrow> member_error + unit" where
  "member_scope ws = (case assertWorkspaceScope (Some ws) of Some e \<Rightarrow> Inl (M_dal e) | None \<Rightarrow> Inr ())"

definition not_in_workspace :: "string \<Rightarrow> string \<Rightarrow> member_error" where
  "not_in_workspace target ws =
     M_dal (makeError ''NOT_FOUND'' (''member '' @ target @ '' not in workspace '' @ ws) 404)"

definition setWorkspaceMemberRoleRow ::
  "command_env \<Rightarrow> string \<Rightarrow> string \<Rightarrow> string \<Rightarrow> string \<Rightarrow> idempotency_input \<Rightarrow> member_db
     \<Rightarrow> member_db \<times> (member_error + member_receipt)" where
  "setWorkspaceMemberRoleRow env ws targetUserId role actorUserId i db =
     attempt db (member_scope ws) (\<lambda>_.
     attempt db (validateMemberMutationIdempotency i ROLE_ROUTE) (\<lambda>_.
     (let actor = cleanMemberMutationValue actorUserId; target = cleanMemberMutationValue targetUserId in
     attempt db (ensure (actor \<noteq> [] \<and> target \<noteq> [])
       (M_dal (makeError ''VALIDATION_ERROR'' ''actor and target member are required'' 400))) (\<lambda>_.
     (let (db', r) = member_statement env ws target actor i (role \<noteq> ''owner'') (role_change ws role i) db
      in (db', case r of
                 Inl Target_missing \<Rightarrow> Inl (not_in_workspace target ws)
               | Inl Last_owner \<Rightarrow> Inl (M_dal (makeError ''LAST_OWNER'' ''cannot change the role of the last remaining owner'' 409))
               | Inl Unique_clash \<Rightarrow> Inl M_unique_violation
               | Inr (Some body) \<Rightarrow> memberMutationReceiptFromBody body Kind_role False
               | Inr None \<Rightarrow> readStrictMemberMutationReplay ws actor i Kind_role db'))))))"

definition removeWorkspaceMemberRow ::
  "command_env \<Rightarrow> string \<Rightarrow> string \<Rightarrow> string \<Rightarrow> idempotency_input \<Rightarrow> member_db
     \<Rightarrow> member_db \<times> (member_error + member_receipt)" where
  "removeWorkspaceMemberRow env ws targetUserId actorUserId i db =
     attempt db (member_scope ws) (\<lambda>_.
     attempt db (validateMemberMutationIdempotency i REMOVE_ROUTE) (\<lambda>_.
     (let actor = cleanMemberMutationValue actorUserId; target = cleanMemberMutationValue targetUserId in
     attempt db (ensure (actor \<noteq> [] \<and> target \<noteq> [])
       (M_dal (makeError ''VALIDATION_ERROR'' ''actor and target member are required'' 400))) (\<lambda>_.
     attempt db (ensure (target \<noteq> actor)
       (M_dal (makeError ''CANNOT_REMOVE_SELF'' ''you cannot remove yourself from the workspace'' 409))) (\<lambda>_.
     (let (db', r) = member_statement env ws target actor i True (removal_change (cm_now env) ws i) db
      in (db', case r of
                 Inl Target_missing \<Rightarrow>
                   (case findStrictMemberMutationReplay ws actor i Kind_remove db' of
                      Inl e \<Rightarrow> Inl e
                    | Inr (Some replay) \<Rightarrow> Inr replay
                    | Inr None \<Rightarrow> Inl (not_in_workspace target ws))
               | Inl Last_owner \<Rightarrow> Inl (M_dal (makeError ''LAST_OWNER'' ''cannot remove the last remaining owner'' 409))
               | Inl Unique_clash \<Rightarrow> Inl M_unique_violation
               | Inr (Some body) \<Rightarrow> memberMutationReceiptFromBody body Kind_remove False
               | Inr None \<Rightarrow> readStrictMemberMutationReplay ws actor i Kind_remove db')))))))"

end
