(* ===== verification/Member_Props.thy ===== *)
theory Member_Props
  imports Members
begin

text \<open>
  What the membership commands promise: a workspace never loses its last owner, an executed command
  is replayed and never re-executed, and the effect of a role change or a removal on the governed
  writes of the member, through the entitlement reader and the canonical decision.
\<close>

section \<open>The commands as steps\<close>

lemma member_statement_cases:
  assumes "member_statement env ws t actor i dem change db = (db', r)"
  obtains (replay) "list_ex (strict_key ws actor i) (mb_strict db)" "db' = db" "r = Inr None"
    | (failed) f where "db' = draw_audit_id db" "r = Inl f" "\<not> list_ex (strict_key ws actor i) (mb_strict db)"
    | (applied) m rc where "live_targets ws t db = [m]" "\<not> list_ex (strict_key ws actor i) (mb_strict db)"
        "\<not> (dem \<and> wm_role m = ''owner'' \<and> length (live_owners ws (db_members (mb_auth db))) \<le> 1)"
        "apply_change env ws t actor i (change m) db = (db', Inr rc)" "r = Inr (Some rc)"
proof -
  from assms show ?thesis
    by (auto simp: member_statement_def apply_change_def Let_def
        split: if_splits list.splits sum.splits intro: that)
qed

datatype member_command =
    Set_role command_env string string string idempotency_input
  | Remove command_env string string idempotency_input

fun member_run :: "string \<Rightarrow> member_command \<Rightarrow> member_db \<Rightarrow> member_db \<times> (member_error + member_receipt)" where
  "member_run ws (Set_role env t role actor i) db = setWorkspaceMemberRoleRow env ws t role actor i db"
| "member_run ws (Remove env t actor i) db = removeWorkspaceMemberRow env ws t actor i db"

fun command_target :: "member_command \<Rightarrow> string" where
  "command_target (Set_role env t role actor i) = cleanMemberMutationValue t"
| "command_target (Remove env t actor i) = cleanMemberMutationValue t"

fun command_actor :: "member_command \<Rightarrow> string" where
  "command_actor (Set_role env t role actor i) = cleanMemberMutationValue actor"
| "command_actor (Remove env t actor i) = cleanMemberMutationValue actor"

fun command_env_of :: "member_command \<Rightarrow> command_env" where
  "command_env_of (Set_role env t role actor i) = env"
| "command_env_of (Remove env t actor i) = env"

fun command_input :: "member_command \<Rightarrow> idempotency_input" where
  "command_input (Set_role env t role actor i) = i"
| "command_input (Remove env t actor i) = i"

fun command_change :: "string \<Rightarrow> member_command \<Rightarrow> member_row \<Rightarrow> authority_change" where
  "command_change ws (Set_role env t role actor i) = role_change ws role i"
| "command_change ws (Remove env t actor i) = removal_change (cm_now env) ws i"

fun demoting :: "member_command \<Rightarrow> bool" where
  "demoting (Set_role env t role actor i) = (role \<noteq> ''owner'')"
| "demoting (Remove env t actor i) = True"

fun command_kind :: "member_command \<Rightarrow> mutation_kind" where
  "command_kind (Set_role env t role actor i) = Kind_role"
| "command_kind (Remove env t actor i) = Kind_remove"

lemma receipt_sel:
  "memberMutationReceiptFromBody body kind b = Inr r \<Longrightarrow> r = body\<lparr>mm_replayed := b\<rparr>"
  by (simp add: memberMutationReceiptFromBody_def split: if_splits)

lemma replay_read_Inr:
  "findStrictMemberMutationReplay ws actor i kind db = Inr (Some r) \<Longrightarrow> mm_replayed r"
  by (auto simp: findStrictMemberMutationReplay_def split: option.splits if_splits sum.splits dest: receipt_sel)

text \<open>Every command leaves the tables, draws a sequence value, or applies its change.\<close>

lemma member_run_cases:
  assumes "member_run ws c db = (db', r)"
  obtains (unchanged) "db' = db" | (drawn) "db' = draw_audit_id db"
    | (applied) m rc where "live_targets ws (command_target c) db = [m]"
        "\<not> (demoting c \<and> wm_role m = ''owner'' \<and> length (live_owners ws (db_members (mb_auth db))) \<le> 1)"
        "\<not> list_ex (strict_key ws (command_actor c) (command_input c)) (mb_strict db)"
        "apply_change (command_env_of c) ws (command_target c) (command_actor c) (command_input c) (command_change ws c m) db = (db', Inr rc)"
        "r = memberMutationReceiptFromBody rc (command_kind c) False"
proof (cases c)
  case (Set_role env t role actor i)
  with assms show ?thesis
    by (auto simp: setWorkspaceMemberRoleRow_def attempt_def Let_def split: sum.splits prod.splits
        elim!: member_statement_cases intro: that)
next
  case (Remove env t actor i)
  with assms show ?thesis
    by (auto simp: removeWorkspaceMemberRow_def attempt_def Let_def split: sum.splits prod.splits
        elim!: member_statement_cases intro: that)
qed


section \<open>A workspace keeps an owner\<close>

abbreviation members_of :: "member_db \<Rightarrow> member_row list" where
  "members_of db \<equiv> db_members (mb_auth db)"

text \<open>The unique constraint on (workspace_id, user_id).\<close>

definition member_wf :: "member_db \<Rightarrow> bool" where
  "member_wf db \<longleftrightarrow> distinct (map (\<lambda>m. (wm_workspace_id m, wm_user_id m)) (members_of db))"

definition member_exec :: "string \<Rightarrow> member_command \<Rightarrow> member_db \<Rightarrow> member_db" where
  "member_exec ws c db = fst (member_run ws c db)"

lemma apply_change_members:
  assumes "apply_change env ws t actor i ch db = (db', Inr rc)"
  shows "members_of db' = map (\<lambda>m. if is_live_member ws t m then ac_member ch m else m) (members_of db)"
    "db_entitlements (mb_auth db') = upsert_entitlement True
       (grant_row (cm_now env) t ws (ac_authority_ref ch) actor (ac_mirror ch)) (db_entitlements (mb_auth db))"
    "db_prefs (mb_auth db') = mirror_pref (ac_operator_grade ch) (cm_now env) t ws (db_prefs (mb_auth db))"
    "mb_strict db' = mb_strict db @ [\<lparr>sr_workspace_id = ws, sr_actor_user_id = actor, sr_route = ii_route i, sr_key = ii_key i,
       sr_request_sha256 = ii_request_sha256 i, sr_response = Some rc\<rparr>]"
  using assms by (auto simp: apply_change_def Let_def split: if_splits)

lemma draw_audit_id_sel [simp]: "members_of (draw_audit_id db) = members_of db"
  "db_entitlements (mb_auth (draw_audit_id db)) = db_entitlements (mb_auth db)"
  "db_prefs (mb_auth (draw_audit_id db)) = db_prefs (mb_auth db)" "mb_strict (draw_audit_id db) = mb_strict db"
  by (simp_all add: draw_audit_id_def)

lemma command_change_keeps:
  "wm_workspace_id (ac_member (command_change ws c x) m) = wm_workspace_id m"
  "wm_user_id (ac_member (command_change ws c x) m) = wm_user_id m"
  "\<not> demoting c \<Longrightarrow> wm_role (ac_member (command_change ws c x) m) = ''owner''"
  "\<not> demoting c \<Longrightarrow> wm_removed_at (ac_member (command_change ws c x) m) = wm_removed_at m"
  by (cases c; simp add: role_change_def removal_change_def)+

lemma member_exec_wf:
  assumes "member_wf db"
  shows "member_wf (member_exec ws c db)"
proof (rule member_run_cases [OF surjective_pairing [of "member_run ws c db"]])
  fix m rc
  assume ap: "apply_change (command_env_of c) ws (command_target c) (command_actor c) (command_input c) (command_change ws c m) db
      = (fst (member_run ws c db), Inr rc)"
  have "map (\<lambda>m. (wm_workspace_id m, wm_user_id m)) (members_of (member_exec ws c db)) =
      map (\<lambda>m. (wm_workspace_id m, wm_user_id m)) (members_of db)"
    unfolding member_exec_def apply_change_members(1) [OF ap] by (simp add: command_change_keeps)
  with assms show ?thesis by (simp add: member_wf_def)
qed (use assms in \<open>simp_all add: member_exec_def member_wf_def\<close>)

lemma owner_survives:
  assumes wf: "member_wf db" and o: "o1 \<in> set (live_owners ws (members_of db))"
    and t: "live_targets ws t db = [m]"
    and guard: "\<not> (demoting c \<and> wm_role m = ''owner'' \<and> length (live_owners ws (members_of db)) \<le> 1)"
  shows "live_owners ws (map (\<lambda>m. if is_live_member ws t m then ac_member (command_change ws c x) m else m) (members_of db)) \<noteq> []"
proof -
  let ?f = "\<lambda>m. if is_live_member ws t m then ac_member (command_change ws c x) m else m"
  have target: "y = m" if "y \<in> set (members_of db)" "is_live_member ws t y" for y
  proof -
    have "y \<in> set (live_targets ws t db)" using that by (simp add: live_targets_def)
    with t show ?thesis by simp
  qed
  have keep: "live_owners ws (map ?f (members_of db)) \<noteq> []" if "y \<in> set (live_owners ws (members_of db))" "y \<noteq> m \<or> \<not> demoting c" for y
  proof -
    have y: "y \<in> set (members_of db)" "wm_workspace_id y = ws" "wm_role y = ''owner''" "wm_removed_at y = None"
      using that(1) by (auto simp: live_owners_def)
    have "wm_workspace_id (?f y) = ws \<and> wm_role (?f y) = ''owner'' \<and> wm_removed_at (?f y) = None"
      using y that(2) target [OF y(1)] by (auto simp: command_change_keeps)
    moreover have "?f y \<in> set (map ?f (members_of db))" unfolding set_map using y(1) by (rule imageI)
    ultimately have "?f y \<in> set (live_owners ws (map ?f (members_of db)))"
      unfolding live_owners_def set_filter by blast
    then show ?thesis by (metis empty_iff list.set(1))
  qed
  show ?thesis
  proof (cases "o1 = m \<and> demoting c")
    case False
    with keep o show ?thesis by blast
  next
    case True
    then have "2 \<le> length (live_owners ws (members_of db))" using guard o by (auto simp: live_owners_def)
    moreover have "distinct (live_owners ws (members_of db))"
      using wf by (auto simp: live_owners_def member_wf_def distinct_map)
    ultimately have "2 \<le> card (set (live_owners ws (members_of db)))" by (simp add: distinct_card)
    then have "\<not> set (live_owners ws (members_of db)) \<subseteq> {m}" by (metis One_nat_def Suc_1 card.empty card_insert_if card_mono empty_iff finite.emptyI finite_insert not_less_eq_eq)
    then obtain y where "y \<in> set (live_owners ws (members_of db))" "y \<noteq> m" by blast
    with keep show ?thesis by blast
  qed
qed

lemma live_owners_other:
  assumes "w \<noteq> ws"
  shows "live_owners w (map (\<lambda>m. if is_live_member ws t m then ac_member (command_change ws c x) m else m) ms) = live_owners w ms"
  unfolding live_owners_def using assms
  by (induction ms) (auto simp: is_live_member_def command_change_keeps)

lemma member_exec_owner:
  assumes "member_wf db" and "live_owners w (members_of db) \<noteq> []"
  shows "live_owners w (members_of (member_exec ws c db)) \<noteq> []"
proof (rule member_run_cases [OF surjective_pairing [of "member_run ws c db"]])
  fix m rc
  assume t: "live_targets ws (command_target c) db = [m]"
    and g: "\<not> (demoting c \<and> wm_role m = ''owner'' \<and> length (live_owners ws (members_of db)) \<le> 1)"
    and ap: "apply_change (command_env_of c) ws (command_target c) (command_actor c) (command_input c) (command_change ws c m) db
      = (fst (member_run ws c db), Inr rc)"
  obtain o1 where o1: "o1 \<in> set (live_owners w (members_of db))" using assms(2) by (cases "live_owners w (members_of db)") auto
  show ?thesis unfolding member_exec_def apply_change_members(1) [OF ap]
  proof (cases "w = ws")
    case True
    with owner_survives [OF assms(1) _ t g, of o1 m] o1
    show "live_owners w (map (\<lambda>x. if is_live_member ws (command_target c) x then ac_member (command_change ws c m) x else x) (members_of db)) \<noteq> []"
      by simp
  next
    case False
    with live_owners_other [of w ws "command_target c" c m "members_of db"] assms(2)
    show "live_owners w (map (\<lambda>x. if is_live_member ws (command_target c) x then ac_member (command_change ws c m) x else x) (members_of db)) \<noteq> []"
      by simp
  qed
qed (use assms in \<open>simp_all add: member_exec_def\<close>)

text \<open>
  C9. A workspace never loses its last owner: whatever role changes and removals are commanded, by
  anyone and in any order, a workspace that has a live owner keeps one, and memberships stay unique.
\<close>

theorem workspace_keeps_an_owner:
  assumes "member_wf db" and "live_owners w (members_of db) \<noteq> []"
    and "db' = foldl (\<lambda>db wc. member_exec (fst wc) (snd wc) db) db cs"
  shows "live_owners w (members_of db') \<noteq> [] \<and> member_wf db'"
  unfolding assms(3)
  by (rule foldl_inv [where I = "\<lambda>db. live_owners w (members_of db) \<noteq> [] \<and> member_wf db"])
    (use assms(1,2) member_exec_owner member_exec_wf in auto)


section \<open>Strict replay\<close>

lemma receipt_Inr_iff:
  "memberMutationReceiptFromBody body kind b = Inr r \<longleftrightarrow>
     r = body\<lparr>mm_replayed := b\<rparr> \<and> memberMutationReceiptFromBody body kind True = Inr (body\<lparr>mm_replayed := True\<rparr>)"
  by (auto simp: memberMutationReceiptFromBody_def)

text \<open>A freshly executed command, as opposed to a replayed one, has applied its change.\<close>

lemma fresh_execution:
  assumes "member_run ws c db = (db', Inr rc)" and "\<not> mm_replayed rc"
  obtains m body where "live_targets ws (command_target c) db = [m]"
    "\<not> list_ex (strict_key ws (command_actor c) (command_input c)) (mb_strict db)"
    "apply_change (command_env_of c) ws (command_target c) (command_actor c) (command_input c) (command_change ws c m) db = (db', Inr body)"
    "memberMutationReceiptFromBody body (command_kind c) False = Inr rc"
proof (cases c)
  case (Set_role env t role actor i)
  with assms show ?thesis
    by (auto simp: setWorkspaceMemberRoleRow_def readStrictMemberMutationReplay_def attempt_def Let_def
        split: sum.splits prod.splits option.splits statement_failure.splits
        elim!: member_statement_cases intro: that dest: replay_read_Inr)
next
  case (Remove env t actor i)
  with assms show ?thesis
    by (auto simp: removeWorkspaceMemberRow_def readStrictMemberMutationReplay_def attempt_def Let_def
        split: sum.splits prod.splits option.splits statement_failure.splits
        elim!: member_statement_cases intro: that dest: replay_read_Inr)
qed

lemma fresh_role:
  assumes "setWorkspaceMemberRoleRow env ws t role actor i db = (db', Inr rc)" and "\<not> mm_replayed rc"
  obtains m body where "live_targets ws (js_trim t) db = [m]"
    "apply_change env ws (js_trim t) (js_trim actor) i (role_change ws role i m) db = (db', Inr body)"
proof (rule fresh_execution [of ws "Set_role env t role actor i" db db' rc])
  fix m body
  assume "live_targets ws (command_target (Set_role env t role actor i)) db = [m]"
    "apply_change (command_env_of (Set_role env t role actor i)) ws (command_target (Set_role env t role actor i)) (command_actor (Set_role env t role actor i))
       (command_input (Set_role env t role actor i)) (command_change ws (Set_role env t role actor i) m) db = (db', Inr body)"
  then show thesis by (intro that [of m body]) (simp_all add: cleanMemberMutationValue_def)
qed (use assms in simp_all)

lemma fresh_removal:
  assumes "removeWorkspaceMemberRow env ws t actor i db = (db', Inr rc)" and "\<not> mm_replayed rc"
  obtains m body where "live_targets ws (js_trim t) db = [m]"
    "apply_change env ws (js_trim t) (js_trim actor) i (removal_change (cm_now env) ws i m) db = (db', Inr body)"
proof (rule fresh_execution [of ws "Remove env t actor i" db db' rc])
  fix m body
  assume "live_targets ws (command_target (Remove env t actor i)) db = [m]"
    "apply_change (command_env_of (Remove env t actor i)) ws (command_target (Remove env t actor i)) (command_actor (Remove env t actor i))
       (command_input (Remove env t actor i)) (command_change ws (Remove env t actor i) m) db = (db', Inr body)"
  then show thesis by (intro that [of m body]) (simp_all add: cleanMemberMutationValue_def)
qed (use assms in simp_all)

text \<open>What a later call under a recorded key sees.\<close>

lemma replay_found:
  assumes "find (strict_key ws actor i) (mb_strict db) = Some row" and "sr_response row = Some body"
    and "memberMutationReceiptFromBody body kind False = Inr rc"
  shows "readStrictMemberMutationReplay ws actor i kind db =
    (if sr_request_sha256 row = ii_request_sha256 i then Inr (rc\<lparr>mm_replayed := True\<rparr>)
     else Inl (M_dal (makeError ''IDEMPOTENCY_KEY_REUSED'' ''Idempotency-Key was already used with a different request'' 409)))"
proof -
  from assms(3) have "memberMutationReceiptFromBody body kind True = Inr (rc\<lparr>mm_replayed := True\<rparr>)"
    by (auto simp: memberMutationReceiptFromBody_def split: if_splits)
  with assms(1,2) show ?thesis
    by (simp add: readStrictMemberMutationReplay_def findStrictMemberMutationReplay_def)
qed

text \<open>The checks a command passes before its statement is sent.\<close>

fun well_formed_command :: "string \<Rightarrow> member_command \<Rightarrow> bool" where
  "well_formed_command ws (Set_role env t role actor i) \<longleftrightarrow>
     member_scope ws = Inr () \<and> validateMemberMutationIdempotency i ROLE_ROUTE = Inr () \<and>
     js_trim actor \<noteq> [] \<and> js_trim t \<noteq> []"
| "well_formed_command ws (Remove env t actor i) \<longleftrightarrow>
     member_scope ws = Inr () \<and> validateMemberMutationIdempotency i REMOVE_ROUTE = Inr () \<and>
     js_trim actor \<noteq> [] \<and> js_trim t \<noteq> [] \<and> js_trim t \<noteq> js_trim actor"

lemma member_run_replay:
  assumes "well_formed_command ws c" and "list_ex (strict_key ws (command_actor c) (command_input c)) (mb_strict db)"
  shows "member_run ws c db = (db, readStrictMemberMutationReplay ws (command_actor c) (command_input c) (command_kind c) db)"
  using assms
  by (cases c) (simp_all add: setWorkspaceMemberRoleRow_def removeWorkspaceMemberRow_def member_statement_def
      cleanMemberMutationValue_def Let_def)

lemma member_run_well_formed:
  assumes "member_run ws c db = (db', Inr rc)"
  shows "well_formed_command ws c"
  using assms
  by (cases c) (auto simp: setWorkspaceMemberRoleRow_def removeWorkspaceMemberRow_def cleanMemberMutationValue_def
      attempt_def Let_def split: sum.splits)

text \<open>
  An executed membership command is never executed twice: any later well-formed command of the
  same kind and actor under the same key changes no table; with the same request digest it answers the
  recorded receipt, marked as replayed, and with another digest it is refused with 409.
\<close>

theorem member_command_replay:
  assumes "member_run ws c db = (db', Inr rc)" and "\<not> mm_replayed rc"
    and "well_formed_command ws c2" and "command_kind c2 = command_kind c" and "command_actor c2 = command_actor c"
    and "ii_key (command_input c2) = ii_key (command_input c)" and "ii_route (command_input c2) = ii_route (command_input c)"
  shows "member_run ws c2 db' =
    (db', if ii_request_sha256 (command_input c2) = ii_request_sha256 (command_input c)
          then Inr (rc\<lparr>mm_replayed := True\<rparr>)
          else Inl (M_dal (makeError ''IDEMPOTENCY_KEY_REUSED'' ''Idempotency-Key was already used with a different request'' 409)))"
proof -
  from assms(1,2) obtain m body where free: "\<not> list_ex (strict_key ws (command_actor c) (command_input c)) (mb_strict db)"
    and ap: "apply_change (command_env_of c) ws (command_target c) (command_actor c) (command_input c) (command_change ws c m) db = (db', Inr body)"
    and rc: "memberMutationReceiptFromBody body (command_kind c) False = Inr rc" by (rule fresh_execution)
  let ?row = "\<lparr>sr_workspace_id = ws, sr_actor_user_id = command_actor c, sr_route = ii_route (command_input c),
    sr_key = ii_key (command_input c), sr_request_sha256 = ii_request_sha256 (command_input c), sr_response = Some body\<rparr>"
  have key: "strict_key ws (command_actor c2) (command_input c2) = strict_key ws (command_actor c) (command_input c)"
    using assms(5-7) by (auto simp: strict_key_def)
  have "find (strict_key ws (command_actor c) (command_input c)) (mb_strict db) = None"
    using free by (auto simp: find_None_iff list_ex_iff)
  then have found: "find (strict_key ws (command_actor c2) (command_input c2)) (mb_strict db') = Some ?row"
    unfolding key apply_change_members(4) [OF ap] by (rule find_append_last) (simp add: strict_key_def)
  then have "list_ex (strict_key ws (command_actor c2) (command_input c2)) (mb_strict db')"
    by (auto simp: list_ex_iff dest!: find_Some_in)
  from member_run_replay [OF assms(3) this] replay_found [OF found, of body "command_kind c2" rc] rc assms(4)
  show ?thesis by auto
qed

section \<open>Role changes, removals and governed writes\<close>

lemma upsert_entitlement_modes:
  assumes "e \<in> set (upsert_entitlement b r es)" and "same_grant r e"
  shows "ce_allowed_modes e = ce_allowed_modes r \<and> ce_allowed_actions e = ce_allowed_actions r \<and>
    ce_denied_actions e = ce_denied_actions r"
  using assms by (auto simp: upsert_entitlement_def same_grant_def list_ex_iff split: if_splits)

text \<open>The caller acts as user \<open>u\<close> in workspace \<open>w\<close>, is not a service, and enforcement is on.\<close>

definition acts_as :: "spine_ctx \<Rightarrow> string \<Rightarrow> string \<Rightarrow> bool" where
  "acts_as ctx u w \<longleftrightarrow> flag_on ctx \<and> \<not> truthy (principal_kind ctx) \<and>
     au_user_id (ctx_auth ctx) = Some u \<and> au_workspace_id (ctx_auth ctx) = Some w"

lemma removal_kills:
  assumes "removeWorkspaceMemberRow env ws t actor i db = (db', Inr rc)" and "\<not> mm_replayed rc" and "y \<in> set (members_of db')"
  shows "\<not> (wm_user_id y = js_trim t \<and> wm_workspace_id y = ws \<and> wm_removed_at y = None)"
proof
  assume y: "wm_user_id y = js_trim t \<and> wm_workspace_id y = ws \<and> wm_removed_at y = None"
  from assms(1,2) obtain m body where
    "apply_change env ws (js_trim t) (js_trim actor) i (removal_change (cm_now env) ws i m) db = (db', Inr body)"
    by (rule fresh_removal)
  note mem = apply_change_members(1) [OF this]
  from assms(3) obtain x where
    "y = (if is_live_member ws (js_trim t) x then ac_member (removal_change (cm_now env) ws i m) x else x)"
    unfolding mem set_map by (rule imageE)
  with y show False by (auto simp: is_live_member_def removal_change_def split: if_splits)
qed

text \<open>
  C10. Removal takes effect: after an executed removal the removed user, acting as a human with a session in that workspace, is
  refused every governed write in it, whatever their entitlement and mode rows say by then. This is the decision taken while
  \<^verbatim>\<open>ENTITLEMENT_ENFORCEMENT\<close> is on, as \<^verbatim>\<open>wrangler.toml\<close> deploys it (\<open>acts_as\<close> says both); with the flag off the decision is the
  legacy one on the session's role, which does not read the membership.
\<close>

theorem removed_member_is_powerless:
  assumes "removeWorkspaceMemberRow env ws t actor i db = (db', Inr rc)" and "\<not> mm_replayed rc"
    and "acts_as ctx (js_trim t) ws" and "db_members (sc_db ctx) = members_of db'"
  shows "\<not> sd_allowed (fst (authorizeSpineWrite ctx a))"
proof
  assume "sd_allowed (fst (authorizeSpineWrite ctx a))"
  with human_write_needs(3) [of ctx a] assms(3,4) have "live_member (members_of db') (js_trim t) ws"
    by (simp add: acts_as_def)
  then obtain m where "m \<in> set (members_of db')" "wm_user_id m = js_trim t \<and> wm_workspace_id m = ws \<and> wm_removed_at m = None"
    by (auto simp: live_member_def)
  with removal_kills [OF assms(1,2), of m] show False by simp
qed

text \<open>
  Demotion takes effect: after an executed change to a role below operator, the member is refused
  every governed write in that workspace as long as the entitlement row is the one written, whatever
  mode they select.
\<close>

theorem demoted_member_is_powerless:
  assumes "setWorkspaceMemberRoleRow env ws t role actor i db = (db', Inr rc)" and "\<not> mm_replayed rc"
    and "\<not> operator_grade role"
    and "acts_as ctx (js_trim t) ws" and "db_entitlements (sc_db ctx) = db_entitlements (mb_auth db')"
  shows "\<not> sd_allowed (fst (authorizeSpineWrite ctx a))"
proof
  assume "sd_allowed (fst (authorizeSpineWrite ctx a))"
  with human_write_needs(4) [of ctx a] assms(4,5) obtain r where r: "r \<in> set (db_entitlements (mb_auth db'))"
    "ce_user_id r = js_trim t" "ce_workspace_id r = ws" "ce_app_id r = PRODUCT_APP_ID"
    "''operator'' \<in> set (asStringArray (ce_allowed_modes r))"
    by (auto simp: acts_as_def)
  from assms(1,2) obtain m body where
    "apply_change env ws (js_trim t) (js_trim actor) i (role_change ws role i m) db = (db', Inr body)"
    by (rule fresh_role)
  note ent = apply_change_members(2) [OF this]
  let ?g = "grant_row (cm_now env) (js_trim t) ws ''membership:role-mirror'' (js_trim actor) (roleMirrorEntitlement role)"
  have "r \<in> set (upsert_entitlement True ?g (db_entitlements (mb_auth db)))"
    using r(1) unfolding ent by (simp add: role_change_def)
  moreover have "same_grant ?g r" using r(2-4) by (simp add: same_grant_def grant_row_def)
  ultimately have "ce_allowed_modes r = ce_allowed_modes ?g" using upsert_entitlement_modes by blast
  with r(5) assms(3) show False by (simp add: grant_row_def roleMirrorEntitlement_def asStringArray_def)
qed


lemma latest_grant_cong:
  assumes "rs \<noteq> []" and "\<And>r. r \<in> set rs \<Longrightarrow> P r"
  obtains r where "latest_grant rs = Some r" "P r"
  using assms latest_grant_None [of rs] by (cases "latest_grant rs") (auto dest: latest_grant_in)

lemma upsert_entitlement_exists: "\<exists>e \<in> set (upsert_entitlement b r es). same_grant r e"
proof (cases "list_ex (same_grant r) es")
  case False
  then show ?thesis by (simp add: upsert_entitlement_def same_grant_def)
next
  case True
  then obtain e where e: "e \<in> set es" "same_grant r e" by (auto simp: list_ex_iff)
  let ?f = "\<lambda>e. if same_grant r e
                    then e\<lparr>ce_allowed_modes := ce_allowed_modes r, ce_allowed_actions := ce_allowed_actions r,
                           ce_denied_actions := ce_denied_actions r, ce_authority_ref := ce_authority_ref r,
                           ce_granted_at := (if b then ce_granted_at r else ce_granted_at e),
                           ce_granted_by := (if b then ce_granted_by r else ce_granted_by e),
                           ce_updated_at := ce_updated_at r\<rparr>
                    else e"
  have "?f e \<in> set (upsert_entitlement b r es)"
    unfolding upsert_entitlement_def if_P [OF True] set_map using e(1) by (rule imageI)
  moreover have "same_grant r (?f e)" using e(2) by (simp add: same_grant_def)
  ultimately show ?thesis by blast
qed

lemma upsert_entitlement_revoked:
  assumes "e \<in> set (upsert_entitlement b r es)" and "same_grant r e" and "ce_revoked_at r = None"
    and "\<And>x. x \<in> set es \<Longrightarrow> same_grant r x \<Longrightarrow> ce_revoked_at x = None"
  shows "ce_revoked_at e = None"
  using assms by (auto simp: upsert_entitlement_def same_grant_def list_ex_iff split: if_splits)

lemma mirror_pref_operator:
  assumes "pref_lookup ps u w = None \<or> map_option up_operating_mode (pref_lookup ps u w) = Some ''operator''"
  shows "map_option up_operating_mode (pref_lookup (mirror_pref True now u w ps) u w) = Some ''operator''"
proof (cases "pref_lookup ps u w")
  case None
  then show ?thesis
    using pref_lookup_upsert_same [of "\<lparr>up_user_id = u, up_workspace_id = w, up_operating_mode = ''operator'', up_updated_at = now\<rparr>" ps]
    by (simp add: mirror_pref_def Let_def)
next
  case (Some p)
  with assms show ?thesis by (simp add: mirror_pref_def Let_def)
qed

text \<open>
  Promotion takes effect at once: after an executed change of an active member to owner or
  operator, whose entitlement was not revoked and who had chosen no other mode, every governed write of
  theirs in that workspace is allowed while the session lasts and both authority reads answer.
\<close>

theorem promoted_member_can_write:
  assumes "setWorkspaceMemberRoleRow env ws t role actor i db = (db', Inr rc)" and "\<not> mm_replayed rc"
    and "operator_grade role" and "ws \<noteq> []" and "js_trim t \<noteq> []"
    and "acts_as ctx (js_trim t) ws" and "sc_db ctx = mb_auth db'" and "sc_ent_read_up ctx" and "sc_mode_read_up ctx"
    and "au_token_expires_at (ctx_auth ctx) = None"
    and "\<forall>m \<in> set (members_of db). wm_status m = ''active''"
    and "\<forall>e \<in> set (db_entitlements (mb_auth db)). ce_revoked_at e = None"
    and "pref_lookup (db_prefs (mb_auth db)) (js_trim t) ws = None"
  shows "sd_allowed (fst (authorizeSpineWrite ctx a))"
proof -
  from assms(1,2) obtain m body where tgt: "live_targets ws (js_trim t) db = [m]" and
    ap: "apply_change env ws (js_trim t) (js_trim actor) i (role_change ws role i m) db = (db', Inr body)" by (rule fresh_role)
  let ?g = "grant_row (cm_now env) (js_trim t) ws ''membership:role-mirror'' (js_trim actor) (roleMirrorEntitlement role)"
  have m: "m \<in> set (members_of db)" "is_live_member ws (js_trim t) m"
  proof -
    have "m \<in> set (live_targets ws (js_trim t) db)" using tgt by simp
    then show "m \<in> set (members_of db)" "is_live_member ws (js_trim t) m" by (simp_all add: live_targets_def)
  qed
  have "m\<lparr>wm_role := role\<rparr> \<in> set (members_of db')"
    unfolding apply_change_members(1) [OF ap] set_map using m by (intro image_eqI [of _ _ m]) (simp_all add: role_change_def)
  then have live: "live_member (members_of db') (js_trim t) ws"
    using m assms(11) by (auto simp: live_member_def is_live_member_def intro!: bexI [of _ "m\<lparr>wm_role := role\<rparr>"])
  have ents: "db_entitlements (mb_auth db') = upsert_entitlement True ?g (db_entitlements (mb_auth db))"
    unfolding apply_change_members(2) [OF ap] by (simp add: role_change_def)
  let ?cs = "entitlement_candidates (mb_auth db') (js_trim t) ws"
  have cand: "set ?cs = {e \<in> set (db_entitlements (mb_auth db')). same_grant ?g e}"
    using live by (auto simp: entitlement_candidates_def same_grant_def grant_row_def)
  have good: "ce_allowed_modes e = ce_allowed_modes ?g \<and> ce_allowed_actions e = ce_allowed_actions ?g \<and>
      ce_denied_actions e = ce_denied_actions ?g \<and> ce_revoked_at e = None" if "e \<in> set ?cs" for e
    using that upsert_entitlement_modes [of e True ?g] upsert_entitlement_revoked [of e True ?g] assms(12)
    unfolding cand ents by (auto simp: grant_row_def)
  obtain e0 where "e0 \<in> set (db_entitlements (mb_auth db'))" "same_grant ?g e0"
    using upsert_entitlement_exists [of True ?g "db_entitlements (mb_auth db)"] unfolding ents by blast
  then have "e0 \<in> set ?cs" unfolding cand by simp
  then have ne: "?cs \<noteq> []" by auto
  obtain e where e: "latest_grant ?cs = Some e" and row: "ce_allowed_modes e = ce_allowed_modes ?g \<and>
      ce_allowed_actions e = ce_allowed_actions ?g \<and> ce_denied_actions e = ce_denied_actions ?g \<and> ce_revoked_at e = None"
    by (rule latest_grant_cong [OF ne good])
  have ent: "getAppEntitlementRow True (mb_auth db') (Some (js_trim t)) (Some ws) = Some (toAppEntitlement e)"
    using e assms(4,5) by (simp add: getAppEntitlementRow_def)
  have "map_option up_operating_mode (pref_lookup (db_prefs (mb_auth db')) (js_trim t) ws) = Some ''operator''"
    unfolding apply_change_members(3) [OF ap] using mirror_pref_operator assms(3,13) by (simp add: role_change_def)
  then have mode: "getOperatingModeRow True (mb_auth db') (js_trim t) ws = Operator"
    unfolding getOperatingModeRow_def using assms(4,5) by (auto simp: isOperatingMode_def)
  have flags: "flag_on ctx" "\<not> truthy (principal_kind ctx)" "au_user_id (ctx_auth ctx) = Some (js_trim t)"
    "au_workspace_id (ctx_auth ctx) = Some ws" using assms(6) by (auto simp: acts_as_def)
  have nc: "role \<noteq> ''client''" using assms(3) by (auto simp: operator_grade_def)
  have "sd_allowed (enforced_decision ctx a)"
    unfolding enforced_human [OF flags(1,2)] canActOnSpine_allowed
    using mode ent assms(3-5,7-10) row flags(3,4) nc
    by (simp add: resolvePrincipal_def findAppEntitlement_hydrated session_expired_def toAppEntitlement_def
        grant_row_def roleMirrorEntitlement_def asStringArray_def)
  then show ?thesis by (simp add: enforced_decision_def)
qed


section \<open>A worked roster\<close>

definition demo_member :: "string \<Rightarrow> string \<Rightarrow> member_row" where
  "demo_member u role = \<lparr>wm_user_id = u, wm_workspace_id = ''acme'', wm_role = role, wm_status = ''active'',
     wm_invited_by = None, wm_joined_at = 1, wm_removed_at = None, wm_activated_at = Some 1, wm_activated_by = None\<rparr>"

definition demo_roster :: member_db where
  "demo_roster = \<lparr>mb_auth = empty_authority_db\<lparr>db_members := [demo_member ''ann'' ''owner'', demo_member ''bob'' ''operator'']\<rparr>,
     mb_workspaces = [], mb_users = [], mb_events = [], mb_outbox = [], mb_strict = []\<rparr>"

definition demo_env :: command_env where
  "demo_env = \<lparr>cm_nano1 = ''n1'', cm_nano2 = ''n2'', cm_now = 10, cm_iso = (\<lambda>_. ''iso'')\<rparr>"

definition demo_input :: "string \<Rightarrow> idempotency_input" where
  "demo_input route = \<lparr>ii_key = ''k'', ii_request_sha256 = replicate 64 (CHR ''a''), ii_route = route, ii_request_id = None\<rparr>"

definition demo_caller :: "string \<Rightarrow> authority_db \<Rightarrow> spine_ctx" where
  "demo_caller u db = (demo_ctx None)\<lparr>sc_auth := Some (empty_auth\<lparr>au_user_id := Some u, au_workspace_id := Some ''acme''\<rparr>), sc_db := db\<rparr>"

lemma demo_valid: "member_scope ''acme'' = Inr ()"
  "validateMemberMutationIdempotency (demo_input ROLE_ROUTE) ROLE_ROUTE = Inr ()"
  "validateMemberMutationIdempotency (demo_input REMOVE_ROUTE) REMOVE_ROUTE = Inr ()"
  "js_trim ''bob'' = ''bob''" "js_trim ''ann'' = ''ann''"
  by code_simp+

lemmas demo_run = demo_valid cleanMemberMutationValue_def member_statement_def live_targets_def is_live_member_def
  apply_change_def demo_roster_def demo_member_def demo_env_def memberMutationReceiptFromBody_def Let_def

lemma demo_role: "\<exists>db' rc. setWorkspaceMemberRoleRow demo_env ''acme'' ''bob'' role ''ann'' (demo_input ROLE_ROUTE) demo_roster = (db', Inr rc) \<and> \<not> mm_replayed rc"
  unfolding setWorkspaceMemberRoleRow_def by (simp add: demo_run role_change_def)

lemma demo_removal: "\<exists>db' rc. removeWorkspaceMemberRow demo_env ''acme'' ''bob'' ''ann'' (demo_input REMOVE_ROUTE) demo_roster = (db', Inr rc) \<and> \<not> mm_replayed rc"
  unfolding removeWorkspaceMemberRow_def by (simp add: demo_run removal_change_def)


lemma demo_caller_acts: "acts_as (demo_caller u db) u ''acme''"
  using demo_ctx_flag [of None] by (simp add: acts_as_def demo_caller_def empty_auth_def)

lemma demo_caller_sel [simp]: "sc_db (demo_caller u db) = db" "sc_ent_read_up (demo_caller u db)" "sc_mode_read_up (demo_caller u db)"
  "au_token_expires_at (ctx_auth (demo_caller u db)) = None"
  by (simp_all add: demo_caller_def demo_ctx_def empty_auth_def)

theorem workspace_keeps_an_owner_witness:
  "live_owners ''acme'' (members_of (member_exec ''acme'' (Remove demo_env ''ann'' ''bob'' (demo_input REMOVE_ROUTE)) demo_roster)) \<noteq> []"
  using workspace_keeps_an_owner [of demo_roster "''acme''"
      "member_exec ''acme'' (Remove demo_env ''ann'' ''bob'' (demo_input REMOVE_ROUTE)) demo_roster"
      "[(''acme'', Remove demo_env ''ann'' ''bob'' (demo_input REMOVE_ROUTE))]"]
  by (simp add: member_wf_def demo_roster_def demo_member_def live_owners_def)

theorem member_command_replay_witness:
  "\<exists>db' rc. member_run ''acme'' (Remove demo_env ''bob'' ''ann'' (demo_input REMOVE_ROUTE)) demo_roster = (db', Inr rc) \<and>
     member_run ''acme'' (Remove demo_env ''bob'' ''ann'' (demo_input REMOVE_ROUTE)) db' = (db', Inr (rc\<lparr>mm_replayed := True\<rparr>))"
proof -
  let ?c = "Remove demo_env ''bob'' ''ann'' (demo_input REMOVE_ROUTE)"
  from demo_removal obtain db' rc where r: "member_run ''acme'' ?c demo_roster = (db', Inr rc)" "\<not> mm_replayed rc" by auto
  from member_command_replay [OF r member_run_well_formed [OF r(1)] refl refl refl refl] r(1) show ?thesis by auto
qed

theorem removed_member_is_powerless_witness:
  "\<exists>db' rc. removeWorkspaceMemberRow demo_env ''acme'' ''bob'' ''ann'' (demo_input REMOVE_ROUTE) demo_roster = (db', Inr rc) \<and>
     \<not> sd_allowed (fst (authorizeSpineWrite (demo_caller ''bob'' (mb_auth db')) Packet_create))"
proof -
  from demo_removal obtain db' rc where r: "removeWorkspaceMemberRow demo_env ''acme'' ''bob'' ''ann'' (demo_input REMOVE_ROUTE) demo_roster = (db', Inr rc)"
    "\<not> mm_replayed rc" by blast
  from removed_member_is_powerless [OF r, of "demo_caller ''bob'' (mb_auth db')" Packet_create] r(1)
  show ?thesis by (auto simp: demo_valid demo_caller_acts)
qed

theorem demoted_member_is_powerless_witness:
  "\<exists>db' rc. setWorkspaceMemberRoleRow demo_env ''acme'' ''bob'' ''viewer'' ''ann'' (demo_input ROLE_ROUTE) demo_roster = (db', Inr rc) \<and>
     \<not> sd_allowed (fst (authorizeSpineWrite (demo_caller ''bob'' (mb_auth db')) Packet_create))"
proof -
  from demo_role obtain db' rc where r: "setWorkspaceMemberRoleRow demo_env ''acme'' ''bob'' ''viewer'' ''ann'' (demo_input ROLE_ROUTE) demo_roster = (db', Inr rc)"
    "\<not> mm_replayed rc" by blast
  from demoted_member_is_powerless [OF r, of "demo_caller ''bob'' (mb_auth db')" Packet_create] r(1)
  show ?thesis by (auto simp: demo_valid demo_caller_acts operator_grade_def)
qed

theorem promoted_member_can_write_witness:
  "\<exists>db' rc. setWorkspaceMemberRoleRow demo_env ''acme'' ''bob'' ''owner'' ''ann'' (demo_input ROLE_ROUTE) demo_roster = (db', Inr rc) \<and>
     sd_allowed (fst (authorizeSpineWrite (demo_caller ''bob'' (mb_auth db')) Signoff_decide))"
proof -
  from demo_role obtain db' rc where r: "setWorkspaceMemberRoleRow demo_env ''acme'' ''bob'' ''owner'' ''ann'' (demo_input ROLE_ROUTE) demo_roster = (db', Inr rc)"
    "\<not> mm_replayed rc" by blast
  from promoted_member_can_write [OF r, of "demo_caller ''bob'' (mb_auth db')" Signoff_decide] r(1)
  show ?thesis by (auto simp: demo_valid demo_caller_acts operator_grade_def demo_roster_def demo_member_def
        empty_authority_db_def pref_lookup_def)
qed

text \<open>
  The scope read admits a member whose membership is not active, which the entitlement reader does not
  count as a member.
\<close>

lemma scope_read_ignores_status:
  assumes "js_trim ws \<noteq> []" and "js_trim u = u" and "u \<noteq> []"
    and "m \<in> set (members_of db)" and "wm_workspace_id m = ws" and "wm_user_id m = u" and "wm_removed_at m = None"
    and "member_wf db" and "wm_status m \<noteq> ''active''"
  shows "userCanScopeWorkspaceRow True u ws db = Inr True \<and> \<not> live_member (members_of db) u ws"
proof (rule conjI)
  have "list_ex (\<lambda>m. wm_workspace_id m = ws \<and> wm_user_id m = js_trim u \<and> on_roster True m) (members_of db)"
    unfolding list_ex_iff using assms(2,4-7) by (intro bexI [of _ m]) (simp_all add: on_roster_def)
  moreover have sc: "assertWorkspaceScope (Some ws) = None" using assms(1) by simp
  ultimately show "userCanScopeWorkspaceRow True u ws db = Inr True"
    unfolding userCanScopeWorkspaceRow_def sc option.case using assms(2,3) by (simp add: Let_def)
  show "\<not> live_member (members_of db) u ws"
  proof
    assume "live_member (members_of db) u ws"
    then obtain x where x: "x \<in> set (members_of db)" "wm_user_id x = u" "wm_workspace_id x = ws" "wm_status x = ''active''"
      by (auto simp: live_member_def)
    have "x = m" using assms(8) unfolding member_wf_def distinct_map
      by (rule conjunct2 [THEN inj_onD]) (use x assms(4-6) in simp_all)
    with x(4) assms(9) show False by simp
  qed
qed

end
