(* ===== verification/Signals.thy ===== *)
theory Signals
  imports Prelude "HOL-Library.AList"
begin

text \<open>
  The fourteen signals of the inference engine (\<^verbatim>\<open>src/workers/inference/signals\<close>): pure functions
  from a candidate set of projects and its events to a raw observation and a normalised value.

  Conventions. A JavaScript \<^verbatim>\<open>Set\<close> is a list without repetitions in insertion order and a
  \<^verbatim>\<open>Map\<close> an association list in insertion order, which is the order JavaScript iterates them in (the
  order decides ties among equally frequent tokens). Numbers are reals: rounding of doubles is not
  modelled. The \<^verbatim>\<open>explanation\<close> string of an output, which no code reads, is left out. Keys of plain
  objects are assumed not to be names that \<^verbatim>\<open>Object.prototype\<close> defines.

  The locale \<open>signal_extractor\<close> is the contract of \<^verbatim>\<open>SignalExtractor\<close>; every signal is an
  interpretation of it, and \<open>signal_registry\<close> is what the detector relies on.
\<close>

section \<open>Inputs and outputs\<close>

record candidate_event =
  ev_id :: string
  ev_project_id :: string
  ev_source_tool :: string
  ev_actor :: string
  ev_occurred_at :: timestamp
  ev_summary :: string
  ev_tags :: "string list option"

record candidate_metadata =
  md_parent_map :: "(string \<times> string option) list option"
  md_memberships :: "(string \<times> string list) list option"
  md_goals_by_project :: "(string \<times> string list) list option"
  md_intent_goals_by_project :: "(string \<times> string list) list option"
  md_rollup_goals_by_project :: "(string \<times> string list) list option"

record candidate_input =
  ci_candidate_fingerprint :: string
  ci_project_ids :: "string list"
  ci_events :: "candidate_event list"
  ci_actors :: "string list"
  ci_window_start :: timestamp
  ci_window_end :: timestamp
  ci_metadata :: "candidate_metadata option"

record signal_eval =
  so_signal_name :: string
  so_raw_value :: real
  so_normalized_value :: real

definition clamp01 :: "real \<Rightarrow> real" where
  "clamp01 v = (if v < 0 then 0 else if v > 1 then 1 else v)"

section \<open>The JavaScript collections\<close>

definition set_add :: "'a \<Rightarrow> 'a list \<Rightarrow> 'a list" where
  "set_add x s = (if x \<in> set s then s else s @ [x])"

definition js_set :: "'a list \<Rightarrow> 'a list" where
  "js_set xs = foldl (\<lambda>s x. set_add x s) [] xs"

text \<open>Update the entry of a key, created empty when it is missing.\<close>

definition entry_update :: "'k \<Rightarrow> ('v list \<Rightarrow> 'v list) \<Rightarrow> ('k \<times> 'v list) list \<Rightarrow> ('k \<times> 'v list) list" where
  "entry_update k f m = AList.map_default k (f []) f m"

text \<open>Group the second components by the first, each group a set; \<open>None\<close> is a skipped event.\<close>

definition group_sets :: "('e \<Rightarrow> ('k \<times> 'v) option) \<Rightarrow> 'e list \<Rightarrow> ('k \<times> 'v list) list" where
  "group_sets key es =
     foldl (\<lambda>m e. case key e of None \<Rightarrow> m | Some (k, v) \<Rightarrow> entry_update k (set_add v) m) [] es"

fun js_join :: "string \<Rightarrow> string list \<Rightarrow> string" where
  "js_join sep [] = []"
| "js_join sep [x] = x"
| "js_join sep (x # y # xs) = x @ sep @ js_join sep (y # xs)"

text \<open>\<^verbatim>\<open>s.split(/\s+/)\<close>.\<close>

function split_ws :: "string \<Rightarrow> string list" where
  "split_ws s =
     (let w = takeWhile (\<lambda>c. \<not> is_ws c) s; r = dropWhile (\<lambda>c. \<not> is_ws c) s
      in if r = [] then [w] else w # split_ws (dropWhile is_ws r))"
  by pat_completeness auto

termination split_ws
proof (relation "measure length")
  fix s w r
  assume "w = takeWhile (\<lambda>c. \<not> is_ws c) s" and r: "r = dropWhile (\<lambda>c. \<not> is_ws c) s" and "r \<noteq> []"
  then have "is_ws (hd r)" using hd_dropWhile [of "\<lambda>c. \<not> is_ws c" s] by simp
  with \<open>r \<noteq> []\<close> have "length (dropWhile is_ws r) < length r"
    by (cases r) (auto intro: le_imp_less_Suc length_dropWhile_le)
  also have "length r \<le> length s" unfolding r by (rule length_dropWhile_le)
  finally show "(dropWhile is_ws r, s) \<in> measure length" by simp
qed simp

declare split_ws.simps [simp del]

text \<open>\<^verbatim>\<open>i < j\<close> over an array, as the two nested loops visit them.\<close>

fun index_pairs :: "'a list \<Rightarrow> ('a \<times> 'a) list" where
  "index_pairs [] = []"
| "index_pairs (x # xs) = map (Pair x) xs @ index_pairs xs"

definition mean_pairs :: "('a \<Rightarrow> 'a \<Rightarrow> real) \<Rightarrow> 'a list \<Rightarrow> real" where
  "mean_pairs f xs =
     (let ps = index_pairs xs
      in if ps = [] then 0 else sum_list (map (\<lambda>(a, b). f a b) ps) / real (length ps))"

section \<open>Shared arithmetic and tokenizers\<close>

definition jaccard :: "string list \<Rightarrow> string list \<Rightarrow> real" where
  "jaccard a b =
     (if a = [] \<and> b = [] then 0
      else let intersect = real (length (filter (\<lambda>v. v \<in> set b) a));
               union = real (length a) + real (length b) - intersect
           in if union = 0 then 0 else intersect / union)"

definition is_token_char :: "char \<Rightarrow> bool" where
  "is_token_char c =
     (let n = (of_char c :: nat) in (97 \<le> n \<and> n \<le> 122) \<or> (48 \<le> n \<and> n \<le> 57) \<or> n = 95 \<or> n = 45)"

text \<open>\<^verbatim>\<open>lower case, replace(/[^a-z0-9_\-\s]/g, ' '), split(/\s+/), filter\<close>.\<close>

definition tokens_without :: "string list \<Rightarrow> string \<Rightarrow> string list" where
  "tokens_without stop s =
     filter (\<lambda>t. length t \<ge> 3 \<and> t \<notin> set stop)
       (split_ws (map (\<lambda>c. if is_token_char c \<or> is_ws c then c else CHR '' '') (js_lower s)))"

definition token_counts :: "string list \<Rightarrow> (string \<times> nat) list" where
  "token_counts ts = foldl (\<lambda>m t. AList.map_default t 1 Suc m) [] ts"

definition topKTokens :: "string list \<Rightarrow> nat \<Rightarrow> string list" where
  "topKTokens ts k = js_set (map fst (take k (sort_key (\<lambda>e. - int (snd e)) (token_counts ts))))"

definition signal_out :: "string \<Rightarrow> real \<Rightarrow> real \<Rightarrow> signal_eval" where
  "signal_out n raw normalized = \<lparr>so_signal_name = n, so_raw_value = raw, so_normalized_value = normalized\<rparr>"

text \<open>The common tail of the five Jaccard signals.\<close>

definition mean_overlap :: "string \<Rightarrow> string list list \<Rightarrow> signal_eval" where
  "mean_overlap n sets =
     (if length sets < 2 then signal_out n 0 0
      else let mean = mean_pairs jaccard sets in signal_out n mean (clamp01 mean))"

section \<open>Behavioural signals\<close>

definition actorCoOccurrenceSignal :: "candidate_input \<Rightarrow> signal_eval" where
  "actorCoOccurrenceSignal inp =
     (let byActor = group_sets (\<lambda>e. if ev_actor e = [] \<or> ev_project_id e = [] then None
                                    else Some (ev_actor e, ev_project_id e)) (ci_events inp);
          raw = real (sum_list (map (\<lambda>(_, s). if length s \<ge> 2 then length s - 1 else 0) byActor))
      in signal_out ''actor_co_occurrence'' raw (clamp01 (raw / (raw + 5))))"

definition HOUR_MS :: int where "HOUR_MS = 60 * 60 * 1000"
definition WEEK_MS :: int where "WEEK_MS = 7 * 24 * 60 * 60 * 1000"

definition time_bucket :: "int \<Rightarrow> candidate_event \<Rightarrow> (int \<times> string) option" where
  "time_bucket width e =
     (case date_parse (ev_occurred_at e) of
        None \<Rightarrow> None
      | Some t \<Rightarrow> if ev_project_id e = [] then None else Some (t div width, ev_project_id e))"

definition temporalCoOccurrenceSignal :: "candidate_input \<Rightarrow> signal_eval" where
  "temporalCoOccurrenceSignal inp =
     (let byBucket = group_sets (time_bucket HOUR_MS) (ci_events inp);
          crossCutting = real (length (filter (\<lambda>(_, s). length s \<ge> 2) byBucket))
      in signal_out ''temporal_co_occurrence'' crossCutting (clamp01 (crossCutting / 216)))"

definition cross_references :: "string list \<Rightarrow> candidate_event \<Rightarrow> bool" where
  "cross_references projectSet e =
     (let tagHits = js_set (filter (\<lambda>t. t \<in> set projectSet) (the_default [] (ev_tags e))
                            @ filter (\<lambda>p. p \<noteq> ev_project_id e \<and> sublist p (ev_summary e)) projectSet)
      in length tagHits + (if ev_project_id e = [] then 0 else 1) \<ge> 2)"

definition artifactCrossReferenceSignal :: "candidate_input \<Rightarrow> signal_eval" where
  "artifactCrossReferenceSignal inp =
     (let crossRefCount = real (length (filter (cross_references (js_set (ci_project_ids inp))) (ci_events inp)))
      in signal_out ''artifact_cross_reference'' crossRefCount (clamp01 (crossRefCount / 30)))"

definition window_weeks :: "candidate_input \<Rightarrow> int" where
  "window_weeks inp =
     (case (date_parse (ci_window_start inp), date_parse (ci_window_end inp)) of
        (Some s, Some e) \<Rightarrow> if e > s then max 1 \<lceil>real_of_int (e - s) / real_of_int WEEK_MS\<rceil> else 0
      | _ \<Rightarrow> 0)"

definition sequencePatternSignal :: "candidate_input \<Rightarrow> signal_eval" where
  "sequencePatternSignal inp =
     (let byWeek = group_sets (time_bucket WEEK_MS) (ci_events inp);
          sequenceWeeks = real (length (filter (\<lambda>(_, s). length s \<ge> 3) byWeek));
          saturation = max 1 (real_of_int (window_weeks inp) * 0.5)
      in signal_out ''sequence_pattern'' sequenceWeeks (clamp01 (sequenceWeeks / saturation)))"

definition dwellConcentrationSignal :: "candidate_input \<Rightarrow> signal_eval" where
  "dwellConcentrationSignal inp =
     (let candidateEvents = real (length (filter (\<lambda>e. ev_project_id e \<in> set (ci_project_ids inp)) (ci_events inp)));
          total = real (length (ci_events inp));
          ratio = (if total = 0 then 0 else candidateEvents / total)
      in signal_out ''dwell_concentration'' ratio (clamp01 (ratio * 2)))"

section \<open>Semantic signals\<close>

definition KEYWORD_STOP_WORDS :: "string list" where
  "KEYWORD_STOP_WORDS =
     [''the'', ''and'', ''for'', ''with'', ''this'', ''that'', ''from'', ''have'', ''has'',
      ''was'', ''were'', ''are'', ''will'', ''would'', ''should'', ''could'', ''one'',
      ''two'', ''three'', ''all'', ''any'', ''some'', ''each'', ''they'', ''them'', ''their'',
      ''there'', ''these'', ''those'', ''into'', ''about'', ''after'', ''before'',
      ''between'', ''through'', ''such'', ''than'', ''only'', ''just'', ''also'',
      ''when'', ''where'', ''how'', ''why'', ''who'', ''what'', ''which'']"

definition keyword_groups :: "candidate_event list \<Rightarrow> (string \<times> string list) list" where
  "keyword_groups es =
     foldl (\<lambda>m e. if ev_project_id e = [] \<or> ev_summary e = [] then m
                  else entry_update (ev_project_id e)
                         (\<lambda>arr. arr @ tokens_without KEYWORD_STOP_WORDS (ev_summary e)) m) [] es"

definition keywordCoOccurrenceSignal :: "candidate_input \<Rightarrow> signal_eval" where
  "keywordCoOccurrenceSignal inp =
     (let tokensByProject = keyword_groups (ci_events inp);
          arrs = map (\<lambda>pid. the_default [] (map_of tokensByProject pid)) (ci_project_ids inp)
      in mean_overlap ''keyword_co_occurrence'' (map (\<lambda>arr. topKTokens arr 30) (filter (\<lambda>arr. arr \<noteq> []) arrs)))"

definition INTENT_KEYWORDS :: "string list" where
  "INTENT_KEYWORDS =
     [''goal'', ''plan'', ''planning'', ''ship'', ''verify'', ''verified'', ''verifying'',
      ''intent'', ''objective'', ''milestone'', ''roadmap'', ''target'', ''targets'',
      ''commit'', ''commits'', ''committed'', ''deliver'', ''delivered'',
      ''deadline'', ''release'', ''launch'', ''launched'', ''released'',
      ''closeout'', ''closing'', ''closed'', ''closure'', ''accepted'', ''approved'',
      ''sign-off'', ''signoff'', ''reviewed'', ''review'', ''audit'', ''audited'',
      ''priority'', ''priorities'', ''focus'', ''scope'', ''definition'', ''requirement'',
      ''spec'', ''specification'', ''criterion'', ''criteria'']"

definition intentKeywordDensitySignal :: "candidate_input \<Rightarrow> signal_eval" where
  "intentKeywordDensitySignal inp =
     (let words = concat (map (\<lambda>e. filter (\<lambda>w. length w > 0) (split_ws (js_lower (ev_summary e))))
                            (filter (\<lambda>e. ev_project_id e \<in> set (ci_project_ids inp)) (ci_events inp)));
          intentHits = real (length (filter (\<lambda>w. filter is_token_char w \<in> set INTENT_KEYWORDS) words));
          totalWords = real (length words);
          density = (if totalWords = 0 then 0 else intentHits / totalWords)
      in signal_out ''intent_keyword_density'' density (clamp01 (density / 0.05)))"

definition tag_groups :: "candidate_event list \<Rightarrow> (string \<times> string list) list" where
  "tag_groups es =
     foldl (\<lambda>m e. case ev_tags e of
                    None \<Rightarrow> m
                  | Some ts \<Rightarrow> if ev_project_id e = [] then m
                      else entry_update (ev_project_id e) (\<lambda>s. foldl (\<lambda>s t. set_add t s) s (non_empty ts)) m) [] es"

text \<open>The sets of the candidate projects, in candidate order, without the empty ones.\<close>

definition candidate_sets :: "(string \<times> string list) list \<Rightarrow> string list \<Rightarrow> string list list" where
  "candidate_sets m pids = filter (\<lambda>s. s \<noteq> []) (map (\<lambda>pid. the_default [] (map_of m pid)) pids)"

definition tagOverlapSignal :: "candidate_input \<Rightarrow> signal_eval" where
  "tagOverlapSignal inp =
     mean_overlap ''tag_overlap'' (candidate_sets (tag_groups (ci_events inp)) (ci_project_ids inp))"

definition embeddingSimilaritySignal :: "candidate_input \<Rightarrow> signal_eval" where
  "embeddingSimilaritySignal inp = signal_out ''embedding_similarity'' 0 0"

section \<open>Structural signals\<close>

definition parent_of :: "(string \<times> string option) list \<Rightarrow> string \<Rightarrow> string option" where
  "parent_of pm p = (case map_of pm p of Some (Some q) \<Rightarrow> Some q | _ \<Rightarrow> None)"

fun mark_ancestors :: "(string \<times> string option) list \<Rightarrow> nat \<Rightarrow> nat \<Rightarrow> string \<Rightarrow> (string \<times> nat) list \<Rightarrow> (string \<times> nat) list" where
  "mark_ancestors pm 0 i cur visited = visited"
| "mark_ancestors pm (Suc n) i cur visited =
     (if cur = [] then visited
      else case parent_of pm cur of
             None \<Rightarrow> visited
           | Some next \<Rightarrow> if next = [] then visited
               else mark_ancestors pm n (Suc i) next (AList.update next (Suc i) visited))"

fun climb :: "(string \<times> string option) list \<Rightarrow> nat \<Rightarrow> nat \<Rightarrow> string option \<Rightarrow> (string \<times> nat) list \<Rightarrow> nat" where
  "climb pm 0 i cur visited = 16"
| "climb pm (Suc n) i cur visited =
     (case cur of
        None \<Rightarrow> 16
      | Some c \<Rightarrow> if c = [] then 16
          else case map_of visited c of
                 Some d \<Rightarrow> i + d
               | None \<Rightarrow> climb pm n (Suc i) (parent_of pm c) visited)"

definition distance :: "string \<Rightarrow> string \<Rightarrow> (string \<times> string option) list \<Rightarrow> nat" where
  "distance a b pm = (if a = b then 0 else climb pm 16 0 (Some b) (mark_ancestors pm 16 0 a [(a, 0)]))"

definition parentDistanceSignal :: "candidate_input \<Rightarrow> signal_eval" where
  "parentDistanceSignal inp =
     (case Option.bind (ci_metadata inp) md_parent_map of
        None \<Rightarrow> signal_out ''parent_distance'' 0 0
      | Some pm \<Rightarrow>
          if length (ci_project_ids inp) < 2 then signal_out ''parent_distance'' 0 0
          else let mean = mean_pairs (\<lambda>a b. 1 / (real (distance a b pm) + 1)) (ci_project_ids inp)
               in signal_out ''parent_distance'' mean (clamp01 mean))"

definition membershipOverlapSignal :: "candidate_input \<Rightarrow> signal_eval" where
  "membershipOverlapSignal inp =
     (case Option.bind (ci_metadata inp) md_memberships of
        None \<Rightarrow> signal_out ''membership_overlap'' 0 0
      | Some ms \<Rightarrow> mean_overlap ''membership_overlap'' (map js_set (candidate_sets ms (ci_project_ids inp))))"

definition actorJaccardSignal :: "candidate_input \<Rightarrow> signal_eval" where
  "actorJaccardSignal inp =
     (let actorsByProject = group_sets (\<lambda>e. if ev_project_id e = [] \<or> ev_actor e = [] then None
                                            else Some (ev_project_id e, ev_actor e)) (ci_events inp)
      in mean_overlap ''actor_jaccard'' (candidate_sets actorsByProject (ci_project_ids inp)))"

section \<open>Goal signals\<close>

definition GOAL_STOP_WORDS :: "string list" where
  "GOAL_STOP_WORDS =
     [''the'', ''and'', ''for'', ''with'', ''this'', ''that'', ''from'', ''have'', ''has'',
      ''goal'', ''goals'', ''target'', ''targets'', ''will'', ''would'', ''should'',
      ''metric'', ''metrics'', ''objective'', ''objectives'']"

definition statedGoalKeywordOverlapSignal :: "candidate_input \<Rightarrow> signal_eval" where
  "statedGoalKeywordOverlapSignal inp =
     (case Option.bind (ci_metadata inp) md_goals_by_project of
        None \<Rightarrow> signal_out ''stated_goal_keyword_overlap'' 0 0
      | Some goals \<Rightarrow> mean_overlap ''stated_goal_keyword_overlap''
          (map (\<lambda>texts. js_set (tokens_without GOAL_STOP_WORDS (js_join '' '' texts)))
            (candidate_sets goals (ci_project_ids inp))))"

definition ROLLUP_STOP_WORDS :: "string list" where
  "ROLLUP_STOP_WORDS =
     [''the'', ''and'', ''for'', ''with'', ''this'', ''that'', ''from'', ''have'', ''has'',
      ''goal'', ''goals'', ''target'', ''targets'', ''will'', ''would'', ''should'']"

definition topKSet :: "string \<Rightarrow> nat \<Rightarrow> string list" where
  "topKSet s k = topKTokens (tokens_without ROLLUP_STOP_WORDS s) k"

definition drifts :: "(string \<times> string list) list \<Rightarrow> (string \<times> string list) list \<Rightarrow> string list \<Rightarrow> real list" where
  "drifts intent rollup pids =
     map (\<lambda>(a, b). 1 - jaccard (topKSet a 20) (topKSet b 20))
       (filter (\<lambda>(a, b). \<not> (a = [] \<and> b = []))
         (map (\<lambda>pid. (js_join '' '' (the_default [] (map_of intent pid)), js_join '' '' (the_default [] (map_of rollup pid))))
           pids))"

definition rollupAlignmentSignal :: "candidate_input \<Rightarrow> signal_eval" where
  "rollupAlignmentSignal inp =
     (case (Option.bind (ci_metadata inp) md_intent_goals_by_project, Option.bind (ci_metadata inp) md_rollup_goals_by_project) of
        (Some intent, Some rollup) \<Rightarrow>
          (let ds = drifts intent rollup (ci_project_ids inp)
           in if ds = [] then signal_out ''rollup_alignment'' 0 0
              else let mean = sum_list ds / real (length ds) in signal_out ''rollup_alignment'' mean (clamp01 mean))
      | _ \<Rightarrow> signal_out ''rollup_alignment'' 0 0)"

section \<open>The registry\<close>

datatype signal_family = Behavioral | Semantic | Structural | Goal

definition SIGNAL_REGISTRY :: "(string \<times> signal_family \<times> (candidate_input \<Rightarrow> signal_eval)) list" where
  "SIGNAL_REGISTRY =
     [(''actor_co_occurrence'', Behavioral, actorCoOccurrenceSignal),
      (''temporal_co_occurrence'', Behavioral, temporalCoOccurrenceSignal),
      (''artifact_cross_reference'', Behavioral, artifactCrossReferenceSignal),
      (''sequence_pattern'', Behavioral, sequencePatternSignal),
      (''dwell_concentration'', Behavioral, dwellConcentrationSignal),
      (''keyword_co_occurrence'', Semantic, keywordCoOccurrenceSignal),
      (''intent_keyword_density'', Semantic, intentKeywordDensitySignal),
      (''tag_overlap'', Semantic, tagOverlapSignal),
      (''embedding_similarity'', Semantic, embeddingSimilaritySignal),
      (''parent_distance'', Structural, parentDistanceSignal),
      (''membership_overlap'', Structural, membershipOverlapSignal),
      (''actor_jaccard'', Structural, actorJaccardSignal),
      (''stated_goal_keyword_overlap'', Goal, statedGoalKeywordOverlapSignal),
      (''rollup_alignment'', Goal, rollupAlignmentSignal)]"

definition signal_by_name :: "string \<Rightarrow> (signal_family \<times> (candidate_input \<Rightarrow> signal_eval)) option" where
  "signal_by_name n = map_of (rev SIGNAL_REGISTRY) n"

definition signals_of_family :: "signal_family \<Rightarrow> string list" where
  "signals_of_family f = map fst (filter (\<lambda>(_, g, _). g = f) SIGNAL_REGISTRY)"

definition evaluate_signals :: "candidate_input \<Rightarrow> signal_eval list" where
  "evaluate_signals inp = map (\<lambda>(_, _, extract). extract inp) SIGNAL_REGISTRY"

section \<open>Laws of the collections\<close>

text \<open>The entry of a key, empty when it is missing.\<close>

lemma map_of_map_default:
  "map_of (AList.map_default k v f m) k' =
     (if k' = k then Some (case map_of m k of None \<Rightarrow> v | Some x \<Rightarrow> f x) else map_of m k')"
  by (induction m) auto

definition entry :: "('k \<times> 'v list) list \<Rightarrow> 'k \<Rightarrow> 'v list" where
  "entry m k = the_default [] (map_of m k)"

lemma entry_entry_update: "entry (entry_update k f m) k' = (if k' = k then f (entry m k) else entry m k')"
  by (auto simp: entry_def entry_update_def map_of_map_default split: option.splits)

section \<open>The contract of a signal\<close>

locale signal_extractor =
  fixes name :: string
    and run :: "'c \<Rightarrow> signal_eval"
  assumes named: "so_signal_name (run c) = name"
    and nonneg: "0 \<le> so_normalized_value (run c)"
    and le_one: "so_normalized_value (run c) \<le> 1"
begin

lemma contribution_bounds:
  assumes "0 \<le> w"
  shows "0 \<le> w * so_normalized_value (run c)" and "w * so_normalized_value (run c) \<le> w"
  using assms nonneg [of c] le_one [of c] by (auto intro: mult_left_le)

end

text \<open>A signal whose raw observation is already a proportion: clamping never changes it.\<close>

locale proportion_signal =
  fixes name :: string
    and run :: "'c \<Rightarrow> signal_eval"
  assumes labelled: "so_signal_name (run c) = name"
    and raw_nonneg: "0 \<le> so_raw_value (run c)"
    and raw_le_one: "so_raw_value (run c) \<le> 1"
    and unclamped: "so_normalized_value (run c) = so_raw_value (run c)"

sublocale proportion_signal < signal_extractor
  by unfold_locales (simp_all add: labelled raw_nonneg raw_le_one unclamped)

locale signal_registry =
  fixes reg :: "(string \<times> 'f \<times> ('c \<Rightarrow> signal_eval)) list"
  assumes conforming: "list_all (\<lambda>(n, f, e). signal_extractor n e) reg"
    and distinct_names: "distinct (map fst reg)"
begin

lemma names: "map so_signal_name (map (\<lambda>(_, _, e). e c) reg) = map fst reg"
  using conforming by (induction reg) (auto simp: signal_extractor.named)

lemma in_unit:
  "list_all (\<lambda>s. 0 \<le> so_normalized_value s \<and> so_normalized_value s \<le> 1) (map (\<lambda>(_, _, e). e c) reg)"
  using conforming by (induction reg) (auto simp: signal_extractor.nonneg signal_extractor.le_one)

end

section \<open>Every registered signal conforms\<close>

lemma signal_out_sel [simp]:
  "so_signal_name (signal_out n r v) = n" "so_raw_value (signal_out n r v) = r" "so_normalized_value (signal_out n r v) = v"
  by (simp_all add: signal_out_def)

lemma clamp01_bounds [simp]: "0 \<le> clamp01 v" "clamp01 v \<le> 1"
  by (simp_all add: clamp01_def)

lemma clamp01_id [simp]: "0 \<le> v \<Longrightarrow> v \<le> 1 \<Longrightarrow> clamp01 v = v"
  by (simp add: clamp01_def)

lemma distinct_set_add [simp]: "distinct s \<Longrightarrow> distinct (set_add x s)"
  by (simp add: set_add_def)

lemma distinct_foldl_set_add: "distinct s \<Longrightarrow> distinct (foldl (\<lambda>s x. set_add x s) s xs)"
  by (induction xs arbitrary: s) auto

lemma distinct_js_set [simp]: "distinct (js_set xs)"
  by (simp add: js_set_def distinct_foldl_set_add)

lemma set_foldl_set_add: "set (foldl (\<lambda>s x. set_add x s) s xs) = set s \<union> set xs"
  by (induction xs arbitrary: s) (auto simp: set_add_def)

lemma set_js_set [simp]: "set (js_set xs) = set xs"
  by (simp add: js_set_def set_foldl_set_add)

definition sets_ok :: "('k \<times> 'v list) list \<Rightarrow> bool" where
  "sets_ok m = list_all (\<lambda>e. distinct (snd e)) m"

lemma sets_ok_entry_update:
  assumes "sets_ok m" and "\<And>s. distinct s \<Longrightarrow> distinct (f s)"
  shows "sets_ok (entry_update k f m)"
  using assms by (induction m) (auto simp: sets_ok_def entry_update_def)

lemma sets_ok_group_sets [simp]: "sets_ok (group_sets key es)"
  unfolding group_sets_def
  by (rule foldl_inv) (auto simp: sets_ok_entry_update sets_ok_def [of "[]"] split: option.splits prod.splits)

lemma sets_ok_tag_groups [simp]: "sets_ok (tag_groups es)"
  unfolding tag_groups_def
  by (rule foldl_inv)
    (auto simp: sets_ok_entry_update distinct_foldl_set_add sets_ok_def [of "[]"] split: option.splits)

lemma candidate_sets_distinct: "sets_ok m \<Longrightarrow> list_all distinct (candidate_sets m pids)"
  by (fastforce simp: candidate_sets_def list_all_iff sets_ok_def coalesce_def dest: map_of_SomeD split: option.splits)

lemma jaccard_bounds:
  assumes "distinct a"
  shows "0 \<le> jaccard a b" and "jaccard a b \<le> 1"
proof -
  let ?i = "length (filter (\<lambda>v. v \<in> set b) a)"
  have "?i = card (set a \<inter> set b)"
    using assms distinct_card [of "filter (\<lambda>v. v \<in> set b) a"] by (simp add: Int_def)
  also have "\<dots> \<le> card (set b)" by (rule card_mono) auto
  also have "\<dots> \<le> length b" by (rule card_length)
  finally have "real ?i \<le> real (length b)" by simp
  moreover have "real ?i \<le> real (length a)" by simp
  ultimately have "real ?i \<ge> 0" and "real ?i \<le> real (length a) + real (length b) - real ?i" by linarith+
  then have "0 \<le> real ?i / (real (length a) + real (length b) - real ?i)"
    and "real ?i / (real (length a) + real (length b) - real ?i) \<le> 1"
    by (auto simp: divide_le_eq_1)
  then show "0 \<le> jaccard a b" "jaccard a b \<le> 1"
    unfolding jaccard_def Let_def by (simp_all split: if_split)
qed

lemma index_pairs_in: "(a, b) \<in> set (index_pairs xs) \<Longrightarrow> a \<in> set xs \<and> b \<in> set xs"
  by (induction xs) auto

lemma mean_bounds:
  fixes ds :: "real list"
  assumes "\<And>d. d \<in> set ds \<Longrightarrow> 0 \<le> d \<and> d \<le> 1"
  shows "0 \<le> sum_list ds / real (length ds)" and "sum_list ds / real (length ds) \<le> 1"
proof -
  have "0 \<le> sum_list ds" using assms by (intro sum_list_nonneg) auto
  moreover have "sum_list ds \<le> real (length ds)" using assms by (induction ds) force+
  ultimately show "0 \<le> sum_list ds / real (length ds)" "sum_list ds / real (length ds) \<le> 1"
    by (auto simp: divide_le_eq_1)
qed

lemma mean_pairs_bounds:
  assumes "\<And>a b. a \<in> set xs \<Longrightarrow> b \<in> set xs \<Longrightarrow> 0 \<le> f a b \<and> f a b \<le> 1"
  shows "0 \<le> mean_pairs f xs" and "mean_pairs f xs \<le> 1"
proof -
  let ?ds = "map (\<lambda>(a, b). f a b) (index_pairs xs)"
  have "0 \<le> d \<and> d \<le> 1" if "d \<in> set ?ds" for d
    using that assms index_pairs_in by fastforce
  then show "0 \<le> mean_pairs f xs" "mean_pairs f xs \<le> 1"
    using mean_bounds [of ?ds] by (auto simp: mean_pairs_def Let_def)
qed

lemma mean_overlap_proportion:
  assumes "list_all distinct sets"
  shows "so_signal_name (mean_overlap n sets) = n" and "0 \<le> so_raw_value (mean_overlap n sets)"
    and "so_raw_value (mean_overlap n sets) \<le> 1"
    and "so_normalized_value (mean_overlap n sets) = so_raw_value (mean_overlap n sets)"
  using mean_pairs_bounds [of sets jaccard] jaccard_bounds assms
  by (auto simp: mean_overlap_def Let_def list_all_iff)

lemma all_distinct_js_set: "list_all distinct (map (\<lambda>x. js_set (f x)) xs)"
  by (induction xs) auto

lemmas overlap_sets = candidate_sets_distinct all_distinct_js_set all_distinct_js_set [where f = "\<lambda>x. x"]

interpretation actor_co: signal_extractor "''actor_co_occurrence''" actorCoOccurrenceSignal
  by unfold_locales (simp_all add: actorCoOccurrenceSignal_def Let_def)

interpretation temporal_co: signal_extractor "''temporal_co_occurrence''" temporalCoOccurrenceSignal
  by unfold_locales (simp_all add: temporalCoOccurrenceSignal_def Let_def)

interpretation artifact: signal_extractor "''artifact_cross_reference''" artifactCrossReferenceSignal
  by unfold_locales (simp_all add: artifactCrossReferenceSignal_def Let_def)

interpretation sequence_p: signal_extractor "''sequence_pattern''" sequencePatternSignal
  by unfold_locales (simp_all add: sequencePatternSignal_def Let_def)

interpretation dwell: signal_extractor "''dwell_concentration''" dwellConcentrationSignal
  by unfold_locales (simp_all add: dwellConcentrationSignal_def Let_def)

interpretation intent_density: signal_extractor "''intent_keyword_density''" intentKeywordDensitySignal
  by unfold_locales (simp_all add: intentKeywordDensitySignal_def Let_def)

interpretation keyword_co: proportion_signal "''keyword_co_occurrence''" keywordCoOccurrenceSignal
  by unfold_locales
    (simp_all only: keywordCoOccurrenceSignal_def Let_def topKTokens_def mean_overlap_proportion overlap_sets)

interpretation tags: proportion_signal "''tag_overlap''" tagOverlapSignal
  by unfold_locales (simp_all only: tagOverlapSignal_def mean_overlap_proportion overlap_sets sets_ok_tag_groups)

interpretation embedding: proportion_signal "''embedding_similarity''" embeddingSimilaritySignal
  by unfold_locales (simp_all add: embeddingSimilaritySignal_def)

interpretation parents: proportion_signal "''parent_distance''" parentDistanceSignal
proof unfold_locales
  fix c :: candidate_input
  have b: "0 \<le> mean_pairs (\<lambda>a b. 1 / (real (distance a b pm) + 1)) (ci_project_ids c)"
    "mean_pairs (\<lambda>a b. 1 / (real (distance a b pm) + 1)) (ci_project_ids c) \<le> 1" for pm
    by (rule mean_pairs_bounds, simp)+
  show "so_signal_name (parentDistanceSignal c) = ''parent_distance''" "0 \<le> so_raw_value (parentDistanceSignal c)"
    "so_raw_value (parentDistanceSignal c) \<le> 1"
    "so_normalized_value (parentDistanceSignal c) = so_raw_value (parentDistanceSignal c)"
    by (simp_all add: parentDistanceSignal_def Let_def b split: option.splits)
qed

interpretation memberships: proportion_signal "''membership_overlap''" membershipOverlapSignal
  by unfold_locales
    (simp_all add: membershipOverlapSignal_def mean_overlap_proportion overlap_sets split: option.splits)

interpretation actor_jac: proportion_signal "''actor_jaccard''" actorJaccardSignal
  by unfold_locales (simp_all only: actorJaccardSignal_def Let_def mean_overlap_proportion overlap_sets sets_ok_group_sets)

interpretation stated_goals: proportion_signal "''stated_goal_keyword_overlap''" statedGoalKeywordOverlapSignal
  by unfold_locales
    (simp_all add: statedGoalKeywordOverlapSignal_def mean_overlap_proportion overlap_sets split: option.splits)

lemma drifts_in: "d \<in> set (drifts i r pids) \<Longrightarrow> 0 \<le> d \<and> d \<le> 1"
  by (auto simp: drifts_def topKSet_def topKTokens_def jaccard_bounds)

interpretation rollup: proportion_signal "''rollup_alignment''" rollupAlignmentSignal
proof unfold_locales
  fix c :: candidate_input
  have b: "0 \<le> sum_list (drifts i r (ci_project_ids c)) / real (length (drifts i r (ci_project_ids c)))"
    "sum_list (drifts i r (ci_project_ids c)) / real (length (drifts i r (ci_project_ids c))) \<le> 1" for i r
    by (rule mean_bounds, rule drifts_in, assumption)+
  show "so_signal_name (rollupAlignmentSignal c) = ''rollup_alignment''" "0 \<le> so_raw_value (rollupAlignmentSignal c)"
    "so_raw_value (rollupAlignmentSignal c) \<le> 1"
    "so_normalized_value (rollupAlignmentSignal c) = so_raw_value (rollupAlignmentSignal c)"
    by (simp_all add: rollupAlignmentSignal_def Let_def b split: option.splits)
qed

lemmas registered_signals =
  actor_co.signal_extractor_axioms temporal_co.signal_extractor_axioms artifact.signal_extractor_axioms
  sequence_p.signal_extractor_axioms dwell.signal_extractor_axioms intent_density.signal_extractor_axioms
  keyword_co.signal_extractor_axioms tags.signal_extractor_axioms embedding.signal_extractor_axioms
  parents.signal_extractor_axioms memberships.signal_extractor_axioms actor_jac.signal_extractor_axioms
  stated_goals.signal_extractor_axioms rollup.signal_extractor_axioms

interpretation registry: signal_registry SIGNAL_REGISTRY
  by unfold_locales (simp_all add: SIGNAL_REGISTRY_def registered_signals)

section \<open>Properties\<close>

definition PROPORTION_SIGNALS :: "string list" where
  "PROPORTION_SIGNALS =
     [''keyword_co_occurrence'', ''tag_overlap'', ''embedding_similarity'', ''parent_distance'', ''membership_overlap'',
      ''actor_jaccard'', ''stated_goal_keyword_overlap'', ''rollup_alignment'']"

lemma proportion_unclamped:
  "list_all (\<lambda>s. so_signal_name s \<notin> set PROPORTION_SIGNALS \<or> so_normalized_value s = so_raw_value s) (evaluate_signals inp)"
  by (simp add: evaluate_signals_def SIGNAL_REGISTRY_def PROPORTION_SIGNALS_def
      keyword_co.unclamped tags.unclamped embedding.unclamped parents.unclamped memberships.unclamped
      actor_jac.unclamped stated_goals.unclamped rollup.unclamped
      actor_co.named temporal_co.named artifact.named sequence_p.named dwell.named intent_density.named)

text \<open>
  The signal contract: whatever the candidate, its events and its metadata, the registry evaluates
  to one output per registered signal, in registry order and under the registered, pairwise different
  names; every normalised value lies in the unit interval; and the eight overlap, distance and drift
  signals are proportions by construction, so that clamping never hides an out-of-range value there.
\<close>

theorem signals_normalised:
  "map so_signal_name (evaluate_signals inp) = map fst SIGNAL_REGISTRY \<and> distinct (map fst SIGNAL_REGISTRY) \<and>
   list_all (\<lambda>s. 0 \<le> so_normalized_value s \<and> so_normalized_value s \<le> 1) (evaluate_signals inp) \<and>
   (\<forall>s \<in> set (evaluate_signals inp). so_signal_name s \<in> set PROPORTION_SIGNALS \<longrightarrow>
      so_normalized_value s = so_raw_value s)"
  using registry.names [of inp] registry.in_unit [of inp] registry.distinct_names proportion_unclamped [of inp]
  unfolding evaluate_signals_def list_all_iff by blast

definition demo_candidate :: candidate_input where
  "demo_candidate =
     \<lparr>ci_candidate_fingerprint = ''cf'', ci_project_ids = [''p'', ''q''],
      ci_events = [\<lparr>ev_id = ''e1'', ev_project_id = ''p'', ev_source_tool = ''t'', ev_actor = ''ann'',
                    ev_occurred_at = At 0, ev_summary = ''ship the plan'', ev_tags = Some [''ux'']\<rparr>,
                   \<lparr>ev_id = ''e2'', ev_project_id = ''q'', ev_source_tool = ''t'', ev_actor = ''ann'',
                    ev_occurred_at = At 1000, ev_summary = ''plan ready'', ev_tags = Some [''ux'', ''ops'']\<rparr>],
      ci_actors = [''ann''], ci_window_start = At 0, ci_window_end = At 2592000000, ci_metadata = None\<rparr>"

theorem signals_normalised_witness:
  "tagOverlapSignal demo_candidate \<in> set (evaluate_signals demo_candidate) \<and>
   so_normalized_value (tagOverlapSignal demo_candidate) = so_raw_value (tagOverlapSignal demo_candidate)"
proof -
  have m: "tagOverlapSignal demo_candidate \<in> set (evaluate_signals demo_candidate)"
    by (simp add: evaluate_signals_def SIGNAL_REGISTRY_def)
  have n: "so_signal_name (tagOverlapSignal demo_candidate) \<in> set PROPORTION_SIGNALS"
    by (simp add: tags.named PROPORTION_SIGNALS_def)
  from signals_normalised [of demo_candidate] m n show ?thesis by blast
qed

lemma demo_tag_overlap: "so_raw_value (tagOverlapSignal demo_candidate) = 1 / 2"
  by (simp add: tagOverlapSignal_def demo_candidate_def tag_groups_def entry_update_def set_add_def non_empty_def
      candidate_sets_def mean_overlap_def mean_pairs_def jaccard_def Let_def)

text \<open>
  An event that only carries its own project as a tag counts as a reference to two projects: its own
  project is counted once as a tag and once as the event's project.
\<close>

lemma own_tag_is_cross_reference:
  assumes "ev_project_id e \<in> set ps" and "ev_project_id e \<noteq> []" and "ev_tags e = Some [ev_project_id e]"
  shows "cross_references ps e"
proof -
  let ?l = "js_set (filter (\<lambda>t. t \<in> set ps) [ev_project_id e] @ filter (\<lambda>p. p \<noteq> ev_project_id e \<and> sublist p (ev_summary e)) ps)"
  have "ev_project_id e \<in> set ?l" using assms(1) by simp
  then have "1 \<le> length ?l" by (metis One_nat_def Suc_leI length_pos_if_in_set)
  then show ?thesis using assms(2,3) by (simp add: cross_references_def)
qed

text \<open>
  On a cyclic parent map the walk overwrites the depths it recorded, so two projects that are each
  other's parent are at distance fifteen.
\<close>

lemma cyclic_parents_distance: "distance ''a'' ''b'' [(''a'', Some ''b''), (''b'', Some ''a'')] = 15"
  by code_simp

end
