(* ===== verification/Skill_Resolver.thy ===== *)
theory Skill_Resolver
  imports Spine_Authority Signals
begin

text \<open>
  Role and skill resolution: the pure kernel (\<^verbatim>\<open>lib/role-skill-resolver.ts\<close>) and the loader that turns the
  published catalog (\<^verbatim>\<open>docs/contracts/role-skill-catalog.json\<close>) into bindings
  (\<^verbatim>\<open>lib/role-skill-catalog-loader.ts\<close>). \<open>to_iso\<close> is the ISO rendering of a time in milliseconds.
\<close>

section \<open>Bindings and resolutions\<close>

datatype skill_lifecycle = Skill_active | Skill_deprecated | Skill_blocked

datatype binding_source = V0_floor | Catalog | Internal_service

record role_skill_binding =
  rb_role :: string
  rb_skill_key :: string
  rb_skill_version :: string
  rb_lifecycle :: skill_lifecycle
  rb_actions :: "string list"
  rb_allowed_tools :: "string list"
  rb_denied_tools :: "string list"
  rb_requires_approval :: "bool option"
  rb_source :: binding_source

record role_skill_input =
  ri_tenant :: string
  ri_principal :: string
  ri_role :: string
  ri_mode :: string
  ri_action :: string
  ri_serviceP :: "bool option"
  ri_intent :: "string option"
  ri_entitlementActive :: "bool option"
  ri_requiresOperatorMode :: "bool option"
  ri_tenantMismatch :: "bool option"

datatype verdict_reason =
  V_resolved | V_tenant_mismatch | V_mode_requires_operator | V_entitlement_missing | V_skill_stale | V_skill_not_installed

datatype skill_coverage = Cov_resolved | No_skill_for_action | No_catalog

record role_skill_verdict =
  rv_allowed :: bool
  rv_reason :: verdict_reason

record skill_ref =
  sk_key :: string
  sk_version :: string

record role_skill_resolution =
  rs_selected_role :: string
  rs_selected_role_version :: string
  rs_selected_skills :: "skill_ref list"
  rs_allowed_tools :: "string list"
  rs_denied_tools :: "string list"
  rs_required_approvals :: "string list"
  rs_skill_coverage :: skill_coverage
  rs_verdict :: role_skill_verdict
  rs_safe_explanation :: string
  rs_expires_at :: string

definition ROLE_SKILL_V0_FLOOR :: "role_skill_binding list" where
  "ROLE_SKILL_V0_FLOOR = []"

definition RESOLUTION_TTL_MS :: int where
  "RESOLUTION_TTL_MS = 15 * 60 * 1000"

definition isGovernedMode :: "string \<Rightarrow> bool" where
  "isGovernedMode m \<longleftrightarrow> m = ''operator''"

definition FAMILIES :: "(string \<times> string) list" where
  "FAMILIES =
     [(''packet'', ''work item''), (''evidence'', ''evidence''), (''approval'', ''approval''), (''signoff'', ''sign-off''),
      (''tool_event'', ''activity''), (''metric_delta'', ''progress update''), (''customer_data'', ''data operation''),
      (''member'', ''member management''), (''authority'', ''access management''), (''token'', ''access token''),
      (''policy'', ''policy''), (''event'', ''activity''), (''runtime'', ''model settings''), (''assistant'', ''grounded assistance'')]"

text \<open>The table is read by the action's head, which is never the name of an inherited object property.\<close>

definition actionFamily :: "string \<Rightarrow> string" where
  "actionFamily action =
     (let head = (case js_split (CHR '':'') action of h # _ \<Rightarrow> (if h = [] then ''operation'' else h) | [] \<Rightarrow> ''operation'')
      in or_else (map_of FAMILIES head) ''operation'')"

definition buildSafeExplanation :: "string \<Rightarrow> string \<Rightarrow> role_skill_verdict \<Rightarrow> skill_coverage \<Rightarrow> string" where
  "buildSafeExplanation role action verdict coverage =
     (let family = actionFamily action in
      if rv_allowed verdict then ''Your '' @ role @ '' role is authorized for this '' @ family @ '' action.''
      else case rv_reason verdict of
             V_mode_requires_operator \<Rightarrow>
               ''This '' @ family @ '' action needs operator mode. Switch to operator mode to proceed.''
           | V_entitlement_missing \<Rightarrow> ''Your workspace access does not currently permit this '' @ family @ '' action.''
           | V_tenant_mismatch \<Rightarrow> ''This '' @ family @ '' action targets a different workspace than the one you are in.''
           | V_skill_stale \<Rightarrow> ''The capability for this '' @ family @ '' action is being updated and needs review before use.''
           | V_skill_not_installed \<Rightarrow>
               (if coverage = No_catalog then ''No operating pack is installed for this '' @ family @ '' action yet.''
                else ''Your role does not include a capability for this '' @ family @ '' action.'')
           | V_resolved \<Rightarrow> ''This '' @ family @ '' action is not available right now.'')"

definition binding_applies :: "role_skill_input \<Rightarrow> role_skill_binding \<Rightarrow> bool" where
  "binding_applies input b \<longleftrightarrow>
     (rb_role b = ri_role input \<or> rb_role b = ''*'') \<and> (''*'' \<in> set (rb_actions b) \<or> ri_action input \<in> set (rb_actions b))"

definition active_bindings :: "role_skill_input \<Rightarrow> role_skill_binding list \<Rightarrow> role_skill_binding list" where
  "active_bindings input bindings =
     filter (\<lambda>b. rb_lifecycle b = Skill_active) (filter (binding_applies input) bindings)"

definition resolver_verdict :: "role_skill_input \<Rightarrow> role_skill_binding list \<Rightarrow> role_skill_verdict" where
  "resolver_verdict input bindings =
     (let applicable = filter (binding_applies input) bindings;
          active = active_bindings input bindings;
          deny = (\<lambda>r. \<lparr>rv_allowed = False, rv_reason = r\<rparr>)
      in if ri_tenantMismatch input = Some True then deny V_tenant_mismatch
         else if ri_requiresOperatorMode input \<noteq> Some False \<and> \<not> isGovernedMode (ri_mode input) then deny V_mode_requires_operator
         else if ri_entitlementActive input = Some False then deny V_entitlement_missing
         else if applicable \<noteq> [] \<and> active = [] then deny V_skill_stale
         else if active = [] then deny V_skill_not_installed
         else \<lparr>rv_allowed = True, rv_reason = V_resolved\<rparr>)"

definition resolveRoleAndSkills ::
  "(int \<Rightarrow> string) \<Rightarrow> role_skill_input \<Rightarrow> role_skill_binding list \<Rightarrow> int \<Rightarrow> role_skill_resolution" where
  "resolveRoleAndSkills to_iso input bindings now =
     (let selectedRole = (if ri_serviceP input = Some True then ''service-principal''
                          else if ri_role input = [] then ''unknown'' else ri_role input);
          applicable = filter (binding_applies input) bindings;
          active = active_bindings input bindings;
          denied = js_set (concat (map rb_denied_tools active));
          coverage = (if active \<noteq> [] then Cov_resolved
                      else if applicable \<noteq> [] then No_skill_for_action
                      else if bindings = [] then No_catalog else No_skill_for_action);
          verdict = resolver_verdict input bindings
      in \<lparr>rs_selected_role = selectedRole, rs_selected_role_version = ''v0'',
          rs_selected_skills = map (\<lambda>b. \<lparr>sk_key = rb_skill_key b, sk_version = rb_skill_version b\<rparr>) active,
          rs_allowed_tools = filter (\<lambda>t. t \<notin> set denied) (js_set (concat (map rb_allowed_tools active))),
          rs_denied_tools = denied,
          rs_required_approvals = (if list_ex (\<lambda>b. rb_requires_approval b = Some True) active then [''operator-signoff''] else []),
          rs_skill_coverage = coverage, rs_verdict = verdict,
          rs_safe_explanation = buildSafeExplanation selectedRole (ri_action input) verdict coverage,
          rs_expires_at = to_iso (now + RESOLUTION_TTL_MS)\<rparr>)"

section \<open>The catalog\<close>

datatype catalog_category = Cat_role | Cat_skill | Cat_pack

record catalog_entry =
  ce_key :: string
  ce_category :: catalog_category
  ce_version :: string
  ce_actions :: "string list option"
  ce_skills :: "string list option"
  ce_allowed_tools :: "string list option"
  ce_denied_tools :: "string list option"
  ce_requires_approval :: "bool option"

definition ARCHETYPE_TO_MEMBERSHIP :: "(string \<times> string list) list" where
  "ARCHETYPE_TO_MEMBERSHIP =
     [(''role.operator-lead'', [''owner'', ''operator'']),
      (''role.delivery-collaborator'', [''collaborator'']),
      (''role.governance-reviewer'', [''owner'', ''operator'']),
      (''role.workspace-member'', [''owner'', ''operator'', ''collaborator'', ''viewer'', ''client''])]"

definition CATALOG_MANIFEST_SHA256 :: string where
  "CATALOG_MANIFEST_SHA256 = ''29b427d4c21d62909aaa64ab4c6aa5add9cd6fbb1477679046974f5db4dfc68a''"

text \<open>A \<^verbatim>\<open>Map\<close> built from entries keeps the last value of a key.\<close>

definition skillByKey :: "catalog_entry list \<Rightarrow> string \<Rightarrow> catalog_entry option" where
  "skillByKey entries = map_of (rev (map (\<lambda>e. (ce_key e, e)) (filter (\<lambda>e. ce_category e = Cat_skill) entries)))"

definition catalog_binding :: "string \<Rightarrow> catalog_entry \<Rightarrow> role_skill_binding" where
  "catalog_binding member sk =
     \<lparr>rb_role = member, rb_skill_key = ce_key sk, rb_skill_version = ce_version sk, rb_lifecycle = Skill_active,
      rb_actions = the_default [] (ce_actions sk), rb_allowed_tools = the_default [] (ce_allowed_tools sk),
      rb_denied_tools = the_default [] (ce_denied_tools sk), rb_requires_approval = ce_requires_approval sk, rb_source = Catalog\<rparr>"

definition add_binding ::
  "catalog_entry list \<Rightarrow> string \<Rightarrow> role_skill_binding list \<times> string list \<Rightarrow> string \<Rightarrow> role_skill_binding list \<times> string list" where
  "add_binding entries member st skillRef =
     (case skillByKey entries (hd (js_split (CHR ''@'') skillRef)) of
        None \<Rightarrow> st
      | Some sk \<Rightarrow>
          (let dedupe = member @ ''|'' @ ce_key sk @ ''|'' @ ce_version sk
           in if dedupe \<in> set (snd st) then st
              else (fst st @ [catalog_binding member sk], dedupe # snd st)))"

definition buildCatalogBindings :: "catalog_entry list \<Rightarrow> role_skill_binding list" where
  "buildCatalogBindings entries =
     fst (foldl (\<lambda>st role.
            foldl (\<lambda>st member. foldl (add_binding entries member) st (the_default [] (ce_skills role))) st
              (the_default [] (map_of ARCHETYPE_TO_MEMBERSHIP (ce_key role))))
          ([], []) (filter (\<lambda>e. ce_category e = Cat_role) entries))"

definition INTERNAL_SERVICE_BINDINGS :: "role_skill_binding list" where
  "INTERNAL_SERVICE_BINDINGS =
     [\<lparr>rb_role = ''automation'', rb_skill_key = ''skill.workspace-assistant.grounded-assistance'', rb_skill_version = ''1.0.0'',
       rb_lifecycle = Skill_active, rb_actions = [''assistant:digest'', ''assistant:onboard''], rb_allowed_tools = [],
       rb_denied_tools = [''raw_graph_export'', ''full_tenant_memory_export'', ''secret_access'', ''search_all_memory'',
         ''customer_data_export'', ''approval_decision''],
       rb_requires_approval = Some True, rb_source = Internal_service\<rparr>]"

definition buildRuntimeBindings :: "catalog_entry list \<Rightarrow> role_skill_binding list" where
  "buildRuntimeBindings entries = buildCatalogBindings entries @ INTERNAL_SERVICE_BINDINGS"

definition catalogBindingsIfEnabled :: "catalog_entry list \<Rightarrow> string option \<Rightarrow> (role_skill_binding list \<times> string) option" where
  "catalogBindingsIfEnabled entries flag =
     (if \<not> envFlagTrue flag then None else Some (buildRuntimeBindings entries, CATALOG_MANIFEST_SHA256))"

text \<open>The published catalog, version 2026.07.2.\<close>

definition catalog_entries :: "catalog_entry list" where
  "catalog_entries =
     [
      \<lparr>ce_key = ''role.operator-lead'', ce_category = Cat_role, ce_version = ''1.0.0'',
       ce_actions = Some [''packet:create'', ''evidence:submit'', ''approval:request'', ''tool_event:report'', ''metric_delta:record''],
       ce_skills = Some [''skill.software-delivery.governed-shipping@1.0.0'', ''skill.software-delivery.evidence-capture@1.0.0'', ''skill.founder-operator.progress-tracking@1.0.0''],
       ce_allowed_tools = Some [''xlooop.report_tool_event'', ''xlooop.submit_evidence''],
       ce_denied_tools = Some [''raw_graph_export'', ''full_tenant_memory_export'', ''secret_access'', ''search_all_memory''],
       ce_requires_approval = Some False\<rparr>,
      \<lparr>ce_key = ''role.delivery-collaborator'', ce_category = Cat_role, ce_version = ''1.0.0'',
       ce_actions = Some [''evidence:submit'', ''tool_event:report''],
       ce_skills = Some [''skill.software-delivery.evidence-capture@1.0.0''],
       ce_allowed_tools = Some [''xlooop.report_tool_event'', ''xlooop.submit_evidence''],
       ce_denied_tools = Some [''raw_graph_export'', ''full_tenant_memory_export'', ''secret_access'', ''search_all_memory'', ''customer_data_export''],
       ce_requires_approval = Some False\<rparr>,
      \<lparr>ce_key = ''role.governance-reviewer'', ce_category = Cat_role, ce_version = ''1.0.0'',
       ce_actions = Some [''approval:decide'', ''signoff:decide''],
       ce_skills = Some [''skill.enterprise-governance.approval-stewardship@1.0.0''],
       ce_allowed_tools = Some [''xlooop.decide_approval''],
       ce_denied_tools = Some [''raw_graph_export'', ''full_tenant_memory_export'', ''secret_access'', ''search_all_memory''],
       ce_requires_approval = Some False\<rparr>,
      \<lparr>ce_key = ''role.workspace-member'', ce_category = Cat_role, ce_version = ''1.0.0'',
       ce_actions = Some [''assistant:answer'', ''assistant:plan'', ''assistant:digest'', ''assistant:onboard'', ''assistant:refine'', ''assistant:enrich''],
       ce_skills = Some [''skill.workspace-assistant.grounded-assistance@1.0.0''],
       ce_allowed_tools = Some [],
       ce_denied_tools = Some [''raw_graph_export'', ''full_tenant_memory_export'', ''secret_access'', ''search_all_memory''],
       ce_requires_approval = Some False\<rparr>,
      \<lparr>ce_key = ''skill.software-delivery.governed-shipping'', ce_category = Cat_skill, ce_version = ''1.0.0'',
       ce_actions = Some [''packet:create'', ''approval:request''],
       ce_skills = None,
       ce_allowed_tools = Some [''xlooop.report_tool_event''],
       ce_denied_tools = Some [''raw_graph_export'', ''full_tenant_memory_export'', ''secret_access''],
       ce_requires_approval = Some True\<rparr>,
      \<lparr>ce_key = ''skill.software-delivery.evidence-capture'', ce_category = Cat_skill, ce_version = ''1.0.0'',
       ce_actions = Some [''evidence:submit'', ''tool_event:report''],
       ce_skills = None,
       ce_allowed_tools = Some [''xlooop.submit_evidence'', ''xlooop.report_tool_event''],
       ce_denied_tools = Some [''raw_graph_export'', ''secret_access''],
       ce_requires_approval = Some False\<rparr>,
      \<lparr>ce_key = ''skill.enterprise-governance.approval-stewardship'', ce_category = Cat_skill, ce_version = ''1.0.0'',
       ce_actions = Some [''approval:decide'', ''signoff:decide''],
       ce_skills = None,
       ce_allowed_tools = Some [''xlooop.decide_approval''],
       ce_denied_tools = Some [''raw_graph_export'', ''full_tenant_memory_export'', ''secret_access''],
       ce_requires_approval = Some False\<rparr>,
      \<lparr>ce_key = ''skill.enterprise-governance.data-operations'', ce_category = Cat_skill, ce_version = ''1.0.0'',
       ce_actions = Some [''customer_data:export''],
       ce_skills = None,
       ce_allowed_tools = Some [],
       ce_denied_tools = Some [''raw_graph_export'', ''full_tenant_memory_export'', ''secret_access'', ''search_all_memory''],
       ce_requires_approval = Some True\<rparr>,
      \<lparr>ce_key = ''skill.founder-operator.progress-tracking'', ce_category = Cat_skill, ce_version = ''1.0.0'',
       ce_actions = Some [''metric_delta:record'', ''packet:create''],
       ce_skills = None,
       ce_allowed_tools = Some [''xlooop.report_tool_event''],
       ce_denied_tools = Some [''raw_graph_export'', ''secret_access''],
       ce_requires_approval = Some False\<rparr>,
      \<lparr>ce_key = ''skill.workspace-assistant.grounded-assistance'', ce_category = Cat_skill, ce_version = ''1.0.0'',
       ce_actions = Some [''assistant:answer'', ''assistant:plan'', ''assistant:digest'', ''assistant:onboard'', ''assistant:refine'', ''assistant:enrich''],
       ce_skills = None,
       ce_allowed_tools = Some [],
       ce_denied_tools = Some [''raw_graph_export'', ''full_tenant_memory_export'', ''secret_access'', ''search_all_memory''],
       ce_requires_approval = Some False\<rparr>,
      \<lparr>ce_key = ''pack.starter.software-delivery'', ce_category = Cat_pack, ce_version = ''1.0.0'',
       ce_actions = Some [],
       ce_skills = Some [''skill.software-delivery.governed-shipping@1.0.0'', ''skill.software-delivery.evidence-capture@1.0.0'', ''skill.enterprise-governance.approval-stewardship@1.0.0''],
       ce_allowed_tools = Some [],
       ce_denied_tools = Some [],
       ce_requires_approval = Some False\<rparr>]"

section \<open>Verdicts\<close>

definition gates_pass :: "role_skill_input \<Rightarrow> bool" where
  "gates_pass input \<longleftrightarrow> ri_tenantMismatch input \<noteq> Some True \<and>
     (ri_requiresOperatorMode input = Some False \<or> ri_mode input = ''operator'') \<and> ri_entitlementActive input \<noteq> Some False"

lemma verdict_allowed: "rv_allowed (resolver_verdict input bindings) \<longleftrightarrow> gates_pass input \<and> active_bindings input bindings \<noteq> []"
  by (auto simp: resolver_verdict_def gates_pass_def isGovernedMode_def Let_def)

lemma verdict_reason: "rv_reason (resolver_verdict input bindings) = V_resolved \<longleftrightarrow> rv_allowed (resolver_verdict input bindings)"
  by (simp add: resolver_verdict_def Let_def)

text \<open>
  The resolver allows a request exactly when the tenants agree, operator mode holds where it is required, the entitlement is
  not known to be missing and an active binding covers the role and the action; the coverage says resolved exactly when such
  a binding exists; and the granted tools are those an active binding grants less those any active binding denies.
\<close>

theorem resolver_deny_wins:
  "(rv_allowed (rs_verdict (resolveRoleAndSkills to_iso input bindings now)) \<longleftrightarrow>
      ri_tenantMismatch input \<noteq> Some True \<and>
      (ri_requiresOperatorMode input = Some False \<or> ri_mode input = ''operator'') \<and>
      ri_entitlementActive input \<noteq> Some False \<and>
      (\<exists>b \<in> set bindings. binding_applies input b \<and> rb_lifecycle b = Skill_active)) \<and>
   (rs_skill_coverage (resolveRoleAndSkills to_iso input bindings now) = Cov_resolved \<longleftrightarrow>
      (\<exists>b \<in> set bindings. binding_applies input b \<and> rb_lifecycle b = Skill_active)) \<and>
   set (rs_allowed_tools (resolveRoleAndSkills to_iso input bindings now)) =
     (\<Union>b \<in> set (active_bindings input bindings). set (rb_allowed_tools b)) -
     (\<Union>b \<in> set (active_bindings input bindings). set (rb_denied_tools b))"
proof -
  have ex: "active_bindings input bindings \<noteq> [] \<longleftrightarrow> (\<exists>b \<in> set bindings. binding_applies input b \<and> rb_lifecycle b = Skill_active)"
    by (auto simp: active_bindings_def filter_empty_conv)
  show ?thesis
    using ex by (auto simp: resolveRoleAndSkills_def Let_def verdict_allowed gates_pass_def)
qed

section \<open>What the published catalog grants\<close>

definition assistant_actions :: "string list" where
  "assistant_actions = [''assistant:answer'', ''assistant:plan'', ''assistant:digest'', ''assistant:onboard'', ''assistant:refine'', ''assistant:enrich'']"

definition lead_actions :: "string list" where
  "lead_actions = [''packet:create'', ''approval:request'', ''evidence:submit'', ''tool_event:report'', ''metric_delta:record'',
     ''approval:decide'', ''signoff:decide'']"

definition granted :: "string \<Rightarrow> string list" where
  "granted role =
     (if role \<in> {''owner'', ''operator''} then lead_actions @ assistant_actions
      else if role = ''collaborator'' then [''evidence:submit'', ''tool_event:report''] @ assistant_actions
      else if role \<in> {''viewer'', ''client''} then assistant_actions
      else if role = ''automation'' then [''assistant:digest'', ''assistant:onboard''] else [])"

definition capability_rows :: "role_skill_binding list \<Rightarrow> (string \<times> string list) list" where
  "capability_rows bs = map (\<lambda>b. (rb_role b, rb_actions b)) bs"

lemma runtime_capabilities:
  "capability_rows (buildRuntimeBindings catalog_entries) =
     [(''owner'', [''packet:create'', ''approval:request'']), (''owner'', [''evidence:submit'', ''tool_event:report'']),
      (''owner'', [''metric_delta:record'', ''packet:create'']),
      (''operator'', [''packet:create'', ''approval:request'']), (''operator'', [''evidence:submit'', ''tool_event:report'']),
      (''operator'', [''metric_delta:record'', ''packet:create'']),
      (''collaborator'', [''evidence:submit'', ''tool_event:report'']),
      (''owner'', [''approval:decide'', ''signoff:decide'']), (''operator'', [''approval:decide'', ''signoff:decide'']),
      (''owner'', assistant_actions), (''operator'', assistant_actions), (''collaborator'', assistant_actions),
      (''viewer'', assistant_actions), (''client'', assistant_actions),
      (''automation'', [''assistant:digest'', ''assistant:onboard''])]"
  by code_simp

lemma runtime_active: "list_all (\<lambda>b. rb_lifecycle b = Skill_active) (buildRuntimeBindings catalog_entries)"
  by code_simp

lemma active_rows:
  assumes "list_all (\<lambda>b. rb_lifecycle b = Skill_active) bs"
  shows "active_bindings input bs \<noteq> [] \<longleftrightarrow>
    list_ex (\<lambda>(r, as). (r = ri_role input \<or> r = ''*'') \<and> (''*'' \<in> set as \<or> ri_action input \<in> set as)) (capability_rows bs)"
  using assms by (auto simp: active_bindings_def capability_rows_def binding_applies_def filter_empty_conv list_ex_iff list_all_iff)

definition actions_of :: "string \<Rightarrow> string list" where
  "actions_of role = concat (map snd (filter (\<lambda>row. role = fst row) (capability_rows (buildRuntimeBindings catalog_entries))))"

lemma rows_actions:
  "list_ex (\<lambda>(r, as). (r = role \<or> r = ''*'') \<and> (''*'' \<in> set as \<or> action \<in> set as))
     (capability_rows (buildRuntimeBindings catalog_entries)) \<longleftrightarrow> action \<in> set (actions_of role)"
proof -
  have "list_all (\<lambda>row. fst row \<noteq> ''*'' \<and> ''*'' \<notin> set (snd row)) (capability_rows (buildRuntimeBindings catalog_entries))"
    by (simp add: runtime_capabilities assistant_actions_def)
  then show ?thesis unfolding actions_of_def list_ex_iff list_all_iff by force
qed

lemma granted_closed:
  "list_all (\<lambda>role. list_all (\<lambda>x. x \<in> set (granted role)) (actions_of role) \<and> list_all (\<lambda>x. x \<in> set (actions_of role)) (granted role))
     [''owner'', ''operator'', ''collaborator'', ''viewer'', ''client'', ''automation'']"
  unfolding actions_of_def runtime_capabilities by code_simp

lemma granted_other:
  "role \<notin> set [''owner'', ''operator'', ''collaborator'', ''viewer'', ''client'', ''automation''] \<Longrightarrow> actions_of role = [] \<and> granted role = []"
  unfolding actions_of_def runtime_capabilities granted_def by simp

lemma granted_rows: "action \<in> set (actions_of role) \<longleftrightarrow> action \<in> set (granted role)"
proof (cases "role \<in> set [''owner'', ''operator'', ''collaborator'', ''viewer'', ''client'', ''automation'']")
  case True
  note both = bspec [OF granted_closed [unfolded list_all_iff] True]
  from conjunct1 [OF both] conjunct2 [OF both]
  show ?thesis by metis
next
  case False
  from granted_other [OF this] show ?thesis by (elim conjE) (simp only:)
qed

lemma assistant_no_spine: "action_str a \<notin> set assistant_actions"
  by (cases a) (simp_all add: assistant_actions_def)

lemma lead_spine:
  "action_str a \<in> set lead_actions \<longleftrightarrow>
   a \<in> {Packet_create, Approval_request, Evidence_submit, Tool_event_report, Metric_delta_record, Approval_decide, Signoff_decide}"
  by (cases a) (simp_all add: lead_actions_def)

lemma collaborator_spine:
  "action_str a \<in> set [''evidence:submit'', ''tool_event:report''] \<longleftrightarrow> a \<in> {Evidence_submit, Tool_event_report}"
  by (cases a) simp_all

lemma granted_spine:
  "action_str a \<in> set (granted role) \<longleftrightarrow>
     role \<in> {''owner'', ''operator''} \<and>
       a \<in> {Packet_create, Approval_request, Evidence_submit, Tool_event_report, Metric_delta_record, Approval_decide, Signoff_decide} \<or>
     role = ''collaborator'' \<and> a \<in> {Evidence_submit, Tool_event_report}"
proof -
  have auto_part: "action_str a \<notin> set [''assistant:digest'', ''assistant:onboard'']" by (cases a) simp_all
  note facts = assistant_no_spine [of a] lead_spine [of a] collaborator_spine [of a] auto_part
  show ?thesis
    by (cases "role = ''owner''", use facts in \<open>simp add: granted_def\<close>,
        cases "role = ''operator''", use facts in \<open>simp add: granted_def\<close>,
        cases "role = ''collaborator''", use facts in \<open>simp add: granted_def\<close>,
        cases "role = ''viewer''", use facts in \<open>simp add: granted_def\<close>,
        cases "role = ''client''", use facts in \<open>simp add: granted_def\<close>,
        cases "role = ''automation''", use facts in \<open>simp_all add: granted_def\<close>)
qed

text \<open>
  Against the published catalog a governed write is resolved for owners and operators on the seven delivery and decision
  actions, for collaborators on submitting evidence and reporting tool events, and for nobody else: viewers, clients and the
  automation identity get no governed write, and no role gets exports, deletions, member, token or policy actions.
\<close>

theorem catalog_capabilities:
  "rv_allowed (rs_verdict (resolveRoleAndSkills to_iso (input\<lparr>ri_action := action_str a\<rparr>) (buildRuntimeBindings catalog_entries) now)) \<longleftrightarrow>
     gates_pass input \<and>
     (ri_role input \<in> {''owner'', ''operator''} \<and>
        a \<in> {Packet_create, Approval_request, Evidence_submit, Tool_event_report, Metric_delta_record, Approval_decide, Signoff_decide} \<or>
      ri_role input = ''collaborator'' \<and> a \<in> {Evidence_submit, Tool_event_report})"
proof -
  have "gates_pass (input\<lparr>ri_action := action_str a\<rparr>) = gates_pass input" by (simp add: gates_pass_def)
  then show ?thesis
    unfolding granted_spine [symmetric]
    using granted_rows [of "action_str a" "ri_role input"] rows_actions [of "ri_role input" "action_str a"] active_rows [OF runtime_active, of "input\<lparr>ri_action := action_str a\<rparr>"]
    by (simp add: resolveRoleAndSkills_def Let_def verdict_allowed)
qed

text \<open>
  The denials the catalog attaches to a role are lost: for a collaborator submitting evidence the resolution denies only the
  two tools of the skill, although the catalog's collaborator role also denies memory search and customer data export.
\<close>

theorem role_denials_dropped:
  "rs_denied_tools (resolveRoleAndSkills to_iso
      \<lparr>ri_tenant = t, ri_principal = p, ri_role = ''collaborator'', ri_mode = m, ri_action = ''evidence:submit'', ri_serviceP = sv,
       ri_intent = i, ri_entitlementActive = ea, ri_requiresOperatorMode = ro, ri_tenantMismatch = tm\<rparr>
      (buildRuntimeBindings catalog_entries) now) = [''raw_graph_export'', ''secret_access''] \<and>
   (\<exists>e \<in> set catalog_entries. ce_key e = ''role.delivery-collaborator'' \<and>
      ce_denied_tools e = Some [''raw_graph_export'', ''full_tenant_memory_export'', ''secret_access'', ''search_all_memory'', ''customer_data_export''])"
proof
  let ?in = "\<lparr>ri_tenant = t, ri_principal = p, ri_role = ''collaborator'', ri_mode = m, ri_action = ''evidence:submit'', ri_serviceP = sv,
       ri_intent = i, ri_entitlementActive = ea, ri_requiresOperatorMode = ro, ri_tenantMismatch = tm\<rparr>"
  let ?closed = "\<lparr>ri_tenant = [], ri_principal = [], ri_role = ''collaborator'', ri_mode = [], ri_action = ''evidence:submit'', ri_serviceP = None,
       ri_intent = None, ri_entitlementActive = None, ri_requiresOperatorMode = None, ri_tenantMismatch = None\<rparr>"
  have "active_bindings ?in bs = active_bindings ?closed bs" for bs by (simp add: active_bindings_def binding_applies_def)
  moreover have "map rb_denied_tools (active_bindings ?closed (buildRuntimeBindings catalog_entries)) = [[''raw_graph_export'', ''secret_access'']]"
    by code_simp
  ultimately have "map rb_denied_tools (active_bindings ?in (buildRuntimeBindings catalog_entries)) = [[''raw_graph_export'', ''secret_access'']]"
    by simp
  then show "rs_denied_tools (resolveRoleAndSkills to_iso ?in (buildRuntimeBindings catalog_entries) now) = [''raw_graph_export'', ''secret_access'']"
    by (simp add: resolveRoleAndSkills_def Let_def js_set_def set_add_def)
qed (simp add: catalog_entries_def)

end
