(* ===== verification/Policy.thy ===== *)
theory Policy
  imports Permissions Signals
begin

text \<open>
  The governance policy evaluator (\<^verbatim>\<open>services/policy-engine.ts\<close>), the structured-event emitter
  (\<^verbatim>\<open>lib/observability.ts\<close>) and the shadow observer that joins them (\<^verbatim>\<open>lib/policy-shadow.ts\<close>).

  The fields of a write are the parsed JSON object of its body; \<open>field\<close> reads an own property, \<open>None\<close> being
  \<^verbatim>\<open>undefined\<close>.
\<close>

section \<open>Evaluators\<close>

datatype policy_decision = Allow | Deny | Require_approval | Redact | Quarantine

record governed_write_context =
  gw_action :: string
  gw_fields :: "(string \<times> json) list option"
  gw_role :: "string option"
  gw_mode :: "string option"

record policy_outcome =
  po_policy_key :: string
  po_decision :: policy_decision
  po_reason :: string

type_synonym policy_evaluator = "governed_write_context \<Rightarrow> policy_outcome option"

definition field :: "governed_write_context \<Rightarrow> string \<Rightarrow> json option" where
  "field ctx k = map_of (the_default [] (gw_fields ctx)) k"

definition noPlaceholderSemantics :: policy_evaluator where
  "noPlaceholderSemantics ctx =
     (let bad = (case field ctx ''metric_name'' of
                   Some (JStr s) \<Rightarrow> if js_trim s = [] then [''metric_name is an empty-string placeholder''] else []
                 | _ \<Rightarrow> []) @
                (if field ctx ''metric_name'' = Some (JStr []) \<and>
                    (field ctx ''target_value'' = Some (JNum 0) \<or> field ctx ''target_value'' = Some (JStr ''0''))
                 then [''metric_name+target_value are the empty/0 placeholder pair''] else [])
      in if bad = [] then None
         else Some \<lparr>po_policy_key = ''no-placeholder-semantics'', po_decision = Deny, po_reason = js_join ''; '' bad\<rparr>)"

definition completes :: "governed_write_context \<Rightarrow> bool" where
  "completes ctx \<longleftrightarrow>
     list_ex (js_ends_with (gw_action ctx)) [''.complete'', ''.achieve'', ''.signoff''] \<or>
     field ctx ''status'' \<in> {Some (JStr ''achieved''), Some (JStr ''done''), Some (JStr ''completed'')}"

text \<open>\<^verbatim>\<open>evidence_ref_id ?? evidence_refs\<close>: a reference that is \<^verbatim>\<open>undefined\<close> or \<^verbatim>\<open>null\<close> gives way to the list.\<close>

definition evidence_field :: "governed_write_context \<Rightarrow> json option" where
  "evidence_field ctx =
     (case field ctx ''evidence_ref_id'' of
        None \<Rightarrow> field ctx ''evidence_refs'' | Some JNull \<Rightarrow> field ctx ''evidence_refs'' | Some v \<Rightarrow> Some v)"

definition has_evidence :: "governed_write_context \<Rightarrow> bool" where
  "has_evidence ctx =
     (case evidence_field ctx of Some (JStr s) \<Rightarrow> s \<noteq> [] | Some (JArr xs) \<Rightarrow> xs \<noteq> [] | _ \<Rightarrow> False)"

definition evidenceRequiredForCompletion :: policy_evaluator where
  "evidenceRequiredForCompletion ctx =
     (if \<not> completes ctx then None
      else if has_evidence ctx then None
      else Some \<lparr>po_policy_key = ''evidence-required-for-completion'', po_decision = Require_approval,
                 po_reason = ''completion asserted without an evidence reference''\<rparr>)"

definition archiveNotDelete :: policy_evaluator where
  "archiveNotDelete ctx =
     (if \<not> list_ex (js_ends_with (gw_action ctx)) [''.delete'', ''.destroy'', ''.purge''] then None
      else if field ctx ''hard'' = Some (JBool True) \<or> field ctx ''mode'' = Some (JStr ''hard'')
      then Some \<lparr>po_policy_key = ''archive-not-delete'', po_decision = Deny,
                 po_reason = ''hard-delete of a governed record is forbidden; soft-delete/archive instead''\<rparr>
      else None)"

definition POLICY_EVALUATORS :: "(string \<times> policy_evaluator) list" where
  "POLICY_EVALUATORS =
     [(''no-placeholder-semantics'', noPlaceholderSemantics),
      (''evidence-required-for-completion'', evidenceRequiredForCompletion),
      (''archive-not-delete'', archiveNotDelete)]"

definition evaluateGovernedWrite :: "governed_write_context \<Rightarrow> string set option \<Rightarrow> policy_outcome list" where
  "evaluateGovernedWrite ctx activePolicyKeys =
     List.map_filter (\<lambda>(key, evaluate). if (case activePolicyKeys of Some ks \<Rightarrow> key \<notin> ks | None \<Rightarrow> False) then None else evaluate ctx)
       POLICY_EVALUATORS"

definition resolveDecision :: "policy_outcome list \<Rightarrow> policy_decision" where
  "resolveDecision outcomes =
     (case find (\<lambda>d. list_ex (\<lambda>ou. po_decision ou = d) outcomes) [Deny, Quarantine, Require_approval, Redact] of
        Some d \<Rightarrow> d | None \<Rightarrow> Allow)"

section \<open>Shadow observation\<close>

text \<open>The structured log: one object per emission, later properties overwriting earlier ones.\<close>

type_synonym event_log = "(string \<times> json) list list"

definition js_assign :: "(string \<times> json) list \<Rightarrow> (string \<times> json) list \<Rightarrow> (string \<times> json) list" where
  "js_assign base extra = foldl (\<lambda>ob (k, v). AList.update k v ob) base extra"

definition emitEvent :: "string \<Rightarrow> (string \<times> json) list \<Rightarrow> event_log \<Rightarrow> event_log" where
  "emitEvent kind payload events = events @ [js_assign [(''kind'', JStr kind)] payload]"

definition decision_name :: "policy_decision \<Rightarrow> string" where
  "decision_name d = (case d of Allow \<Rightarrow> ''allow'' | Deny \<Rightarrow> ''deny'' | Require_approval \<Rightarrow> ''require_approval''
     | Redact \<Rightarrow> ''redact'' | Quarantine \<Rightarrow> ''quarantine'')"

definition policyEngineEnabled :: "string option \<Rightarrow> bool" where
  "policyEngineEnabled flag = envFlagTrue flag"

definition observePolicyShadow ::
  "string option \<Rightarrow> governed_write_context \<Rightarrow> (string \<times> json) list \<Rightarrow> event_log \<Rightarrow> event_log" where
  "observePolicyShadow flag ctx meta events =
     (if \<not> policyEngineEnabled flag then events
      else foldl (\<lambda>l ou. emitEvent ''policy_shadow_decision''
             (js_assign [(''action'', JStr (gw_action ctx)), (''policy_key'', JStr (po_policy_key ou)),
                (''decision'', JStr (decision_name (po_decision ou))), (''reason'', JStr (po_reason ou))] meta) l)
           events (evaluateGovernedWrite ctx None))"

section \<open>The decision of a write\<close>

fun severity :: "policy_decision \<Rightarrow> nat" where
  "severity Allow = 0"
| "severity Redact = 1"
| "severity Require_approval = 2"
| "severity Quarantine = 3"
| "severity Deny = 4"

lemma severity_inj: "severity a = severity b \<longleftrightarrow> a = b"
  by (cases a; cases b) simp_all

text \<open>The decision is the least one at least as severe as every outcome.\<close>

lemma resolveDecision_upper: "ou \<in> set outcomes \<Longrightarrow> severity (po_decision ou) \<le> severity (resolveDecision outcomes)"
  by (cases "po_decision ou") (auto simp: resolveDecision_def list_ex_iff)

lemma resolveDecision_attained:
  "resolveDecision outcomes = Allow \<or> resolveDecision outcomes \<in> po_decision ` set outcomes"
  by (auto simp: resolveDecision_def list_ex_iff image_iff eq_commute)

lemma resolveDecision_least:
  assumes "\<And>ou. ou \<in> set outcomes \<Longrightarrow> severity (po_decision ou) \<le> n"
  shows "severity (resolveDecision outcomes) \<le> n"
  using resolveDecision_attained [of outcomes] assms by auto

definition policy_active :: "string set option \<Rightarrow> string \<Rightarrow> bool" where
  "policy_active ks k \<longleftrightarrow> (case ks of None \<Rightarrow> True | Some s \<Rightarrow> k \<in> s)"

definition placeholder_write :: "governed_write_context \<Rightarrow> bool" where
  "placeholder_write ctx \<longleftrightarrow> (\<exists>s. field ctx ''metric_name'' = Some (JStr s) \<and> js_trim s = [])"

definition hard_delete :: "governed_write_context \<Rightarrow> bool" where
  "hard_delete ctx \<longleftrightarrow> list_ex (js_ends_with (gw_action ctx)) [''.delete'', ''.destroy'', ''.purge''] \<and>
     (field ctx ''hard'' = Some (JBool True) \<or> field ctx ''mode'' = Some (JStr ''hard''))"

lemma noPlaceholderSemantics_fires: "noPlaceholderSemantics ctx \<noteq> None \<longleftrightarrow> placeholder_write ctx"
  by (auto simp: noPlaceholderSemantics_def placeholder_write_def Let_def js_trim_def split: option.splits json.splits)

lemma outcome_decisions:
  "noPlaceholderSemantics ctx = Some ou \<Longrightarrow> po_decision ou = Deny"
  "evidenceRequiredForCompletion ctx = Some ou \<Longrightarrow> po_decision ou = Require_approval"
  "archiveNotDelete ctx = Some ou \<Longrightarrow> po_decision ou = Deny"
  by (auto simp: noPlaceholderSemantics_def evidenceRequiredForCompletion_def archiveNotDelete_def Let_def split: if_splits)

lemma archiveNotDelete_fires: "archiveNotDelete ctx \<noteq> None \<longleftrightarrow> hard_delete ctx"
  by (simp add: archiveNotDelete_def hard_delete_def)

lemma evidence_fires: "evidenceRequiredForCompletion ctx \<noteq> None \<longleftrightarrow> completes ctx \<and> \<not> has_evidence ctx"
  by (simp add: evidenceRequiredForCompletion_def)

lemma evaluateGovernedWrite_set:
  "set (evaluateGovernedWrite ctx ks) =
     {ou. (policy_active ks ''no-placeholder-semantics'' \<and> noPlaceholderSemantics ctx = Some ou) \<or>
          (policy_active ks ''evidence-required-for-completion'' \<and> evidenceRequiredForCompletion ctx = Some ou) \<or>
          (policy_active ks ''archive-not-delete'' \<and> archiveNotDelete ctx = Some ou)}"
  by (auto simp: evaluateGovernedWrite_def POLICY_EVALUATORS_def List.map_filter_def policy_active_def split: option.splits)

lemma decision_Deny:
  "resolveDecision (evaluateGovernedWrite ctx ks) = Deny \<longleftrightarrow>
     policy_active ks ''no-placeholder-semantics'' \<and> placeholder_write ctx \<or> policy_active ks ''archive-not-delete'' \<and> hard_delete ctx"
proof -
  have deny: "resolveDecision ous = Deny \<longleftrightarrow> (\<exists>ou\<in>set ous. po_decision ou = Deny)" for ous
    by (auto simp: resolveDecision_def list_ex_iff split: if_splits)
  show ?thesis
    unfolding deny evaluateGovernedWrite_set noPlaceholderSemantics_fires [symmetric] archiveNotDelete_fires [symmetric]
    by (auto dest: outcome_decisions)
qed

lemma decision_range: "resolveDecision (evaluateGovernedWrite ctx ks) \<in> {Allow, Deny, Require_approval}"
  using resolveDecision_attained [of "evaluateGovernedWrite ctx ks"] unfolding evaluateGovernedWrite_set
  by (auto dest: outcome_decisions)

lemma decision_Allow:
  "resolveDecision (evaluateGovernedWrite ctx ks) = Allow \<longleftrightarrow> evaluateGovernedWrite ctx ks = []"
proof
  assume allow: "resolveDecision (evaluateGovernedWrite ctx ks) = Allow"
  have "po_decision ou \<noteq> Allow" if "ou \<in> set (evaluateGovernedWrite ctx ks)" for ou
    using that unfolding evaluateGovernedWrite_set by (auto dest: outcome_decisions)
  moreover have "po_decision ou = Allow" if "ou \<in> set (evaluateGovernedWrite ctx ks)" for ou
    using resolveDecision_upper [OF that] allow by (cases "po_decision ou") simp_all
  ultimately show "evaluateGovernedWrite ctx ks = []" by (metis list.set_intros(1) neq_Nil_conv)
qed (simp add: resolveDecision_def)

lemma evaluation_empty:
  "evaluateGovernedWrite ctx ks = [] \<longleftrightarrow>
     \<not> (policy_active ks ''no-placeholder-semantics'' \<and> placeholder_write ctx) \<and>
     \<not> (policy_active ks ''evidence-required-for-completion'' \<and> completes ctx \<and> \<not> has_evidence ctx) \<and>
     \<not> (policy_active ks ''archive-not-delete'' \<and> hard_delete ctx)"
  unfolding set_empty [symmetric] evaluateGovernedWrite_set noPlaceholderSemantics_fires [symmetric]
    archiveNotDelete_fires [symmetric] evidence_fires [symmetric]
  by (cases "noPlaceholderSemantics ctx"; cases "evidenceRequiredForCompletion ctx"; cases "archiveNotDelete ctx") auto

lemma evaluation_mono:
  "ks \<subseteq> ks' \<Longrightarrow> set (evaluateGovernedWrite ctx (Some ks)) \<subseteq> set (evaluateGovernedWrite ctx (Some ks'))"
  "set (evaluateGovernedWrite ctx (Some ks)) \<subseteq> set (evaluateGovernedWrite ctx None)"
  unfolding evaluateGovernedWrite_set by (auto simp: policy_active_def)

text \<open>
  The comment above \<^verbatim>\<open>noPlaceholderSemantics\<close> names three placeholders: an empty metric name, a target of 0 or NaN, and the
  derivation \<^verbatim>\<open>{}\<close>. The evaluator fires only on a blank metric name (a target of 0 merely adds to the reason of an empty one), so a
  write that presents a target of 0 and the derivation \<^verbatim>\<open>{}\<close> under a real metric name is allowed.
\<close>

lemma placeholder_target_is_allowed:
  "resolveDecision (evaluateGovernedWrite \<lparr>gw_action = ''metric.upsert'', gw_fields =
      Some [(''metric_name'', JStr ''revenue''), (''target_value'', JNum 0), (''derivation'', JStr ''{}'')],
      gw_role = None, gw_mode = None\<rparr> None) = Allow"
  unfolding decision_Allow evaluation_empty placeholder_write_def completes_def hard_delete_def
  by (simp add: field_def js_trim_def js_ends_with_def is_ws_def)

text \<open>
  C30. The policy decision of a governed write, as coded: deny exactly when an active policy forbids it (a metric name that is
  blank, or a hard delete), else require approval exactly when the evidence policy is active and a completion carries no evidence
  reference, else allow; and activating further policies never makes the decision less severe. The other placeholders the
  comment on \<^verbatim>\<open>noPlaceholderSemantics\<close> forbids are not checked.
\<close>

theorem policy_decision:
  "resolveDecision (evaluateGovernedWrite ctx ks) =
     (if policy_active ks ''no-placeholder-semantics'' \<and> placeholder_write ctx \<or> policy_active ks ''archive-not-delete'' \<and> hard_delete ctx
      then Deny
      else if policy_active ks ''evidence-required-for-completion'' \<and> completes ctx \<and> \<not> has_evidence ctx then Require_approval
      else Allow) \<and>
   severity (resolveDecision (evaluateGovernedWrite ctx (Some a))) \<le> severity (resolveDecision (evaluateGovernedWrite ctx (Some (a \<union> b)))) \<and>
   severity (resolveDecision (evaluateGovernedWrite ctx (Some a))) \<le> severity (resolveDecision (evaluateGovernedWrite ctx None))"
proof (intro conjI)
  show "resolveDecision (evaluateGovernedWrite ctx ks) =
     (if policy_active ks ''no-placeholder-semantics'' \<and> placeholder_write ctx \<or> policy_active ks ''archive-not-delete'' \<and> hard_delete ctx
      then Deny
      else if policy_active ks ''evidence-required-for-completion'' \<and> completes ctx \<and> \<not> has_evidence ctx then Require_approval
      else Allow)"
    using decision_Deny [of ctx ks] decision_Allow [of ctx ks] decision_range [of ctx ks] unfolding evaluation_empty by auto
  show "severity (resolveDecision (evaluateGovernedWrite ctx (Some a))) \<le> severity (resolveDecision (evaluateGovernedWrite ctx (Some (a \<union> b))))"
    by (rule resolveDecision_least, rule resolveDecision_upper, rule subsetD [OF evaluation_mono(1)]) simp_all
  show "severity (resolveDecision (evaluateGovernedWrite ctx (Some a))) \<le> severity (resolveDecision (evaluateGovernedWrite ctx None))"
    by (rule resolveDecision_least, rule resolveDecision_upper, rule subsetD [OF evaluation_mono(2)])
qed

text \<open>The shadow only appends events, one per policy that fired, and nothing while its flag is off.\<close>

lemma shadow_appends:
  "\<exists>new. observePolicyShadow flag ctx meta events = events @ new \<and>
     length new = (if envFlagTrue flag then length (evaluateGovernedWrite ctx None) else 0)"
proof -
  have appends: "\<exists>new. foldl (\<lambda>l ou. emitEvent k (f ou) l) events ous = events @ new \<and> length new = length ous" for k f events ous
  proof (induction ous arbitrary: events)
    case (Cons ou ous)
    from Cons.IH [of "emitEvent k (f ou) events"] show ?case by (auto simp: emitEvent_def)
  qed simp
  show ?thesis
    by (cases "envFlagTrue flag") (simp_all add: observePolicyShadow_def policyEngineEnabled_def appends)
qed

end
