(* ===== verification/Json_Text.thy ===== *)
theory Json_Text
  imports Signals
begin

text \<open>
  The text of a JSON value as \<^verbatim>\<open>JSON.stringify\<close> prints it, for values built from \<^verbatim>\<open>null\<close>, booleans, integers,
  strings, arrays and objects with their keys in insertion order; and the fact the signed and hashed payloads
  rest on: the text determines the value.
\<close>

section \<open>Printing\<close>

datatype jtext = TNull | TBool bool | TInt int | TStr string | TArr "jtext list" | TObj "(string \<times> jtext) list"

definition hex_digit :: "nat \<Rightarrow> char" where
  "hex_digit n = char_of (if n < 10 then 48 + n else 87 + n)"

definition short_escape :: "nat \<Rightarrow> char option" where
  "short_escape = map_of [(34, CHR 0x22), (92, CHR 0x5C), (8, CHR ''b''), (9, CHR ''t''), (10, CHR ''n''), (12, CHR ''f''), (13, CHR ''r'')]"

definition json_escape :: "char \<Rightarrow> string" where
  "json_escape c =
     (let n = (of_char c :: nat)
      in case short_escape n of
           Some x \<Rightarrow> [CHR 0x5C, x]
         | None \<Rightarrow> if n < 32 then [CHR 0x5C, CHR ''u'', CHR ''0'', CHR ''0'', hex_digit (n div 16), hex_digit (n mod 16)] else [c])"

definition json_quote :: "string \<Rightarrow> string" where
  "json_quote s = CHR 0x22 # concat (map json_escape s) @ [CHR 0x22]"

fun json_stringify :: "jtext \<Rightarrow> string" where
  "json_stringify TNull = ''null''"
| "json_stringify (TBool b) = (if b then ''true'' else ''false'')"
| "json_stringify (TInt i) = show_int i"
| "json_stringify (TStr s) = json_quote s"
| "json_stringify (TArr xs) = CHR ''['' # js_join '','' (map json_stringify xs) @ '']''"
| "json_stringify (TObj ps) = CHR ''{'' # js_join '','' (map (\<lambda>p. json_quote (fst p) @ CHR '':'' # json_stringify (snd p)) ps) @ ''}''"

section \<open>Numbers\<close>

definition is_digit :: "char \<Rightarrow> bool" where
  "is_digit c \<longleftrightarrow> 48 \<le> (of_char c :: nat) \<and> (of_char c :: nat) < 58"

definition digits_value :: "string \<Rightarrow> nat" where
  "digits_value s = foldl (\<lambda>a c. 10 * a + (of_char c - 48)) 0 s"

lemma digit_char: "d < 10 \<Longrightarrow> (of_char (char_of (48 + d :: nat) :: char) :: nat) = 48 + d"
  by simp

lemma show_nat_digits: "list_all is_digit (show_nat n)"
proof (induction n rule: show_nat.induct)
  case (1 n)
  have "is_digit (char_of (48 + n mod 10))" "n < 10 \<Longrightarrow> is_digit (char_of (48 + n))" by (simp_all add: is_digit_def digit_char)
  with 1 show ?case by (subst show_nat.simps) simp
qed

lemma show_nat_value: "digits_value (show_nat n) = n"
proof (induction n rule: show_nat.induct)
  case (1 n)
  then show ?case by (subst show_nat.simps) (auto simp: digits_value_def digit_char)
qed

text \<open>A text can only be cut after a number where no digit follows.\<close>

definition stops :: "string \<Rightarrow> bool" where
  "stops r \<longleftrightarrow> (case r of [] \<Rightarrow> True | c # _ \<Rightarrow> \<not> is_digit c)"

lemma stops_simps [simp]: "stops []" "stops (c # r) \<longleftrightarrow> \<not> is_digit c"
  by (simp_all add: stops_def)

lemma span_unique:
  assumes "list_all P a" and "list_all P b" and "a @ r = b @ s" and "r = [] \<or> \<not> P (hd r)" and "s = [] \<or> \<not> P (hd s)"
  shows "a = b \<and> r = s"
proof -
  have tw: "takeWhile P (x @ y) = x" if "list_all P x" "y = [] \<or> \<not> P (hd y)" for x y
    using that by (cases y) (auto simp: takeWhile_append list_all_iff)
  from tw [of a r] tw [of b s] assms have "a = b" by metis
  with assms(3) show ?thesis by simp
qed

lemma show_nat_cut:
  assumes "show_nat n @ r = show_nat m @ s" and "stops r" and "stops s"
  shows "n = m \<and> r = s"
proof -
  have "show_nat n = show_nat m \<and> r = s"
    using assms by (intro span_unique [OF show_nat_digits show_nat_digits]) (auto simp: stops_def split: list.splits)
  then show ?thesis using show_nat_value by metis
qed

lemma show_nat_hd: "\<exists>c cs. show_nat n = c # cs \<and> is_digit c"
  using show_nat_digits [of n] by (cases "show_nat n") auto

lemma is_digit_chars: "\<not> is_digit (CHR ''-'')" "\<not> is_digit (CHR '','')" "\<not> is_digit (CHR '']'')" "\<not> is_digit (CHR ''}'')"
  by (simp_all add: is_digit_def)

lemma show_int_cut:
  assumes "show_int i @ r = show_int j @ s" and "stops r" and "stops s"
  shows "i = j \<and> r = s"
proof -
  obtain c cs d ds where c: "show_nat (nat i) = c # cs" "is_digit c" and d: "show_nat (nat j) = d # ds" "is_digit d"
    using show_nat_hd by metis
  show ?thesis
  proof (cases "i < 0"; cases "j < 0")
    assume "i < 0" and "j < 0"
    with assms show ?thesis using show_nat_cut [of "nat (- i)" r "nat (- j)" s] by (auto simp: show_int_def)
  next
    assume "\<not> i < 0" and "\<not> j < 0"
    with assms show ?thesis using show_nat_cut [of "nat i" r "nat j" s] by (auto simp: show_int_def)
  qed (use assms c d is_digit_chars in \<open>auto simp: show_int_def\<close>)
qed

section \<open>Strings\<close>

lemma hex_digit_code: "k < 16 \<Longrightarrow> (of_char (hex_digit k) :: nat) = (if k < 10 then 48 + k else 87 + k)"
  by (simp add: hex_digit_def)

lemma hex_digit_inj:
  assumes "n < 16" and "m < 16" and "hex_digit n = hex_digit m"
  shows "n = m"
proof -
  from assms(3) have "(of_char (hex_digit n) :: nat) = of_char (hex_digit m)" by simp
  then show ?thesis unfolding hex_digit_code [OF assms(1)] hex_digit_code [OF assms(2)] using assms(1,2) by (auto split: if_splits)
qed

lemma small_hex:
  assumes "n < 32" and "m < 32" and "hex_digit (n div 16) = hex_digit (m div 16)" and "hex_digit (n mod 16) = hex_digit (m mod 16)"
  shows "n = (m :: nat)"
proof -
  have "n div 16 = m div 16" using assms(1,2) by (intro hex_digit_inj assms(3)) linarith+
  moreover have "n mod 16 = m mod 16" by (intro hex_digit_inj assms(4)) simp_all
  ultimately show ?thesis by (metis div_mult_mod_eq)
qed

lemma short_escape_inj: "short_escape n = Some x \<Longrightarrow> short_escape m = Some x \<Longrightarrow> n = m"
  by (auto simp: short_escape_def split: if_splits)

lemma short_escape_other: "short_escape n \<noteq> Some (CHR ''u'')" "short_escape n = None \<Longrightarrow> n \<noteq> 34 \<and> n \<noteq> 92"
  by (auto simp: short_escape_def split: if_splits)

lemma plain_char: "short_escape (of_char c) = None \<Longrightarrow> c \<noteq> CHR 0x5C \<and> c \<noteq> CHR 0x22"
  using short_escape_other(2) [of "of_char c"] by auto

lemma escape_cut:
  assumes "json_escape c @ r = json_escape d @ s"
  shows "c = d \<and> r = s"
proof (cases "short_escape (of_char c)"; cases "short_escape (of_char d)")
  fix x y assume e: "short_escape (of_char c) = Some x" "short_escape (of_char d) = Some y"
  with assms have "x = y \<and> r = s" by (simp add: json_escape_def)
  with e short_escape_inj [of "of_char c" x "of_char d"] show ?thesis by simp
next
  fix y assume e: "short_escape (of_char c) = None" "short_escape (of_char d) = Some y"
  with assms plain_char [OF e(1)] short_escape_other(1) [of "of_char d"] show ?thesis
    by (simp add: json_escape_def Let_def split: if_splits)
next
  fix x assume e: "short_escape (of_char c) = Some x" "short_escape (of_char d) = None"
  with assms plain_char [OF e(2)] short_escape_other(1) [of "of_char c"] show ?thesis
    by (simp add: json_escape_def Let_def split: if_splits)
next
  assume e: "short_escape (of_char c) = None" "short_escape (of_char d) = None"
  with assms plain_char [OF e(1)] plain_char [OF e(2)] small_hex [of "of_char c" "of_char d"] show ?thesis
    by (simp add: json_escape_def Let_def split: if_splits)
qed

lemma escape_hd: "json_escape c @ r \<noteq> CHR 0x22 # s"
  using plain_char [of c] by (auto simp: json_escape_def Let_def split: option.splits if_splits)

lemma escapes_cut:
  "concat (map json_escape a) @ CHR 0x22 # r = concat (map json_escape b) @ CHR 0x22 # s \<Longrightarrow> a = b \<and> r = s"
proof (induction a arbitrary: b)
  case Nil
  show ?case
  proof (cases b)
    case (Cons d b')
    with Nil.prems escape_hd [of d "concat (map json_escape b') @ CHR 0x22 # s" r] show ?thesis by simp
  qed (use Nil.prems in simp)
next
  case (Cons c a)
  show ?case
  proof (cases b)
    case Nil
    with Cons.prems escape_hd [of c "concat (map json_escape a) @ CHR 0x22 # r" s] show ?thesis by simp
  next
    case (Cons d b')
    with Cons.prems have "json_escape c @ concat (map json_escape a) @ CHR 0x22 # r = json_escape d @ concat (map json_escape b') @ CHR 0x22 # s"
      by simp
    from escape_cut [OF this] Cons.IH [of b'] Cons show ?thesis by simp
  qed
qed

lemma quote_cut: "json_quote a @ r = json_quote b @ s \<Longrightarrow> a = b \<and> r = s"
  using escapes_cut [of a r b s] by (simp add: json_quote_def)

section \<open>Values\<close>

lemma js_join_Cons: "js_join sep (x # xs) = x @ concat (map (\<lambda>y. sep @ y) xs)"
  by (induction xs arbitrary: x) simp_all

definition cuts :: "('a \<Rightarrow> string) \<Rightarrow> 'a \<Rightarrow> bool" where
  "cuts f x \<longleftrightarrow> (\<forall>y r s. stops r \<longrightarrow> stops s \<longrightarrow> f x @ r = f y @ s \<longrightarrow> x = y \<and> r = s)"

lemma cutsD: "cuts f x \<Longrightarrow> f x @ r = f y @ s \<Longrightarrow> stops r \<Longrightarrow> stops s \<Longrightarrow> x = y \<and> r = s"
  by (simp add: cuts_def)

definition tails :: "('a \<Rightarrow> string) \<Rightarrow> char \<Rightarrow> 'a list \<Rightarrow> string \<Rightarrow> string" where
  "tails f close xs r = concat (map (\<lambda>x. CHR '','' # f x) xs) @ close # r"

lemma tails_simps [simp]: "tails f close [] r = close # r" "tails f close (x # xs) r = CHR '','' # f x @ tails f close xs r"
  by (simp_all add: tails_def)

lemma tails_stop: "\<not> is_digit close \<Longrightarrow> stops (tails f close xs r)"
  by (cases xs) (simp_all add: is_digit_chars)

lemma tails_cut:
  assumes "close \<noteq> CHR '',''" and "\<not> is_digit close" and "\<And>x. x \<in> set xs \<Longrightarrow> cuts f x"
    and "tails f close xs r = tails f close ys s"
  shows "xs = ys \<and> r = s"
  using assms(3,4)
proof (induction xs arbitrary: ys)
  case Nil
  with assms(1) show ?case by (cases ys) auto
next
  case (Cons x xs)
  show ?case
  proof (cases ys)
    case Nil
    with Cons.prems assms(1) show ?thesis by auto
  next
    case (Cons y ys')
    with Cons.prems have "f x @ tails f close xs r = f y @ tails f close ys' s" by simp
    from cutsD [OF Cons.prems(1) this tails_stop tails_stop] assms(2)
    have "x = y" and "tails f close xs r = tails f close ys' s" by auto
    with Cons.IH [of ys'] Cons.prems(1) Cons show ?thesis by simp
  qed
qed

lemma joined_cut:
  assumes "close \<noteq> CHR '',''" and "\<not> is_digit close" and "\<And>x. x \<in> set xs \<Longrightarrow> cuts f x"
    and hd: "\<And>y t u. f y @ t \<noteq> close # u"
    and eq: "js_join '','' (map f xs) @ close # r = js_join '','' (map f ys) @ close # s"
  shows "xs = ys \<and> r = s"
proof -
  have join: "js_join '','' (map f (z # zs)) @ close # t = f z @ tails f close zs t" for z zs t
    by (simp add: js_join_Cons tails_def comp_def)
  show ?thesis
  proof (cases xs; cases ys)
    fix x xs' y ys' assume c: "xs = x # xs'" "ys = y # ys'"
    with eq have "f x @ tails f close xs' r = f y @ tails f close ys' s" unfolding c join by simp
    from cutsD [OF assms(3) this tails_stop tails_stop] assms(2) c(1)
    have "x = y" and "tails f close xs' r = tails f close ys' s" by auto
    with tails_cut [OF assms(1,2), of xs' f r ys' s] assms(3) c show ?thesis by simp
  next
    fix x xs' assume c: "xs = x # xs'" "ys = []"
    from eq hd [of x "tails f close xs' r" s] show ?thesis unfolding c join by simp
  next
    fix y ys' assume c: "xs = []" "ys = y # ys'"
    from eq hd [of y "tails f close ys' s" r] show ?thesis unfolding c join by simp
  qed (use eq in simp)
qed

lemma show_int_hd: "\<exists>c cs. show_int i = c # cs \<and> (is_digit c \<or> c = CHR ''-'')"
  using show_nat_hd [of "nat i"] show_nat_hd [of "nat (- i)"] by (auto simp: show_int_def)

text \<open>The first character of a text tells the kind of value.\<close>

fun kind_of :: "jtext \<Rightarrow> nat" where
  "kind_of TNull = 0" | "kind_of (TBool True) = 1" | "kind_of (TBool False) = 2" | "kind_of (TInt _) = 3"
| "kind_of (TStr _) = 4" | "kind_of (TArr _) = 5" | "kind_of (TObj _) = 6"

definition kind_of_char :: "char \<Rightarrow> nat" where
  "kind_of_char c = (if c = CHR ''n'' then 0 else if c = CHR ''t'' then 1 else if c = CHR ''f'' then 2
     else if is_digit c \<or> c = CHR ''-'' then 3 else if c = CHR 0x22 then 4 else if c = CHR ''['' then 5
     else if c = CHR ''{'' then 6 else 7)"

lemma text_hd: "\<exists>c cs. json_stringify a = c # cs \<and> kind_of_char c = kind_of a"
proof (cases a)
  case (TBool b)
  then show ?thesis by (cases b) (simp_all add: kind_of_char_def is_digit_def)
next
  case (TInt i)
  have "kind_of_char c = 3" if "is_digit c \<or> c = CHR ''-''" for c
    using that by (cases "is_digit c") (auto simp: kind_of_char_def is_digit_def)
  with TInt show_int_hd [of i] show ?thesis by (metis json_stringify.simps(3) kind_of.simps(4))
qed (simp_all add: kind_of_char_def is_digit_def json_quote_def)

lemma same_kind: "json_stringify a @ r = json_stringify b @ s \<Longrightarrow> kind_of a = kind_of b"
  by (metis text_hd append_Cons list.inject)

lemma text_not_closed: "json_stringify a @ r \<noteq> CHR '']'' # s" "json_quote k @ r \<noteq> CHR ''}'' # s"
proof -
  show "json_stringify a @ r \<noteq> CHR '']'' # s"
  proof
    assume e: "json_stringify a @ r = CHR '']'' # s"
    obtain c cs where "json_stringify a = c # cs" "kind_of_char c = kind_of a" using text_hd by blast
    with e have "kind_of a = kind_of_char (CHR '']'')" by simp
    then show False by (cases a rule: kind_of.cases) (simp_all add: kind_of_char_def is_digit_def)
  qed
qed (simp add: json_quote_def)

lemma stringify_cuts: "cuts json_stringify a"
proof (induction a)
  case TNull
  show ?case unfolding cuts_def
  proof (intro allI impI)
    fix b r s assume e: "json_stringify TNull @ r = json_stringify b @ s"
    with same_kind [OF e] show "TNull = b \<and> r = s" by (cases b rule: kind_of.cases) simp_all
  qed
next
  case (TBool x)
  show ?case unfolding cuts_def
  proof (intro allI impI)
    fix b r s assume e: "json_stringify (TBool x) @ r = json_stringify b @ s"
    with same_kind [OF e] show "TBool x = b \<and> r = s" by (cases x; cases b rule: kind_of.cases) simp_all
  qed
next
  case (TInt x)
  show ?case unfolding cuts_def
  proof (intro allI impI)
    fix b r s assume st: "stops r" "stops s" and e: "json_stringify (TInt x) @ r = json_stringify b @ s"
    from same_kind [OF e] obtain y where b: "b = TInt y" by (cases b rule: kind_of.cases) simp_all
    with e st show_int_cut [of x r y s] show "TInt x = b \<and> r = s" by simp
  qed
next
  case (TStr x)
  show ?case unfolding cuts_def
  proof (intro allI impI)
    fix b r s assume e: "json_stringify (TStr x) @ r = json_stringify b @ s"
    from same_kind [OF e] obtain y where b: "b = TStr y" by (cases b rule: kind_of.cases) simp_all
    with e quote_cut [of x r y s] show "TStr x = b \<and> r = s" by simp
  qed
next
  case (TArr xs)
  show ?case unfolding cuts_def
  proof (intro allI impI)
    fix b r s assume e: "json_stringify (TArr xs) @ r = json_stringify b @ s"
    from same_kind [OF e] obtain ys where b: "b = TArr ys" by (cases b rule: kind_of.cases) simp_all
    have "xs = ys \<and> r = s"
    proof (rule joined_cut [of "CHR '']''"])
      show "js_join '','' (map json_stringify xs) @ CHR '']'' # r = js_join '','' (map json_stringify ys) @ CHR '']'' # s"
        using e b by simp
    qed (simp_all add: TArr.IH text_not_closed is_digit_chars)
    with b show "TArr xs = b \<and> r = s" by simp
  qed
next
  case (TObj ps)
  let ?f = "\<lambda>p. json_quote (fst p) @ CHR '':'' # json_stringify (snd p)"
  have pair: "cuts ?f p" if "p \<in> set ps" for p
    unfolding cuts_def
  proof (intro allI impI)
    fix q r s assume st: "stops r" "stops s" and e: "?f p @ r = ?f q @ s"
    then have "json_quote (fst p) @ (CHR '':'' # json_stringify (snd p) @ r) = json_quote (fst q) @ (CHR '':'' # json_stringify (snd q) @ s)"
      by simp
    from quote_cut [OF this] have k: "fst p = fst q" and v: "json_stringify (snd p) @ r = json_stringify (snd q) @ s" by simp_all
    have "cuts json_stringify (snd p)" using TObj.IH [OF that, of "snd p"] by (cases p) simp
    from cutsD [OF this v st] k show "p = q \<and> r = s" by (simp add: prod_eq_iff)
  qed
  show ?case unfolding cuts_def
  proof (intro allI impI)
    fix b r s assume e: "json_stringify (TObj ps) @ r = json_stringify b @ s"
    from same_kind [OF e] obtain qs where b: "b = TObj qs" by (cases b rule: kind_of.cases) simp_all
    have "ps = qs \<and> r = s"
    proof (rule joined_cut [of "CHR ''}''" ps ?f])
      show "js_join '','' (map ?f ps) @ CHR ''}'' # r = js_join '','' (map ?f qs) @ CHR ''}'' # s" using e b by simp
    qed (simp_all add: pair text_not_closed is_digit_chars)
    with b show "TObj ps = b \<and> r = s" by simp
  qed
qed

text \<open>The text of a value determines the value.\<close>

lemma json_stringify_inj: "json_stringify a = json_stringify b \<longleftrightarrow> a = b"
  using cutsD [OF stringify_cuts [of a], of "[]" b "[]"] by auto

end
