(* ===== verification/Skill_Receipts.thy ===== *)
theory Skill_Receipts
  imports Skill_Resolver Policy Json_Text "HOL-Library.Word" "HOL-Library.List_Lexorder" "HOL-Library.Char_ord"
begin

unbundle bit_operations_syntax

text \<open>
  The evidence plane of role and skill resolution: signed receipts and their stores
  (\<^verbatim>\<open>dal/role-skill-resolution-store.ts\<close>, migration 070), context packets (\<^verbatim>\<open>lib/context-packet.ts\<close>,
  \<^verbatim>\<open>dal/context-packet-store.ts\<close>, migration 071), the assistant's lineage (\<^verbatim>\<open>lib/assistant-context-lineage.ts\<close>)
  and the shadow observer of governed writes (\<^verbatim>\<open>lib/role-skill-shadow.ts\<close>).

  Web Crypto is a parameter: \<open>cr_sha256\<close> and \<open>cr_hmac\<close> are the digests of the UTF-8 encoding of a text, \<open>None\<close> a
  rejected signing call; \<open>cr_iso\<close> renders a time, and the identifiers of new rows and the faults of the database are
  arguments of the operations that meet them.
\<close>

section \<open>Signing\<close>

record crypto =
  cr_sha256 :: "string \<Rightarrow> 8 word list"
  cr_hmac :: "string \<Rightarrow> string \<Rightarrow> 8 word list option"
  cr_iso :: "int \<Rightarrow> string"

definition b64_char :: "nat \<Rightarrow> char" where
  "b64_char n = (if n < 26 then char_of (65 + n) else if n < 52 then char_of (71 + n) else if n < 62 then char_of (n - 4)
     else if n = 62 then CHR ''+'' else CHR ''/'')"

fun btoa :: "nat list \<Rightarrow> string" where
  "btoa [] = []"
| "btoa [a] = [b64_char (a div 4), b64_char (a mod 4 * 16), CHR ''='', CHR ''='']"
| "btoa [a, b] = [b64_char (a div 4), b64_char (a mod 4 * 16 + b div 16), b64_char (b mod 16 * 4), CHR ''='']"
| "btoa (a # b # c # r) =
     [b64_char (a div 4), b64_char (a mod 4 * 16 + b div 16), b64_char (b mod 16 * 4 + c div 64), b64_char (c mod 64)] @ btoa r"

definition base64Url :: "8 word list \<Rightarrow> string" where
  "base64Url bytes =
     rev (dropWhile (\<lambda>c. c = CHR ''='')
       (rev (map (\<lambda>c. if c = CHR ''+'' then CHR ''-'' else if c = CHR ''/'' then CHR ''_'' else c) (btoa (map unat bytes)))))"

definition sha256Hex :: "crypto \<Rightarrow> string \<Rightarrow> string" where
  "sha256Hex cr payload = concat (map (\<lambda>b. [hex_digit (unat b div 16), hex_digit (unat b mod 16)]) (cr_sha256 cr payload))"

datatype signature_alg = Alg_none | HS256

record signed_receipt =
  sg_content_sha256 :: string
  sg_signature_alg :: signature_alg
  sg_signature :: "string option"
  sg_signing_key_id :: "string option"

definition signReceipt :: "crypto \<Rightarrow> string option \<Rightarrow> string \<Rightarrow> string option \<Rightarrow> signed_receipt" where
  "signReceipt cr secret payload keyId =
     (let sha = sha256Hex cr payload;
          unsigned = \<lparr>sg_content_sha256 = sha, sg_signature_alg = Alg_none, sg_signature = None, sg_signing_key_id = None\<rparr>
      in if \<not> truthy secret then unsigned
         else case cr_hmac cr (the secret) payload of
                None \<Rightarrow> unsigned
              | Some sig \<Rightarrow> \<lparr>sg_content_sha256 = sha, sg_signature_alg = HS256, sg_signature = Some (base64Url sig),
                             sg_signing_key_id = Some (the_default ''default'' keyId)\<rparr>)"

fun coverage_str :: "skill_coverage \<Rightarrow> string" where
  "coverage_str Cov_resolved = ''resolved''"
| "coverage_str No_skill_for_action = ''no_skill_for_action''"
| "coverage_str No_catalog = ''no_catalog''"

fun verdict_str :: "verdict_reason \<Rightarrow> string" where
  "verdict_str V_resolved = ''resolved''"
| "verdict_str V_tenant_mismatch = ''tenant_mismatch''"
| "verdict_str V_mode_requires_operator = ''mode_requires_operator''"
| "verdict_str V_entitlement_missing = ''entitlement_missing''"
| "verdict_str V_skill_stale = ''skill_stale''"
| "verdict_str V_skill_not_installed = ''skill_not_installed''"

definition text_or_null :: "string option \<Rightarrow> jtext" where
  "text_or_null v = (case v of None \<Rightarrow> TNull | Some s \<Rightarrow> TStr s)"

definition skill_text :: "skill_ref \<Rightarrow> jtext" where
  "skill_text s = TObj [(''key'', TStr (sk_key s)), (''version'', TStr (sk_version s))]"

record signing_context =
  sx_workspace_id :: string
  sx_principal_id :: string
  sx_actual_reason :: string
  sx_actual_allowed :: bool
  sx_issued_at :: string
  sx_resolver_source :: string
  sx_deploy_sha :: "string option"

definition resolutionSigningPayload :: "role_skill_resolution \<Rightarrow> signing_context \<Rightarrow> string" where
  "resolutionSigningPayload r ctx = json_stringify (TObj
     [(''schema_id'', TStr ''xlooop.role_skill_resolution_signature_payload.v1''),
      (''workspace_id'', TStr (sx_workspace_id ctx)),
      (''principal_id'', TStr (sx_principal_id ctx)),
      (''role'', TStr (rs_selected_role r)),
      (''action_family'', TStr (rs_safe_explanation r)),
      (''selected_skills'', TArr (map skill_text (rs_selected_skills r))),
      (''skill_coverage'', TStr (coverage_str (rs_skill_coverage r))),
      (''resolver_verdict'', TStr (verdict_str (rv_reason (rs_verdict r)))),
      (''resolver_allowed'', TBool (rv_allowed (rs_verdict r))),
      (''actual_reason'', TStr (sx_actual_reason ctx)),
      (''actual_allowed'', TBool (sx_actual_allowed ctx)),
      (''resolver_source'', TStr (sx_resolver_source ctx)),
      (''deploy_sha'', text_or_null (sx_deploy_sha ctx)),
      (''expires_at'', TStr (rs_expires_at r)),
      (''issued_at'', TStr (sx_issued_at ctx))])"

section \<open>Receipt tables\<close>

datatype agreement = Agree | Resolver_stricter | Resolver_looser

record resolution_row =
  rw_id :: string
  rw_workspace_id :: string
  rw_principal_id :: string
  rw_action :: string
  rw_mode :: string
  rw_intent_ref :: "string option"
  rw_resolution :: role_skill_resolution
  rw_actual_reason :: string
  rw_actual_allowed :: bool
  rw_agreement :: agreement
  rw_receipt :: signed_receipt
  rw_resolver_source :: string
  rw_deploy_sha :: "string option"
  rw_catalog_manifest_sha256 :: "string option"

datatype denied_by = By_entitlement | By_resolver | By_both

record denial_row =
  dn_id :: string
  dn_workspace_id :: string
  dn_principal_id :: string
  dn_role_key :: string
  dn_action :: string
  dn_mode :: string
  dn_denied_by :: denied_by
  dn_entitlement_reason :: "string option"
  dn_resolver_reason :: "string option"
  dn_safe_explanation :: string
  dn_receipt :: signed_receipt

datatype invocation_status = Invoked | Inv_completed | Inv_failed | Inv_denied

record invocation_row =
  iv_id :: string
  iv_workspace_id :: string
  iv_resolution_id :: "string option"
  iv_principal_id :: string
  iv_skill_key :: string
  iv_skill_version :: string
  iv_action :: string
  iv_status :: invocation_status
  iv_evidence_ref_ids :: "string list"
  iv_receipt :: signed_receipt

datatype closing_outcome = Attested | Cl_skipped | Cl_failed

record closing_row =
  cl_id :: string
  cl_workspace_id :: string
  cl_principal_id :: string
  cl_correlation_id :: "string option"
  cl_role_key :: string
  cl_closing_skill :: string
  cl_outcome :: closing_outcome
  cl_evidence_ref_ids :: "string list"
  cl_receipt :: signed_receipt

section \<open>Context packets\<close>

record context_scope =
  cs_event_count :: int
  cs_document_count :: int
  cs_unpromoted_document_count :: int
  cs_source_count :: int

record context_packet =
  cp_tenant :: string
  cp_principal :: string
  cp_role :: string
  cp_mode :: string
  cp_intent :: "string option"
  cp_selected_skills :: "skill_ref list"
  cp_allowed_tools :: "string list"
  cp_denied_tools :: "string list"
  cp_skill_coverage :: skill_coverage
  cp_context_scope :: context_scope
  cp_redaction_profile :: string
  cp_client_empty :: bool
  cp_generated_at :: string
  cp_stale_after_s :: int
  cp_policy_summary :: string
  cp_context_fingerprint :: string
  cp_receipt_ref :: "string option"

record context_packet_input =
  ci_tenant :: string
  ci_principal :: string
  ci_role :: string
  ci_mode :: string
  ci_intent :: "string option"
  ci_resolution :: role_skill_resolution
  ci_scope :: context_scope
  ci_redaction_profile :: string
  ci_client_empty :: bool
  ci_receipt_ref :: "string option"
  ci_stale_after_s :: "int option"

definition fnv_step :: "32 word \<Rightarrow> char \<Rightarrow> 32 word" where
  "fnv_step h c = (h XOR of_nat (of_char c)) * 0x01000193"

definition hex8 :: "32 word \<Rightarrow> string" where
  "hex8 h = map (\<lambda>k. hex_digit (unat h div 16 ^ k mod 16)) [7, 6, 5, 4, 3, 2, 1, 0]"

text \<open>\<^verbatim>\<open>h.toString(16).padStart(8, '0')\<close> of a 32-bit number is its eight hexadecimal digits.\<close>

definition fnv1a :: "string \<Rightarrow> string" where
  "fnv1a s = hex8 (foldl fnv_step 0x811c9dc5 s)"

definition DEFAULT_STALE_S :: int where
  "DEFAULT_STALE_S = 15 * 60"

definition skill_label :: "skill_ref \<Rightarrow> string" where
  "skill_label s = sk_key s @ ''@'' @ sk_version s"

definition fingerprintBody :: "context_packet_input \<Rightarrow> string" where
  "fingerprintBody input =
     (let r = ci_resolution input; sc = ci_scope input in
      json_stringify (TArr
        [TStr (ci_tenant input), TStr (ci_role input), TStr (ci_mode input), TStr (the_default [] (ci_intent input)),
         TArr (map TStr (sort (map skill_label (rs_selected_skills r)))),
         TArr (map TStr (sort (rs_allowed_tools r))), TArr (map TStr (sort (rs_denied_tools r))),
         TInt (cs_event_count sc), TInt (cs_document_count sc), TInt (cs_unpromoted_document_count sc), TInt (cs_source_count sc),
         TStr (ci_redaction_profile input), TBool (ci_client_empty input)]))"

definition policy_summary :: "context_packet_input \<Rightarrow> string" where
  "policy_summary input =
     (let sc = ci_scope input; dot = '' '' @ [CHR 0xB7] @ '' '' in
      ''Role '' @ ci_role input @ dot @ coverage_str (rs_skill_coverage (ci_resolution input)) @ dot @
      show_int (cs_event_count sc) @ '' events, '' @ show_int (cs_document_count sc) @ '' documents, '' @
      show_int (cs_source_count sc) @ '' sources in scope'' @
      (if ci_client_empty input then dot @ ''contribution-only (no grounding bundle)'' else []))"

definition buildContextPacket :: "(int \<Rightarrow> string) \<Rightarrow> context_packet_input \<Rightarrow> int \<Rightarrow> context_packet" where
  "buildContextPacket to_iso input now =
     (let r = ci_resolution input in
      \<lparr>cp_tenant = ci_tenant input, cp_principal = ci_principal input, cp_role = ci_role input, cp_mode = ci_mode input,
       cp_intent = ci_intent input, cp_selected_skills = rs_selected_skills r, cp_allowed_tools = rs_allowed_tools r,
       cp_denied_tools = rs_denied_tools r, cp_skill_coverage = rs_skill_coverage r, cp_context_scope = ci_scope input,
       cp_redaction_profile = ci_redaction_profile input, cp_client_empty = ci_client_empty input,
       cp_generated_at = to_iso now, cp_stale_after_s = the_default DEFAULT_STALE_S (ci_stale_after_s input),
       cp_policy_summary = policy_summary input, cp_context_fingerprint = fnv1a (fingerprintBody input),
       cp_receipt_ref = ci_receipt_ref input\<rparr>)"

section \<open>The fingerprint\<close>

definition hex_char :: "char \<Rightarrow> bool" where
  "hex_char c \<longleftrightarrow> (let n = (of_char c :: nat) in 48 \<le> n \<and> n < 58 \<or> 97 \<le> n \<and> n < 103)"

lemma hex_digit_hex: "k < 16 \<Longrightarrow> hex_char (hex_digit k)"
  by (simp add: hex_char_def hex_digit_code)

lemma fnv_prime_inverse: "(x * 0x01000193) * 0x359c449b = (x :: 32 word)"
proof -
  have "(0x01000193 :: 32 word) * 0x359c449b = 1" by simp
  then show ?thesis by (simp only: mult.assoc) simp
qed

lemma xor_cancel: "h XOR a = h' XOR (a :: 32 word) \<longleftrightarrow> h = h'" "h XOR a = h XOR b \<longleftrightarrow> a = (b :: 32 word)"
  by (metis xor.assoc xor_self_eq xor.right_neutral, metis xor.assoc xor_self_eq xor.left_neutral)

lemma fnv_mult_inj: "x * 0x01000193 = y * (0x01000193 :: 32 word) \<longleftrightarrow> x = y"
  using fnv_prime_inverse by metis

lemma fnv_step_inj: "fnv_step h c = fnv_step h' c \<longleftrightarrow> h = h'"
  unfolding fnv_step_def fnv_mult_inj xor_cancel ..

lemma char_word_inj: "(of_nat (of_char c) :: 32 word) = of_nat (of_char d) \<longleftrightarrow> c = d"
proof -
  have "(of_char e :: nat) < 2 ^ LENGTH(32)" for e :: char by (rule less_trans [OF nat_of_char_less_256]) simp
  then have "unat (of_nat (of_char e) :: 32 word) = of_char e" for e :: char by (simp add: unsigned_of_nat take_bit_nat_eq_self)
  then show ?thesis by (metis of_char_eq_iff)
qed

lemma fnv_step_char: "fnv_step h c = fnv_step h d \<longleftrightarrow> c = d"
  unfolding fnv_step_def fnv_mult_inj xor_cancel char_word_inj ..

lemma fnv_fold_inj: "foldl fnv_step h s = foldl fnv_step h' s \<longleftrightarrow> h = h'"
  by (induction s arbitrary: h h') (simp_all add: fnv_step_inj)

lemma hex_value: "n < 16 ^ k \<Longrightarrow> foldl (\<lambda>a j. 16 * a + n div 16 ^ j mod 16) 0 (rev [0..<k]) = (n :: nat)"
proof (induction k arbitrary: n)
  case (Suc k)
  have up: "rev [0..<Suc k] = map Suc (rev [0..<k]) @ [0]"
    by (simp add: rev_map [symmetric] map_Suc_upt upt_conv_Cons del: upt_Suc)
  have "foldl (\<lambda>a j. 16 * a + n div 16 ^ j mod 16) 0 (map Suc (rev [0..<k])) =
      foldl (\<lambda>a j. 16 * a + (n div 16) div 16 ^ j mod 16) 0 (rev [0..<k])"
    by (simp add: foldl_map div_mult2_eq)
  also have "\<dots> = n div 16" using Suc by (intro Suc.IH) (simp add: less_mult_imp_div_less mult.commute)
  finally show ?case unfolding up by simp
qed simp

lemma hex8_inj: "hex8 g = hex8 h \<longleftrightarrow> g = h"
proof
  assume eq: "hex8 g = hex8 h"
  have digit: "unat g div 16 ^ k mod 16 = unat h div 16 ^ k mod 16" if "k \<in> set [7, 6, 5, 4, 3, 2, 1, 0]" for k
    using eq that unfolding hex8_def map_eq_conv by (intro hex_digit_inj) auto
  have small: "unat w < 16 ^ 8" for w :: "32 word" using unsigned_less [of w, where 'a = nat] by simp
  have r: "rev [0..<8] = [7, 6, 5, 4, 3, 2, 1, 0 :: nat]" by (simp add: upt_conv_Cons)
  have "unat g = foldl (\<lambda>a j. 16 * a + unat g div 16 ^ j mod 16) 0 (rev [0..<8])" by (rule hex_value [OF small, symmetric])
  also have "\<dots> = foldl (\<lambda>a j. 16 * a + unat h div 16 ^ j mod 16) 0 (rev [0..<8])"
    by (rule foldl_cong) (use digit in \<open>simp_all only: r\<close>)
  also have "\<dots> = unat h" by (rule hex_value [OF small])
  finally show "g = h" by (rule unsigned_word_eqI)
qed simp

lemma fnv1a_eq: "fnv1a s = fnv1a t \<longleftrightarrow> foldl fnv_step 0x811c9dc5 s = foldl fnv_step 0x811c9dc5 t"
  by (simp add: fnv1a_def hex8_inj)

lemma fnv1a_shape: "length (fnv1a s) = 8" "list_all hex_char (fnv1a s)"
  by (simp_all add: fnv1a_def hex8_def hex_digit_hex)

text \<open>
  C29. The fingerprint of a context packet detects every change of a single character of the fingerprinted text, wherever it
  stands: two texts that differ in exactly one character never have the same fingerprint, and appending a common suffix or
  prepending a common prefix never hides a difference the fingerprints show.
\<close>

theorem fingerprint_detects_change:
  "(fnv1a (before @ c # after) = fnv1a (before @ d # after) \<longleftrightarrow> c = d) \<and>
   (fnv1a (s @ after) = fnv1a (t @ after) \<longleftrightarrow> fnv1a s = fnv1a t)"
  by (simp add: fnv1a_eq fnv_fold_inj fnv_step_char)

end
