(* ===== verification/Request_Auth.thy ===== *)
theory Request_Auth
  imports Member_Props Access_Rules Skill_Receipts
begin

text \<open>
  Authentication of a request: the store of customer connector tokens (\<^verbatim>\<open>dal/customer-token-store.ts\<close>, migrations 037
  and 100), their scopes (\<^verbatim>\<open>lib/customer-connector-scopes.ts\<close>), the verification boundary of the identity provider
  (\<^verbatim>\<open>services/clerk-token-verifier.ts\<close>) and the middleware that joins them (\<^verbatim>\<open>middleware/auth.ts\<close>).

  The identity provider's SDK is a parameter (\<open>verifyToken\<close>), as is SHA-256 (\<^const>\<open>cr_sha256\<close>).
\<close>

section \<open>Connector scopes\<close>

definition CUSTOMER_CONNECTOR_SCOPES :: "string list" where
  "CUSTOMER_CONNECTOR_SCOPES =
     [''read:session'', ''read:packets'', ''read:profiles'', ''read:templates'', ''read:status'', ''read:evidence'', ''read:metrics'',
      ''write:evidence'', ''write:tool_events'', ''write:approval_requests'']"

definition CUSTOMER_CONNECTOR_READ_SCOPES :: "string list" where
  "CUSTOMER_CONNECTOR_READ_SCOPES =
     [''read:session'', ''read:packets'', ''read:profiles'', ''read:templates'', ''read:status'', ''read:evidence'', ''read:metrics'']"

definition CUSTOMER_CONNECTOR_OPERATOR_SCOPES :: "string list" where
  "CUSTOMER_CONNECTOR_OPERATOR_SCOPES =
     CUSTOMER_CONNECTOR_READ_SCOPES @ [''write:evidence'', ''write:tool_events'', ''write:approval_requests'']"

datatype customer_scope_request = Scopes_ok string "string list" | Scopes_refused string

definition resolveRequestedCustomerScopes :: "string \<Rightarrow> bool \<Rightarrow> customer_scope_request" where
  "resolveRequestedCustomerScopes rawScope operationalTokensEnabled =
     (let requested = non_empty (split_ws (js_trim rawScope)) in
      if requested = [] \<or> requested = [''viewer''] then Scopes_ok ''viewer'' CUSTOMER_CONNECTOR_READ_SCOPES
      else if requested = [''operator''] then
        (if operationalTokensEnabled then Scopes_ok ''operator'' CUSTOMER_CONNECTOR_OPERATOR_SCOPES
         else Scopes_refused ''operator scope is not enabled for this deployment'')
      else
        (let unique = js_set requested;
             unknown = filter (\<lambda>s. s \<notin> set CUSTOMER_CONNECTOR_SCOPES) unique;
             hasWrite = list_ex (\<lambda>s. js_starts_with s ''write:'') unique
         in if unknown \<noteq> [] then Scopes_refused (''unsupported scope: '' @ js_join '', '' unknown)
            else if ''read:session'' \<notin> set unique then Scopes_refused ''read:session is required for every connector token''
            else if hasWrite \<and> \<not> operationalTokensEnabled then Scopes_refused ''write scopes are not enabled for this deployment''
            else Scopes_ok (if hasWrite then ''operator'' else ''viewer'') unique))"

text \<open>\<^verbatim>\<open>method.toUpperCase()\<close>; a request method is an ASCII token.\<close>

definition ascii_upper :: "string \<Rightarrow> string" where
  "ascii_upper s = map (\<lambda>c. let n = (of_char c :: nat) in if 97 \<le> n \<and> n \<le> 122 then char_of (n - 32) else c) s"

definition starts_any :: "string \<Rightarrow> string list \<Rightarrow> bool" where
  "starts_any path ps = list_ex (js_starts_with path) ps"

definition session_paths :: "string list" where
  "session_paths = [''/api/v1/whoami'', ''/api/v1/mcp/whoami'', ''/api/v1/mcp/session-start'', ''/api/v1/mcp/tools'', ''/api/v1/mcp/rpc'']"

definition requiredCustomerScope :: "string \<Rightarrow> string \<Rightarrow> string option" where
  "requiredCustomerScope method path =
     (let verb = ascii_upper method; got = (verb = ''GET''); posted = (verb = ''POST'') in
      if path \<in> set session_paths then Some ''read:session''
      else if got \<and> starts_any path [''/api/v1/packets'', ''/api/v1/mcp/task-packets'', ''/api/v1/mcp/current-work'', ''/api/v1/mcp/events'', ''/api/v1/mcp/plan/'']
      then Some ''read:packets''
      else if got \<and> starts_any path [''/api/v1/evidence'', ''/api/v1/mcp/evidence'', ''/api/v1/mcp/receipts'', ''/api/v1/mcp/documents'', ''/api/v1/mcp/sources'']
      then Some ''read:evidence''
      else if got \<and> starts_any path [''/api/v1/template-policy/effective-templates''] then Some ''read:templates''
      else if got \<and> starts_any path [''/api/v1/template-policy/effective-snapshots'', ''/api/v1/template-policy/personalization/effective-profile'']
      then Some ''read:profiles''
      else if got \<and> starts_any path [''/api/v1/metric-deltas'', ''/api/v1/mcp/status''] then Some ''read:metrics''
      else if got \<and> starts_any path [''/api/v1/approvals'', ''/api/v1/tool-events'', ''/api/v1/template-policy/status''] then Some ''read:status''
      else if posted \<and> path \<in> {''/api/v1/evidence'', ''/api/v1/mcp/evidence''} then Some ''write:evidence''
      else if posted \<and> path \<in> {''/api/v1/tool-events'', ''/api/v1/mcp/tool-events''} then Some ''write:tool_events''
      else if posted \<and> path \<in> {''/api/v1/approvals'', ''/api/v1/mcp/approval-requests''} then Some ''write:approval_requests''
      else None)"

section \<open>The token store\<close>

datatype authority_mode = Tenant_service | Delegated_user

record token_row =
  tk_id :: string
  tk_workspace_id :: string
  tk_sha256 :: string
  tk_role :: string
  tk_label :: string
  tk_packet_prefix :: string
  tk_scopes :: "string list"
  tk_authority_mode :: authority_mode
  tk_issuer_membership_activated_at :: "int option"
  tk_created_by :: string
  tk_created_at :: int
  tk_expires_at :: int
  tk_revoked_at :: "int option"
  tk_revoked_by :: "string option"
  tk_last_used_at :: "int option"

record create_token_input =
  ct_workspace_id :: string
  ct_token_sha256 :: string
  ct_role :: string
  ct_label :: string
  ct_packet_prefix :: string
  ct_scopes :: "string list"
  ct_authority_mode :: "authority_mode option"
  ct_issuer_membership_activated_at :: "int option"
  ct_created_by :: string
  ct_expires_at :: timestamp

datatype token_error = T_dal dal_error | T_constraint string

text \<open>What a reader gets: the row without its hash, and whether the issuing membership is alive.\<close>

record customer_api_token =
  cat_row :: token_row
  cat_issuer_membership_active :: bool

definition hex64 :: "string \<Rightarrow> bool" where
  "hex64 s \<longleftrightarrow> length s = 64 \<and> list_all is_lower_hex s"

definition hashToken :: "crypto \<Rightarrow> string \<Rightarrow> string" where
  "hashToken cr raw = sha256Hex cr raw"

definition createCustomerTokenRow ::
  "string \<Rightarrow> int \<Rightarrow> workspace_row list \<Rightarrow> create_token_input \<Rightarrow> token_row list \<Rightarrow> token_error + token_row list \<times> customer_api_token" where
  "createCustomerTokenRow nano now workspaces input ts =
     (if \<not> hex64 (ct_token_sha256 input)
      then Inl (T_dal (makeError ''VALIDATION_ERROR'' ''token_sha256 must be 64 lower-case hex chars'' 400))
      else if ct_role input \<noteq> ''viewer'' \<and> ct_role input \<noteq> ''operator''
      then Inl (T_dal (makeError ''VALIDATION_ERROR'' ''role must be viewer or operator'' 400))
      else
        (let tid = ''cat_'' @ nano; mode = the_default Tenant_service (ct_authority_mode input) in
         case date_parse (ct_expires_at input) of
           None \<Rightarrow> Inl (T_constraint ''invalid input syntax for type timestamp with time zone'')
         | Some expiry \<Rightarrow>
             let row = \<lparr>tk_id = tid, tk_workspace_id = ct_workspace_id input, tk_sha256 = ct_token_sha256 input, tk_role = ct_role input,
                        tk_label = ct_label input, tk_packet_prefix = ct_packet_prefix input, tk_scopes = ct_scopes input,
                        tk_authority_mode = mode, tk_issuer_membership_activated_at = ct_issuer_membership_activated_at input,
                        tk_created_by = ct_created_by input, tk_created_at = now, tk_expires_at = expiry, tk_revoked_at = None,
                        tk_revoked_by = None, tk_last_used_at = None\<rparr>
             in if list_ex (\<lambda>t. tk_id t = tid) ts then Inl (T_constraint ''customer_api_tokens_pkey'')
                else if \<not> list_ex (\<lambda>w. ws_id w = ct_workspace_id input) workspaces
                then Inl (T_constraint ''customer_api_tokens_workspace_id_fkey'')
                else if list_ex (\<lambda>t. tk_sha256 t = ct_token_sha256 input) ts then Inl (T_constraint ''customer_api_tokens_token_sha256_key'')
                else if 80 < length (ct_label input) then Inl (T_constraint ''customer_api_tokens_label_check'')
                else if 64 < length (ct_packet_prefix input) then Inl (T_constraint ''customer_api_tokens_packet_prefix_check'')
                else if mode = Delegated_user \<and> ct_issuer_membership_activated_at input = None
                then Inl (T_constraint ''customer_api_tokens_delegated_membership_check'')
                else Inr (ts @ [row], \<lparr>cat_row = row, cat_issuer_membership_active = True\<rparr>)))"

definition issuer_active :: "member_row list \<Rightarrow> token_row \<Rightarrow> bool" where
  "issuer_active members t \<longleftrightarrow> tk_authority_mode t = Tenant_service \<or>
     list_ex (\<lambda>m. wm_workspace_id m = tk_workspace_id t \<and> wm_user_id m = tk_created_by t \<and> wm_status m = ''active'' \<and>
       wm_removed_at m = None \<and> wm_activated_at m \<noteq> None \<and> wm_activated_at m = tk_issuer_membership_activated_at t) members"

definition getCustomerTokenByHashRow :: "member_row list \<Rightarrow> token_row list \<Rightarrow> string \<Rightarrow> customer_api_token option" where
  "getCustomerTokenByHashRow members ts tokenSha256 =
     (if \<not> hex64 tokenSha256 then None
      else map_option (\<lambda>t. \<lparr>cat_row = t, cat_issuer_membership_active = issuer_active members t\<rparr>)
             (find (\<lambda>t. tk_sha256 t = tokenSha256 \<and> tk_revoked_at t = None) ts))"

definition touchCustomerTokenRow :: "int \<Rightarrow> string \<Rightarrow> token_row list \<Rightarrow> token_row list" where
  "touchCustomerTokenRow now tid ts = map (\<lambda>t. if tk_id t = tid then t\<lparr>tk_last_used_at := Some now\<rparr> else t) ts"

definition revokeCustomerTokenRow ::
  "int \<Rightarrow> string \<Rightarrow> string \<Rightarrow> string \<Rightarrow> token_row list \<Rightarrow> token_error + token_row list \<times> customer_api_token" where
  "revokeCustomerTokenRow now workspaceId tid revokedBy ts =
     (let hit = (\<lambda>t. tk_id t = tid \<and> tk_workspace_id t = workspaceId \<and> tk_revoked_at t = None);
          kill = (\<lambda>t. t\<lparr>tk_revoked_at := Some now, tk_revoked_by := Some revokedBy\<rparr>)
      in case find hit ts of
           None \<Rightarrow> Inl (T_dal (makeError ''NOT_FOUND'' (''token '' @ tid @ '' not found, not yours, or already revoked'') 404))
         | Some t \<Rightarrow> Inr (map (\<lambda>x. if hit x then kill x else x) ts, \<lparr>cat_row = kill t, cat_issuer_membership_active = True\<rparr>))"

definition listCustomerTokensRow :: "string \<Rightarrow> token_row list \<Rightarrow> customer_api_token list" where
  "listCustomerTokensRow workspaceId ts =
     map (\<lambda>t. \<lparr>cat_row = t, cat_issuer_membership_active = True\<rparr>)
       (take 100 (sort_key (\<lambda>t. - tk_created_at t) (filter (\<lambda>t. tk_workspace_id t = workspaceId) ts)))"

section \<open>The identity provider\<close>

record clerk_claims =
  jc_sub :: "string option"
  jc_org_id :: "string option"
  jc_org_role :: "string option"
  jc_exp :: int
  jc_email :: "string option"

text \<open>The SDK rejects with a message, or resolves with a value: a record with optional \<^verbatim>\<open>errors\<close> and \<^verbatim>\<open>data\<close>, or claims of its own.\<close>

datatype sdk_result =
    Sdk_rejected string
  | Sdk_other
  | Sdk_record (sdk_errors: "string list") (sdk_data: "clerk_claims option") (sdk_own: clerk_claims)

definition unwrapClerkVerificationResult :: "sdk_result \<Rightarrow> string + clerk_claims" where
  "unwrapClerkVerificationResult r =
     (case r of
        Sdk_rejected e \<Rightarrow> Inl e
      | Sdk_other \<Rightarrow> Inl ''Clerk token verification returned an invalid result''
      | Sdk_record errors data own \<Rightarrow>
          if errors \<noteq> [] then Inl (hd errors)
          else case data of
                 Some c \<Rightarrow> Inr c
               | None \<Rightarrow> if jc_sub own \<noteq> None then Inr own else Inl ''Clerk token verification returned no claims'')"

definition trimmed :: "string option \<Rightarrow> string option" where
  "trimmed v = (case v of None \<Rightarrow> None | Some s \<Rightarrow> if js_trim s = [] then None else Some (js_trim s))"

type_synonym verify_token = "string \<Rightarrow> string option \<Rightarrow> string option \<Rightarrow> string list \<Rightarrow> sdk_result"

definition verifyClerkSessionToken :: "verify_token \<Rightarrow> string \<Rightarrow> string option \<Rightarrow> string option \<Rightarrow> string list \<Rightarrow> string + clerk_claims" where
  "verifyClerkSessionToken verifyToken token secret_key jwt_key parties =
     (if trimmed secret_key = None \<and> trimmed jwt_key = None then Inl ''Clerk JWT verification key is not configured''
      else unwrapClerkVerificationResult (verifyToken token (trimmed secret_key) (trimmed jwt_key) parties))"

definition clerkAuthorizedParties :: "string option \<Rightarrow> string list" where
  "clerkAuthorizedParties v =
     (let configured = non_empty (map js_trim (js_split (CHR '','') (or_else v [])))
      in if configured \<noteq> [] then configured else [''https://app.xlooop.com'', ''https://www.xlooop.com''])"

section \<open>The middleware\<close>

text \<open>The one message with a dash outside Latin-1 is written with a hyphen.\<close>

record auth_env =
  ae_CLERK_SECRET_KEY :: "string option"
  ae_CLERK_JWT_KEY :: "string option"
  ae_CANARY_API_TOKEN_SHA256 :: "string option"
  ae_CANARY_LIFECYCLE_TOKEN_SHA256 :: "string option"
  ae_CANARY_WORKSPACE_ID :: "string option"
  ae_DATABASE_URL :: "string option"
  ae_CUSTOMER_API_TOKENS_ENABLED :: "string option"
  ae_CLERK_AUTHORIZED_PARTIES :: "string option"
  ae_crypto :: crypto
  ae_verify :: verify_token
  ae_lookup_up :: bool
  ae_now :: int

record auth_opts =
  ao_requireOrg :: "bool option"
  ao_allowCanary :: "bool option"
  ao_allowCustomerToken :: "bool option"

record auth_request =
  aq_authorization :: "string option"
  aq_method :: string
  aq_pathname :: string

datatype auth_result = Auth_ok auth_context | Auth_refused nat string string

datatype canary_result = Canary_matched auth_context | Canary_forbidden | Canary_miss

definition normalizeSha256Hex :: "string option \<Rightarrow> string" where
  "normalizeSha256Hex v = (let clean = js_lower (js_trim (or_else v [])) in if hex64 clean then clean else [])"

text \<open>The comparison accumulates the differing bits of all 64 positions.\<close>

definition timingSafeHexEqual :: "string \<Rightarrow> string \<Rightarrow> bool" where
  "timingSafeHexEqual a b =
     (if length a \<noteq> 64 \<or> length b \<noteq> 64 then False
      else foldl (\<lambda>diff i. diff OR (of_char (a ! i) XOR of_char (b ! i))) (0 :: nat) [0..<64] = 0)"

definition isCustomerConnectorCredential :: "string \<Rightarrow> bool" where
  "isCustomerConnectorCredential v =
     (let s = js_lower v in (js_starts_with s ''xlk_ro_'' \<or> js_starts_with s ''xlk_op_'') \<and> hex64 (drop 7 s))"

definition canaryAuth :: "auth_env \<Rightarrow> string \<Rightarrow> auth_opts \<Rightarrow> canary_result" where
  "canaryAuth env token opts =
     (let readHash = normalizeSha256Hex (ae_CANARY_API_TOKEN_SHA256 env);
          lifecycleHash = normalizeSha256Hex (ae_CANARY_LIFECYCLE_TOKEN_SHA256 env);
          workspaceId = map_option js_trim (ae_CANARY_WORKSPACE_ID env);
          tokenHash = sha256Hex (ae_crypto env) token;
          isRead = readHash \<noteq> [] \<and> timingSafeHexEqual tokenHash readHash;
          isLifecycle = lifecycleHash \<noteq> [] \<and> timingSafeHexEqual tokenHash lifecycleHash
      in if readHash = [] \<and> lifecycleHash = [] \<or> \<not> truthy workspaceId then Canary_miss
         else if \<not> isRead \<and> \<not> isLifecycle then Canary_miss
         else if ao_allowCanary opts \<noteq> Some True then Canary_forbidden
         else Canary_matched (empty_auth
           \<lparr>au_user_id := Some (if isLifecycle then ''svc_xlooop_canary_lifecycle'' else ''svc_xlooop_canary''),
            au_workspace_id := workspaceId,
            au_role := Some (if isLifecycle then ''operator'' else ''viewer''),
            au_auth_method := Some ''service_principal'',
            au_client_id := Some (if isLifecycle then ''xlooop-canary-lifecycle'' else ''xlooop-canary-read''),
            au_email := Some (if isLifecycle then ''svc_xlooop_canary_lifecycle@xlooop.local'' else ''svc_xlooop_canary@xlooop.local''),
            au_service_principal := Some (if isLifecycle then ''canary_lifecycle'' else ''canary_read'')\<rparr>))"

datatype customer_result = Cust_matched auth_context string | Cust_expired | Cust_authority_revoked | Cust_scope_denied | Cust_miss | Cust_error

definition token_context :: "token_row \<Rightarrow> auth_context" where
  "token_context t = empty_auth
     \<lparr>au_user_id := Some (''svc_customer_'' @ tk_id t), au_workspace_id := Some (tk_workspace_id t), au_role := Some (tk_role t),
      au_auth_method := Some ''service_principal'', au_service_principal := Some ''customer_token'',
      au_client_id := Some (''customer-'' @ tk_role t), au_token_expires_at := Some (At (tk_expires_at t)),
      au_packet_prefix := Some (tk_packet_prefix t), au_connector_scopes := Some (tk_scopes t),
      au_delegated_by_user_id := (if tk_authority_mode t = Delegated_user then Some (tk_created_by t) else None)\<rparr>"

definition customerTokenAuth :: "auth_env \<Rightarrow> auth_request \<Rightarrow> string \<Rightarrow> auth_opts \<Rightarrow> member_row list \<Rightarrow> token_row list \<Rightarrow> customer_result" where
  "customerTokenAuth env req token opts members ts =
     (if ao_allowCustomerToken opts \<noteq> Some True then Cust_miss
      else if \<not> envFlagTrue (ae_CUSTOMER_API_TOKENS_ENABLED env) then Cust_miss
      else if CHR ''.'' \<in> set token then Cust_miss
      else if \<not> truthy (ae_DATABASE_URL env) then Cust_miss
      else if \<not> ae_lookup_up env then Cust_error
      else case getCustomerTokenByHashRow members ts (sha256Hex (ae_crypto env) token) of
             None \<Rightarrow> Cust_miss
           | Some v \<Rightarrow>
               (let t = cat_row v in
                if tk_expires_at t \<le> ae_now env then Cust_expired
                else if \<not> cat_issuer_membership_active v then Cust_authority_revoked
                else case requiredCustomerScope (aq_method req) (aq_pathname req) of
                       None \<Rightarrow> Cust_scope_denied
                     | Some scope \<Rightarrow> if scope \<notin> set (tk_scopes t) then Cust_scope_denied else Cust_matched (token_context t) (tk_id t)))"

definition session_auth :: "auth_env \<Rightarrow> string \<Rightarrow> bool \<Rightarrow> auth_result" where
  "session_auth env token requireOrg =
     (case verifyClerkSessionToken (ae_verify env) token (ae_CLERK_SECRET_KEY env) (ae_CLERK_JWT_KEY env)
             (clerkAuthorizedParties (ae_CLERK_AUTHORIZED_PARTIES env)) of
        Inl msg \<Rightarrow> Auth_refused 401 ''UNAUTHORIZED'' (''Token verification failed: '' @ msg)
      | Inr c \<Rightarrow>
          if \<not> truthy (jc_sub c) then Auth_refused 401 ''UNAUTHORIZED'' ''JWT missing sub claim''
          else if requireOrg \<and> \<not> truthy (jc_org_id c)
          then Auth_refused 403 ''FORBIDDEN'' ''JWT missing org_id - personal sessions cannot access workspace data''
          else Auth_ok (empty_auth
            \<lparr>au_user_id := jc_sub c, au_workspace_id := Some (the_default [] (jc_org_id c)),
             au_role := Some (clerkRoleToWorkspaceRole (jc_org_role c)), au_auth_method := Some ''clerk_jwt'',
             au_client_id := Some ''clerk_user'',
             au_token_expires_at := (if jc_exp c \<noteq> 0 then Some (At (jc_exp c * 1000)) else None), au_email := jc_email c\<rparr>))"

definition clerkAuth :: "auth_env \<Rightarrow> auth_opts \<Rightarrow> auth_request \<Rightarrow> member_row list \<Rightarrow> token_row list \<Rightarrow> auth_result \<times> token_row list" where
  "clerkAuth env opts req members ts =
     (let requireOrg = (ao_requireOrg opts \<noteq> Some False); header = or_else (aq_authorization req) [] in
      if header = [] \<or> \<not> js_starts_with (js_lower header) ''bearer ''
      then (Auth_refused 401 ''UNAUTHORIZED'' ''Missing or invalid Authorization header'', ts)
      else
        (let token = js_trim (drop 7 header) in
         if token = [] then (Auth_refused 401 ''UNAUTHORIZED'' ''Bearer token is empty'', ts)
         else case canaryAuth env token opts of
                Canary_matched auth \<Rightarrow> (Auth_ok auth, ts)
              | Canary_forbidden \<Rightarrow> (Auth_refused 403 ''FORBIDDEN'' ''canary service-principal is not allowed on this route'', ts)
              | Canary_miss \<Rightarrow>
                  (case customerTokenAuth env req token opts members ts of
                     Cust_matched auth tid \<Rightarrow> (Auth_ok auth, touchCustomerTokenRow (ae_now env) tid ts)
                   | Cust_expired \<Rightarrow> (Auth_refused 401 ''UNAUTHORIZED'' ''customer connector token has expired'', ts)
                   | Cust_authority_revoked \<Rightarrow>
                       (Auth_refused 401 ''AUTHORITY_REVOKED'' ''the connector authorizing membership is no longer active'', ts)
                   | Cust_scope_denied \<Rightarrow> (Auth_refused 403 ''FORBIDDEN'' ''connector token scope does not authorize this operation'', ts)
                   | Cust_error \<Rightarrow>
                       (Auth_refused 503 ''SERVICE_UNAVAILABLE'' ''token verification is temporarily unavailable; retry'', ts)
                   | Cust_miss \<Rightarrow>
                       if isCustomerConnectorCredential token
                       then (Auth_refused 401 ''UNAUTHORIZED'' ''customer connector token is invalid or revoked'', ts)
                       else (session_auth env token requireOrg, ts))))"

section \<open>Who is let in\<close>

lemma xor_nat_zero: "(x :: nat) XOR y = 0 \<longleftrightarrow> x = y"
  by (auto simp: bit_eq_iff bit_xor_iff)

lemma or_nat_zero: "(x :: nat) OR y = 0 \<longleftrightarrow> x = 0 \<and> y = 0"
  by (auto simp: bit_eq_iff bit_or_iff)

lemma diff_zero: "foldl (\<lambda>diff i. diff OR (f i XOR g i)) (d :: nat) is = 0 \<longleftrightarrow> d = 0 \<and> (\<forall>i \<in> set is. f i = g i)"
  by (induction "is" arbitrary: d) (auto simp: or_nat_zero xor_nat_zero)

lemma timingSafeHexEqual_iff: "timingSafeHexEqual a b \<longleftrightarrow> length a = 64 \<and> a = b"
  by (auto simp: timingSafeHexEqual_def diff_zero intro!: nth_equalityI)

lemma normalized_hash: "normalizeSha256Hex v \<noteq> [] \<Longrightarrow> hex64 (normalizeSha256Hex v)"
  by (simp add: normalizeSha256Hex_def Let_def split: if_splits)

definition bearer :: "auth_request \<Rightarrow> string option" where
  "bearer req = (let header = or_else (aq_authorization req) [] in
     if js_starts_with (js_lower header) ''bearer '' \<and> js_trim (drop 7 header) \<noteq> [] then Some (js_trim (drop 7 header)) else None)"

definition live_token :: "auth_env \<Rightarrow> auth_request \<Rightarrow> member_row list \<Rightarrow> string \<Rightarrow> token_row \<Rightarrow> bool" where
  "live_token env req members token t \<longleftrightarrow> tk_sha256 t = sha256Hex (ae_crypto env) token \<and> tk_revoked_at t = None \<and> ae_now env < tk_expires_at t \<and>
     issuer_active members t \<and> (\<exists>s. requiredCustomerScope (aq_method req) (aq_pathname req) = Some s \<and> s \<in> set (tk_scopes t))"

lemma customer_matched:
  assumes "customerTokenAuth env req token opts members ts = Cust_matched auth tid"
  obtains t where "t \<in> set ts" and "live_token env req members token t" and "auth = token_context t" and "tid = tk_id t"
    and "ao_allowCustomerToken opts = Some True" and "envFlagTrue (ae_CUSTOMER_API_TOKENS_ENABLED env)"
proof -
  have found: "find P ts = Some t \<Longrightarrow> t \<in> set ts \<and> P t" for P t by (auto simp: find_Some_iff)
  show thesis
    using assms that
    by (auto simp: customerTokenAuth_def getCustomerTokenByHashRow_def live_token_def Let_def dest!: found split: if_splits option.splits)
qed

definition canary_hash :: "auth_env \<Rightarrow> string \<Rightarrow> bool" where
  "canary_hash env h \<longleftrightarrow> h \<noteq> [] \<and> (h = normalizeSha256Hex (ae_CANARY_API_TOKEN_SHA256 env) \<or> h = normalizeSha256Hex (ae_CANARY_LIFECYCLE_TOKEN_SHA256 env))"

lemma canary_matched:
  assumes "canaryAuth env token opts = Canary_matched auth"
  shows "ao_allowCanary opts = Some True" and "canary_hash env (sha256Hex (ae_crypto env) token)"
    and "au_workspace_id auth = map_option js_trim (ae_CANARY_WORKSPACE_ID env)"
    and "au_service_principal auth \<in> {Some ''canary_read'', Some ''canary_lifecycle''}"
    and "au_delegated_by_user_id auth = None"
  using assms by (auto simp: canaryAuth_def canary_hash_def Let_def timingSafeHexEqual_iff empty_auth_def split: if_splits)

text \<open>The identities the doors grant, all fields of them.\<close>

definition canary_identity :: "string option \<Rightarrow> bool \<Rightarrow> auth_context" where
  "canary_identity workspace lifecycle =
     (let name = (if lifecycle then ''svc_xlooop_canary_lifecycle'' else ''svc_xlooop_canary'')
      in empty_auth\<lparr>au_user_id := Some name, au_workspace_id := workspace, au_role := Some (if lifecycle then ''operator'' else ''viewer''),
           au_auth_method := Some ''service_principal'', au_client_id := Some (if lifecycle then ''xlooop-canary-lifecycle'' else ''xlooop-canary-read''),
           au_email := Some (name @ ''@xlooop.local''), au_service_principal := Some (if lifecycle then ''canary_lifecycle'' else ''canary_read'')\<rparr>)"

definition session_identity :: "clerk_claims \<Rightarrow> auth_context" where
  "session_identity c = empty_auth\<lparr>au_user_id := jc_sub c, au_workspace_id := Some (the_default [] (jc_org_id c)),
     au_role := Some (clerkRoleToWorkspaceRole (jc_org_role c)), au_auth_method := Some ''clerk_jwt'', au_client_id := Some ''clerk_user'',
     au_token_expires_at := (if jc_exp c \<noteq> 0 then Some (At (jc_exp c * 1000)) else None), au_email := jc_email c\<rparr>"

lemma canary_identity_matched:
  assumes "canaryAuth env token opts = Canary_matched auth"
  shows "truthy (map_option js_trim (ae_CANARY_WORKSPACE_ID env))"
    and "auth = canary_identity (map_option js_trim (ae_CANARY_WORKSPACE_ID env))
      (sha256Hex (ae_crypto env) token = normalizeSha256Hex (ae_CANARY_LIFECYCLE_TOKEN_SHA256 env))"
proof -
  let ?ws = "map_option js_trim (ae_CANARY_WORKSPACE_ID env)" and ?h = "sha256Hex (ae_crypto env) token"
  let ?r = "normalizeSha256Hex (ae_CANARY_API_TOKEN_SHA256 env)" and ?l = "normalizeSha256Hex (ae_CANARY_LIFECYCLE_TOKEN_SHA256 env)"
  note body = assms [unfolded canaryAuth_def Let_def]
  from body have ws: "truthy ?ws" by (auto split: if_splits)
  from canary_matched(2) [OF assms] have h: "length ?h = 64" "?h = ?r \<or> ?h = ?l" "?h \<noteq> []"
    using normalized_hash by (auto simp: canary_hash_def hex64_def)
  have l: "(?l \<noteq> [] \<and> timingSafeHexEqual ?h ?l) = (?h = ?l)" using h(1) by (auto simp: timingSafeHexEqual_iff)
  show "truthy ?ws" by (rule ws)
  show "auth = canary_identity ?ws (?h = ?l)"
  proof (cases "?h = ?l")
    case True
    with body show ?thesis unfolding l by (simp add: canary_identity_def split: if_splits)
  next
    case False
    with body show ?thesis unfolding l by (simp add: canary_identity_def split: if_splits)
  qed
qed

lemma session_ok:
  assumes "session_auth env token org = Auth_ok auth"
  obtains c where "verifyClerkSessionToken (ae_verify env) token (ae_CLERK_SECRET_KEY env) (ae_CLERK_JWT_KEY env)
      (clerkAuthorizedParties (ae_CLERK_AUTHORIZED_PARTIES env)) = Inr c"
    and "truthy (jc_sub c)" and "org \<Longrightarrow> truthy (jc_org_id c)" and "au_user_id auth = jc_sub c"
    and "au_workspace_id auth = Some (the_default [] (jc_org_id c))" and "au_role auth = Some (clerkRoleToWorkspaceRole (jc_org_role c))"
    and "au_service_principal auth = None" and "au_delegated_by_user_id auth = None"
  using assms by (auto simp: session_auth_def empty_auth_def split: sum.splits if_splits)

lemma session_identity_ok:
  assumes "session_auth env token org = Auth_ok auth"
  obtains c where "verifyClerkSessionToken (ae_verify env) token (ae_CLERK_SECRET_KEY env) (ae_CLERK_JWT_KEY env)
      (clerkAuthorizedParties (ae_CLERK_AUTHORIZED_PARTIES env)) = Inr c"
    and "truthy (jc_sub c)" and "org \<Longrightarrow> truthy (jc_org_id c)" and "auth = session_identity c"
  using assms by (auto simp: session_auth_def session_identity_def split: sum.splits if_splits)

lemma clerkAuth_cases:
  assumes "clerkAuth env opts req members ts = (Auth_ok auth, ts')"
  obtains (canary) token where "bearer req = Some token" and "canaryAuth env token opts = Canary_matched auth" and "ts' = ts"
    | (customer) token tid where "bearer req = Some token" and "customerTokenAuth env req token opts members ts = Cust_matched auth tid"
        and "ts' = touchCustomerTokenRow (ae_now env) tid ts"
    | (human) token where "bearer req = Some token" and "session_auth env token (ao_requireOrg opts \<noteq> Some False) = Auth_ok auth" and "ts' = ts"
proof -
  define header where "header = or_else (aq_authorization req) []"
  define token where "token = js_trim (drop 7 header)"
  note body = assms [unfolded clerkAuth_def Let_def header_def [symmetric] token_def [symmetric]]
  from body have h: "\<not> (header = [] \<or> \<not> js_starts_with (js_lower header) ''bearer '')" by (rule contrapos_pn) simp
  note body = body [unfolded if_not_P [OF h]]
  from body have t: "token \<noteq> []" by (rule contrapos_pn) simp
  note body = body [unfolded if_not_P [OF t]]
  have b: "bearer req = Some token"
    unfolding bearer_def Let_def header_def [symmetric] token_def [symmetric] using h t by (simp only: de_Morgan_disj not_not simp_thms if_True)
  show thesis
  proof (cases "canaryAuth env token opts")
    case (Canary_matched x)
    with body canary [OF b] show ?thesis by simp
  next
    case Canary_forbidden
    with body show ?thesis by simp
  next
    case Canary_miss
    note body = body [unfolded Canary_miss canary_result.case]
    show ?thesis
    proof (cases "customerTokenAuth env req token opts members ts")
      case (Cust_matched x i)
      with body customer [OF b] show ?thesis by simp
    next
      case Cust_miss
      with body human [OF b] show ?thesis by (simp split: if_splits)
    qed (use body in simp_all)
  qed
qed

text \<open>The three doors: what a token must be to pass, the identity it then has, and what the use leaves in the token table.\<close>

datatype auth_door = Canary_door | Connector_door | Session_door

fun passes :: "auth_env \<Rightarrow> auth_opts \<Rightarrow> auth_request \<Rightarrow> member_row list \<Rightarrow> token_row list \<Rightarrow> string \<Rightarrow> auth_door \<Rightarrow> auth_context \<times> token_row list \<Rightarrow> bool" where
  "passes env opts req members ts token Canary_door (auth, ts') \<longleftrightarrow>
     ao_allowCanary opts = Some True \<and> truthy (map_option js_trim (ae_CANARY_WORKSPACE_ID env)) \<and> canary_hash env (sha256Hex (ae_crypto env) token) \<and>
     auth = canary_identity (map_option js_trim (ae_CANARY_WORKSPACE_ID env))
       (sha256Hex (ae_crypto env) token = normalizeSha256Hex (ae_CANARY_LIFECYCLE_TOKEN_SHA256 env)) \<and> ts' = ts"
| "passes env opts req members ts token Connector_door (auth, ts') \<longleftrightarrow>
     ao_allowCustomerToken opts = Some True \<and> envFlagTrue (ae_CUSTOMER_API_TOKENS_ENABLED env) \<and>
     (\<exists>t \<in> set ts. live_token env req members token t \<and> auth = token_context t \<and> ts' = touchCustomerTokenRow (ae_now env) (tk_id t) ts)"
| "passes env opts req members ts token Session_door (auth, ts') \<longleftrightarrow>
     (\<exists>c. verifyClerkSessionToken (ae_verify env) token (ae_CLERK_SECRET_KEY env) (ae_CLERK_JWT_KEY env)
            (clerkAuthorizedParties (ae_CLERK_AUTHORIZED_PARTIES env)) = Inr c \<and>
          truthy (jc_sub c) \<and> (ao_requireOrg opts = Some False \<or> truthy (jc_org_id c)) \<and> auth = session_identity c) \<and> ts' = ts"

text \<open>The service principal in the identity tells the doors apart.\<close>

fun door_of :: "string option \<Rightarrow> auth_door" where
  "door_of None = Session_door"
| "door_of (Some s) = (if s = ''customer_token'' then Connector_door else Canary_door)"

lemma passes_door: "passes env opts req members ts token d (auth, ts') \<Longrightarrow> d = door_of (au_service_principal auth)"
  by (cases d) (auto simp: canary_identity_def session_identity_def token_context_def empty_auth_def Let_def)

text \<open>
  C11. A request that passes authentication presented a bearer token and was let in by exactly one of three doors, with exactly the
  identity of that door: a canary token whose hash is configured, on a route that allows it, as the canary user and role of that
  hash in the configured workspace; an unrevoked, unexpired connector token of the store, on a route and deployment that allow it,
  whose issuing membership is alive and whose scopes include the one the operation needs, as that token's service user, workspace and
  role (its last use is recorded, nothing else changes); or a session the identity provider verified, with a subject and, where
  required, an organisation, as that subject at the role the claims give.
\<close>

theorem authenticated_by_one_door:
  assumes "clerkAuth env opts req members ts = (Auth_ok auth, ts')"
  shows "\<exists>token. bearer req = Some token \<and> (\<exists>!door. passes env opts req members ts token door (auth, ts'))"
proof -
  have "\<exists>token. bearer req = Some token \<and> (\<exists>door. passes env opts req members ts token door (auth, ts'))"
    using assms
  proof (cases rule: clerkAuth_cases)
    case (canary token)
    have "passes env opts req members ts token Canary_door (auth, ts')"
      unfolding passes.simps using canary_matched(1,2) [OF canary(2)] canary_identity_matched [OF canary(2)] canary(3) by blast
    with canary(1) show ?thesis by blast
  next
    case (customer token tid)
    from customer(2) obtain t where "t \<in> set ts" "live_token env req members token t" "auth = token_context t" "tid = tk_id t"
      "ao_allowCustomerToken opts = Some True" "envFlagTrue (ae_CUSTOMER_API_TOKENS_ENABLED env)" by (rule customer_matched)
    with customer(3) have "passes env opts req members ts token Connector_door (auth, ts')" by auto
    with customer(1) show ?thesis by blast
  next
    case (human token)
    from human(2) obtain c where "verifyClerkSessionToken (ae_verify env) token (ae_CLERK_SECRET_KEY env) (ae_CLERK_JWT_KEY env)
        (clerkAuthorizedParties (ae_CLERK_AUTHORIZED_PARTIES env)) = Inr c"
      "truthy (jc_sub c)" "ao_requireOrg opts = Some False \<or> truthy (jc_org_id c)" "auth = session_identity c" by (rule session_identity_ok) blast
    with human(3) have "passes env opts req members ts token Session_door (auth, ts')" by auto
    with human(1) show ?thesis by blast
  qed
  then show ?thesis using passes_door by metis
qed

section \<open>Tokens end with the membership that issued them\<close>

text \<open>
  Removing a member ends every connector token they delegated: after an executed removal no request of any kind, on any
  route, is authenticated as delegated by that user in that workspace, whatever tokens exist.
\<close>

theorem removal_ends_delegated_tokens:
  assumes "removeWorkspaceMemberRow menv ws t actor i db = (db', Inr rc)" and "\<not> mm_replayed rc"
    and "clerkAuth env opts req (members_of db') ts = (Auth_ok auth, ts')"
  shows "\<not> (au_workspace_id auth = Some ws \<and> au_delegated_by_user_id auth = Some (js_trim t))"
proof
  assume who: "au_workspace_id auth = Some ws \<and> au_delegated_by_user_id auth = Some (js_trim t)"
  have dead: "\<not> (y \<in> set (members_of db') \<and> wm_user_id y = js_trim t \<and> wm_workspace_id y = ws \<and> wm_removed_at y = None)" for y
    using removal_kills [OF assms(1,2)] by blast
  from assms(3) show False
  proof (cases rule: clerkAuth_cases)
    case (canary token)
    with canary_matched(5) [OF canary(2)] who show False by simp
  next
    case (human token)
    from session_ok [OF human(2)] who show False by (metis option.distinct(1))
  next
    case (customer token tid)
    from customer(2) obtain x where live: "live_token env req (members_of db') token x" and auth: "auth = token_context x"
      by (rule customer_matched)
    from who auth have x: "tk_workspace_id x = ws" "tk_authority_mode x = Delegated_user" "tk_created_by x = js_trim t"
      by (auto simp: token_context_def empty_auth_def split: if_splits)
    from live x(2) obtain m where "m \<in> set (members_of db')" "wm_user_id m = tk_created_by x" "wm_workspace_id m = tk_workspace_id x" "wm_removed_at m = None"
      by (auto simp: live_token_def issuer_active_def list_ex_iff)
    with x(1,3) dead [of m] show False by simp
  qed
qed

section \<open>Revocation is final\<close>

datatype token_op =
    Create_token string int create_token_input
  | Revoke_token int string string string
  | Use_token auth_env auth_opts auth_request "member_row list"

definition token_exec :: "workspace_row list \<Rightarrow> token_row list \<Rightarrow> token_op \<Rightarrow> token_row list" where
  "token_exec workspaces ts op =
     (case op of
        Create_token nano now input \<Rightarrow> (case createCustomerTokenRow nano now workspaces input ts of Inl _ \<Rightarrow> ts | Inr (ts', _) \<Rightarrow> ts')
      | Revoke_token now w tid u \<Rightarrow> (case revokeCustomerTokenRow now w tid u ts of Inl _ \<Rightarrow> ts | Inr (ts', _) \<Rightarrow> ts')
      | Use_token env opts req members \<Rightarrow> snd (clerkAuth env opts req members ts))"

lemma create_Inr:
  assumes "createCustomerTokenRow nano now workspaces input ts = Inr (ts', v)"
  shows "\<exists>row. ts' = ts @ [row] \<and> tk_revoked_at row = None \<and> \<not> list_ex (\<lambda>t. tk_id t = tk_id row) ts"
  using assms unfolding createCustomerTokenRow_def Let_def by (auto split: if_splits option.splits)

lemma clerkAuth_tokens: "\<exists>f. snd (clerkAuth env opts req members ts) = map f ts \<and>
    (\<forall>t. tk_id (f t) = tk_id t \<and> tk_revoked_at (f t) = tk_revoked_at t)"
proof (cases "snd (clerkAuth env opts req members ts) = ts")
  case True
  then show ?thesis by (intro exI [of _ id]) simp
next
  case False
  have "\<exists>tid. snd (clerkAuth env opts req members ts) = touchCustomerTokenRow (ae_now env) tid ts"
    using False unfolding clerkAuth_def Let_def by (simp split: if_splits canary_result.splits customer_result.splits) blast+
  then show ?thesis unfolding touchCustomerTokenRow_def by (elim exE) (rule exI, rule conjI, assumption, simp)
qed

definition token_dead :: "string \<Rightarrow> token_row list \<Rightarrow> bool" where
  "token_dead tid ts \<longleftrightarrow> tid \<in> tk_id ` set ts \<and> (\<forall>t \<in> set ts. tk_id t = tid \<longrightarrow> tk_revoked_at t \<noteq> None)"

lemma exec_map:
  fixes f :: "token_row \<Rightarrow> token_row"
  assumes "\<forall>t. tk_id (f t) = tk_id t" and "\<forall>t. tk_revoked_at t \<noteq> None \<longrightarrow> tk_revoked_at (f t) \<noteq> None"
  shows "distinct (map tk_id (map f ts)) = distinct (map tk_id ts)" and "token_dead tid ts \<Longrightarrow> token_dead tid (map f ts)"
proof -
  have "map tk_id (map f ts) = map tk_id ts" using assms(1) by simp
  then show "distinct (map tk_id (map f ts)) = distinct (map tk_id ts)" by (rule arg_cong)
  have ids: "tk_id ` set (map f ts) = tk_id ` set ts" using assms(1) by (simp add: image_image)
  show "token_dead tid ts \<Longrightarrow> token_dead tid (map f ts)" unfolding token_dead_def ids using assms by auto
qed

lemma revoke_map: "revokeCustomerTokenRow now w tid u ts = Inr (ts', v) \<Longrightarrow>
    ts' = map (\<lambda>x. if tk_id x = tid \<and> tk_workspace_id x = w \<and> tk_revoked_at x = None
      then x\<lparr>tk_revoked_at := Some now, tk_revoked_by := Some u\<rparr> else x) ts \<and>
    (\<exists>t \<in> set ts. tk_id t = tid \<and> tk_workspace_id t = w)"
  by (auto simp: revokeCustomerTokenRow_def Let_def find_Some_iff split: option.splits)

lemma token_exec_keeps:
  "distinct (map tk_id ts) \<Longrightarrow> distinct (map tk_id (token_exec wss ts op)) \<and> (token_dead tid ts \<longrightarrow> token_dead tid (token_exec wss ts op))"
proof (cases op)
  case (Create_token nano now input)
  assume d: "distinct (map tk_id ts)"
  show ?thesis
  proof (cases "createCustomerTokenRow nano now wss input ts")
    case (Inl e)
    with Create_token d show ?thesis by (simp add: token_exec_def)
  next
    case (Inr p)
    obtain ts' v where p: "p = (ts', v)" by (cases p)
    from create_Inr [OF Inr [unfolded p]] obtain row where row: "ts' = ts @ [row]" "\<not> list_ex (\<lambda>t. tk_id t = tk_id row) ts" by blast
    with Create_token Inr p d show ?thesis by (auto simp: token_exec_def token_dead_def list_ex_iff)
  qed
next
  case (Revoke_token now w i u)
  assume d: "distinct (map tk_id ts)"
  show ?thesis
  proof (cases "revokeCustomerTokenRow now w i u ts")
    case (Inl e)
    with Revoke_token d show ?thesis by (simp add: token_exec_def)
  next
    case (Inr p)
    obtain ts' v where p: "p = (ts', v)" by (cases p)
    define f where "f = (\<lambda>x :: token_row. if tk_id x = i \<and> tk_workspace_id x = w \<and> tk_revoked_at x = None
      then x\<lparr>tk_revoked_at := Some now, tk_revoked_by := Some u\<rparr> else x)"
    have "\<forall>t. tk_id (f t) = tk_id t" "\<forall>t. tk_revoked_at t \<noteq> None \<longrightarrow> tk_revoked_at (f t) \<noteq> None" by (simp_all add: f_def)
    from exec_map(1) [OF this, of ts] exec_map(2) [OF this, of tid ts] revoke_map [OF Inr [unfolded p]] Revoke_token Inr p d show ?thesis
      by (simp add: token_exec_def f_def)
  qed
next
  case (Use_token env opts req members)
  assume d: "distinct (map tk_id ts)"
  from clerkAuth_tokens [of env opts req members ts] obtain f where f: "snd (clerkAuth env opts req members ts) = map f ts"
    "\<forall>t. tk_id (f t) = tk_id t \<and> tk_revoked_at (f t) = tk_revoked_at t" by blast
  then have "\<forall>t. tk_id (f t) = tk_id t" "\<forall>t. tk_revoked_at t \<noteq> None \<longrightarrow> tk_revoked_at (f t) \<noteq> None" by simp_all
  from exec_map(1) [OF this, of ts] exec_map(2) [OF this, of tid ts] f(1) Use_token d show ?thesis by (simp add: token_exec_def)
qed

lemma token_history:
  "distinct (map tk_id ts) \<Longrightarrow> distinct (map tk_id (foldl (token_exec wss) ts ops)) \<and>
     (token_dead tid ts \<longrightarrow> token_dead tid (foldl (token_exec wss) ts ops))"
proof (induction ops arbitrary: ts)
  case (Cons op ops)
  from token_exec_keeps [OF Cons.prems, of wss op tid] Cons.IH [of "token_exec wss ts op"] show ?case by simp
qed simp

lemma revoke_dead:
  assumes "distinct (map tk_id ts)" and "revokeCustomerTokenRow now w tid u ts = Inr (ts', v)"
  shows "token_dead tid ts'" and "distinct (map tk_id ts')"
proof -
  note r = revoke_map [OF assms(2)]
  have same: "x = y" if "x \<in> set ts" "y \<in> set ts" "tk_id x = tk_id y" for x y
    using assms(1) that by (auto simp: distinct_map inj_on_def)
  from r obtain t where t: "t \<in> set ts" "tk_id t = tid" "tk_workspace_id t = w" by blast
  define f where "f = (\<lambda>x :: token_row. if tk_id x = tid \<and> tk_workspace_id x = w \<and> tk_revoked_at x = None
      then x\<lparr>tk_revoked_at := Some now, tk_revoked_by := Some u\<rparr> else x)"
  have ts': "ts' = map f ts" using r by (simp add: f_def)
  have ids: "tk_id (f x) = tk_id x" for x by (simp add: f_def)
  have "tk_revoked_at (f x) \<noteq> None" if "x \<in> set ts" "tk_id x = tid" for x
  proof -
    have "tk_workspace_id x = w" using same [OF that(1) t(1)] that(2) t(2,3) by simp
    with that(2) show ?thesis by (auto simp: f_def)
  qed
  with t(1,2) show "token_dead tid ts'" unfolding ts' token_dead_def by (auto simp: ids image_image)
  have "map tk_id ts' = map tk_id ts" by (simp add: ts' ids)
  with assms(1) show "distinct (map tk_id ts')" by simp
qed

text \<open>
  Revocation is final: in any history of minting, using and revoking tokens, once a token was revoked no later request
  is authenticated as that connector, whatever is minted, used or revoked afterwards.
\<close>

theorem revocation_is_final:
  assumes "revokeCustomerTokenRow now w tid u (foldl (token_exec wss) [] before) = Inr (ts1, v)"
    and "clerkAuth env opts req members (foldl (token_exec wss) ts1 after) = (Auth_ok auth, ts')"
  shows "\<not> (au_service_principal auth = Some ''customer_token'' \<and> au_user_id auth = Some (''svc_customer_'' @ tid))"
proof
  assume who: "au_service_principal auth = Some ''customer_token'' \<and> au_user_id auth = Some (''svc_customer_'' @ tid)"
  let ?ts = "foldl (token_exec wss) ts1 after"
  have "distinct (map tk_id (foldl (token_exec wss) [] before))" using token_history [of "[]"] by simp
  from revoke_dead [OF this assms(1)] token_history [of ts1 wss after tid] have dead: "token_dead tid ?ts" by simp
  from assms(2) show False
  proof (cases rule: clerkAuth_cases)
    case (canary token)
    with canary_matched(4) [OF canary(2)] who show False by auto
  next
    case (human token)
    from session_ok [OF human(2)] who show False by (metis option.distinct(1))
  next
    case (customer token i)
    from customer(2) obtain x where "x \<in> set ?ts" "live_token env req members token x" "auth = token_context x" by (rule customer_matched)
    with who dead show False by (auto simp: token_dead_def live_token_def token_context_def)
  qed
qed

section \<open>Scopes\<close>

lemma required_scope_kind:
  assumes "requiredCustomerScope m path = Some s"
  shows "ascii_upper m = ''GET'' \<or> path \<in> set session_paths \<or> js_starts_with s ''write:''"
proof (rule ccontr)
  assume "\<not> (ascii_upper m = ''GET'' \<or> path \<in> set session_paths \<or> js_starts_with s ''write:'')"
  then have n: "\<not> ascii_upper m = ''GET''" "\<not> path \<in> set session_paths" "\<not> js_starts_with s ''write:''" by blast+
  have pick: "(if p then Some x else if q then Some y else if r then Some z else None) = Some s \<Longrightarrow> s = x \<or> s = y \<or> s = z" for p q r and x y z :: string
    by (simp split: if_splits)
  have "s = ''write:evidence'' \<or> s = ''write:tool_events'' \<or> s = ''write:approval_requests''"
    using assms unfolding requiredCustomerScope_def Let_def eq_False [THEN iffD2, OF n(1)] if_not_P [OF n(2)] simp_thms if_False by (rule pick)
  with n(3) show False by (auto simp: js_starts_with_def)
qed

lemma read_scopes_plain: "s \<in> set CUSTOMER_CONNECTOR_READ_SCOPES \<Longrightarrow> \<not> js_starts_with s ''write:''"
  by (auto simp: CUSTOMER_CONNECTOR_READ_SCOPES_def js_starts_with_def)

lemma requested_scopes_cases:
  assumes "resolveRequestedCustomerScopes raw enabled = Scopes_ok role scopes"
  obtains "role = ''viewer''" "scopes = CUSTOMER_CONNECTOR_READ_SCOPES"
    | "role = ''operator''" "scopes = CUSTOMER_CONNECTOR_OPERATOR_SCOPES" "enabled"
    | "set scopes \<subseteq> set CUSTOMER_CONNECTOR_SCOPES" "''read:session'' \<in> set scopes"
      "role = (if list_ex (\<lambda>s. js_starts_with s ''write:'') scopes then ''operator'' else ''viewer'')"
      "list_ex (\<lambda>s. js_starts_with s ''write:'') scopes \<longrightarrow> enabled"
proof -
  define q where "q = non_empty (split_ws (js_trim raw))"
  define us where "us = js_set q"
  define wr where "wr = list_ex (\<lambda>s. js_starts_with s ''write:'') us"
  note body = assms [unfolded resolveRequestedCustomerScopes_def Let_def q_def [symmetric] us_def [symmetric] wr_def [symmetric]]
  show thesis
  proof (cases "q = [] \<or> q = [''viewer'']")
    case True
    from body [unfolded if_P [OF True] customer_scope_request.inject] that(1) show thesis by metis
  next
    case nv: False
    note body = body [unfolded if_not_P [OF nv]]
    show thesis
    proof (cases "q = [''operator'']")
      case True
      from body [unfolded if_P [OF True]] that(2) show thesis by (cases enabled) simp_all
    next
      case False
      note body = body [unfolded if_not_P [OF False]]
      define unk where "unk = filter (\<lambda>s. s \<notin> set CUSTOMER_CONNECTOR_SCOPES) us"
      have pick: "unk = [] \<and> ''read:session'' \<in> set us \<and> \<not> (wr \<and> \<not> enabled) \<and> role = (if wr then ''operator'' else ''viewer'') \<and> scopes = us"
        using body unfolding unk_def [symmetric]
        by (cases "unk = []"; cases "''read:session'' \<in> set us"; cases "wr \<and> \<not> enabled") simp_all
      then have "set us \<subseteq> set CUSTOMER_CONNECTOR_SCOPES" by (auto simp: unk_def filter_empty_conv simp del: set_simps)
      with pick that(3) show thesis unfolding wr_def by metis
    qed
  qed
qed

text \<open>
  The scopes a connector token is minted with are known scopes and always include reading the session; write scopes are
  granted only where operational tokens are enabled, and exactly to the operator role; and a viewer token is never admitted
  to anything but a read, the session endpoints aside.
\<close>

theorem connector_scopes_bounded:
  assumes "resolveRequestedCustomerScopes raw enabled = Scopes_ok role scopes"
  shows "set scopes \<subseteq> set CUSTOMER_CONNECTOR_SCOPES \<and> ''read:session'' \<in> set scopes \<and>
    (role = ''operator'' \<longleftrightarrow> (\<exists>s \<in> set scopes. js_starts_with s ''write:'')) \<and> (role = ''operator'' \<longrightarrow> enabled) \<and>
    (role = ''viewer'' \<longrightarrow> requiredCustomerScope m path = Some sc \<longrightarrow> sc \<in> set scopes \<longrightarrow> ascii_upper m = ''GET'' \<or> path \<in> set session_paths)"
  using assms
proof (cases rule: requested_scopes_cases)
  case 1
  have "set CUSTOMER_CONNECTOR_READ_SCOPES \<subseteq> set CUSTOMER_CONNECTOR_SCOPES" "''read:session'' \<in> set CUSTOMER_CONNECTOR_READ_SCOPES"
    by (simp_all add: CUSTOMER_CONNECTOR_READ_SCOPES_def CUSTOMER_CONNECTOR_SCOPES_def)
  with 1 required_scope_kind [of m path sc] read_scopes_plain show ?thesis by auto
next
  case 2
  have "set CUSTOMER_CONNECTOR_OPERATOR_SCOPES \<subseteq> set CUSTOMER_CONNECTOR_SCOPES" "''read:session'' \<in> set CUSTOMER_CONNECTOR_OPERATOR_SCOPES"
    "list_ex (\<lambda>s. js_starts_with s ''write:'') CUSTOMER_CONNECTOR_OPERATOR_SCOPES"
    by (simp_all add: CUSTOMER_CONNECTOR_OPERATOR_SCOPES_def CUSTOMER_CONNECTOR_READ_SCOPES_def CUSTOMER_CONNECTOR_SCOPES_def js_starts_with_def)
  with 2 show ?thesis by (simp add: list_ex_iff)
next
  case 3
  have ne: "''viewer'' \<noteq> ''operator''" by simp
  show ?thesis
  proof (cases "list_ex (\<lambda>s. js_starts_with s ''write:'') scopes")
    case True
    with 3 ne show ?thesis by (simp add: list_ex_iff)
  next
    case False
    then have "\<not> js_starts_with x ''write:''" if "x \<in> set scopes" for x using that by (auto simp: list_ex_iff)
    with False 3 ne required_scope_kind [of m path sc] show ?thesis by (auto simp: list_ex_iff)
  qed
qed

section \<open>Examples\<close>

definition demo_claims :: clerk_claims where
  "demo_claims = \<lparr>jc_sub = Some ''user_1'', jc_org_id = Some ''acme'', jc_org_role = Some ''org:admin'', jc_exp = 0, jc_email = None\<rparr>"

definition demo_auth_env :: auth_env where
  "demo_auth_env = \<lparr>ae_CLERK_SECRET_KEY = Some ''sk'', ae_CLERK_JWT_KEY = None, ae_CANARY_API_TOKEN_SHA256 = None,
     ae_CANARY_LIFECYCLE_TOKEN_SHA256 = None, ae_CANARY_WORKSPACE_ID = None, ae_DATABASE_URL = None, ae_CUSTOMER_API_TOKENS_ENABLED = None,
     ae_CLERK_AUTHORIZED_PARTIES = None, ae_crypto = \<lparr>cr_sha256 = (\<lambda>_. []), cr_hmac = (\<lambda>_ _. None), cr_iso = (\<lambda>_. [])\<rparr>,
     ae_verify = (\<lambda>_ _ _ _. Sdk_record [] (Some demo_claims) demo_claims), ae_lookup_up = True, ae_now = 0\<rparr>"

definition demo_auth_opts :: auth_opts where
  "demo_auth_opts = \<lparr>ao_requireOrg = None, ao_allowCanary = None, ao_allowCustomerToken = None\<rparr>"

definition demo_auth_request :: auth_request where
  "demo_auth_request = \<lparr>aq_authorization = Some ''Bearer a.b.c'', aq_method = ''GET'', aq_pathname = ''/api/v1/packets''\<rparr>"

lemma demo_authenticated: "\<exists>auth. clerkAuth demo_auth_env demo_auth_opts demo_auth_request members ts = (Auth_ok auth, ts)"
proof -
  have "js_starts_with (js_lower ''Bearer a.b.c'') ''bearer ''" "js_trim (drop 7 ''Bearer a.b.c'') = ''a.b.c''"
    "\<not> isCustomerConnectorCredential ''a.b.c''" "js_trim ''sk'' = ''sk''" by code_simp+
  then show ?thesis
    by (simp add: clerkAuth_def demo_auth_request_def demo_auth_opts_def canaryAuth_def demo_auth_env_def normalizeSha256Hex_def hex64_def
        customerTokenAuth_def session_auth_def verifyClerkSessionToken_def trimmed_def unwrapClerkVerificationResult_def demo_claims_def Let_def
        del: drop_Suc_Cons)
qed

theorem authenticated_by_one_door_witness:
  "\<exists>auth token. bearer demo_auth_request = Some token \<and> (\<exists>!door. passes demo_auth_env demo_auth_opts demo_auth_request [] [] token door (auth, []))"
proof -
  obtain auth where "clerkAuth demo_auth_env demo_auth_opts demo_auth_request [] [] = (Auth_ok auth, [])" using demo_authenticated by blast
  from authenticated_by_one_door [OF this] show ?thesis by blast
qed

theorem removal_ends_delegated_tokens_witness:
  "\<exists>db' rc auth ts'. removeWorkspaceMemberRow demo_env ''acme'' ''bob'' ''ann'' (demo_input REMOVE_ROUTE) demo_roster = (db', Inr rc) \<and>
     clerkAuth demo_auth_env demo_auth_opts demo_auth_request (members_of db') [] = (Auth_ok auth, ts') \<and>
     \<not> (au_workspace_id auth = Some ''acme'' \<and> au_delegated_by_user_id auth = Some (js_trim ''bob''))"
proof -
  from demo_removal obtain db' rc where r: "removeWorkspaceMemberRow demo_env ''acme'' ''bob'' ''ann'' (demo_input REMOVE_ROUTE) demo_roster = (db', Inr rc)"
    "\<not> mm_replayed rc" by blast
  obtain auth where a: "clerkAuth demo_auth_env demo_auth_opts demo_auth_request (members_of db') [] = (Auth_ok auth, [])"
    using demo_authenticated by blast
  from removal_ends_delegated_tokens [OF r a] r(1) a show ?thesis by blast
qed

definition demo_mint :: create_token_input where
  "demo_mint = \<lparr>ct_workspace_id = ''acme'', ct_token_sha256 = replicate 64 CHR ''a'', ct_role = ''viewer'', ct_label = ''ci'', ct_packet_prefix = ''pkt-'',
     ct_scopes = CUSTOMER_CONNECTOR_READ_SCOPES, ct_authority_mode = None, ct_issuer_membership_activated_at = None, ct_created_by = ''ann'',
     ct_expires_at = At 1000\<rparr>"

theorem revocation_is_final_witness:
  "\<exists>ts1 v auth. revokeCustomerTokenRow 5 ''acme'' ''cat_1'' ''ann''
      (foldl (token_exec [\<lparr>ws_id = ''acme'', ws_owner_user_id = ''ann''\<rparr>]) [] [Create_token ''1'' 0 demo_mint]) = Inr (ts1, v) \<and>
     clerkAuth demo_auth_env demo_auth_opts demo_auth_request [] ts1 = (Auth_ok auth, ts1) \<and>
     \<not> (au_service_principal auth = Some ''customer_token'' \<and> au_user_id auth = Some (''svc_customer_'' @ ''cat_1''))"
proof -
  let ?w = "[\<lparr>ws_id = ''acme'', ws_owner_user_id = ''ann''\<rparr>]"
  have "isl (revokeCustomerTokenRow 5 ''acme'' ''cat_1'' ''ann'' (foldl (token_exec ?w) [] [Create_token ''1'' 0 demo_mint])) = False" by code_simp
  then obtain ts1 v where r: "revokeCustomerTokenRow 5 ''acme'' ''cat_1'' ''ann'' (foldl (token_exec ?w) [] [Create_token ''1'' 0 demo_mint]) = Inr (ts1, v)"
    by (metis isl_def old.sum.exhaust surj_pair)
  obtain auth where a: "clerkAuth demo_auth_env demo_auth_opts demo_auth_request [] (foldl (token_exec ?w) ts1 []) = (Auth_ok auth, foldl (token_exec ?w) ts1 [])"
    using demo_authenticated by blast
  from revocation_is_final [OF r a] r a show ?thesis by (metis foldl_Nil)
qed

theorem connector_scopes_bounded_witness:
  "\<not> (requiredCustomerScope ''post'' ''/api/v1/evidence'' = Some ''write:evidence'' \<and> ''write:evidence'' \<in> set CUSTOMER_CONNECTOR_READ_SCOPES)"
proof -
  have "resolveRequestedCustomerScopes '' viewer '' False = Scopes_ok ''viewer'' CUSTOMER_CONNECTOR_READ_SCOPES" by code_simp
  from connector_scopes_bounded [OF this, of "''post''" "''/api/v1/evidence''" "''write:evidence''"]
  show ?thesis by (simp add: ascii_upper_def session_paths_def)
qed

end
