(* ===== verification/Invitations.thy ===== *)
theory Invitations
  imports Member_Props
begin

text \<open>
  Workspace invitations: the leased delivery command (\<^verbatim>\<open>dal/customer-invite-store.ts\<close>) and the membership an accepted
  invitation materializes (\<^verbatim>\<open>dal/invite-membership-store.ts\<close>).

  A reservation and a finalization issue several statements; \<open>i1\<close>, \<open>i2\<close> stand for what other requests did to the tables
  between them. \<open>now\<close> is the clock of the worker, \<open>db_now\<close> that of the database.
\<close>

section \<open>Commands, rows and receipts\<close>

definition INVITE_ROUTE :: string where
  "INVITE_ROUTE = ''POST /api/v1/customer/invites''"

record invite_command =
  vc_workspace_id :: string
  vc_actor_user_id :: string
  vc_key :: string
  vc_route :: string
  vc_request_sha256 :: string
  vc_request_id :: "string option"
  vc_command_id :: string
  vc_lease_token :: string
  vc_email :: string
  vc_clerk_role :: string
  vc_workspace_role :: string
  vc_requested_workspace_role :: string
  vc_role_basis :: string

record invite_finalize = invite_command +
  vf_invitation_id :: string
  vf_provider_status :: string
  vf_operation_event_id :: string
  vf_projection_outbox_id :: string

record invite_failure =
  vx_workspace_id :: string
  vx_actor_user_id :: string
  vx_key :: string
  vx_route :: string
  vx_request_sha256 :: string
  vx_request_id :: "string option"
  vx_command_id :: string
  vx_lease_token :: string
  vx_email :: string
  vx_error_code :: string
  vx_operation_event_id :: string

record invite_details =
  vd_email :: string
  vd_clerk_role :: string
  vd_workspace_role :: string
  vd_requested_workspace_role :: string
  vd_role_basis :: string

record pending_body =
  vp_state :: string
  vp_command_id :: string
  vp_lease_token :: string
  vp_lease_expires_at :: int
  vp_details :: invite_details
  vp_last_error_code :: "string option"
  vp_last_attempt_at :: "int option"

record invite_receipt =
  vr_command_id :: string
  vr_invitation_id :: string
  vr_details :: invite_details
  vr_status :: string
  vr_invite_receipt_id :: string
  vr_operation_event_id :: string
  vr_audit_event_id :: string
  vr_projection_outbox_id :: string
  vr_read_model_watermark :: string
  vr_replayed :: bool

datatype invite_body = Pending pending_body | Delivered invite_receipt

text \<open>A row of \<^verbatim>\<open>idempotency_keys\<close> of mode \<^verbatim>\<open>authority_strict\<close>; \<open>vk_status\<close> is the recorded response status.\<close>

record invite_row =
  vk_id :: nat
  vk_workspace_id :: string
  vk_actor_user_id :: string
  vk_route :: string
  vk_key :: string
  vk_request_sha256 :: string
  vk_status :: "int option"
  vk_body :: invite_body
  vk_completed_at :: "int option"

record invite_db =
  vb_rows :: "invite_row list"
  vb_seq :: nat
  vb_members :: member_db

datatype reservation =
    Acquired string string bool invite_details
  | Already_delivered string invite_receipt

section \<open>Reservation\<close>

definition invite_error :: "string \<Rightarrow> string \<Rightarrow> int \<Rightarrow> member_error" where
  "invite_error code msg st = M_dal (makeError code msg st)"

definition validateInviteCommand :: "'a invite_command_scheme \<Rightarrow> member_error + unit" where
  "validateInviteCommand c =
     (if vc_workspace_id c = [] \<or> vc_actor_user_id c = [] \<or> js_trim (vc_email c) = [] \<or> vc_command_id c = [] \<or> vc_lease_token c = [] \<or> vc_key c = []
      then Inl (invite_error ''VALIDATION_ERROR''
        ''workspace_id, actor_user_id, email, command_id, lease_token and idempotency key are required'' 400)
      else if vc_route c \<noteq> INVITE_ROUTE \<or> 200 < length (vc_key c)
      then Inl (invite_error ''IDEMPOTENCY_KEY_REQUIRED'' ''a valid invitation Idempotency-Key is required'' 428)
      else if \<not> (length (vc_request_sha256 c) = 64 \<and> list_all is_lower_hex (vc_request_sha256 c))
      then Inl (invite_error ''VALIDATION_ERROR'' ''request_sha256 must be a lower-case SHA-256 value'' 400)
      else member_scope (vc_workspace_id c))"

definition normal_email :: "string \<Rightarrow> string" where
  "normal_email e = js_lower (js_trim e)"

definition details_of :: "'a invite_command_scheme \<Rightarrow> invite_details" where
  "details_of c = \<lparr>vd_email = normal_email (vc_email c), vd_clerk_role = vc_clerk_role c, vd_workspace_role = vc_workspace_role c,
     vd_requested_workspace_role = vc_requested_workspace_role c, vd_role_basis = vc_role_basis c\<rparr>"

definition inviteReceiptFromBody :: "invite_body \<Rightarrow> bool \<Rightarrow> member_error + invite_receipt" where
  "inviteReceiptFromBody b replayed =
     (case b of
        Pending _ \<Rightarrow> Inl (invite_error ''INVITE_ATOMICITY_FAILED'' ''invitation authority envelope is incomplete'' 500)
      | Delivered r \<Rightarrow>
          if vr_invitation_id r = [] \<or> vd_email (vr_details r) = [] \<or> vd_clerk_role (vr_details r) = [] \<or> vr_invite_receipt_id r = [] \<or>
             vr_operation_event_id r = [] \<or> vr_audit_event_id r = [] \<or> vr_projection_outbox_id r = [] \<or> vr_read_model_watermark r = []
          then Inl (invite_error ''INVITE_ATOMICITY_FAILED'' ''invitation authority envelope is incomplete'' 500)
          else Inr (r\<lparr>vr_replayed := replayed\<rparr>))"

definition invite_key :: "'a invite_command_scheme \<Rightarrow> invite_row \<Rightarrow> bool" where
  "invite_key c r \<longleftrightarrow> vk_workspace_id r = vc_workspace_id c \<and> vk_actor_user_id r = vc_actor_user_id c \<and>
     vk_route r = vc_route c \<and> vk_key r = vc_key c"

definition pending_of :: "int \<Rightarrow> 'a invite_command_scheme \<Rightarrow> pending_body" where
  "pending_of now c = \<lparr>vp_state = ''pending_delivery'', vp_command_id = vc_command_id c, vp_lease_token = vc_lease_token c,
     vp_lease_expires_at = now + 120000, vp_details = details_of c, vp_last_error_code = None, vp_last_attempt_at = None\<rparr>"

definition reserve_insert :: "int \<Rightarrow> 'a invite_command_scheme \<Rightarrow> invite_db \<Rightarrow> invite_db \<times> bool" where
  "reserve_insert now c db =
     (if list_ex (invite_key c) (vb_rows db) then (db, False)
      else (db\<lparr>vb_rows := vb_rows db @
              [\<lparr>vk_id = vb_seq db, vk_workspace_id = vc_workspace_id c, vk_actor_user_id = vc_actor_user_id c, vk_route = vc_route c,
                vk_key = vc_key c, vk_request_sha256 = vc_request_sha256 c, vk_status = None, vk_body = Pending (pending_of now c),
                vk_completed_at = None\<rparr>], vb_seq := Suc (vb_seq db)\<rparr>, True))"

definition lease_active :: "int \<Rightarrow> invite_row \<Rightarrow> bool" where
  "lease_active db_now r = (case vk_body r of Pending p \<Rightarrow> db_now < vp_lease_expires_at p | Delivered _ \<Rightarrow> False)"

definition reclaimable :: "int \<Rightarrow> nat \<Rightarrow> invite_row \<Rightarrow> bool" where
  "reclaimable db_now i r \<longleftrightarrow> vk_id r = i \<and> vk_status r = None \<and> \<not> lease_active db_now r"

text \<open>\<^verbatim>\<open>response_body || reclaimedBody\<close>: the lease and the state are replaced, the command is kept.\<close>

definition relet :: "int \<Rightarrow> string \<Rightarrow> invite_row \<Rightarrow> invite_row" where
  "relet now lease r = (case vk_body r of
     Pending p \<Rightarrow> r\<lparr>vk_body := Pending (p\<lparr>vp_lease_token := lease, vp_lease_expires_at := now + 120000, vp_state := ''pending_delivery''\<rparr>)\<rparr>
   | Delivered _ \<Rightarrow> r)"

definition reserve_reclaim :: "int \<Rightarrow> int \<Rightarrow> nat \<Rightarrow> string \<Rightarrow> invite_db \<Rightarrow> invite_db \<times> invite_row option" where
  "reserve_reclaim now db_now i lease db =
     (db\<lparr>vb_rows := map (\<lambda>r. if reclaimable db_now i r then relet now lease r else r) (vb_rows db)\<rparr>,
      map_option (relet now lease) (find (reclaimable db_now i) (vb_rows db)))"

definition in_progress :: member_error where
  "in_progress = invite_error ''INVITE_IN_PROGRESS'' ''this invitation is already being delivered; retry with the same key'' 409"

definition or_text :: "string \<Rightarrow> string \<Rightarrow> string" where
  "or_text a b = (if a = [] then b else a)"

definition merge_details :: "invite_details \<Rightarrow> invite_details \<Rightarrow> invite_details" where
  "merge_details stored given = \<lparr>vd_email = or_text (vd_email stored) (vd_email given),
     vd_clerk_role = or_text (vd_clerk_role stored) (vd_clerk_role given), vd_workspace_role = or_text (vd_workspace_role stored) (vd_workspace_role given),
     vd_requested_workspace_role = or_text (vd_requested_workspace_role stored) (vd_requested_workspace_role given),
     vd_role_basis = or_text (vd_role_basis stored) (vd_role_basis given)\<rparr>"

definition reserveCustomerInviteRow ::
  "int \<Rightarrow> int \<Rightarrow> int \<Rightarrow> (invite_db \<Rightarrow> invite_db) \<Rightarrow> (invite_db \<Rightarrow> invite_db) \<Rightarrow> 'a invite_command_scheme \<Rightarrow> invite_db
     \<Rightarrow> invite_db \<times> (member_error + reservation)" where
  "reserveCustomerInviteRow now db_now2 db_now3 i1 i2 c db =
     attempt db (validateInviteCommand c) (\<lambda>_.
     (let (db1, inserted) = reserve_insert now c db in
      if inserted then (db1, Inr (Acquired (vc_command_id c) (vc_lease_token c) False (details_of c)))
      else
        (let db2 = i1 db1 in
         case find (invite_key c) (vb_rows db2) of
           None \<Rightarrow> (db2, Inl (invite_error ''INVITE_ATOMICITY_FAILED'' ''invitation command reservation was not created'' 500))
         | Some row \<Rightarrow>
             if vk_request_sha256 row \<noteq> vc_request_sha256 c
             then (db2, Inl (invite_error ''IDEMPOTENCY_KEY_REUSED'' ''Idempotency-Key was already used with a different request'' 409))
             else if vk_status row \<noteq> None
             then (db2, map_sum id (Already_delivered (case vk_body row of Delivered r \<Rightarrow> or_text (vr_command_id r) (vc_command_id c)
                                                       | Pending p \<Rightarrow> or_text (vp_command_id p) (vc_command_id c)))
                       (inviteReceiptFromBody (vk_body row) True))
             else if lease_active db_now2 row then (db2, Inl in_progress)
             else (let (db3, reclaimed) = reserve_reclaim now db_now3 (vk_id row) (vc_lease_token c) (i2 db2) in
                   case reclaimed of
                     Some r \<Rightarrow> (case vk_body r of
                         Pending p \<Rightarrow> if vp_command_id p = [] then (db3, Inl in_progress)
                           else (db3, Inr (Acquired (vp_command_id p) (vc_lease_token c) True (merge_details (vp_details p) (details_of c))))
                       | Delivered _ \<Rightarrow> (db3, Inl in_progress))
                   | None \<Rightarrow> (db3, Inl in_progress)))))"


section \<open>Finalization\<close>

definition holds_lease :: "string \<Rightarrow> string \<Rightarrow> invite_row \<Rightarrow> bool" where
  "holds_lease command lease r \<longleftrightarrow> vk_status r = None \<and>
     (case vk_body r of Pending p \<Rightarrow> vp_command_id p = command \<and> vp_lease_token p = lease | Delivered _ \<Rightarrow> False)"

definition finalize_target :: "'a invite_command_scheme \<Rightarrow> invite_row \<Rightarrow> bool" where
  "finalize_target c r \<longleftrightarrow> invite_key c r \<and> vk_request_sha256 r = vc_request_sha256 c \<and> holds_lease (vc_command_id c) (vc_lease_token c) r"

definition delivery_receipt :: "string \<Rightarrow> nat \<Rightarrow> invite_finalize \<Rightarrow> invite_receipt" where
  "delivery_receipt watermark aid c =
     \<lparr>vr_command_id = vc_command_id c, vr_invitation_id = vf_invitation_id c, vr_details = details_of c, vr_status = vf_provider_status c,
      vr_invite_receipt_id = ''member-invite:'' @ vc_workspace_id c @ '':'' @ vc_command_id c @ '':'' @ show_nat aid,
      vr_operation_event_id = vf_operation_event_id c, vr_audit_event_id = show_nat aid,
      vr_projection_outbox_id = vf_projection_outbox_id c, vr_read_model_watermark = watermark, vr_replayed = False\<rparr>"

definition invite_event :: "int \<Rightarrow> string \<Rightarrow> string \<Rightarrow> string \<Rightarrow> string \<Rightarrow> string option \<Rightarrow> string \<Rightarrow> string \<Rightarrow> member_event" where
  "invite_event at_time eid ws actor st request_id summary body =
     \<lparr>me_id = eid, me_workspace_id = ws, me_source_tool = ''xlooop'', me_agent_id = actor, me_status = st, me_summary = summary,
      me_body = body, me_visibility = ''internal_workspace'', me_occurred_at = at_time, me_authorized_by_user_id = actor,
      me_instrument_kind = ''human'', me_authority_source = ''role'', me_request_id = request_id\<rparr>"

definition delivery_audit :: "nat \<Rightarrow> invite_finalize \<Rightarrow> audit_row" where
  "delivery_audit aid c =
     \<lparr>al_id = aid, al_actor_user_id = vc_actor_user_id c, al_action = ''member_invite_delivered'', al_target_type = ''workspace_member'',
      al_target_id = normal_email (vc_email c), al_workspace_id = vc_workspace_id c, al_reason = ''invite -> '' @ vc_workspace_role c,
      al_causation_id = Some (vf_operation_event_id c),
      al_metadata = JObj [(''command_id'', JStr (vc_command_id c)), (''invitation_id'', JStr (vf_invitation_id c)),
        (''provider_status'', JStr (vf_provider_status c)), (''request_sha256'', JStr (vc_request_sha256 c)),
        (''workspace_role'', JStr (vc_workspace_role c)), (''requested_workspace_role'', JStr (vc_requested_workspace_role c)),
        (''role_basis'', JStr (vc_role_basis c))]\<rparr>"

definition delivery_outbox :: "int \<Rightarrow> nat \<Rightarrow> invite_finalize \<Rightarrow> outbox_row" where
  "delivery_outbox now aid c =
     \<lparr>ob_id = vf_projection_outbox_id c, ob_workspace_id = vc_workspace_id c, ob_event_type = ''workspace_member.invited'',
      ob_aggregate_type = ''workspace_invitation'', ob_aggregate_id = vc_command_id c,
      ob_payload = JObj [(''command_id'', JStr (vc_command_id c)), (''invitation_id'', JStr (vf_invitation_id c)),
        (''email'', JStr (normal_email (vc_email c))), (''workspace_role'', JStr (vc_workspace_role c)),
        (''operation_event_id'', JStr (vf_operation_event_id c)), (''audit_event_id'', JStr (show_nat aid)),
        (''request_sha256'', JStr (vc_request_sha256 c))],
      ob_created_at = now\<rparr>"

definition complete_row :: "int \<Rightarrow> invite_receipt \<Rightarrow> invite_row \<Rightarrow> invite_row" where
  "complete_row now rc r = r\<lparr>vk_status := Some 201, vk_body := Delivered rc, vk_completed_at := Some now\<rparr>"

text \<open>One statement of common table expressions: without a target it writes nothing; a clash of an identifier undoes all but the drawn audit number.\<close>

definition finalize_statement ::
  "int \<Rightarrow> string \<Rightarrow> invite_finalize \<Rightarrow> invite_db \<Rightarrow> invite_db \<times> (member_error + invite_receipt option)" where
  "finalize_statement now watermark c db =
     (if \<not> list_ex (finalize_target c) (vb_rows db) then (db, Inr None)
      else
        (let ms = vb_members db; auth = mb_auth ms; aid = db_audit_seq auth; rc = delivery_receipt watermark aid c in
         if list_ex (\<lambda>e. me_id e = vf_operation_event_id c) (mb_events ms) \<or> list_ex (\<lambda>q. ob_id q = vf_projection_outbox_id c) (mb_outbox ms)
         then (db\<lparr>vb_members := draw_audit_id ms\<rparr>, Inl M_unique_violation)
         else (db\<lparr>vb_rows := map (\<lambda>r. if finalize_target c r then complete_row now rc r else r) (vb_rows db),
                  vb_members := ms\<lparr>mb_auth := auth\<lparr>db_audit := db_audit auth @ [delivery_audit aid c], db_audit_seq := Suc aid\<rparr>,
                    mb_events := mb_events ms @ [invite_event now (vf_operation_event_id c) (vc_workspace_id c) (vc_actor_user_id c) ''completed''
                      (vc_request_id c) ''Workspace invitation delivered''
                      ''Clerk accepted the invitation command and returned a canonical invitation id.''],
                    mb_outbox := mb_outbox ms @ [delivery_outbox now aid c]\<rparr>\<rparr>,
               Inr (Some rc))))"

definition no_durable_result :: member_error where
  "no_durable_result = invite_error ''INVITE_ATOMICITY_FAILED'' ''invitation delivery did not produce a durable authority result'' 500"

definition finalizeCustomerInviteRow ::
  "int \<Rightarrow> (int \<Rightarrow> string) \<Rightarrow> (invite_db \<Rightarrow> invite_db) \<Rightarrow> invite_finalize \<Rightarrow> invite_db \<Rightarrow> invite_db \<times> (member_error + invite_receipt)" where
  "finalizeCustomerInviteRow now to_iso i1 c db =
     attempt db (validateInviteCommand c) (\<lambda>_.
     attempt db (ensure (vf_invitation_id c \<noteq> [] \<and> vf_operation_event_id c \<noteq> [] \<and> vf_projection_outbox_id c \<noteq> [])
       (invite_error ''VALIDATION_ERROR'' ''invitation_id, operation_event_id and projection_outbox_id are required'' 400)) (\<lambda>_.
     (let (db1, r) = finalize_statement now (to_iso now) c db in
      case r of
        Inl e \<Rightarrow> (db1, Inl e)
      | Inr (Some rc) \<Rightarrow> (db1, inviteReceiptFromBody (Delivered rc) False)
      | Inr None \<Rightarrow>
          (let db2 = i1 db1 in
           (db2, case find (invite_key c) (vb_rows db2) of
              None \<Rightarrow> Inl no_durable_result
            | Some row \<Rightarrow> if vk_request_sha256 row \<noteq> vc_request_sha256 c \<or> vk_status row = None then Inl no_durable_result
                          else inviteReceiptFromBody (vk_body row) True)))))"

section \<open>A failed delivery\<close>

definition failure_target :: "invite_failure \<Rightarrow> invite_row \<Rightarrow> bool" where
  "failure_target x r \<longleftrightarrow> vk_workspace_id r = vx_workspace_id x \<and> vk_actor_user_id r = vx_actor_user_id x \<and> vk_route r = vx_route x \<and>
     vk_key r = vx_key x \<and> vk_request_sha256 r = vx_request_sha256 x \<and> holds_lease (vx_command_id x) (vx_lease_token x) r"

definition release_row :: "int \<Rightarrow> string \<Rightarrow> invite_row \<Rightarrow> invite_row" where
  "release_row db_now code r = (case vk_body r of
     Pending p \<Rightarrow> r\<lparr>vk_body := Pending (p\<lparr>vp_state := ''delivery_failed'', vp_lease_expires_at := db_now,
       vp_last_error_code := Some code, vp_last_attempt_at := Some db_now\<rparr>)\<rparr>
   | Delivered _ \<Rightarrow> r)"

definition failure_code :: "invite_failure \<Rightarrow> string" where
  "failure_code x = take 120 (or_text (vx_error_code x) ''INVITE_DELIVERY_FAILED'')"

definition failure_statement :: "int \<Rightarrow> invite_failure \<Rightarrow> invite_db \<Rightarrow> invite_db \<times> (member_error + unit)" where
  "failure_statement db_now x db =
     (if \<not> list_ex (failure_target x) (vb_rows db) then (db, Inr ())
      else
        (let ms = vb_members db; auth = mb_auth ms; aid = db_audit_seq auth; code = failure_code x in
         if list_ex (\<lambda>e. me_id e = vx_operation_event_id x) (mb_events ms) then (db, Inl M_unique_violation)
         else (db\<lparr>vb_rows := map (\<lambda>r. if failure_target x r then release_row db_now code r else r) (vb_rows db),
                  vb_members := ms\<lparr>mb_auth := auth\<lparr>db_audit := db_audit auth @
                      [\<lparr>al_id = aid, al_actor_user_id = vx_actor_user_id x, al_action = ''member_invite_delivery_failed'',
                        al_target_type = ''workspace_member'', al_target_id = normal_email (vx_email x), al_workspace_id = vx_workspace_id x,
                        al_reason = code, al_causation_id = Some (vx_operation_event_id x),
                        al_metadata = JObj [(''command_id'', JStr (vx_command_id x)), (''error_code'', JStr code)]\<rparr>],
                      db_audit_seq := Suc aid\<rparr>,
                    mb_events := mb_events ms @ [invite_event db_now (vx_operation_event_id x) (vx_workspace_id x) (vx_actor_user_id x) ''failed''
                      (vx_request_id x) ''Workspace invitation delivery failed''
                      ''The external invitation provider did not produce a confirmed invitation.'']\<rparr>\<rparr>,
               Inr ())))"

definition recordCustomerInviteDeliveryFailureRow :: "int \<Rightarrow> invite_failure \<Rightarrow> invite_db \<Rightarrow> invite_db \<times> (member_error + unit)" where
  "recordCustomerInviteDeliveryFailureRow db_now x db =
     (if vx_workspace_id x = [] \<or> vx_actor_user_id x = [] \<or> vx_command_id x = [] \<or> vx_lease_token x = [] \<or>
         js_trim (vx_email x) = [] \<or> vx_operation_event_id x = []
      then (db, Inr ())
      else attempt db (member_scope (vx_workspace_id x)) (\<lambda>_. failure_statement db_now x db))"

section \<open>The membership of an accepted invitation\<close>

record materialization =
  mt_materialized :: bool
  mt_role :: "string option"
  mt_reason :: string

definition refused :: "string \<Rightarrow> materialization" where
  "refused reason = \<lparr>mt_materialized = False, mt_role = None, mt_reason = reason\<rparr>"

definition banned :: "user_row \<Rightarrow> bool" where
  "banned u \<longleftrightarrow> us_status u \<in> {Some ''rejected'', Some ''suspended''}"

definition MATERIALIZER :: string where
  "MATERIALIZER = ''invite-materialization''"

text \<open>\<^verbatim>\<open>users.status NOT IN (...)\<close> is not true of a missing status.\<close>

definition approve_user :: "int \<Rightarrow> string \<Rightarrow> user_row list \<Rightarrow> user_row list" where
  "approve_user db_now uid us =
     (if list_ex (\<lambda>u. us_id u = uid) us
      then map (\<lambda>u. if us_id u = uid \<and> us_status u \<noteq> None \<and> \<not> banned u
                    then u\<lparr>us_status := Some ''approved'', us_approved_at := Some (coalesce (us_approved_at u) db_now)\<rparr> else u) us
      else us @ [\<lparr>us_id = uid, us_email = None, us_status = Some ''approved'', us_approved_at = Some db_now,
                  us_approved_by = Some MATERIALIZER, us_suspended_at = None\<rparr>])"

definition is_member_row :: "string \<Rightarrow> string \<Rightarrow> member_row \<Rightarrow> bool" where
  "is_member_row ws uid m \<longleftrightarrow> wm_workspace_id m = ws \<and> wm_user_id m = uid"

definition invited_member :: "int \<Rightarrow> string \<Rightarrow> string \<Rightarrow> string \<Rightarrow> member_row" where
  "invited_member db_now ws uid role =
     \<lparr>wm_user_id = uid, wm_workspace_id = ws, wm_role = role, wm_status = ''active'', wm_invited_by = None, wm_joined_at = db_now,
      wm_removed_at = None, wm_activated_at = Some db_now, wm_activated_by = Some MATERIALIZER\<rparr>"

definition activate_member :: "int \<Rightarrow> string \<Rightarrow> string \<Rightarrow> string \<Rightarrow> member_row list \<Rightarrow> member_row list" where
  "activate_member db_now ws uid role ms =
     (if list_ex (is_member_row ws uid) ms then ms else ms @ [invited_member db_now ws uid role])"

text \<open>The transaction. No operation of the program deletes a workspace, so the reference of the new member row to its workspace holds.\<close>

definition materialize_transaction :: "int \<Rightarrow> string \<Rightarrow> string \<Rightarrow> string \<Rightarrow> member_db \<Rightarrow> member_db" where
  "materialize_transaction db_now ws uid role db =
     (let auth = (mb_auth db)\<lparr>db_members := activate_member db_now ws uid role (db_members (mb_auth db))\<rparr>;
          auth2 = memberAuthorityProvisioningStatements db_now uid ws role (Some MATERIALIZER) auth
      in db\<lparr>mb_users := approve_user db_now uid (mb_users db),
            mb_auth := auth2\<lparr>db_audit := db_audit auth2 @
                [\<lparr>al_id = db_audit_seq auth2, al_actor_user_id = uid, al_action = ''member_activate'', al_target_type = ''workspace_member'',
                  al_target_id = uid, al_workspace_id = ws, al_reason = ''invite-membership-materialization'', al_causation_id = None,
                  al_metadata = JObj []\<rparr>],
              db_audit_seq := Suc (db_audit_seq auth2)\<rparr>\<rparr>)"

text \<open>\<open>gap k\<close> is what other requests did to the tables before the \<open>k\<close>-th following statement.\<close>

definition materializeInvitedMembershipRow ::
  "int \<Rightarrow> (nat \<Rightarrow> member_db \<Rightarrow> member_db) \<Rightarrow> string \<Rightarrow> string \<Rightarrow> string \<Rightarrow> string option \<Rightarrow> member_db \<Rightarrow> member_db \<times> materialization" where
  "materializeInvitedMembershipRow db_now gap workspaceId userId role email db =
     (let ws = js_trim workspaceId; uid = js_trim userId; inviteeEmail = js_lower (js_trim (coalesce email []));
          db1 = gap 1 db; db2 = gap 2 db1; db3 = (if inviteeEmail \<noteq> [] then gap 3 db2 else db2); db4 = gap 4 db3
      in if role \<noteq> ''viewer'' \<and> role \<noteq> ''operator'' then (db, refused ''role_not_joinable'')
         else if ws = [] \<or> uid = [] then (db, refused ''invalid_input'')
         else if \<not> list_ex (\<lambda>w. ws_id w = ws) (mb_workspaces db) then (db, refused ''workspace_not_found'')
         else if list_ex (is_member_row ws uid) (db_members (mb_auth db1)) then (db1, refused ''member_exists'')
         else if (case find (\<lambda>u. us_id u = uid) (mb_users db2) of None \<Rightarrow> False | Some u \<Rightarrow> banned u) then (db2, refused ''user_banned'')
         else if inviteeEmail \<noteq> [] \<and>
              1 < length (filter (\<lambda>u. map_option js_lower (us_email u) = Some inviteeEmail \<and> us_suspended_at u = None) (mb_users db3))
         then (db3, refused ''identity_ambiguous'')
         else (materialize_transaction db_now ws uid role db4, \<lparr>mt_materialized = True, mt_role = Some role, mt_reason = ''ok''\<rparr>))"

end
