(* ===== verification/Invite_Props.thy ===== *)
theory Invite_Props
  imports Invitations "HOL-Library.Multiset"
begin

text \<open>
  Properties of the invitation command over arbitrary histories of its statements, interleaved with member commands and
  materializations: what a delivery leaves behind, what a retry answers, what a lost lease can still do, and what an accepted
  invitation grants.
\<close>

section \<open>Histories\<close>

datatype invite_step =
    Reserve int invite_command
  | Reclaim int int nat string
  | Finalize int string invite_finalize
  | Fail int invite_failure
  | Member_change string member_command
  | Materialize int string string string

fun invite_apply :: "invite_step \<Rightarrow> invite_db \<Rightarrow> invite_db" where
  "invite_apply (Reserve now c) db = fst (reserve_insert now c db)"
| "invite_apply (Reclaim now db_now i lease) db = fst (reserve_reclaim now db_now i lease db)"
| "invite_apply (Finalize now watermark c) db = fst (finalize_statement now watermark c db)"
| "invite_apply (Fail db_now x) db = fst (failure_statement db_now x db)"
| "invite_apply (Member_change ws m) db = db\<lparr>vb_members := member_exec ws m (vb_members db)\<rparr>"
| "invite_apply (Materialize db_now ws uid role) db = db\<lparr>vb_members := materialize_transaction db_now ws uid role (vb_members db)\<rparr>"

definition invite_run :: "invite_step list \<Rightarrow> invite_db \<Rightarrow> invite_db" where
  "invite_run ss db = fold invite_apply ss db"

lemma invite_run_simps [simp]: "invite_run [] db = db" "invite_run (s # ss) db = invite_run ss (invite_apply s db)"
  "invite_run (ss @ ts) db = invite_run ts (invite_run ss db)"
  by (simp_all add: invite_run_def)

definition row_key :: "invite_row \<Rightarrow> string \<times> string \<times> string \<times> string" where
  "row_key r = (vk_workspace_id r, vk_actor_user_id r, vk_route r, vk_key r)"

definition cmd_key :: "'a invite_command_scheme \<Rightarrow> string \<times> string \<times> string \<times> string" where
  "cmd_key c = (vc_workspace_id c, vc_actor_user_id c, vc_route c, vc_key c)"

lemma invite_key_iff: "invite_key c r \<longleftrightarrow> row_key r = cmd_key c"
  by (auto simp: invite_key_def row_key_def cmd_key_def)

definition is_pending :: "invite_row \<Rightarrow> bool" where
  "is_pending r = (case vk_body r of Pending _ \<Rightarrow> True | Delivered _ \<Rightarrow> False)"

text \<open>The unique index on the key, serial identifiers, and a status exactly on delivered rows.\<close>

definition invite_wf :: "invite_db \<Rightarrow> bool" where
  "invite_wf db \<longleftrightarrow> distinct (map row_key (vb_rows db)) \<and> distinct (map vk_id (vb_rows db)) \<and>
     list_all (\<lambda>r. vk_id r < vb_seq db \<and> (vk_status r = None) = is_pending r) (vb_rows db)"

definition row_le :: "invite_row \<Rightarrow> invite_row \<Rightarrow> bool" where
  "row_le r r' \<longleftrightarrow> row_key r' = row_key r \<and> vk_id r' = vk_id r \<and> vk_request_sha256 r' = vk_request_sha256 r \<and>
     (vk_status r \<noteq> None \<longrightarrow> r' = r) \<and> ((vk_status r = None) = is_pending r \<longrightarrow> (vk_status r' = None) = is_pending r')"

lemma row_le_refl: "row_le r r"
  by (simp add: row_le_def)

lemmas row_facts = row_le_def row_key_def is_pending_def

lemma row_le_relet: "reclaimable db_now i r \<Longrightarrow> row_le r (relet now lease r)"
  by (auto simp: row_facts relet_def reclaimable_def split: invite_body.splits)

lemma row_le_complete: "finalize_target c r \<Longrightarrow> row_le r (complete_row now rc r)"
  by (simp add: row_facts finalize_target_def holds_lease_def complete_row_def)

lemma row_le_release: "failure_target x r \<Longrightarrow> row_le r (release_row db_now code r)"
  by (auto simp: row_facts failure_target_def holds_lease_def release_row_def split: invite_body.splits)

text \<open>A statement rewrites rows in place and adds at most the pending row of a new key.\<close>

definition fresh_row :: "invite_db \<Rightarrow> invite_row \<Rightarrow> bool" where
  "fresh_row db n \<longleftrightarrow> row_key n \<notin> row_key ` set (vb_rows db) \<and> vk_id n = vb_seq db \<and> vk_status n = None \<and> is_pending n"

definition moves :: "invite_db \<Rightarrow> invite_db \<Rightarrow> bool" where
  "moves db db' \<longleftrightarrow> (\<exists>f. (\<forall>r. row_le r (f r)) \<and>
     (vb_rows db' = map f (vb_rows db) \<and> vb_seq db' = vb_seq db \<or>
      (\<exists>n. vb_rows db' = map f (vb_rows db) @ [n] \<and> vb_seq db' = Suc (vb_seq db) \<and> fresh_row db n)))"

lemma moves_map:
  assumes "\<And>r. P r \<Longrightarrow> row_le r (g r)" and "vb_rows db' = map (\<lambda>r. if P r then g r else r) (vb_rows db)" and "vb_seq db' = vb_seq db"
  shows "moves db db'"
  unfolding moves_def using assms row_le_refl by (intro exI [of _ "\<lambda>r. if P r then g r else r"]) auto

lemma moves_same: "vb_rows db' = vb_rows db \<Longrightarrow> vb_seq db' = vb_seq db \<Longrightarrow> moves db db'"
  unfolding moves_def by (intro exI [of _ id]) (simp add: row_le_refl)

lemma reserve_moves: "moves db (fst (reserve_insert now c db))"
proof (cases "list_ex (invite_key c) (vb_rows db)")
  case True
  then show ?thesis by (simp add: reserve_insert_def moves_same)
next
  case False
  then have "cmd_key c \<notin> row_key ` set (vb_rows db)" by (auto simp: list_ex_iff invite_key_iff)
  with False show ?thesis
    unfolding moves_def reserve_insert_def
    by (intro exI [of _ id]) (simp add: row_le_refl fresh_row_def row_key_def cmd_key_def is_pending_def)
qed

definition delivered_db :: "int \<Rightarrow> string \<Rightarrow> invite_finalize \<Rightarrow> invite_db \<Rightarrow> invite_db" where
  "delivered_db now watermark c db =
     (let ms = vb_members db; auth = mb_auth ms; aid = db_audit_seq auth in
      db\<lparr>vb_rows := map (\<lambda>r. if finalize_target c r then complete_row now (delivery_receipt watermark aid c) r else r) (vb_rows db),
         vb_members := ms\<lparr>mb_auth := auth\<lparr>db_audit := db_audit auth @ [delivery_audit aid c], db_audit_seq := Suc aid\<rparr>,
           mb_events := mb_events ms @ [invite_event now (vf_operation_event_id c) (vc_workspace_id c) (vc_actor_user_id c) ''completed''
             (vc_request_id c) ''Workspace invitation delivered''
             ''Clerk accepted the invitation command and returned a canonical invitation id.''],
           mb_outbox := mb_outbox ms @ [delivery_outbox now aid c]\<rparr>\<rparr>)"

lemma finalize_cases:
  obtains (no_target) "\<not> list_ex (finalize_target c) (vb_rows db)" "finalize_statement now watermark c db = (db, Inr None)"
  | (clash) "finalize_statement now watermark c db = (db\<lparr>vb_members := draw_audit_id (vb_members db)\<rparr>, Inl M_unique_violation)"
  | (finalized) "list_ex (finalize_target c) (vb_rows db)"
      "finalize_statement now watermark c db =
         (delivered_db now watermark c db, Inr (Some (delivery_receipt watermark (db_audit_seq (mb_auth (vb_members db))) c)))"
  unfolding finalize_statement_def delivered_db_def Let_def
  by (cases "list_ex (finalize_target c) (vb_rows db)";
      cases "list_ex (\<lambda>e. me_id e = vf_operation_event_id c) (mb_events (vb_members db)) \<or>
             list_ex (\<lambda>q. ob_id q = vf_projection_outbox_id c) (mb_outbox (vb_members db))") simp_all

lemma failure_rows:
  "vb_rows (fst (failure_statement db_now x db)) = vb_rows db \<or>
   vb_rows (fst (failure_statement db_now x db)) = map (\<lambda>r. if failure_target x r then release_row db_now (failure_code x) r else r) (vb_rows db)"
  "vb_seq (fst (failure_statement db_now x db)) = vb_seq db"
  "mb_outbox (vb_members (fst (failure_statement db_now x db))) = mb_outbox (vb_members db)"
  by (simp_all add: failure_statement_def Let_def)

lemma finalize_moves: "moves db (fst (finalize_statement now watermark c db))"
proof (cases rule: finalize_cases [of c db now watermark])
  case finalized
  show ?thesis
    by (rule moves_map [of "finalize_target c" "complete_row now (delivery_receipt watermark (db_audit_seq (mb_auth (vb_members db))) c)",
        OF row_le_complete]) (simp_all add: finalized(2) delivered_db_def Let_def)
qed (simp_all add: moves_same)

lemma failure_moves: "moves db (fst (failure_statement db_now x db))"
  using failure_rows(1) [of db_now x db]
proof
  assume "vb_rows (fst (failure_statement db_now x db)) = vb_rows db"
  then show ?thesis using failure_rows(2) by (rule moves_same)
qed (rule moves_map [OF row_le_release], assumption+, rule failure_rows(2))

lemma invite_apply_moves: "moves db (invite_apply s db)"
proof (cases s)
  case (Reclaim now db_now i lease)
  show ?thesis
    by (rule moves_map [of "reclaimable db_now i" "relet now lease", OF row_le_relet]) (simp_all add: Reclaim reserve_reclaim_def)
qed (simp_all add: moves_same reserve_moves finalize_moves failure_moves)

lemma row_leD:
  assumes "row_le r r'"
  shows "row_key r' = row_key r" and "vk_id r' = vk_id r" and "vk_request_sha256 r' = vk_request_sha256 r"
    and "vk_status r \<noteq> None \<Longrightarrow> r' = r" and "(vk_status r = None) = is_pending r \<Longrightarrow> (vk_status r' = None) = is_pending r'"
  using assms by (simp_all add: row_le_def)

lemma moves_wf:
  assumes "moves db db'" and "invite_wf db"
  shows "invite_wf db'"
proof -
  from assms(1) obtain f where f: "\<And>r. row_le r (f r)"
    and d: "vb_rows db' = map f (vb_rows db) \<and> vb_seq db' = vb_seq db \<or>
      (\<exists>n. vb_rows db' = map f (vb_rows db) @ [n] \<and> vb_seq db' = Suc (vb_seq db) \<and> fresh_row db n)"
    unfolding moves_def by blast
  have k: "row_key \<circ> f = row_key" "vk_id \<circ> f = vk_id" using row_leD(1,2) [OF f] by auto
  have st: "(vk_status (f r) = None) = is_pending (f r)" if "r \<in> set (vb_rows db)" for r
    using row_leD(5) [OF f] assms(2) that unfolding invite_wf_def list_all_iff by blast
  have idl: "vk_id (f r) < vb_seq db" if "r \<in> set (vb_rows db)" for r
    using row_leD(2) [OF f] assms(2) that unfolding invite_wf_def list_all_iff by simp
  from d show ?thesis
  proof
    assume "vb_rows db' = map f (vb_rows db) \<and> vb_seq db' = vb_seq db"
    with k st idl assms(2) show ?thesis unfolding invite_wf_def by (simp add: list_all_iff)
  next
    assume "\<exists>n. vb_rows db' = map f (vb_rows db) @ [n] \<and> vb_seq db' = Suc (vb_seq db) \<and> fresh_row db n"
    then obtain n where n: "vb_rows db' = map f (vb_rows db) @ [n]" "vb_seq db' = Suc (vb_seq db)" "fresh_row db n" by blast
    have "vb_seq db \<notin> vk_id ` set (vb_rows db)" using assms(2) by (auto simp: invite_wf_def list_all_iff)
    with n k st idl assms(2) show ?thesis
      unfolding invite_wf_def fresh_row_def
      by (auto simp: list_all_iff row_leD(1,2) [OF f] less_Suc_eq)
  qed
qed

lemma moves_row:
  assumes "moves db db'" and "r \<in> set (vb_rows db)"
  obtains r' where "r' \<in> set (vb_rows db')" "row_le r r'"
proof -
  from assms(1) have "\<exists>f. (\<forall>r. row_le r (f r)) \<and> f ` set (vb_rows db) \<subseteq> set (vb_rows db')" unfolding moves_def by fastforce
  with assms(2) that show ?thesis by blast
qed

lemma invite_run_wf: "invite_wf db \<Longrightarrow> invite_wf (invite_run ss db)"
  by (induction ss arbitrary: db) (auto intro: moves_wf [OF invite_apply_moves])

lemma delivered_stays: "r \<in> set (vb_rows db) \<Longrightarrow> vk_status r \<noteq> None \<Longrightarrow> r \<in> set (vb_rows (invite_run ss db))"
proof (induction ss arbitrary: db)
  case (Cons s ss)
  from moves_row [OF invite_apply_moves Cons.prems(1)] obtain r' where "r' \<in> set (vb_rows (invite_apply s db))" "row_le r r'" .
  with Cons.prems(2) row_leD(4) have "r \<in> set (vb_rows (invite_apply s db))" by metis
  with Cons.IH Cons.prems(2) show ?case by simp
qed simp

lemma same_id_same_key:
  assumes "invite_wf db" and "row \<in> set (vb_rows db)" and "r \<in> set (vb_rows (invite_run ss db))" and "vk_id r = vk_id row"
  shows "row_key r = row_key row"
proof -
  from assms(2) have "\<exists>q \<in> set (vb_rows (invite_run ss db)). row_key q = row_key row \<and> vk_id q = vk_id row"
  proof (induction ss arbitrary: db row)
    case (Cons s ss)
    from moves_row [OF invite_apply_moves Cons.prems] obtain q where "q \<in> set (vb_rows (invite_apply s db))" "row_le row q" .
    with Cons.IH row_leD(1,2) show ?case by (metis invite_run_simps(2))
  qed auto
  then obtain q where q: "q \<in> set (vb_rows (invite_run ss db))" "row_key q = row_key row" "vk_id q = vk_id row" by blast
  have "inj_on vk_id (set (vb_rows (invite_run ss db)))"
    using invite_run_wf [OF assms(1)] by (simp add: invite_wf_def distinct_map)
  from inj_onD [OF this] q(1,3) assms(3,4) have "q = r" by metis
  with q show ?thesis by simp
qed

lemma find_row:
  assumes "invite_wf db" and "r \<in> set (vb_rows db)" and "invite_key c r"
  shows "find (invite_key c) (vb_rows db) = Some r"
proof (rule find_unique)
  fix y assume "y \<in> set (vb_rows db)" "invite_key c y"
  with assms show "y = r" by (auto simp: invite_wf_def invite_key_iff distinct_map inj_on_def)
qed (use assms in auto)

section \<open>Retries after a delivery\<close>

lemma receipt_body_iff: "inviteReceiptFromBody b p = Inr rc \<longleftrightarrow>
    (\<exists>r. b = Delivered r \<and> inviteReceiptFromBody (Delivered r) True = Inr (r\<lparr>vr_replayed := True\<rparr>) \<and> rc = r\<lparr>vr_replayed := p\<rparr>)"
  by (cases b) (auto simp: inviteReceiptFromBody_def)

text \<open>A fresh receipt leaves its completed row.\<close>

lemma fresh_finalization:
  assumes "finalizeCustomerInviteRow now to_iso i1 c db = (db', Inr rc)" and "\<not> vr_replayed rc"
  obtains r where "r \<in> set (vb_rows db')" "row_key r = cmd_key c" "vk_request_sha256 r = vc_request_sha256 c" "vk_status r \<noteq> None"
    "vk_body r = Delivered rc" "vr_command_id rc = vc_command_id c" "vc_command_id c \<noteq> []" "inviteReceiptFromBody (Delivered rc) True = Inr (rc\<lparr>vr_replayed := True\<rparr>)"
    "db' = fst (finalize_statement now (to_iso now) c db)" "list_ex (finalize_target c) (vb_rows db)"
proof -
  have ok: "validateInviteCommand c = Inr ()"
    using assms(1) by (cases "validateInviteCommand c") (simp_all add: finalizeCustomerInviteRow_def)
  then have nc: "vc_command_id c \<noteq> []" by (auto simp: validateInviteCommand_def split: if_splits)
  let ?rc = "delivery_receipt (to_iso now) (db_audit_seq (mb_auth (vb_members db))) c"
  have ids: "vf_invitation_id c \<noteq> [] \<and> vf_operation_event_id c \<noteq> [] \<and> vf_projection_outbox_id c \<noteq> []"
    using assms(1) ok by (simp add: finalizeCustomerInviteRow_def ensure_def split: if_splits)
  show ?thesis
  proof (cases rule: finalize_cases [of c db now "to_iso now"])
    case no_target
    then obtain row :: invite_row where "inviteReceiptFromBody (vk_body row) True = Inr rc"
      using assms(1) ok ids by (auto simp: finalizeCustomerInviteRow_def Let_def ensure_def split: option.splits if_splits)
    then have "vr_replayed rc" unfolding receipt_body_iff [of _ True rc] by force
    with assms(2) show ?thesis by simp
  next
    case clash
    then show ?thesis using assms(1) ok ids by (simp add: finalizeCustomerInviteRow_def ensure_def)
  next
    case finalized
    then have db': "db' = delivered_db now (to_iso now) c db" and b: "inviteReceiptFromBody (Delivered ?rc) False = Inr rc"
      using assms(1) ok ids by (simp_all add: finalizeCustomerInviteRow_def ensure_def)
    have rc: "rc = ?rc" using b by (simp add: inviteReceiptFromBody_def delivery_receipt_def split: if_splits)
    from finalized(1) obtain r where r: "r \<in> set (vb_rows db)" "finalize_target c r" by (auto simp: list_ex_iff)
    have "complete_row now ?rc r \<in> set (vb_rows db')"
      unfolding db' delivered_db_def Let_def using r by (auto intro!: image_eqI [of _ _ r])
    moreover have "inviteReceiptFromBody (Delivered ?rc) True = Inr (?rc\<lparr>vr_replayed := True\<rparr>)"
      using b by (simp add: inviteReceiptFromBody_def split: if_splits)
    ultimately show ?thesis
      using r(2) nc finalized db'
      by (intro that [of "complete_row now ?rc r"])
        (simp_all add: rc complete_row_def row_key_def invite_key_def cmd_key_def finalize_target_def, simp add: delivery_receipt_def)
  qed
qed

lemma delivered_row_found:
  assumes "finalizeCustomerInviteRow now to_iso i1 c db = (db', Inr rc)" and "\<not> vr_replayed rc" and "invite_wf db"
    and "cmd_key c' = cmd_key c"
  obtains r where "find (invite_key c') (vb_rows (invite_run ss db')) = Some r" "vk_request_sha256 r = vc_request_sha256 c"
    "vk_status r \<noteq> None" "vk_body r = Delivered rc" "vr_command_id rc \<noteq> []" "inviteReceiptFromBody (Delivered rc) True = Inr (rc\<lparr>vr_replayed := True\<rparr>)"
proof -
  from fresh_finalization [OF assms(1,2)] obtain r where r: "r \<in> set (vb_rows db')" "row_key r = cmd_key c"
    "vk_request_sha256 r = vc_request_sha256 c" "vk_status r \<noteq> None" "vk_body r = Delivered rc" "vr_command_id rc = vc_command_id c"
    "vc_command_id c \<noteq> []" "inviteReceiptFromBody (Delivered rc) True = Inr (rc\<lparr>vr_replayed := True\<rparr>)"
    and db': "db' = fst (finalize_statement now (to_iso now) c db)" .
  have "invite_wf (invite_run ss db')" unfolding db' by (rule invite_run_wf [OF moves_wf [OF finalize_moves assms(3)]])
  moreover have "r \<in> set (vb_rows (invite_run ss db'))" using r(1,4) by (rule delivered_stays)
  ultimately have "find (invite_key c') (vb_rows (invite_run ss db')) = Some r"
    using r(2) assms(4) by (intro find_row) (simp_all add: invite_key_iff)
  with r that show ?thesis by simp
qed

text \<open>
  A delivered invitation is delivered once: after a finalization that answered a fresh receipt, and whatever reservations,
  reclaims, finalizations, failures, member commands and materializations follow, a retry of the command under the same key and
  request is told the invitation is already delivered, with that receipt marked as replayed, and a late finalization under that key
  by anyone answers the same receipt; neither changes anything itself.
\<close>

theorem delivered_invitation_replays:
  assumes "finalizeCustomerInviteRow now to_iso i c db = (db', Inr rc)" and "\<not> vr_replayed rc" and "invite_wf db"
    and "cmd_key retry = cmd_key c" and "vc_request_sha256 retry = vc_request_sha256 c" and "validateInviteCommand retry = Inr ()"
    and "vf_invitation_id retry \<noteq> []" and "vf_operation_event_id retry \<noteq> []" and "vf_projection_outbox_id retry \<noteq> []"
  shows "reserveCustomerInviteRow n1 n2 n3 (invite_run ss1) i2 retry (invite_run ss db') =
           (invite_run (ss @ ss1) db', Inr (Already_delivered (vr_command_id rc) (rc\<lparr>vr_replayed := True\<rparr>))) \<and>
         finalizeCustomerInviteRow n4 to_iso (invite_run ss1) retry (invite_run ss db') =
           (invite_run (ss @ ss1) db', Inr (rc\<lparr>vr_replayed := True\<rparr>))"
proof -
  note found = delivered_row_found [OF assms(1-4)]
  from found [of ss] obtain r where r: "find (invite_key retry) (vb_rows (invite_run ss db')) = Some r" "vk_status r \<noteq> None" .
  then have in_r: "r \<in> set (vb_rows (invite_run ss db'))" "invite_key retry r" using find_Some_in by metis+
  from found [of "ss @ ss1"] obtain q where q: "find (invite_key retry) (vb_rows (invite_run ss1 (invite_run ss db'))) = Some q"
    "vk_request_sha256 q = vc_request_sha256 c" "vk_status q \<noteq> None" "vk_body q = Delivered rc" "vr_command_id rc \<noteq> []"
    "inviteReceiptFromBody (Delivered rc) True = Inr (rc\<lparr>vr_replayed := True\<rparr>)" by auto
  have "reserve_insert n1 retry (invite_run ss db') = (invite_run ss db', False)"
    using in_r by (auto simp: reserve_insert_def list_ex_iff)
  then have reserve: "reserveCustomerInviteRow n1 n2 n3 (invite_run ss1) i2 retry (invite_run ss db') =
      (invite_run (ss @ ss1) db', Inr (Already_delivered (vr_command_id rc) (rc\<lparr>vr_replayed := True\<rparr>)))"
    unfolding reserveCustomerInviteRow_def assms(6) using q assms(5) by (simp add: or_text_def)
  have "invite_wf (invite_run ss db')"
    using fresh_finalization [OF assms(1,2)] invite_run_wf [OF moves_wf [OF finalize_moves assms(3)]] by metis
  then have "\<not> list_ex (finalize_target retry) (vb_rows (invite_run ss db'))"
    using find_row [of "invite_run ss db'" _ retry] r by (auto simp: list_ex_iff finalize_target_def holds_lease_def)
  then have "finalize_statement n4 (to_iso n4) retry (invite_run ss db') = (invite_run ss db', Inr None)"
    by (simp add: finalize_statement_def)
  then have "finalizeCustomerInviteRow n4 to_iso (invite_run ss1) retry (invite_run ss db') =
      (invite_run (ss @ ss1) db', Inr (rc\<lparr>vr_replayed := True\<rparr>))"
    unfolding finalizeCustomerInviteRow_def assms(6) using q assms(5,7-9) by (simp add: ensure_def)
  with reserve show ?thesis by (rule conjI)
qed

section \<open>Lost leases\<close>

definition lease_lost :: "'a invite_command_scheme \<Rightarrow> invite_row \<Rightarrow> bool" where
  "lease_lost c r \<longleftrightarrow> invite_key c r \<and> \<not> holds_lease (vc_command_id c) (vc_lease_token c) r"

fun takes_lease :: "string \<Rightarrow> invite_step \<Rightarrow> bool" where
  "takes_lease l (Reclaim now db_now i lease) = (lease = l)"
| "takes_lease l _ = False"

lemma lease_lost_complete: "lease_lost c (complete_row now rc r) \<longleftrightarrow> invite_key c r"
  by (simp add: lease_lost_def invite_key_def holds_lease_def complete_row_def)

lemma lease_lost_release: "lease_lost c (release_row db_now code r) \<longleftrightarrow> lease_lost c r"
  by (auto simp: lease_lost_def invite_key_def holds_lease_def release_row_def split: invite_body.splits)

lemma lease_lost_relet: "lease \<noteq> vc_lease_token c \<Longrightarrow> lease_lost c r \<Longrightarrow> lease_lost c (relet now lease r)"
  by (auto simp: lease_lost_def invite_key_def holds_lease_def relet_def split: invite_body.splits)

lemma ex_map_if: "\<exists>r \<in> set xs. Q r \<Longrightarrow> (\<And>r. Q r \<Longrightarrow> Q (g r)) \<Longrightarrow> \<exists>r \<in> set (map (\<lambda>r. if P r then g r else r) xs). Q r"
  by (auto 4 4)

lemma lease_lost_apply:
  assumes "\<exists>r \<in> set (vb_rows db). lease_lost c r" and "\<not> takes_lease (vc_lease_token c) s"
  shows "\<exists>r \<in> set (vb_rows (invite_apply s db)). lease_lost c r"
proof (cases s)
  case (Reserve now c')
  then show ?thesis using assms(1) by (auto simp: reserve_insert_def)
next
  case (Reclaim now db_now i lease)
  with assms(2) show ?thesis
    using ex_map_if [OF assms(1), of "relet now lease" "reclaimable db_now i"] lease_lost_relet [of lease c] by (simp add: reserve_reclaim_def)
next
  case (Finalize now watermark c')
  show ?thesis
  proof (cases rule: finalize_cases [of c' db now watermark])
    case finalized
    then show ?thesis
      unfolding Finalize invite_apply.simps finalized(2) delivered_db_def Let_def
      using ex_map_if [OF assms(1), of "complete_row now (delivery_receipt watermark (db_audit_seq (mb_auth (vb_members db))) c')"
          "finalize_target c'"] lease_lost_complete [of c now _] lease_lost_def [of c]
      by simp
  qed (use Finalize assms(1) in simp_all)
next
  case (Fail db_now x)
  then show ?thesis
    using failure_rows(1) [of db_now x db] ex_map_if [OF assms(1), of "release_row db_now (failure_code x)"] assms(1)
    by (auto simp: lease_lost_release)
qed (use assms(1) in simp_all)

lemma lease_lost_run:
  "\<exists>r \<in> set (vb_rows db). lease_lost c r \<Longrightarrow> list_all (\<lambda>s. \<not> takes_lease (vc_lease_token c) s) ss \<Longrightarrow>
     \<exists>r \<in> set (vb_rows (invite_run ss db)). lease_lost c r"
  by (induction ss arbitrary: db) (simp_all add: lease_lost_apply)

lemma lease_lost_no_target:
  assumes "invite_wf db" and "r \<in> set (vb_rows db)" and "lease_lost c r"
  shows "\<not> list_ex (finalize_target c) (vb_rows db)"
proof
  assume "list_ex (finalize_target c) (vb_rows db)"
  then obtain q where "q \<in> set (vb_rows db)" "finalize_target c q" by (auto simp: list_ex_iff)
  with find_row [OF assms(1), of q c] find_row [OF assms(1,2), of c] assms(3) show False
    by (simp add: finalize_target_def lease_lost_def)
qed

text \<open>A reclaim leaves the key's row with the new lease.\<close>

lemma reclaimed_row:
  assumes "reserveCustomerInviteRow now n2 n3 i1 i2 c db = (db', Inr (Acquired cid lease True d))"
  obtains row r where "row \<in> set (vb_rows (i1 db))" "invite_key c row" "r \<in> set (vb_rows (i2 (i1 db)))" "vk_id r = vk_id row"
    "db' = invite_apply (Reclaim now n3 (vk_id row) lease) (i2 (i1 db))" "relet now lease r \<in> set (vb_rows db')"
    "\<exists>p. vk_body r = Pending p" "lease = vc_lease_token c"
proof -
  have ok: "validateInviteCommand c = Inr ()"
    using assms by (cases "validateInviteCommand c") (simp_all add: reserveCustomerInviteRow_def)
  have ex: "list_ex (invite_key c) (vb_rows db)"
    using assms ok by (auto simp: reserveCustomerInviteRow_def reserve_insert_def split: if_splits)
  then have ins: "reserve_insert now c db = (db, False)" by (simp add: reserve_insert_def)
  note d = assms [unfolded reserveCustomerInviteRow_def ok attempt_simps ins Let_def prod.case if_False]
  from d obtain row where row: "find (invite_key c) (vb_rows (i1 db)) = Some row"
    by (cases "find (invite_key c) (vb_rows (i1 db))") simp_all
  note d = d [unfolded row option.case]
  have st: "vk_status row = None" "vk_request_sha256 row = vc_request_sha256 c" "\<not> lease_active n2 row"
    using d by (auto split: if_splits sum.splits invite_body.splits simp: map_sum_def)
  obtain r where r: "find (reclaimable n3 (vk_id row)) (vb_rows (i2 (i1 db))) = Some r"
    using d st by (cases "find (reclaimable n3 (vk_id row)) (vb_rows (i2 (i1 db)))") (simp_all add: reserve_reclaim_def)
  have e: "db' = fst (reserve_reclaim now n3 (vk_id row) (vc_lease_token c) (i2 (i1 db)))" "lease = vc_lease_token c"
    "\<exists>p. vk_body (relet now (vc_lease_token c) r) = Pending p"
    using d st r by (auto simp: reserve_reclaim_def split: invite_body.splits if_splits)
  have rin: "reclaimable n3 (vk_id row) r" "r \<in> set (vb_rows (i2 (i1 db)))" using find_Some_in [OF r] by auto
  then have "relet now lease r \<in> set (vb_rows db')"
    unfolding e by (auto simp: reserve_reclaim_def intro!: image_eqI [of _ _ r])
  moreover have "\<exists>p. vk_body r = Pending p" using e(3) by (auto simp: relet_def split: invite_body.splits)
  ultimately show ?thesis
    using find_Some_in [OF row] rin e that by (auto simp: reclaimable_def)
qed

text \<open>
  C12. A superseded lease is dead: once a retry has reclaimed the command with a new lease, and whatever statements ran
  before, between and after, a finalization under the same key that still carries another lease (and no later reclaim took that lease)
  changes no row, writes no event, audit or outbox entry, and if it answers a receipt at all it is one it merely replays.
\<close>

theorem superseded_lease_is_dead:
  assumes "reserveCustomerInviteRow now n2 n3 (invite_run ss1) (invite_run ss2) c db = (db', Inr (Acquired cid lease True d))"
    and "invite_wf db" and "cmd_key late = cmd_key c" and "vc_lease_token late \<noteq> lease"
    and "list_all (\<lambda>s. \<not> takes_lease (vc_lease_token late) s) ss"
  shows "fst (finalize_statement n4 (to_iso n4) late (invite_run ss db')) = invite_run ss db' \<and>
    (\<forall>i rc. snd (finalizeCustomerInviteRow n4 to_iso i late (invite_run ss db')) = Inr rc \<longrightarrow> vr_replayed rc)"
proof -
  let ?mid = "invite_run ss2 (invite_run ss1 db)"
  from reclaimed_row [OF assms(1)] obtain row r where r: "row \<in> set (vb_rows (invite_run ss1 db))" "invite_key c row"
    "r \<in> set (vb_rows ?mid)" "vk_id r = vk_id row" and db': "db' = invite_apply (Reclaim now n3 (vk_id row) lease) ?mid"
    "relet now lease r \<in> set (vb_rows db')" and p: "\<exists>p. vk_body r = Pending p" .
  have wf1: "invite_wf (invite_run ss1 db)" and wfm: "invite_wf ?mid" using assms(2) by (simp_all add: invite_run_wf)
  have "row_key r = row_key row"
    using same_id_same_key [OF wf1 r(1) r(3,4)] .
  then have "lease_lost late (relet now lease r)"
    using p r(2) assms(3,4)
    by (auto simp: lease_lost_def invite_key_iff row_key_def relet_def holds_lease_def)
  with db'(2) have "\<exists>q \<in> set (vb_rows (invite_run ss db')). lease_lost late q" by (intro lease_lost_run [OF _ assms(5)]) blast
  moreover have "invite_wf (invite_run ss db')" unfolding db'(1) by (intro invite_run_wf moves_wf [OF invite_apply_moves wfm])
  ultimately have nt: "\<not> list_ex (finalize_target late) (vb_rows (invite_run ss db'))" using lease_lost_no_target by blast
  then have same: "finalize_statement n4 (to_iso n4) late (invite_run ss db') = (invite_run ss db', Inr None)"
    by (simp add: finalize_statement_def)
  have "vr_replayed rc" if h: "snd (finalizeCustomerInviteRow n4 to_iso i late (invite_run ss db')) = Inr rc" for i rc
  proof (rule ccontr)
    assume f: "\<not> vr_replayed rc"
    from h obtain d2 where h2: "finalizeCustomerInviteRow n4 to_iso i late (invite_run ss db') = (d2, Inr rc)" by (metis prod.collapse)
    from fresh_finalization [OF h2 f] nt show False by metis
  qed
  with same show ?thesis by simp
qed

section \<open>What a delivery leaves behind\<close>

definition delivered_receipt :: "invite_row \<Rightarrow> invite_receipt option" where
  "delivered_receipt r = (case vk_body r of Delivered rc \<Rightarrow> Some rc | Pending _ \<Rightarrow> None)"

definition deliveries :: "invite_db \<Rightarrow> invite_receipt list" where
  "deliveries db = List.map_filter delivered_receipt (vb_rows db)"

definition invitation_events :: "member_db \<Rightarrow> outbox_row list" where
  "invitation_events ms = filter (\<lambda>q. ob_aggregate_type q = ''workspace_invitation'') (mb_outbox ms)"

definition attested :: "invite_db \<Rightarrow> bool" where
  "attested db \<longleftrightarrow> mset (map (\<lambda>q. (ob_id q, ob_aggregate_id q)) (invitation_events (vb_members db))) =
     mset (map (\<lambda>rc. (vr_projection_outbox_id rc, vr_command_id rc)) (deliveries db))"

lemma map_filter_map_same: "(\<And>r. r \<in> set xs \<Longrightarrow> f (g r) = f r) \<Longrightarrow> List.map_filter f (map g xs) = List.map_filter f xs"
  by (induction xs) (simp_all add: map_filter_simps split: option.split)

lemma map_filter_append': "List.map_filter f (xs @ ys) = List.map_filter f xs @ List.map_filter f ys"
  by (simp add: map_filter_def)

lemma deliveries_pending_map:
  assumes "vb_rows db' = map (\<lambda>r. if P r then g r else r) (vb_rows db)"
    and "\<And>r. r \<in> set (vb_rows db) \<Longrightarrow> P r \<Longrightarrow> delivered_receipt (g r) = delivered_receipt r"
  shows "deliveries db' = deliveries db"
  unfolding deliveries_def assms(1) using assms(2) by (intro map_filter_map_same) simp

lemma deliveries_finalize:
  assumes "invite_wf db" and "list_ex (finalize_target c) (vb_rows db)"
  shows "mset (deliveries (delivered_db now watermark c db)) =
    add_mset (delivery_receipt watermark (db_audit_seq (mb_auth (vb_members db))) c) (mset (deliveries db))"
proof -
  let ?rc = "delivery_receipt watermark (db_audit_seq (mb_auth (vb_members db))) c"
  let ?f = "\<lambda>r. if finalize_target c r then complete_row now ?rc r else r"
  from assms(2) obtain t where t: "t \<in> set (vb_rows db)" "finalize_target c t" by (auto simp: list_ex_iff)
  then obtain xs ys where sp: "vb_rows db = xs @ t # ys" by (auto simp: in_set_conv_decomp)
  have none: "\<not> finalize_target c q" if "q \<in> set xs \<union> set ys" for q
  proof
    assume "finalize_target c q"
    then have "row_key q = row_key t" using t(2) by (simp add: finalize_target_def invite_key_iff)
    moreover have "row_key t \<notin> row_key ` (set xs \<union> set ys)" using assms(1) unfolding invite_wf_def sp by auto
    ultimately show False using that by (metis imageI)
  qed
  then have same: "map ?f xs = xs" "map ?f ys = ys" by (simp_all add: map_idI)
  have "delivered_receipt t = None"
    using t(2) by (auto simp: finalize_target_def holds_lease_def delivered_receipt_def split: invite_body.splits)
  moreover have "vb_rows (delivered_db now watermark c db) = xs @ complete_row now ?rc t # ys"
    unfolding delivered_db_def Let_def using same t(2) sp by simp
  ultimately show ?thesis
    unfolding deliveries_def sp
    by (simp add: map_filter_append' map_filter_simps delivered_receipt_def complete_row_def)
qed

lemma member_exec_outbox: "invitation_events (member_exec ws m ms) = invitation_events ms"
proof -
  have "invitation_events (draw_audit_id ms) = invitation_events ms" by (simp add: invitation_events_def draw_audit_id_def)
  moreover have "invitation_events (fst (apply_change env ws t a i ch ms)) = invitation_events ms" for env t a i ch
    by (simp add: invitation_events_def apply_change_def draw_audit_id_def Let_def)
  ultimately show ?thesis
    unfolding member_exec_def
    by (rule_tac member_run_cases [OF surjective_pairing [of "member_run ws m ms"]]) (simp_all, metis fst_conv)
qed

lemma attested_apply:
  assumes "invite_wf db" and "attested db"
  shows "attested (invite_apply s db)"
proof (cases s)
  case (Reserve now c)
  have "deliveries (fst (reserve_insert now c db)) = deliveries db"
    by (simp add: deliveries_def reserve_insert_def map_filter_append' map_filter_simps delivered_receipt_def)
  then show ?thesis using assms(2) by (simp add: Reserve attested_def reserve_insert_def)
next
  case (Reclaim now db_now i lease)
  have "deliveries (fst (reserve_reclaim now db_now i lease db)) = deliveries db"
    by (rule deliveries_pending_map [of _ "reclaimable db_now i" "relet now lease"])
      (auto simp: reserve_reclaim_def delivered_receipt_def relet_def split: invite_body.splits)
  then show ?thesis using assms(2) by (simp add: Reclaim attested_def reserve_reclaim_def)
next
  case (Finalize now watermark c)
  show ?thesis
  proof (cases rule: finalize_cases [of c db now watermark])
    case finalized
    have "invitation_events (vb_members (delivered_db now watermark c db)) = invitation_events (vb_members db) @
        [delivery_outbox now (db_audit_seq (mb_auth (vb_members db))) c]"
      by (simp add: invitation_events_def delivered_db_def Let_def delivery_outbox_def)
    with assms(2) deliveries_finalize [OF assms(1) finalized(1), of now watermark] show ?thesis
      by (simp add: Finalize finalized(2) attested_def delivery_outbox_def delivery_receipt_def)
  qed (use Finalize assms(2) in \<open>simp_all add: attested_def deliveries_def invitation_events_def draw_audit_id_def\<close>)
next
  case (Fail db_now x)
  have "deliveries (fst (failure_statement db_now x db)) = deliveries db"
    using failure_rows(1) [of db_now x db]
  proof
    assume "vb_rows (fst (failure_statement db_now x db)) = map (\<lambda>r. if failure_target x r then release_row db_now (failure_code x) r else r) (vb_rows db)"
    then show ?thesis
      by (rule deliveries_pending_map) (auto simp: delivered_receipt_def release_row_def split: invite_body.splits)
  qed (simp add: deliveries_def)
  then show ?thesis using assms(2) failure_rows(3) [of db_now x db] by (simp add: Fail attested_def invitation_events_def)
next
  case (Member_change ws m)
  then show ?thesis using assms(2) by (simp add: attested_def deliveries_def member_exec_outbox)
next
  case (Materialize db_now ws uid role)
  then show ?thesis
    using assms(2) by (simp add: attested_def deliveries_def invitation_events_def materialize_transaction_def Let_def)
qed

lemma attested_run: "invite_wf db \<Longrightarrow> attested db \<Longrightarrow> attested (invite_run ss db)"
  by (induction ss arbitrary: db) (simp_all add: attested_apply moves_wf [OF invite_apply_moves])

text \<open>
  C13. Every delivery is attested exactly once: in any history of reservations, reclaims, finalizations, failures, member
  commands and materializations, no key has two rows, and the invitation events in the projection outbox correspond one to one to
  the delivered rows, event by event with the outbox identifier and the command identifier of the recorded receipt.
\<close>

theorem delivery_attested_once:
  assumes "vb_rows db = []" and "invitation_events (vb_members db) = []"
  shows "distinct (map row_key (vb_rows (invite_run ss db))) \<and>
    mset (map (\<lambda>q. (ob_id q, ob_aggregate_id q)) (invitation_events (vb_members (invite_run ss db)))) =
    mset (map (\<lambda>rc. (vr_projection_outbox_id rc, vr_command_id rc)) (deliveries (invite_run ss db)))"
proof -
  have "invite_wf db" "attested db" using assms by (simp_all add: invite_wf_def attested_def deliveries_def map_filter_simps)
  with attested_run [of db ss] invite_run_wf [of db ss] show ?thesis by (simp add: attested_def invite_wf_def)
qed

section \<open>What an accepted invitation grants\<close>

text \<open>The tables as the transaction finds them.\<close>

definition at_commit :: "(nat \<Rightarrow> member_db \<Rightarrow> member_db) \<Rightarrow> string option \<Rightarrow> member_db \<Rightarrow> member_db" where
  "at_commit gap email db =
     gap 4 ((if js_lower (js_trim (coalesce email [])) \<noteq> [] then gap 3 else id) (gap 2 (gap 1 db)))"

lemma not_refused: "mt_materialized (refused reason) = False"
  by (simp add: refused_def)

lemma materialized:
  assumes "materializeInvitedMembershipRow db_now gap w u role email db = (db', mt)" and "mt_materialized mt"
  shows "db' = materialize_transaction db_now (js_trim w) (js_trim u) role (at_commit gap email db)" and "role = ''viewer'' \<or> role = ''operator''"
    and "\<not> list_ex (is_member_row (js_trim w) (js_trim u)) (members_of (gap 1 db))"
  using assms unfolding materializeInvitedMembershipRow_def at_commit_def Let_def by (auto simp: not_refused split: if_splits)

lemma materialize_members: "members_of (materialize_transaction db_now ws uid role db) = activate_member db_now ws uid role (members_of db)"
  by (simp add: materialize_transaction_def memberAuthorityProvisioningStatements_def Let_def)

lemma materialize_entitlements: "db_entitlements (mb_auth (materialize_transaction db_now ws uid role db)) = upsert_entitlement False
    (grant_row db_now uid ws ''provisioning:role-mirror'' MATERIALIZER (roleMirrorEntitlement role)) (db_entitlements (mb_auth db))"
  by (simp add: materialize_transaction_def memberAuthorityProvisioningStatements_def Let_def or_else_def MATERIALIZER_def)

lemma approve_keeps_banned: "u \<in> set us \<Longrightarrow> banned u \<Longrightarrow> u \<in> set (approve_user db_now uid us)"
  by (auto simp: approve_user_def intro!: image_eqI [of _ _ u])

lemma viewer_grant_refuses:
  assumes "acts_as ctx uid ws"
    and "db_entitlements (sc_db ctx) = db_entitlements (mb_auth (materialize_transaction db_now ws uid ''viewer'' db))"
  shows "\<not> sd_allowed (fst (authorizeSpineWrite ctx a))"
proof
  assume "sd_allowed (fst (authorizeSpineWrite ctx a))"
  let ?g = "grant_row db_now uid ws ''provisioning:role-mirror'' MATERIALIZER (roleMirrorEntitlement ''viewer'')"
  from \<open>sd_allowed (fst (authorizeSpineWrite ctx a))\<close> human_write_needs(4) [of ctx a] assms
  obtain r where r: "r \<in> set (upsert_entitlement False ?g (db_entitlements (mb_auth db)))"
    "ce_user_id r = uid" "ce_workspace_id r = ws" "ce_app_id r = PRODUCT_APP_ID"
    "''operator'' \<in> set (asStringArray (ce_allowed_modes r))"
    by (auto simp: acts_as_def materialize_entitlements)
  have "same_grant ?g r" using r(2-4) by (simp add: same_grant_def grant_row_def)
  with r(1) have "ce_allowed_modes r = ce_allowed_modes ?g" using upsert_entitlement_modes by blast
  with r(5) show False by (simp add: grant_row_def roleMirrorEntitlement_def operator_grade_def asStringArray_def)
qed

text \<open>
  C14. An accepted invitation grants what it may and no more: whatever other requests did meanwhile, a materialization
  happens only for the roles viewer and operator and when no membership row of any status was found, keeps every membership row it
  finds at commit and adds at most the active row of that user at that role, and leaves every rejected or suspended user as they
  are. While \<^verbatim>\<open>ENTITLEMENT_ENFORCEMENT\<close> is on, as deployed, a materialized viewer acting as a human with a session in the workspace
  (\<open>acts_as\<close>) is refused every governed write of it; with the flag off the legacy decision on the session's role applies.
\<close>

theorem materialization_grants_no_more:
  assumes "materializeInvitedMembershipRow db_now gap w u role email db = (db', mt)" and "mt_materialized mt"
  shows "role \<in> {''viewer'', ''operator''} \<and>
    \<not> list_ex (is_member_row (js_trim w) (js_trim u)) (members_of (gap 1 db)) \<and>
    members_of db' \<in> {members_of (at_commit gap email db), members_of (at_commit gap email db) @ [invited_member db_now (js_trim w) (js_trim u) role]} \<and>
    (\<forall>x \<in> set (mb_users (at_commit gap email db)). banned x \<longrightarrow> x \<in> set (mb_users db')) \<and>
    (\<forall>ctx a. role = ''viewer'' \<longrightarrow> acts_as ctx (js_trim u) (js_trim w) \<longrightarrow> sc_db ctx = mb_auth db' \<longrightarrow>
       \<not> sd_allowed (fst (authorizeSpineWrite ctx a)))"
proof -
  note m = materialized [OF assms]
  have "members_of db' \<in> {members_of (at_commit gap email db), members_of (at_commit gap email db) @ [invited_member db_now (js_trim w) (js_trim u) role]}"
    by (simp add: m(1) materialize_members activate_member_def)
  moreover have "x \<in> set (mb_users db')" if "x \<in> set (mb_users (at_commit gap email db))" "banned x" for x
    using approve_keeps_banned [OF that] by (simp add: m(1) materialize_transaction_def Let_def)
  moreover have "\<not> sd_allowed (fst (authorizeSpineWrite ctx a))"
    if "role = ''viewer''" "acts_as ctx (js_trim u) (js_trim w)" "sc_db ctx = mb_auth db'" for ctx a
    using viewer_grant_refuses [OF that(2)] that(3) m(1) that(1) by simp
  moreover have "role \<in> {''viewer'', ''operator''}" using m(2) by simp
  ultimately show ?thesis using m(3) by blast
qed

section \<open>A worked invitation\<close>

definition demo_invite :: invite_finalize where
  "demo_invite = \<lparr>vc_workspace_id = ''acme'', vc_actor_user_id = ''ann'', vc_key = ''k1'', vc_route = INVITE_ROUTE,
     vc_request_sha256 = replicate 64 (CHR ''a''), vc_request_id = None, vc_command_id = ''c1'', vc_lease_token = ''l1'',
     vc_email = ''Bob@x.io'', vc_clerk_role = ''org:member'', vc_workspace_role = ''viewer'', vc_requested_workspace_role = ''viewer'',
     vc_role_basis = ''default'', vf_invitation_id = ''inv1'', vf_provider_status = ''pending'', vf_operation_event_id = ''evt1'',
     vf_projection_outbox_id = ''out1''\<rparr>"

definition demo_cmd :: invite_command where
  "demo_cmd = invite_command.truncate demo_invite"

definition demo_invites :: invite_db where
  "demo_invites = \<lparr>vb_rows = [], vb_seq = 0, vb_members = demo_roster\<lparr>mb_workspaces := [\<lparr>ws_id = ''acme'', ws_owner_user_id = ''ann''\<rparr>]\<rparr>\<rparr>"

definition demo_reserved :: invite_db where
  "demo_reserved = invite_run [Reserve 0 demo_cmd] demo_invites"

lemma demo_invite_wf: "invite_wf demo_invites" "invite_wf demo_reserved"
  using invite_run_wf [of demo_invites "[Reserve 0 demo_cmd]"] by (simp_all add: demo_reserved_def invite_wf_def demo_invites_def)

lemma demo_delivered: "\<exists>db' rc. finalizeCustomerInviteRow 5 (\<lambda>_. ''iso'') id demo_invite demo_reserved = (db', Inr rc) \<and> \<not> vr_replayed rc"
proof -
  have "case snd (finalizeCustomerInviteRow 5 (\<lambda>_. ''iso'') id demo_invite demo_reserved) of Inl _ \<Rightarrow> False | Inr rc \<Rightarrow> \<not> vr_replayed rc"
    by code_simp
  then show ?thesis by (cases "finalizeCustomerInviteRow 5 (\<lambda>_. ''iso'') id demo_invite demo_reserved") (auto split: sum.splits)
qed

lemma demo_invite_valid: "validateInviteCommand demo_invite = Inr ()"
  by code_simp

theorem delivered_invitation_replays_witness:
  "\<exists>db' rc. finalizeCustomerInviteRow 5 (\<lambda>_. ''iso'') id demo_invite demo_reserved = (db', Inr rc) \<and>
     reserveCustomerInviteRow 9 9 9 (invite_run []) id demo_invite (invite_run [] db') =
       (db', Inr (Already_delivered (vr_command_id rc) (rc\<lparr>vr_replayed := True\<rparr>)))"
proof -
  from demo_delivered obtain db' rc where r: "finalizeCustomerInviteRow 5 (\<lambda>_. ''iso'') id demo_invite demo_reserved = (db', Inr rc)"
    "\<not> vr_replayed rc" by blast
  from delivered_invitation_replays [OF r demo_invite_wf(2) refl refl demo_invite_valid, of 9 9 9 "[]" id "[]" 9] r(1)
  show ?thesis by (auto simp: demo_invite_def)
qed

lemma demo_reclaimed:
  "\<exists>db' d. reserveCustomerInviteRow 200000 200000 200000 (invite_run []) (invite_run []) (demo_invite\<lparr>vc_lease_token := ''l2''\<rparr>) demo_reserved =
     (db', Inr (Acquired ''c1'' ''l2'' True d))"
proof -
  let ?r = "reserveCustomerInviteRow 200000 200000 200000 (invite_run []) (invite_run []) (demo_invite\<lparr>vc_lease_token := ''l2''\<rparr>) demo_reserved"
  have "case snd ?r of Inr (Acquired c l b d) \<Rightarrow> c = ''c1'' \<and> l = ''l2'' \<and> b | _ \<Rightarrow> False" by code_simp
  then show ?thesis by (cases ?r) (auto split: sum.splits reservation.splits)
qed

theorem superseded_lease_is_dead_witness:
  "\<exists>db' d. reserveCustomerInviteRow 200000 200000 200000 (invite_run []) (invite_run []) (demo_invite\<lparr>vc_lease_token := ''l2''\<rparr>) demo_reserved =
       (db', Inr (Acquired ''c1'' ''l2'' True d)) \<and>
     fst (finalize_statement 200001 ''iso'' demo_invite db') = db'"
proof -
  from demo_reclaimed obtain db' d where r: "reserveCustomerInviteRow 200000 200000 200000 (invite_run []) (invite_run [])
    (demo_invite\<lparr>vc_lease_token := ''l2''\<rparr>) demo_reserved = (db', Inr (Acquired ''c1'' ''l2'' True d))" by blast
  have k: "cmd_key demo_invite = cmd_key (demo_invite\<lparr>vc_lease_token := ''l2''\<rparr>)" "vc_lease_token demo_invite \<noteq> ''l2''"
    by (simp_all add: cmd_key_def demo_invite_def)
  have "fst (finalize_statement 200001 ''iso'' demo_invite (invite_run [] db')) = invite_run [] db'"
    using superseded_lease_is_dead [OF r demo_invite_wf(2) k, of "[]" 200001 "\<lambda>_. ''iso''"] by simp
  with r show ?thesis unfolding invite_run_simps(1) by blast
qed

theorem delivery_attested_once_witness:
  "length (deliveries (invite_run [Reserve 0 demo_cmd, Finalize 5 ''iso'' demo_invite, Finalize 6 ''iso'' demo_invite] demo_invites)) = 1 \<and>
   map ob_id (invitation_events (vb_members (invite_run [Reserve 0 demo_cmd, Finalize 5 ''iso'' demo_invite, Finalize 6 ''iso'' demo_invite] demo_invites))) = [''out1'']"
proof -
  let ?db = "invite_run [Reserve 0 demo_cmd, Finalize 5 ''iso'' demo_invite, Finalize 6 ''iso'' demo_invite] demo_invites"
  have ev: "map ob_id (invitation_events (vb_members ?db)) = [''out1'']" by code_simp
  have start: "vb_rows demo_invites = []" "invitation_events (vb_members demo_invites) = []" by code_simp+
  have "length (invitation_events (vb_members ?db)) = length (deliveries ?db)"
    using arg_cong [OF conjunct2 [OF delivery_attested_once [OF start]], of size] by (simp del: invite_run_simps)
  moreover have "length (invitation_events (vb_members ?db)) = 1" using arg_cong [OF ev, of length] by (simp del: invite_run_simps)
  ultimately show ?thesis using ev by (simp del: invite_run_simps)
qed

lemma demo_materialized:
  "\<exists>db' mt. materializeInvitedMembershipRow 7 (\<lambda>_. id) ''acme'' ''cat'' ''viewer'' None (vb_members demo_invites) = (db', mt) \<and> mt_materialized mt"
proof -
  have "mt_materialized (snd (materializeInvitedMembershipRow 7 (\<lambda>_. id) ''acme'' ''cat'' ''viewer'' None (vb_members demo_invites)))"
    by code_simp
  then show ?thesis by (metis prod.collapse)
qed

theorem materialization_grants_no_more_witness:
  "\<exists>db' mt. materializeInvitedMembershipRow 7 (\<lambda>_. id) ''acme'' ''cat'' ''viewer'' None (vb_members demo_invites) = (db', mt) \<and>
     mt_materialized mt \<and> \<not> sd_allowed (fst (authorizeSpineWrite (demo_caller ''cat'' (mb_auth db')) Packet_create))"
proof -
  from demo_materialized obtain db' mt where r:
    "materializeInvitedMembershipRow 7 (\<lambda>_. id) ''acme'' ''cat'' ''viewer'' None (vb_members demo_invites) = (db', mt)" "mt_materialized mt" by blast
  have t: "js_trim ''cat'' = ''cat''" "js_trim ''acme'' = ''acme''" by code_simp+
  from materialization_grants_no_more [OF r] have
    "acts_as (demo_caller ''cat'' (mb_auth db')) ''cat'' ''acme'' \<longrightarrow> sc_db (demo_caller ''cat'' (mb_auth db')) = mb_auth db' \<longrightarrow>
       \<not> sd_allowed (fst (authorizeSpineWrite (demo_caller ''cat'' (mb_auth db')) Packet_create))"
    unfolding t by blast
  then have "\<not> sd_allowed (fst (authorizeSpineWrite (demo_caller ''cat'' (mb_auth db')) Packet_create))"
    by (simp add: demo_caller_acts)
  with r show ?thesis by blast
qed

text \<open>
  The race the insertion's conflict clause does not cover: when the invitee becomes the owner of the workspace between the guard and
  the transaction, the membership row is kept, but the provisioning statements overwrite the owner's grant with the viewer's, and the
  answer says a viewer was materialized.
\<close>

definition owner_race :: "nat \<Rightarrow> member_db \<Rightarrow> member_db" where
  "owner_race k db = (if k = 4 then db\<lparr>mb_auth := memberAuthorityProvisioningStatements 6 ''cat'' ''acme'' ''owner'' None
     ((mb_auth db)\<lparr>db_members := db_members (mb_auth db) @ [demo_member ''cat'' ''owner'']\<rparr>)\<rparr> else db)"

lemma materialization_race_disarms_owner:
  "\<exists>db' mt. materializeInvitedMembershipRow 7 owner_race ''acme'' ''cat'' ''viewer'' None (vb_members demo_invites) = (db', mt) \<and>
     mt_role mt = Some ''viewer'' \<and> demo_member ''cat'' ''owner'' \<in> set (members_of db') \<and>
     \<not> sd_allowed (fst (authorizeSpineWrite (demo_caller ''cat'' (mb_auth db')) a))"
proof -
  let ?r = "materializeInvitedMembershipRow 7 owner_race ''acme'' ''cat'' ''viewer'' None (vb_members demo_invites)"
  have m: "mt_materialized (snd ?r)" "mt_role (snd ?r) = Some ''viewer''" "map wm_role (members_of (fst ?r)) = [''owner'', ''operator'', ''owner'']"
    by code_simp+
  have "demo_member ''cat'' ''owner'' \<in> set (members_of (fst ?r))"
    using materialized(1) [OF surjective_pairing m(1)]
    by (auto simp: materialize_members activate_member_def at_commit_def owner_race_def memberAuthorityProvisioningStatements_def)
  moreover have t: "js_trim ''cat'' = ''cat''" "js_trim ''acme'' = ''acme''" by code_simp+
  have "\<not> sd_allowed (fst (authorizeSpineWrite (demo_caller ''cat'' (mb_auth (fst ?r))) a))"
    by (rule viewer_grant_refuses [OF demo_caller_acts]) (simp add: materialized(1) [OF surjective_pairing m(1), unfolded t])
  ultimately show ?thesis using m(2) by (metis prod.collapse)
qed

end
