(* ===== verification/Evidence.thy ===== *)
theory Evidence
  imports Signals
begin

text \<open>
  The evidence gate of the inference engine: the composite evidence score
  (\<^verbatim>\<open>inference/composite-evidence-score.ts\<close>) with its input and configuration checks, and the
  aggregation of its four inputs from a candidate's events (\<^verbatim>\<open>aggregateCesInputs\<close> of
  \<^verbatim>\<open>inference/detector-engine.ts\<close>). The lemmas characterise the inputs as cardinalities of event sets,
  and show that evidence only grows with more events while volume alone never passes the gate.

  A calendar day is the index of the day since the epoch: \<^verbatim>\<open>toISOString().slice(0, 10)\<close> is one-to-one
  on it for the four-digit years. JSON has no non-finite numbers, so the \<^verbatim>\<open>Number.isFinite\<close> tests hold.
\<close>

section \<open>Composite evidence score\<close>

record ces_inputs =
  in_DAD :: real
  in_EC :: real
  in_DDC :: real
  in_CDCC :: real

record ces_config =
  cf_w_d :: real
  cf_w_e :: real
  cf_w_x :: real
  cf_w_c :: real
  cf_E_min :: real
  cf_DAD_min :: real
  cf_DDC_min :: real

record ces_result =
  cr_E :: real
  cr_shouldEmit :: bool
  cr_floor_E :: bool
  cr_floor_DAD :: bool
  cr_floor_DDC :: bool
  cr_DAD_term :: real
  cr_EC_term :: real
  cr_DDC_term :: real
  cr_CDCC_term :: real
  cr_inputs :: ces_inputs
  cr_config :: ces_config

text \<open>A \<^verbatim>\<open>CesInputError\<close>, by the check that threw it, the field it carries and the value it prints.\<close>

datatype ces_error = Bad_input string real | Bad_config string real | Low_DDC_min real

definition R50_GENESIS_CES_CONFIG :: ces_config where
  "R50_GENESIS_CES_CONFIG =
     \<lparr>cf_w_d = 0.25, cf_w_e = 0.15, cf_w_x = 0.30, cf_w_c = 0.30, cf_E_min = 2.5, cf_DAD_min = 3, cf_DDC_min = 2\<rparr>"

definition first_negative :: "(string \<times> real) list \<Rightarrow> (string \<times> real) option" where
  "first_negative kvs = find (\<lambda>kv. snd kv < 0) kvs"

definition validateInputs :: "ces_inputs \<Rightarrow> ces_error + unit" where
  "validateInputs i =
     (case first_negative [(''DAD'', in_DAD i), (''EC'', in_EC i), (''DDC'', in_DDC i), (''CDCC'', in_CDCC i)] of
        Some (k, v) \<Rightarrow> Inl (Bad_input k v) | None \<Rightarrow> Inr ())"

definition validateConfig :: "ces_config \<Rightarrow> ces_error + unit" where
  "validateConfig c =
     (case first_negative [(''w_d'', cf_w_d c), (''w_e'', cf_w_e c), (''w_x'', cf_w_x c), (''w_c'', cf_w_c c),
                           (''E_min'', cf_E_min c), (''DAD_min'', cf_DAD_min c), (''DDC_min'', cf_DDC_min c)] of
        Some (k, v) \<Rightarrow> Inl (Bad_config k v)
      | None \<Rightarrow> if cf_DDC_min c < 2 then Inl (Low_DDC_min (cf_DDC_min c)) else Inr ())"

definition score :: "ces_inputs \<Rightarrow> ces_config \<Rightarrow> ces_result" where
  "score i c =
     (let DAD_term = cf_w_d c * in_DAD i; EC_term = cf_w_e c * ln (1 + in_EC i);
          DDC_term = cf_w_x c * in_DDC i; CDCC_term = cf_w_c c * in_CDCC i;
          E = DAD_term + EC_term + DDC_term + CDCC_term;
          fE = (E \<ge> cf_E_min c); fDAD = (in_DAD i \<ge> cf_DAD_min c); fDDC = (in_DDC i \<ge> cf_DDC_min c)
      in \<lparr>cr_E = E, cr_shouldEmit = (fE \<and> fDAD \<and> fDDC), cr_floor_E = fE, cr_floor_DAD = fDAD, cr_floor_DDC = fDDC,
          cr_DAD_term = DAD_term, cr_EC_term = EC_term, cr_DDC_term = DDC_term, cr_CDCC_term = CDCC_term,
          cr_inputs = i, cr_config = c\<rparr>)"

definition computeCes :: "ces_inputs \<Rightarrow> ces_config \<Rightarrow> ces_error + ces_result" where
  "computeCes i c =
     (case validateInputs i of
        Inl e \<Rightarrow> Inl e
      | Inr _ \<Rightarrow> (case validateConfig c of Inl e \<Rightarrow> Inl e | Inr _ \<Rightarrow> Inr (score i c)))"

section \<open>Reading a detector configuration\<close>

record detector_config =
  dt_version_id :: string
  dt_weights :: "(string \<times> json) list"
  dt_thresholds :: "(string \<times> json) list"
  dt_signal_names :: "string list"
  dt_activated_at :: int
  dt_deactivated_at :: "int option"

text \<open>\<^verbatim>\<open>typeof o[k] === 'number' ? o[k] : d\<close>.\<close>

definition number_or :: "(string \<times> json) list \<Rightarrow> string \<Rightarrow> real \<Rightarrow> real" where
  "number_or obj k d = (case map_of obj k of Some (JNum v) \<Rightarrow> v | _ \<Rightarrow> d)"

definition cesConfigFromDetectorConfig :: "detector_config \<Rightarrow> ces_config option" where
  "cesConfigFromDetectorConfig dc =
     (let t = dt_thresholds dc; g = R50_GENESIS_CES_CONFIG
      in if dt_weights dc = [] then None
         else Some \<lparr>cf_w_d = number_or t ''w_d'' (cf_w_d g), cf_w_e = number_or t ''w_e'' (cf_w_e g),
                    cf_w_x = number_or t ''w_x'' (cf_w_x g), cf_w_c = number_or t ''w_c'' (cf_w_c g),
                    cf_E_min = number_or t ''E_min'' (cf_E_min g), cf_DAD_min = number_or t ''DAD_min'' (cf_DAD_min g),
                    cf_DDC_min = number_or t ''DDC_min'' (cf_DDC_min g)\<rparr>)"

section \<open>Aggregating a candidate's events\<close>

record detector_candidate =
  dc_candidate_fingerprint :: string
  dc_project_ids :: "string list"
  dc_events :: "candidate_event list"
  dc_actors :: "string list"
  dc_window_start :: timestamp
  dc_window_end :: timestamp
  dc_proposed_label :: "string option"
  dc_metadata :: "candidate_metadata option"
  dc_workspace_id :: "string option"
  dc_target_domain_id :: string
  dc_recommendation_kind :: "string option"

definition DAY_MS :: int where "DAY_MS = 24 * 60 * 60 * 1000"

definition bucket_key :: "int \<Rightarrow> candidate_event \<Rightarrow> (int \<times> string) option" where
  "bucket_key bucketMs e = map_option (\<lambda>t. (t div bucketMs, ev_project_id e)) (date_parse (ev_occurred_at e))"

definition aggregateCesInputs :: "int \<Rightarrow> detector_candidate \<Rightarrow> ces_inputs" where
  "aggregateCesInputs bucketHours cand =
     (let bucketMs = bucketHours * 60 * 60 * 1000;
          mine = filter (\<lambda>e. ev_project_id e \<in> set (dc_project_ids cand)) (dc_events cand);
          days = js_set (map (\<lambda>t. t div DAY_MS) (List.map_filter (\<lambda>e. date_parse (ev_occurred_at e)) mine));
          projectsTouched = js_set (map ev_project_id mine);
          projectsByBucket = group_sets (bucket_key bucketMs) mine;
          CDCC = length (filter (\<lambda>e. case date_parse (ev_occurred_at e) of
                                       None \<Rightarrow> False
                                     | Some t \<Rightarrow> (case map_of projectsByBucket (t div bucketMs) of
                                                    None \<Rightarrow> False | Some s \<Rightarrow> length s \<ge> 2)) mine)
      in \<lparr>in_DAD = real (length days), in_EC = real (length mine), in_DDC = real (length projectsTouched),
          in_CDCC = real CDCC\<rparr>)"

section \<open>What the aggregation counts\<close>

definition candidate_events :: "detector_candidate \<Rightarrow> candidate_event list" where
  "candidate_events cand = filter (\<lambda>e. ev_project_id e \<in> set (dc_project_ids cand)) (dc_events cand)"

definition active_days :: "candidate_event list \<Rightarrow> int set" where
  "active_days es = {t div DAY_MS | t e. e \<in> set es \<and> date_parse (ev_occurred_at e) = Some t}"

text \<open>The projects seen in a time bucket.\<close>

definition bucket_projects :: "int \<Rightarrow> candidate_event list \<Rightarrow> int \<Rightarrow> string set" where
  "bucket_projects w es b = {ev_project_id e | e t. e \<in> set es \<and> date_parse (ev_occurred_at e) = Some t \<and> t div w = b}"

definition co_occurs :: "int \<Rightarrow> candidate_event list \<Rightarrow> candidate_event \<Rightarrow> bool" where
  "co_occurs w es e = (\<exists>t. date_parse (ev_occurred_at e) = Some t \<and> 2 \<le> card (bucket_projects w es (t div w)))"

lemma length_js_set: "length (js_set xs) = card (set xs)"
  using distinct_card [OF distinct_js_set, of xs] by simp

lemma set_entry_foldl:
  "set (entry (foldl (\<lambda>m e. case key e of None \<Rightarrow> m | Some (k, v) \<Rightarrow> entry_update k (set_add v) m) m es) k) =
     set (entry m k) \<union> {v. \<exists>e \<in> set es. key e = Some (k, v)}"
  by (induction es arbitrary: m) (auto simp: entry_entry_update set_add_def split: option.splits prod.splits if_splits)

lemma set_entry_group_sets: "set (entry (group_sets key es) k) = {v. \<exists>e \<in> set es. key e = Some (k, v)}"
  unfolding group_sets_def set_entry_foldl by (simp add: entry_def)

lemma distinct_entry: "sets_ok m \<Longrightarrow> distinct (entry m k)"
  by (fastforce simp: entry_def sets_ok_def list_all_iff coalesce_def dest: map_of_SomeD split: option.splits)

lemma bucket_size:
  "length (entry (group_sets (bucket_key w) es) b) = card (bucket_projects w es b)"
proof -
  have "set (entry (group_sets (bucket_key w) es) b) = bucket_projects w es b"
    unfolding set_entry_group_sets bucket_projects_def bucket_key_def by auto
  then show ?thesis using distinct_card [OF distinct_entry, of "group_sets (bucket_key w) es" b] by simp
qed

lemma aggregate_counts:
  "in_DAD (aggregateCesInputs h cand) = real (card (active_days (candidate_events cand)))"
  "in_EC (aggregateCesInputs h cand) = real (length (candidate_events cand))"
  "in_DDC (aggregateCesInputs h cand) = real (card (ev_project_id ` set (candidate_events cand)))"
  "in_CDCC (aggregateCesInputs h cand) =
     real (length (filter (co_occurs (h * 60 * 60 * 1000) (candidate_events cand)) (candidate_events cand)))"
proof -
  let ?es = "candidate_events cand" and ?w = "h * 60 * 60 * 1000"
  have "set (map (\<lambda>t. t div DAY_MS) (List.map_filter (\<lambda>e. date_parse (ev_occurred_at e)) ?es)) = active_days ?es"
    by (auto simp: active_days_def map_filter_def image_iff) force
  then show "in_DAD (aggregateCesInputs h cand) = real (card (active_days ?es))"
    unfolding aggregateCesInputs_def Let_def candidate_events_def [symmetric] by (simp add: length_js_set)
  show "in_EC (aggregateCesInputs h cand) = real (length ?es)"
    and "in_DDC (aggregateCesInputs h cand) = real (card (ev_project_id ` set ?es))"
    unfolding aggregateCesInputs_def Let_def candidate_events_def [symmetric] by (simp_all add: length_js_set)
  have "(case map_of (group_sets (bucket_key ?w) ?es) b of None \<Rightarrow> False | Some s \<Rightarrow> length s \<ge> 2)
      \<longleftrightarrow> 2 \<le> card (bucket_projects ?w ?es b)" for b
    unfolding bucket_size [symmetric] entry_def by (simp split: option.splits)
  then have "(\<lambda>e. case date_parse (ev_occurred_at e) of None \<Rightarrow> False
      | Some t \<Rightarrow> (case map_of (group_sets (bucket_key ?w) ?es) (t div ?w) of None \<Rightarrow> False | Some s \<Rightarrow> length s \<ge> 2))
      = co_occurs ?w ?es"
    unfolding co_occurs_def by (auto split: option.split)
  then show "in_CDCC (aggregateCesInputs h cand) = real (length (filter (co_occurs ?w ?es) ?es))"
    unfolding aggregateCesInputs_def Let_def candidate_events_def [symmetric] by simp
qed

section \<open>The gate\<close>

lemma first_negative_None: "first_negative kvs = None \<longleftrightarrow> list_all (\<lambda>kv. 0 \<le> snd kv) kvs"
  by (induction kvs) (auto simp: first_negative_def)

lemma validateInputs_Inr: "validateInputs i = Inr u \<longleftrightarrow> 0 \<le> in_DAD i \<and> 0 \<le> in_EC i \<and> 0 \<le> in_DDC i \<and> 0 \<le> in_CDCC i"
  unfolding validateInputs_def by (auto simp: first_negative_None split: option.split) (simp add: first_negative_def)+

lemma validateConfig_Inr:
  "validateConfig c = Inr u \<longleftrightarrow>
     0 \<le> cf_w_d c \<and> 0 \<le> cf_w_e c \<and> 0 \<le> cf_w_x c \<and> 0 \<le> cf_w_c c \<and> 0 \<le> cf_E_min c \<and> 0 \<le> cf_DAD_min c \<and> 2 \<le> cf_DDC_min c"
proof (cases "first_negative [(''w_d'', cf_w_d c), (''w_e'', cf_w_e c), (''w_x'', cf_w_x c), (''w_c'', cf_w_c c),
    (''E_min'', cf_E_min c), (''DAD_min'', cf_DAD_min c), (''DDC_min'', cf_DDC_min c)]")
  case None
  from None [unfolded first_negative_None] show ?thesis unfolding validateConfig_def None by simp
next
  case (Some kv)
  then have "\<not> list_all (\<lambda>kv. 0 \<le> snd kv) [(''w_d'', cf_w_d c), (''w_e'', cf_w_e c), (''w_x'', cf_w_x c), (''w_c'', cf_w_c c),
    (''E_min'', cf_E_min c), (''DAD_min'', cf_DAD_min c), (''DDC_min'', cf_DDC_min c)]"
    unfolding first_negative_None [symmetric] by simp
  then show ?thesis unfolding validateConfig_def Some by (cases kv) auto
qed

lemma computeCes_Inr:
  "computeCes i c = Inr r \<longleftrightarrow> validateInputs i = Inr () \<and> validateConfig c = Inr () \<and> r = score i c"
  by (auto simp: computeCes_def split: sum.splits)

lemma aggregate_valid [simp]: "validateInputs (aggregateCesInputs h cand) = Inr ()"
  by (simp add: validateInputs_Inr aggregate_counts)

lemma computeCes_aggregate:
  "computeCes (aggregateCesInputs h cand) c = (case validateConfig c of Inl e \<Rightarrow> Inl e | Inr _ \<Rightarrow> Inr (score (aggregateCesInputs h cand) c))"
  by (simp add: computeCes_def)

lemma score_sel:
  "cr_E (score i c) = cf_w_d c * in_DAD i + cf_w_e c * ln (1 + in_EC i) + cf_w_x c * in_DDC i + cf_w_c c * in_CDCC i"
  "cr_shouldEmit (score i c) \<longleftrightarrow> cf_E_min c \<le> cr_E (score i c) \<and> cf_DAD_min c \<le> in_DAD i \<and> cf_DDC_min c \<le> in_DDC i"
  by (simp_all add: score_def Let_def)

lemma score_nonneg: "validateInputs i = Inr () \<Longrightarrow> validateConfig c = Inr () \<Longrightarrow> 0 \<le> cr_E (score i c)"
  unfolding score_sel validateInputs_Inr validateConfig_Inr by (intro add_nonneg_nonneg mult_nonneg_nonneg) auto

text \<open>
  The evidence gate reads exactly the evidence. On the inputs aggregated from a candidate the score
  is computed whenever the configuration is accepted, it is non-negative, and the candidate passes
  exactly when the score reaches its minimum, the events of its projects fall on enough distinct days,
  and enough distinct projects have events. In particular a candidate with events in a single project,
  or on fewer days than the floor, never passes, however many events there are.
\<close>

theorem evidence_gate:
  assumes "computeCes (aggregateCesInputs h cand) cfg = Inr r"
  shows "0 \<le> cr_E r \<and>
    (cr_shouldEmit r \<longleftrightarrow> cf_E_min cfg \<le> cr_E r \<and>
       cf_DAD_min cfg \<le> real (card (active_days (candidate_events cand))) \<and>
       cf_DDC_min cfg \<le> real (card (ev_project_id ` set (candidate_events cand)))) \<and>
    (card (ev_project_id ` set (candidate_events cand)) \<le> 1 \<longrightarrow> \<not> cr_shouldEmit r)"
proof -
  from assms have v: "validateConfig cfg = Inr ()" and r: "r = score (aggregateCesInputs h cand) cfg"
    by (simp_all add: computeCes_Inr)
  from v have "2 \<le> cf_DDC_min cfg" by (simp add: validateConfig_Inr)
  with score_nonneg [OF aggregate_valid v] show ?thesis unfolding r score_sel(2) aggregate_counts by auto
qed

section \<open>More evidence never closes the gate\<close>

lemma finite_active_days [simp]: "finite (active_days es)"
proof -
  have "active_days es \<subseteq> (\<lambda>e. the (date_parse (ev_occurred_at e)) div DAY_MS) ` set es"
    by (force simp: active_days_def)
  then show ?thesis by (rule finite_subset) simp
qed

lemma finite_bucket_projects [simp]: "finite (bucket_projects w es b)"
proof -
  have "bucket_projects w es b \<subseteq> ev_project_id ` set es" by (auto simp: bucket_projects_def)
  then show ?thesis by (rule finite_subset) simp
qed

lemma co_occurs_append: "co_occurs w es e \<Longrightarrow> co_occurs w (es @ fs) e"
  unfolding co_occurs_def
proof (elim exE conjE)
  fix t
  assume t: "date_parse (ev_occurred_at e) = Some t" and c: "2 \<le> card (bucket_projects w es (t div w))"
  have "bucket_projects w es (t div w) \<subseteq> bucket_projects w (es @ fs) (t div w)"
    by (auto simp: bucket_projects_def)
  then have "card (bucket_projects w es (t div w)) \<le> card (bucket_projects w (es @ fs) (t div w))"
    by (rule card_mono [OF finite_bucket_projects])
  with t c show "\<exists>t. date_parse (ev_occurred_at e) = Some t \<and> 2 \<le> card (bucket_projects w (es @ fs) (t div w))"
    by (intro exI [of _ t]) simp
qed

lemma length_filter_mono: "(\<And>x. P x \<Longrightarrow> Q x) \<Longrightarrow> length (filter P xs) \<le> length (filter Q (xs @ ys))"
  by (induction xs) auto

definition observe :: "candidate_event list \<Rightarrow> detector_candidate \<Rightarrow> detector_candidate" where
  "observe fs cand = cand\<lparr>dc_events := dc_events cand @ fs\<rparr>"

lemma candidate_events_observe:
  "candidate_events (observe fs cand) = candidate_events cand @ candidate_events (cand\<lparr>dc_events := fs\<rparr>)"
  by (simp add: candidate_events_def observe_def)

lemma aggregate_mono:
  "in_DAD (aggregateCesInputs h cand) \<le> in_DAD (aggregateCesInputs h (observe fs cand))"
  "in_EC (aggregateCesInputs h cand) \<le> in_EC (aggregateCesInputs h (observe fs cand))"
  "in_DDC (aggregateCesInputs h cand) \<le> in_DDC (aggregateCesInputs h (observe fs cand))"
  "in_CDCC (aggregateCesInputs h cand) \<le> in_CDCC (aggregateCesInputs h (observe fs cand))"
proof -
  let ?es = "candidate_events cand" and ?gs = "candidate_events (cand\<lparr>dc_events := fs\<rparr>)"
  have "active_days ?es \<subseteq> active_days (?es @ ?gs)" by (auto simp: active_days_def)
  then show "in_DAD (aggregateCesInputs h cand) \<le> in_DAD (aggregateCesInputs h (observe fs cand))"
    by (simp add: aggregate_counts candidate_events_observe card_mono)
  show "in_EC (aggregateCesInputs h cand) \<le> in_EC (aggregateCesInputs h (observe fs cand))"
    by (simp add: aggregate_counts candidate_events_observe)
  show "in_DDC (aggregateCesInputs h cand) \<le> in_DDC (aggregateCesInputs h (observe fs cand))"
    unfolding aggregate_counts candidate_events_observe of_nat_le_iff by (rule card_mono) auto
  show "in_CDCC (aggregateCesInputs h cand) \<le> in_CDCC (aggregateCesInputs h (observe fs cand))"
    unfolding aggregate_counts candidate_events_observe of_nat_le_iff
    by (rule length_filter_mono) (rule co_occurs_append)
qed

text \<open>
  Evidence is monotone: observing further events, of whatever project, time and kind, leaves the
  score defined, never lowers it, and never closes a gate that was open.
\<close>

theorem evidence_monotone:
  assumes "computeCes (aggregateCesInputs h cand) cfg = Inr r"
  shows "\<exists>r'. computeCes (aggregateCesInputs h (observe fs cand)) cfg = Inr r' \<and> cr_E r \<le> cr_E r' \<and>
    (cr_shouldEmit r \<longrightarrow> cr_shouldEmit r')"
proof -
  let ?i = "aggregateCesInputs h cand" and ?j = "aggregateCesInputs h (observe fs cand)"
  from assms have v: "validateConfig cfg = Inr ()" and r: "r = score ?i cfg" by (simp_all add: computeCes_Inr)
  have "0 \<le> in_EC ?i" by (simp add: aggregate_counts)
  with aggregate_mono(2) [of h cand fs] have "ln (1 + in_EC ?i) \<le> ln (1 + in_EC ?j)" by simp
  with v have "cr_E (score ?i cfg) \<le> cr_E (score ?j cfg)"
    unfolding score_sel(1) validateConfig_Inr by (intro add_mono mult_left_mono aggregate_mono) auto
  moreover from this have "cr_shouldEmit (score ?j cfg)" if "cr_shouldEmit (score ?i cfg)"
    using that aggregate_mono(1,3) [of h cand fs] unfolding score_sel(2) by linarith
  ultimately show ?thesis using v by (simp add: computeCes_aggregate r)
qed

section \<open>An example candidate\<close>

definition demo_event :: "string \<Rightarrow> string \<Rightarrow> int \<Rightarrow> candidate_event" where
  "demo_event i p day =
     \<lparr>ev_id = i, ev_project_id = p, ev_source_tool = ''git'', ev_actor = ''ann'', ev_occurred_at = At (day * DAY_MS),
      ev_summary = ''ship the plan'', ev_tags = None\<rparr>"

definition demo_cross :: detector_candidate where
  "demo_cross =
     \<lparr>dc_candidate_fingerprint = ''cf'', dc_project_ids = [''p'', ''q''],
      dc_events = [demo_event ''e1'' ''p'' 0, demo_event ''e2'' ''q'' 0, demo_event ''e3'' ''p'' 1, demo_event ''e4'' ''q'' 1,
                   demo_event ''e5'' ''p'' 2, demo_event ''e6'' ''q'' 2],
      dc_actors = [''ann''], dc_window_start = At 0, dc_window_end = At (30 * DAY_MS), dc_proposed_label = Some ''PQ'',
      dc_metadata = None, dc_workspace_id = Some ''acme'', dc_target_domain_id = ''dom'', dc_recommendation_kind = None\<rparr>"

lemmas demo_defs = demo_cross_def demo_event_def DAY_MS_def

lemma demo_inputs: "aggregateCesInputs 24 demo_cross = \<lparr>in_DAD = 3, in_EC = 6, in_DDC = 2, in_CDCC = 6\<rparr>"
  by code_simp

lemma genesis_valid: "validateConfig R50_GENESIS_CES_CONFIG = Inr ()"
  by (simp add: validateConfig_Inr R50_GENESIS_CES_CONFIG_def)

lemma demo_score: "computeCes (aggregateCesInputs 24 demo_cross) R50_GENESIS_CES_CONFIG =
    Inr (score (aggregateCesInputs 24 demo_cross) R50_GENESIS_CES_CONFIG)"
  by (simp add: computeCes_aggregate genesis_valid)

theorem evidence_gate_witness:
  "cr_shouldEmit (score (aggregateCesInputs 24 demo_cross) R50_GENESIS_CES_CONFIG)"
proof -
  have "0 \<le> ln (7 :: real)" by simp
  then have "cf_E_min R50_GENESIS_CES_CONFIG \<le> cr_E (score (aggregateCesInputs 24 demo_cross) R50_GENESIS_CES_CONFIG)"
    by (simp add: score_sel(1) demo_inputs R50_GENESIS_CES_CONFIG_def field_simps)
  moreover have "real (card (active_days (candidate_events demo_cross))) = 3"
    and "real (card (ev_project_id ` set (candidate_events demo_cross))) = 2"
    using aggregate_counts(1,3) [of 24 demo_cross] by (simp_all add: demo_inputs)
  ultimately show ?thesis using evidence_gate [OF demo_score] by (simp add: R50_GENESIS_CES_CONFIG_def)
qed

theorem evidence_monotone_witness:
  "\<exists>r'. computeCes (aggregateCesInputs 24 (observe [demo_event ''e7'' ''z'' 9] demo_cross)) R50_GENESIS_CES_CONFIG = Inr r' \<and>
     cr_E (score (aggregateCesInputs 24 demo_cross) R50_GENESIS_CES_CONFIG) \<le> cr_E r'"
  using evidence_monotone [OF demo_score, of "[demo_event ''e7'' ''z'' 9]"] by blast

end
