(* ===== verification/Detector.thy ===== *)
theory Detector
  imports Evidence
begin

text \<open>
  The detector engine (\<^verbatim>\<open>inference/detector-engine.ts\<close>) over the audit tables of migration 009 and
  their store operations (\<^verbatim>\<open>dal/inference-store.ts\<close>, \<^verbatim>\<open>dal/detector-store.ts\<close>): composite confidence,
  pattern fingerprints, and one tick over a list of candidates with all its writes and its failure path.

  Identifiers, clock readings and the failures of the database that are not constraints of the modelled
  tables are parameters (\<open>tick_env\<close>). An error is kept structured instead of as its message,
  and the human-readable rationale of a recommendation is left out.
\<close>

section \<open>Confidence and fingerprints\<close>

record contribution =
  co_normalized :: real
  co_weight :: real
  co_contribution :: real

definition weight_of :: "(string \<times> json) list \<Rightarrow> string \<Rightarrow> real" where
  "weight_of weights n = number_or weights n 0"

definition weighted_sum :: "(string \<times> json) list \<Rightarrow> signal_eval list \<Rightarrow> real" where
  "weighted_sum weights signals =
     foldl (\<lambda>acc s. acc + weight_of weights (so_signal_name s) * so_normalized_value s) 0 signals"

definition contributions :: "(string \<times> json) list \<Rightarrow> signal_eval list \<Rightarrow> (string \<times> contribution) list" where
  "contributions weights signals =
     foldl (\<lambda>m s. AList.update (so_signal_name s)
              \<lparr>co_normalized = so_normalized_value s, co_weight = weight_of weights (so_signal_name s),
               co_contribution = weight_of weights (so_signal_name s) * so_normalized_value s\<rparr> m) [] signals"

definition computeCompositeConfidence ::
  "signal_eval list \<Rightarrow> (string \<times> json) list \<Rightarrow> real \<times> (string \<times> contribution) list" where
  "computeCompositeConfidence signals weights =
     (1 / (1 + exp (- weighted_sum weights signals)), contributions weights signals)"

definition computePatternFingerprint :: "string \<Rightarrow> (string \<times> contribution) list \<Rightarrow> string" where
  "computePatternFingerprint fp cs =
     (let top3 = map fst (take 3 (sort_key (\<lambda>e. - co_contribution (snd e)) cs))
      in ''pf_'' @ fp @ ''__'' @ js_join ''_'' top3)"

section \<open>Tables\<close>

datatype tick_error =
    Dal_failure string
  | Constraint_violated string
  | Ces_failed ces_error
  | No_sql_client
  | Out_of_unit_range string
  | Run_not_found string
  | No_active_config

datatype run_status = Running | Completed | Failed

record inference_run =
  ir_run_id :: string
  ir_version_id :: string
  ir_window_start :: string
  ir_window_end :: string
  ir_kind :: string
  ir_status :: run_status
  ir_started_at :: int
  ir_completed_at :: "int option"
  ir_candidate_count :: nat
  ir_emission_count :: nat
  ir_cost_ms :: "int option"
  ir_error :: "tick_error option"
  ir_signal_names :: "string list"

record signal_eval_row =
  se_run_id :: string
  se_candidate_fingerprint :: string
  se_signal_name :: string
  se_raw_value :: real
  se_normalized_value :: real
  se_weight_used :: real
  se_weighted_contribution :: real

record recommendation_row =
  rr_id :: string
  rr_domain_id :: string
  rr_workspace_id :: "string option"
  rr_kind :: string
  rr_source_event_ids :: "string list"
  rr_source_project_ids :: "string list"
  rr_label :: "string option"
  rr_binding_member_set :: "string list"
  rr_confidence :: real
  rr_evidence_score :: real
  rr_pattern_fingerprint :: string
  rr_breakdown :: "(string \<times> contribution) list"
  rr_version_id :: string
  rr_status :: string
  rr_generated_at :: int
  rr_expires_at :: int

record emission_row =
  em_emission_id :: string
  em_run_id :: string
  em_recommendation_id :: string
  em_confidence :: real
  em_evidence_score :: real
  em_inputs :: ces_inputs
  em_pattern_fingerprint :: string
  em_breakdown :: "(string \<times> contribution) list"
  em_binding_member_set :: "string list"
  em_label :: "string option"
  em_emitted_at :: int

record rejection_row =
  rj_recommendation_id :: string
  rj_rejected_at :: int
  rj_rejected_by :: string
  rj_reason_text :: "string option"
  rj_reason_taxonomy :: "string option"
  rj_permanent_suppress_fingerprint :: "string option"
  rj_pattern_fingerprint_at_reject :: string
  rj_reject_count_for_fingerprint :: nat

record detector_db =
  dd_configs :: "detector_config list"
  dd_runs :: "inference_run list"
  dd_evals :: "signal_eval_row list"
  dd_recs :: "recommendation_row list"
  dd_emissions :: "emission_row list"
  dd_rejections :: "rejection_row list"

datatype detector_call =
    Read_config | Begin_run | Read_suppressed | Write_recommendation nat | Write_emission nat
  | Write_evals | Complete_run | Fail_run | Write_suppressed

record tick_env =
  te_run_nano :: string
  te_rec_nano :: "nat \<Rightarrow> string"
  te_em_nano :: "nat \<Rightarrow> string"
  te_started_at :: int
  te_ended_at :: int
  te_now :: int
  te_has_sql :: bool
  te_fails :: "detector_call \<Rightarrow> string option"

section \<open>Store operations\<close>

definition calling :: "tick_env \<Rightarrow> detector_call \<Rightarrow> (tick_error + 'a) \<Rightarrow> tick_error + 'a" where
  "calling env c r = (case te_fails env c of Some e \<Rightarrow> Inl (Dal_failure e) | None \<Rightarrow> r)"

definition getActiveDetectorConfigRow :: "detector_db \<Rightarrow> detector_config option" where
  "getActiveDetectorConfigRow db =
     (case sort_key (\<lambda>c. - dt_activated_at c) (filter (\<lambda>c. dt_deactivated_at c = None) (dd_configs db)) of
        [] \<Rightarrow> None | c # _ \<Rightarrow> Some c)"

definition insertInferenceRunRow :: "int \<Rightarrow> string \<Rightarrow> string \<Rightarrow> string \<Rightarrow> string \<Rightarrow> string \<Rightarrow> detector_db \<Rightarrow> tick_error + detector_db" where
  "insertInferenceRunRow now run_id version ws we kind db =
     (if list_ex (\<lambda>r. ir_run_id r = run_id) (dd_runs db) then Inl (Constraint_violated ''inference_runs_pkey'')
      else if \<not> list_ex (\<lambda>c. dt_version_id c = version) (dd_configs db)
      then Inl (Constraint_violated ''inference_runs_detector_config_version_id_fkey'')
      else Inr (db\<lparr>dd_runs := dd_runs db @
             [\<lparr>ir_run_id = run_id, ir_version_id = version, ir_window_start = ws, ir_window_end = we, ir_kind = kind,
               ir_status = Running, ir_started_at = now, ir_completed_at = None, ir_candidate_count = 0,
               ir_emission_count = 0, ir_cost_ms = None, ir_error = None, ir_signal_names = []\<rparr>]\<rparr>))"

record run_completion =
  rc_run_id :: string
  rc_candidate_count :: nat
  rc_emission_count :: nat
  rc_cost_ms :: int
  rc_status :: run_status
  rc_error :: "tick_error option"
  rc_signal_names :: "string list"

definition completeInferenceRunRow :: "int \<Rightarrow> run_completion \<Rightarrow> detector_db \<Rightarrow> tick_error + detector_db" where
  "completeInferenceRunRow now c db =
     (if \<not> list_ex (\<lambda>r. ir_run_id r = rc_run_id c) (dd_runs db) then Inl (Run_not_found (rc_run_id c))
      else Inr (db\<lparr>dd_runs := map (\<lambda>r. if ir_run_id r = rc_run_id c
             then r\<lparr>ir_completed_at := Some now, ir_candidate_count := rc_candidate_count c,
                    ir_emission_count := rc_emission_count c, ir_cost_ms := Some (rc_cost_ms c),
                    ir_status := rc_status c, ir_error := rc_error c, ir_signal_names := rc_signal_names c\<rparr>
             else r) (dd_runs db)\<rparr>))"

definition in_unit :: "real \<Rightarrow> bool" where
  "in_unit v = (0 \<le> v \<and> v \<le> 1)"

definition bulkInsertInferenceSignalEvalsRow :: "signal_eval_row list \<Rightarrow> detector_db \<Rightarrow> tick_error + detector_db" where
  "bulkInsertInferenceSignalEvalsRow rows db =
     (if rows = [] then Inr db
      else case find (\<lambda>r. se_normalized_value r < 0 \<or> se_normalized_value r > 1) rows of
        Some r \<Rightarrow> Inl (Out_of_unit_range (se_signal_name r))
      | None \<Rightarrow>
          if \<not> list_all (\<lambda>r. list_ex (\<lambda>run. ir_run_id run = se_run_id r) (dd_runs db)) rows
          then Inl (Constraint_violated ''inference_signal_evals_run_id_fkey'')
          else if \<not> list_all (\<lambda>r. in_unit (se_weight_used r)) rows
          then Inl (Constraint_violated ''inference_signal_evals_weight_used_check'')
          else Inr (db\<lparr>dd_evals := dd_evals db @ rows\<rparr>))"

definition insertInferenceEmissionRow :: "emission_row \<Rightarrow> detector_db \<Rightarrow> tick_error + detector_db" where
  "insertInferenceEmissionRow em db =
     (if list_ex (\<lambda>e. em_emission_id e = em_emission_id em) (dd_emissions db)
      then Inl (Constraint_violated ''inference_emissions_pkey'')
      else if \<not> list_ex (\<lambda>r. ir_run_id r = em_run_id em) (dd_runs db)
      then Inl (Constraint_violated ''inference_emissions_run_id_fkey'')
      else if \<not> list_ex (\<lambda>r. rr_id r = em_recommendation_id em) (dd_recs db)
      then Inl (Constraint_violated ''inference_emissions_recommendation_id_fkey'')
      else if \<not> in_unit (em_confidence em) then Inl (Constraint_violated ''inference_emissions_composite_confidence_check'')
      else if em_evidence_score em < 0 then Inl (Constraint_violated ''inference_emissions_evidence_score_check'')
      else Inr (db\<lparr>dd_emissions := dd_emissions db @ [em]\<rparr>))"

definition listInferenceEmissionsForRunRow :: "string \<Rightarrow> detector_db \<Rightarrow> emission_row list" where
  "listInferenceEmissionsForRunRow run_id db =
     sort_key (\<lambda>e. - em_emitted_at e) (filter (\<lambda>e. em_run_id e = run_id) (dd_emissions db))"

definition dalInsertLemV4Recommendation :: "tick_env \<Rightarrow> recommendation_row \<Rightarrow> detector_db \<Rightarrow> tick_error + detector_db" where
  "dalInsertLemV4Recommendation env row db =
     (if \<not> te_has_sql env then Inl No_sql_client
      else if list_ex (\<lambda>r. rr_id r = rr_id row) (dd_recs db) then Inl (Constraint_violated ''synthetic_domain_recommendations_pkey'')
      else if \<not> list_ex (\<lambda>c. dt_version_id c = rr_version_id row) (dd_configs db)
      then Inl (Constraint_violated ''synthetic_domain_recommendations_detector_config_version_id_fkey'')
      else if \<not> in_unit (rr_confidence row) then Inl (Constraint_violated ''synthetic_domain_recommendations_composite_confidence_check'')
      else if rr_evidence_score row < 0 then Inl (Constraint_violated ''synthetic_domain_recommendations_evidence_score_check'')
      else Inr (db\<lparr>dd_recs := dd_recs db @ [row]\<rparr>))"

definition loadPermanentSuppressFingerprints :: "tick_env \<Rightarrow> detector_db \<Rightarrow> string list" where
  "loadPermanentSuppressFingerprints env db =
     (if \<not> te_has_sql env \<or> te_fails env Read_suppressed \<noteq> None then []
      else js_set (List.map_filter rj_permanent_suppress_fingerprint (dd_rejections db)))"

section \<open>Evaluating one candidate\<close>

datatype rejection_reason = Permanent_suppress | Ces_hard_floor | Confidence_below_min

record assessment =
  as_ces :: ces_result
  as_signals :: "signal_eval list"
  as_confidence :: real
  as_contribution :: "(string \<times> contribution) list"
  as_pattern_fingerprint :: string
  as_rejection :: "rejection_reason option"

definition candidate_input_of :: "detector_candidate \<Rightarrow> candidate_input" where
  "candidate_input_of cand =
     \<lparr>ci_candidate_fingerprint = dc_candidate_fingerprint cand, ci_project_ids = dc_project_ids cand,
      ci_events = dc_events cand, ci_actors = dc_actors cand, ci_window_start = dc_window_start cand,
      ci_window_end = dc_window_end cand, ci_metadata = dc_metadata cand\<rparr>"

definition confidence_min :: "detector_config \<Rightarrow> real" where
  "confidence_min cfg = number_or (dt_thresholds cfg) ''composite_confidence_min'' 0.5"

definition ces_config_of :: "detector_config \<Rightarrow> ces_config" where
  "ces_config_of cfg = the_default R50_GENESIS_CES_CONFIG (cesConfigFromDetectorConfig cfg)"

definition assess :: "detector_config \<Rightarrow> string list \<Rightarrow> detector_candidate \<Rightarrow> tick_error + assessment" where
  "assess cfg suppressed cand =
     (case computeCes (aggregateCesInputs 24 cand) (ces_config_of cfg) of
        Inl e \<Rightarrow> Inl (Ces_failed e)
      | Inr ces \<Rightarrow>
          (let signals = evaluate_signals (candidate_input_of cand);
               (confidence, contribution) = computeCompositeConfidence signals (dt_weights cfg);
               fp = computePatternFingerprint (dc_candidate_fingerprint cand) contribution
           in Inr \<lparr>as_ces = ces, as_signals = signals, as_confidence = confidence, as_contribution = contribution,
                   as_pattern_fingerprint = fp,
                   as_rejection =
                     (if fp \<in> set suppressed then Some Permanent_suppress
                      else if \<not> cr_shouldEmit ces then Some Ces_hard_floor
                      else if confidence < confidence_min cfg then Some Confidence_below_min
                      else None)\<rparr>))"

definition eval_rows :: "detector_config \<Rightarrow> string \<Rightarrow> detector_candidate \<Rightarrow> assessment \<Rightarrow> signal_eval_row list" where
  "eval_rows cfg run_id cand a =
     map (\<lambda>s. \<lparr>se_run_id = run_id, se_candidate_fingerprint = dc_candidate_fingerprint cand,
               se_signal_name = so_signal_name s, se_raw_value = so_raw_value s,
               se_normalized_value = so_normalized_value s, se_weight_used = weight_of (dt_weights cfg) (so_signal_name s),
               se_weighted_contribution = weight_of (dt_weights cfg) (so_signal_name s) * so_normalized_value s\<rparr>) (as_signals a)"

definition recommendation_of :: "tick_env \<Rightarrow> detector_config \<Rightarrow> nat \<Rightarrow> detector_candidate \<Rightarrow> assessment \<Rightarrow> recommendation_row" where
  "recommendation_of env cfg k cand a =
     \<lparr>rr_id = ''sdrec_'' @ te_rec_nano env k, rr_domain_id = dc_target_domain_id cand, rr_workspace_id = dc_workspace_id cand,
      rr_kind = the_default ''add_goal'' (dc_recommendation_kind cand), rr_source_event_ids = map ev_id (dc_events cand),
      rr_source_project_ids = dc_project_ids cand, rr_label = dc_proposed_label cand,
      rr_binding_member_set = dc_project_ids cand, rr_confidence = as_confidence a, rr_evidence_score = cr_E (as_ces a),
      rr_pattern_fingerprint = as_pattern_fingerprint a, rr_breakdown = as_contribution a,
      rr_version_id = dt_version_id cfg, rr_status = ''pending'', rr_generated_at = te_now env,
      rr_expires_at = te_now env + 30 * 24 * 60 * 60 * 1000\<rparr>"

definition emission_of :: "tick_env \<Rightarrow> string \<Rightarrow> nat \<Rightarrow> detector_candidate \<Rightarrow> assessment \<Rightarrow> emission_row" where
  "emission_of env run_id k cand a =
     \<lparr>em_emission_id = ''ie_'' @ te_em_nano env k, em_run_id = run_id, em_recommendation_id = ''sdrec_'' @ te_rec_nano env k,
      em_confidence = as_confidence a, em_evidence_score = cr_E (as_ces a), em_inputs = aggregateCesInputs 24 cand,
      em_pattern_fingerprint = as_pattern_fingerprint a, em_breakdown = as_contribution a,
      em_binding_member_set = dc_project_ids cand, em_label = dc_proposed_label cand,
      em_emitted_at = te_now env\<rparr>"

record evaluation =
  va_candidate_fingerprint :: string
  va_assessment :: assessment
  va_emitted :: bool
  va_recommendation_id :: "string option"
  va_emission_id :: "string option"

definition evaluation_of :: "tick_env \<Rightarrow> nat \<Rightarrow> detector_candidate \<Rightarrow> assessment \<Rightarrow> evaluation" where
  "evaluation_of env k cand a =
     (let emitted = (as_rejection a = None)
      in \<lparr>va_candidate_fingerprint = dc_candidate_fingerprint cand, va_assessment = a, va_emitted = emitted,
          va_recommendation_id = (if emitted then Some (''sdrec_'' @ te_rec_nano env k) else None),
          va_emission_id = (if emitted then Some (''ie_'' @ te_em_nano env k) else None)\<rparr>)"

section \<open>The tick\<close>

record tick_state =
  ts_db :: detector_db
  ts_evaluations :: "evaluation list"
  ts_rows :: "signal_eval_row list"

text \<open>One pass of the candidate loop; \<open>Some e\<close> is an exception leaving the loop.\<close>

definition tick_candidate ::
  "tick_env \<Rightarrow> detector_config \<Rightarrow> string list \<Rightarrow> string \<Rightarrow> nat \<Rightarrow> detector_candidate \<Rightarrow> tick_state \<Rightarrow> tick_state \<times> tick_error option" where
  "tick_candidate env cfg suppressed run_id k cand st =
     (case assess cfg suppressed cand of
        Inl e \<Rightarrow> (st, Some e)
      | Inr a \<Rightarrow>
          (let st1 = st\<lparr>ts_rows := ts_rows st @ eval_rows cfg run_id cand a\<rparr>;
               finish = (\<lambda>st. st\<lparr>ts_evaluations := ts_evaluations st @ [evaluation_of env k cand a]\<rparr>)
           in if as_rejection a \<noteq> None then (finish st1, None)
              else case calling env (Write_recommendation k) (dalInsertLemV4Recommendation env (recommendation_of env cfg k cand a) (ts_db st1)) of
                     Inl e \<Rightarrow> (st1, Some e)
                   | Inr db2 \<Rightarrow>
                       (case calling env (Write_emission k) (insertInferenceEmissionRow (emission_of env run_id k cand a) db2) of
                          Inl e \<Rightarrow> (st1\<lparr>ts_db := db2\<rparr>, Some e)
                        | Inr db3 \<Rightarrow> (finish (st1\<lparr>ts_db := db3\<rparr>), None))))"

fun tick_loop ::
  "tick_env \<Rightarrow> detector_config \<Rightarrow> string list \<Rightarrow> string \<Rightarrow> nat \<Rightarrow> detector_candidate list \<Rightarrow> tick_state \<Rightarrow> tick_state \<times> tick_error option" where
  "tick_loop env cfg suppressed run_id k [] st = (st, None)"
| "tick_loop env cfg suppressed run_id k (cand # cands) st =
     (case tick_candidate env cfg suppressed run_id k cand st of
        (st', None) \<Rightarrow> tick_loop env cfg suppressed run_id (Suc k) cands st'
      | (st', Some e) \<Rightarrow> (st', Some e))"

record tick_result =
  tr_run_id :: string
  tr_version_id :: string
  tr_candidate_count :: nat
  tr_emission_count :: nat
  tr_cost_ms :: int
  tr_evaluations :: "evaluation list"
  tr_status :: run_status
  tr_error :: "tick_error option"

definition emission_count :: "evaluation list \<Rightarrow> nat" where
  "emission_count vs = length (filter va_emitted vs)"

definition tick_result_of ::
  "tick_env \<Rightarrow> detector_config \<Rightarrow> nat \<Rightarrow> evaluation list \<Rightarrow> tick_error option \<Rightarrow> tick_result" where
  "tick_result_of env cfg n vs err =
     \<lparr>tr_run_id = ''irn_'' @ te_run_nano env, tr_version_id = dt_version_id cfg, tr_candidate_count = n,
      tr_emission_count = emission_count vs, tr_cost_ms = te_ended_at env - te_started_at env, tr_evaluations = vs,
      tr_status = (if err = None then Completed else Failed), tr_error = err\<rparr>"

definition completion_of :: "tick_env \<Rightarrow> nat \<Rightarrow> evaluation list \<Rightarrow> tick_error option \<Rightarrow> run_completion" where
  "completion_of env n vs err =
     \<lparr>rc_run_id = ''irn_'' @ te_run_nano env, rc_candidate_count = n, rc_emission_count = emission_count vs,
      rc_cost_ms = te_ended_at env - te_started_at env, rc_status = (if err = None then Completed else Failed),
      rc_error = err, rc_signal_names = (if err = None then map fst SIGNAL_REGISTRY else [])\<rparr>"

text \<open>The \<^verbatim>\<open>catch\<close> branch: the failure is recorded if that write works, and reported either way.\<close>

definition fail_tick :: "tick_env \<Rightarrow> detector_config \<Rightarrow> nat \<Rightarrow> tick_state \<Rightarrow> tick_error \<Rightarrow> detector_db \<times> (tick_error + tick_result)" where
  "fail_tick env cfg n st e =
     (case calling env Fail_run (completeInferenceRunRow (te_now env) (completion_of env n (ts_evaluations st) (Some e)) (ts_db st)) of
        Inl _ \<Rightarrow> ts_db st
      | Inr db \<Rightarrow> db,
      Inr (tick_result_of env cfg n (ts_evaluations st) (Some e)))"

text \<open>The body of the \<^verbatim>\<open>try\<close>.\<close>

definition tick_body ::
  "tick_env \<Rightarrow> detector_config \<Rightarrow> detector_candidate list \<Rightarrow> detector_db \<Rightarrow> detector_db \<times> (tick_error + tick_result)" where
  "tick_body env cfg cands db =
     (let run_id = ''irn_'' @ te_run_nano env; n = length cands;
          suppressed = loadPermanentSuppressFingerprints env db;
          (st, err) = tick_loop env cfg suppressed run_id 0 cands \<lparr>ts_db = db, ts_evaluations = [], ts_rows = []\<rparr>
      in case err of
           Some e \<Rightarrow> fail_tick env cfg n st e
         | None \<Rightarrow>
             (case (if ts_rows st = [] then Inr (ts_db st)
                    else calling env Write_evals (bulkInsertInferenceSignalEvalsRow (ts_rows st) (ts_db st))) of
                Inl e \<Rightarrow> fail_tick env cfg n st e
              | Inr db2 \<Rightarrow>
                  (case calling env Complete_run (completeInferenceRunRow (te_now env) (completion_of env n (ts_evaluations st) None) db2) of
                     Inl e \<Rightarrow> fail_tick env cfg n (st\<lparr>ts_db := db2\<rparr>) e
                   | Inr db3 \<Rightarrow> (db3, Inr (tick_result_of env cfg n (ts_evaluations st) None)))))"

definition resolve_config :: "tick_env \<Rightarrow> detector_config option \<Rightarrow> detector_db \<Rightarrow> tick_error + detector_config" where
  "resolve_config env override db =
     (case override of
        Some cfg \<Rightarrow> Inr cfg
      | None \<Rightarrow> calling env Read_config
          (case getActiveDetectorConfigRow db of None \<Rightarrow> Inl No_active_config | Some cfg \<Rightarrow> Inr cfg))"

definition runDetectorTick ::
  "tick_env \<Rightarrow> detector_config option \<Rightarrow> detector_candidate list \<Rightarrow> string \<Rightarrow> string \<Rightarrow> string option \<Rightarrow> detector_db
     \<Rightarrow> detector_db \<times> (tick_error + tick_result)" where
  "runDetectorTick env override cands ws we kind db =
     attempt db (resolve_config env override db) (\<lambda>cfg.
     attempt db (calling env Begin_run (insertInferenceRunRow (te_now env) (''irn_'' @ te_run_nano env) (dt_version_id cfg) ws we
                   (the_default ''manual_trigger'' kind) db)) (\<lambda>db1.
     tick_body env cfg cands db1))"

end
