(* ===== verification/Detector_Props.thy ===== *)
theory Detector_Props
  imports Detector
begin

text \<open>
  What a detector tick guarantees: a completed tick has assessed every candidate, written exactly the
  recommendations that pass the three gates together with their emissions, and recorded one evaluation
  row per signal and candidate; and the confidence gate at its default threshold lets everything pass.
\<close>

section \<open>Composite confidence\<close>

lemma weighted_sum_list:
  "weighted_sum w ss = sum_list (map (\<lambda>s. weight_of w (so_signal_name s) * so_normalized_value s) ss)"
proof -
  have "foldl (\<lambda>acc s. acc + f s) a ss = a + sum_list (map f ss)" for f :: "signal_eval \<Rightarrow> real" and a
    by (induction ss arbitrary: a) auto
  then show ?thesis by (simp add: weighted_sum_def)
qed

lemma confidence_bounds:
  "0 < fst (computeCompositeConfidence ss w)" "fst (computeCompositeConfidence ss w) < 1"
proof -
  have "0 < exp (- weighted_sum w ss)" by simp
  then have "1 < 1 + exp (- weighted_sum w ss)" and "0 < 1 + exp (- weighted_sum w ss)" by linarith+
  then show "0 < fst (computeCompositeConfidence ss w)" "fst (computeCompositeConfidence ss w) < 1"
    unfolding computeCompositeConfidence_def fst_conv by (simp_all add: divide_less_eq_1)
qed

lemma confidence_at_least_half:
  assumes "0 \<le> weighted_sum w ss"
  shows "1 / 2 \<le> fst (computeCompositeConfidence ss w)"
proof -
  from assms have "exp (- weighted_sum w ss) \<le> 1" by simp
  moreover have "0 < 1 + exp (- weighted_sum w ss)" by (simp add: add_pos_pos)
  ultimately show ?thesis unfolding computeCompositeConfidence_def fst_conv by (simp add: pos_le_divide_eq)
qed

lemma evaluate_signals_unit:
  "s \<in> set (evaluate_signals inp) \<Longrightarrow> 0 \<le> so_normalized_value s \<and> so_normalized_value s \<le> 1"
  using registry.in_unit [of inp] by (auto simp: evaluate_signals_def list_all_iff)

lemma evaluate_signals_names: "map so_signal_name (evaluate_signals inp) = map fst SIGNAL_REGISTRY"
  using registry.names [of inp] by (simp add: evaluate_signals_def)

definition weights_nonneg :: "(string \<times> json) list \<Rightarrow> bool" where
  "weights_nonneg w = list_all (\<lambda>n. 0 \<le> weight_of w n) (map fst SIGNAL_REGISTRY)"

lemma weighted_sum_nonneg:
  assumes "weights_nonneg w"
  shows "0 \<le> weighted_sum w (evaluate_signals inp)"
  unfolding weighted_sum_list
proof (rule sum_list_nonneg)
  fix x assume "x \<in> set (map (\<lambda>s. weight_of w (so_signal_name s) * so_normalized_value s) (evaluate_signals inp))"
  then obtain s where s: "s \<in> set (evaluate_signals inp)" "x = weight_of w (so_signal_name s) * so_normalized_value s" by auto
  from s(1) have "so_signal_name s \<in> set (map so_signal_name (evaluate_signals inp))" by simp
  then have "0 \<le> weight_of w (so_signal_name s)"
    using assms unfolding evaluate_signals_names weights_nonneg_def list_all_iff by blast
  then show "0 \<le> x" using evaluate_signals_unit [OF s(1)] s(2) by simp
qed

section \<open>Assessments\<close>

lemma assess_Inr:
  assumes "assess cfg blocked cand = Inr a"
  shows "computeCes (aggregateCesInputs 24 cand) (ces_config_of cfg) = Inr (as_ces a)"
    and "as_signals a = evaluate_signals (candidate_input_of cand)"
    and "as_confidence a = fst (computeCompositeConfidence (as_signals a) (dt_weights cfg))"
    and "as_rejection a = (if as_pattern_fingerprint a \<in> set blocked then Some Permanent_suppress
      else if \<not> cr_shouldEmit (as_ces a) then Some Ces_hard_floor
      else if as_confidence a < confidence_min cfg then Some Confidence_below_min else None)"
  using assms by (auto simp: assess_def Let_def split: sum.splits prod.splits)

lemma assess_never_below_half:
  assumes "assess cfg blocked cand = Inr a" and "weights_nonneg (dt_weights cfg)" and "confidence_min cfg \<le> 1 / 2"
  shows "as_rejection a \<noteq> Some Confidence_below_min"
proof -
  have "1 / 2 \<le> as_confidence a"
    using assess_Inr(2,3) [OF assms(1)] confidence_at_least_half [OF weighted_sum_nonneg [OF assms(2)]] by simp
  with assms(3) show ?thesis using assess_Inr(4) [OF assms(1)] by auto
qed

section \<open>The loop\<close>

type_synonym step = "nat \<times> detector_candidate \<times> assessment"

abbreviation passing :: "step list \<Rightarrow> step list" where
  "passing \<equiv> filter (\<lambda>(k, c, a). as_rejection a = None)"

definition written :: "tick_env \<Rightarrow> detector_config \<Rightarrow> string \<Rightarrow> step list \<Rightarrow> tick_state \<Rightarrow> tick_state" where
  "written env cfg run_id ps st =
     \<lparr>ts_db = (ts_db st)\<lparr>dd_recs := dd_recs (ts_db st) @ map (\<lambda>(k, c, a). recommendation_of env cfg k c a) (passing ps),
                        dd_emissions := dd_emissions (ts_db st) @ map (\<lambda>(k, c, a). emission_of env run_id k c a) (passing ps)\<rparr>,
      ts_evaluations = ts_evaluations st @ map (\<lambda>(k, c, a). evaluation_of env k c a) ps,
      ts_rows = ts_rows st @ concat (map (\<lambda>(k, c, a). eval_rows cfg run_id c a) ps)\<rparr>"

lemma written_Nil [simp]: "written env cfg run_id [] st = st"
  by (simp add: written_def)

lemma written_Cons: "written env cfg run_id (p # ps) st = written env cfg run_id ps (written env cfg run_id [p] st)"
  by (simp add: written_def)

lemma calling_Inr: "calling env c r = Inr x \<longleftrightarrow> te_fails env c = None \<and> r = Inr x"
  by (auto simp: calling_def split: option.splits)

lemma dalInsert_Inr: "dalInsertLemV4Recommendation env row db = Inr db' \<Longrightarrow> db' = db\<lparr>dd_recs := dd_recs db @ [row]\<rparr>"
  by (auto simp: dalInsertLemV4Recommendation_def split: if_splits)

lemma insertEmission_Inr: "insertInferenceEmissionRow em db = Inr db' \<Longrightarrow> db' = db\<lparr>dd_emissions := dd_emissions db @ [em]\<rparr>"
  by (auto simp: insertInferenceEmissionRow_def split: if_splits)

lemma tick_candidate_None:
  assumes "tick_candidate env cfg blocked run_id k cand st = (st', None)"
  shows "\<exists>a. assess cfg blocked cand = Inr a \<and> st' = written env cfg run_id [(k, cand, a)] st"
proof (cases "assess cfg blocked cand")
  case (Inl e)
  with assms show ?thesis by (simp add: tick_candidate_def)
next
  case (Inr a)
  with assms show ?thesis
    by (auto simp: tick_candidate_def written_def Let_def calling_Inr split: if_splits sum.splits
        dest!: dalInsert_Inr insertEmission_Inr)
qed

lemma tick_loop_None:
  assumes "tick_loop env cfg blocked run_id k cands st = (st', None)"
  shows "\<exists>as. map (assess cfg blocked) cands = map Inr as \<and>
    st' = written env cfg run_id (zip [k..<k + length cands] (zip cands as)) st"
  using assms
proof (induction cands arbitrary: k st)
  case Nil
  then show ?case by simp
next
  case (Cons cand cands)
  obtain st1 where one: "tick_candidate env cfg blocked run_id k cand st = (st1, None)"
    and rest: "tick_loop env cfg blocked run_id (Suc k) cands st1 = (st', None)"
    using Cons.prems by (auto split: prod.splits option.splits)
  from tick_candidate_None [OF one] obtain a where a: "assess cfg blocked cand = Inr a"
    "st1 = written env cfg run_id [(k, cand, a)] st" by blast
  from Cons.IH [OF rest] obtain as where as: "map (assess cfg blocked) cands = map Inr as"
    "st' = written env cfg run_id (zip [Suc k..<Suc k + length cands] (zip cands as)) st1" by blast
  have "[k..<k + length (cand # cands)] = k # [Suc k..<Suc k + length cands]" by (simp del: upt_Suc add: upt_conv_Cons)
  with a as show ?case
    by (intro exI [of _ "a # as"]) (simp add: written_Cons [of _ _ _ _ "zip _ _"])
qed

section \<open>The whole tick\<close>

lemma fail_tick_status: "snd (fail_tick env cfg n st e) = Inr res \<Longrightarrow> tr_status res = Failed"
  by (auto simp: fail_tick_def tick_result_of_def)

lemma bulkInsert_Inr:
  assumes "bulkInsertInferenceSignalEvalsRow rows db = Inr db'"
  shows "db' = db\<lparr>dd_evals := dd_evals db @ rows\<rparr>" and "list_all (\<lambda>r. in_unit (se_weight_used r)) rows"
  using assms by (auto simp: bulkInsertInferenceSignalEvalsRow_def split: if_splits option.splits)

lemma bulkInsert_Nil: "bulkInsertInferenceSignalEvalsRow [] db = Inr db"
  by (simp add: bulkInsertInferenceSignalEvalsRow_def)

definition closed_run :: "tick_env \<Rightarrow> nat \<Rightarrow> nat \<Rightarrow> inference_run \<Rightarrow> bool" where
  "closed_run env n m r =
     (ir_run_id r = ''irn_'' @ te_run_nano env \<and> ir_status r = Completed \<and> ir_candidate_count r = n \<and>
      ir_emission_count r = m \<and> ir_error r = None)"

lemma list_ex_map_mono: "list_ex P xs \<Longrightarrow> (\<And>x. P x \<Longrightarrow> Q (f x)) \<Longrightarrow> list_ex Q (map f xs)"
  by (induction xs) auto

lemma complete_Inr:
  assumes "completeInferenceRunRow now (completion_of env n vs None) db = Inr db'"
  shows "db' = db\<lparr>dd_runs := dd_runs db'\<rparr>" and "list_ex (closed_run env n (emission_count vs)) (dd_runs db')"
proof -
  let ?c = "completion_of env n vs None"
  from assms have ex: "list_ex (\<lambda>r. ir_run_id r = rc_run_id ?c) (dd_runs db)"
    by (auto simp: completeInferenceRunRow_def split: if_splits)
  with assms show "db' = db\<lparr>dd_runs := dd_runs db'\<rparr>" by (auto simp: completeInferenceRunRow_def)
  from ex assms show "list_ex (closed_run env n (emission_count vs)) (dd_runs db')"
    unfolding completeInferenceRunRow_def
    by (auto intro!: list_ex_map_mono [OF ex] simp: closed_run_def completion_of_def)
qed

text \<open>What a tick that completes has done, as a relation between the tables before and after it.\<close>

definition tick_effect ::
  "tick_env \<Rightarrow> detector_config \<Rightarrow> step list \<Rightarrow> detector_db \<Rightarrow> detector_db \<Rightarrow> bool" where
  "tick_effect env cfg steps db db' =
     (let run_id = ''irn_'' @ te_run_nano env in
      dd_recs db' = dd_recs db @ map (\<lambda>(k, c, a). recommendation_of env cfg k c a) (passing steps) \<and>
      dd_emissions db' = dd_emissions db @ map (\<lambda>(k, c, a). emission_of env run_id k c a) (passing steps) \<and>
      dd_evals db' = dd_evals db @ concat (map (\<lambda>(k, c, a). eval_rows cfg run_id c a) steps) \<and>
      dd_rejections db' = dd_rejections db \<and> dd_configs db' = dd_configs db \<and>
      list_ex (closed_run env (length steps) (length (passing steps))) (dd_runs db'))"

lemma emission_count_steps:
  "emission_count (map (\<lambda>(k, c, a). evaluation_of env k c a) ps) = length (passing ps)"
  by (induction ps) (auto simp: emission_count_def evaluation_of_def Let_def)

lemma tick_body_completed:
  assumes "tick_body env cfg cands db = (db', Inr res)" and "tr_status res = Completed"
  shows "\<exists>as. map (assess cfg (loadPermanentSuppressFingerprints env db)) cands = map Inr as \<and>
    (let steps = zip [0..<length cands] (zip cands as) in
       tick_effect env cfg steps db db' \<and> tr_evaluations res = map (\<lambda>(k, c, a). evaluation_of env k c a) steps \<and>
       list_all (\<lambda>r. in_unit (se_weight_used r)) (concat (map (\<lambda>(k, c, a). eval_rows cfg (''irn_'' @ te_run_nano env) c a) steps)))"
proof -
  let ?run = "''irn_'' @ te_run_nano env" and ?sup = "loadPermanentSuppressFingerprints env db"
  obtain st err where loop: "tick_loop env cfg ?sup ?run 0 cands \<lparr>ts_db = db, ts_evaluations = [], ts_rows = []\<rparr> = (st, err)"
    by (meson surj_pair)
  have no_fail: "fail_tick env cfg n st e \<noteq> (db', Inr res)" for n st e
    using fail_tick_status [of env cfg n st e res] assms(2) by auto
  have err: "err = None" using assms(1) no_fail unfolding tick_body_def Let_def loop prod.case by (cases err) simp_all
  from tick_loop_None [OF loop [unfolded err]] obtain as where
    as: "map (assess cfg ?sup) cands = map Inr as"
    and st: "st = written env cfg ?run (zip [0..<length cands] (zip cands as)) \<lparr>ts_db = db, ts_evaluations = [], ts_rows = []\<rparr>"
    by auto
  from as have len: "length as = length cands" by (metis length_map)
  obtain db2 where evals: "(if ts_rows st = [] then Inr (ts_db st)
      else calling env Write_evals (bulkInsertInferenceSignalEvalsRow (ts_rows st) (ts_db st))) = Inr db2"
    and comp: "calling env Complete_run (completeInferenceRunRow (te_now env) (completion_of env (length cands) (ts_evaluations st) None) db2) = Inr db'"
    and res: "res = tick_result_of env cfg (length cands) (ts_evaluations st) None"
    using assms(1) no_fail unfolding tick_body_def Let_def loop err prod.case option.case
    by (auto split: sum.splits if_splits)
  have db2: "db2 = (ts_db st)\<lparr>dd_evals := dd_evals (ts_db st) @ ts_rows st\<rparr>" "list_all (\<lambda>r. in_unit (se_weight_used r)) (ts_rows st)"
    using evals bulkInsert_Inr [of "ts_rows st" "ts_db st" db2] by (auto simp: calling_Inr split: if_splits)
  from comp have "completeInferenceRunRow (te_now env) (completion_of env (length cands) (ts_evaluations st) None) db2 = Inr db'"
    by (simp add: calling_Inr)
  note finished = complete_Inr [OF this]
  have "dd_recs db' = dd_recs db2" "dd_emissions db' = dd_emissions db2" "dd_evals db' = dd_evals db2"
    "dd_rejections db' = dd_rejections db2" "dd_configs db' = dd_configs db2" by (subst finished(1), simp)+
  with as len db2 st finished(2) show ?thesis
    by (intro exI [of _ as]) (simp add: tick_effect_def Let_def written_def emission_count_steps res tick_result_of_def)
qed

lemma begin_run_frame:
  assumes "insertInferenceRunRow now run_id v ws we kind db = Inr db1"
  shows "db1 = db\<lparr>dd_runs := dd_runs db1\<rparr>"
  using assms by (auto simp: insertInferenceRunRow_def split: if_splits)

lemma runDetectorTick_Inr:
  assumes "runDetectorTick env override cands ws we kind db = (db', Inr res)"
  obtains cfg db1 where "resolve_config env override db = Inr cfg" and "db1 = db\<lparr>dd_runs := dd_runs db1\<rparr>"
    and "tick_body env cfg cands db1 = (db', Inr res)"
proof -
  from assms obtain cfg db1 where "resolve_config env override db = Inr cfg"
    and "insertInferenceRunRow (te_now env) (''irn_'' @ te_run_nano env) (dt_version_id cfg) ws we (the_default ''manual_trigger'' kind) db = Inr db1"
    and "tick_body env cfg cands db1 = (db', Inr res)"
    unfolding runDetectorTick_def attempt_def by (auto simp: calling_Inr split: sum.splits)
  then show ?thesis by (rule that [OF _ begin_run_frame])
qed

lemma runDetectorTick_completed:
  assumes "runDetectorTick env override cands ws we kind db = (db', Inr res)" and "tr_status res = Completed"
  shows "\<exists>cfg as. resolve_config env override db = Inr cfg \<and>
    map (assess cfg (loadPermanentSuppressFingerprints env db)) cands = map Inr as \<and>
    (let steps = zip [0..<length cands] (zip cands as) in
       tick_effect env cfg steps db db' \<and> tr_evaluations res = map (\<lambda>(k, c, a). evaluation_of env k c a) steps \<and>
       list_all (\<lambda>r. in_unit (se_weight_used r)) (concat (map (\<lambda>(k, c, a). eval_rows cfg (''irn_'' @ te_run_nano env) c a) steps)))"
proof -
  from assms(1) obtain cfg db1 where c: "resolve_config env override db = Inr cfg"
    and d: "db1 = db\<lparr>dd_runs := dd_runs db1\<rparr>" and b: "tick_body env cfg cands db1 = (db', Inr res)"
    by (rule runDetectorTick_Inr)
  have "loadPermanentSuppressFingerprints env db1 = loadPermanentSuppressFingerprints env db"
    by (subst d) (simp add: loadPermanentSuppressFingerprints_def)
  moreover have "tick_effect env cfg steps db1 db' = tick_effect env cfg steps db db'" for steps
    by (subst d) (simp add: tick_effect_def Let_def)
  ultimately show ?thesis using c tick_body_completed [OF b assms(2)] by (auto simp: Let_def)
qed

section \<open>A healthy tick completes\<close>

text \<open>Identifiers drawn from position \<open>k\<close> on are new to the tables.\<close>

definition fresh_from :: "tick_env \<Rightarrow> nat \<Rightarrow> detector_db \<Rightarrow> bool" where
  "fresh_from env k db =
     (\<forall>j \<ge> k. (\<forall>r \<in> set (dd_recs db). rr_id r \<noteq> ''sdrec_'' @ te_rec_nano env j) \<and>
              (\<forall>e \<in> set (dd_emissions db). em_emission_id e \<noteq> ''ie_'' @ te_em_nano env j))"

definition healthy :: "tick_env \<Rightarrow> detector_config \<Rightarrow> bool" where
  "healthy env cfg =
     (te_fails env = (\<lambda>_. None) \<and> te_has_sql env \<and> inj (te_rec_nano env) \<and> inj (te_em_nano env) \<and>
      validateConfig (ces_config_of cfg) = Inr ())"

definition anchored :: "detector_config \<Rightarrow> string \<Rightarrow> detector_db \<Rightarrow> bool" where
  "anchored cfg run_id db =
     (list_ex (\<lambda>c. dt_version_id c = dt_version_id cfg) (dd_configs db) \<and> list_ex (\<lambda>r. ir_run_id r = run_id) (dd_runs db))"

lemma assess_total:
  assumes "validateConfig (ces_config_of cfg) = Inr ()"
  obtains a where "assess cfg blocked cand = Inr a" and "in_unit (as_confidence a)" and "0 \<le> cr_E (as_ces a)"
proof -
  let ?i = "aggregateCesInputs 24 cand"
  have c: "computeCes ?i (ces_config_of cfg) = Inr (score ?i (ces_config_of cfg))"
    using assms by (simp add: computeCes_aggregate)
  obtain a where a: "assess cfg blocked cand = Inr a" by (simp add: assess_def c Let_def case_prod_beta)
  have "in_unit (as_confidence a)"
    unfolding in_unit_def assess_Inr(3) [OF a] using confidence_bounds by (simp add: less_imp_le)
  moreover have "as_ces a = score ?i (ces_config_of cfg)" using assess_Inr(1) [OF a] c by simp
  then have "0 \<le> cr_E (as_ces a)" using score_nonneg [OF aggregate_valid assms, of 24 cand] by simp
  ultimately show ?thesis using a that by blast
qed

lemma tick_candidate_healthy:
  assumes h: "healthy env cfg" and f: "fresh_from env k (ts_db st)" and an: "anchored cfg run_id (ts_db st)"
  shows "\<exists>a. tick_candidate env cfg blocked run_id k cand st = (written env cfg run_id [(k, cand, a)] st, None)"
proof -
  from h have "validateConfig (ces_config_of cfg) = Inr ()" by (simp add: healthy_def)
  then obtain a where a: "assess cfg blocked cand = Inr a" "in_unit (as_confidence a)" "0 \<le> cr_E (as_ces a)"
    by (rule assess_total)
  let ?rec = "recommendation_of env cfg k cand a" and ?em = "emission_of env run_id k cand a"
  let ?db2 = "(ts_db st)\<lparr>dd_recs := dd_recs (ts_db st) @ [?rec]\<rparr>"
  have ids: "rr_id ?rec = ''sdrec_'' @ te_rec_nano env k" "em_recommendation_id ?em = ''sdrec_'' @ te_rec_nano env k"
    "em_emission_id ?em = ''ie_'' @ te_em_nano env k" "em_run_id ?em = run_id" "rr_version_id ?rec = dt_version_id cfg"
    "rr_confidence ?rec = as_confidence a" "em_confidence ?em = as_confidence a"
    "rr_evidence_score ?rec = cr_E (as_ces a)" "em_evidence_score ?em = cr_E (as_ces a)"
    unfolding recommendation_of_def emission_of_def by simp_all
  have r: "dalInsertLemV4Recommendation env ?rec (ts_db st) = Inr ?db2"
    using h f an a(2,3) unfolding dalInsertLemV4Recommendation_def ids
    by (auto simp: healthy_def fresh_from_def anchored_def list_ex_iff not_less)
  have e: "insertInferenceEmissionRow ?em ?db2 = Inr (?db2\<lparr>dd_emissions := dd_emissions ?db2 @ [?em]\<rparr>)"
    using f an a(2,3) unfolding insertInferenceEmissionRow_def ids
    by (auto simp: fresh_from_def anchored_def list_ex_iff not_less ids)
  from h have ok: "te_fails env c = None" for c by (simp add: healthy_def)
  have "tick_candidate env cfg blocked run_id k cand st = (written env cfg run_id [(k, cand, a)] st, None)"
    unfolding tick_candidate_def a(1) sum.case Let_def calling_def ok option.case
    by (auto simp: written_def r e)
  then show ?thesis by blast
qed

lemma written_anchored: "anchored cfg run_id (ts_db (written env cfg' run_id' ps st)) = anchored cfg run_id (ts_db st)"
  by (simp add: anchored_def written_def)

lemma written_fresh:
  assumes "inj (te_rec_nano env)" and "inj (te_em_nano env)" and "fresh_from env k (ts_db st)"
  shows "fresh_from env (Suc k) (ts_db (written env cfg run_id [(k, cand, a)] st))"
  using assms by (auto simp: fresh_from_def written_def recommendation_of_def emission_of_def inj_eq)

lemma tick_loop_healthy:
  assumes "healthy env cfg" and "fresh_from env k (ts_db st)" and "anchored cfg run_id (ts_db st)"
  shows "\<exists>st'. tick_loop env cfg blocked run_id k cands st = (st', None) \<and> anchored cfg run_id (ts_db st')"
  using assms
proof (induction cands arbitrary: k st)
  case Nil
  then show ?case by simp
next
  case (Cons cand cands)
  from tick_candidate_healthy [OF Cons.prems] obtain a where
    one: "tick_candidate env cfg blocked run_id k cand st = (written env cfg run_id [(k, cand, a)] st, None)" by blast
  have "fresh_from env (Suc k) (ts_db (written env cfg run_id [(k, cand, a)] st))"
    by (rule written_fresh) (use Cons.prems in \<open>auto simp: healthy_def\<close>)
  with Cons.IH [OF Cons.prems(1) this] Cons.prems(3) show ?case by (simp add: one written_anchored)
qed

lemma eval_rows_ok:
  assumes "assess cfg blocked cand = Inr a" and "r \<in> set (eval_rows cfg run_id cand a)"
  shows "0 \<le> se_normalized_value r \<and> se_normalized_value r \<le> 1" and "se_run_id r = run_id"
    and "se_signal_name r \<in> fst ` set SIGNAL_REGISTRY" and "se_weight_used r = weight_of (dt_weights cfg) (se_signal_name r)"
proof -
  from assms(2) obtain s where s: "s \<in> set (as_signals a)" and r: "se_normalized_value r = so_normalized_value s"
    "se_run_id r = run_id" "se_signal_name r = so_signal_name s" "se_weight_used r = weight_of (dt_weights cfg) (so_signal_name s)"
    unfolding eval_rows_def set_map by (elim imageE) simp
  from s have s': "s \<in> set (evaluate_signals (candidate_input_of cand))" by (simp add: assess_Inr(2) [OF assms(1)])
  from r show "se_run_id r = run_id" "se_weight_used r = weight_of (dt_weights cfg) (se_signal_name r)" by simp_all
  from evaluate_signals_unit [OF s'] r(1) show "0 \<le> se_normalized_value r \<and> se_normalized_value r \<le> 1" by simp
  from s' have "so_signal_name s \<in> set (map so_signal_name (evaluate_signals (candidate_input_of cand)))" by simp
  then show "se_signal_name r \<in> fst ` set SIGNAL_REGISTRY" unfolding evaluate_signals_names r(3) by simp
qed

text \<open>The rows a loop without exception collects pass the checks of the bulk insert.\<close>

definition weights_in_unit :: "detector_config \<Rightarrow> bool" where
  "weights_in_unit cfg = list_all (\<lambda>n. in_unit (weight_of (dt_weights cfg) n)) (map fst SIGNAL_REGISTRY)"

lemma bulkInsert_ok:
  assumes as: "map (assess cfg blocked) cands = map Inr as" and w: "weights_in_unit cfg"
    and run: "list_ex (\<lambda>r. ir_run_id r = run_id) (dd_runs db)"
    and rows: "rows = concat (map (\<lambda>(k, c, a). eval_rows cfg run_id c a) (zip ks (zip cands as)))"
  shows "\<exists>db'. bulkInsertInferenceSignalEvalsRow rows db = Inr db'"
proof -
  have ok: "(0 \<le> se_normalized_value r \<and> se_normalized_value r \<le> 1) \<and> se_run_id r = run_id \<and> in_unit (se_weight_used r)"
    if "r \<in> set rows" for r
  proof -
    from that obtain k c a where z: "(k, c, a) \<in> set (zip ks (zip cands as))" and r: "r \<in> set (eval_rows cfg run_id c a)"
      unfolding rows by auto
    from z have "(c, a) \<in> set (zip cands as)" by (meson set_zip_rightD)
    then obtain i where i: "i < length cands" "i < length as" "c = cands ! i" "a = as ! i" by (auto simp: set_zip)
    from as have "map (assess cfg blocked) cands ! i = map Inr as ! i" by (rule arg_cong)
    with i have "assess cfg blocked c = Inr a" by simp
    note e = eval_rows_ok [OF this r]
    from e(3,4) w have "in_unit (se_weight_used r)" unfolding weights_in_unit_def list_all_iff by auto
    with e(1,2) show ?thesis by blast
  qed
  have "find (\<lambda>r. se_normalized_value r < 0 \<or> se_normalized_value r > 1) rows = None"
    using ok by (fastforce simp: find_None_iff)
  moreover have "list_all (\<lambda>r. list_ex (\<lambda>run. ir_run_id run = se_run_id r) (dd_runs db)) rows"
    "list_all (\<lambda>r. in_unit (se_weight_used r)) rows" using ok run by (auto simp: list_all_iff)
  ultimately show ?thesis by (simp add: bulkInsertInferenceSignalEvalsRow_def)
qed

lemma tick_body_healthy:
  assumes h: "healthy env cfg" and f: "fresh_from env 0 db" and an: "anchored cfg (''irn_'' @ te_run_nano env) db"
    and w: "weights_in_unit cfg"
  shows "\<exists>db' res. tick_body env cfg cands db = (db', Inr res) \<and> tr_status res = Completed"
proof -
  let ?run = "''irn_'' @ te_run_nano env" and ?b = "loadPermanentSuppressFingerprints env db"
  let ?st = "\<lparr>ts_db = db, ts_evaluations = [], ts_rows = []\<rparr>"
  obtain st where loop: "tick_loop env cfg ?b ?run 0 cands ?st = (st, None)" and an': "anchored cfg ?run (ts_db st)"
    using tick_loop_healthy [OF h, of 0 ?st ?run ?b cands] f an by auto
  from tick_loop_None [OF loop] obtain as where as: "map (assess cfg ?b) cands = map Inr as"
    and rows: "ts_rows st = concat (map (\<lambda>(k, c, a). eval_rows cfg ?run c a) (zip [0..<length cands] (zip cands as)))"
    by (auto simp: written_def)
  from an' have run: "list_ex (\<lambda>r. ir_run_id r = ?run) (dd_runs (ts_db st))" by (simp add: anchored_def)
  from bulkInsert_ok [OF as w run rows] obtain db2 where
    db2: "bulkInsertInferenceSignalEvalsRow (ts_rows st) (ts_db st) = Inr db2" by blast
  from bulkInsert_Inr(1) [OF db2] run have "list_ex (\<lambda>r. ir_run_id r = ?run) (dd_runs db2)" by simp
  then obtain db3 where db3: "completeInferenceRunRow (te_now env) (completion_of env (length cands) (ts_evaluations st) None) db2 = Inr db3"
    by (simp add: completeInferenceRunRow_def completion_of_def)
  have db2': "(if ts_rows st = [] then Inr (ts_db st) else bulkInsertInferenceSignalEvalsRow (ts_rows st) (ts_db st)) = Inr db2"
    using db2 by (cases "ts_rows st = []") (simp_all add: bulkInsert_Nil)
  from h have ok: "te_fails env c = None" for c by (simp add: healthy_def)
  have "tick_body env cfg cands db = (db3, Inr (tick_result_of env cfg (length cands) (ts_evaluations st) None))"
    unfolding tick_body_def Let_def loop prod.case option.case calling_def ok db2' sum.case db3 ..
  then show ?thesis by (simp add: tick_result_of_def)
qed

section \<open>Properties\<close>

text \<open>
  C37. A completed tick has done exactly its work. Every candidate was assessed, in order; a candidate
  passes exactly when its pattern is not permanently suppressed, its evidence opens the gate and its
  confidence reaches the minimum; the recommendations and emissions written are those of the passing
  candidates, one of each, in candidate order; one evaluation row per candidate and signal is written;
  the run is closed with the matching counts; and nothing else in these tables changes.
\<close>

theorem completed_tick:
  assumes "runDetectorTick env override cands ws we kind db = (db', Inr res)" and "tr_status res = Completed"
  shows "\<exists>cfg as. resolve_config env override db = Inr cfg \<and>
    map (assess cfg (loadPermanentSuppressFingerprints env db)) cands = map Inr as \<and>
    (let steps = zip [0..<length cands] (zip cands as) in
       tick_effect env cfg steps db db' \<and> tr_evaluations res = map (\<lambda>(k, c, a). evaluation_of env k c a) steps) \<and>
    list_all (\<lambda>a. as_rejection a = None \<longleftrightarrow>
       as_pattern_fingerprint a \<notin> set (loadPermanentSuppressFingerprints env db) \<and>
       cr_shouldEmit (as_ces a) \<and> confidence_min cfg \<le> as_confidence a) as"
proof -
  let ?b = "loadPermanentSuppressFingerprints env db"
  from runDetectorTick_completed [OF assms] obtain cfg as where *: "resolve_config env override db = Inr cfg"
    "map (assess cfg ?b) cands = map Inr as"
    "tick_effect env cfg (zip [0..<length cands] (zip cands as)) db db'"
    "tr_evaluations res = map (\<lambda>(k, c, a). evaluation_of env k c a) (zip [0..<length cands] (zip cands as))"
    by (auto simp: Let_def)
  have "as_rejection a = None \<longleftrightarrow> as_pattern_fingerprint a \<notin> set ?b \<and> cr_shouldEmit (as_ces a) \<and> confidence_min cfg \<le> as_confidence a"
    if "a \<in> set as" for a
  proof -
    from that have "Inr a \<in> set (map (assess cfg ?b) cands)" unfolding *(2) by simp
    then obtain c where "assess cfg ?b c = Inr a" by auto
    from assess_Inr(4) [OF this] show ?thesis by auto
  qed
  with * show ?thesis by (intro exI [of _ cfg] exI [of _ as]) (simp add: list_all_iff Let_def)
qed

text \<open>
  The confidence gate at or below one half never rejects: a completed tick whose configuration has
  its minimum confidence at most one half (the value of the seeded configuration and the default) has
  no candidate rejected for low confidence. Every weight was accepted by the check on the evaluation
  rows, so the weighted sum is non-negative and its logistic image at least one half.
\<close>

theorem confidence_gate_never_rejects:
  assumes "runDetectorTick env override cands ws we kind db = (db', Inr res)" and "tr_status res = Completed"
    and "resolve_config env override db = Inr cfg" and "confidence_min cfg \<le> 1 / 2"
  shows "list_all (\<lambda>v. as_rejection (va_assessment v) \<noteq> Some Confidence_below_min) (tr_evaluations res)"
proof -
  let ?b = "loadPermanentSuppressFingerprints env db"
  from runDetectorTick_completed [OF assms(1,2)] assms(3) obtain as where as: "map (assess cfg ?b) cands = map Inr as"
    and ev: "tr_evaluations res = map (\<lambda>(k, c, a). evaluation_of env k c a) (zip [0..<length cands] (zip cands as))"
    and wt: "list_all (\<lambda>r. in_unit (se_weight_used r))
      (concat (map (\<lambda>(k, c, a). eval_rows cfg (''irn_'' @ te_run_nano env) c a) (zip [0..<length cands] (zip cands as))))"
    by (auto simp: Let_def)
  have "as_rejection a \<noteq> Some Confidence_below_min" if z: "(k, c, a) \<in> set (zip [0..<length cands] (zip cands as))" for k c a
  proof -
    from z have "(c, a) \<in> set (zip cands as)" by (meson set_zip_rightD)
    then obtain i where "i < length cands" "i < length as" "c = cands ! i" "a = as ! i" by (auto simp: set_zip)
    with arg_cong [OF as, of "\<lambda>l. l ! i"] have a: "assess cfg ?b c = Inr a" by simp
    have "weights_nonneg (dt_weights cfg)"
      unfolding weights_nonneg_def evaluate_signals_names [symmetric, of "candidate_input_of c"] list_all_iff
    proof
      fix n assume "n \<in> set (map so_signal_name (evaluate_signals (candidate_input_of c)))"
      then obtain s where "s \<in> set (as_signals a)" "n = so_signal_name s" by (auto simp: assess_Inr(2) [OF a])
      then have "\<exists>r \<in> set (eval_rows cfg (''irn_'' @ te_run_nano env) c a). se_weight_used r = weight_of (dt_weights cfg) n"
        unfolding eval_rows_def set_map by (intro bexI [OF _ imageI]) simp_all
      with wt z show "0 \<le> weight_of (dt_weights cfg) n" by (fastforce simp: list_all_iff in_unit_def)
    qed
    with assess_never_below_half [OF a] assms(4) show ?thesis by blast
  qed
  then show ?thesis unfolding ev list_all_iff by (auto simp: evaluation_of_def Let_def)
qed

text \<open>
  A healthy tick completes: when the database answers, the identifiers drawn are new, the
  configuration exists with an acceptable evidence part and weights in the unit interval, a tick over
  any list of candidates, whatever their events and metadata, ends with status completed.
\<close>

theorem healthy_tick_completes:
  assumes "resolve_config env override db = Inr cfg" and "healthy env cfg" and "weights_in_unit cfg"
    and "fresh_from env 0 db" and "\<not> list_ex (\<lambda>r. ir_run_id r = ''irn_'' @ te_run_nano env) (dd_runs db)"
    and "list_ex (\<lambda>c. dt_version_id c = dt_version_id cfg) (dd_configs db)"
  shows "\<exists>db' res. runDetectorTick env override cands ws we kind db = (db', Inr res) \<and> tr_status res = Completed"
proof -
  obtain db1 where db1: "insertInferenceRunRow (te_now env) (''irn_'' @ te_run_nano env) (dt_version_id cfg) ws we
      (the_default ''manual_trigger'' kind) db = Inr db1"
    and an: "anchored cfg (''irn_'' @ te_run_nano env) db1" and f: "fresh_from env 0 db1"
    using assms(4-6) by (simp add: insertInferenceRunRow_def anchored_def fresh_from_def)
  from assms(2) have ok: "te_fails env c = None" for c by (simp add: healthy_def)
  have "runDetectorTick env override cands ws we kind db = tick_body env cfg cands db1"
    unfolding runDetectorTick_def assms(1) calling_def ok option.case db1 attempt_simps ..
  with tick_body_healthy [OF assms(2) f an assms(3), of cands] show ?thesis by simp
qed

section \<open>An example tick\<close>

text \<open>The configuration migration 010 seeds.\<close>

definition genesis_config :: detector_config where
  "genesis_config =
     \<lparr>dt_version_id = ''dcv_r50_genesis_v1'',
      dt_weights = [(''actor_co_occurrence'', JNum 0.12), (''temporal_co_occurrence'', JNum 0.10),
        (''artifact_cross_reference'', JNum 0.08), (''sequence_pattern'', JNum 0.07), (''dwell_concentration'', JNum 0.07),
        (''keyword_co_occurrence'', JNum 0.09), (''intent_keyword_density'', JNum 0.06), (''tag_overlap'', JNum 0.05),
        (''embedding_similarity'', JNum 0.00), (''parent_distance'', JNum 0.07), (''membership_overlap'', JNum 0.06),
        (''actor_jaccard'', JNum 0.06), (''stated_goal_keyword_overlap'', JNum 0.09), (''rollup_alignment'', JNum 0.08)],
      dt_thresholds = [(''E_min'', JNum 2.5), (''DAD_min'', JNum 3), (''DDC_min'', JNum 2),
        (''composite_confidence_min'', JNum 0.50)],
      dt_signal_names = map fst SIGNAL_REGISTRY, dt_activated_at = 0, dt_deactivated_at = None\<rparr>"

definition demo_detector_db :: detector_db where
  "demo_detector_db = \<lparr>dd_configs = [genesis_config], dd_runs = [], dd_evals = [], dd_recs = [], dd_emissions = [], dd_rejections = []\<rparr>"

definition demo_tick_env :: tick_env where
  "demo_tick_env =
     \<lparr>te_run_nano = ''r1'', te_rec_nano = (\<lambda>k. replicate k CHR ''a''), te_em_nano = (\<lambda>k. replicate k CHR ''b''),
      te_started_at = 0, te_ended_at = 5, te_now = 0, te_has_sql = True, te_fails = (\<lambda>_. None)\<rparr>"

lemma demo_resolve: "resolve_config demo_tick_env None demo_detector_db = Inr genesis_config"
  by (simp add: resolve_config_def calling_def demo_tick_env_def getActiveDetectorConfigRow_def demo_detector_db_def genesis_config_def)

lemma demo_healthy: "healthy demo_tick_env genesis_config"
proof -
  have "inj (\<lambda>k. replicate k (c :: char))" for c by (rule injI) (metis length_replicate)
  then show ?thesis
    by (simp add: healthy_def demo_tick_env_def validateConfig_Inr ces_config_of_def cesConfigFromDetectorConfig_def
        genesis_config_def number_or_def R50_GENESIS_CES_CONFIG_def)
qed

lemma demo_weights: "weights_in_unit genesis_config"
  by (simp add: weights_in_unit_def SIGNAL_REGISTRY_def in_unit_def weight_of_def number_or_def genesis_config_def)

lemma demo_fresh: "fresh_from demo_tick_env 0 demo_detector_db"
  "\<not> list_ex (\<lambda>r. ir_run_id r = ''irn_'' @ te_run_nano demo_tick_env) (dd_runs demo_detector_db)"
  "list_ex (\<lambda>c. dt_version_id c = dt_version_id genesis_config) (dd_configs demo_detector_db)"
  by (simp_all add: fresh_from_def demo_detector_db_def)

theorem healthy_tick_completes_witness:
  "\<exists>db' res. runDetectorTick demo_tick_env None [demo_cross, demo_cross] ''s'' ''e'' None demo_detector_db = (db', Inr res) \<and>
     tr_status res = Completed"
  by (rule healthy_tick_completes [OF demo_resolve demo_healthy demo_weights demo_fresh])

lemma demo_tick:
  obtains db' res where "runDetectorTick demo_tick_env None [demo_cross, demo_cross] ''s'' ''e'' None demo_detector_db = (db', Inr res)"
    and "tr_status res = Completed"
proof -
  obtain db1 where db1: "insertInferenceRunRow (te_now demo_tick_env) (''irn_'' @ te_run_nano demo_tick_env)
      (dt_version_id genesis_config) ''s'' ''e'' (the_default ''manual_trigger'' None) demo_detector_db = Inr db1"
    and an: "anchored genesis_config (''irn_'' @ te_run_nano demo_tick_env) db1" and f: "fresh_from demo_tick_env 0 db1"
    by (simp add: insertInferenceRunRow_def anchored_def fresh_from_def demo_detector_db_def)
  have "runDetectorTick demo_tick_env None [demo_cross, demo_cross] ''s'' ''e'' None demo_detector_db =
      tick_body demo_tick_env genesis_config [demo_cross, demo_cross] db1"
    unfolding runDetectorTick_def demo_resolve calling_def attempt_simps db1 [unfolded coalesce_simps]
    using db1 by (simp add: demo_tick_env_def)
  with tick_body_healthy [OF demo_healthy f an demo_weights, of "[demo_cross, demo_cross]"] that show ?thesis by auto
qed

lemma demo_confidence_min: "confidence_min genesis_config \<le> 1 / 2"
  by (simp add: confidence_min_def number_or_def genesis_config_def)

theorem completed_tick_witness:
  "\<exists>db' res. runDetectorTick demo_tick_env None [demo_cross, demo_cross] ''s'' ''e'' None demo_detector_db = (db', Inr res) \<and>
     length (tr_evaluations res) = 2"
proof -
  obtain db' res where r: "runDetectorTick demo_tick_env None [demo_cross, demo_cross] ''s'' ''e'' None demo_detector_db = (db', Inr res)"
    "tr_status res = Completed" by (rule demo_tick)
  from completed_tick [OF r] have "length (tr_evaluations res) = 2" by (clarsimp simp: Let_def)
  with r(1) show ?thesis by blast
qed

theorem confidence_gate_never_rejects_witness:
  "\<exists>db' res. runDetectorTick demo_tick_env None [demo_cross, demo_cross] ''s'' ''e'' None demo_detector_db = (db', Inr res) \<and>
     list_all (\<lambda>v. as_rejection (va_assessment v) \<noteq> Some Confidence_below_min) (tr_evaluations res)"
proof -
  obtain db' res where r: "runDetectorTick demo_tick_env None [demo_cross, demo_cross] ''s'' ''e'' None demo_detector_db = (db', Inr res)"
    "tr_status res = Completed" by (rule demo_tick)
  from confidence_gate_never_rejects [OF r demo_resolve demo_confidence_min] r(1) show ?thesis by blast
qed

end
