(* ===== verification/Suppression.thy ===== *)
theory Suppression
  imports Detector_Props
begin

text \<open>
  The memory of rejected recommendations: the rejection and calibration stores
  (\<^verbatim>\<open>dal/inference-store.ts\<close>), and the hourly job that
  turns repeated rejections of a pattern into a permanent suppression
  (\<^verbatim>\<open>crons/permanent-suppress.ts\<close>), up to what it means for later detector ticks.

  \<open>num\<close> is the conversion of a string to a number (\<open>None\<close> is \<^verbatim>\<open>NaN\<close>), \<open>to_iso\<close> the ISO rendering of a time.
\<close>

section \<open>Stores\<close>

record rejection_input =
  rx_recommendation_id :: string
  rx_rejected_by :: string
  rx_reason_text :: "string option"
  rx_reason_taxonomy :: "string option"
  rx_permanent_suppress_fingerprint :: "string option"
  rx_pattern_fingerprint_at_reject :: string

definition REASON_TAXONOMY :: "string list" where
  "REASON_TAXONOMY = [''not_relevant'', ''too_broad'', ''too_narrow'', ''already_exists'', ''privacy_concern'', ''wrong_grouping'',
     ''timing'', ''other'']"

definition countRecommendationRejectionsForFingerprintRow :: "string \<Rightarrow> detector_db \<Rightarrow> nat" where
  "countRecommendationRejectionsForFingerprintRow fp db =
     length (filter (\<lambda>r. rj_pattern_fingerprint_at_reject r = fp) (dd_rejections db))"

definition insertRecommendationRejectionRow :: "int \<Rightarrow> rejection_input \<Rightarrow> detector_db \<Rightarrow> tick_error + detector_db \<times> rejection_row" where
  "insertRecommendationRejectionRow now input db =
     (let priorCount = countRecommendationRejectionsForFingerprintRow (rx_pattern_fingerprint_at_reject input) db;
          row = \<lparr>rj_recommendation_id = rx_recommendation_id input, rj_rejected_at = now, rj_rejected_by = rx_rejected_by input,
                 rj_reason_text = rx_reason_text input, rj_reason_taxonomy = rx_reason_taxonomy input,
                 rj_permanent_suppress_fingerprint = rx_permanent_suppress_fingerprint input,
                 rj_pattern_fingerprint_at_reject = rx_pattern_fingerprint_at_reject input,
                 rj_reject_count_for_fingerprint = priorCount + 1\<rparr>
      in if \<not> list_ex (\<lambda>r. rr_id r = rx_recommendation_id input) (dd_recs db)
         then Inl (Constraint_violated ''recommendation_rejections_recommendation_id_fkey'')
         else if \<not> (case rx_reason_taxonomy input of None \<Rightarrow> True | Some t \<Rightarrow> t \<in> set REASON_TAXONOMY)
         then Inl (Constraint_violated ''recommendation_rejections_reason_taxonomy_check'')
         else Inr (db\<lparr>dd_rejections := dd_rejections db @ [row]\<rparr>, row))"

record calibration_bucket =
  cb_pattern_kind :: string
  cb_bucket_lower :: real
  cb_bucket_upper :: real
  cb_predicted_acceptance_rate :: real
  cb_actual_acceptance_rate :: real
  cb_predicted_count :: nat
  cb_accepted_count :: nat
  cb_rejected_count :: nat
  cb_deferred_count :: nat
  cb_calibration_error :: real
  cb_window_started_at :: string
  cb_window_size_emissions :: nat

definition same_bucket :: "calibration_bucket \<Rightarrow> calibration_bucket \<Rightarrow> bool" where
  "same_bucket a b \<longleftrightarrow> cb_pattern_kind a = cb_pattern_kind b \<and> cb_bucket_lower a = cb_bucket_lower b \<and>
     cb_window_started_at a = cb_window_started_at b"

definition upsertCalibrationBucketRow :: "calibration_bucket \<Rightarrow> calibration_bucket list \<Rightarrow> calibration_bucket list" where
  "upsertCalibrationBucketRow b bs =
     (if list_ex (same_bucket b) bs then map (\<lambda>x. if same_bucket b x then b else x) bs else bs @ [b])"

section \<open>The suppression job\<close>

definition js_Number :: "(string \<Rightarrow> real option) \<Rightarrow> json \<Rightarrow> real option" where
  "js_Number num v =
     (case v of JNum x \<Rightarrow> Some x | JBool b \<Rightarrow> Some (if b then 1 else 0) | JNull \<Rightarrow> Some 0 | JStr s \<Rightarrow> num s | _ \<Rightarrow> None)"

text \<open>\<^verbatim>\<open>Number(config.thresholds.permanent_suppress_threshold ?? 3)\<close>\<close>

definition suppress_threshold :: "(string \<Rightarrow> real option) \<Rightarrow> detector_config \<Rightarrow> real option" where
  "suppress_threshold num cfg =
     (case map_of (dt_thresholds cfg) ''permanent_suppress_threshold'' of
        None \<Rightarrow> Some 3 | Some JNull \<Rightarrow> Some 3 | Some v \<Rightarrow> js_Number num v)"

text \<open>The candidates of the statement; no count reaches \<^verbatim>\<open>NaN\<close>, the largest number of the database.\<close>

definition suppress_candidates :: "real option \<Rightarrow> rejection_row list \<Rightarrow> string list" where
  "suppress_candidates threshold rows =
     (let fresh = map rj_pattern_fingerprint_at_reject (filter (\<lambda>r. rj_permanent_suppress_fingerprint r = None) rows)
      in case threshold of
           None \<Rightarrow> []
         | Some t \<Rightarrow> filter (\<lambda>fp. t \<le> real (count_list fresh fp)) (js_set fresh))"

definition suppress_statement :: "real option \<Rightarrow> rejection_row list \<Rightarrow> rejection_row list \<times> rejection_row list" where
  "suppress_statement threshold rows =
     (let hit = (\<lambda>r. rj_pattern_fingerprint_at_reject r \<in> set (suppress_candidates threshold rows) \<and>
                     rj_permanent_suppress_fingerprint r = None);
          f = (\<lambda>r. r\<lparr>rj_permanent_suppress_fingerprint := Some (rj_pattern_fingerprint_at_reject r)\<rparr>)
      in (map (\<lambda>r. if hit r then f r else r) rows, map f (filter hit rows)))"

record suppress_report =
  sp_run_id :: string
  sp_actions_taken :: nat
  sp_status :: run_status
  sp_error :: "tick_error option"

definition suppress_failed :: "tick_env \<Rightarrow> tick_error \<Rightarrow> suppress_report" where
  "suppress_failed env e = \<lparr>sp_run_id = ''irn_'' @ te_run_nano env, sp_actions_taken = 0, sp_status = Failed, sp_error = Some e\<rparr>"

definition permanentSuppressCron ::
  "(string \<Rightarrow> real option) \<Rightarrow> (int \<Rightarrow> string) \<Rightarrow> tick_env \<Rightarrow> detector_db \<Rightarrow> detector_db \<times> suppress_report" where
  "permanentSuppressCron num to_iso env db =
     (let run_id = ''irn_'' @ te_run_nano env in
      case calling env Read_config (Inr (getActiveDetectorConfigRow db)) of
        Inl e \<Rightarrow> (db, suppress_failed env e)
      | Inr None \<Rightarrow> (db, suppress_failed env No_active_config)
      | Inr (Some cfg) \<Rightarrow>
          (let threshold = suppress_threshold num cfg in
           case calling env Begin_run (insertInferenceRunRow (te_now env) run_id (dt_version_id cfg)
                  (to_iso (te_started_at env - 24 * 60 * 60 * 1000)) (to_iso (te_started_at env)) ''self_maintenance'' db) of
             Inl e \<Rightarrow> (db, suppress_failed env e)
           | Inr db1 \<Rightarrow>
               if \<not> te_has_sql env then (db1, suppress_failed env No_sql_client)
               else (case calling env Write_suppressed (Inr (suppress_statement threshold (dd_rejections db1))) of
                       Inl e \<Rightarrow> (db1, suppress_failed env e)
                     | Inr (rows, updated) \<Rightarrow>
                         let db2 = db1\<lparr>dd_rejections := rows\<rparr>;
                             done' = \<lparr>rc_run_id = run_id,
                                      rc_candidate_count = length (js_set (map rj_pattern_fingerprint_at_reject updated)),
                                      rc_emission_count = length updated, rc_cost_ms = te_ended_at env - te_started_at env,
                                      rc_status = Completed, rc_error = None, rc_signal_names = []\<rparr>
                         in case calling env Complete_run (completeInferenceRunRow (te_now env) done' db2) of
                              Inl e \<Rightarrow> (db2, suppress_failed env e)
                            | Inr db3 \<Rightarrow> (db3, \<lparr>sp_run_id = run_id, sp_actions_taken = length updated, sp_status = Completed, sp_error = None\<rparr>))))"

section \<open>Suppressed patterns\<close>

definition suppressed :: "detector_db \<Rightarrow> string set" where
  "suppressed db = set (List.map_filter rj_permanent_suppress_fingerprint (dd_rejections db))"

definition pattern_view :: "string \<Rightarrow> detector_db \<Rightarrow> recommendation_row list \<times> emission_row list" where
  "pattern_view fp db =
     (filter (\<lambda>r. rr_pattern_fingerprint r = fp) (dd_recs db), filter (\<lambda>e. em_pattern_fingerprint e = fp) (dd_emissions db))"

text \<open>Ticks leave the rejection memory alone and never write a pattern they were told to suppress.\<close>

lemma tick_candidate_suppressed:
  assumes "tick_candidate env cfg blocked run_id k cand st = (st', err)" and "fp \<in> set blocked"
  shows "pattern_view fp (ts_db st') = pattern_view fp (ts_db st) \<and> dd_rejections (ts_db st') = dd_rejections (ts_db st)"
proof (cases "assess cfg blocked cand")
  case (Inl e)
  with assms(1) show ?thesis by (simp add: tick_candidate_def)
next
  case (Inr a)
  have ne: "as_pattern_fingerprint a \<noteq> fp" if "as_rejection a = None"
    using assess_Inr(4) [OF Inr] that assms(2) by (auto split: if_splits)
  show ?thesis
    using assms(1) Inr ne
    by (auto simp: tick_candidate_def Let_def calling_Inr pattern_view_def recommendation_of_def emission_of_def
        dest!: dalInsert_Inr insertEmission_Inr split: if_splits sum.splits)
qed

lemma tick_loop_suppressed:
  "tick_loop env cfg blocked run_id k cands st = (st', err) \<Longrightarrow> fp \<in> set blocked \<Longrightarrow>
   pattern_view fp (ts_db st') = pattern_view fp (ts_db st) \<and> dd_rejections (ts_db st') = dd_rejections (ts_db st)"
proof (induction cands arbitrary: k st)
  case (Cons c cs)
  obtain st1 e1 where one: "tick_candidate env cfg blocked run_id k c st = (st1, e1)" by (meson surj_pair)
  from tick_candidate_suppressed [OF one Cons.prems(2)] Cons.prems(1) one Cons.IH [of "Suc k" st1] Cons.prems(2) show ?case
    by (auto split: option.splits)
qed simp

lemma completion_frame:
  "completeInferenceRunRow now c db = Inr db' \<Longrightarrow> pattern_view fp db' = pattern_view fp db \<and> dd_rejections db' = dd_rejections db"
  by (auto simp: completeInferenceRunRow_def pattern_view_def split: if_splits)

lemma begin_frame:
  "insertInferenceRunRow now i v a b kind db = Inr db' \<Longrightarrow> pattern_view fp db' = pattern_view fp db \<and> dd_rejections db' = dd_rejections db"
  by (auto simp: insertInferenceRunRow_def pattern_view_def split: if_splits)

lemma evals_frame:
  "bulkInsertInferenceSignalEvalsRow rows db = Inr db' \<Longrightarrow> pattern_view fp db' = pattern_view fp db \<and> dd_rejections db' = dd_rejections db"
  by (auto simp: bulkInsertInferenceSignalEvalsRow_def pattern_view_def split: if_splits option.splits)

lemma fail_frame: "pattern_view fp (fst (fail_tick env cfg n st e)) = pattern_view fp (ts_db st) \<and>
    dd_rejections (fst (fail_tick env cfg n st e)) = dd_rejections (ts_db st)"
  by (auto simp: fail_tick_def calling_Inr dest: completion_frame split: sum.splits)

lemma tick_body_suppressed:
  assumes "fp \<in> set (loadPermanentSuppressFingerprints env db)"
  shows "pattern_view fp (fst (tick_body env cfg cands db)) = pattern_view fp db \<and> dd_rejections (fst (tick_body env cfg cands db)) = dd_rejections db"
proof -
  obtain st err where l: "tick_loop env cfg (loadPermanentSuppressFingerprints env db) (''irn_'' @ te_run_nano env) 0 cands
      \<lparr>ts_db = db, ts_evaluations = [], ts_rows = []\<rparr> = (st, err)" by (meson surj_pair)
  have st: "pattern_view fp (ts_db st) = pattern_view fp db \<and> dd_rejections (ts_db st) = dd_rejections db"
    using tick_loop_suppressed [OF l assms] by simp
  have rows: "pattern_view fp db2 = pattern_view fp db \<and> dd_rejections db2 = dd_rejections db"
    if "(if ts_rows st = [] then Inr (ts_db st) else calling env Write_evals (bulkInsertInferenceSignalEvalsRow (ts_rows st) (ts_db st))) = Inr db2" for db2
    using that st evals_frame by (auto simp: calling_Inr split: if_splits)
  show ?thesis
  proof (cases err)
    case (Some e)
    show ?thesis
      unfolding tick_body_def Let_def l prod.case Some option.case using st fail_frame [of fp env cfg "length cands" st e] by simp
  next
    case None
    define R where "R = (if ts_rows st = [] then Inr (ts_db st) else calling env Write_evals (bulkInsertInferenceSignalEvalsRow (ts_rows st) (ts_db st)))"
    define C where "C db2 = calling env Complete_run (completeInferenceRunRow (te_now env) (completion_of env (length cands) (ts_evaluations st) None) db2)" for db2
    have body: "fst (tick_body env cfg cands db) = (case R of Inl e \<Rightarrow> fst (fail_tick env cfg (length cands) st e)
        | Inr db2 \<Rightarrow> (case C db2 of Inl e \<Rightarrow> fst (fail_tick env cfg (length cands) (st\<lparr>ts_db := db2\<rparr>) e) | Inr db3 \<Rightarrow> db3))"
      unfolding tick_body_def Let_def l prod.case None option.case R_def [symmetric] C_def [symmetric] by (simp split: sum.splits)
    show ?thesis
    proof (cases R)
      case (Inl e)
      then show ?thesis using body st fail_frame [of fp env cfg "length cands" st e] by simp
    next
      case (Inr db2)
      with rows have db2: "pattern_view fp db2 = pattern_view fp db \<and> dd_rejections db2 = dd_rejections db" by (simp add: R_def)
      show ?thesis
      proof (cases "C db2")
        case (Inl e)
        then show ?thesis using body Inr db2 fail_frame [of fp env cfg "length cands" "st\<lparr>ts_db := db2\<rparr>" e] by simp
      next
        case (Inr db3)
        then have "pattern_view fp db3 = pattern_view fp db2 \<and> dd_rejections db3 = dd_rejections db2"
          unfolding C_def calling_Inr by (blast dest: completion_frame)
        with Inr \<open>R = Inr db2\<close> body db2 show ?thesis by simp
      qed
    qed
  qed
qed

definition reads_memory :: "tick_env \<Rightarrow> bool" where
  "reads_memory env \<longleftrightarrow> te_has_sql env \<and> te_fails env Read_suppressed = None"

lemma load_suppressed: "reads_memory env \<Longrightarrow> set (loadPermanentSuppressFingerprints env db) = suppressed db"
  by (simp add: loadPermanentSuppressFingerprints_def reads_memory_def suppressed_def)

lemma tick_suppressed:
  assumes "reads_memory env" and "fp \<in> suppressed db"
  shows "pattern_view fp (fst (runDetectorTick env override cands ws we kind db)) = pattern_view fp db \<and>
    dd_rejections (fst (runDetectorTick env override cands ws we kind db)) = dd_rejections db"
proof -
  have body: "pattern_view fp (fst (tick_body env cfg cands db1)) = pattern_view fp db \<and>
      dd_rejections (fst (tick_body env cfg cands db1)) = dd_rejections db"
    if "calling env Begin_run (insertInferenceRunRow now i v a b kind' db) = Inr db1" for cfg now i v a b kind' db1
  proof -
    from that have f: "pattern_view fp db1 = pattern_view fp db \<and> dd_rejections db1 = dd_rejections db"
      by (auto simp: calling_Inr dest: begin_frame)
    with assms have "fp \<in> set (loadPermanentSuppressFingerprints env db1)" by (simp add: load_suppressed suppressed_def)
    from tick_body_suppressed [OF this, of cfg cands] f show ?thesis by simp
  qed
  show ?thesis
    unfolding runDetectorTick_def
    by (cases "resolve_config env override db") (auto simp: attempt_def body split: sum.splits)
qed

section \<open>Histories of the recommendation memory\<close>

datatype memory_op =
    Reject int rejection_input
  | Suppress "string \<Rightarrow> real option" "int \<Rightarrow> string" tick_env
  | Tick tick_env "detector_config option" "detector_candidate list" string string "string option"

definition memory_exec :: "detector_db \<Rightarrow> memory_op \<Rightarrow> detector_db" where
  "memory_exec db op =
     (case op of
        Reject now input \<Rightarrow> (case insertRecommendationRejectionRow now input db of Inl _ \<Rightarrow> db | Inr (db', _) \<Rightarrow> db')
      | Suppress num to_iso env \<Rightarrow> fst (permanentSuppressCron num to_iso env db)
      | Tick env override cands ws we kind \<Rightarrow> fst (runDetectorTick env override cands ws we kind db))"

definition informed :: "memory_op \<Rightarrow> bool" where
  "informed op \<longleftrightarrow> (case op of Tick env _ _ _ _ _ \<Rightarrow> reads_memory env | _ \<Rightarrow> True)"

lemma statement_grows: "set (List.map_filter rj_permanent_suppress_fingerprint rows) \<subseteq>
    set (List.map_filter rj_permanent_suppress_fingerprint (fst (suppress_statement t rows)))"
  by (force simp: suppress_statement_def Let_def List.map_filter_def)

lemma cron_frame:
  "pattern_view fp (fst (permanentSuppressCron num to_iso env db)) = pattern_view fp db \<and>
   suppressed db \<subseteq> suppressed (fst (permanentSuppressCron num to_iso env db))"
proof -
  have upd: "pattern_view fp (db1\<lparr>dd_rejections := fst (suppress_statement t (dd_rejections db1))\<rparr>) = pattern_view fp db1 \<and>
      suppressed db1 \<subseteq> suppressed (db1\<lparr>dd_rejections := fst (suppress_statement t (dd_rejections db1))\<rparr>)" for t db1
    using statement_grows by (simp add: pattern_view_def suppressed_def)
  have beg: "pattern_view fp db1 = pattern_view fp db \<and> suppressed db1 = suppressed db"
    if "insertInferenceRunRow now i v a b kind db = Inr db1" for now i v a b kind db1
    using begin_frame [OF that, of fp] by (simp add: suppressed_def)
  have fin: "pattern_view fp db3 = pattern_view fp db2 \<and> suppressed db3 = suppressed db2"
    if "completeInferenceRunRow now c db2 = Inr db3" for now c db2 db3
    using completion_frame [OF that, of fp] by (simp add: suppressed_def)
  show ?thesis
    unfolding permanentSuppressCron_def Let_def
    by (auto simp: calling_Inr split: sum.splits option.splits prod.splits dest!: beg fin)
      (metis fst_conv subsetD upd)+
qed

lemma memory_frame:
  assumes "informed op" and "fp \<in> suppressed db"
  shows "fp \<in> suppressed (memory_exec db op) \<and> pattern_view fp (memory_exec db op) = pattern_view fp db"
proof (cases op)
  case (Reject now input)
  with assms(2) show ?thesis
    by (auto simp: memory_exec_def insertRecommendationRejectionRow_def Let_def suppressed_def pattern_view_def List.map_filter_def
        split: sum.splits option.splits)
next
  case (Suppress num to_iso env)
  with assms(2) cron_frame [of fp num to_iso env db] show ?thesis by (auto simp: memory_exec_def)
next
  case (Tick env override cands ws we kind)
  with assms tick_suppressed [of env fp db override cands ws we kind] show ?thesis
    by (simp add: memory_exec_def informed_def suppressed_def)
qed

lemma memory_history:
  "list_all informed ops \<Longrightarrow> fp \<in> suppressed db \<Longrightarrow>
   fp \<in> suppressed (foldl memory_exec db ops) \<and> pattern_view fp (foldl memory_exec db ops) = pattern_view fp db"
  by (induction ops arbitrary: db) (simp_all add: memory_frame)

lemma statement_hits:
  assumes "0 < t" and "t \<le> real (count_list (map rj_pattern_fingerprint_at_reject (filter (\<lambda>r. rj_permanent_suppress_fingerprint r = None) rows)) fp)"
  shows "fp \<in> set (List.map_filter rj_permanent_suppress_fingerprint (fst (suppress_statement (Some t) rows)))"
proof -
  let ?fresh = "map rj_pattern_fingerprint_at_reject (filter (\<lambda>r. rj_permanent_suppress_fingerprint r = None) rows)"
  have "fp \<in> set ?fresh"
  proof (rule ccontr)
    assume "fp \<notin> set ?fresh"
    then have "count_list ?fresh fp = 0" by (rule count_notin)
    with assms show False by simp
  qed
  with assms(2) have cand: "fp \<in> set (suppress_candidates (Some t) rows)" by (simp add: suppress_candidates_def Let_def)
  from \<open>fp \<in> set ?fresh\<close> obtain r where r: "r \<in> set rows" "rj_permanent_suppress_fingerprint r = None" "rj_pattern_fingerprint_at_reject r = fp"
    by auto
  from r cand have "r\<lparr>rj_permanent_suppress_fingerprint := Some fp\<rparr> \<in> set (fst (suppress_statement (Some t) rows))"
    by (auto simp: suppress_statement_def Let_def intro!: image_eqI [of _ _ r])
  then show ?thesis by (force simp: List.map_filter_def)
qed

lemma cron_suppresses:
  assumes "getActiveDetectorConfigRow db = Some cfg" and "suppress_threshold num cfg = Some t" and "0 < t"
    and "t \<le> real (count_list (map rj_pattern_fingerprint_at_reject (filter (\<lambda>r. rj_permanent_suppress_fingerprint r = None) (dd_rejections db))) fp)"
    and "sp_status (snd (permanentSuppressCron num to_iso env db)) = Completed"
  shows "fp \<in> suppressed (fst (permanentSuppressCron num to_iso env db))"
proof -
  note frames = begin_frame [THEN conjunct2] completion_frame [THEN conjunct2]
  from assms(1,2,5) show ?thesis
    using statement_hits [OF assms(3,4)]
    by (auto simp: permanentSuppressCron_def Let_def calling_def suppress_failed_def suppressed_def frames
        split: sum.splits prod.splits if_splits option.splits)
qed

text \<open>
  C31. Once the rejections of a pattern that carry no permanent flag reach the configured threshold, a completed run of the
  suppression job suppresses the pattern for good: the run itself writes no recommendation of it, and after any further
  sequence of rejections, suppression runs (failed ones too) and detector ticks that can read the rejection memory, the
  pattern is still suppressed and its recommendations and emissions are exactly those it had before.
\<close>

theorem suppression_is_permanent:
  assumes "getActiveDetectorConfigRow db = Some cfg" and "suppress_threshold num cfg = Some t" and "0 < t"
    and "t \<le> real (count_list (map rj_pattern_fingerprint_at_reject
                 (filter (\<lambda>r. rj_permanent_suppress_fingerprint r = None) (dd_rejections db))) fp)"
    and "sp_status (snd (permanentSuppressCron num to_iso env db)) = Completed"
    and "list_all informed ops"
  shows "fp \<in> suppressed (foldl memory_exec (fst (permanentSuppressCron num to_iso env db)) ops) \<and>
    pattern_view fp (foldl memory_exec (fst (permanentSuppressCron num to_iso env db)) ops) = pattern_view fp db"
  using memory_history [OF assms(6) cron_suppresses [OF assms(1-5)]] cron_frame [of fp num to_iso env db] by simp

definition demo_rejection :: "nat \<Rightarrow> rejection_row" where
  "demo_rejection k = \<lparr>rj_recommendation_id = ''rec_1'', rj_rejected_at = int k, rj_rejected_by = ''usr_1'', rj_reason_text = None,
     rj_reason_taxonomy = Some ''timing'', rj_permanent_suppress_fingerprint = None, rj_pattern_fingerprint_at_reject = ''fp'',
     rj_reject_count_for_fingerprint = k\<rparr>"

definition demo_memory :: detector_db where
  "demo_memory = demo_detector_db\<lparr>dd_rejections := map demo_rejection [1, 2, 3]\<rparr>"

theorem suppression_is_permanent_witness:
  "''fp'' \<in> suppressed (foldl memory_exec (fst (permanentSuppressCron (\<lambda>_. None) (\<lambda>_. ''t'') demo_tick_env demo_memory))
     [Tick (demo_tick_env\<lparr>te_run_nano := ''r2''\<rparr>) None [demo_cross] ''s'' ''e'' None])"
proof -
  have cfg: "getActiveDetectorConfigRow demo_memory = Some genesis_config"
    by (simp add: demo_memory_def demo_detector_db_def getActiveDetectorConfigRow_def genesis_config_def)
  have t: "suppress_threshold (\<lambda>_. None) genesis_config = Some 3"
    by (simp add: suppress_threshold_def genesis_config_def)
  have n: "3 \<le> real (count_list (map rj_pattern_fingerprint_at_reject
      (filter (\<lambda>r. rj_permanent_suppress_fingerprint r = None) (dd_rejections demo_memory))) ''fp'')"
    by (simp add: demo_memory_def demo_rejection_def)
  have run: "sp_status (snd (permanentSuppressCron (\<lambda>_. None) (\<lambda>_. ''t'') demo_tick_env demo_memory)) = Completed"
    by (simp add: permanentSuppressCron_def Let_def cfg calling_def demo_tick_env_def insertInferenceRunRow_def
        completeInferenceRunRow_def suppress_statement_def split_beta) (simp add: demo_memory_def demo_detector_db_def genesis_config_def)
  have "list_all informed [Tick (demo_tick_env\<lparr>te_run_nano := ''r2''\<rparr>) None [demo_cross] ''s'' ''e'' None]"
    by (simp add: informed_def reads_memory_def demo_tick_env_def)
  from suppression_is_permanent [OF cfg t _ n run this] show ?thesis by simp
qed

end
