(* ===== verification/Skill_Evidence.thy ===== *)
theory Skill_Evidence
  imports Skill_Receipts
begin

text \<open>
  The stores behind the receipts (\<^verbatim>\<open>dal/role-skill-resolution-store.ts\<close>, \<^verbatim>\<open>dal/context-packet-store.ts\<close>) with the
  constraints of migrations 070 and 071, the assistant's lineage (\<^verbatim>\<open>lib/assistant-context-lineage.ts\<close>) and the shadow
  observer of governed writes (\<^verbatim>\<open>lib/role-skill-shadow.ts\<close>).

  The identifier of a row handed to an insert is a blank; the insert sets it from the given random UUID.
\<close>

section \<open>Stores\<close>

datatype receipt_error =
    Receipt_fault string
  | Receipt_constraint string
  | Catalog_disabled
  | Capability_unresolved verdict_reason

record packet_row =
  pk_id :: string
  pk_packet :: context_packet
  pk_receipt :: signed_receipt

record receipt_db =
  rd_resolutions :: "resolution_row list"
  rd_denials :: "denial_row list"
  rd_invocations :: "invocation_row list"
  rd_closings :: "closing_row list"
  rd_packets :: "packet_row list"

definition valid_sha :: "string \<Rightarrow> bool" where
  "valid_sha s \<longleftrightarrow> length s = 64 \<and> list_all hex_char s"

definition checked :: "(bool \<times> string) list \<Rightarrow> 'a \<Rightarrow> receipt_error + 'a" where
  "checked cs v = (case find (\<lambda>c. \<not> fst c) cs of Some c \<Rightarrow> Inl (Receipt_constraint (snd c)) | None \<Rightarrow> Inr v)"

definition insertRoleSkillResolutionRow :: "string \<Rightarrow> resolution_row \<Rightarrow> receipt_db \<Rightarrow> receipt_error + receipt_db \<times> string" where
  "insertRoleSkillResolutionRow uuid input db =
     (let rid = ''rsr_'' @ uuid
      in checked
           [(\<not> list_ex (\<lambda>r. rw_id r = rid) (rd_resolutions db), ''role_skill_resolutions_pkey''),
            (valid_sha (sg_content_sha256 (rw_receipt input)), ''role_skill_resolutions_content_sha256_check''),
            (rw_resolver_source input \<in> {''v0-floor'', ''catalog'', ''mixed''}, ''role_skill_resolutions_resolver_source_check''),
            (case rw_catalog_manifest_sha256 input of None \<Rightarrow> True | Some s \<Rightarrow> valid_sha s,
             ''role_skill_resolutions_catalog_manifest_sha256_check'')]
           (db\<lparr>rd_resolutions := rd_resolutions db @ [input\<lparr>rw_id := rid\<rparr>]\<rparr>, rid))"

definition insertAuthorityDenialRow :: "string \<Rightarrow> denial_row \<Rightarrow> receipt_db \<Rightarrow> receipt_error + receipt_db" where
  "insertAuthorityDenialRow uuid input db =
     (let rid = ''adr_'' @ uuid
      in checked
           [(\<not> list_ex (\<lambda>r. dn_id r = rid) (rd_denials db), ''authority_denial_receipts_pkey''),
            (length (dn_safe_explanation input) \<le> 1000, ''authority_denial_receipts_safe_explanation_check''),
            (valid_sha (sg_content_sha256 (dn_receipt input)), ''authority_denial_receipts_content_sha256_check'')]
           (db\<lparr>rd_denials := rd_denials db @ [input\<lparr>dn_id := rid\<rparr>]\<rparr>))"

definition resolution_exists :: "receipt_db \<Rightarrow> string option \<Rightarrow> bool" where
  "resolution_exists db ref = (case ref of None \<Rightarrow> True | Some i \<Rightarrow> list_ex (\<lambda>r. rw_id r = i) (rd_resolutions db))"

definition insertSkillInvocationReceiptRow :: "string \<Rightarrow> invocation_row \<Rightarrow> receipt_db \<Rightarrow> receipt_error + receipt_db \<times> string" where
  "insertSkillInvocationReceiptRow uuid input db =
     (let rid = ''sir_'' @ uuid
      in checked
           [(\<not> list_ex (\<lambda>r. iv_id r = rid) (rd_invocations db), ''skill_invocation_receipts_pkey''),
            (valid_sha (sg_content_sha256 (iv_receipt input)), ''skill_invocation_receipts_content_sha256_check''),
            (resolution_exists db (iv_resolution_id input), ''skill_invocation_receipts_resolution_id_fkey'')]
           (db\<lparr>rd_invocations := rd_invocations db @ [input\<lparr>iv_id := rid\<rparr>]\<rparr>, rid))"

definition insertClosingAttestationRow :: "string \<Rightarrow> closing_row \<Rightarrow> receipt_db \<Rightarrow> receipt_error + receipt_db" where
  "insertClosingAttestationRow uuid input db =
     (let rid = ''cla_'' @ uuid
      in checked
           [(\<not> list_ex (\<lambda>r. cl_id r = rid) (rd_closings db), ''closing_attestations_pkey''),
            (valid_sha (sg_content_sha256 (cl_receipt input)), ''closing_attestations_content_sha256_check'')]
           (db\<lparr>rd_closings := rd_closings db @ [input\<lparr>cl_id := rid\<rparr>]\<rparr>))"

definition int4 :: "int \<Rightarrow> bool" where
  "int4 i \<longleftrightarrow> - (2 ^ 31) \<le> i \<and> i < 2 ^ 31"

definition insertContextPacketRow :: "string \<Rightarrow> context_packet \<Rightarrow> signed_receipt \<Rightarrow> receipt_db \<Rightarrow> receipt_error + receipt_db \<times> string" where
  "insertContextPacketRow uuid packet receipt db =
     (let rid = ''cpk_'' @ uuid; sc = cp_context_scope packet
      in checked
           [(list_all int4 [cs_event_count sc, cs_document_count sc, cs_unpromoted_document_count sc, cs_source_count sc, cp_stale_after_s packet],
             ''integer out of range''),
            (\<not> list_ex (\<lambda>r. pk_id r = rid) (rd_packets db), ''context_packets_pkey''),
            (length (cp_policy_summary packet) \<le> 1000, ''context_packets_policy_summary_check''),
            (length (cp_context_fingerprint packet) = 8 \<and> list_all hex_char (cp_context_fingerprint packet),
             ''context_packets_context_fingerprint_check''),
            (valid_sha (sg_content_sha256 receipt), ''context_packets_content_sha256_check''),
            (resolution_exists db (cp_receipt_ref packet), ''context_packets_receipt_ref_fkey'')]
           (db\<lparr>rd_packets := rd_packets db @ [\<lparr>pk_id = rid, pk_packet = packet, pk_receipt = receipt\<rparr>]\<rparr>, rid))"

section \<open>Payloads\<close>

fun status_str :: "invocation_status \<Rightarrow> string" where
  "status_str Invoked = ''invoked''"
| "status_str Inv_completed = ''completed''"
| "status_str Inv_failed = ''failed''"
| "status_str Inv_denied = ''denied''"

definition skillInvocationSigningPayload ::
  "string \<Rightarrow> string \<Rightarrow> string option \<Rightarrow> string \<Rightarrow> string \<Rightarrow> string \<Rightarrow> invocation_status \<Rightarrow> string list \<Rightarrow> string \<Rightarrow> string" where
  "skillInvocationSigningPayload workspace_id principal_id resolution_id skill_key skill_version action status evidence issued_at =
     json_stringify (TObj
       [(''schema_id'', TStr ''xlooop.skill_invocation_receipt_signature_payload.v1''),
        (''workspace_id'', TStr workspace_id), (''principal_id'', TStr principal_id),
        (''resolution_id'', text_or_null resolution_id), (''skill_key'', TStr skill_key), (''skill_version'', TStr skill_version),
        (''action'', TStr action), (''status'', TStr (status_str status)), (''evidence_ref_ids'', TArr (map TStr evidence)),
        (''issued_at'', TStr issued_at)])"

fun outcome_str :: "closing_outcome \<Rightarrow> string" where
  "outcome_str Attested = ''attested''"
| "outcome_str Cl_skipped = ''skipped''"
| "outcome_str Cl_failed = ''failed''"

definition closingAttestationSigningPayload ::
  "string \<Rightarrow> string \<Rightarrow> string option \<Rightarrow> string \<Rightarrow> string \<Rightarrow> closing_outcome \<Rightarrow> string list \<Rightarrow> string \<Rightarrow> string" where
  "closingAttestationSigningPayload workspace_id principal_id correlation_id role_key closing_skill outcome evidence issued_at =
     json_stringify (TObj
       [(''schema_id'', TStr ''xlooop.closing_attestation_signature_payload.v1''),
        (''workspace_id'', TStr workspace_id), (''principal_id'', TStr principal_id),
        (''correlation_id'', text_or_null correlation_id), (''role_key'', TStr role_key), (''closing_skill'', TStr closing_skill),
        (''outcome'', TStr (outcome_str outcome)), (''evidence_ref_ids'', TArr (map TStr evidence)), (''issued_at'', TStr issued_at)])"

definition scope_text :: "context_scope \<Rightarrow> jtext" where
  "scope_text sc = TObj [(''event_count'', TInt (cs_event_count sc)), (''document_count'', TInt (cs_document_count sc)),
     (''unpromoted_document_count'', TInt (cs_unpromoted_document_count sc)), (''source_count'', TInt (cs_source_count sc))]"

definition contextPacketSigningPayload :: "context_packet \<Rightarrow> string" where
  "contextPacketSigningPayload p =
     json_stringify (TObj
       [(''schema_id'', TStr ''xlooop.context_packet_signature_payload.v1''), (''tenant'', TStr (cp_tenant p)), (''role'', TStr (cp_role p)),
        (''mode'', TStr (cp_mode p)), (''intent'', TStr (the_default [] (cp_intent p))),
        (''selected_skills'', TArr (map TStr (sort (map skill_label (cp_selected_skills p))))),
        (''allowed_tools'', TArr (map TStr (sort (cp_allowed_tools p)))), (''denied_tools'', TArr (map TStr (sort (cp_denied_tools p)))),
        (''context_scope'', scope_text (cp_context_scope p)),
        (''redaction'', TObj [(''profile'', TStr (cp_redaction_profile p)), (''client_empty'', TBool (cp_client_empty p))]),
        (''skill_coverage'', TStr (coverage_str (cp_skill_coverage p))), (''context_fingerprint'', TStr (cp_context_fingerprint p))])"

definition sealContextPacket :: "crypto \<Rightarrow> string option \<Rightarrow> context_packet \<Rightarrow> string option \<Rightarrow> signed_receipt" where
  "sealContextPacket cr secret packet keyId = signReceipt cr secret (contextPacketSigningPayload packet) keyId"

lemma text_or_null_inj: "text_or_null a = text_or_null b \<longleftrightarrow> a = b"
  by (simp add: text_or_null_def split: option.splits)

lemma coverage_str_inj: "coverage_str a = coverage_str b \<longleftrightarrow> a = b"
  by (cases a; cases b) simp_all

lemma verdict_str_inj: "verdict_str a = verdict_str b \<longleftrightarrow> a = b"
  by (cases a; cases b) simp_all

lemma skill_text_inj: "map skill_text a = map skill_text b \<longleftrightarrow> a = b"
proof -
  have "inj skill_text" by (rule injI) (simp add: skill_text_def)
  then show ?thesis by simp
qed

text \<open>
  C28. The text that is hashed and signed for a resolution determines every signed field: two resolutions have the same text
  exactly when workspace, principal, role, explanation, skills, coverage, verdict, actual decision, binding source, build and
  both times agree, whatever characters the fields contain.
\<close>

theorem signed_payload_is_unambiguous:
  "resolutionSigningPayload r ctx = resolutionSigningPayload r' ctx' \<longleftrightarrow>
     sx_workspace_id ctx = sx_workspace_id ctx' \<and> sx_principal_id ctx = sx_principal_id ctx' \<and>
     rs_selected_role r = rs_selected_role r' \<and> rs_safe_explanation r = rs_safe_explanation r' \<and>
     rs_selected_skills r = rs_selected_skills r' \<and> rs_skill_coverage r = rs_skill_coverage r' \<and>
     rv_reason (rs_verdict r) = rv_reason (rs_verdict r') \<and> rv_allowed (rs_verdict r) = rv_allowed (rs_verdict r') \<and>
     sx_actual_reason ctx = sx_actual_reason ctx' \<and> sx_actual_allowed ctx = sx_actual_allowed ctx' \<and>
     sx_resolver_source ctx = sx_resolver_source ctx' \<and> sx_deploy_sha ctx = sx_deploy_sha ctx' \<and>
     rs_expires_at r = rs_expires_at r' \<and> sx_issued_at ctx = sx_issued_at ctx'"
  unfolding resolutionSigningPayload_def json_stringify_inj
  by (simp add: text_or_null_inj coverage_str_inj verdict_str_inj skill_text_inj)

section \<open>The assistant's lineage\<close>

text \<open>The calls of the database an operation awaits, each of which may fail.\<close>

datatype receipt_call = Write_resolution | Write_denial | Write_packet | Write_invocation nat

type_synonym receipt_faults = "receipt_call \<Rightarrow> string option"

definition db_call :: "receipt_faults \<Rightarrow> receipt_call \<Rightarrow> receipt_error + 'a \<Rightarrow> receipt_error + 'a" where
  "db_call faults c r = (case faults c of Some e \<Rightarrow> Inl (Receipt_fault e) | None \<Rightarrow> r)"

record lineage_env =
  le_ROLE_SKILL_CATALOG_ENABLED :: "string option"
  le_SIGNING_SECRET :: "string option"
  le_SIGNING_KEY_ID :: "string option"
  le_DEPLOY_SHA :: "string option"

record lineage_input =
  li_workspace_id :: string
  li_principal_id :: string
  li_role :: string
  li_mode :: string
  li_intent_ref :: string
  li_scope :: context_scope
  li_redaction_profile :: string
  li_client_empty :: bool
  li_action :: "string option"

record assistant_lineage =
  al_context_packet_id :: string
  al_context_fingerprint :: string
  al_context_generated_at :: string
  al_context_stale_after_s :: int
  al_catalog_manifest_sha256 :: string
  al_resolution_id :: string
  al_lineage_action :: string
  al_resolution :: role_skill_resolution

definition assistant_action :: "lineage_input \<Rightarrow> string" where
  "assistant_action input = the_default (if li_mode input = ''plan'' then ''assistant:plan'' else ''assistant:answer'') (li_action input)"

definition assistant_resolution :: "crypto \<Rightarrow> lineage_input \<Rightarrow> role_skill_binding list \<Rightarrow> int \<Rightarrow> role_skill_resolution" where
  "assistant_resolution cr input bindings now =
     resolveRoleAndSkills (cr_iso cr)
       \<lparr>ri_tenant = li_workspace_id input, ri_principal = li_principal_id input, ri_role = li_role input, ri_mode = li_mode input,
        ri_action = assistant_action input, ri_serviceP = None, ri_intent = Some (li_intent_ref input), ri_entitlementActive = Some True,
        ri_requiresOperatorMode = Some False, ri_tenantMismatch = Some False\<rparr> bindings now"

definition assistant_resolution_row :: "crypto \<Rightarrow> lineage_env \<Rightarrow> lineage_input \<Rightarrow> role_skill_resolution \<Rightarrow> int \<Rightarrow> resolution_row" where
  "assistant_resolution_row cr env input r now =
     \<lparr>rw_id = [], rw_workspace_id = li_workspace_id input, rw_principal_id = li_principal_id input, rw_action = assistant_action input,
      rw_mode = li_mode input, rw_intent_ref = Some (li_intent_ref input), rw_resolution = r, rw_actual_reason = ''resolved'',
      rw_actual_allowed = True, rw_agreement = Agree,
      rw_receipt = signReceipt cr (le_SIGNING_SECRET env)
        (resolutionSigningPayload r
           \<lparr>sx_workspace_id = li_workspace_id input, sx_principal_id = li_principal_id input, sx_actual_reason = ''resolved'',
            sx_actual_allowed = True, sx_issued_at = cr_iso cr now, sx_resolver_source = ''catalog'', sx_deploy_sha = le_DEPLOY_SHA env\<rparr>)
        (le_SIGNING_KEY_ID env),
      rw_resolver_source = ''catalog'', rw_deploy_sha = le_DEPLOY_SHA env, rw_catalog_manifest_sha256 = Some CATALOG_MANIFEST_SHA256\<rparr>"

definition assistant_packet :: "crypto \<Rightarrow> lineage_input \<Rightarrow> role_skill_resolution \<Rightarrow> string \<Rightarrow> int \<Rightarrow> context_packet" where
  "assistant_packet cr input r resolution_id now =
     buildContextPacket (cr_iso cr)
       \<lparr>ci_tenant = li_workspace_id input, ci_principal = li_principal_id input, ci_role = li_role input, ci_mode = li_mode input,
        ci_intent = Some (li_intent_ref input), ci_resolution = r, ci_scope = li_scope input,
        ci_redaction_profile = li_redaction_profile input, ci_client_empty = li_client_empty input,
        ci_receipt_ref = Some resolution_id, ci_stale_after_s = None\<rparr> now"

definition persistAssistantContextLineage ::
  "crypto \<Rightarrow> receipt_faults \<Rightarrow> string \<Rightarrow> string \<Rightarrow> catalog_entry list \<Rightarrow> lineage_env \<Rightarrow> lineage_input \<Rightarrow> int \<Rightarrow> receipt_db
     \<Rightarrow> receipt_db \<times> (receipt_error + assistant_lineage)" where
  "persistAssistantContextLineage cr faults uuid1 uuid2 entries env input now db =
     (case catalogBindingsIfEnabled entries (le_ROLE_SKILL_CATALOG_ENABLED env) of
        None \<Rightarrow> (db, Inl Catalog_disabled)
      | Some (bindings, manifest) \<Rightarrow>
          (let r = assistant_resolution cr input bindings now in
           if \<not> rv_allowed (rs_verdict r) \<or> rs_skill_coverage r \<noteq> Cov_resolved
           then (db, Inl (Capability_unresolved (rv_reason (rs_verdict r))))
           else
             attempt db (db_call faults Write_resolution
                (insertRoleSkillResolutionRow uuid1 (assistant_resolution_row cr env input r now) db)) (\<lambda>(db1, resolution_id).
             let packet = assistant_packet cr input r resolution_id now in
             attempt db1 (db_call faults Write_packet
                (insertContextPacketRow uuid2 packet (sealContextPacket cr (le_SIGNING_SECRET env) packet (le_SIGNING_KEY_ID env)) db1))
               (\<lambda>(db2, context_packet_id).
             (db2, Inr \<lparr>al_context_packet_id = context_packet_id, al_context_fingerprint = cp_context_fingerprint packet,
                        al_context_generated_at = cp_generated_at packet, al_context_stale_after_s = cp_stale_after_s packet,
                        al_catalog_manifest_sha256 = CATALOG_MANIFEST_SHA256, al_resolution_id = resolution_id,
                        al_lineage_action = assistant_action input, al_resolution = r\<rparr>)))))"

definition invocation_of :: "crypto \<Rightarrow> lineage_env \<Rightarrow> assistant_lineage \<Rightarrow> string \<Rightarrow> string \<Rightarrow> int \<Rightarrow> skill_ref \<Rightarrow> invocation_row" where
  "invocation_of cr env lin workspace_id principal_id now skill =
     \<lparr>iv_id = [], iv_workspace_id = workspace_id, iv_resolution_id = Some (al_resolution_id lin), iv_principal_id = principal_id,
      iv_skill_key = sk_key skill, iv_skill_version = sk_version skill, iv_action = al_lineage_action lin, iv_status = Inv_completed,
      iv_evidence_ref_ids = [],
      iv_receipt = signReceipt cr (le_SIGNING_SECRET env)
        (skillInvocationSigningPayload workspace_id principal_id (Some (al_resolution_id lin)) (sk_key skill) (sk_version skill)
           (al_lineage_action lin) Inv_completed [] (cr_iso cr now)) (le_SIGNING_KEY_ID env)\<rparr>"

text \<open>The loop of \<^verbatim>\<open>completeAssistantSkillLineage\<close>; \<open>uuids k\<close> is the identifier drawn in its \<open>k\<close>-th round.\<close>

fun complete_skills ::
  "crypto \<Rightarrow> receipt_faults \<Rightarrow> (nat \<Rightarrow> string) \<Rightarrow> lineage_env \<Rightarrow> assistant_lineage \<Rightarrow> string \<Rightarrow> string \<Rightarrow> int \<Rightarrow> nat \<Rightarrow> skill_ref list \<Rightarrow> receipt_db
     \<Rightarrow> receipt_db \<times> (receipt_error + string list)" where
  "complete_skills cr faults uuids env lin ws pr now k [] db = (db, Inr [])"
| "complete_skills cr faults uuids env lin ws pr now k (sk # sks) db =
     attempt db (db_call faults (Write_invocation k)
        (insertSkillInvocationReceiptRow (uuids k) (invocation_of cr env lin ws pr now sk) db)) (\<lambda>(db1, rid).
     (case complete_skills cr faults uuids env lin ws pr now (Suc k) sks db1 of
        (db2, Inl e) \<Rightarrow> (db2, Inl e)
      | (db2, Inr rids) \<Rightarrow> (db2, Inr (rid # rids))))"

definition completeAssistantSkillLineage ::
  "crypto \<Rightarrow> receipt_faults \<Rightarrow> (nat \<Rightarrow> string) \<Rightarrow> lineage_env \<Rightarrow> assistant_lineage \<Rightarrow> string \<Rightarrow> string \<Rightarrow> int \<Rightarrow> receipt_db
     \<Rightarrow> receipt_db \<times> (receipt_error + string list)" where
  "completeAssistantSkillLineage cr faults uuids env lin workspace_id principal_id now db =
     complete_skills cr faults uuids env lin workspace_id principal_id now 0 (rs_selected_skills (al_resolution lin)) db"

section \<open>The shadow observer\<close>

fun decision_reason_str :: "decision_reason \<Rightarrow> string" where
  "decision_reason_str Active_entitlement = ''active_entitlement''"
| "decision_reason_str Missing_entitlement = ''missing_entitlement''"
| "decision_reason_str Entitlement_not_active = ''entitlement_not_active''"
| "decision_reason_str Mode_not_allowed = ''mode_not_allowed''"
| "decision_reason_str Session_expired = ''session_expired''"
| "decision_reason_str Mode_requires_operator = ''mode_requires_operator''"
| "decision_reason_str Action_denied = ''action_denied''"
| "decision_reason_str Action_not_allowed = ''action_not_allowed''"

definition roleSkillResolverEnabled :: "string option \<Rightarrow> bool" where
  "roleSkillResolverEnabled flag = envFlagTrue flag"

definition agreementOf :: "bool \<Rightarrow> bool \<Rightarrow> agreement" where
  "agreementOf resolverAllowed actualAllowed =
     (if resolverAllowed = actualAllowed then Agree else if resolverAllowed then Resolver_looser else Resolver_stricter)"

fun agreement_str :: "agreement \<Rightarrow> string" where
  "agreement_str Agree = ''agree''"
| "agreement_str Resolver_stricter = ''resolver_stricter''"
| "agreement_str Resolver_looser = ''resolver_looser''"

definition resolveBindings :: "catalog_entry list \<Rightarrow> string option \<Rightarrow> role_skill_binding list \<times> string \<times> string option" where
  "resolveBindings entries flag =
     (case catalogBindingsIfEnabled entries flag of
        Some (bindings, sha) \<Rightarrow> (bindings, ''catalog'', Some sha)
      | None \<Rightarrow> (ROLE_SKILL_V0_FLOOR, ''v0-floor'', None))"

record observer_env =
  oe_ROLE_SKILL_RESOLVER_ENABLED :: "string option"
  oe_ROLE_SKILL_CATALOG_ENABLED :: "string option"
  oe_SIGNING_SECRET :: "string option"
  oe_SIGNING_KEY_ID :: "string option"
  oe_DEPLOY_SHA :: "string option"
  oe_crypto :: crypto
  oe_now :: int
  oe_issued_at :: int
  oe_uuid_resolution :: string
  oe_uuid_denial :: string
  oe_faults :: receipt_faults
  oe_error_name :: "receipt_error \<Rightarrow> string"

definition observed_resolution :: "catalog_entry list \<Rightarrow> observer_env \<Rightarrow> observe_meta \<Rightarrow> role_skill_resolution" where
  "observed_resolution entries oe meta =
     resolveRoleAndSkills (cr_iso (oe_crypto oe))
       \<lparr>ri_tenant = om_workspace_id meta, ri_principal = om_principal_id meta, ri_role = om_role meta, ri_mode = mode_str (om_mode meta),
        ri_action = action_str (om_action meta), ri_serviceP = Some (om_service_principal meta), ri_intent = None,
        ri_entitlementActive = None, ri_requiresOperatorMode = None, ri_tenantMismatch = None\<rparr>
       (fst (resolveBindings entries (oe_ROLE_SKILL_CATALOG_ENABLED oe))) (oe_now oe)"

definition observed_receipt :: "catalog_entry list \<Rightarrow> observer_env \<Rightarrow> spine_write_decision \<Rightarrow> observe_meta \<Rightarrow> signed_receipt" where
  "observed_receipt entries oe d meta =
     signReceipt (oe_crypto oe) (oe_SIGNING_SECRET oe)
       (resolutionSigningPayload (observed_resolution entries oe meta)
          \<lparr>sx_workspace_id = om_workspace_id meta, sx_principal_id = om_principal_id meta,
           sx_actual_reason = decision_reason_str (sd_reason d), sx_actual_allowed = sd_allowed d,
           sx_issued_at = cr_iso (oe_crypto oe) (oe_issued_at oe),
           sx_resolver_source = fst (snd (resolveBindings entries (oe_ROLE_SKILL_CATALOG_ENABLED oe))),
           sx_deploy_sha = oe_DEPLOY_SHA oe\<rparr>) (oe_SIGNING_KEY_ID oe)"

definition observed_row :: "catalog_entry list \<Rightarrow> observer_env \<Rightarrow> spine_write_decision \<Rightarrow> observe_meta \<Rightarrow> resolution_row" where
  "observed_row entries oe d meta =
     (let r = observed_resolution entries oe meta; (_, source, sha) = resolveBindings entries (oe_ROLE_SKILL_CATALOG_ENABLED oe) in
      \<lparr>rw_id = [], rw_workspace_id = om_workspace_id meta, rw_principal_id = om_principal_id meta, rw_action = action_str (om_action meta),
       rw_mode = mode_str (om_mode meta), rw_intent_ref = None, rw_resolution = r, rw_actual_reason = decision_reason_str (sd_reason d),
       rw_actual_allowed = sd_allowed d, rw_agreement = agreementOf (rv_allowed (rs_verdict r)) (sd_allowed d),
       rw_receipt = observed_receipt entries oe d meta, rw_resolver_source = source, rw_deploy_sha = oe_DEPLOY_SHA oe,
       rw_catalog_manifest_sha256 = sha\<rparr>)"

definition observed_denial :: "catalog_entry list \<Rightarrow> observer_env \<Rightarrow> spine_write_decision \<Rightarrow> observe_meta \<Rightarrow> denial_row" where
  "observed_denial entries oe d meta =
     (let r = observed_resolution entries oe meta in
      \<lparr>dn_id = [], dn_workspace_id = om_workspace_id meta, dn_principal_id = om_principal_id meta, dn_role_key = rs_selected_role r,
       dn_action = action_str (om_action meta), dn_mode = mode_str (om_mode meta),
       dn_denied_by = (if \<not> rv_allowed (rs_verdict r) \<and> \<not> sd_allowed d then By_both else By_entitlement),
       dn_entitlement_reason = Some (decision_reason_str (sd_reason d)),
       dn_resolver_reason = (if rv_allowed (rs_verdict r) then None else Some (verdict_str (rv_reason (rs_verdict r)))),
       dn_safe_explanation = rs_safe_explanation r, dn_receipt = observed_receipt entries oe d meta\<rparr>)"

text \<open>The deferred write: the resolution row, then the denial row when the decision denied.\<close>

definition write_receipts ::
  "catalog_entry list \<Rightarrow> observer_env \<Rightarrow> spine_write_decision \<Rightarrow> observe_meta \<Rightarrow> receipt_db \<Rightarrow> receipt_db \<times> (receipt_error + unit)" where
  "write_receipts entries oe d meta db =
     attempt db (db_call (oe_faults oe) Write_resolution
        (insertRoleSkillResolutionRow (oe_uuid_resolution oe) (observed_row entries oe d meta) db)) (\<lambda>(db1, _).
     if sd_allowed d then (db1, Inr ())
     else attempt db1 (db_call (oe_faults oe) Write_denial
            (insertAuthorityDenialRow (oe_uuid_denial oe) (observed_denial entries oe d meta) db1)) (\<lambda>db2. (db2, Inr ())))"

definition observeRoleSkillResolution ::
  "catalog_entry list \<Rightarrow> observer_env \<Rightarrow> spine_write_decision \<Rightarrow> observe_meta \<Rightarrow> receipt_db \<times> event_log \<Rightarrow> receipt_db \<times> event_log" where
  "observeRoleSkillResolution entries oe d meta st =
     (if \<not> roleSkillResolverEnabled (oe_ROLE_SKILL_RESOLVER_ENABLED oe) then st
      else
        (let r = observed_resolution entries oe meta;
             ag = agreement_str (agreementOf (rv_allowed (rs_verdict r)) (sd_allowed d));
             events = emitEvent ''role_skill_resolution''
               [(''action'', JStr (action_str (om_action meta))), (''role'', JStr (rs_selected_role r)),
                (''skill_coverage'', JStr (coverage_str (rs_skill_coverage r))),
                (''resolver_verdict'', JStr (verdict_str (rv_reason (rs_verdict r)))),
                (''resolver_allowed'', JBool (rv_allowed (rs_verdict r))), (''actual_allowed'', JBool (sd_allowed d)),
                (''agreement'', JStr ag)] (snd st)
         in case write_receipts entries oe d meta (fst st) of
              (db', Inr _) \<Rightarrow> (db', events)
            | (db', Inl e) \<Rightarrow>
                (db', emitEvent ''role_skill_receipt_write_failed''
                   [(''action'', JStr (action_str (om_action meta))), (''agreement'', JStr ag), (''error'', JStr (oe_error_name oe e))] events)))"

definition perform_effects ::
  "catalog_entry list \<Rightarrow> observer_env \<Rightarrow> spine_effect list \<Rightarrow> receipt_db \<times> event_log \<Rightarrow> receipt_db \<times> event_log" where
  "perform_effects entries oe effs st =
     foldl (\<lambda>st e. case e of Role_skill_observed d meta \<Rightarrow> observeRoleSkillResolution entries oe d meta st | Deny_warned _ _ _ _ _ \<Rightarrow> st) st effs"

section \<open>Receipts of governed writes\<close>

lemma checked_Inr: "checked cs v = Inr w \<longleftrightarrow> v = w \<and> list_all fst cs"
  by (auto simp: checked_def find_None_iff find_Some_iff list_all_iff split: option.splits)

lemma sha256Hex_valid: "length (cr_sha256 cr payload) = 32 \<Longrightarrow> valid_sha (sha256Hex cr payload)"
proof -
  assume len: "length (cr_sha256 cr payload) = 32"
  have two: "length (concat (map (\<lambda>b. [f b, g b :: char]) xs)) = 2 * length xs" for f g and xs :: "8 word list"
    by (induction xs) simp_all
  have "unat (b :: 8 word) div 16 < 16" for b using unsigned_less [of b, where 'a = nat] by simp
  then show ?thesis unfolding valid_sha_def sha256Hex_def two len by (simp add: list_all_iff hex_digit_hex)
qed

lemma signReceipt_sha [simp]: "sg_content_sha256 (signReceipt cr secret payload keyId) = sha256Hex cr payload"
  by (simp add: signReceipt_def Let_def split: option.splits)

lemma manifest_valid: "valid_sha CATALOG_MANIFEST_SHA256"
  by (simp add: valid_sha_def CATALOG_MANIFEST_SHA256_def hex_char_def)

lemma family_length: "length (actionFamily action) \<le> 19"
proof -
  have "list_all (\<lambda>p. length (snd p) \<le> 19) FAMILIES" by (simp add: FAMILIES_def)
  then have "length f \<le> 19" if "map_of FAMILIES h = Some f" for h f
    using map_of_SomeD [OF that] by (auto simp: list_all_iff)
  then have "length (or_else (map_of FAMILIES h) ''operation'') \<le> 19" for h
    by (cases "map_of FAMILIES h") (simp_all add: or_else_def)
  then show ?thesis by (simp add: actionFamily_def Let_def)
qed

lemma explanation_length: "length (buildSafeExplanation role action v c) \<le> length role + 110"
  using family_length [of action]
  by (cases "rv_reason v") (simp_all add: buildSafeExplanation_def Let_def)

lemma observed_explanation: "length (rs_safe_explanation (observed_resolution entries oe meta)) \<le> length (om_role meta) + 127"
proof -
  have bounds: "length (buildSafeExplanation ''service-principal'' act v c) \<le> length (om_role meta) + 127"
    "length (buildSafeExplanation ''unknown'' act v c) \<le> 127"
    "length (buildSafeExplanation (om_role meta) act v c) \<le> length (om_role meta) + 127" for act v c
    using explanation_length [of "''service-principal''" act v c] explanation_length [of "''unknown''" act v c]
      explanation_length [of "om_role meta" act v c] by auto
  show ?thesis unfolding observed_resolution_def resolveRoleAndSkills_def Let_def by (simp add: bounds)
qed

definition receipts_ready :: "observer_env \<Rightarrow> receipt_db \<Rightarrow> bool" where
  "receipts_ready oe db \<longleftrightarrow> (\<forall>p. length (cr_sha256 (oe_crypto oe) p) = 32) \<and> (\<forall>c. oe_faults oe c = None) \<and>
     \<not> list_ex (\<lambda>r. rw_id r = ''rsr_'' @ oe_uuid_resolution oe) (rd_resolutions db) \<and>
     \<not> list_ex (\<lambda>r. dn_id r = ''adr_'' @ oe_uuid_denial oe) (rd_denials db)"

lemma resolveBindings_cases:
  "fst (snd (resolveBindings entries flag)) \<in> {''v0-floor'', ''catalog'', ''mixed''} \<and>
   (case snd (snd (resolveBindings entries flag)) of None \<Rightarrow> True | Some s \<Rightarrow> valid_sha s)"
  by (simp add: resolveBindings_def catalogBindingsIfEnabled_def manifest_valid)

lemma write_receipts_ready:
  assumes "receipts_ready oe db" and "length (om_role meta) \<le> 800"
  shows "write_receipts entries oe d meta db =
    (db\<lparr>rd_resolutions := rd_resolutions db @ [(observed_row entries oe d meta)\<lparr>rw_id := ''rsr_'' @ oe_uuid_resolution oe\<rparr>],
        rd_denials := rd_denials db @
          (if sd_allowed d then [] else [(observed_denial entries oe d meta)\<lparr>dn_id := ''adr_'' @ oe_uuid_denial oe\<rparr>])\<rparr>, Inr ())"
proof -
  note ready = assms(1) [unfolded receipts_ready_def]
  have sha: "valid_sha (sg_content_sha256 (observed_receipt entries oe d meta))"
    using ready by (simp add: observed_receipt_def sha256Hex_valid)
  have src: "rw_resolver_source (observed_row entries oe d meta) \<in> {''v0-floor'', ''catalog'', ''mixed''} \<and>
      (case rw_catalog_manifest_sha256 (observed_row entries oe d meta) of None \<Rightarrow> True | Some s \<Rightarrow> valid_sha s) \<and>
      rw_receipt (observed_row entries oe d meta) = observed_receipt entries oe d meta"
    using resolveBindings_cases [of entries "oe_ROLE_SKILL_CATALOG_ENABLED oe"] by (simp add: observed_row_def Let_def split_beta)
  have one: "insertRoleSkillResolutionRow (oe_uuid_resolution oe) (observed_row entries oe d meta) db =
      Inr (db\<lparr>rd_resolutions := rd_resolutions db @ [(observed_row entries oe d meta)\<lparr>rw_id := ''rsr_'' @ oe_uuid_resolution oe\<rparr>]\<rparr>,
           ''rsr_'' @ oe_uuid_resolution oe)"
    unfolding insertRoleSkillResolutionRow_def Let_def checked_Inr using ready src sha by simp
  have den: "length (dn_safe_explanation (observed_denial entries oe d meta)) \<le> 1000 \<and>
      dn_receipt (observed_denial entries oe d meta) = observed_receipt entries oe d meta"
    using observed_explanation [of entries oe meta] assms(2) by (simp add: observed_denial_def Let_def)
  have two: "insertAuthorityDenialRow (oe_uuid_denial oe) (observed_denial entries oe d meta) db1 =
      Inr (db1\<lparr>rd_denials := rd_denials db1 @ [(observed_denial entries oe d meta)\<lparr>dn_id := ''adr_'' @ oe_uuid_denial oe\<rparr>]\<rparr>)"
    if "rd_denials db1 = rd_denials db" for db1
    unfolding insertAuthorityDenialRow_def Let_def checked_Inr using ready den sha that by simp
  show ?thesis
    unfolding write_receipts_def one db_call_def using ready two by simp
qed

lemma observer_ready:
  assumes "envFlagTrue (oe_ROLE_SKILL_RESOLVER_ENABLED oe)" and "receipts_ready oe (fst st)" and "length (om_role meta) \<le> 800"
  shows "fst (observeRoleSkillResolution entries oe d meta st) =
    (fst st)\<lparr>rd_resolutions := rd_resolutions (fst st) @ [(observed_row entries oe d meta)\<lparr>rw_id := ''rsr_'' @ oe_uuid_resolution oe\<rparr>],
        rd_denials := rd_denials (fst st) @
          (if sd_allowed d then [] else [(observed_denial entries oe d meta)\<lparr>dn_id := ''adr_'' @ oe_uuid_denial oe\<rparr>])\<rparr>"
  using write_receipts_ready [OF assms(2,3), of entries d] assms(1)
  by (simp add: observeRoleSkillResolution_def roleSkillResolverEnabled_def Let_def)

lemma warnings_silent: "perform_effects entries oe (deny_warning auth a d k @ effs) st = perform_effects entries oe effs st"
  by (simp add: perform_effects_def deny_warning_def)

lemma authorize_effects:
  "\<exists>m. perform_effects entries oe (snd (authorizeSpineWrite ctx a)) st =
     observeRoleSkillResolution entries oe (fst (authorizeSpineWrite ctx a))
       \<lparr>om_action = a, om_role = coalesce (Option.bind (sc_auth ctx) au_role) ''unknown'', om_mode = m,
        om_workspace_id = coalesce (Option.bind (sc_auth ctx) au_workspace_id) [],
        om_principal_id = coalesce (Option.bind (sc_auth ctx) au_user_id) [],
        om_service_principal = truthy (Option.bind (sc_auth ctx) au_service_principal)\<rparr> st"
proof -
  have one: "perform_effects entries oe [Role_skill_observed d meta] st = observeRoleSkillResolution entries oe d meta st" for d meta
    by (simp add: perform_effects_def)
  show ?thesis
    unfolding authorizeSpineWrite_def Let_def
    by (auto simp: warnings_silent one split: prod.splits)
qed

text \<open>
  C27. With the resolver observing and its database answering, every governed-write decision leaves its evidence: exactly one
  resolution row for the caller's workspace and principal that records the action, the decision actually enforced and whether
  the resolver agreed, and a denial receipt with the enforced reason, under the same signature, exactly when the write was denied.
\<close>

theorem decisions_are_receipted:
  assumes "envFlagTrue (oe_ROLE_SKILL_RESOLVER_ENABLED oe)" and "receipts_ready oe db"
    and "length (coalesce (Option.bind (sc_auth ctx) au_role) ''unknown'') \<le> 800"
    and "authorizeSpineWrite ctx a = (d, effs)" and "perform_effects entries oe effs (db, events) = (db', events')"
  shows "\<exists>row. rd_resolutions db' = rd_resolutions db @ [row] \<and>
     rw_workspace_id row = coalesce (Option.bind (sc_auth ctx) au_workspace_id) [] \<and>
     rw_principal_id row = coalesce (Option.bind (sc_auth ctx) au_user_id) [] \<and>
     rw_action row = action_str a \<and> rw_actual_allowed row = sd_allowed d \<and>
     rw_actual_reason row = decision_reason_str (sd_reason d) \<and>
     (rw_agreement row = Agree \<longleftrightarrow> rv_allowed (rs_verdict (rw_resolution row)) = sd_allowed d) \<and>
     (if sd_allowed d then rd_denials db' = rd_denials db
      else \<exists>dr. rd_denials db' = rd_denials db @ [dr] \<and> dn_workspace_id dr = rw_workspace_id row \<and>
             dn_principal_id dr = rw_principal_id row \<and> dn_action dr = action_str a \<and>
             dn_entitlement_reason dr = Some (decision_reason_str (sd_reason d)) \<and> dn_receipt dr = rw_receipt row)"
proof -
  obtain m where obs: "perform_effects entries oe effs (db, events) = observeRoleSkillResolution entries oe d
       \<lparr>om_action = a, om_role = coalesce (Option.bind (sc_auth ctx) au_role) ''unknown'', om_mode = m,
        om_workspace_id = coalesce (Option.bind (sc_auth ctx) au_workspace_id) [],
        om_principal_id = coalesce (Option.bind (sc_auth ctx) au_user_id) [],
        om_service_principal = truthy (Option.bind (sc_auth ctx) au_service_principal)\<rparr> (db, events)" (is "_ = observeRoleSkillResolution _ _ _ ?meta _")
    using authorize_effects [of entries oe ctx a "(db, events)"] assms(4) by auto
  have db': "db' = db\<lparr>rd_resolutions := rd_resolutions db @ [(observed_row entries oe d ?meta)\<lparr>rw_id := ''rsr_'' @ oe_uuid_resolution oe\<rparr>],
        rd_denials := rd_denials db @
          (if sd_allowed d then [] else [(observed_denial entries oe d ?meta)\<lparr>dn_id := ''adr_'' @ oe_uuid_denial oe\<rparr>])\<rparr>"
    using observer_ready [of oe "(db, events)" ?meta entries d] assms(1,2,3,5) obs by simp
  show ?thesis
    unfolding db' by (simp add: observed_row_def observed_denial_def Let_def split_beta agreementOf_def)
qed

section \<open>Lineage of an assistant answer\<close>

lemma db_call_Inr: "db_call faults c r = Inr v \<longleftrightarrow> faults c = None \<and> r = Inr v"
  by (simp add: db_call_def split: option.splits)

lemma insert_resolution_Inr:
  "insertRoleSkillResolutionRow u input db = Inr (db', i) \<Longrightarrow>
     db' = db\<lparr>rd_resolutions := rd_resolutions db @ [input\<lparr>rw_id := i\<rparr>]\<rparr>"
  by (auto simp: insertRoleSkillResolutionRow_def Let_def checked_Inr)

lemma insert_packet_Inr:
  "insertContextPacketRow u p rc db = Inr (db', i) \<Longrightarrow>
     db' = db\<lparr>rd_packets := rd_packets db @ [\<lparr>pk_id = i, pk_packet = p, pk_receipt = rc\<rparr>]\<rparr>"
  by (auto simp: insertContextPacketRow_def Let_def checked_Inr)

lemma insert_invocation_Inr:
  "insertSkillInvocationReceiptRow u input db = Inr (db', i) \<Longrightarrow>
     db' = db\<lparr>rd_invocations := rd_invocations db @ [input\<lparr>iv_id := i\<rparr>]\<rparr>"
  by (auto simp: insertSkillInvocationReceiptRow_def Let_def checked_Inr)

lemma attempt_Inr_eq: "attempt s r f = (s', Inr y) \<longleftrightarrow> (\<exists>a. r = Inr a \<and> f a = (s', Inr y))"
  by (cases r) simp_all

lemma complete_skills_Inr:
  "complete_skills cr faults uuids env lin ws pr now k sks db = (db', Inr rids) \<Longrightarrow>
     db' = db\<lparr>rd_invocations := rd_invocations db @ map2 (\<lambda>sk i. (invocation_of cr env lin ws pr now sk)\<lparr>iv_id := i\<rparr>) sks rids\<rparr> \<and>
     length rids = length sks"
proof (induction sks arbitrary: k db rids)
  case (Cons sk sks)
  obtain db1 i where one: "insertSkillInvocationReceiptRow (uuids k) (invocation_of cr env lin ws pr now sk) db = Inr (db1, i)"
    and more: "(case complete_skills cr faults uuids env lin ws pr now (Suc k) sks db1 of
        (db2, Inl e) \<Rightarrow> (db2, Inl e) | (db2, Inr rids) \<Rightarrow> (db2, Inr (i # rids))) = (db', Inr rids)"
    using Cons.prems by (auto simp: attempt_Inr_eq db_call_Inr)
  from more obtain r where rest: "complete_skills cr faults uuids env lin ws pr now (Suc k) sks db1 = (db', Inr r)" and rids: "rids = i # r"
    by (cases "complete_skills cr faults uuids env lin ws pr now (Suc k) sks db1"; cases "snd (complete_skills cr faults uuids env lin ws pr now (Suc k) sks db1)") auto
  from Cons.IH [OF rest] insert_invocation_Inr [OF one] rids show ?case by simp
qed simp

lemma persist_Inr:
  assumes "persistAssistantContextLineage cr faults u1 u2 entries env input now db = (db', Inr lin)"
  defines "r \<equiv> assistant_resolution cr input (buildRuntimeBindings entries) now"
  shows "envFlagTrue (le_ROLE_SKILL_CATALOG_ENABLED env)" and "rv_allowed (rs_verdict r)"
    and "al_resolution lin = r" and "al_lineage_action lin = assistant_action input"
    and "db' = db\<lparr>rd_resolutions := rd_resolutions db @ [(assistant_resolution_row cr env input r now)\<lparr>rw_id := al_resolution_id lin\<rparr>],
       rd_packets := rd_packets db @ [\<lparr>pk_id = al_context_packet_id lin, pk_packet = assistant_packet cr input r (al_resolution_id lin) now,
         pk_receipt = sealContextPacket cr (le_SIGNING_SECRET env) (assistant_packet cr input r (al_resolution_id lin) now) (le_SIGNING_KEY_ID env)\<rparr>]\<rparr>"
  using assms(1) unfolding r_def persistAssistantContextLineage_def catalogBindingsIfEnabled_def
  by (auto simp: Let_def attempt_Inr_eq db_call_Inr dest!: insert_resolution_Inr insert_packet_Inr split: if_splits)

text \<open>
  An assistant run whose lineage was persisted and completed is fully traceable: its role is granted the assistant action by
  the published catalog; one resolution row and one context packet of the run's workspace and principal were written, the
  packet naming the resolution; and each selected skill got exactly one completed invocation receipt under that resolution.
\<close>

theorem assistant_run_is_traceable:
  assumes "persistAssistantContextLineage cr faults u1 u2 catalog_entries env input now db = (db1, Inr lin)"
    and "completeAssistantSkillLineage cr faults' uuids env lin (li_workspace_id input) (li_principal_id input) now' db1 = (db2, Inr rids)"
  shows "assistant_action input \<in> set (granted (li_role input)) \<and>
    (\<exists>row pk ivs. rd_resolutions db2 = rd_resolutions db @ [row] \<and> rd_packets db2 = rd_packets db @ [pk] \<and>
       rd_invocations db2 = rd_invocations db @ ivs \<and>
       rw_id row = al_resolution_id lin \<and> rw_workspace_id row = li_workspace_id input \<and> rw_principal_id row = li_principal_id input \<and>
       pk_id pk = al_context_packet_id lin \<and> cp_tenant (pk_packet pk) = li_workspace_id input \<and>
       cp_receipt_ref (pk_packet pk) = Some (rw_id row) \<and>
       cp_selected_skills (pk_packet pk) = rs_selected_skills (rw_resolution row) \<and>
       map (\<lambda>i. (iv_skill_key i, iv_skill_version i)) ivs = map (\<lambda>s. (sk_key s, sk_version s)) (rs_selected_skills (rw_resolution row)) \<and>
       list_all (\<lambda>i. iv_workspace_id i = li_workspace_id input \<and> iv_resolution_id i = Some (rw_id row) \<and> iv_status i = Inv_completed) ivs)"
proof
  let ?in = "\<lparr>ri_tenant = li_workspace_id input, ri_principal = li_principal_id input, ri_role = li_role input, ri_mode = li_mode input,
        ri_action = assistant_action input, ri_serviceP = None, ri_intent = Some (li_intent_ref input), ri_entitlementActive = Some True,
        ri_requiresOperatorMode = Some False, ri_tenantMismatch = Some False\<rparr>"
  have "active_bindings ?in (buildRuntimeBindings catalog_entries) \<noteq> []"
    using persist_Inr(2) [OF assms(1)] by (simp add: assistant_resolution_def resolveRoleAndSkills_def Let_def verdict_allowed)
  then show "assistant_action input \<in> set (granted (li_role input))"
    unfolding active_rows [OF runtime_active] using rows_actions [of "li_role input" "assistant_action input"] granted_rows by simp
next
  let ?sks = "rs_selected_skills (al_resolution lin)"
  note p = persist_Inr(3-5) [OF assms(1)]
  note c = complete_skills_Inr [OF assms(2) [unfolded completeAssistantSkillLineage_def]]
  have ivs: "map (\<lambda>i. (iv_skill_key i, iv_skill_version i)) (map2 (\<lambda>sk i. (invocation_of cr env lin ws pr n sk)\<lparr>iv_id := i\<rparr>) sks is) =
      map (\<lambda>s. (sk_key s, sk_version s)) sks \<and>
      list_all (\<lambda>i. iv_workspace_id i = ws \<and> iv_resolution_id i = Some (al_resolution_id lin) \<and> iv_status i = Inv_completed)
        (map2 (\<lambda>sk i. (invocation_of cr env lin ws pr n sk)\<lparr>iv_id := i\<rparr>) sks is)"
    if "length is = length sks" for ws pr n sks "is"
    using that by (induction sks "is" rule: list_induct2') (simp_all add: invocation_of_def)
  show "\<exists>row pk ivs. rd_resolutions db2 = rd_resolutions db @ [row] \<and> rd_packets db2 = rd_packets db @ [pk] \<and>
       rd_invocations db2 = rd_invocations db @ ivs \<and>
       rw_id row = al_resolution_id lin \<and> rw_workspace_id row = li_workspace_id input \<and> rw_principal_id row = li_principal_id input \<and>
       pk_id pk = al_context_packet_id lin \<and> cp_tenant (pk_packet pk) = li_workspace_id input \<and>
       cp_receipt_ref (pk_packet pk) = Some (rw_id row) \<and>
       cp_selected_skills (pk_packet pk) = rs_selected_skills (rw_resolution row) \<and>
       map (\<lambda>i. (iv_skill_key i, iv_skill_version i)) ivs = map (\<lambda>s. (sk_key s, sk_version s)) (rs_selected_skills (rw_resolution row)) \<and>
       list_all (\<lambda>i. iv_workspace_id i = li_workspace_id input \<and> iv_resolution_id i = Some (rw_id row) \<and> iv_status i = Inv_completed) ivs"
    unfolding conjunct1 [OF c] p(3)
    using ivs [OF conjunct2 [OF c]] p(1)
    by (simp add: assistant_resolution_row_def assistant_packet_def buildContextPacket_def Let_def)
qed

lemma persist_ready:
  assumes "envFlagTrue (le_ROLE_SKILL_CATALOG_ENABLED env)"
    and "rv_allowed (rs_verdict (assistant_resolution cr input (buildRuntimeBindings entries) now))"
    and "\<And>p. length (cr_sha256 cr p) = 32" and "\<And>c. faults c = None"
    and "\<not> list_ex (\<lambda>r. rw_id r = ''rsr_'' @ u1) (rd_resolutions db)" and "\<not> list_ex (\<lambda>r. pk_id r = ''cpk_'' @ u2) (rd_packets db)"
    and "list_all int4 [cs_event_count (li_scope input), cs_document_count (li_scope input), cs_unpromoted_document_count (li_scope input),
           cs_source_count (li_scope input)]"
    and "\<And>i. length (cp_policy_summary (assistant_packet cr input (assistant_resolution cr input (buildRuntimeBindings entries) now) i now)) \<le> 1000"
  shows "\<exists>db' lin. persistAssistantContextLineage cr faults u1 u2 entries env input now db = (db', Inr lin)"
proof -
  define r where "r = assistant_resolution cr input (buildRuntimeBindings entries) now"
  define rid where "rid = ''rsr_'' @ u1"
  define db1 where "db1 = db\<lparr>rd_resolutions := rd_resolutions db @ [(assistant_resolution_row cr env input r now)\<lparr>rw_id := rid\<rparr>]\<rparr>"
  define pk where "pk = assistant_packet cr input r rid now"
  have cov: "rs_skill_coverage r = Cov_resolved"
    using assms(2) by (simp add: r_def assistant_resolution_def resolveRoleAndSkills_def Let_def verdict_allowed)
  have one: "insertRoleSkillResolutionRow u1 (assistant_resolution_row cr env input r now) db = Inr (db1, rid)"
    unfolding insertRoleSkillResolutionRow_def Let_def checked_Inr db1_def rid_def
    using assms(3,5) by (simp add: assistant_resolution_row_def sha256Hex_valid manifest_valid)
  have "cp_context_scope pk = li_scope input" "cp_stale_after_s pk = 900" "cp_receipt_ref pk = Some rid"
    "\<exists>t. cp_context_fingerprint pk = fnv1a t"
    by (auto simp: pk_def assistant_packet_def buildContextPacket_def Let_def DEFAULT_STALE_S_def)
  moreover have "resolution_exists db1 (Some rid)" by (simp add: resolution_exists_def db1_def)
  moreover have "length (cp_policy_summary pk) \<le> 1000" unfolding pk_def r_def by (rule assms(8))
  ultimately have "\<exists>v. insertContextPacketRow u2 pk (sealContextPacket cr sec pk key) db1 = Inr v" for sec key
    unfolding insertContextPacketRow_def Let_def checked_Inr
    using assms(3,6,7) fnv1a_shape by (auto simp: int4_def sealContextPacket_def sha256Hex_valid db1_def)
  then obtain db2 cid where two: "insertContextPacketRow u2 pk (sealContextPacket cr (le_SIGNING_SECRET env) pk (le_SIGNING_KEY_ID env)) db1 = Inr (db2, cid)"
    by (metis surj_pair)
  show ?thesis
    unfolding persistAssistantContextLineage_def catalogBindingsIfEnabled_def
    using assms(1,2,4) cov one two by (simp add: db_call_def Let_def r_def [symmetric] pk_def [symmetric])
qed

lemma complete_ready:
  assumes "\<And>p. length (cr_sha256 cr p) = 32" and "\<And>c. faults c = None" and "inj uuids"
  shows "(\<And>j. k \<le> j \<Longrightarrow> \<not> list_ex (\<lambda>r. iv_id r = ''sir_'' @ uuids j) (rd_invocations db)) \<Longrightarrow>
    resolution_exists db (Some (al_resolution_id lin)) \<Longrightarrow>
    \<exists>db' rids. complete_skills cr faults uuids env lin ws pr now k sks db = (db', Inr rids)"
proof (induction sks arbitrary: k db)
  case (Cons sk sks)
  let ?row = "(invocation_of cr env lin ws pr now sk)\<lparr>iv_id := ''sir_'' @ uuids k\<rparr>"
  let ?db = "db\<lparr>rd_invocations := rd_invocations db @ [?row]\<rparr>"
  have one: "insertSkillInvocationReceiptRow (uuids k) (invocation_of cr env lin ws pr now sk) db = Inr (?db, ''sir_'' @ uuids k)"
    unfolding insertSkillInvocationReceiptRow_def Let_def checked_Inr
    using Cons.prems(1) [of k] Cons.prems(2) assms(1) by (simp add: invocation_of_def sha256Hex_valid)
  have ne: "uuids k \<noteq> uuids j" if "Suc k \<le> j" for j using that assms(3) by (auto dest: injD)
  have "\<exists>db' rids. complete_skills cr faults uuids env lin ws pr now (Suc k) sks ?db = (db', Inr rids)"
    using Cons.prems ne by (intro Cons.IH) (auto simp: resolution_exists_def)
  then obtain db' rids where rest: "complete_skills cr faults uuids env lin ws pr now (Suc k) sks ?db = (db', Inr rids)" by blast
  have call: "db_call faults c v = v" for c and v :: "receipt_error + receipt_db \<times> string" by (simp add: db_call_def assms(2))
  show ?case unfolding complete_skills.simps call one attempt_simps prod.case rest sum.case by blast
qed simp

section \<open>Examples\<close>

definition demo_crypto :: crypto where
  "demo_crypto = \<lparr>cr_sha256 = (\<lambda>_. replicate 32 0), cr_hmac = (\<lambda>_ _. None), cr_iso = (\<lambda>_. ''2026-07-13T00:00:00.000Z'')\<rparr>"

definition empty_receipts :: receipt_db where
  "empty_receipts = \<lparr>rd_resolutions = [], rd_denials = [], rd_invocations = [], rd_closings = [], rd_packets = []\<rparr>"

definition demo_observer :: observer_env where
  "demo_observer = \<lparr>oe_ROLE_SKILL_RESOLVER_ENABLED = Some ''true'', oe_ROLE_SKILL_CATALOG_ENABLED = Some ''true'', oe_SIGNING_SECRET = None,
     oe_SIGNING_KEY_ID = None, oe_DEPLOY_SHA = None, oe_crypto = demo_crypto, oe_now = 0, oe_issued_at = 0,
     oe_uuid_resolution = ''1'', oe_uuid_denial = ''2'', oe_faults = (\<lambda>_. None), oe_error_name = (\<lambda>_. ''Error'')\<rparr>"

lemma flag_true: "envFlagTrue (Some ''true'')"
  by code_simp

theorem decisions_are_receipted_witness:
  "\<exists>row dr. rd_resolutions (fst (perform_effects catalog_entries demo_observer (snd (authorizeSpineWrite (demo_ctx None) Packet_create)) (empty_receipts, []))) = [row] \<and>
     rd_denials (fst (perform_effects catalog_entries demo_observer (snd (authorizeSpineWrite (demo_ctx None) Packet_create)) (empty_receipts, []))) = [dr] \<and>
     rw_workspace_id row = ''w1'' \<and> dn_action dr = ''packet:create''"
proof -
  let ?w = "authorizeSpineWrite (demo_ctx None) Packet_create"
  let ?p = "perform_effects catalog_entries demo_observer (snd ?w) (empty_receipts, [])"
  have ready: "receipts_ready demo_observer empty_receipts"
    by (simp add: receipts_ready_def demo_observer_def demo_crypto_def empty_receipts_def)
  have flag: "envFlagTrue (oe_ROLE_SKILL_RESOLVER_ENABLED demo_observer)" by (simp add: demo_observer_def flag_true)
  have denied: "\<not> sd_allowed (fst ?w)" by code_simp
  have role: "length (coalesce (Option.bind (sc_auth (demo_ctx None)) au_role) ''unknown'') \<le> 800" by (simp add: demo_ctx_def)
  have ws: "coalesce (Option.bind (sc_auth (demo_ctx None)) au_workspace_id) [] = ''w1''" by (simp add: demo_ctx_def)
  from decisions_are_receipted [OF flag ready role, of Packet_create "fst ?w" "snd ?w" catalog_entries "[]" "fst ?p" "snd ?p"] denied ws
  show ?thesis by (auto simp: empty_receipts_def)
qed

definition demo_lineage :: lineage_input where
  "demo_lineage = \<lparr>li_workspace_id = ''w1'', li_principal_id = ''u1'', li_role = ''viewer'', li_mode = ''ask'', li_intent_ref = ''i1'',
     li_scope = \<lparr>cs_event_count = 3, cs_document_count = 1, cs_unpromoted_document_count = 0, cs_source_count = 2\<rparr>,
     li_redaction_profile = ''viewer'', li_client_empty = False, li_action = None\<rparr>"

definition demo_lineage_env :: lineage_env where
  "demo_lineage_env = \<lparr>le_ROLE_SKILL_CATALOG_ENABLED = Some ''true'', le_SIGNING_SECRET = None, le_SIGNING_KEY_ID = None, le_DEPLOY_SHA = None\<rparr>"

lemma demo_allowed: "rv_allowed (rs_verdict (assistant_resolution demo_crypto demo_lineage (buildRuntimeBindings catalog_entries) 0))"
proof -
  have "''assistant:answer'' \<in> set (actions_of ''viewer'')" unfolding granted_rows by (simp add: granted_def assistant_actions_def)
  then show ?thesis
    using active_rows [OF runtime_active] rows_actions [of "''viewer''" "''assistant:answer''"]
    by (simp add: assistant_resolution_def resolveRoleAndSkills_def Let_def verdict_allowed gates_pass_def demo_lineage_def assistant_action_def)
qed

theorem assistant_run_is_traceable_witness:
  "\<exists>db1 lin db2 rids. persistAssistantContextLineage demo_crypto (\<lambda>_. None) ''1'' ''2'' catalog_entries demo_lineage_env demo_lineage 0 empty_receipts = (db1, Inr lin) \<and>
     completeAssistantSkillLineage demo_crypto (\<lambda>_. None) (\<lambda>k. replicate k CHR ''a'') demo_lineage_env lin ''w1'' ''u1'' 0 db1 = (db2, Inr rids) \<and>
     length (rd_packets db2) = 1"
proof -
  have sha: "length (cr_sha256 demo_crypto p) = 32" for p by (simp add: demo_crypto_def)
  have sum: "length (cp_policy_summary (assistant_packet demo_crypto demo_lineage r i 0)) \<le> 1000" for r i
    by (cases "rs_skill_coverage r")
      (simp_all add: assistant_packet_def buildContextPacket_def policy_summary_def Let_def demo_lineage_def show_int_def show_nat.simps)
  obtain db1 lin where p: "persistAssistantContextLineage demo_crypto (\<lambda>_. None) ''1'' ''2'' catalog_entries demo_lineage_env demo_lineage 0 empty_receipts = (db1, Inr lin)"
    using persist_ready [of demo_lineage_env demo_crypto demo_lineage catalog_entries 0 "\<lambda>_. None" "''1''" empty_receipts "''2''"]
      demo_allowed sha sum by (auto simp: demo_lineage_env_def flag_true empty_receipts_def int4_def demo_lineage_def)
  have "inj (\<lambda>k. replicate k (CHR ''a''))" by (rule injI) (metis length_replicate)
  then obtain db2 rids where c: "completeAssistantSkillLineage demo_crypto (\<lambda>_. None) (\<lambda>k. replicate k CHR ''a'') demo_lineage_env lin ''w1'' ''u1'' 0 db1 = (db2, Inr rids)"
    using complete_ready [of demo_crypto "\<lambda>_. None" "\<lambda>k. replicate k CHR ''a''" 0 db1 lin] sha persist_Inr(5) [OF p]
    unfolding completeAssistantSkillLineage_def by (fastforce simp: empty_receipts_def resolution_exists_def)
  have who: "li_workspace_id demo_lineage = ''w1''" "li_principal_id demo_lineage = ''u1''" by (simp_all add: demo_lineage_def)
  from assistant_run_is_traceable [OF p c [folded who]] p c show ?thesis by (auto simp: empty_receipts_def)
qed

end
