(* ===== verification/Data_Graph.thy ===== *)
theory Data_Graph
  imports Signals "HOL-Library.Char_ord" "HOL-Library.List_Lexorder" "HOL-Library.Word"
begin

text \<open>
  The unified data graph (\<^verbatim>\<open>graph/data-graph.ts\<close>): the pure projection of a workspace's relational facts
  into nodes and edges, its content hash, and the cause traversal. Every definition follows one function
  or one phase of \<^verbatim>\<open>buildDataGraph\<close>; the two sets the builder keeps of seen nodes and edges are the
  identifiers and keys of the lists built so far.

  \<^verbatim>\<open>String(v)\<close> of a number is the parameter \<open>num\<close>.
\<close>

section \<open>Nodes and edges\<close>

datatype node_type = N_workspace | N_project | N_lens | N_intent | N_packet | N_event | N_source | N_document

datatype edge_type =
  E_contains | E_views | E_scopes | E_derived_from | E_realizes | E_feeds | E_caused_by | E_governs | E_evidences

datatype plane = P_event_sourcing | P_governance | P_synthetic

datatype domain_kind = D_lens | D_life | D_unknown

record graph_node =
  gn_id :: string
  gn_type :: node_type
  gn_workspace_id :: string
  gn_ref_id :: string
  gn_label :: "string option"
  gn_description :: string
  gn_plane :: "plane option"
  gn_occurred_at :: "string option"
  gn_ingested_at :: "string option"
  gn_domain_ref :: "(domain_kind \<times> string) option"

record graph_edge =
  ge_from :: string
  ge_to :: string
  ge_type :: edge_type

fun node_type_str :: "node_type \<Rightarrow> string" where
  "node_type_str N_workspace = ''workspace''"
| "node_type_str N_project = ''project''"
| "node_type_str N_lens = ''lens''"
| "node_type_str N_intent = ''intent''"
| "node_type_str N_packet = ''packet''"
| "node_type_str N_event = ''event''"
| "node_type_str N_source = ''source''"
| "node_type_str N_document = ''document''"

fun edge_type_str :: "edge_type \<Rightarrow> string" where
  "edge_type_str E_contains = ''contains''"
| "edge_type_str E_views = ''views''"
| "edge_type_str E_scopes = ''scopes''"
| "edge_type_str E_derived_from = ''derived_from''"
| "edge_type_str E_realizes = ''realizes''"
| "edge_type_str E_feeds = ''feeds''"
| "edge_type_str E_caused_by = ''caused_by''"
| "edge_type_str E_governs = ''governs''"
| "edge_type_str E_evidences = ''evidences''"

fun plane_str :: "plane \<Rightarrow> string" where
  "plane_str P_event_sourcing = ''event_sourcing''"
| "plane_str P_governance = ''governance''"
| "plane_str P_synthetic = ''synthetic''"

fun domain_kind_str :: "domain_kind \<Rightarrow> string" where
  "domain_kind_str D_lens = ''lens''"
| "domain_kind_str D_life = ''life''"
| "domain_kind_str D_unknown = ''unknown''"

definition CAUSE_EDGE_TYPES :: "edge_type list" where
  "CAUSE_EDGE_TYPES = [E_caused_by, E_realizes, E_derived_from]"

section \<open>Resolving a domain identifier\<close>

definition is_word_char :: "char \<Rightarrow> bool" where
  "is_word_char c =
     (let n = (of_char c :: nat) in (97 \<le> n \<and> n \<le> 122) \<or> (65 \<le> n \<and> n \<le> 90) \<or> (48 \<le> n \<and> n \<le> 57) \<or> n = 95)"

text \<open>One of the four life areas followed by a word boundary.\<close>

definition life_area :: "string \<Rightarrow> bool" where
  "life_area s =
     list_ex (\<lambda>w. js_starts_with s w \<and> (case drop (length w) s of [] \<Rightarrow> True | c # _ \<Rightarrow> \<not> is_word_char c))
       [''career'', ''health'', ''companies'', ''trust'']"

text \<open>\<^verbatim>\<open>/^(domain:mbp[:.]|life:|domain:[^:]*:(career|health|companies|trust)\b)/i\<close>\<close>

definition life_namespace :: "string \<Rightarrow> bool" where
  "life_namespace i =
     (let s = js_lower i in
      js_starts_with s ''domain:mbp:'' \<or> js_starts_with s ''domain:mbp.'' \<or> js_starts_with s ''life:'' \<or>
      (js_starts_with s ''domain:'' \<and>
        (case dropWhile (\<lambda>c. c \<noteq> CHR '':'') (drop 7 s) of [] \<Rightarrow> False | _ # rest \<Rightarrow> life_area rest)))"

definition resolveDomainId :: "string option \<Rightarrow> string list \<Rightarrow> string list \<Rightarrow> (domain_kind \<times> string) option" where
  "resolveDomainId domainId lensIds lifeDomainIds =
     (let i = js_trim (the_default [] domainId)
      in if i = [] then None
         else if i \<in> set lensIds then Some (D_lens, i)
         else if i \<in> set lifeDomainIds then Some (D_life, i)
         else if life_namespace i then Some (D_life, i)
         else Some (D_unknown, i))"

section \<open>Facts\<close>

record workspace_fact =
  wf_id :: string
  wf_name :: "string option"

record project_fact =
  pf_id :: string
  pf_workspace_id :: string
  pf_name :: "string option"
  pf_description :: "string option"
  pf_created_at :: "string option"

record lens_fact =
  lf_id :: string
  lf_workspace_id :: "string option"
  lf_slug :: "string option"
  lf_label :: "string option"
  lf_created_at :: "string option"

record intent_fact =
  if_id :: string
  if_workspace_id :: "string option"
  if_project_id :: "string option"
  if_domain_id :: "string option"
  if_derived_from :: "string option"
  if_title :: "string option"
  if_created_at :: "string option"

record unified_fact =
  uf_id :: string
  uf_plane :: plane
  uf_source_plane_id :: "string option"
  uf_workspace_id :: "string option"
  uf_project_id :: "string option"
  uf_domain_id :: "string option"
  uf_kind :: "string option"
  uf_occurred_at :: "string option"
  uf_ingested_at :: "string option"
  uf_summary :: "string option"
  uf_title :: "string option"
  uf_intent_id :: "string option"

record packet_fact =
  kf_id :: string
  kf_workspace_id :: "string option"
  kf_project_id :: "string option"
  kf_event_id :: "string option"
  kf_title :: "string option"
  kf_summary :: "string option"
  kf_created_at :: "string option"
  kf_updated_at :: "string option"

record binding_fact =
  bf_id :: string
  bf_workspace_id :: "string option"
  bf_project_id :: "string option"
  bf_source_kind :: "string option"
  bf_source_ref :: json
  bf_created_at :: "string option"

record document_fact =
  df_id :: string
  df_workspace_id :: "string option"
  df_project_id :: "string option"
  df_title :: "string option"
  df_content_hash :: "string option"
  df_supersedes_id :: "string option"
  df_created_at :: "string option"

record evidence_link =
  el_content_hash :: "string option"
  el_packet_id :: "string option"
  el_event_id :: "string option"

record data_graph_facts =
  fa_workspaces :: "workspace_fact list"
  fa_projects :: "project_fact list"
  fa_lenses :: "lens_fact list"
  fa_memberships :: "(string \<times> string) list"
  fa_intents :: "intent_fact list"
  fa_unified :: "unified_fact list"
  fa_packets :: "packet_fact list"
  fa_bindings :: "binding_fact list"
  fa_documents :: "document_fact list"
  fa_evidence_links :: "evidence_link list"
  fa_causation :: "(string \<times> string) list"

definition PACKET_KINDS :: "string list" where
  "PACKET_KINDS = [''packet'', ''decision'', ''governance_event'', ''sign_off'']"

section \<open>Labels\<close>

fun js_string :: "(real \<Rightarrow> string) \<Rightarrow> json \<Rightarrow> string" where
  "js_string num JNull = ''null''"
| "js_string num (JBool b) = (if b then ''true'' else ''false'')"
| "js_string num (JNum v) = num v"
| "js_string num (JStr s) = s"
| "js_string num (JArr vs) = js_join '','' (map (\<lambda>v. if v = JNull then [] else js_string num v) vs)"
| "js_string num (JObj kvs) = ''[object Object]''"

text \<open>The first of the keys whose value is neither missing nor null.\<close>

definition pick_key :: "(string \<times> json) list \<Rightarrow> string list \<Rightarrow> json option" where
  "pick_key obj ks = List.find (\<lambda>v. v \<noteq> JNull) (List.map_filter (map_of obj) ks)"

definition sourceLabel :: "(real \<Rightarrow> string) \<Rightarrow> binding_fact \<Rightarrow> string" where
  "sourceLabel num b =
     (let fallback = or_else (bf_source_kind b) (bf_id b)
      in case bf_source_ref b of
           JObj r \<Rightarrow>
             (case pick_key r [''label'', ''name'', ''repo'', ''path'', ''url''] of
                Some v \<Rightarrow> if js_trim (js_string num v) \<noteq> [] then take 200 (js_string num v) else fallback
              | None \<Rightarrow> fallback)
         | JStr s \<Rightarrow> if js_trim s \<noteq> [] then take 200 s else fallback
         | _ \<Rightarrow> fallback)"

definition nonEmpty :: "string option list \<Rightarrow> string" where
  "nonEmpty vals =
     (case List.find (\<lambda>v. case v of None \<Rightarrow> False | Some s \<Rightarrow> js_trim s \<noteq> []) vals of
        Some (Some s) \<Rightarrow> take 280 s | _ \<Rightarrow> [])"

section \<open>The builder\<close>

record graph =
  gr_nodes :: "graph_node list"
  gr_edges :: "graph_edge list"

definition seen :: "graph \<Rightarrow> string \<Rightarrow> bool" where
  "seen g i = (i \<in> set (map gn_id (gr_nodes g)))"

definition addNode :: "graph_node \<Rightarrow> graph \<Rightarrow> graph" where
  "addNode n g = (if seen g (gn_id n) then g else g\<lparr>gr_nodes := gr_nodes g @ [n]\<rparr>)"

definition edge_key :: "graph_edge \<Rightarrow> string" where
  "edge_key e = ge_from e @ ''>'' @ edge_type_str (ge_type e) @ ''>'' @ ge_to e"

definition addEdge :: "string \<Rightarrow> string \<Rightarrow> edge_type \<Rightarrow> graph \<Rightarrow> graph" where
  "addEdge from to ty g =
     (let e = \<lparr>ge_from = from, ge_to = to, ge_type = ty\<rparr>
      in if edge_key e \<in> set (map edge_key (gr_edges g)) then g else g\<lparr>gr_edges := gr_edges g @ [e]\<rparr>)"

text \<open>An edge between two rows of the facts, added when the optional identifier names one of \<open>ids\<close>.\<close>

definition link_if :: "string option \<Rightarrow> string list \<Rightarrow> (string \<Rightarrow> graph \<Rightarrow> graph) \<Rightarrow> graph \<Rightarrow> graph" where
  "link_if ref ids add g = (case ref of None \<Rightarrow> g | Some i \<Rightarrow> if i \<noteq> [] \<and> i \<in> set ids then add i g else g)"

abbreviation in_ws :: "string \<Rightarrow> string option \<Rightarrow> bool" where
  "in_ws ws w \<equiv> the_default ws w = ws"

definition lens_ids :: "string \<Rightarrow> data_graph_facts \<Rightarrow> string list" where
  "lens_ids ws fs = js_set (map lf_id (filter (\<lambda>l. lf_workspace_id l = Some ws \<or> lf_workspace_id l = None) (fa_lenses fs)))"

definition ws_projects :: "string \<Rightarrow> data_graph_facts \<Rightarrow> project_fact list" where
  "ws_projects ws fs = filter (\<lambda>p. pf_workspace_id p = ws) (fa_projects fs)"

definition project_ids :: "string \<Rightarrow> data_graph_facts \<Rightarrow> string list" where
  "project_ids ws fs = js_set (map pf_id (ws_projects ws fs))"

definition intent_ids :: "string \<Rightarrow> data_graph_facts \<Rightarrow> string list" where
  "intent_ids ws fs = js_set (map if_id (filter (\<lambda>i. in_ws ws (if_workspace_id i)) (fa_intents fs)))"

definition workspace_phase :: "string \<Rightarrow> data_graph_facts \<Rightarrow> graph \<Rightarrow> graph" where
  "workspace_phase ws fs g =
     (let name = Option.bind (List.find (\<lambda>w. wf_id w = ws) (fa_workspaces fs)) wf_name
      in addNode \<lparr>gn_id = ''workspace:'' @ ws, gn_type = N_workspace, gn_workspace_id = ws, gn_ref_id = ws,
                  gn_label = name, gn_description = nonEmpty [name, Some ws], gn_plane = None,
                  gn_occurred_at = None, gn_ingested_at = None, gn_domain_ref = None\<rparr> g)"

definition project_step :: "string \<Rightarrow> graph \<Rightarrow> project_fact \<Rightarrow> graph" where
  "project_step ws g p =
     addEdge (''workspace:'' @ ws) (''project:'' @ pf_id p) E_contains
       (addNode \<lparr>gn_id = ''project:'' @ pf_id p, gn_type = N_project, gn_workspace_id = ws, gn_ref_id = pf_id p,
                 gn_label = Some (nonEmpty [pf_name p, Some (pf_id p)]),
                 gn_description = nonEmpty [pf_description p, pf_name p, Some (pf_id p)], gn_plane = None,
                 gn_occurred_at = pf_created_at p, gn_ingested_at = None, gn_domain_ref = None\<rparr> g)"

definition binding_step :: "(real \<Rightarrow> string) \<Rightarrow> string \<Rightarrow> string list \<Rightarrow> graph \<Rightarrow> binding_fact \<Rightarrow> graph" where
  "binding_step num ws pids g b =
     (if \<not> in_ws ws (bf_workspace_id b) then g
      else let sid = ''source:'' @ bf_id b; lbl = sourceLabel num b
           in link_if (bf_project_id b) pids (\<lambda>p. addEdge sid (''project:'' @ p) E_feeds)
                (addNode \<lparr>gn_id = sid, gn_type = N_source, gn_workspace_id = ws, gn_ref_id = bf_id b, gn_label = Some lbl,
                          gn_description = nonEmpty [Some lbl, bf_source_kind b, Some (bf_id b)], gn_plane = None,
                          gn_occurred_at = bf_created_at b, gn_ingested_at = None, gn_domain_ref = None\<rparr> g))"

definition lens_step :: "string \<Rightarrow> graph \<Rightarrow> lens_fact \<Rightarrow> graph" where
  "lens_step ws g l =
     addNode \<lparr>gn_id = ''lens:'' @ lf_id l, gn_type = N_lens, gn_workspace_id = ws, gn_ref_id = lf_id l,
              gn_label = Some (the_default (the_default (lf_id l) (lf_slug l)) (lf_label l)),
              gn_description = nonEmpty [lf_label l, lf_slug l, Some (lf_id l)], gn_plane = None,
              gn_occurred_at = lf_created_at l, gn_ingested_at = None, gn_domain_ref = None\<rparr> g"

definition membership_step :: "string list \<Rightarrow> string list \<Rightarrow> graph \<Rightarrow> string \<times> string \<Rightarrow> graph" where
  "membership_step lids pids g m =
     (if fst m \<in> set lids \<and> snd m \<in> set pids then addEdge (''lens:'' @ fst m) (''project:'' @ snd m) E_views g else g)"

definition intent_step :: "string \<Rightarrow> string list \<Rightarrow> string list \<Rightarrow> string list \<Rightarrow> graph \<Rightarrow> intent_fact \<Rightarrow> graph" where
  "intent_step ws lids pids iids g i =
     (if \<not> in_ws ws (if_workspace_id i) then g
      else let nid = ''intent:'' @ if_id i in
        link_if (if_derived_from i) iids (\<lambda>d. addEdge nid (''intent:'' @ d) E_derived_from)
          (link_if (if_project_id i) pids (\<lambda>p. addEdge (''project:'' @ p) nid E_scopes)
            (addNode \<lparr>gn_id = nid, gn_type = N_intent, gn_workspace_id = ws, gn_ref_id = if_id i,
                      gn_label = Some (nonEmpty [if_title i, Some (if_id i)]),
                      gn_description = nonEmpty [if_title i, Some (if_id i)], gn_plane = None,
                      gn_occurred_at = if_created_at i, gn_ingested_at = None,
                      gn_domain_ref = resolveDomainId (if_domain_id i) lids []\<rparr> g)))"

definition unified_step :: "string \<Rightarrow> string list \<Rightarrow> string list \<Rightarrow> string list \<Rightarrow> graph \<Rightarrow> unified_fact \<Rightarrow> graph" where
  "unified_step ws lids pids iids g u =
     (if \<not> in_ws ws (uf_workspace_id u) then g
      else let isPacket = (uf_plane u = P_governance \<or> or_else (uf_kind u) [] \<in> set PACKET_KINDS);
               ty = (if isPacket then N_packet else N_event);
               ref = or_else (uf_source_plane_id u) (uf_id u);
               nid = node_type_str ty @ '':'' @ ref
           in link_if (uf_intent_id u) iids (\<lambda>i. addEdge nid (''intent:'' @ i) E_realizes)
                (link_if (uf_project_id u) pids (\<lambda>p. addEdge (''project:'' @ p) nid E_scopes)
                  (addNode \<lparr>gn_id = nid, gn_type = ty, gn_workspace_id = ws, gn_ref_id = ref, gn_label = uf_summary u,
                            gn_description = nonEmpty [uf_summary u, uf_title u, uf_source_plane_id u, Some (uf_id u)],
                            gn_plane = Some (uf_plane u), gn_occurred_at = uf_occurred_at u, gn_ingested_at = uf_ingested_at u,
                            gn_domain_ref = resolveDomainId (uf_domain_id u) lids []\<rparr> g)))"

definition packet_step :: "string \<Rightarrow> string list \<Rightarrow> graph \<Rightarrow> packet_fact \<Rightarrow> graph" where
  "packet_step ws pids g k =
     (if \<not> in_ws ws (kf_workspace_id k) then g
      else let nid = ''packet:'' @ kf_id k;
               g1 = link_if (kf_project_id k) pids (\<lambda>p. addEdge (''project:'' @ p) nid E_scopes)
                      (addNode \<lparr>gn_id = nid, gn_type = N_packet, gn_workspace_id = ws, gn_ref_id = kf_id k,
                                gn_label = Some (nonEmpty [kf_title k, Some (kf_id k)]),
                                gn_description = nonEmpty [kf_summary k, kf_title k, Some (kf_id k)],
                                gn_plane = Some P_governance, gn_occurred_at = kf_created_at k,
                                gn_ingested_at = (case kf_updated_at k of None \<Rightarrow> kf_created_at k | t \<Rightarrow> t),
                                gn_domain_ref = None\<rparr> g)
           in case kf_event_id k of
                None \<Rightarrow> g1
              | Some e \<Rightarrow> if e \<noteq> [] \<and> seen g1 (''event:'' @ e) then addEdge nid (''event:'' @ e) E_caused_by g1 else g1)"

definition document_ids :: "string \<Rightarrow> data_graph_facts \<Rightarrow> string list" where
  "document_ids ws fs = js_set (map df_id (filter (\<lambda>d. in_ws ws (df_workspace_id d)) (fa_documents fs)))"

definition document_step :: "string \<Rightarrow> string list \<Rightarrow> string list \<Rightarrow> graph \<Rightarrow> document_fact \<Rightarrow> graph" where
  "document_step ws pids dids g d =
     (if \<not> in_ws ws (df_workspace_id d) then g
      else let did = ''document:'' @ df_id d;
               g1 = addNode \<lparr>gn_id = did, gn_type = N_document, gn_workspace_id = ws, gn_ref_id = df_id d,
                             gn_label = Some (nonEmpty [df_title d, Some (df_id d)]),
                             gn_description = nonEmpty [df_title d, Some (df_id d)], gn_plane = None,
                             gn_occurred_at = df_created_at d, gn_ingested_at = None, gn_domain_ref = None\<rparr> g;
               g2 = (case df_project_id d of
                       Some p \<Rightarrow> if p \<noteq> [] \<and> p \<in> set pids then addEdge (''project:'' @ p) did E_contains g1
                                 else addEdge (''workspace:'' @ ws) did E_contains g1
                     | None \<Rightarrow> addEdge (''workspace:'' @ ws) did E_contains g1)
           in link_if (df_supersedes_id d) dids (\<lambda>s. addEdge did (''document:'' @ s) E_derived_from) g2)"

definition docs_by_hash :: "string \<Rightarrow> document_fact list \<Rightarrow> (string \<times> string list) list" where
  "docs_by_hash ws ds =
     foldl (\<lambda>m d. let h = js_trim (the_default [] (df_content_hash d))
                  in if \<not> in_ws ws (df_workspace_id d) \<or> h = [] then m
                     else entry_update h (\<lambda>arr. arr @ [''document:'' @ df_id d]) m) [] ds"

definition evidence_targets :: "evidence_link \<Rightarrow> string list" where
  "evidence_targets ev =
     (case el_packet_id ev of Some p \<Rightarrow> if p = [] then [] else [''packet:'' @ p] | None \<Rightarrow> []) @
     (case el_event_id ev of Some e \<Rightarrow> if e = [] then [] else [''event:'' @ e] | None \<Rightarrow> [])"

definition evidence_step :: "(string \<times> string list) list \<Rightarrow> graph \<Rightarrow> evidence_link \<Rightarrow> graph" where
  "evidence_step byHash g ev =
     (let h = js_trim (the_default [] (el_content_hash ev))
      in if h = [] then g
         else foldl (\<lambda>g did. foldl (\<lambda>g t. if seen g t then addEdge did t E_evidences g else g) g (evidence_targets ev)) g
                (the_default [] (map_of byHash h)))"

definition causation_step :: "graph \<Rightarrow> string \<times> string \<Rightarrow> graph" where
  "causation_step g c =
     (if seen g (fst c) \<and> seen g (snd c) \<and> fst c \<noteq> snd c then addEdge (fst c) (snd c) E_caused_by g else g)"

definition project_graph :: "(real \<Rightarrow> string) \<Rightarrow> string \<Rightarrow> data_graph_facts \<Rightarrow> graph" where
  "project_graph num ws fs =
     (let lids = lens_ids ws fs; pids = project_ids ws fs; iids = intent_ids ws fs; dids = document_ids ws fs;
          g0 = workspace_phase ws fs \<lparr>gr_nodes = [], gr_edges = []\<rparr>;
          g1 = foldl (project_step ws) g0 (ws_projects ws fs);
          g2 = foldl (binding_step num ws pids) g1 (fa_bindings fs);
          g3 = foldl (lens_step ws) g2 (filter (\<lambda>l. lf_workspace_id l = Some ws) (fa_lenses fs));
          g4 = foldl (membership_step lids pids) g3 (fa_memberships fs);
          g5 = foldl (intent_step ws lids pids iids) g4 (fa_intents fs);
          g6 = foldl (unified_step ws lids pids iids) g5 (fa_unified fs);
          g7 = foldl (packet_step ws pids) g6 (fa_packets fs);
          g8 = foldl (document_step ws pids dids) g7 (fa_documents fs);
          g9 = foldl (evidence_step (docs_by_hash ws (fa_documents fs))) g8 (fa_evidence_links fs)
      in foldl causation_step g9 (fa_causation fs))"

section \<open>The content hash\<close>

definition opt_text :: "string option \<Rightarrow> string" where
  "opt_text v = the_default [] v"

definition node_key :: "graph_node \<Rightarrow> string" where
  "node_key n =
     gn_id n @ ''|'' @ node_type_str (gn_type n) @ ''|'' @ opt_text (map_option plane_str (gn_plane n)) @ ''|'' @
     opt_text (map_option (\<lambda>d. domain_kind_str (fst d)) (gn_domain_ref n)) @ '':'' @ opt_text (map_option snd (gn_domain_ref n)) @ ''|'' @
     opt_text (gn_occurred_at n) @ ''|'' @ opt_text (gn_ingested_at n)"

definition hash_material :: "graph_node list \<Rightarrow> graph_edge list \<Rightarrow> string" where
  "hash_material nodes edges =
     js_join [CHR 0x0A] (sort (map node_key nodes)) @ [CHR 0x0A, CHR ''#'', CHR 0x0A] @
     js_join [CHR 0x0A] (sort (map edge_key edges))"

text \<open>
  \<^verbatim>\<open>h << 5\<close> converts to a signed 32-bit integer and shifts within 32 bits, \<^verbatim>\<open>>>> 0\<close> reads the sum modulo
  \<open>2 ^ 32\<close>.
\<close>

definition to_int32 :: "int \<Rightarrow> int" where
  "to_int32 n = (let m = n mod 2 ^ 32 in if m \<ge> 2 ^ 31 then m - 2 ^ 32 else m)"

definition hash_char :: "int \<Rightarrow> char \<Rightarrow> int" where
  "hash_char h c = (to_int32 (h * 2 ^ 5) + h + int (of_char c)) mod 2 ^ 32"

fun hex_nat :: "nat \<Rightarrow> string" where
  "hex_nat n =
     (let d = (\<lambda>k. if k < 10 then char_of (48 + k) else char_of (87 + k))
      in if n < 16 then [d n] else hex_nat (n div 16) @ [d (n mod 16)])"

declare hex_nat.simps [simp del]

definition computeGraphHash :: "graph_node list \<Rightarrow> graph_edge list \<Rightarrow> string" where
  "computeGraphHash nodes edges = ''dgh_'' @ hex_nat (nat (foldl hash_char 5381 (hash_material nodes edges)))"

record graph_snapshot =
  sn_workspace_id :: string
  sn_graph_version :: nat
  sn_graph_hash :: string
  sn_node_count :: nat
  sn_edge_count :: nat

definition buildDataGraph :: "(real \<Rightarrow> string) \<Rightarrow> string \<Rightarrow> data_graph_facts \<Rightarrow> graph \<times> graph_snapshot" where
  "buildDataGraph num ws fs =
     (let g = project_graph num ws fs
      in (g, \<lparr>sn_workspace_id = ws, sn_graph_version = 1, sn_graph_hash = computeGraphHash (gr_nodes g) (gr_edges g),
              sn_node_count = length (gr_nodes g), sn_edge_count = length (gr_edges g)\<rparr>))"

section \<open>Cause traversal\<close>

record trace_state =
  tc_visited :: "string list"
  tc_roots :: "string list"
  tc_onPath :: "string list"
  tc_done :: "string list"
  tc_cyclic :: bool

record cause_trace =
  ct_start :: string
  ct_visited :: "string list"
  ct_roots :: "string list"
  ct_cyclic :: bool
  ct_terminated :: bool

datatype direction = Backward | Forward

definition cause_adjacency :: "direction \<Rightarrow> graph_edge list \<Rightarrow> (string \<times> string list) list" where
  "cause_adjacency dir es =
     foldl (\<lambda>m e. if ge_type e \<notin> set CAUSE_EDGE_TYPES then m
                  else let (from, to) = (if dir = Backward then (ge_from e, ge_to e) else (ge_to e, ge_from e))
                       in entry_update from (\<lambda>arr. arr @ [to]) m) [] es"

fun fold_option :: "('a \<Rightarrow> 's \<Rightarrow> 's option) \<Rightarrow> 'a list \<Rightarrow> 's \<Rightarrow> 's option" where
  "fold_option f [] s = Some s"
| "fold_option f (x # xs) s = (case f x s of None \<Rightarrow> None | Some s' \<Rightarrow> fold_option f xs s')"

text \<open>The recursive closure \<^verbatim>\<open>walk\<close>; the first argument bounds the depth of the recursion.\<close>

primrec walk :: "nat \<Rightarrow> (string \<Rightarrow> string list) \<Rightarrow> string \<Rightarrow> trace_state \<Rightarrow> trace_state option" where
  "walk 0 nexts i s = None"
| "walk (Suc depth) nexts i s =
     (if i \<in> set (tc_onPath s) then Some (s\<lparr>tc_cyclic := True\<rparr>)
      else if i \<in> set (tc_done s) then Some s
      else let s1 = s\<lparr>tc_onPath := set_add i (tc_onPath s), tc_visited := tc_visited s @ [i]\<rparr>
           in case (if nexts i = [] then Some (s1\<lparr>tc_roots := set_add i (tc_roots s1)\<rparr>)
                    else fold_option (walk depth nexts) (nexts i) s1) of
                None \<Rightarrow> None
              | Some s2 \<Rightarrow> Some (s2\<lparr>tc_onPath := removeAll i (tc_onPath s2), tc_done := set_add i (tc_done s2)\<rparr>))"

definition traceCause :: "graph_edge list \<Rightarrow> string \<Rightarrow> direction \<Rightarrow> cause_trace option" where
  "traceCause es start dir =
     map_option (\<lambda>s. \<lparr>ct_start = start, ct_visited = tc_visited s, ct_roots = tc_roots s, ct_cyclic = tc_cyclic s,
                      ct_terminated = (\<not> tc_cyclic s \<and> tc_roots s \<noteq> [])\<rparr>)
       (walk (length es + 2) (\<lambda>i. the_default [] (map_of (cause_adjacency dir es) i)) start
          \<lparr>tc_visited = [], tc_roots = [], tc_onPath = [], tc_done = [], tc_cyclic = False\<rparr>)"

definition effectNodesRequiringCause :: "graph_node list \<Rightarrow> graph_edge list \<Rightarrow> graph_node list" where
  "effectNodesRequiringCause nodes edges =
     (let hasCauseEdgeFrom = map ge_from (filter (\<lambda>e. ge_type e \<in> set CAUSE_EDGE_TYPES) edges)
      in filter (\<lambda>n. gn_type n = N_packet \<or> (gn_type n = N_event \<and> gn_id n \<in> set hasCauseEdgeFrom)) nodes)"

end
