(* ===== verification/Cause_Trace.thy ===== *)
theory Cause_Trace
  imports Data_Graph
begin

text \<open>
  Correctness of the cause traversal \<^verbatim>\<open>traceCause\<close>: the depth-first walk returns on every graph, visits
  exactly the nodes reachable over cause edges, finds exactly the reachable root causes, and reports a
  cycle exactly when one is reachable.
\<close>

section \<open>The relation the walk follows\<close>

definition oriented :: "direction \<Rightarrow> graph_edge \<Rightarrow> string \<times> string" where
  "oriented dir e = (if dir = Backward then (ge_from e, ge_to e) else (ge_to e, ge_from e))"

definition cause_rel :: "direction \<Rightarrow> graph_edge list \<Rightarrow> (string \<times> string) set" where
  "cause_rel dir es = oriented dir ` {e \<in> set es. ge_type e \<in> set CAUSE_EDGE_TYPES}"

definition succ_rel :: "(string \<Rightarrow> string list) \<Rightarrow> (string \<times> string) set" where
  "succ_rel nexts = {(x, y). y \<in> set (nexts x)}"

lemma succ_rel_iff: "(x, y) \<in> succ_rel nexts \<longleftrightarrow> y \<in> set (nexts x)"
  by (simp add: succ_rel_def)

lemma set_entry_adjacency:
  "set (entry (foldl (\<lambda>m e. if ge_type e \<notin> set CAUSE_EDGE_TYPES then m
      else let (from, to) = (if dir = Backward then (ge_from e, ge_to e) else (ge_to e, ge_from e))
           in entry_update from (\<lambda>arr. arr @ [to]) m) m es) x) = set (entry m x) \<union> {y. (x, y) \<in> cause_rel dir es}"
proof (induction es arbitrary: m)
  case Nil
  then show ?case by (simp add: cause_rel_def)
next
  case (Cons e es)
  have "cause_rel dir (e # es) = (if ge_type e \<in> set CAUSE_EDGE_TYPES then {oriented dir e} else {}) \<union> cause_rel dir es"
    by (auto simp: cause_rel_def)
  then show ?case
    by (auto simp: Cons.IH entry_entry_update oriented_def Let_def split: prod.splits if_splits)
qed

lemma succ_rel_adjacency: "succ_rel (\<lambda>i. the_default [] (map_of (cause_adjacency dir es) i)) = cause_rel dir es"
proof -
  have "set (entry (cause_adjacency dir es) x) = {y. (x, y) \<in> cause_rel dir es}" for x
    unfolding cause_adjacency_def set_entry_adjacency by (simp add: entry_def)
  then show ?thesis by (auto simp: succ_rel_def entry_def)
qed

section \<open>An invariant of the walk\<close>

definition trace_inv :: "(string \<Rightarrow> string list) \<Rightarrow> string \<Rightarrow> trace_state \<Rightarrow> bool" where
  "trace_inv nexts start s \<longleftrightarrow>
     distinct (tc_visited s) \<and> set (tc_visited s) = set (tc_onPath s) \<union> set (tc_done s) \<and>
     set (tc_onPath s) \<inter> set (tc_done s) = {} \<and>
     set (tc_visited s) \<subseteq> (succ_rel nexts)\<^sup>* `` {start} \<and>
     succ_rel nexts `` set (tc_done s) \<subseteq> set (tc_done s) \<union> set (tc_onPath s) \<and>
     set (tc_roots s) = {x \<in> set (tc_visited s). nexts x = []} \<and>
     (tc_cyclic s \<longrightarrow> (\<exists>x. (start, x) \<in> (succ_rel nexts)\<^sup>* \<and> (x, x) \<in> (succ_rel nexts)\<^sup>+)) \<and>
     (\<not> tc_cyclic s \<longrightarrow> succ_rel nexts `` set (tc_done s) \<subseteq> set (tc_done s) \<and>
        acyclic (succ_rel nexts \<inter> set (tc_done s) \<times> set (tc_done s)))"

definition trace_pre :: "(string \<Rightarrow> string list) \<Rightarrow> string \<Rightarrow> string \<Rightarrow> trace_state \<Rightarrow> bool" where
  "trace_pre nexts start i s \<longleftrightarrow>
     trace_inv nexts start s \<and> (start, i) \<in> (succ_rel nexts)\<^sup>* \<and> (\<forall>p \<in> set (tc_onPath s). (p, i) \<in> (succ_rel nexts)\<^sup>+)"

definition settled :: "string \<Rightarrow> trace_state \<Rightarrow> bool" where
  "settled i s \<longleftrightarrow> i \<in> set (tc_done s) \<or> i \<in> set (tc_onPath s) \<and> tc_cyclic s"

definition trace_post :: "(string \<Rightarrow> string list) \<Rightarrow> string \<Rightarrow> trace_state \<Rightarrow> trace_state \<Rightarrow> bool" where
  "trace_post nexts start s s' \<longleftrightarrow>
     trace_inv nexts start s' \<and> set (tc_onPath s') = set (tc_onPath s) \<and> set (tc_done s) \<subseteq> set (tc_done s') \<and>
     (tc_cyclic s \<longrightarrow> tc_cyclic s')"

lemma settled_mono: "settled i s \<Longrightarrow> trace_post nexts start s s' \<Longrightarrow> settled i s'"
  by (auto simp: settled_def trace_post_def)

lemma trace_post_trans: "trace_post n st s s' \<Longrightarrow> trace_post n st s' s'' \<Longrightarrow> trace_post n st s s''"
  by (auto simp: trace_post_def)

lemma trace_post_refl: "trace_inv n st s \<Longrightarrow> trace_post n st s s"
  by (simp add: trace_post_def)

text \<open>Finishing a node whose successors are all finished keeps the finished part acyclic.\<close>

lemma acyclic_insert_done:
  assumes ac: "acyclic (E \<inter> D \<times> D)" and closed: "E `` D \<subseteq> D" and i: "i \<notin> D" "E `` {i} \<subseteq> D"
  shows "acyclic (E \<inter> insert i D \<times> insert i D)"
proof -
  let ?R = "E \<inter> insert i D \<times> insert i D"
  have target: "y \<in> D" if "(x, y) \<in> ?R" for x y using that closed i(2) by auto
  have stay: "(x, y) \<in> (E \<inter> D \<times> D)\<^sup>+ \<and> y \<in> D" if "(x, y) \<in> ?R\<^sup>+" "x \<in> D" for x y
    using that
  proof (induction rule: trancl_induct)
    case (base y)
    with target [OF base.hyps(1)] have "(x, y) \<in> E \<inter> D \<times> D" by simp
    with target [OF base.hyps(1)] show ?case by blast
  next
    case (step y z)
    then have ih: "(x, y) \<in> (E \<inter> D \<times> D)\<^sup>+" "y \<in> D" by auto
    with step.hyps(2) target [OF step.hyps(2)] have "(y, z) \<in> E \<inter> D \<times> D" by simp
    with ih(1) target [OF step.hyps(2)] show ?case by (simp add: trancl_into_trancl)
  qed
  have "(x, x) \<notin> ?R\<^sup>+" for x
  proof
    assume loop: "(x, x) \<in> ?R\<^sup>+"
    then obtain y where "(y, x) \<in> ?R" by (meson tranclE)
    then have "x \<in> D" by (rule target)
    with stay [OF loop] ac show False by (auto simp: acyclic_def)
  qed
  then show ?thesis by (simp add: acyclic_def)
qed

lemma fold_option_walk:
  assumes step: "\<And>x s s'. x \<in> set xs \<Longrightarrow> f x s = Some s' \<Longrightarrow> trace_pre nexts start x s \<Longrightarrow> trace_post nexts start s s' \<and> settled x s'"
    and run: "fold_option f xs s = Some s'" and inv: "trace_inv nexts start s"
    and pre: "\<And>x. x \<in> set xs \<Longrightarrow> (start, x) \<in> (succ_rel nexts)\<^sup>* \<and> (\<forall>p \<in> set (tc_onPath s). (p, x) \<in> (succ_rel nexts)\<^sup>+)"
  shows "trace_post nexts start s s' \<and> (\<forall>x \<in> set xs. settled x s')"
  using step run inv pre
proof (induction xs arbitrary: s)
  case Nil
  then show ?case by (simp add: trace_post_refl)
next
  case (Cons x xs)
  from Cons.prems(2) obtain s1 where one: "f x s = Some s1" and rest: "fold_option f xs s1 = Some s'"
    by (auto split: option.splits)
  from Cons.prems(3,4) have "trace_pre nexts start x s" by (simp add: trace_pre_def)
  with Cons.prems(1) [OF _ one] have p1: "trace_post nexts start s s1" and s1: "settled x s1" by auto
  have "trace_post nexts start s1 s' \<and> (\<forall>x \<in> set xs. settled x s')"
  proof (rule Cons.IH)
    show "fold_option f xs s1 = Some s'" by (rule rest)
    show "trace_inv nexts start s1" using p1 by (simp add: trace_post_def)
    show "trace_post nexts start s s' \<and> settled y s'" if "y \<in> set xs" "f y s = Some s'" "trace_pre nexts start y s" for y s s'
      using Cons.prems(1) [OF _ that(2,3)] that(1) by simp
    show "(start, y) \<in> (succ_rel nexts)\<^sup>* \<and> (\<forall>p \<in> set (tc_onPath s1). (p, y) \<in> (succ_rel nexts)\<^sup>+)" if "y \<in> set xs" for y
      using Cons.prems(4) [of y] that p1 by (simp add: trace_post_def)
  qed
  with p1 s1 show ?case using settled_mono trace_post_trans by auto
qed

lemma set_set_add [simp]: "set (set_add x s) = insert x (set s)"
  by (auto simp: set_add_def)

definition enter :: "(string \<Rightarrow> string list) \<Rightarrow> string \<Rightarrow> trace_state \<Rightarrow> trace_state" where
  "enter nexts i s = s\<lparr>tc_onPath := set_add i (tc_onPath s), tc_visited := tc_visited s @ [i],
     tc_roots := (if nexts i = [] then set_add i (tc_roots s) else tc_roots s)\<rparr>"

definition leave :: "string \<Rightarrow> trace_state \<Rightarrow> trace_state" where
  "leave i s = s\<lparr>tc_onPath := removeAll i (tc_onPath s), tc_done := set_add i (tc_done s)\<rparr>"

lemma walk_Suc:
  "walk (Suc d) nexts i s =
     (if i \<in> set (tc_onPath s) then Some (s\<lparr>tc_cyclic := True\<rparr>)
      else if i \<in> set (tc_done s) then Some s
      else map_option (leave i) (fold_option (walk d nexts) (nexts i) (enter nexts i s)))"
  by (auto simp: enter_def leave_def Let_def split: option.splits)

declare walk.simps(2) [simp del]

lemma enter_inv:
  assumes pre: "trace_pre nexts start i s" and new: "i \<notin> set (tc_visited s)"
  shows "trace_inv nexts start (enter nexts i s)"
  using pre new by (auto simp: trace_pre_def trace_inv_def enter_def)

lemma leave_inv:
  assumes inv: "trace_inv nexts start s" and on: "i \<in> set (tc_onPath s)"
    and succ: "\<forall>x \<in> set (nexts i). settled x s"
  shows "trace_inv nexts start (leave i s)"
proof -
  let ?E = "succ_rel nexts" and ?D = "set (tc_done s)"
  have i: "i \<notin> ?D" using inv on by (auto simp: trace_inv_def)
  have all: "?E `` {i} \<subseteq> ?D \<union> set (tc_onPath s)" using succ by (auto simp: settled_def succ_rel_iff)
  have "?E `` insert i ?D \<subseteq> insert i ?D \<and> acyclic (?E \<inter> insert i ?D \<times> insert i ?D)" if "\<not> tc_cyclic s"
  proof -
    from that inv have D: "?E `` ?D \<subseteq> ?D" "acyclic (?E \<inter> ?D \<times> ?D)" by (simp_all add: trace_inv_def)
    have E: "?E `` {i} \<subseteq> ?D" using succ that by (auto simp: settled_def succ_rel_iff)
    from acyclic_insert_done [OF D(2,1) i E] D(1) E show ?thesis by blast
  qed
  moreover have "?E `` insert i ?D \<subseteq> insert i ?D \<union> (set (tc_onPath s) - {i})"
    using inv all unfolding trace_inv_def by blast
  ultimately show ?thesis
    using inv on i unfolding trace_inv_def leave_def by auto
qed

lemma walk_post:
  assumes "walk d nexts i s = Some s'" and "trace_pre nexts start i s"
  shows "trace_post nexts start s s' \<and> settled i s'"
  using assms
proof (induction d arbitrary: i s s')
  case 0
  then show ?case by simp
next
  case (Suc d)
  let ?E = "succ_rel nexts"
  from Suc.prems(2) have inv: "trace_inv nexts start s" and reach: "(start, i) \<in> ?E\<^sup>*"
    and path: "\<And>p. p \<in> set (tc_onPath s) \<Longrightarrow> (p, i) \<in> ?E\<^sup>+" by (simp_all add: trace_pre_def)
  consider (onpath) "i \<in> set (tc_onPath s)" | (old) "i \<notin> set (tc_onPath s)" "i \<in> set (tc_done s)"
    | (new) "i \<notin> set (tc_onPath s)" "i \<notin> set (tc_done s)" by blast
  then show ?case
  proof cases
    case onpath
    with reach path have "\<exists>x. (start, x) \<in> ?E\<^sup>* \<and> (x, x) \<in> ?E\<^sup>+" by blast
    moreover from onpath Suc.prems(1) have "s' = s\<lparr>tc_cyclic := True\<rparr>" by (simp add: walk_Suc)
    ultimately show ?thesis using inv onpath unfolding trace_post_def trace_inv_def settled_def by simp blast
  next
    case old
    with Suc.prems(1) have "s' = s" by (simp add: walk_Suc)
    with inv old show ?thesis by (simp add: trace_post_refl settled_def)
  next
    case new
    let ?s1 = "enter nexts i s"
    from new inv have fresh: "i \<notin> set (tc_visited s)" by (simp add: trace_inv_def)
    from Suc.prems(1) new obtain s2 where run: "fold_option (walk d nexts) (nexts i) ?s1 = Some s2" and s': "s' = leave i s2"
      by (auto simp: walk_Suc)
    have on1: "set (tc_onPath ?s1) = insert i (set (tc_onPath s))" and keep: "tc_done ?s1 = tc_done s" "tc_cyclic ?s1 = tc_cyclic s"
      by (simp_all add: enter_def)
    have "trace_post nexts start ?s1 s2 \<and> (\<forall>x \<in> set (nexts i). settled x s2)"
    proof (rule fold_option_walk [OF _ run enter_inv [OF Suc.prems(2) fresh]])
      show "trace_post nexts start s s' \<and> settled x s'" if "walk d nexts x s = Some s'" "trace_pre nexts start x s" for x s s'
        using Suc.IH that by blast
      fix x assume "x \<in> set (nexts i)"
      then have e: "(i, x) \<in> ?E" by (simp add: succ_rel_iff)
      with reach have "(start, x) \<in> ?E\<^sup>*" by (rule rtrancl_into_rtrancl)
      moreover have "(p, x) \<in> ?E\<^sup>+" if "p \<in> set (tc_onPath ?s1)" for p
        using that e path unfolding on1 by (auto intro: trancl_into_trancl)
      ultimately show "(start, x) \<in> ?E\<^sup>* \<and> (\<forall>p \<in> set (tc_onPath ?s1). (p, x) \<in> ?E\<^sup>+)" by blast
    qed
    then have post: "trace_post nexts start ?s1 s2" and succ: "\<forall>x \<in> set (nexts i). settled x s2" by blast+
    have "trace_inv nexts start s2" "i \<in> set (tc_onPath s2)" using post on1 by (auto simp: trace_post_def)
    from leave_inv [OF this succ] post on1 keep new show ?thesis
      unfolding s' by (auto simp: trace_post_def settled_def leave_def)
  qed
qed

section \<open>The depth bound is enough\<close>

lemma walk_onPath: "walk d nexts i s = Some s' \<Longrightarrow> set (tc_onPath s') = set (tc_onPath s)"
proof (induction d arbitrary: i s s')
  case 0
  then show ?case by simp
next
  case (Suc d)
  have fold: "set (tc_onPath t') = set (tc_onPath t)" if "fold_option (walk d nexts) xs t = Some t'" for xs t t'
    using that Suc.IH by (induction xs arbitrary: t) (auto split: option.splits)
  from Suc.prems show ?case
    by (auto simp: walk_Suc leave_def enter_def split: if_splits dest!: fold)
qed

lemma walk_total:
  assumes "finite U" and "succ_rel nexts `` U \<subseteq> U" and "i \<in> U" and "set (tc_onPath s) \<subseteq> U"
    and "card U < d + card (set (tc_onPath s))"
  shows "\<exists>s'. walk d nexts i s = Some s'"
  using assms(3-5)
proof (induction d arbitrary: i s)
  case 0
  with card_mono [OF assms(1), of "set (tc_onPath s)"] show ?case by simp
next
  case (Suc d)
  show ?case
  proof (cases "i \<in> set (tc_onPath s) \<or> i \<in> set (tc_done s)")
    case True
    then show ?thesis by (auto simp: walk_Suc)
  next
    case False
    let ?s1 = "enter nexts i s"
    have on1: "set (tc_onPath ?s1) = insert i (set (tc_onPath s))" by (simp add: enter_def)
    have "\<exists>s'. fold_option (walk d nexts) xs t = Some s'" if "set xs \<subseteq> U" "set (tc_onPath t) = set (tc_onPath ?s1)" for xs t
      using that
    proof (induction xs arbitrary: t)
      case Nil
      then show ?case by simp
    next
      case (Cons x xs)
      have "card U < d + card (set (tc_onPath t))" using Suc.prems(3) False unfolding Cons.prems(2) on1 by simp
      with Suc.IH [of x t] Cons.prems Suc.prems(1,2) obtain t1 where t1: "walk d nexts x t = Some t1" unfolding on1 by auto
      with walk_onPath [OF t1] Cons.IH [of t1] Cons.prems show ?case by auto
    qed
    moreover have "set (nexts i) \<subseteq> U" using assms(2) Suc.prems(1) by (auto simp: succ_rel_def)
    ultimately obtain s2 where "fold_option (walk d nexts) (nexts i) ?s1 = Some s2" by blast
    with False show ?thesis by (auto simp: walk_Suc)
  qed
qed

section \<open>The whole traversal\<close>

lemma finite_cause_rel [simp]: "finite (cause_rel dir es)"
  by (simp add: cause_rel_def)

lemma card_cause_rel: "card (cause_rel dir es) \<le> length es"
proof -
  have "card (cause_rel dir es) \<le> card {e \<in> set es. ge_type e \<in> set CAUSE_EDGE_TYPES}"
    unfolding cause_rel_def by (rule card_image_le) simp
  also have "\<dots> \<le> card (set es)" by (rule card_mono) auto
  also have "\<dots> \<le> length es" by (rule card_length)
  finally show ?thesis .
qed

lemma acyclic_finite_sink:
  assumes "finite R" and "acyclic (Restr R D)" and "R `` D \<subseteq> D" and "x \<in> D"
  shows "\<exists>y \<in> D. R `` {y} = {}"
proof -
  have "wf ((Restr R D)\<inverse>)" by (rule finite_acyclic_wf_converse) (use assms(1,2) in auto)
  then obtain y where y: "y \<in> D" "\<forall>z. (z, y) \<in> (Restr R D)\<inverse> \<longrightarrow> z \<notin> D" using assms(4) by (meson wfE_min)
  with assms(3) have "R `` {y} = {}" by blast
  with y(1) show ?thesis by blast
qed

lemma closed_reach: "R `` D \<subseteq> D \<Longrightarrow> x \<in> D \<Longrightarrow> R\<^sup>* `` {x} \<subseteq> D"
  by (auto elim!: rtrancl_induct)

lemma cycle_in_closed:
  assumes "(x, x) \<in> R\<^sup>+" and "x \<in> D" and "R `` D \<subseteq> D"
  shows "\<not> acyclic (Restr R D)"
proof -
  have "(x, y) \<in> (Restr R D)\<^sup>+ \<and> y \<in> D" if "(x, y) \<in> R\<^sup>+" for y
    using that
  proof (induction rule: trancl_induct)
    case (base y)
    with assms(2,3) have "(x, y) \<in> Restr R D" "y \<in> D" by auto
    then show ?case by blast
  next
    case (step y z)
    with assms(3) have "(y, z) \<in> Restr R D" "z \<in> D" by auto
    with step.IH show ?case by (meson trancl_into_trancl)
  qed
  with assms(1) show ?thesis by (auto simp: acyclic_def)
qed

definition trace_start :: trace_state where
  "trace_start = \<lparr>tc_visited = [], tc_roots = [], tc_onPath = [], tc_done = [], tc_cyclic = False\<rparr>"

lemma walk_from_start:
  obtains s where "walk (length es + 2) (\<lambda>i. the_default [] (map_of (cause_adjacency dir es) i)) start trace_start = Some s"
    and "trace_inv (\<lambda>i. the_default [] (map_of (cause_adjacency dir es) i)) start s"
    and "tc_onPath s = []" and "start \<in> set (tc_done s)"
proof -
  let ?n = "\<lambda>i. the_default [] (map_of (cause_adjacency dir es) i)"
  let ?U = "insert start (Range (cause_rel dir es))"
  have "finite ?U" and "card ?U \<le> Suc (card (cause_rel dir es))"
    by (simp_all add: Range_snd card_insert_le_m1 card_image_le card_insert_if le_SucI)
  with card_cause_rel [of dir es] have "card ?U < (length es + 2) + card (set (tc_onPath trace_start))" by linarith
  moreover have "succ_rel ?n `` ?U \<subseteq> ?U" unfolding succ_rel_adjacency by auto
  ultimately obtain s where s: "walk (length es + 2) ?n start trace_start = Some s"
    using walk_total [of ?U ?n start trace_start "length es + 2"] \<open>finite ?U\<close> by (auto simp: trace_start_def)
  have "trace_pre ?n start start trace_start"
    by (simp add: trace_pre_def trace_inv_def trace_start_def acyclic_def)
  from walk_post [OF s this] have "trace_post ?n start trace_start s" "settled start s" by auto
  then have "trace_inv ?n start s" "tc_onPath s = []" "start \<in> set (tc_done s)"
    by (auto simp: trace_post_def trace_start_def settled_def)
  with s show ?thesis by (rule that)
qed

lemma traceCause_total: "\<exists>t. traceCause es start dir = Some t"
proof -
  obtain s where "walk (length es + 2) (\<lambda>i. the_default [] (map_of (cause_adjacency dir es) i)) start trace_start = Some s"
    by (rule walk_from_start)
  then show ?thesis by (simp add: traceCause_def flip: trace_start_def)
qed

text \<open>
  C34. The cause traversal is correct on every edge list, from every node and in both directions: it
  returns; it visits each node reachable over cause edges exactly once and no other; its roots are
  exactly the reachable nodes without a further cause; it reports a cycle exactly when a reachable node
  lies on one; and it reports termination exactly when none does.
\<close>

theorem traceCause_correct:
  "\<exists>t. traceCause es start dir = Some t \<and>
     (let R = cause_rel dir es in
        distinct (ct_visited t) \<and> set (ct_visited t) = R\<^sup>* `` {start} \<and>
        set (ct_roots t) = R\<^sup>* `` {start} - Domain R \<and>
        (ct_cyclic t \<longleftrightarrow> (\<exists>x. (start, x) \<in> R\<^sup>* \<and> (x, x) \<in> R\<^sup>+)) \<and>
        (ct_terminated t \<longleftrightarrow> \<not> (\<exists>x. (start, x) \<in> R\<^sup>* \<and> (x, x) \<in> R\<^sup>+)))"
proof -
  let ?n = "\<lambda>i. the_default [] (map_of (cause_adjacency dir es) i)" and ?R = "cause_rel dir es"
  obtain s where s: "walk (length es + 2) ?n start trace_start = Some s" and inv: "trace_inv ?n start s"
    and on: "tc_onPath s = []" and st: "start \<in> set (tc_done s)" by (rule walk_from_start)
  note inv' = inv [unfolded trace_inv_def succ_rel_adjacency on, simplified]
  have sink: "?n x = [] \<longleftrightarrow> x \<notin> Domain ?R" for x
  proof -
    have "set (?n x) = {y. (x, y) \<in> ?R}" unfolding succ_rel_adjacency [symmetric] by (simp add: succ_rel_iff)
    then show ?thesis by (metis Domain_iff empty_iff mem_Collect_eq set_empty set_empty2 subset_empty subsetI)
  qed
  have vis: "set (tc_visited s) = ?R\<^sup>* `` {start}"
    using inv' st closed_reach [of ?R "set (tc_done s)" start] by auto
  have roots: "set (tc_roots s) = ?R\<^sup>* `` {start} - Domain ?R"
    using inv' sink vis by auto
  have cyc: "tc_cyclic s \<longleftrightarrow> (\<exists>x. (start, x) \<in> ?R\<^sup>* \<and> (x, x) \<in> ?R\<^sup>+)"
  proof
    assume "\<exists>x. (start, x) \<in> ?R\<^sup>* \<and> (x, x) \<in> ?R\<^sup>+"
    then obtain x where "x \<in> set (tc_done s)" "(x, x) \<in> ?R\<^sup>+" using vis inv' by auto
    with cycle_in_closed [of x ?R "set (tc_done s)"] inv' show "tc_cyclic s" by blast
  qed (use inv' in blast)
  have "tc_roots s \<noteq> []" if "\<not> tc_cyclic s"
  proof -
    from that inv' acyclic_finite_sink [of ?R "set (tc_done s)" start] st obtain y where
      "y \<in> set (tc_done s)" "?R `` {y} = {}" by auto
    then have "y \<in> set (tc_roots s)" unfolding roots using vis inv' by auto
    then show ?thesis by auto
  qed
  with s vis roots cyc inv' show ?thesis
    by (auto simp: traceCause_def Let_def simp flip: trace_start_def)
qed

end
