(* ===== verification/Graph_Store.thy ===== *)
theory Graph_Store
  imports Cause_Trace
begin

text \<open>
  Persistence of the data graph: the reads that assemble the facts of a workspace, the drop-and-rebuild
  transaction, the lineage view (\<^verbatim>\<open>dal/graph-store.ts\<close>), and the drift-aware writer on top of them
  (\<^verbatim>\<open>graph/persist-data-graph.ts\<close>).

  A table is the list of its rows; a \<^verbatim>\<open>TIMESTAMPTZ\<close> column is a number of milliseconds, and \<open>to_iso\<close> stands
  for \<^verbatim>\<open>toISOString\<close> on it. The graph tables keep the ISO text of a time, which the cast of the insert
  reads back. The constraints are those of migration 029 with the vocabularies of migration 069.
\<close>

section \<open>Rows\<close>

record workspace_row =
  wr_id :: string
  wr_config :: "(string \<times> string) list"

record project_row =
  pr_id :: string
  pr_workspace_id :: string
  pr_name :: "string option"
  pr_description :: "string option"
  pr_created_at :: "int option"

record lens_row =
  lr_id :: string
  lr_workspace_id :: "string option"
  lr_slug :: "string option"
  lr_label :: "string option"
  lr_status :: string
  lr_created_at :: "int option"

record membership_row =
  mr_domain_id :: string
  mr_workspace_id :: string
  mr_project_id :: string

record intent_row =
  ir_id :: string
  ir_workspace_id :: "string option"
  ir_project_id :: "string option"
  ir_domain_id :: "string option"
  ir_title :: "string option"
  ir_derived_from :: "string option"
  ir_created_at :: "int option"

record event_row =
  er_id :: string
  er_workspace_id :: string
  er_project_id :: "string option"
  er_domain_id :: "string option"
  er_source_tool :: "string option"
  er_occurred_at :: "int option"
  er_ingested_at :: "int option"
  er_summary :: "string option"
  er_intent_id :: "string option"

record unified_row =
  ur_id :: string
  ur_plane :: plane
  ur_source_plane_id :: "string option"
  ur_workspace_id :: "string option"
  ur_project_id :: "string option"
  ur_domain_id :: "string option"
  ur_kind :: "string option"
  ur_occurred_at :: "int option"
  ur_ingested_at :: "int option"
  ur_summary :: "string option"
  ur_title :: "string option"
  ur_intent_id :: "string option"

record binding_row =
  br_id :: string
  br_workspace_id :: string
  br_project_id :: "string option"
  br_source_kind :: "string option"
  br_source_ref :: json
  br_status :: string
  br_created_at :: "int option"

record packet_row =
  kr_id :: string
  kr_workspace_id :: string
  kr_project_id :: "string option"
  kr_event_id :: "string option"
  kr_title :: "string option"
  kr_summary :: "string option"
  kr_lifecycle_state :: string
  kr_created_at :: "int option"
  kr_updated_at :: "int option"

record causation_row =
  cr_workspace_id :: "string option"
  cr_target_type :: "string option"
  cr_target_id :: "string option"
  cr_causation_id :: "string option"

record document_row =
  dr_id :: string
  dr_workspace_id :: string
  dr_project_id :: "string option"
  dr_title :: "string option"
  dr_content_hash :: "string option"
  dr_supersedes_id :: "string option"
  dr_created_at :: "int option"

record evidence_row =
  vr_workspace_id :: string
  vr_content_hash :: "string option"
  vr_packet_id :: "string option"
  vr_event_id :: "string option"

record graph_node_row =
  nr_workspace_id :: string
  nr_id :: string
  nr_node_type :: string
  nr_ref_id :: string
  nr_label :: "string option"
  nr_description :: "string option"
  nr_plane :: "string option"
  nr_occurred_at :: "string option"
  nr_ingested_at :: "string option"
  nr_domain_ref_kind :: "string option"
  nr_domain_ref_id :: "string option"
  nr_graph_hash :: string

record graph_edge_row =
  gr_workspace_id :: string
  gr_edge_from :: string
  gr_edge_to :: string
  gr_edge_type :: string
  gr_graph_hash :: string

record graph_snapshot_row =
  sr_workspace_id :: string
  sr_generated_at :: int
  sr_graph_version :: nat
  sr_graph_hash :: string
  sr_node_count :: nat
  sr_edge_count :: nat

text \<open>\<open>gd_has_documents\<close> is false on a schema older than migration 051, where the document reads throw.\<close>

record graph_db =
  gd_workspaces :: "workspace_row list"
  gd_projects :: "project_row list"
  gd_lenses :: "lens_row list"
  gd_memberships :: "membership_row list"
  gd_intents :: "intent_row list"
  gd_events :: "event_row list"
  gd_unified :: "unified_row list"
  gd_bindings :: "binding_row list"
  gd_packets :: "packet_row list"
  gd_audit :: "causation_row list"
  gd_has_documents :: bool
  gd_documents :: "document_row list"
  gd_evidence :: "evidence_row list"
  gd_nodes :: "graph_node_row list"
  gd_edges :: "graph_edge_row list"
  gd_snapshots :: "graph_snapshot_row list"

section \<open>Assembling the facts\<close>

definition orNull :: "string option \<Rightarrow> string option" where
  "orNull v = (case v of None \<Rightarrow> None | Some s \<Rightarrow> if s = [] then None else Some s)"

definition DATA_GRAPH_FACTS_CAP :: nat where
  "DATA_GRAPH_FACTS_CAP = 5000"

text \<open>\<^verbatim>\<open>ORDER BY t DESC NULLS LAST\<close>\<close>

definition desc_nulls_last :: "('r \<Rightarrow> int option) \<Rightarrow> 'r list \<Rightarrow> 'r list" where
  "desc_nulls_last t rs =
     sort_key (\<lambda>r. - the_default 0 (t r)) (filter (\<lambda>r. t r \<noteq> None) rs) @ filter (\<lambda>r. t r = None) rs"

definition sql_coalesce :: "string option list \<Rightarrow> string option" where
  "sql_coalesce vs = Option.bind (List.find (\<lambda>v. v \<noteq> None) vs) id"

definition event_plane_row :: "event_row \<Rightarrow> unified_row" where
  "event_plane_row e =
     \<lparr>ur_id = er_id e, ur_plane = P_event_sourcing, ur_source_plane_id = Some (er_id e),
      ur_workspace_id = Some (er_workspace_id e), ur_project_id = er_project_id e, ur_domain_id = er_domain_id e,
      ur_kind = Some (or_else (er_source_tool e) ''event''), ur_occurred_at = er_occurred_at e,
      ur_ingested_at = er_ingested_at e, ur_summary = er_summary e, ur_title = None, ur_intent_id = er_intent_id e\<rparr>"

definition unified_rows :: "string \<Rightarrow> graph_db \<Rightarrow> unified_row list" where
  "unified_rows ws db =
     take DATA_GRAPH_FACTS_CAP
       (desc_nulls_last ur_occurred_at
         (map event_plane_row (filter (\<lambda>e. er_workspace_id e = ws) (gd_events db)) @
          map (\<lambda>u. u\<lparr>ur_intent_id := None\<rparr>)
            (filter (\<lambda>u. ur_workspace_id u = Some ws \<and> ur_plane u \<noteq> P_event_sourcing) (gd_unified db))))"

definition causation_pairs :: "causation_row \<Rightarrow> (string \<times> string) list" where
  "causation_pairs a =
     (case (orNull (cr_target_id a), orNull (cr_causation_id a)) of
        (Some tid, Some cid) \<Rightarrow>
          let effectIds = (if js_lower (the_default [] (cr_target_type a)) = ''event'' then [''event:'' @ tid]
                           else [''packet:'' @ tid, ''event:'' @ tid]);
              causeIds = [''event:'' @ cid, ''intent:'' @ cid, ''packet:'' @ cid]
          in List.product effectIds causeIds
      | _ \<Rightarrow> [])"

definition workspace_fact_of :: "workspace_row \<Rightarrow> workspace_fact" where
  "workspace_fact_of r =
     \<lparr>wf_id = wr_id r,
      wf_name = orNull (sql_coalesce (map (map_of (wr_config r)) [''name'', ''display_name'', ''label'']))\<rparr>"

definition project_fact_of :: "(int \<Rightarrow> string) \<Rightarrow> project_row \<Rightarrow> project_fact" where
  "project_fact_of to_iso r =
     \<lparr>pf_id = pr_id r, pf_workspace_id = pr_workspace_id r, pf_name = orNull (pr_name r),
      pf_description = orNull (pr_description r), pf_created_at = map_option to_iso (pr_created_at r)\<rparr>"

definition lens_fact_of :: "(int \<Rightarrow> string) \<Rightarrow> lens_row \<Rightarrow> lens_fact" where
  "lens_fact_of to_iso r =
     \<lparr>lf_id = lr_id r, lf_workspace_id = orNull (lr_workspace_id r), lf_slug = orNull (lr_slug r),
      lf_label = orNull (lr_label r), lf_created_at = map_option to_iso (lr_created_at r)\<rparr>"

definition intent_fact_of :: "(int \<Rightarrow> string) \<Rightarrow> intent_row \<Rightarrow> intent_fact" where
  "intent_fact_of to_iso r =
     \<lparr>if_id = ir_id r, if_workspace_id = orNull (ir_workspace_id r), if_project_id = orNull (ir_project_id r),
      if_domain_id = orNull (ir_domain_id r), if_derived_from = orNull (ir_derived_from r),
      if_title = orNull (ir_title r), if_created_at = map_option to_iso (ir_created_at r)\<rparr>"

definition unified_fact_of :: "(int \<Rightarrow> string) \<Rightarrow> unified_row \<Rightarrow> unified_fact" where
  "unified_fact_of to_iso r =
     \<lparr>uf_id = ur_id r, uf_plane = ur_plane r, uf_source_plane_id = orNull (ur_source_plane_id r),
      uf_workspace_id = orNull (ur_workspace_id r), uf_project_id = orNull (ur_project_id r),
      uf_domain_id = orNull (ur_domain_id r), uf_kind = orNull (ur_kind r),
      uf_occurred_at = map_option to_iso (ur_occurred_at r), uf_ingested_at = map_option to_iso (ur_ingested_at r),
      uf_summary = orNull (ur_summary r), uf_title = orNull (ur_title r), uf_intent_id = orNull (ur_intent_id r)\<rparr>"

definition packet_fact_of :: "(int \<Rightarrow> string) \<Rightarrow> packet_row \<Rightarrow> packet_fact" where
  "packet_fact_of to_iso r =
     \<lparr>kf_id = kr_id r, kf_workspace_id = orNull (Some (kr_workspace_id r)), kf_project_id = orNull (kr_project_id r),
      kf_event_id = orNull (kr_event_id r), kf_title = orNull (kr_title r), kf_summary = orNull (kr_summary r),
      kf_created_at = map_option to_iso (kr_created_at r), kf_updated_at = map_option to_iso (kr_updated_at r)\<rparr>"

definition binding_fact_of :: "(int \<Rightarrow> string) \<Rightarrow> binding_row \<Rightarrow> binding_fact" where
  "binding_fact_of to_iso r =
     \<lparr>bf_id = br_id r, bf_workspace_id = orNull (Some (br_workspace_id r)), bf_project_id = orNull (br_project_id r),
      bf_source_kind = orNull (br_source_kind r), bf_source_ref = br_source_ref r,
      bf_created_at = map_option to_iso (br_created_at r)\<rparr>"

definition document_fact_of :: "(int \<Rightarrow> string) \<Rightarrow> document_row \<Rightarrow> document_fact" where
  "document_fact_of to_iso r =
     \<lparr>df_id = dr_id r, df_workspace_id = orNull (Some (dr_workspace_id r)), df_project_id = orNull (dr_project_id r),
      df_title = orNull (dr_title r), df_content_hash = orNull (dr_content_hash r),
      df_supersedes_id = orNull (dr_supersedes_id r), df_created_at = map_option to_iso (dr_created_at r)\<rparr>"

definition evidence_link_of :: "evidence_row \<Rightarrow> evidence_link" where
  "evidence_link_of r =
     \<lparr>el_content_hash = orNull (vr_content_hash r), el_packet_id = orNull (vr_packet_id r), el_event_id = orNull (vr_event_id r)\<rparr>"

definition document_rows :: "bool \<Rightarrow> string \<Rightarrow> graph_db \<Rightarrow> document_row list" where
  "document_rows includeDocuments ws db =
     (if includeDocuments \<and> gd_has_documents db
      then take 2000 (desc_nulls_last dr_created_at (filter (\<lambda>d. dr_workspace_id d = ws) (gd_documents db))) else [])"

definition evidence_rows :: "bool \<Rightarrow> string \<Rightarrow> graph_db \<Rightarrow> evidence_row list" where
  "evidence_rows includeDocuments ws db =
     (if includeDocuments \<and> gd_has_documents db
      then take DATA_GRAPH_FACTS_CAP (filter (\<lambda>v. vr_workspace_id v = ws \<and> vr_content_hash v \<noteq> None) (gd_evidence db)) else [])"

definition assembleDataGraphFactsRow :: "(int \<Rightarrow> string) \<Rightarrow> bool \<Rightarrow> string \<Rightarrow> graph_db \<Rightarrow> data_graph_facts" where
  "assembleDataGraphFactsRow to_iso includeDocuments ws db =
     \<lparr>fa_workspaces = map workspace_fact_of (take 1 (filter (\<lambda>w. wr_id w = ws) (gd_workspaces db))),
      fa_projects = map (project_fact_of to_iso) (filter (\<lambda>p. pr_workspace_id p = ws) (gd_projects db)),
      fa_lenses = map (lens_fact_of to_iso) (filter (\<lambda>l. lr_workspace_id l = Some ws \<and> lr_status l \<noteq> ''archived'') (gd_lenses db)),
      fa_memberships = map (\<lambda>m. (mr_domain_id m, mr_project_id m)) (filter (\<lambda>m. mr_workspace_id m = ws) (gd_memberships db)),
      fa_intents = map (intent_fact_of to_iso) (filter (\<lambda>i. ir_workspace_id i = Some ws) (gd_intents db)),
      fa_unified = map (unified_fact_of to_iso) (unified_rows ws db),
      fa_packets = map (packet_fact_of to_iso)
        (take DATA_GRAPH_FACTS_CAP (desc_nulls_last kr_updated_at
          (filter (\<lambda>k. kr_workspace_id k = ws \<and> kr_lifecycle_state k \<noteq> ''archived'') (gd_packets db)))),
      fa_bindings = map (binding_fact_of to_iso) (filter (\<lambda>b. br_workspace_id b = ws \<and> br_status b \<noteq> ''archived'') (gd_bindings db)),
      fa_documents = map (document_fact_of to_iso) (document_rows includeDocuments ws db),
      fa_evidence_links = map evidence_link_of (evidence_rows includeDocuments ws db),
      fa_causation = concat (map causation_pairs
        (take DATA_GRAPH_FACTS_CAP (filter (\<lambda>a. cr_workspace_id a = Some ws \<and> cr_causation_id a \<noteq> None) (gd_audit db))))\<rparr>"

section \<open>Replacing the materialised graph\<close>

datatype graph_error = Node_type_check | Node_key_violation | Edge_type_check

definition DB_NODE_TYPES :: "string list" where
  "DB_NODE_TYPES = [''workspace'', ''project'', ''lens'', ''intent'', ''packet'', ''event'', ''source'', ''goal'', ''roadmap'']"

definition DB_EDGE_TYPES :: "string list" where
  "DB_EDGE_TYPES = [''contains'', ''views'', ''scopes'', ''derived_from'', ''realizes'', ''feeds'', ''caused_by'', ''governs'',
     ''supports_goal'', ''reinforces'', ''conflicts_with'']"

definition node_row_of :: "string \<Rightarrow> string \<Rightarrow> graph_node \<Rightarrow> graph_node_row" where
  "node_row_of ws hash n =
     \<lparr>nr_workspace_id = ws, nr_id = gn_id n, nr_node_type = node_type_str (gn_type n), nr_ref_id = gn_ref_id n,
      nr_label = orNull (gn_label n), nr_description = orNull (Some (gn_description n)),
      nr_plane = map_option plane_str (gn_plane n), nr_occurred_at = orNull (gn_occurred_at n),
      nr_ingested_at = orNull (gn_ingested_at n),
      nr_domain_ref_kind = map_option (\<lambda>d. domain_kind_str (fst d)) (gn_domain_ref n),
      nr_domain_ref_id = orNull (map_option snd (gn_domain_ref n)), nr_graph_hash = hash\<rparr>"

definition edge_row_of :: "string \<Rightarrow> string \<Rightarrow> graph_edge \<Rightarrow> graph_edge_row" where
  "edge_row_of ws hash e =
     \<lparr>gr_workspace_id = ws, gr_edge_from = ge_from e, gr_edge_to = ge_to e, gr_edge_type = edge_type_str (ge_type e),
      gr_graph_hash = hash\<rparr>"

definition edge_row_key :: "graph_edge_row \<Rightarrow> string \<times> string \<times> string \<times> string" where
  "edge_row_key r = (gr_workspace_id r, gr_edge_from r, gr_edge_to r, gr_edge_type r)"

definition node_row_key :: "graph_node_row \<Rightarrow> string \<times> string" where
  "node_row_key r = (nr_workspace_id r, nr_id r)"

definition insert_nodes :: "graph_node_row list \<Rightarrow> graph_node_row list \<Rightarrow> graph_error + graph_node_row list" where
  "insert_nodes new rows =
     (if \<exists>r \<in> set new. nr_node_type r \<notin> set DB_NODE_TYPES then Inl Node_type_check
      else if \<not> distinct (map node_row_key new) \<or> (\<exists>r \<in> set new. node_row_key r \<in> set (map node_row_key rows)) then Inl Node_key_violation
      else Inr (rows @ new))"

text \<open>\<^verbatim>\<open>ON CONFLICT (workspace_id, edge_from, edge_to, edge_type) DO NOTHING\<close>\<close>

definition insert_edge :: "graph_edge_row list \<Rightarrow> graph_edge_row \<Rightarrow> graph_edge_row list" where
  "insert_edge rows r = (if edge_row_key r \<in> set (map edge_row_key rows) then rows else rows @ [r])"

definition insert_edges :: "graph_edge_row list \<Rightarrow> graph_edge_row list \<Rightarrow> graph_error + graph_edge_row list" where
  "insert_edges new rows =
     (if \<exists>r \<in> set new. gr_edge_type r \<notin> set DB_EDGE_TYPES then Inl Edge_type_check
      else Inr (foldl insert_edge rows new))"

definition replaceWorkspaceGraphRow ::
  "string \<Rightarrow> graph \<Rightarrow> graph_snapshot \<Rightarrow> int \<Rightarrow> graph_db \<Rightarrow> graph_error + graph_db" where
  "replaceWorkspaceGraphRow ws g meta generatedAt db =
     (case insert_nodes (map (node_row_of ws (sn_graph_hash meta)) (gr_nodes g))
             (filter (\<lambda>r. nr_workspace_id r \<noteq> ws) (gd_nodes db)) of
        Inl e \<Rightarrow> Inl e
      | Inr nodes \<Rightarrow>
          (case insert_edges (map (edge_row_of ws (sn_graph_hash meta)) (gr_edges g))
                  (filter (\<lambda>r. gr_workspace_id r \<noteq> ws) (gd_edges db)) of
             Inl e \<Rightarrow> Inl e
           | Inr edges \<Rightarrow>
               Inr (db\<lparr>gd_nodes := nodes, gd_edges := edges,
                       gd_snapshots := gd_snapshots db @
                         [\<lparr>sr_workspace_id = ws, sr_generated_at = generatedAt, sr_graph_version = sn_graph_version meta,
                           sr_graph_hash = sn_graph_hash meta, sr_node_count = sn_node_count meta,
                           sr_edge_count = sn_edge_count meta\<rparr>]\<rparr>)))"

definition getLatestGraphSnapshotRow :: "string \<Rightarrow> graph_db \<Rightarrow> graph_snapshot_row option" where
  "getLatestGraphSnapshotRow ws db =
     (case sort_key (\<lambda>r. - sr_generated_at r) (filter (\<lambda>r. sr_workspace_id r = ws) (gd_snapshots db)) of
        [] \<Rightarrow> None
      | r # _ \<Rightarrow> Some (r\<lparr>sr_graph_version := (if sr_graph_version r = 0 then 1 else sr_graph_version r)\<rparr>))"

section \<open>The lineage view\<close>

record lineage_edge_row =
  le_edge_from :: string
  le_from_type :: "string option"
  le_from_description :: "string option"
  le_edge_to :: string
  le_to_type :: "string option"
  le_to_description :: "string option"
  le_edge_type :: string
  le_is_cause_edge :: bool

text \<open>The left join of \<^verbatim>\<open>v_artefact_lineage\<close>; the primary key of \<^verbatim>\<open>graph_nodes\<close> leaves at most one partner.\<close>

definition node_row_for :: "string \<Rightarrow> string \<Rightarrow> graph_db \<Rightarrow> graph_node_row option" where
  "node_row_for ws i db = List.find (\<lambda>r. nr_workspace_id r = ws \<and> nr_id r = i) (gd_nodes db)"

definition lineage_of :: "graph_db \<Rightarrow> graph_edge_row \<Rightarrow> lineage_edge_row" where
  "lineage_of db e =
     (let nf = node_row_for (gr_workspace_id e) (gr_edge_from e) db; nt = node_row_for (gr_workspace_id e) (gr_edge_to e) db
      in \<lparr>le_edge_from = gr_edge_from e, le_from_type = orNull (map_option nr_node_type nf),
          le_from_description = orNull (Option.bind nf nr_description), le_edge_to = gr_edge_to e,
          le_to_type = orNull (map_option nr_node_type nt), le_to_description = orNull (Option.bind nt nr_description),
          le_edge_type = gr_edge_type e,
          le_is_cause_edge = (gr_edge_type e \<in> set [''caused_by'', ''realizes'', ''derived_from''])\<rparr>)"

definition getArtefactLineageRow :: "string \<Rightarrow> string option \<Rightarrow> bool \<Rightarrow> graph_db \<Rightarrow> lineage_edge_row list" where
  "getArtefactLineageRow ws nodeId causeOnly db =
     take 5000 (filter (\<lambda>l. (case orNull nodeId of None \<Rightarrow> True | Some n \<Rightarrow> le_edge_from l = n \<or> le_edge_to l = n) \<and>
                            (\<not> causeOnly \<or> le_is_cause_edge l))
       (map (lineage_of db) (filter (\<lambda>e. gr_workspace_id e = ws) (gd_edges db))))"

section \<open>The drift-aware writer\<close>

datatype graph_drift = Drift_new | Drift_fresh | Drift_changed

record persist_result =
  ps_workspace_id :: string
  ps_generated_at :: int
  ps_drift :: graph_drift
  ps_graph_hash :: string
  ps_node_count :: nat
  ps_edge_count :: nat
  ps_persisted :: bool

definition driftOf :: "graph_snapshot_row option \<Rightarrow> string \<Rightarrow> graph_drift" where
  "driftOf prev freshHash =
     (case prev of None \<Rightarrow> Drift_new
      | Some p \<Rightarrow> if sr_graph_hash p = freshHash then Drift_fresh else Drift_changed)"

definition persistDataGraph ::
  "(real \<Rightarrow> string) \<Rightarrow> (int \<Rightarrow> string) \<Rightarrow> bool \<Rightarrow> string \<Rightarrow> int \<Rightarrow> graph_db \<Rightarrow> graph_error + persist_result \<times> graph_db" where
  "persistDataGraph num to_iso includeDocuments ws now db =
     (let facts = assembleDataGraphFactsRow to_iso includeDocuments ws db;
          (g, snapshot) = buildDataGraph num ws facts;
          drift = driftOf (getLatestGraphSnapshotRow ws db) (sn_graph_hash snapshot);
          persisted = (drift \<noteq> Drift_fresh);
          result = \<lparr>ps_workspace_id = ws, ps_generated_at = now, ps_drift = drift, ps_graph_hash = sn_graph_hash snapshot,
                    ps_node_count = sn_node_count snapshot, ps_edge_count = sn_edge_count snapshot, ps_persisted = persisted\<rparr>
      in if persisted then (case replaceWorkspaceGraphRow ws g snapshot now db of Inl e \<Rightarrow> Inl e | Inr db' \<Rightarrow> Inr (result, db'))
         else Inr (result, db))"

record drift_report =
  dg_drift :: graph_drift
  dg_stored_hash :: "string option"
  dg_fresh_hash :: string
  dg_node_count :: nat
  dg_edge_count :: nat

definition checkGraphDrift :: "(real \<Rightarrow> string) \<Rightarrow> (int \<Rightarrow> string) \<Rightarrow> bool \<Rightarrow> string \<Rightarrow> graph_db \<Rightarrow> drift_report" where
  "checkGraphDrift num to_iso includeDocuments ws db =
     (let snapshot = snd (buildDataGraph num ws (assembleDataGraphFactsRow to_iso includeDocuments ws db));
          prev = getLatestGraphSnapshotRow ws db
      in \<lparr>dg_drift = driftOf prev (sn_graph_hash snapshot), dg_stored_hash = map_option sr_graph_hash prev,
          dg_fresh_hash = sn_graph_hash snapshot, dg_node_count = sn_node_count snapshot, dg_edge_count = sn_edge_count snapshot\<rparr>)"

section \<open>The export digest\<close>

record recent_item =
  rc_type :: string
  rc_description :: string
  rc_occurred_at :: "string option"

record root_cause =
  rt_effect :: string
  rt_roots :: "string list"
  rt_terminated :: bool

record graph_digest =
  gg_workspace_id :: string
  gg_generated_at :: string
  gg_graph_hash :: string
  gg_node_counts :: "(string \<times> nat) list"
  gg_edge_counts :: "(string \<times> nat) list"
  gg_recent :: "recent_item list"
  gg_root_causes :: "root_cause list"

definition recent_items :: "nat \<Rightarrow> graph_node list \<Rightarrow> recent_item list" where
  "recent_items recentLimit nodes =
     map (\<lambda>n. \<lparr>rc_type = node_type_str (gn_type n),
               rc_description = take 200 (if gn_description n \<noteq> [] then gn_description n else or_else (gn_label n) (gn_ref_id n)),
               rc_occurred_at = gn_occurred_at n\<rparr>)
       (take recentLimit
         (rev (sort_key (\<lambda>n. the_default [] (gn_occurred_at n)) (rev (filter (\<lambda>n. truthy (gn_occurred_at n)) nodes)))))"

definition root_cause_of :: "graph_edge list \<Rightarrow> graph_node \<Rightarrow> root_cause option" where
  "root_cause_of edges n =
     map_option (\<lambda>t. \<lparr>rt_effect = gn_id n, rt_roots = ct_roots t, rt_terminated = ct_terminated t\<rparr>)
       (traceCause edges (gn_id n) Backward)"

definition tenantSafeGraphDigest ::
  "string \<Rightarrow> graph_node list \<Rightarrow> graph_edge list \<Rightarrow> string \<Rightarrow> string \<Rightarrow> nat \<Rightarrow> graph_digest option" where
  "tenantSafeGraphDigest ws nodes edges graphHash generatedAt recentLimit =
     map_option (\<lambda>rcs.
       \<lparr>gg_workspace_id = ws, gg_generated_at = generatedAt, gg_graph_hash = graphHash,
        gg_node_counts = token_counts (map (\<lambda>n. node_type_str (gn_type n)) nodes),
        gg_edge_counts = token_counts (map (\<lambda>e. edge_type_str (ge_type e)) edges),
        gg_recent = recent_items recentLimit nodes, gg_root_causes = rcs\<rparr>)
       (those (map (root_cause_of edges) (take recentLimit (effectNodesRequiringCause nodes edges))))"

end
