(* ===== verification/Graph_Props.thy ===== *)
theory Graph_Props
  imports Graph_Store "HOL-Library.Multiset"
begin

text \<open>
  Properties of the graph builder: an invariant of the graph under construction, kept by every phase,
  from which the finished graph is well-formed, closed under its edges and typed by a schema; and the
  laws of the content hash.
\<close>

section \<open>Typed identifiers and the edge schema\<close>

definition typed_id :: "node_type \<Rightarrow> string \<Rightarrow> bool" where
  "typed_id t i \<longleftrightarrow> (\<exists>r. i = node_type_str t @ '':'' @ r)"

fun edge_schema :: "edge_type \<Rightarrow> (node_type \<times> node_type) list" where
  "edge_schema E_contains = [(N_workspace, N_project), (N_project, N_document), (N_workspace, N_document)]"
| "edge_schema E_views = [(N_lens, N_project)]"
| "edge_schema E_scopes = [(N_project, N_intent), (N_project, N_packet), (N_project, N_event)]"
| "edge_schema E_derived_from = [(N_intent, N_intent), (N_document, N_document)]"
| "edge_schema E_realizes = [(N_packet, N_intent), (N_event, N_intent)]"
| "edge_schema E_feeds = [(N_source, N_project)]"
| "edge_schema E_caused_by = List.product [N_packet, N_event] [N_event, N_intent, N_packet]"
| "edge_schema E_governs = []"
| "edge_schema E_evidences = [(N_document, N_packet), (N_document, N_event)]"

definition edge_typed :: "graph_edge \<Rightarrow> bool" where
  "edge_typed e \<longleftrightarrow> (\<exists>(a, b) \<in> set (edge_schema (ge_type e)). typed_id a (ge_from e) \<and> typed_id b (ge_to e))"

lemma typed_id_append:
  "typed_id N_workspace (''workspace:'' @ r)" "typed_id N_project (''project:'' @ r)" "typed_id N_lens (''lens:'' @ r)"
  "typed_id N_intent (''intent:'' @ r)" "typed_id N_packet (''packet:'' @ r)" "typed_id N_event (''event:'' @ r)"
  "typed_id N_source (''source:'' @ r)" "typed_id N_document (''document:'' @ r)" "typed_id t (node_type_str t @ CHR '':'' # r)"
  by (simp_all add: typed_id_def)

lemmas typed_id_simps [simp] = typed_id_append typed_id_append [unfolded append.simps]

lemma node_type_str_prefix: "takeWhile (\<lambda>c. c \<noteq> CHR '':'') (node_type_str t @ '':'' @ r) = node_type_str t"
  by (cases t) simp_all

lemma node_type_str_inj: "node_type_str a = node_type_str b \<Longrightarrow> a = b"
  by (cases a; cases b) simp_all

lemma typed_id_unique: "typed_id a i \<Longrightarrow> typed_id b i \<Longrightarrow> a = b"
  unfolding typed_id_def by (metis node_type_str_inj node_type_str_prefix)

section \<open>An invariant of the graph under construction\<close>

definition ids :: "graph \<Rightarrow> string set" where
  "ids g = set (map gn_id (gr_nodes g))"

definition node_ok :: "string \<Rightarrow> graph_node \<Rightarrow> bool" where
  "node_ok ws n \<longleftrightarrow>
     gn_workspace_id n = ws \<and> gn_id n = node_type_str (gn_type n) @ '':'' @ gn_ref_id n \<and>
     (gn_description n = [] \<longrightarrow> js_trim (gn_ref_id n) = [])"

text \<open>\<open>F\<close> holds the identifiers of nodes that a later row may still add.\<close>

definition edge_ok :: "string set \<Rightarrow> graph_edge \<Rightarrow> bool" where
  "edge_ok F e \<longleftrightarrow> ge_from e \<in> F \<and> ge_to e \<in> F \<and> edge_typed e"

definition graph_inv :: "string \<Rightarrow> string set \<Rightarrow> graph \<Rightarrow> bool" where
  "graph_inv ws F g \<longleftrightarrow>
     distinct (map gn_id (gr_nodes g)) \<and> (\<forall>n \<in> set (gr_nodes g). node_ok ws n) \<and>
     distinct (map edge_key (gr_edges g)) \<and> (\<forall>e \<in> set (gr_edges g). edge_ok (F \<union> ids g) e)"

lemma seen_iff [simp]: "seen g i \<longleftrightarrow> i \<in> ids g"
  by (simp add: seen_def ids_def)

lemma ids_addNode [simp]: "ids (addNode n g) = insert (gn_id n) (ids g)"
  by (auto simp: addNode_def ids_def)

lemma ids_addEdge [simp]: "ids (addEdge a b t g) = ids g"
  by (simp add: addEdge_def ids_def Let_def)

lemma edge_ok_mono: "edge_ok F e \<Longrightarrow> F \<subseteq> F' \<Longrightarrow> edge_ok F' e"
  by (auto simp: edge_ok_def)

lemma addNode_inv: "graph_inv ws F g \<Longrightarrow> node_ok ws n \<Longrightarrow> graph_inv ws F (addNode n g)"
  unfolding graph_inv_def ids_addNode
  by (auto simp: addNode_def ids_def elim: edge_ok_mono)

lemma addEdge_inv:
  assumes "graph_inv ws F g" and "edge_ok (F \<union> ids g) \<lparr>ge_from = a, ge_to = b, ge_type = t\<rparr>"
  shows "graph_inv ws F (addEdge a b t g)"
  using assms unfolding graph_inv_def ids_addEdge by (auto simp: addEdge_def Let_def)

lemma link_if_inv:
  assumes "graph_inv ws F g" and "\<And>i. i \<in> set refs \<Longrightarrow> graph_inv ws F (add i g)"
  shows "graph_inv ws F (link_if ref refs add g)"
  using assms by (auto simp: link_if_def split: option.splits)

lemma ids_link_if: "(\<And>i. ids (add i g) = ids g) \<Longrightarrow> ids (link_if ref refs add g) = ids g"
  by (simp add: link_if_def split: option.splits)

definition blank :: "string option \<Rightarrow> bool" where
  "blank v \<longleftrightarrow> (case v of None \<Rightarrow> True | Some s \<Rightarrow> js_trim s = [])"

lemma blank_simps [simp]: "blank None" "blank (Some s) \<longleftrightarrow> js_trim s = []"
  by (simp_all add: blank_def)

lemma nonEmpty_Nil: "nonEmpty vs = [] \<longleftrightarrow> (\<forall>v \<in> set vs. blank v)"
proof (cases "List.find (\<lambda>v. case v of None \<Rightarrow> False | Some s \<Rightarrow> js_trim s \<noteq> []) vs")
  case None
  then have "\<forall>v \<in> set vs. blank v" by (auto simp: find_None_iff blank_def split: option.splits)
  with None show ?thesis by (simp add: nonEmpty_def)
next
  case (Some v)
  from find_Some_in [OF this] obtain s where s: "v = Some s" "js_trim s \<noteq> []" "v \<in> set vs"
    by (auto split: option.splits)
  then have "s \<noteq> []" "\<exists>v \<in> set vs. \<not> blank v" by (auto intro: bexI [of _ v])
  with Some s(1) show ?thesis by (simp add: nonEmpty_def)
qed

section \<open>The phases\<close>

text \<open>
  The contract of one phase of the builder: it keeps the invariant, adds nodes only, and the row it
  handles has its node afterwards.
\<close>

locale graph_phase =
  fixes ws :: string and F :: "string set" and step :: "graph \<Rightarrow> 'r \<Rightarrow> graph"
    and admitted :: "'r \<Rightarrow> bool" and own :: "'r \<Rightarrow> string set"
  assumes keeps: "admitted x \<Longrightarrow> graph_inv ws F g \<Longrightarrow> graph_inv ws F (step g x)"
    and adds: "ids (step g x) = ids g \<union> own x"
begin

lemma fold_keeps: "(\<And>x. x \<in> set xs \<Longrightarrow> admitted x) \<Longrightarrow> graph_inv ws F g \<Longrightarrow> graph_inv ws F (foldl step g xs)"
  by (induction xs arbitrary: g) (auto intro: keeps)

lemma fold_adds: "ids (foldl step g xs) = ids g \<union> \<Union> (own ` set xs)"
  by (induction xs arbitrary: g) (auto simp: adds)

end

definition named :: "string \<Rightarrow> string list \<Rightarrow> string set" where
  "named p xs = (\<lambda>i. p @ i) ` set xs"

lemma named_sub: "named p xs \<subseteq> F \<Longrightarrow> i \<in> set xs \<Longrightarrow> p @ i \<in> F"
  by (auto simp: named_def)


lemma edge_typed_append:
  "edge_typed \<lparr>ge_from = ''workspace:'' @ x, ge_to = ''project:'' @ y, ge_type = E_contains\<rparr>"
  "edge_typed \<lparr>ge_from = ''project:'' @ x, ge_to = ''document:'' @ y, ge_type = E_contains\<rparr>"
  "edge_typed \<lparr>ge_from = ''workspace:'' @ x, ge_to = ''document:'' @ y, ge_type = E_contains\<rparr>"
  "edge_typed \<lparr>ge_from = ''lens:'' @ x, ge_to = ''project:'' @ y, ge_type = E_views\<rparr>"
  "edge_typed \<lparr>ge_from = ''project:'' @ x, ge_to = ''intent:'' @ y, ge_type = E_scopes\<rparr>"
  "edge_typed \<lparr>ge_from = ''project:'' @ x, ge_to = ''packet:'' @ y, ge_type = E_scopes\<rparr>"
  "edge_typed \<lparr>ge_from = ''project:'' @ x, ge_to = ''event:'' @ y, ge_type = E_scopes\<rparr>"
  "edge_typed \<lparr>ge_from = ''intent:'' @ x, ge_to = ''intent:'' @ y, ge_type = E_derived_from\<rparr>"
  "edge_typed \<lparr>ge_from = ''document:'' @ x, ge_to = ''document:'' @ y, ge_type = E_derived_from\<rparr>"
  "edge_typed \<lparr>ge_from = ''packet:'' @ x, ge_to = ''intent:'' @ y, ge_type = E_realizes\<rparr>"
  "edge_typed \<lparr>ge_from = ''event:'' @ x, ge_to = ''intent:'' @ y, ge_type = E_realizes\<rparr>"
  "edge_typed \<lparr>ge_from = ''source:'' @ x, ge_to = ''project:'' @ y, ge_type = E_feeds\<rparr>"
  "edge_typed \<lparr>ge_from = ''packet:'' @ x, ge_to = ''event:'' @ y, ge_type = E_caused_by\<rparr>"
  "edge_typed \<lparr>ge_from = ''packet:'' @ x, ge_to = ''intent:'' @ y, ge_type = E_caused_by\<rparr>"
  "edge_typed \<lparr>ge_from = ''packet:'' @ x, ge_to = ''packet:'' @ y, ge_type = E_caused_by\<rparr>"
  "edge_typed \<lparr>ge_from = ''event:'' @ x, ge_to = ''event:'' @ y, ge_type = E_caused_by\<rparr>"
  "edge_typed \<lparr>ge_from = ''event:'' @ x, ge_to = ''intent:'' @ y, ge_type = E_caused_by\<rparr>"
  "edge_typed \<lparr>ge_from = ''event:'' @ x, ge_to = ''packet:'' @ y, ge_type = E_caused_by\<rparr>"
  by (simp_all add: edge_typed_def)

lemmas edge_typed_simps [simp] = edge_typed_append edge_typed_append [unfolded append.simps]

lemma edge_okI: "a \<in> F \<Longrightarrow> b \<in> F \<Longrightarrow> edge_typed \<lparr>ge_from = a, ge_to = b, ge_type = t\<rparr> \<Longrightarrow> edge_ok F \<lparr>ge_from = a, ge_to = b, ge_type = t\<rparr>"
  by (simp add: edge_ok_def)

lemmas phase_intros = addNode_inv addEdge_inv link_if_inv edge_okI

interpretation project_phase: graph_phase ws F "project_step ws" "\<lambda>p. ''workspace:'' @ ws \<in> F" "\<lambda>p. {''project:'' @ pf_id p}" for ws F
proof
  fix p g assume "''workspace:'' @ ws \<in> F" "graph_inv ws F g"
  then show "graph_inv ws F (project_step ws g p)"
    unfolding project_step_def
    by (intro phase_intros) (auto simp: named_def node_ok_def nonEmpty_Nil)
qed (simp add: project_step_def)

lemma sourceLabel_Nil: "sourceLabel num b = [] \<Longrightarrow> bf_id b = []"
  by (auto simp: sourceLabel_def Let_def or_else_def split: json.splits option.splits if_splits)

interpretation binding_phase: graph_phase ws F "binding_step num ws pids" "\<lambda>b. named ''project:'' pids \<subseteq> F"
  "\<lambda>b. if in_ws ws (bf_workspace_id b) then {''source:'' @ bf_id b} else {}" for ws F num pids
proof
  fix b g assume "named ''project:'' pids \<subseteq> F" "graph_inv ws F g"
  then show "graph_inv ws F (binding_step num ws pids g b)"
    unfolding binding_step_def Let_def
    by (auto intro!: phase_intros simp: named_def node_ok_def nonEmpty_Nil)
qed (simp add: binding_step_def Let_def ids_link_if)

interpretation lens_phase: graph_phase ws F "lens_step ws" "\<lambda>l. True" "\<lambda>l. {''lens:'' @ lf_id l}" for ws F
  by standard (auto simp: lens_step_def node_ok_def nonEmpty_Nil intro!: addNode_inv)

interpretation membership_phase: graph_phase ws F "membership_step lids pids"
  "\<lambda>m. named ''lens:'' lids \<subseteq> F \<and> named ''project:'' pids \<subseteq> F" "\<lambda>m. {}" for ws F lids pids
  by standard (auto simp: named_def membership_step_def intro!: addEdge_inv edge_okI)

interpretation intent_phase: graph_phase ws F "intent_step ws lids pids iids"
  "\<lambda>i. named ''project:'' pids \<subseteq> F \<and> named ''intent:'' iids \<subseteq> F"
  "\<lambda>i. if in_ws ws (if_workspace_id i) then {''intent:'' @ if_id i} else {}" for ws F lids pids iids
proof
  fix i g assume *: "named ''project:'' pids \<subseteq> F \<and> named ''intent:'' iids \<subseteq> F" "graph_inv ws F g"
  show "graph_inv ws F (intent_step ws lids pids iids g i)"
    unfolding intent_step_def Let_def
    using * by (auto intro!: phase_intros
      simp: named_def node_ok_def nonEmpty_Nil ids_link_if)
qed (simp add: intent_step_def Let_def ids_link_if)

interpretation unified_phase: graph_phase ws F "unified_step ws lids pids iids"
  "\<lambda>u. named ''project:'' pids \<subseteq> F \<and> named ''intent:'' iids \<subseteq> F"
  "\<lambda>u. if in_ws ws (uf_workspace_id u)
       then {(if uf_plane u = P_governance \<or> or_else (uf_kind u) [] \<in> set PACKET_KINDS then ''packet:'' else ''event:'') @
             or_else (uf_source_plane_id u) (uf_id u)} else {}" for ws F lids pids iids
proof
  fix u g assume *: "named ''project:'' pids \<subseteq> F \<and> named ''intent:'' iids \<subseteq> F" "graph_inv ws F g"
  show "graph_inv ws F (unified_step ws lids pids iids g u)"
    unfolding unified_step_def Let_def
    using * by (auto intro!: phase_intros simp: named_def node_ok_def nonEmpty_Nil ids_link_if or_else_def blank_def split: option.splits)
qed (simp add: unified_step_def Let_def ids_link_if)

interpretation packet_phase: graph_phase ws F "packet_step ws pids" "\<lambda>k. named ''project:'' pids \<subseteq> F"
  "\<lambda>k. if in_ws ws (kf_workspace_id k) then {''packet:'' @ kf_id k} else {}" for ws F pids
proof
  fix k g assume *: "named ''project:'' pids \<subseteq> F" "graph_inv ws F g"
  show "graph_inv ws F (packet_step ws pids g k)"
    unfolding packet_step_def Let_def
    using * by (auto intro!: phase_intros simp: named_def node_ok_def nonEmpty_Nil ids_link_if split: option.splits)
qed (auto simp: packet_step_def Let_def ids_link_if split: option.splits)

interpretation document_phase: graph_phase ws F "document_step ws pids dids"
  "\<lambda>d. ''workspace:'' @ ws \<in> F \<and> named ''project:'' pids \<subseteq> F \<and> named ''document:'' dids \<subseteq> F"
  "\<lambda>d. if in_ws ws (df_workspace_id d) then {''document:'' @ df_id d} else {}" for ws F pids dids
proof
  fix d g assume *: "''workspace:'' @ ws \<in> F \<and> named ''project:'' pids \<subseteq> F \<and> named ''document:'' dids \<subseteq> F" "graph_inv ws F g"
  show "graph_inv ws F (document_step ws pids dids g d)"
    unfolding document_step_def Let_def
    using * by (auto intro!: phase_intros simp: named_def node_ok_def nonEmpty_Nil ids_link_if split: option.splits)
qed (auto simp: document_step_def Let_def ids_link_if split: option.splits)

definition evidence_edge :: "string \<Rightarrow> graph \<Rightarrow> string \<Rightarrow> graph" where
  "evidence_edge did g t = (if seen g t then addEdge did t E_evidences g else g)"

lemma edge_typed_evidence:
  "typed_id N_document did \<Longrightarrow> t \<in> set (evidence_targets ev) \<Longrightarrow> edge_typed \<lparr>ge_from = did, ge_to = t, ge_type = E_evidences\<rparr>"
  by (auto simp: edge_typed_def evidence_targets_def split: option.splits if_splits)

interpretation evidence_edges: graph_phase ws F "evidence_edge did"
  "\<lambda>t. did \<in> F \<and> edge_typed \<lparr>ge_from = did, ge_to = t, ge_type = E_evidences\<rparr>" "\<lambda>t. {}" for ws F did
  by standard (auto simp: evidence_edge_def intro!: addEdge_inv edge_okI)

interpretation evidence_documents: graph_phase ws F "\<lambda>g did. foldl (evidence_edge did) g (evidence_targets ev)"
  "\<lambda>did. did \<in> F \<and> typed_id N_document did" "\<lambda>t. {}" for ws F ev
proof
  fix did g assume "did \<in> F \<and> typed_id N_document did" "graph_inv ws F g"
  then show "graph_inv ws F (foldl (evidence_edge did) g (evidence_targets ev))"
    by (intro evidence_edges.fold_keeps) (auto intro: edge_typed_evidence)
qed (simp add: evidence_edges.fold_adds)

interpretation evidence_phase: graph_phase ws F "evidence_step byHash"
  "\<lambda>ev. \<forall>h. \<forall>did \<in> set (entry byHash h). did \<in> F \<and> typed_id N_document did" "\<lambda>ev. {}" for ws F byHash
proof
  have step: "evidence_step byHash g ev = (let h = js_trim (the_default [] (el_content_hash ev))
      in if h = [] then g else foldl (\<lambda>g did. foldl (evidence_edge did) g (evidence_targets ev)) g (entry byHash h))" for g ev
    unfolding evidence_step_def evidence_edge_def [abs_def] entry_def by (rule refl)
  fix ev g
  show "ids (evidence_step byHash g ev) = ids g \<union> {}"
    by (simp add: step Let_def evidence_documents.fold_adds)
  assume "\<forall>h. \<forall>did \<in> set (entry byHash h). did \<in> F \<and> typed_id N_document did" "graph_inv ws F g"
  then show "graph_inv ws F (evidence_step byHash g ev)"
    by (simp add: step Let_def evidence_documents.fold_keeps)
qed

interpretation causation_phase: graph_phase ws F causation_step
  "\<lambda>c. edge_typed \<lparr>ge_from = fst c, ge_to = snd c, ge_type = E_caused_by\<rparr>" "\<lambda>c. {}" for ws F
  by standard (auto simp: causation_step_def intro!: addEdge_inv edge_okI)

section \<open>The finished graph\<close>

text \<open>The nodes of a workspace's facts, and the facts whose lenses and causation pairs the builder links safely.\<close>

definition fact_ids :: "string \<Rightarrow> data_graph_facts \<Rightarrow> string set" where
  "fact_ids ws fs =
     insert (''workspace:'' @ ws) (named ''project:'' (project_ids ws fs) \<union> named ''lens:'' (lens_ids ws fs) \<union>
       named ''intent:'' (intent_ids ws fs) \<union> named ''document:'' (document_ids ws fs))"

definition causation_typed :: "data_graph_facts \<Rightarrow> bool" where
  "causation_typed fs \<longleftrightarrow> (\<forall>c \<in> set (fa_causation fs). edge_typed \<lparr>ge_from = fst c, ge_to = snd c, ge_type = E_caused_by\<rparr>)"

lemma docs_by_hash_ok:
  "did \<in> set (entry (docs_by_hash ws ds) h) \<Longrightarrow> \<exists>d \<in> set ds. in_ws ws (df_workspace_id d) \<and> did = ''document:'' @ df_id d"
proof -
  have "did \<in> set (entry m h) \<or> (\<exists>d \<in> set ds. in_ws ws (df_workspace_id d) \<and> did = ''document:'' @ df_id d)"
    if "did \<in> set (entry (foldl (\<lambda>m d. let h = js_trim (the_default [] (df_content_hash d))
                  in if \<not> in_ws ws (df_workspace_id d) \<or> h = [] then m
                     else entry_update h (\<lambda>arr. arr @ [''document:'' @ df_id d]) m) m ds) h)" for m
    using that
  proof (induction ds arbitrary: m)
    case (Cons d ds)
    from Cons.IH [OF Cons.prems [unfolded foldl_Cons]] show ?case
      by (auto simp: Let_def entry_entry_update split: if_splits)
  qed simp
  then show "did \<in> set (entry (docs_by_hash ws ds) h) \<Longrightarrow> ?thesis"
    by (fastforce simp: docs_by_hash_def entry_def)
qed

definition empty_graph :: graph where
  "empty_graph = \<lparr>gr_nodes = [], gr_edges = []\<rparr>"

lemma workspace_phase_inv: "graph_inv ws F (workspace_phase ws fs empty_graph)"
  unfolding workspace_phase_def Let_def
  by (rule addNode_inv) (auto simp: graph_inv_def empty_graph_def ids_def node_ok_def nonEmpty_Nil)

lemma ids_workspace_phase: "ids (workspace_phase ws fs empty_graph) = {''workspace:'' @ ws}"
  by (simp add: workspace_phase_def empty_graph_def ids_def addNode_def Let_def)

lemma fact_ids_sub:
  "''workspace:'' @ ws \<in> fact_ids ws fs" "named ''project:'' (project_ids ws fs) \<subseteq> fact_ids ws fs"
  "named ''lens:'' (lens_ids ws fs) \<subseteq> fact_ids ws fs" "named ''intent:'' (intent_ids ws fs) \<subseteq> fact_ids ws fs"
  "named ''document:'' (document_ids ws fs) \<subseteq> fact_ids ws fs"
  unfolding fact_ids_def by blast+

lemma project_graph_inv:
  assumes "causation_typed fs"
  shows "graph_inv ws (fact_ids ws fs) (project_graph num ws fs)"
proof -
  have docs: "\<forall>h. \<forall>did \<in> set (entry (docs_by_hash ws (fa_documents fs)) h). did \<in> fact_ids ws fs \<and> typed_id N_document did"
  proof (intro allI ballI)
    fix h did assume "did \<in> set (entry (docs_by_hash ws (fa_documents fs)) h)"
    then obtain d where d: "d \<in> set (fa_documents fs)" "in_ws ws (df_workspace_id d)" "did = ''document:'' @ df_id d"
      using docs_by_hash_ok by blast
    then have "df_id d \<in> set (document_ids ws fs)" by (simp add: document_ids_def)
    with d(3) show "did \<in> fact_ids ws fs \<and> typed_id N_document did"
      using named_sub [OF fact_ids_sub(5)] by (metis typed_id_append(8))
  qed
  show ?thesis
    unfolding project_graph_def Let_def empty_graph_def [symmetric]
    by (intro causation_phase.fold_keeps evidence_phase.fold_keeps document_phase.fold_keeps packet_phase.fold_keeps
        unified_phase.fold_keeps intent_phase.fold_keeps membership_phase.fold_keeps lens_phase.fold_keeps
        binding_phase.fold_keeps project_phase.fold_keeps workspace_phase_inv conjI fact_ids_sub TrueI docs)
      (use assms in \<open>unfold causation_typed_def, blast\<close>)
qed

lemmas phase_adds = causation_phase.fold_adds evidence_phase.fold_adds document_phase.fold_adds packet_phase.fold_adds
  unified_phase.fold_adds intent_phase.fold_adds membership_phase.fold_adds lens_phase.fold_adds binding_phase.fold_adds
  project_phase.fold_adds ids_workspace_phase

lemma named_own:
  "named ''project:'' (project_ids ws fs) = (\<Union>p \<in> set (ws_projects ws fs). {''project:'' @ pf_id p})"
  "\<forall>l \<in> set (fa_lenses fs). lf_workspace_id l \<noteq> None \<Longrightarrow>
     named ''lens:'' (lens_ids ws fs) = (\<Union>l \<in> set (filter (\<lambda>l. lf_workspace_id l = Some ws) (fa_lenses fs)). {''lens:'' @ lf_id l})"
  "named ''intent:'' (intent_ids ws fs) = (\<Union>i \<in> set (fa_intents fs). if in_ws ws (if_workspace_id i) then {''intent:'' @ if_id i} else {})"
  "named ''document:'' (document_ids ws fs) = (\<Union>d \<in> set (fa_documents fs). if in_ws ws (df_workspace_id d) then {''document:'' @ df_id d} else {})"
  by (auto simp: named_def project_ids_def lens_ids_def intent_ids_def document_ids_def split: if_splits)

lemma covered_phases: "insert w (P \<union> L \<union> I \<union> D) \<subseteq> {w} \<union> P \<union> S \<union> L \<union> M \<union> I \<union> U \<union> K \<union> D \<union> E \<union> C"
  by blast

lemma fact_ids_covered:
  assumes "\<forall>l \<in> set (fa_lenses fs). lf_workspace_id l \<noteq> None"
  shows "fact_ids ws fs \<subseteq> ids (project_graph num ws fs)"
  unfolding project_graph_def Let_def empty_graph_def [symmetric] phase_adds fact_ids_def named_own(1,3,4) named_own(2) [OF assms]
  by (rule covered_phases)

lemma graph_inv_closed: "graph_inv ws F g \<Longrightarrow> F \<subseteq> ids g \<Longrightarrow> graph_inv ws {} g"
  by (simp add: graph_inv_def Un_absorb1)

lemma causation_pairs_typed:
  "c \<in> set (causation_pairs a) \<Longrightarrow> edge_typed \<lparr>ge_from = fst c, ge_to = snd c, ge_type = E_caused_by\<rparr>"
  by (auto simp: causation_pairs_def Let_def split: option.splits if_splits)

lemma assembled_causation [simp]: "causation_typed (assembleDataGraphFactsRow to_iso docs ws db)"
  by (auto simp: causation_typed_def assembleDataGraphFactsRow_def dest: causation_pairs_typed in_set_takeD)

lemma assembled_lenses: "ws \<noteq> [] \<Longrightarrow> \<forall>l \<in> set (fa_lenses (assembleDataGraphFactsRow to_iso docs ws db)). lf_workspace_id l \<noteq> None"
  by (auto simp: assembleDataGraphFactsRow_def lens_fact_of_def orNull_def)

lemma assembled_graph_inv:
  "ws \<noteq> [] \<Longrightarrow> graph_inv ws {} (project_graph num ws (assembleDataGraphFactsRow to_iso docs ws db))"
  by (rule graph_inv_closed [OF project_graph_inv fact_ids_covered]) (simp_all add: assembled_lenses)

lemma graph_inv_typed: "graph_inv ws F g \<Longrightarrow> n \<in> set (gr_nodes g) \<Longrightarrow> typed_id (gn_type n) (gn_id n)"
  by (auto simp: graph_inv_def node_ok_def typed_id_def)

lemma edge_endpoints:
  assumes inv: "graph_inv ws {} g" and e: "e \<in> set (gr_edges g)"
  obtains a b where "a \<in> set (gr_nodes g)" "b \<in> set (gr_nodes g)" "gn_id a = ge_from e" "gn_id b = ge_to e"
    "(gn_type a, gn_type b) \<in> set (edge_schema (ge_type e))"
proof -
  from inv e obtain a b where ab: "a \<in> set (gr_nodes g)" "b \<in> set (gr_nodes g)" "gn_id a = ge_from e" "gn_id b = ge_to e"
    and t: "edge_typed e" by (fastforce simp: graph_inv_def edge_ok_def ids_def)
  from t obtain s u where "(s, u) \<in> set (edge_schema (ge_type e))" "typed_id s (ge_from e)" "typed_id u (ge_to e)"
    by (auto simp: edge_typed_def)
  with graph_inv_typed [OF inv] ab typed_id_unique have "(gn_type a, gn_type b) \<in> set (edge_schema (ge_type e))" by metis
  with ab that show ?thesis by blast
qed

text \<open>
  C35. The graph built from a workspace's tables is well-formed: node identifiers and edge keys are
  unique; every node belongs to the workspace, carries its type and row in its identifier, and has a
  description unless its row identifier is blank; and both ends of every edge are nodes of the graph
  whose types the edge's kind admits, so no edge leaves the tenant and nothing points back at a lens.
\<close>

theorem graph_wellformed:
  assumes "ws \<noteq> []" and "g = fst (buildDataGraph num ws (assembleDataGraphFactsRow to_iso docs ws db))"
  shows "distinct (map gn_id (gr_nodes g)) \<and> distinct (map edge_key (gr_edges g)) \<and>
    (\<forall>n \<in> set (gr_nodes g). gn_workspace_id n = ws \<and> gn_id n = node_type_str (gn_type n) @ '':'' @ gn_ref_id n \<and>
       (gn_description n = [] \<longrightarrow> js_trim (gn_ref_id n) = [])) \<and>
    (\<forall>e \<in> set (gr_edges g). \<exists>a \<in> set (gr_nodes g). \<exists>b \<in> set (gr_nodes g).
       gn_id a = ge_from e \<and> gn_id b = ge_to e \<and> (gn_type a, gn_type b) \<in> set (edge_schema (ge_type e)))"
proof -
  have g: "g = project_graph num ws (assembleDataGraphFactsRow to_iso docs ws db)"
    using assms(2) by (simp add: buildDataGraph_def Let_def)
  have inv: "graph_inv ws {} g" unfolding g by (rule assembled_graph_inv [OF assms(1)])
  then show ?thesis unfolding graph_inv_def node_ok_def by (metis (no_types, lifting) edge_endpoints inv)
qed

text \<open>A workspace with one project, one lens over it, an intent, an event that realises it and a packet caused by the event.\<close>

definition demo_graph_db :: graph_db where
  "demo_graph_db =
     \<lparr>gd_workspaces = [\<lparr>wr_id = ''w'', wr_config = [(''label'', ''W'')]\<rparr>],
      gd_projects = [\<lparr>pr_id = ''p'', pr_workspace_id = ''w'', pr_name = Some ''P'', pr_description = None, pr_created_at = None\<rparr>],
      gd_lenses = [\<lparr>lr_id = ''l'', lr_workspace_id = Some ''w'', lr_slug = None, lr_label = None, lr_status = ''active'', lr_created_at = None\<rparr>],
      gd_memberships = [\<lparr>mr_domain_id = ''l'', mr_workspace_id = ''w'', mr_project_id = ''p''\<rparr>],
      gd_intents = [\<lparr>ir_id = ''i'', ir_workspace_id = Some ''w'', ir_project_id = Some ''p'', ir_domain_id = None, ir_title = None,
                     ir_derived_from = None, ir_created_at = None\<rparr>],
      gd_events = [\<lparr>er_id = ''e'', er_workspace_id = ''w'', er_project_id = Some ''p'', er_domain_id = None, er_source_tool = None,
                    er_occurred_at = None, er_ingested_at = None, er_summary = None, er_intent_id = Some ''i''\<rparr>],
      gd_unified = [], gd_bindings = [],
      gd_packets = [\<lparr>kr_id = ''k'', kr_workspace_id = ''w'', kr_project_id = None, kr_event_id = Some ''e'', kr_title = None, kr_summary = None,
                     kr_lifecycle_state = ''draft'', kr_created_at = None, kr_updated_at = None\<rparr>],
      gd_audit = [], gd_has_documents = True, gd_documents = [], gd_evidence = [], gd_nodes = [], gd_edges = [], gd_snapshots = []\<rparr>"

theorem graph_wellformed_witness:
  "let g = fst (buildDataGraph (\<lambda>_. []) ''w'' (assembleDataGraphFactsRow (\<lambda>_. []) False ''w'' demo_graph_db))
   in distinct (map gn_id (gr_nodes g)) \<and> (\<forall>n \<in> set (gr_nodes g). gn_workspace_id n = ''w'') \<and>
      (\<forall>e \<in> set (gr_edges g). \<exists>a \<in> set (gr_nodes g). \<exists>b \<in> set (gr_nodes g).
         gn_id a = ge_from e \<and> gn_id b = ge_to e \<and> (gn_type a, gn_type b) \<in> set (edge_schema (ge_type e)))"
  using graph_wellformed [of "''w''", OF _ refl, of "\<lambda>_. []" "\<lambda>_. []" False demo_graph_db] unfolding Let_def by blast

section \<open>The content hash\<close>

lemma to_int32_mod: "to_int32 n mod 2 ^ 32 = n mod 2 ^ 32"
  by (simp add: to_int32_def Let_def mod_diff_eq)

lemma hash_char_djb2: "hash_char h c = (33 * h + int (of_char c)) mod 2 ^ 32"
proof -
  have "hash_char h c = (to_int32 (h * 2 ^ 5) mod 2 ^ 32 + (h + int (of_char c))) mod 2 ^ 32"
    unfolding hash_char_def by (simp add: mod_add_left_eq add.assoc)
  then show ?thesis unfolding to_int32_mod by (simp add: mod_add_left_eq add.assoc)
qed

lemma uint_djb2: "hash_char (uint w) c = uint (33 * w + of_nat (of_char c) :: 32 word)"
  unfolding hash_char_djb2
  by (simp add: uint_word_ariths unsigned_of_nat take_bit_eq_mod mod_simps zmod_int)

lemma foldl_djb2: "foldl hash_char (uint w) cs = uint (foldl (\<lambda>h c. 33 * h + of_nat (of_char c)) (w :: 32 word) cs)"
  by (induction cs arbitrary: w) (simp_all add: uint_djb2)

lemma hash_material_perm:
  assumes "mset (map node_key ns) = mset (map node_key ns')" and "mset es = mset es'"
  shows "hash_material ns es = hash_material ns' es'"
proof -
  have "sort (map node_key ns) = sort (map node_key ns')"
    by (rule properties_for_sort) (simp_all add: assms(1) [symmetric] flip: mset_map)
  moreover have "sort (map edge_key es) = sort (map edge_key es')"
    by (rule properties_for_sort) (simp_all add: assms(2))
  ultimately show ?thesis by (simp add: hash_material_def)
qed

text \<open>
  The graph hash is the 32-bit djb2 hash: the JavaScript shift-and-add on doubles computes
  \<open>33 * h + c\<close> in machine words, from 5381 over the sorted node and edge keys; and it depends on the
  graph only up to the order of its nodes and edges, so rows read in another order hash alike.
\<close>

theorem graph_hash_djb2:
  assumes "mset ns' = mset ns" and "mset es' = mset es"
  shows "computeGraphHash ns' es' = ''dgh_'' @ hex_nat (unat (foldl (\<lambda>h c. 33 * h + of_nat (of_char c)) (5381 :: 32 word) (hash_material ns es)))"
proof -
  have "hash_material ns' es' = hash_material ns es"
    using assms by (intro hash_material_perm) (simp_all only: mset_map)
  then show ?thesis
    using foldl_djb2 [of 5381 "hash_material ns es"] unfolding computeGraphHash_def by simp
qed

definition demo_edges :: "graph_edge list" where
  "demo_edges = [\<lparr>ge_from = ''a'', ge_to = ''b'', ge_type = E_feeds\<rparr>, \<lparr>ge_from = ''c'', ge_to = ''b'', ge_type = E_feeds\<rparr>]"

theorem graph_hash_djb2_witness:
  "computeGraphHash [] (rev demo_edges) =
     ''dgh_'' @ hex_nat (unat (foldl (\<lambda>h c. 33 * h + of_nat (of_char c)) (5381 :: 32 word) (hash_material [] demo_edges)))"
  by (rule graph_hash_djb2) simp_all

end
