(* ===== verification/Graph_Persist.thy ===== *)
theory Graph_Persist
  imports Graph_Props
begin

text \<open>
  Properties of the persisted graph: the writer succeeds and converges, what it wrote is what the lineage
  view reads back, tenants do not see each other's rebuilds, and the two gaps between builder, hash and
  schema (labels outside the hash, document nodes outside the vocabulary of the tables).
\<close>

section \<open>Graphs that differ in their labels\<close>

definition strip :: "graph_node \<Rightarrow> graph_node" where
  "strip n = n\<lparr>gn_label := None, gn_description := []\<rparr>"

definition same_shape :: "graph \<Rightarrow> graph \<Rightarrow> bool" where
  "same_shape g h \<longleftrightarrow> map strip (gr_nodes g) = map strip (gr_nodes h) \<and> gr_edges g = gr_edges h"

lemma strip_sel [simp]: "gn_id (strip n) = gn_id n" "node_key (strip n) = node_key n"
  by (simp_all add: strip_def node_key_def)

lemma same_shape_ids: "same_shape g h \<Longrightarrow> ids g = ids h"
proof -
  assume "same_shape g h"
  then have "map gn_id (map strip (gr_nodes g)) = map gn_id (map strip (gr_nodes h))" by (simp only: same_shape_def)
  then have "map gn_id (gr_nodes g) = map gn_id (gr_nodes h)" by (simp add: comp_def)
  then show ?thesis by (simp only: ids_def)
qed

lemma same_shape_keys: "same_shape g h \<Longrightarrow> map node_key (gr_nodes g) = map node_key (gr_nodes h)"
proof -
  assume "same_shape g h"
  then have "map node_key (map strip (gr_nodes g)) = map node_key (map strip (gr_nodes h))" by (simp only: same_shape_def)
  then show ?thesis by (simp add: comp_def)
qed

lemma same_shape_hash:
  "same_shape g h \<Longrightarrow> computeGraphHash (gr_nodes g) (gr_edges g) = computeGraphHash (gr_nodes h) (gr_edges h)"
  using same_shape_keys [of g h] by (simp add: computeGraphHash_def hash_material_def same_shape_def)

lemma same_shape_addNode: "same_shape g h \<Longrightarrow> strip n = strip m \<Longrightarrow> same_shape (addNode n g) (addNode m h)"
  using same_shape_ids [of g h] strip_sel(1) [of n] strip_sel(1) [of m]
  by (auto simp: addNode_def same_shape_def)

lemma same_shape_addEdge: "same_shape g h \<Longrightarrow> same_shape (addEdge a b t g) (addEdge a b t h)"
  by (simp add: addEdge_def same_shape_def Let_def)

lemma same_shape_link_if: "same_shape g h \<Longrightarrow> (\<And>i. same_shape (add i g) (add i h)) \<Longrightarrow> same_shape (link_if r xs add g) (link_if r xs add h)"
  by (simp add: link_if_def split: option.splits)

lemmas same_shape_intros = same_shape_addNode same_shape_addEdge same_shape_link_if

lemma same_shape_foldl:
  assumes "list_all2 R xs ys" and "\<And>g h x y. R x y \<Longrightarrow> same_shape g h \<Longrightarrow> same_shape (f g x) (f h y)" and "same_shape g h"
  shows "same_shape (foldl f g xs) (foldl f h ys)"
  using assms by (induction arbitrary: g h rule: list_all2_induct) auto

lemma same_shape_fold: "(\<And>g h x. same_shape g h \<Longrightarrow> same_shape (f g x) (f h x)) \<Longrightarrow> same_shape g h \<Longrightarrow> same_shape (foldl f g xs) (foldl f h xs)"
  by (induction xs arbitrary: g h) auto

lemma same_shape_steps:
  assumes "same_shape g h"
  shows "same_shape (binding_step num ws pids g b) (binding_step num ws pids h b)"
    and "same_shape (lens_step ws g l) (lens_step ws h l)"
    and "same_shape (membership_step lids pids g m) (membership_step lids pids h m)"
    and "same_shape (intent_step ws lids pids iids g i) (intent_step ws lids pids iids h i)"
    and "same_shape (unified_step ws lids pids iids g u) (unified_step ws lids pids iids h u)"
    and "same_shape (document_step ws pids dids g d) (document_step ws pids dids h d)"
    and "same_shape (causation_step g c) (causation_step h c)"
  using assms same_shape_ids [OF assms]
  by (auto simp: binding_step_def lens_step_def membership_step_def intent_step_def unified_step_def document_step_def
      causation_step_def Let_def intro!: same_shape_intros split: option.splits)

lemma same_shape_packet_step: "same_shape g h \<Longrightarrow> same_shape (packet_step ws pids g k) (packet_step ws pids h k)"
  using same_shape_ids [of g h]
  by (auto simp: packet_step_def Let_def ids_link_if intro!: same_shape_intros split: option.splits)

lemma same_shape_evidence_step: "same_shape g h \<Longrightarrow> same_shape (evidence_step m g ev) (evidence_step m h ev)"
  unfolding evidence_step_def Let_def
  by (auto simp: same_shape_ids intro!: same_shape_fold same_shape_addEdge)

section \<open>Renaming projects\<close>

definition rename_projects :: "(project_row \<Rightarrow> string option) \<Rightarrow> (project_row \<Rightarrow> string option) \<Rightarrow> graph_db \<Rightarrow> graph_db" where
  "rename_projects nm ds db = db\<lparr>gd_projects := map (\<lambda>p. p\<lparr>pr_name := nm p, pr_description := ds p\<rparr>) (gd_projects db)\<rparr>"

definition same_project :: "project_fact \<Rightarrow> project_fact \<Rightarrow> bool" where
  "same_project p q \<longleftrightarrow> pf_id p = pf_id q \<and> pf_workspace_id p = pf_workspace_id q \<and> pf_created_at p = pf_created_at q"

definition same_facts :: "data_graph_facts \<Rightarrow> data_graph_facts \<Rightarrow> bool" where
  "same_facts a b \<longleftrightarrow> list_all2 same_project (fa_projects a) (fa_projects b) \<and> b = a\<lparr>fa_projects := fa_projects b\<rparr>"

lemma same_project_step: "same_project p q \<Longrightarrow> same_shape g h \<Longrightarrow> same_shape (project_step ws g p) (project_step ws h q)"
  by (auto simp: project_step_def same_project_def strip_def intro!: same_shape_intros)

lemma list_all2_filter:
  "list_all2 R xs ys \<Longrightarrow> (\<And>x y. R x y \<Longrightarrow> P x = P y) \<Longrightarrow> list_all2 R (filter P xs) (filter P ys)"
  by (induction rule: list_all2_induct) auto

lemma list_all2_map_eq: "list_all2 R xs ys \<Longrightarrow> (\<And>x y. R x y \<Longrightarrow> f x = f y) \<Longrightarrow> map f xs = map f ys"
  by (induction rule: list_all2_induct) auto

lemma same_facts_shape:
  assumes "same_facts a b"
  shows "same_shape (project_graph num ws a) (project_graph num ws b)"
proof -
  have ps: "list_all2 same_project (ws_projects ws a) (ws_projects ws b)"
    using assms unfolding ws_projects_def same_facts_def by (auto intro!: list_all2_filter simp: same_project_def)
  have pids: "project_ids ws b = project_ids ws a"
    using list_all2_map_eq [OF ps, of pf_id] by (simp add: project_ids_def same_project_def)
  have b: "fa_workspaces b = fa_workspaces a" "fa_lenses b = fa_lenses a" "fa_memberships b = fa_memberships a"
    "fa_intents b = fa_intents a" "fa_unified b = fa_unified a" "fa_packets b = fa_packets a" "fa_bindings b = fa_bindings a"
    "fa_documents b = fa_documents a" "fa_evidence_links b = fa_evidence_links a" "fa_causation b = fa_causation a"
    using assms unfolding same_facts_def
    by (metis data_graph_facts.select_convs data_graph_facts.surjective data_graph_facts.update_convs(2))+
  have same: "lens_ids ws b = lens_ids ws a" "intent_ids ws b = intent_ids ws a" "document_ids ws b = document_ids ws a"
    "workspace_phase ws b = workspace_phase ws a"
    by (simp_all add: lens_ids_def intent_ids_def document_ids_def workspace_phase_def b fun_eq_iff)
  show ?thesis
    unfolding project_graph_def Let_def same pids b
    by (intro same_shape_fold same_shape_steps same_shape_packet_step same_shape_evidence_step
        same_shape_foldl [OF ps same_project_step]) (assumption | simp add: same_shape_def)+
qed

lemma rename_same_facts:
  "same_facts (assembleDataGraphFactsRow to_iso docs ws db) (assembleDataGraphFactsRow to_iso docs ws (rename_projects nm ds db))"
  unfolding same_facts_def
  by (auto simp: assembleDataGraphFactsRow_def rename_projects_def unified_rows_def document_rows_def evidence_rows_def
      filter_map comp_def list_all2_map1 list_all2_map2 same_project_def project_fact_of_def intro: list_all2_refl)

lemma rename_hash:
  "sn_graph_hash (snd (buildDataGraph num ws (assembleDataGraphFactsRow to_iso docs ws (rename_projects nm ds db)))) =
   sn_graph_hash (snd (buildDataGraph num ws (assembleDataGraphFactsRow to_iso docs ws db)))"
  using same_shape_hash [OF same_facts_shape [OF rename_same_facts]] by (simp add: buildDataGraph_def Let_def)

section \<open>The rebuild transaction\<close>

definition plain :: "graph \<Rightarrow> bool" where
  "plain g \<longleftrightarrow> (\<forall>n \<in> set (gr_nodes g). gn_type n \<noteq> N_document) \<and> (\<forall>e \<in> set (gr_edges g). ge_type e \<noteq> E_evidences)"

lemma plain_intros:
  "plain g \<Longrightarrow> gn_type n \<noteq> N_document \<Longrightarrow> plain (addNode n g)"
  "plain g \<Longrightarrow> t \<noteq> E_evidences \<Longrightarrow> plain (addEdge a b t g)"
  "plain g \<Longrightarrow> (\<And>i. plain (add i g)) \<Longrightarrow> plain (link_if r xs add g)"
  by (auto simp: plain_def addNode_def addEdge_def link_if_def Let_def split: option.splits)

lemma plain_steps:
  assumes "plain g"
  shows "plain (project_step ws g p)" and "plain (binding_step num ws pids g b)" and "plain (lens_step ws g l)"
    and "plain (membership_step lids pids g m)" and "plain (intent_step ws lids pids iids g i)"
    and "plain (unified_step ws lids pids iids g u)" and "plain (packet_step ws pids g k)" and "plain (causation_step g c)"
  using assms
  by (auto simp: project_step_def binding_step_def lens_step_def membership_step_def intent_step_def unified_step_def
      packet_step_def causation_step_def Let_def intro!: plain_intros split: option.splits)

lemma plain_fold: "(\<And>g x. plain g \<Longrightarrow> plain (f g x)) \<Longrightarrow> plain g \<Longrightarrow> plain (foldl f g xs)"
  by (rule foldl_inv)

lemma plain_project_graph:
  assumes "fa_documents fs = []"
  shows "plain (project_graph num ws fs)"
proof -
  have none: "evidence_step (docs_by_hash ws []) = (\<lambda>g ev. g)"
    by (simp add: fun_eq_iff evidence_step_def docs_by_hash_def Let_def)
  have skip: "foldl (\<lambda>g ev. g) g xs = g" for g :: graph and xs :: "evidence_link list" by (induction xs) auto
  have start: "plain (workspace_phase ws fs \<lparr>gr_nodes = [], gr_edges = []\<rparr>)"
    unfolding workspace_phase_def Let_def by (rule plain_intros) (simp_all add: plain_def)
  show ?thesis
    unfolding project_graph_def Let_def assms none skip foldl_Nil
    by (intro plain_fold plain_steps start) assumption+
qed

lemma node_type_in_db: "node_type_str t \<in> set DB_NODE_TYPES \<longleftrightarrow> t \<noteq> N_document"
  by (cases t) (simp_all add: DB_NODE_TYPES_def)

lemma edge_type_in_db: "edge_type_str t \<in> set DB_EDGE_TYPES \<longleftrightarrow> t \<noteq> E_evidences"
  by (cases t) (simp_all add: DB_EDGE_TYPES_def)

lemma insert_edges_fresh:
  "distinct (map edge_row_key new) \<Longrightarrow> \<forall>r \<in> set new. edge_row_key r \<notin> edge_row_key ` set rows \<Longrightarrow>
   foldl insert_edge rows new = rows @ new"
proof (induction new arbitrary: rows)
  case (Cons a new)
  then have "foldl insert_edge (rows @ [a]) new = (rows @ [a]) @ new" by (intro Cons.IH) (auto, metis image_eqI)
  moreover have "insert_edge rows a = rows @ [a]" using Cons.prems(2) by (simp add: insert_edge_def)
  ultimately show ?case by simp
qed simp

lemma edge_rows_distinct:
  assumes "distinct (map edge_key es)"
  shows "distinct (map edge_row_key (map (edge_row_of ws hash) es))"
  using assms by (auto simp: distinct_map inj_on_def edge_row_key_def edge_row_of_def edge_key_def)

lemma replace_document:
  assumes "n \<in> set (gr_nodes g)" and "gn_type n = N_document"
  shows "replaceWorkspaceGraphRow ws g meta now db = Inl Node_type_check"
proof -
  have "nr_node_type (node_row_of ws h n) \<notin> set DB_NODE_TYPES" for h
    using assms(2) node_type_in_db [of N_document] by (simp add: node_row_of_def)
  with assms(1) have "\<exists>r \<in> set (map (node_row_of ws h) (gr_nodes g)). nr_node_type r \<notin> set DB_NODE_TYPES" for h
    by (metis image_eqI list.set_map)
  then show ?thesis by (simp only: replaceWorkspaceGraphRow_def insert_nodes_def if_True sum.case)
qed

definition written :: "string \<Rightarrow> graph \<Rightarrow> graph_snapshot \<Rightarrow> int \<Rightarrow> graph_db \<Rightarrow> graph_db" where
  "written ws g meta now db =
     db\<lparr>gd_nodes := filter (\<lambda>r. nr_workspace_id r \<noteq> ws) (gd_nodes db) @ map (node_row_of ws (sn_graph_hash meta)) (gr_nodes g),
        gd_edges := filter (\<lambda>r. gr_workspace_id r \<noteq> ws) (gd_edges db) @ map (edge_row_of ws (sn_graph_hash meta)) (gr_edges g),
        gd_snapshots := gd_snapshots db @
          [\<lparr>sr_workspace_id = ws, sr_generated_at = now, sr_graph_version = sn_graph_version meta,
            sr_graph_hash = sn_graph_hash meta, sr_node_count = sn_node_count meta, sr_edge_count = sn_edge_count meta\<rparr>]\<rparr>"

lemma replace_plain:
  assumes inv: "graph_inv ws F g" and plain: "plain g"
  shows "replaceWorkspaceGraphRow ws g meta now db = Inr (written ws g meta now db)"
proof -
  let ?h = "sn_graph_hash meta" and ?N = "filter (\<lambda>r. nr_workspace_id r \<noteq> ws) (gd_nodes db)"
    and ?E = "filter (\<lambda>r. gr_workspace_id r \<noteq> ws) (gd_edges db)"
  let ?n = "map (node_row_of ws ?h) (gr_nodes g)" and ?e = "map (edge_row_of ws ?h) (gr_edges g)"
  have types: "\<forall>r \<in> set ?n. nr_node_type r \<in> set DB_NODE_TYPES" "\<forall>r \<in> set ?e. gr_edge_type r \<in> set DB_EDGE_TYPES"
    using plain by (simp_all add: plain_def node_row_of_def edge_row_of_def node_type_in_db edge_type_in_db)
  have nodes: "distinct (map node_row_key ?n)" "\<forall>r \<in> set ?n. node_row_key r \<notin> set (map node_row_key ?N)"
    using inv by (auto simp: graph_inv_def node_row_key_def node_row_of_def distinct_map inj_on_def)
  have "distinct (map edge_row_key ?e)" using inv by (intro edge_rows_distinct) (simp add: graph_inv_def)
  moreover have "\<forall>r \<in> set ?e. edge_row_key r \<notin> edge_row_key ` set ?E"
    by (auto simp: edge_row_key_def edge_row_of_def)
  ultimately have "insert_edges ?e ?E = Inr (?E @ ?e)" using types(2) insert_edges_fresh by (simp add: insert_edges_def)
  moreover have "insert_nodes ?n ?N = Inr (?N @ ?n)" using types(1) nodes by (auto simp: insert_nodes_def)
  ultimately show ?thesis by (simp only: replaceWorkspaceGraphRow_def sum.case written_def)
qed

lemma written_facts [simp]: "assembleDataGraphFactsRow to_iso docs ws' (written ws g meta now db) = assembleDataGraphFactsRow to_iso docs ws' db"
  by (simp add: assembleDataGraphFactsRow_def written_def unified_rows_def document_rows_def evidence_rows_def)

lemma sort_key_min: "r \<in> set xs \<Longrightarrow> (\<And>x. x \<in> set xs \<Longrightarrow> x \<noteq> r \<Longrightarrow> f r < f x) \<Longrightarrow> \<exists>ys. sort_key f xs = r # ys"
proof -
  assume r: "r \<in> set xs" and min: "\<And>x. x \<in> set xs \<Longrightarrow> x \<noteq> r \<Longrightarrow> f r < f x"
  then obtain y ys where ys: "sort_key f xs = y # ys" by (metis length_pos_if_in_set length_sort list.exhaust list.size(3) not_gr_zero)
  have set: "set (y # ys) = set xs" and sorted: "sorted (map f (y # ys))"
    unfolding ys [symmetric] by simp_all
  have "f y \<le> f r" using r sorted unfolding set [symmetric] by auto
  moreover have "y \<in> set xs" using set by auto
  ultimately have "y = r" using min [of y] by force
  with ys show ?thesis by blast
qed

lemma latest_written:
  assumes "\<forall>s \<in> set (gd_snapshots db). sr_workspace_id s = ws \<longrightarrow> sr_generated_at s < now"
  shows "\<exists>p. getLatestGraphSnapshotRow ws (written ws g meta now db) = Some p \<and> sr_graph_hash p = sn_graph_hash meta"
proof -
  let ?r = "\<lparr>sr_workspace_id = ws, sr_generated_at = now, sr_graph_version = sn_graph_version meta,
     sr_graph_hash = sn_graph_hash meta, sr_node_count = sn_node_count meta, sr_edge_count = sn_edge_count meta\<rparr>"
  let ?S = "filter (\<lambda>r. sr_workspace_id r = ws) (gd_snapshots (written ws g meta now db))"
  obtain ys where "sort_key (\<lambda>r. - sr_generated_at r) ?S = ?r # ys"
    using sort_key_min [of ?r ?S "\<lambda>r. - sr_generated_at r"] assms by (auto simp: written_def)
  then show ?thesis by (simp add: getLatestGraphSnapshotRow_def)
qed

abbreviation built :: "(real \<Rightarrow> string) \<Rightarrow> (int \<Rightarrow> string) \<Rightarrow> bool \<Rightarrow> string \<Rightarrow> graph_db \<Rightarrow> graph \<times> graph_snapshot" where
  "built num to_iso docs ws db \<equiv> buildDataGraph num ws (assembleDataGraphFactsRow to_iso docs ws db)"

definition up_to_date :: "(real \<Rightarrow> string) \<Rightarrow> (int \<Rightarrow> string) \<Rightarrow> bool \<Rightarrow> string \<Rightarrow> graph_db \<Rightarrow> bool" where
  "up_to_date num to_iso docs ws db \<longleftrightarrow>
     driftOf (getLatestGraphSnapshotRow ws db) (sn_graph_hash (snd (built num to_iso docs ws db))) = Drift_fresh"

definition persist_report :: "(real \<Rightarrow> string) \<Rightarrow> (int \<Rightarrow> string) \<Rightarrow> bool \<Rightarrow> string \<Rightarrow> int \<Rightarrow> graph_db \<Rightarrow> persist_result" where
  "persist_report num to_iso docs ws now db =
     (let sn = snd (built num to_iso docs ws db)
      in \<lparr>ps_workspace_id = ws, ps_generated_at = now, ps_drift = driftOf (getLatestGraphSnapshotRow ws db) (sn_graph_hash sn),
          ps_graph_hash = sn_graph_hash sn, ps_node_count = sn_node_count sn, ps_edge_count = sn_edge_count sn,
          ps_persisted = (\<not> up_to_date num to_iso docs ws db)\<rparr>)"

lemma persist_unfold:
  "persistDataGraph num to_iso docs ws now db =
     (if up_to_date num to_iso docs ws db then Inr (persist_report num to_iso docs ws now db, db)
      else case replaceWorkspaceGraphRow ws (fst (built num to_iso docs ws db)) (snd (built num to_iso docs ws db)) now db of
             Inl e \<Rightarrow> Inl e | Inr db' \<Rightarrow> Inr (persist_report num to_iso docs ws now db, db'))"
  by (auto simp: persistDataGraph_def persist_report_def up_to_date_def Let_def split: prod.splits sum.splits)

lemma persist_no_documents:
  assumes "document_rows docs ws db = []"
  shows "persistDataGraph num to_iso docs ws now db =
     Inr (persist_report num to_iso docs ws now db,
          if up_to_date num to_iso docs ws db then db
          else written ws (fst (built num to_iso docs ws db)) (snd (built num to_iso docs ws db)) now db)"
proof -
  let ?fs = "assembleDataGraphFactsRow to_iso docs ws db"
  have "plain (project_graph num ws ?fs)"
    by (rule plain_project_graph) (simp add: assembleDataGraphFactsRow_def assms)
  from replace_plain [OF project_graph_inv [OF assembled_causation] this] show ?thesis
    by (simp add: persist_unfold buildDataGraph_def Let_def)
qed

lemma persist_plain:
  "persistDataGraph num to_iso False ws now db =
     Inr (persist_report num to_iso False ws now db,
          if up_to_date num to_iso False ws db then db
          else written ws (fst (built num to_iso False ws db)) (snd (built num to_iso False ws db)) now db)"
  by (rule persist_no_documents) (simp add: document_rows_def)

lemma written_up_to_date:
  assumes "\<forall>s \<in> set (gd_snapshots db). sr_workspace_id s = ws \<longrightarrow> sr_generated_at s < now"
  shows "up_to_date num to_iso docs ws (written ws g (snd (built num to_iso docs ws db)) now db)"
  using latest_written [OF assms, of g "snd (built num to_iso docs ws db)"] by (auto simp: up_to_date_def driftOf_def)

lemma persist_up_to_date:
  assumes "\<forall>s \<in> set (gd_snapshots db). sr_workspace_id s = ws \<longrightarrow> sr_generated_at s < now"
    and "persistDataGraph num to_iso False ws now db = Inr (r, db')"
  shows "up_to_date num to_iso False ws db'"
  using assms(2) written_up_to_date [OF assms(1)] by (auto simp: persist_plain split: if_splits)

lemma up_to_date_rename: "up_to_date num to_iso docs ws (rename_projects nm ds db) \<longleftrightarrow> up_to_date num to_iso docs ws db"
  unfolding up_to_date_def rename_hash by (simp add: getLatestGraphSnapshotRow_def rename_projects_def)

section \<open>What the hash leaves out\<close>

text \<open>
  Labels and descriptions are outside the graph hash: after a rebuild, renaming or redescribing any
  projects leaves the drift gate at fresh, and a rebuild after the renaming writes nothing, so the
  lineage view keeps showing the old texts.
\<close>

theorem renamed_projects_stay_stale:
  assumes "\<forall>s \<in> set (gd_snapshots db). sr_workspace_id s = ws \<longrightarrow> sr_generated_at s < now"
    and "persistDataGraph num to_iso False ws now db = Inr (r, db')"
    and "db'' = rename_projects nm ds db'"
  shows "dg_drift (checkGraphDrift num to_iso False ws db'') = Drift_fresh \<and>
     (\<exists>r''. persistDataGraph num to_iso False ws later db'' = Inr (r'', db'') \<and> \<not> ps_persisted r'') \<and>
     getArtefactLineageRow ws node causeOnly db'' = getArtefactLineageRow ws node causeOnly db'"
proof -
  have "up_to_date num to_iso False ws db''"
    using persist_up_to_date [OF assms(1,2)] assms(3) by (simp add: up_to_date_rename)
  then have "dg_drift (checkGraphDrift num to_iso False ws db'') = Drift_fresh \<and>
      (\<exists>r''. persistDataGraph num to_iso False ws later db'' = Inr (r'', db'') \<and> \<not> ps_persisted r'')"
    by (simp add: persist_unfold persist_report_def Let_def checkGraphDrift_def up_to_date_def)
  moreover have "getArtefactLineageRow ws node causeOnly db'' = getArtefactLineageRow ws node causeOnly db'"
    unfolding assms(3) by (simp add: getArtefactLineageRow_def rename_projects_def lineage_of_def [abs_def] node_row_for_def)
  ultimately show ?thesis by blast
qed

theorem renamed_projects_stay_stale_witness:
  "\<exists>r db'. persistDataGraph (\<lambda>_. []) (\<lambda>_. []) False ''w'' 1 demo_graph_db = Inr (r, db') \<and>
     dg_drift (checkGraphDrift (\<lambda>_. []) (\<lambda>_. []) False ''w'' (rename_projects (\<lambda>_. Some ''new'') (\<lambda>_. None) db')) = Drift_fresh"
  using persist_plain [of "\<lambda>_. []" "\<lambda>_. []" "''w''" 1 demo_graph_db]
    renamed_projects_stay_stale [of demo_graph_db "''w''" 1 "\<lambda>_. []" "\<lambda>_. []" _ _ _ "\<lambda>_. Some ''new''" "\<lambda>_. None", OF _ _ refl]
  by (auto simp: demo_graph_db_def)

section \<open>Reading the lineage back\<close>

lemma find_append: "(\<And>x. x \<in> set xs \<Longrightarrow> \<not> P x) \<Longrightarrow> List.find P (xs @ ys) = List.find P ys"
  by (induction xs) auto

lemma find_map_distinct:
  "distinct (map f xs) \<Longrightarrow> a \<in> set xs \<Longrightarrow> (\<And>x. P (g x) \<longleftrightarrow> f x = f a) \<Longrightarrow> List.find P (map g xs) = Some (g a)"
  by (induction xs) (auto simp: rev_image_eqI)

lemma node_row_for_written:
  assumes "graph_inv ws F g" and "a \<in> set (gr_nodes g)"
  shows "node_row_for ws (gn_id a) (written ws g meta now db) = Some (node_row_of ws (sn_graph_hash meta) a)"
proof -
  have "List.find (\<lambda>r. nr_workspace_id r = ws \<and> nr_id r = gn_id a) (map (node_row_of ws (sn_graph_hash meta)) (gr_nodes g)) =
    Some (node_row_of ws (sn_graph_hash meta) a)"
    using assms by (intro find_map_distinct [where f = gn_id]) (auto simp: graph_inv_def node_row_of_def)
  moreover have "gd_nodes (written ws g meta now db) =
    filter (\<lambda>r. nr_workspace_id r \<noteq> ws) (gd_nodes db) @ map (node_row_of ws (sn_graph_hash meta)) (gr_nodes g)"
    by (simp add: written_def)
  ultimately show ?thesis unfolding node_row_for_def by (subst (asm) find_append [symmetric, where xs = "filter (\<lambda>r. nr_workspace_id r \<noteq> ws) (gd_nodes db)"]) auto
qed

definition lineage_line :: "graph_edge \<Rightarrow> graph_node \<Rightarrow> graph_node \<Rightarrow> lineage_edge_row" where
  "lineage_line e a b =
     \<lparr>le_edge_from = ge_from e, le_from_type = Some (node_type_str (gn_type a)), le_from_description = orNull (Some (gn_description a)),
      le_edge_to = ge_to e, le_to_type = Some (node_type_str (gn_type b)), le_to_description = orNull (Some (gn_description b)),
      le_edge_type = edge_type_str (ge_type e), le_is_cause_edge = (ge_type e \<in> set CAUSE_EDGE_TYPES)\<rparr>"

lemma orNull_idem [simp]: "orNull (orNull v) = orNull v"
  by (auto simp: orNull_def split: option.splits)

lemma orNull_type [simp]: "orNull (Some (node_type_str t)) = Some (node_type_str t)"
  by (cases t) (simp_all add: orNull_def)

lemma cause_edge_str: "edge_type_str t \<in> set [''caused_by'', ''realizes'', ''derived_from''] \<longleftrightarrow> t \<in> set CAUSE_EDGE_TYPES"
  by (cases t) (simp_all add: CAUSE_EDGE_TYPES_def)

lemma lineage_of_written:
  assumes inv: "graph_inv ws F g" and ab: "a \<in> set (gr_nodes g)" "b \<in> set (gr_nodes g)" "gn_id a = ge_from e" "gn_id b = ge_to e"
  shows "lineage_of (written ws g meta now db) (edge_row_of ws h e) = lineage_line e a b"
proof -
  let ?db = "written ws g meta now db" and ?r = "node_row_of ws (sn_graph_hash meta)"
  have join: "node_row_for ws (ge_from e) ?db = Some (?r a)" "node_row_for ws (ge_to e) ?db = Some (?r b)"
    using node_row_for_written [OF inv] ab by metis+
  have sel: "gr_workspace_id (edge_row_of ws h e) = ws" "gr_edge_from (edge_row_of ws h e) = ge_from e"
    "gr_edge_to (edge_row_of ws h e) = ge_to e" "gr_edge_type (edge_row_of ws h e) = edge_type_str (ge_type e)"
    by (simp_all add: edge_row_of_def)
  have row: "nr_node_type (?r n) = node_type_str (gn_type n)" "nr_description (?r n) = orNull (Some (gn_description n))" for n
    by (simp_all add: node_row_of_def)
  show ?thesis
    unfolding lineage_of_def Let_def sel join lineage_line_def cause_edge_str by (simp add: row)
qed

text \<open>
  What a rebuild wrote is what the lineage view reads: row by row the edges of the graph in order (up
  to the view's cap), each with the type and description of both of its end nodes and flagged as a cause
  edge exactly when the traversal follows its kind.
\<close>

theorem lineage_roundtrip:
  assumes "ws \<noteq> []" and "persistDataGraph num to_iso False ws now db = Inr (r, db')" and "ps_persisted r"
    and "g = fst (buildDataGraph num ws (assembleDataGraphFactsRow to_iso False ws db))"
  shows "list_all2 (\<lambda>e l. \<exists>a \<in> set (gr_nodes g). \<exists>b \<in> set (gr_nodes g). gn_id a = ge_from e \<and> gn_id b = ge_to e \<and> l = lineage_line e a b)
    (take 5000 (gr_edges g)) (getArtefactLineageRow ws None False db')"
proof -
  let ?m = "snd (built num to_iso False ws db)"
  have g: "g = project_graph num ws (assembleDataGraphFactsRow to_iso False ws db)"
    using assms(4) by (simp add: buildDataGraph_def Let_def)
  have inv: "graph_inv ws {} g" unfolding g by (rule assembled_graph_inv [OF assms(1)])
  have db': "db' = written ws g ?m now db"
    using assms(2-4) by (auto simp: persist_plain persist_report_def Let_def split: if_splits)
  have edges: "filter (\<lambda>e. gr_workspace_id e = ws) (gd_edges db') = map (edge_row_of ws (sn_graph_hash ?m)) (gr_edges g)"
    by (simp add: db' written_def edge_row_of_def filter_map comp_def)
  have "getArtefactLineageRow ws None False db' = take 5000 (map (\<lambda>e. lineage_of db' (edge_row_of ws (sn_graph_hash ?m) e)) (gr_edges g))"
    unfolding getArtefactLineageRow_def edges by (simp add: orNull_def comp_def)
  moreover have "\<exists>a \<in> set (gr_nodes g). \<exists>b \<in> set (gr_nodes g). gn_id a = ge_from e \<and> gn_id b = ge_to e \<and>
      lineage_of db' (edge_row_of ws (sn_graph_hash ?m) e) = lineage_line e a b" if "e \<in> set (gr_edges g)" for e
    using edge_endpoints [OF inv that] lineage_of_written [OF inv] unfolding db' by metis
  ultimately show ?thesis
    by (auto simp: take_map list_all2_map2 list_all2_same dest!: in_set_takeD)
qed

theorem lineage_roundtrip_witness:
  "\<exists>r db' g. persistDataGraph (\<lambda>_. []) (\<lambda>_. []) False ''w'' 1 demo_graph_db = Inr (r, db') \<and>
     g = fst (buildDataGraph (\<lambda>_. []) ''w'' (assembleDataGraphFactsRow (\<lambda>_. []) False ''w'' demo_graph_db)) \<and>
     list_all2 (\<lambda>e l. \<exists>a \<in> set (gr_nodes g). \<exists>b \<in> set (gr_nodes g). gn_id a = ge_from e \<and> gn_id b = ge_to e \<and> l = lineage_line e a b)
       (take 5000 (gr_edges g)) (getArtefactLineageRow ''w'' None False db')"
proof -
  have stale: "\<not> up_to_date (\<lambda>_. []) (\<lambda>_. []) False ''w'' demo_graph_db"
    by (simp add: up_to_date_def driftOf_def getLatestGraphSnapshotRow_def demo_graph_db_def)
  then have "ps_persisted (persist_report (\<lambda>_. []) (\<lambda>_. []) False ''w'' 1 demo_graph_db)" by (simp add: persist_report_def Let_def)
  from lineage_roundtrip [OF _ persist_plain this refl] persist_plain show ?thesis by blast
qed

section \<open>Tenants\<close>

definition persist_command :: "string \<Rightarrow> (real \<Rightarrow> string) \<times> (int \<Rightarrow> string) \<times> bool \<times> int \<Rightarrow> graph_db \<Rightarrow> graph_db" where
  "persist_command ws c db =
     (case c of (num, to_iso, docs, now) \<Rightarrow>
        case persistDataGraph num to_iso docs ws now db of Inl _ \<Rightarrow> db | Inr (_, db') \<Rightarrow> db')"

definition graph_view ::
  "string \<Rightarrow> graph_db \<Rightarrow> graph_node_row list \<times> graph_edge_row list \<times> graph_snapshot_row list \<times> graph_db" where
  "graph_view ws db =
     (filter (\<lambda>r. nr_workspace_id r = ws) (gd_nodes db), filter (\<lambda>r. gr_workspace_id r = ws) (gd_edges db),
      filter (\<lambda>r. sr_workspace_id r = ws) (gd_snapshots db), db\<lparr>gd_nodes := [], gd_edges := [], gd_snapshots := []\<rparr>)"

lemma foldl_insert_edge_other:
  "\<forall>r \<in> set new. gr_workspace_id r \<noteq> w \<Longrightarrow>
   filter (\<lambda>r. gr_workspace_id r = w) (foldl insert_edge rows new) = filter (\<lambda>r. gr_workspace_id r = w) rows"
  by (induction new arbitrary: rows) (auto simp: insert_edge_def)

lemma replace_frame:
  assumes "replaceWorkspaceGraphRow ws g meta now db = Inr db'" and "w \<noteq> ws"
  shows "graph_view w db' = graph_view w db"
proof -
  let ?h = "sn_graph_hash meta" and ?N = "filter (\<lambda>r. nr_workspace_id r \<noteq> ws) (gd_nodes db)"
    and ?E = "filter (\<lambda>r. gr_workspace_id r \<noteq> ws) (gd_edges db)"
  let ?n = "map (node_row_of ws ?h) (gr_nodes g)" and ?e = "map (edge_row_of ws ?h) (gr_edges g)"
  from assms(1) have db': "gd_nodes db' = ?N @ ?n" "gd_edges db' = foldl insert_edge ?E ?e"
    "\<exists>s. gd_snapshots db' = gd_snapshots db @ [s] \<and> sr_workspace_id s = ws"
    "db'\<lparr>gd_nodes := [], gd_edges := [], gd_snapshots := []\<rparr> = db\<lparr>gd_nodes := [], gd_edges := [], gd_snapshots := []\<rparr>"
    unfolding replaceWorkspaceGraphRow_def insert_nodes_def insert_edges_def by (auto split: if_splits)
  have "\<forall>r \<in> set ?e. gr_workspace_id r \<noteq> w" "\<forall>r \<in> set ?n. nr_workspace_id r \<noteq> w"
    using assms(2) by (auto simp: edge_row_of_def node_row_of_def)
  moreover have "filter (\<lambda>r. gr_workspace_id r = w) ?E = filter (\<lambda>r. gr_workspace_id r = w) (gd_edges db)"
    "filter (\<lambda>r. nr_workspace_id r = w) ?N = filter (\<lambda>r. nr_workspace_id r = w) (gd_nodes db)"
    using assms(2) by (auto intro!: filter_cong)
  ultimately show ?thesis
    using db' assms(2) by (auto simp: graph_view_def foldl_insert_edge_other simp del: set_map foldl_map filter_filter)
qed

interpretation graph_tenants: tenant_store persist_command graph_view
  by standard (auto simp: persist_command_def persist_unfold dest: replace_frame split: prod.splits sum.splits if_splits)

text \<open>Every read of the graph surfaces is a function of the workspace's view.\<close>

lemma find_filter: "(\<And>x. P x \<Longrightarrow> Q x) \<Longrightarrow> List.find P (filter Q xs) = List.find P xs"
  by (induction xs) auto

lemma view_facts:
  assumes "graph_view w db = graph_view w db'"
  shows "assembleDataGraphFactsRow to_iso docs w db = assembleDataGraphFactsRow to_iso docs w db'"
proof -
  let ?z = "\<lambda>db. db\<lparr>gd_nodes := [], gd_edges := [], gd_snapshots := []\<rparr>"
  have read: "assembleDataGraphFactsRow to_iso docs w (?z db) = assembleDataGraphFactsRow to_iso docs w db" for db
    by (simp add: assembleDataGraphFactsRow_def unified_rows_def document_rows_def evidence_rows_def)
  from assms have "?z db = ?z db'" by (simp add: graph_view_def)
  then show ?thesis using read [of db] read [of db'] by simp
qed

lemma view_latest: "graph_view w db = graph_view w db' \<Longrightarrow> getLatestGraphSnapshotRow w db = getLatestGraphSnapshotRow w db'"
  by (simp add: graph_view_def getLatestGraphSnapshotRow_def)

lemma view_lineage:
  assumes "graph_view w db = graph_view w db'"
  shows "getArtefactLineageRow w node causeOnly db = getArtefactLineageRow w node causeOnly db'"
proof -
  have f: "node_row_for w i db = List.find (\<lambda>r. nr_workspace_id r = w \<and> nr_id r = i) (filter (\<lambda>r. nr_workspace_id r = w) (gd_nodes db))" for i db
    unfolding node_row_for_def by (rule find_filter [symmetric]) simp
  have nodes: "node_row_for w i db = node_row_for w i db'" for i
    using assms unfolding f graph_view_def by simp
  have edges: "filter (\<lambda>e. gr_workspace_id e = w) (gd_edges db) = filter (\<lambda>e. gr_workspace_id e = w) (gd_edges db')"
    using assms by (simp add: graph_view_def)
  have "map (lineage_of db) (filter (\<lambda>e. gr_workspace_id e = w) (gd_edges db)) =
      map (lineage_of db') (filter (\<lambda>e. gr_workspace_id e = w) (gd_edges db'))"
    unfolding edges by (rule map_cong) (auto simp: lineage_of_def nodes Let_def)
  then show ?thesis by (simp only: getArtefactLineageRow_def)
qed

text \<open>
  Tenant isolation of the graph: whatever rebuilds run for other workspaces, with any flags and at
  any times, a workspace's lineage view, latest snapshot and drift report answer as before.
\<close>

theorem graph_tenant_isolation:
  assumes "\<forall>wc \<in> set cmds. fst wc \<noteq> w" and "db' = foldl (\<lambda>s wc. persist_command (fst wc) (snd wc) s) db cmds"
  shows "getArtefactLineageRow w node causeOnly db' = getArtefactLineageRow w node causeOnly db \<and>
    getLatestGraphSnapshotRow w db' = getLatestGraphSnapshotRow w db \<and>
    checkGraphDrift num to_iso docs w db' = checkGraphDrift num to_iso docs w db"
proof -
  have v: "graph_view w db' = graph_view w db" unfolding assms(2) by (rule graph_tenants.run_frame [OF assms(1)])
  show ?thesis
    using view_lineage [OF v] view_latest [OF v] view_facts [OF v] by (simp add: checkGraphDrift_def Let_def)
qed

theorem graph_tenant_isolation_witness:
  "getLatestGraphSnapshotRow ''w'' (persist_command ''other'' (\<lambda>_. [], \<lambda>_. [], True, 5) demo_graph_db) = getLatestGraphSnapshotRow ''w'' demo_graph_db"
  using graph_tenant_isolation [of "[(''other'', (\<lambda>_. [], \<lambda>_. [], True, 5))]" "''w''", OF _ refl] by simp

section \<open>Documents\<close>

lemma desc_nulls_last_set [simp]: "set (desc_nulls_last t rs) = set rs"
  by (auto simp: desc_nulls_last_def)

lemma document_node:
  assumes "gd_has_documents db" and "d \<in> set (gd_documents db)" and "dr_workspace_id d = ws"
  shows "\<exists>n \<in> set (gr_nodes (project_graph num ws (assembleDataGraphFactsRow to_iso True ws db))). gn_type n = N_document"
proof -
  let ?fs = "assembleDataGraphFactsRow to_iso True ws db" let ?g = "project_graph num ws ?fs"
  have "d \<in> set (desc_nulls_last dr_created_at (filter (\<lambda>d. dr_workspace_id d = ws) (gd_documents db)))"
    using assms(2,3) by simp
  then have "document_rows True ws db \<noteq> []"
    using assms(1) by (auto simp: document_rows_def simp del: desc_nulls_last_set)
  then obtain d' where "d' \<in> set (document_rows True ws db)" by (cases "document_rows True ws db") auto
  moreover from this have "dr_workspace_id d' = ws"
    using assms(1) by (auto simp: document_rows_def dest!: in_set_takeD)
  ultimately have d': "document_fact_of to_iso d' \<in> set (fa_documents ?fs)" "in_ws ws (df_workspace_id (document_fact_of to_iso d'))"
    by (auto simp: assembleDataGraphFactsRow_def document_fact_of_def orNull_def)
  have "''document:'' @ df_id (document_fact_of to_iso d') \<in> ids ?g"
    unfolding project_graph_def Let_def empty_graph_def [symmetric] phase_adds using d' by auto
  then obtain n where n: "n \<in> set (gr_nodes ?g)" "gn_id n = ''document:'' @ df_id (document_fact_of to_iso d')"
    by (auto simp: ids_def)
  have "typed_id (gn_type n) (gn_id n)" by (rule graph_inv_typed [OF project_graph_inv n(1)]) simp
  then have "gn_type n = N_document" using n(2) by (metis typed_id_append(8) typed_id_unique)
  with n(1) show ?thesis by blast
qed

text \<open>
  With document nodes switched on, a workspace that has a document is never rebuilt: the vocabulary
  of the node table does not admit the type, so the transaction fails on its check (unless the stored
  hash happens to equal the fresh one, when nothing is written either).
\<close>

theorem documents_never_persist:
  assumes "gd_has_documents db" and "d \<in> set (gd_documents db)" and "dr_workspace_id d = ws"
  shows "persistDataGraph num to_iso True ws now db = Inl Node_type_check \<or>
    (\<exists>r. persistDataGraph num to_iso True ws now db = Inr (r, db) \<and> \<not> ps_persisted r)"
proof -
  obtain n where "n \<in> set (gr_nodes (fst (built num to_iso True ws db)))" "gn_type n = N_document"
    using document_node [OF assms, of num to_iso] by (auto simp: buildDataGraph_def Let_def)
  from replace_document [OF this] show ?thesis
    by (simp add: persist_unfold persist_report_def Let_def)
qed

definition demo_document :: document_row where
  "demo_document = \<lparr>dr_id = ''d'', dr_workspace_id = ''w'', dr_project_id = None, dr_title = None, dr_content_hash = None,
     dr_supersedes_id = None, dr_created_at = None\<rparr>"

theorem documents_never_persist_witness:
  "persistDataGraph (\<lambda>_. []) (\<lambda>_. []) True ''w'' 1 (demo_graph_db\<lparr>gd_documents := [demo_document]\<rparr>) = Inl Node_type_check"
proof -
  let ?db = "demo_graph_db\<lparr>gd_documents := [demo_document]\<rparr>"
  have "\<not> up_to_date (\<lambda>_. []) (\<lambda>_. []) True ''w'' ?db"
    by (simp add: up_to_date_def driftOf_def getLatestGraphSnapshotRow_def demo_graph_db_def)
  moreover have "gd_has_documents ?db" "demo_document \<in> set (gd_documents ?db)" "dr_workspace_id demo_document = ''w''"
    by (simp_all add: demo_graph_db_def demo_document_def)
  from documents_never_persist [OF this, of "\<lambda>_. []" "\<lambda>_. []" 1]
  have "persistDataGraph (\<lambda>_. []) (\<lambda>_. []) True ''w'' 1 ?db = Inl Node_type_check \<or> up_to_date (\<lambda>_. []) (\<lambda>_. []) True ''w'' ?db"
    by (auto simp: persist_unfold persist_report_def Let_def split: if_splits sum.splits)
  ultimately show ?thesis by blast
qed

lemma document_rows_written [simp]: "document_rows docs ws' (written ws g meta now db) = document_rows docs ws' db"
  by (simp add: document_rows_def written_def)

text \<open>
  C36. What a rebuild does, with document nodes switched on or off. Where no document of the workspace is read (the flag is off, or
  there is none) it succeeds; afterwards the read-side gate reports the graph fresh, and every later rebuild over unchanged facts
  answers fresh and writes nothing. Where a document is read, a rebuild that finds the stored hash up to date writes nothing, and
  every other one fails on the check of the node table. The clock is past the workspace's earlier snapshots.
\<close>

theorem persist_converges:
  assumes "\<forall>s \<in> set (gd_snapshots db). sr_workspace_id s = ws \<longrightarrow> sr_generated_at s < now"
  shows "if document_rows docs ws db = [] then
      \<exists>r db'. persistDataGraph num to_iso docs ws now db = Inr (r, db') \<and>
        dg_drift (checkGraphDrift num to_iso docs ws db') = Drift_fresh \<and>
        (\<forall>later. \<exists>r'. persistDataGraph num to_iso docs ws later db' = Inr (r', db') \<and> ps_drift r' = Drift_fresh \<and>
           \<not> ps_persisted r' \<and> ps_graph_hash r' = ps_graph_hash r)
    else if dg_drift (checkGraphDrift num to_iso docs ws db) = Drift_fresh then
      \<exists>r. persistDataGraph num to_iso docs ws now db = Inr (r, db) \<and> \<not> ps_persisted r
    else persistDataGraph num to_iso docs ws now db = Inl Node_type_check"
proof (cases "document_rows docs ws db = []")
  case True
  let ?db' = "if up_to_date num to_iso docs ws db then db
    else written ws (fst (built num to_iso docs ws db)) (snd (built num to_iso docs ws db)) now db"
  note p = persist_no_documents [OF True, of num to_iso now]
  have u: "up_to_date num to_iso docs ws ?db'" using written_up_to_date [OF assms] by simp
  have "sn_graph_hash (snd (built num to_iso docs ws ?db')) = ps_graph_hash (persist_report num to_iso docs ws now db)"
    by (simp add: persist_report_def Let_def)
  then have "\<exists>r'. persistDataGraph num to_iso docs ws later ?db' = Inr (r', ?db') \<and> ps_drift r' = Drift_fresh \<and> \<not> ps_persisted r' \<and>
      ps_graph_hash r' = ps_graph_hash (persist_report num to_iso docs ws now db)" for later
    using u by (simp only: persist_unfold [of num to_iso docs ws later ?db'] if_True) (simp add: persist_report_def Let_def up_to_date_def)
  moreover have "dg_drift (checkGraphDrift num to_iso docs ws ?db') = Drift_fresh" using u by (simp add: checkGraphDrift_def up_to_date_def Let_def)
  ultimately show ?thesis unfolding if_P [OF True]
    using p by (intro exI [where x = "persist_report num to_iso docs ws now db", OF exI [where x = ?db']]) simp
next
  case False
  have fresh: "dg_drift (checkGraphDrift num to_iso docs ws db) = Drift_fresh \<longleftrightarrow> up_to_date num to_iso docs ws db"
    by (simp add: checkGraphDrift_def up_to_date_def Let_def)
  from False have on: "docs" "gd_has_documents db" and "filter (\<lambda>d. dr_workspace_id d = ws) (gd_documents db) \<noteq> []"
    by (auto simp: document_rows_def desc_nulls_last_def simp del: filter_filter split: if_splits)
  then obtain d where "d \<in> set (gd_documents db)" "dr_workspace_id d = ws" by (auto simp: filter_empty_conv)
  from document_node [OF on(2) this, of num to_iso] on(1)
  obtain n where "n \<in> set (gr_nodes (fst (built num to_iso docs ws db)))" "gn_type n = N_document"
    by (auto simp: buildDataGraph_def Let_def)
  note fail = replace_document [OF this]
  show ?thesis unfolding if_not_P [OF False] fresh by (simp add: persist_unfold fail persist_report_def Let_def)
qed

theorem persist_converges_witness:
  "\<exists>r db'. persistDataGraph (\<lambda>_. []) (\<lambda>_. []) True ''w'' 1 demo_graph_db = Inr (r, db') \<and>
     dg_drift (checkGraphDrift (\<lambda>_. []) (\<lambda>_. []) True ''w'' db') = Drift_fresh"
proof -
  have clock: "\<forall>s \<in> set (gd_snapshots demo_graph_db). sr_workspace_id s = ''w'' \<longrightarrow> sr_generated_at s < 1" by (simp add: demo_graph_db_def)
  have none: "document_rows True ''w'' demo_graph_db = []" by code_simp
  from persist_converges [OF clock, of True "\<lambda>_. []" "\<lambda>_. []", unfolded if_P [OF none]] show ?thesis by blast
qed

section \<open>The export digest\<close>

lemma map_of_token_counts: "the_default 0 (map_of (token_counts ts) t) = count_list ts t"
proof -
  have "the_default 0 (map_of (foldl (\<lambda>m t. AList.map_default t 1 Suc m) m ts) t) = the_default 0 (map_of m t) + count_list ts t" for m
    by (induction ts arbitrary: m) (auto simp: map_of_map_default split: option.splits)
  from this [of "[]"] show ?thesis by (simp add: token_counts_def)
qed

lemma count_list_map: "inj f \<Longrightarrow> count_list (map f xs) (f x) = length (filter (\<lambda>y. y = x) xs)"
  by (induction xs) (auto dest: injD)

lemma edge_type_str_inj: "inj edge_type_str"
proof (rule injI)
  fix a b assume "edge_type_str a = edge_type_str b" then show "a = b" by (cases a; cases b) simp_all
qed

lemma those_map: "(\<And>x. x \<in> set xs \<Longrightarrow> f x = Some (g x)) \<Longrightarrow> those (map f xs) = Some (map g xs)"
  by (induction xs) auto

lemma root_cause_total: "root_cause_of edges n = Some (the (root_cause_of edges n))"
  using traceCause_total [of edges "gn_id n" Backward] by (auto simp: root_cause_of_def)

text \<open>
  The export digest is always produced, and is an aggregate of the graph: the node and edge counts
  are the numbers of nodes and edges of each type, at most \<open>recentLimit\<close> recent nodes and effects are
  shown, every shown description has at most 200 characters, and each effect's root causes are those of
  its backward trace.
\<close>

theorem digest_aggregates:
  "\<exists>d. tenantSafeGraphDigest ws nodes edges hash generatedAt recentLimit = Some d \<and>
     (\<forall>t. the_default 0 (map_of (gg_node_counts d) (node_type_str t)) = length (filter (\<lambda>n. gn_type n = t) nodes)) \<and>
     (\<forall>t. the_default 0 (map_of (gg_edge_counts d) (edge_type_str t)) = length (filter (\<lambda>e. ge_type e = t) edges)) \<and>
     length (gg_recent d) \<le> recentLimit \<and> list_all (\<lambda>r. length (rc_description r) \<le> 200) (gg_recent d) \<and>
     list_all2 (\<lambda>n rc. \<exists>t. traceCause edges (gn_id n) Backward = Some t \<and>
         rc = \<lparr>rt_effect = gn_id n, rt_roots = ct_roots t, rt_terminated = ct_terminated t\<rparr>)
       (take recentLimit (effectNodesRequiringCause nodes edges)) (gg_root_causes d)"
proof -
  let ?E = "take recentLimit (effectNodesRequiringCause nodes edges)"
  have rcs: "those (map (root_cause_of edges) ?E) = Some (map (the \<circ> root_cause_of edges) ?E)"
    by (rule those_map) (simp add: root_cause_total [symmetric])
  have "\<exists>t. traceCause edges (gn_id n) Backward = Some t \<and>
      the (root_cause_of edges n) = \<lparr>rt_effect = gn_id n, rt_roots = ct_roots t, rt_terminated = ct_terminated t\<rparr>" for n
    using traceCause_total [of edges "gn_id n" Backward] by (auto simp: root_cause_of_def)
  then have "list_all2 (\<lambda>n rc. \<exists>t. traceCause edges (gn_id n) Backward = Some t \<and>
      rc = \<lparr>rt_effect = gn_id n, rt_roots = ct_roots t, rt_terminated = ct_terminated t\<rparr>) ?E (map (the \<circ> root_cause_of edges) ?E)"
    by (simp add: list_all2_map2 list_all2_same)
  moreover have "count_list (map (\<lambda>n. node_type_str (gn_type n)) nodes) (node_type_str t) = length (filter (\<lambda>n. gn_type n = t) nodes)" for t
    using count_list_map [of node_type_str "map gn_type nodes" t] node_type_str_inj
    by (simp add: inj_def comp_def length_filter_map)
  moreover have "count_list (map (\<lambda>e. edge_type_str (ge_type e)) edges) (edge_type_str t) = length (filter (\<lambda>e. ge_type e = t) edges)" for t
    using count_list_map [OF edge_type_str_inj, of "map ge_type edges" t] by (simp add: comp_def length_filter_map)
  ultimately show ?thesis
    unfolding tenantSafeGraphDigest_def rcs by (simp add: map_of_token_counts recent_items_def list_all_length)
qed

end
