(* ===== verification/Projection_Outbox.thy ===== *)
theory Projection_Outbox
  imports Graph_Persist Permissions "HOL-Library.Product_Lexorder"
begin

text \<open>
  The transactional projection outbox (\<^verbatim>\<open>dal/projection-outbox-store.ts\<close>), its dispatcher and queue
  consumer (\<^verbatim>\<open>services/tenant-projection-queue.ts\<close>) and the cron that runs the dispatcher
  (\<^verbatim>\<open>crons/tenant-projection-dispatch.ts\<close>).

  Each SQL statement is a function on the table. \<open>locked\<close> are the rows \<^verbatim>\<open>FOR UPDATE SKIP LOCKED\<close> finds
  locked by another worker. Faults of the queue binding and of the database are parameters of the two
  loops: an optional name of the thrown error.
\<close>

section \<open>The table\<close>

datatype outbox_status = PO_pending | PO_dispatching | PO_dispatched | PO_processing | PO_processed | PO_dead_letter

record projection_row =
  po_id :: string
  po_workspace_id :: string
  po_event_type :: string
  po_aggregate_type :: string
  po_aggregate_id :: string
  po_status :: outbox_status
  po_attempt_count :: nat
  po_created_at :: int
  po_claimed_at :: "int option"
  po_dispatched_at :: "int option"
  po_processing_started_at :: "int option"
  po_processed_at :: "int option"
  po_dead_lettered_at :: "int option"
  po_last_error_code :: "string option"

text \<open>An \<^verbatim>\<open>UPDATE ... WHERE\<close> with the rows it returns.\<close>

definition update_where :: "('r \<Rightarrow> bool) \<Rightarrow> ('r \<Rightarrow> 'r) \<Rightarrow> 'r list \<Rightarrow> 'r list \<times> 'r list" where
  "update_where P f rows = (map (\<lambda>r. if P r then f r else r) rows, map f (filter P rows))"

definition claimable :: "int \<Rightarrow> (string \<Rightarrow> bool) \<Rightarrow> projection_row \<Rightarrow> bool" where
  "claimable staleBefore locked r \<longleftrightarrow>
     po_processed_at r = None \<and> po_dead_lettered_at r = None \<and>
     (po_status r = PO_pending \<or>
      po_status r = PO_dispatching \<and> (case po_claimed_at r of None \<Rightarrow> False | Some t \<Rightarrow> t < staleBefore)) \<and>
     \<not> locked (po_id r)"

definition claimProjectionOutboxRows ::
  "int \<Rightarrow> int \<Rightarrow> int \<Rightarrow> (string \<Rightarrow> bool) \<Rightarrow> projection_row list \<Rightarrow> projection_row list \<times> projection_row list" where
  "claimProjectionOutboxRows limit now staleBefore locked rows =
     (let bounded = nat (max 1 (min 100 limit));
          candidates = map po_id (take bounded
            (sort_key (\<lambda>r. (po_created_at r, po_id r)) (filter (claimable staleBefore locked) rows)))
      in update_where (\<lambda>r. po_id r \<in> set candidates)
           (\<lambda>r. r\<lparr>po_status := PO_dispatching, po_claimed_at := Some now, po_last_error_code := None\<rparr>) rows)"

definition markProjectionOutboxDispatched :: "string list \<Rightarrow> int \<Rightarrow> projection_row list \<Rightarrow> projection_row list \<times> projection_row list" where
  "markProjectionOutboxDispatched oids now rows =
     (if oids = [] then (rows, [])
      else update_where (\<lambda>r. po_id r \<in> set oids \<and> po_status r = PO_dispatching)
             (\<lambda>r. r\<lparr>po_status := PO_dispatched, po_dispatched_at := Some now, po_claimed_at := None\<rparr>) rows)"

definition releaseProjectionOutboxDispatch :: "string list \<Rightarrow> string \<Rightarrow> projection_row list \<Rightarrow> projection_row list \<times> projection_row list" where
  "releaseProjectionOutboxDispatch oids errorCode rows =
     (if oids = [] then (rows, [])
      else update_where (\<lambda>r. po_id r \<in> set oids \<and> po_status r = PO_dispatching)
             (\<lambda>r. r\<lparr>po_status := PO_pending, po_claimed_at := None, po_last_error_code := Some (take 80 errorCode)\<rparr>) rows)"

definition addressed :: "string \<Rightarrow> string \<Rightarrow> projection_row \<Rightarrow> bool" where
  "addressed ws i r \<longleftrightarrow> po_id r = i \<and> po_workspace_id r = ws \<and> po_processed_at r = None"

definition beginProjectionOutboxAttempt ::
  "string \<Rightarrow> string \<Rightarrow> int \<Rightarrow> projection_row list \<Rightarrow> projection_row list \<times> projection_row list" where
  "beginProjectionOutboxAttempt ws i now rows =
     update_where (\<lambda>r. addressed ws i r \<and> po_dead_lettered_at r = None \<and> po_status r \<in> {PO_dispatching, PO_dispatched, PO_processing})
       (\<lambda>r. r\<lparr>po_status := PO_processing, po_processing_started_at := Some now, po_attempt_count := po_attempt_count r + 1,
              po_last_error_code := None\<rparr>) rows"

definition markProjectionOutboxProcessed ::
  "string \<Rightarrow> string \<Rightarrow> int \<Rightarrow> projection_row list \<Rightarrow> projection_row list \<times> projection_row list" where
  "markProjectionOutboxProcessed ws i now rows =
     update_where (addressed ws i)
       (\<lambda>r. r\<lparr>po_status := PO_processed, po_processed_at := Some now, po_processing_started_at := None, po_last_error_code := None\<rparr>) rows"

definition markProjectionOutboxFailed ::
  "string \<Rightarrow> string \<Rightarrow> string \<Rightarrow> projection_row list \<Rightarrow> projection_row list \<times> projection_row list" where
  "markProjectionOutboxFailed ws i errorCode rows =
     update_where (\<lambda>r. addressed ws i r \<and> po_dead_lettered_at r = None)
       (\<lambda>r. r\<lparr>po_status := PO_dispatched, po_processing_started_at := None, po_last_error_code := Some (take 80 errorCode)\<rparr>) rows"

definition markProjectionOutboxDeadLettered ::
  "string \<Rightarrow> string \<Rightarrow> int \<Rightarrow> string \<Rightarrow> projection_row list \<Rightarrow> projection_row list \<times> projection_row list" where
  "markProjectionOutboxDeadLettered ws i now errorCode rows =
     update_where (addressed ws i)
       (\<lambda>r. r\<lparr>po_status := PO_dead_letter, po_dead_lettered_at := Some now, po_processing_started_at := None,
              po_last_error_code := Some (take 80 errorCode)\<rparr>) rows"

section \<open>Messages\<close>

definition TENANT_PROJECTION_DLQ_NAME :: string where
  "TENANT_PROJECTION_DLQ_NAME = ''xlooop-tenant-projection-dlq''"

definition TENANT_PROJECTION_MESSAGE_SCHEMA :: string where
  "TENANT_PROJECTION_MESSAGE_SCHEMA = ''xlooop.tenant_projection.v1''"

definition PROJECTED_EVENT_TYPE :: string where
  "PROJECTED_EVENT_TYPE = ''governed_intake.executed''"

record projection_message =
  pm_outbox_id :: string
  pm_workspace_id :: string
  pm_event_type :: string

text \<open>\<^verbatim>\<open>/^[A-Za-z0-9:_-]+$/\<close> on at most 200 characters.\<close>

definition identifier_char :: "char \<Rightarrow> bool" where
  "identifier_char c = (is_word_char c \<or> c = CHR '':'' \<or> c = CHR ''-'')"

definition validIdentifier :: "json option \<Rightarrow> string option" where
  "validIdentifier v =
     (case v of Some (JStr s) \<Rightarrow> if s \<noteq> [] \<and> length s \<le> 200 \<and> list_all identifier_char s then Some s else None
      | _ \<Rightarrow> None)"

definition parseTenantProjectionMessage :: "json \<Rightarrow> projection_message option" where
  "parseTenantProjectionMessage value =
     (case value of
        JObj candidate \<Rightarrow>
          if map_of candidate ''schema_id'' \<noteq> Some (JStr TENANT_PROJECTION_MESSAGE_SCHEMA) then None
          else (case (validIdentifier (map_of candidate ''outbox_id''), validIdentifier (map_of candidate ''workspace_id'')) of
                  (Some oid, Some ws) \<Rightarrow>
                    if map_of candidate ''event_type'' \<noteq> Some (JStr PROJECTED_EVENT_TYPE) then None
                    else Some \<lparr>pm_outbox_id = oid, pm_workspace_id = ws, pm_event_type = PROJECTED_EVENT_TYPE\<rparr>
                | _ \<Rightarrow> None)
      | _ \<Rightarrow> None)"

definition message_body :: "projection_row \<Rightarrow> json" where
  "message_body r =
     JObj [(''schema_id'', JStr TENANT_PROJECTION_MESSAGE_SCHEMA), (''outbox_id'', JStr (po_id r)),
           (''workspace_id'', JStr (po_workspace_id r)), (''event_type'', JStr (po_event_type r))]"

definition safeErrorCode :: "string option \<Rightarrow> string" where
  "safeErrorCode name =
     take 80 (''projection_'' @
       js_lower (map (\<lambda>c. if is_word_char c \<or> c = CHR ''-'' then c else CHR ''_'') (the_default ''Error'' name)))"

section \<open>The dispatcher\<close>

datatype dispatch_status = Dispatch_skipped | Dispatch_completed | Dispatch_failed

record dispatch_result =
  dp_status :: dispatch_status
  dp_claimed :: nat
  dp_dispatched :: nat
  dp_error_code :: "string option"

text \<open>\<open>Inl\<close> in a fault is the name of the thrown error; the mark may fail after the batch was sent.\<close>

record dispatch_env =
  de_enabled :: bool
  de_queue_bound :: bool
  de_now :: int
  de_limit :: "int option"
  de_locked :: "string \<Rightarrow> bool"
  de_send_fault :: "string option option"
  de_mark_fault :: "string option option"

definition release_after :: "string list \<Rightarrow> string option \<Rightarrow> projection_row list \<Rightarrow> json list \<Rightarrow> nat \<Rightarrow>
    (projection_row list \<times> json list) \<times> dispatch_result" where
  "release_after oids err rows queue claimed =
     (let code = safeErrorCode err
      in ((fst (releaseProjectionOutboxDispatch oids code rows), queue),
          \<lparr>dp_status = Dispatch_failed, dp_claimed = claimed, dp_dispatched = 0, dp_error_code = Some code\<rparr>))"

definition dispatchTenantProjectionOutbox ::
  "dispatch_env \<Rightarrow> projection_row list \<times> json list \<Rightarrow> (projection_row list \<times> json list) \<times> dispatch_result" where
  "dispatchTenantProjectionOutbox env st =
     (case st of (rows, queue) \<Rightarrow>
        if \<not> de_enabled env then (st, \<lparr>dp_status = Dispatch_skipped, dp_claimed = 0, dp_dispatched = 0, dp_error_code = None\<rparr>)
        else if \<not> de_queue_bound env
        then (st, \<lparr>dp_status = Dispatch_failed, dp_claimed = 0, dp_dispatched = 0, dp_error_code = Some ''projection_queue_binding_missing''\<rparr>)
        else let (rows1, claimed) = claimProjectionOutboxRows (the_default 50 (de_limit env)) (de_now env)
                                      (de_now env - 5 * 60000) (de_locked env) rows;
                 oids = map po_id claimed
             in if claimed = [] then ((rows1, queue), \<lparr>dp_status = Dispatch_completed, dp_claimed = 0, dp_dispatched = 0, dp_error_code = None\<rparr>)
                else (case de_send_fault env of
                        Some err \<Rightarrow> release_after oids err rows1 queue (length claimed)
                      | None \<Rightarrow>
                          let queue1 = queue @ map message_body claimed
                          in case de_mark_fault env of
                               Some err \<Rightarrow> release_after oids err rows1 queue1 (length claimed)
                             | None \<Rightarrow>
                                 let (rows2, marked) = markProjectionOutboxDispatched oids (de_now env) rows1
                                 in ((rows2, queue1), \<lparr>dp_status = Dispatch_completed, dp_claimed = length claimed,
                                      dp_dispatched = length marked, dp_error_code = None\<rparr>)))"

section \<open>The consumer\<close>

record queue_message =
  qm_body :: json
  qm_attempts :: int

datatype delivery = Acked | Retried int

record consume_result =
  co_acknowledged :: nat
  co_retried :: nat
  co_dead_lettered :: nat
  co_invalid :: nat
  co_projected :: "persist_result list"

text \<open>\<open>ce_clock\<close> answers the successive calls of \<^verbatim>\<open>now()\<close>; faults are indexed by the number of messages handled before.\<close>

record consume_env =
  ce_queue :: string
  ce_clock :: "nat \<Rightarrow> int"
  ce_num :: "real \<Rightarrow> string"
  ce_iso :: "int \<Rightarrow> string"
  ce_include_documents :: bool
  ce_db_error :: "string option"
  ce_project_fault :: "nat \<Rightarrow> string option option"
  ce_mark_fault :: "nat \<Rightarrow> string option option"

record consume_state =
  cs_rows :: "projection_row list"
  cs_graph :: graph_db
  cs_calls :: nat
  cs_result :: consume_result
  cs_deliveries :: "delivery list"

definition retry_delay :: "int \<Rightarrow> int" where
  "retry_delay attempts = min 3600 (30 * 2 ^ nat (max 0 (min (attempts - 1) 6)))"

definition acked :: "consume_state \<Rightarrow> consume_state" where
  "acked s = s\<lparr>cs_result := (cs_result s)\<lparr>co_acknowledged := co_acknowledged (cs_result s) + 1\<rparr>,
               cs_deliveries := cs_deliveries s @ [Acked]\<rparr>"

definition dead_lettered :: "consume_state \<Rightarrow> consume_state" where
  "dead_lettered s = (let s1 = acked s in s1\<lparr>cs_result := (cs_result s1)\<lparr>co_dead_lettered := co_dead_lettered (cs_result s1) + 1\<rparr>\<rparr>)"

definition retried :: "string \<Rightarrow> string \<Rightarrow> string option \<Rightarrow> int \<Rightarrow> consume_state \<Rightarrow> consume_state" where
  "retried ws i err attempts s =
     s\<lparr>cs_rows := fst (markProjectionOutboxFailed ws i (safeErrorCode err) (cs_rows s)),
       cs_result := (cs_result s)\<lparr>co_retried := co_retried (cs_result s) + 1\<rparr>,
       cs_deliveries := cs_deliveries s @ [Retried (retry_delay attempts)]\<rparr>"

definition handle_attempt :: "consume_env \<Rightarrow> queue_message \<Rightarrow> projection_message \<Rightarrow> int \<Rightarrow> consume_state \<Rightarrow> consume_state" where
  "handle_attempt env m body now s =
     (let ws = pm_workspace_id body; i = pm_outbox_id body; k = length (cs_deliveries s);
          (rows1, claimed) = beginProjectionOutboxAttempt ws i now (cs_rows s);
          s1 = s\<lparr>cs_rows := rows1\<rparr>
      in case claimed of
           [] \<Rightarrow> acked s1
         | row # _ \<Rightarrow>
             if po_event_type row \<noteq> pm_event_type body
             then dead_lettered (s1\<lparr>cs_rows := fst (markProjectionOutboxDeadLettered ws i now ''projection_event_type_mismatch'' rows1)\<rparr>)
             else (case ce_project_fault env k of
                     Some err \<Rightarrow> retried ws i err (qm_attempts m) s1
                   | None \<Rightarrow>
                       (case persistDataGraph (ce_num env) (ce_iso env) (ce_include_documents env) ws now (cs_graph s1) of
                          Inl _ \<Rightarrow> retried ws i (ce_db_error env) (qm_attempts m) s1
                        | Inr (projected, db) \<Rightarrow>
                            let s2 = s1\<lparr>cs_graph := db, cs_calls := cs_calls s1 + 1\<rparr>
                            in case ce_mark_fault env k of
                                 Some err \<Rightarrow> retried ws i err (qm_attempts m) s2
                               | None \<Rightarrow>
                                   let s3 = acked (s2\<lparr>cs_rows := fst (markProjectionOutboxProcessed ws i (ce_clock env (cs_calls s1)) (cs_rows s2))\<rparr>)
                                   in s3\<lparr>cs_result := (cs_result s3)\<lparr>co_projected := co_projected (cs_result s3) @ [projected]\<rparr>\<rparr>)))"

definition consume_message :: "consume_env \<Rightarrow> consume_state \<Rightarrow> queue_message \<Rightarrow> consume_state" where
  "consume_message env s m =
     (case parseTenantProjectionMessage (qm_body m) of
        None \<Rightarrow> (let s1 = acked s in s1\<lparr>cs_result := (cs_result s1)\<lparr>co_invalid := co_invalid (cs_result s1) + 1\<rparr>\<rparr>)
      | Some body \<Rightarrow>
          let now = ce_clock env (cs_calls s); s1 = s\<lparr>cs_calls := cs_calls s + 1\<rparr>
          in if ce_queue env = TENANT_PROJECTION_DLQ_NAME
             then dead_lettered (s1\<lparr>cs_rows := fst (markProjectionOutboxDeadLettered (pm_workspace_id body) (pm_outbox_id body) now
                                    ''projection_queue_retries_exhausted'' (cs_rows s1))\<rparr>)
             else handle_attempt env m body now s1)"

definition consume_start :: "projection_row list \<Rightarrow> graph_db \<Rightarrow> consume_state" where
  "consume_start rows db =
     \<lparr>cs_rows = rows, cs_graph = db, cs_calls = 0,
      cs_result = \<lparr>co_acknowledged = 0, co_retried = 0, co_dead_lettered = 0, co_invalid = 0, co_projected = []\<rparr>, cs_deliveries = []\<rparr>"

definition consumeTenantProjectionBatch :: "consume_env \<Rightarrow> queue_message list \<Rightarrow> projection_row list \<Rightarrow> graph_db \<Rightarrow> consume_state" where
  "consumeTenantProjectionBatch env ms rows db = foldl (consume_message env) (consume_start rows db) ms"

section \<open>The cron\<close>

record cron_report =
  cn_actions_taken :: nat
  cn_status :: dispatch_status
  cn_error :: "string option"

definition tenantProjectionDispatchCron ::
  "string option \<Rightarrow> bool \<Rightarrow> dispatch_env \<Rightarrow> projection_row list \<times> json list \<Rightarrow> (projection_row list \<times> json list) \<times> cron_report" where
  "tenantProjectionDispatchCron flag hasGateway env st =
     (let enabled = envFlagTrue flag
      in if \<not> hasGateway
         then (st, \<lparr>cn_actions_taken = 0, cn_status = (if enabled then Dispatch_failed else Dispatch_skipped),
                    cn_error = (if enabled then Some ''projection_outbox_gateway_missing'' else None)\<rparr>)
         else let (st', r) = dispatchTenantProjectionOutbox (env\<lparr>de_enabled := enabled, de_limit := None\<rparr>) st
              in (st', \<lparr>cn_actions_taken = dp_dispatched r, cn_status = dp_status r, cn_error = dp_error_code r\<rparr>))"

end
