(* ===== verification/Projection_Props.thy ===== *)
theory Projection_Props
  imports Projection_Outbox
begin

text \<open>
  The outbox as a state machine: a step relation over its statements in any interleaving, its invariant,
  the refinement of dispatcher and consumer to it, and what a dispatched row comes to.
\<close>

section \<open>The step relation\<close>

definition new_row :: "projection_row \<Rightarrow> bool" where
  "new_row r \<longleftrightarrow> po_status r = PO_pending \<and> po_attempt_count r = 0 \<and> po_claimed_at r = None \<and> po_dispatched_at r = None \<and>
     po_processing_started_at r = None \<and> po_processed_at r = None \<and> po_dead_lettered_at r = None \<and> po_last_error_code r = None"

inductive outbox_step :: "projection_row list \<Rightarrow> projection_row list \<Rightarrow> bool" where
  insert: "new_row r \<Longrightarrow> po_id r \<notin> po_id ` set rows \<Longrightarrow> outbox_step rows (rows @ [r])"
| claim: "outbox_step rows (fst (claimProjectionOutboxRows limit now stale locked rows))"
| dispatched: "outbox_step rows (fst (markProjectionOutboxDispatched oids now rows))"
| release: "outbox_step rows (fst (releaseProjectionOutboxDispatch oids err rows))"
| begin_attempt: "outbox_step rows (fst (beginProjectionOutboxAttempt ws i now rows))"
| processed: "outbox_step rows (fst (markProjectionOutboxProcessed ws i now rows))"
| failed: "outbox_step rows (fst (markProjectionOutboxFailed ws i err rows))"
| dead_letter: "outbox_step rows (fst (markProjectionOutboxDeadLettered ws i now err rows))"

definition row_ok :: "projection_row \<Rightarrow> bool" where
  "row_ok r \<longleftrightarrow> (po_processed_at r \<noteq> None \<longleftrightarrow> po_status r = PO_processed) \<and>
     (po_dead_lettered_at r \<noteq> None \<longrightarrow> po_status r \<in> {PO_dead_letter, PO_processed}) \<and>
     (po_status r = PO_dead_letter \<longrightarrow> po_dead_lettered_at r \<noteq> None)"

definition outbox_ok :: "projection_row list \<Rightarrow> bool" where
  "outbox_ok rows \<longleftrightarrow> distinct (map po_id rows) \<and> (\<forall>r \<in> set rows. row_ok r)"

section \<open>The contract of a statement\<close>

text \<open>
  Every statement is an update of selected rows that keeps identity and invariant, selects no processed
  row, and leaves a dead-lettered row unattempted and out of circulation.
\<close>

locale outbox_update =
  fixes P :: "projection_row \<Rightarrow> bool" and f :: "projection_row \<Rightarrow> projection_row"
  assumes keeps_id: "po_id (f r) = po_id r"
    and keeps_ok: "row_ok r \<Longrightarrow> P r \<Longrightarrow> row_ok (f r)"
    and open_only: "row_ok r \<Longrightarrow> P r \<Longrightarrow> po_processed_at r = None"
    and dead_stays: "row_ok r \<Longrightarrow> P r \<Longrightarrow> po_dead_lettered_at r \<noteq> None \<Longrightarrow>
      po_attempt_count (f r) = po_attempt_count r \<and> po_dead_lettered_at (f r) \<noteq> None"
begin

lemma update_ok: "outbox_ok rows \<Longrightarrow> outbox_ok (fst (update_where P f rows))"
proof -
  assume ok: "outbox_ok rows"
  have ids: "map po_id (fst (update_where P f rows)) = map po_id rows"
    by (simp add: update_where_def keeps_id)
  have "\<forall>r \<in> set (fst (update_where P f rows)). row_ok r"
    using ok by (auto simp: outbox_ok_def update_where_def keeps_ok)
  with ok ids show ?thesis by (simp only: outbox_ok_def)
qed

lemma update_final: "outbox_ok rows \<Longrightarrow> r \<in> set rows \<Longrightarrow> po_processed_at r \<noteq> None \<Longrightarrow> r \<in> set (fst (update_where P f rows))"
  using open_only [of r] by (force simp: outbox_ok_def update_where_def)

lemma update_dead:
  assumes "outbox_ok rows" and "r \<in> set rows" and "po_dead_lettered_at r \<noteq> None"
  shows "\<exists>r' \<in> set (fst (update_where P f rows)). po_id r' = po_id r \<and> po_attempt_count r' = po_attempt_count r \<and>
    po_dead_lettered_at r' \<noteq> None"
proof -
  let ?r = "if P r then f r else r"
  have "?r \<in> set (fst (update_where P f rows))" using assms(2) by (auto simp: update_where_def)
  moreover have "po_id ?r = po_id r \<and> po_attempt_count ?r = po_attempt_count r \<and> po_dead_lettered_at ?r \<noteq> None"
    using assms dead_stays [of r] keeps_id by (auto simp: outbox_ok_def)
  ultimately show ?thesis by blast
qed

end

interpretation claim_update: outbox_update "\<lambda>r. po_id r \<in> set oids \<and> claimable stale locked r"
  "\<lambda>r. r\<lparr>po_status := PO_dispatching, po_claimed_at := Some now, po_last_error_code := None\<rparr>" for oids stale locked now
  by standard (auto simp: row_ok_def claimable_def)

interpretation dispatched_update: outbox_update "\<lambda>r. po_id r \<in> set oids \<and> po_status r = PO_dispatching"
  "\<lambda>r. r\<lparr>po_status := PO_dispatched, po_dispatched_at := Some now, po_claimed_at := None\<rparr>" for oids now
  by standard (auto simp: row_ok_def)

interpretation release_update: outbox_update "\<lambda>r. po_id r \<in> set oids \<and> po_status r = PO_dispatching"
  "\<lambda>r. r\<lparr>po_status := PO_pending, po_claimed_at := None, po_last_error_code := Some (take 80 err)\<rparr>" for oids err
  by standard (auto simp: row_ok_def)

interpretation begin_update: outbox_update
  "\<lambda>r. addressed ws i r \<and> po_dead_lettered_at r = None \<and> po_status r \<in> {PO_dispatching, PO_dispatched, PO_processing}"
  "\<lambda>r. r\<lparr>po_status := PO_processing, po_processing_started_at := Some now, po_attempt_count := po_attempt_count r + 1,
         po_last_error_code := None\<rparr>" for ws i now
  by standard (auto simp: row_ok_def addressed_def)

interpretation processed_update: outbox_update "addressed ws i"
  "\<lambda>r. r\<lparr>po_status := PO_processed, po_processed_at := Some now, po_processing_started_at := None, po_last_error_code := None\<rparr>" for ws i now
  by standard (auto simp: row_ok_def addressed_def)

interpretation failed_update: outbox_update "\<lambda>r. addressed ws i r \<and> po_dead_lettered_at r = None"
  "\<lambda>r. r\<lparr>po_status := PO_dispatched, po_processing_started_at := None, po_last_error_code := Some (take 80 err)\<rparr>" for ws i err
  by standard (auto simp: row_ok_def addressed_def)

interpretation dead_letter_update: outbox_update "addressed ws i"
  "\<lambda>r. r\<lparr>po_status := PO_dead_letter, po_dead_lettered_at := Some now, po_processing_started_at := None,
         po_last_error_code := Some (take 80 err)\<rparr>" for ws i now err
  by standard (auto simp: row_ok_def addressed_def)

lemma update_where_cong: "(\<And>r. r \<in> set rows \<Longrightarrow> P r = Q r) \<Longrightarrow> update_where P f rows = update_where Q f rows"
  by (auto simp: update_where_def cong: filter_cong)

definition candidates :: "int \<Rightarrow> int \<Rightarrow> (string \<Rightarrow> bool) \<Rightarrow> projection_row list \<Rightarrow> string list" where
  "candidates limit stale locked rows = map po_id (take (nat (max 1 (min 100 limit)))
     (sort_key (\<lambda>r. (po_created_at r, po_id r)) (filter (claimable stale locked) rows)))"

lemma candidates_claimable:
  "distinct (map po_id rows) \<Longrightarrow> r \<in> set rows \<Longrightarrow> po_id r \<in> set (candidates limit stale locked rows) \<Longrightarrow> claimable stale locked r"
  by (auto simp: candidates_def dest!: in_set_takeD) (metis distinct_map inj_onD)

lemma claim_as_update:
  assumes "distinct (map po_id rows)"
  shows "claimProjectionOutboxRows limit now stale locked rows =
    update_where (\<lambda>r. po_id r \<in> set (candidates limit stale locked rows) \<and> claimable stale locked r)
      (\<lambda>r. r\<lparr>po_status := PO_dispatching, po_claimed_at := Some now, po_last_error_code := None\<rparr>) rows"
  unfolding claimProjectionOutboxRows_def Let_def candidates_def [symmetric]
  by (rule update_where_cong) (use candidates_claimable [OF assms] in blast)

section \<open>Invariant and absorption\<close>

lemma step_cases:
  assumes "outbox_step rows rows'" and "outbox_ok rows"
  obtains (insert) r where "new_row r" "po_id r \<notin> po_id ` set rows" "rows' = rows @ [r]"
    | (none) "rows' = rows"
    | (update) P f where "outbox_update P f" "rows' = fst (update_where P f rows)"
  using assms(1)
proof cases
  case (claim limit now stale locked)
  have "distinct (map po_id rows)" using assms(2) by (simp add: outbox_ok_def)
  from update [OF claim_update.outbox_update_axioms claim [unfolded claim_as_update [OF this]]] show thesis .
next
  case (dispatched oids now)
  show thesis
  proof (cases "oids = []")
    case False
    with dispatched show thesis
      by (intro update [OF dispatched_update.outbox_update_axioms [of oids now]]) (simp add: markProjectionOutboxDispatched_def)
  qed (use dispatched in \<open>auto simp: markProjectionOutboxDispatched_def intro: none\<close>)
next
  case (release oids err)
  show thesis
  proof (cases "oids = []")
    case False
    with release show thesis
      by (intro update [OF release_update.outbox_update_axioms [of oids err]]) (simp add: releaseProjectionOutboxDispatch_def)
  qed (use release in \<open>auto simp: releaseProjectionOutboxDispatch_def intro: none\<close>)
next
  case (begin_attempt ws i now)
  show thesis by (rule update [OF begin_update.outbox_update_axioms begin_attempt [unfolded beginProjectionOutboxAttempt_def]])
next
  case (processed ws i now)
  show thesis by (rule update [OF processed_update.outbox_update_axioms processed [unfolded markProjectionOutboxProcessed_def]])
next
  case (failed ws i err)
  show thesis by (rule update [OF failed_update.outbox_update_axioms failed [unfolded markProjectionOutboxFailed_def]])
next
  case (dead_letter ws i now err)
  show thesis by (rule update [OF dead_letter_update.outbox_update_axioms dead_letter [unfolded markProjectionOutboxDeadLettered_def]])
qed (use insert in blast)

lemma step_ok: "outbox_step rows rows' \<Longrightarrow> outbox_ok rows \<Longrightarrow> outbox_ok rows'"
  by (erule (1) step_cases) (auto simp: outbox_update.update_ok, auto simp: outbox_ok_def row_ok_def new_row_def)

lemma step_final: "outbox_step rows rows' \<Longrightarrow> outbox_ok rows \<Longrightarrow> r \<in> set rows \<Longrightarrow> po_processed_at r \<noteq> None \<Longrightarrow> r \<in> set rows'"
  by (erule (1) step_cases) (auto dest: outbox_update.update_final)

lemma step_dead:
  assumes "outbox_step rows rows'" and "outbox_ok rows" and "r \<in> set rows" and "po_dead_lettered_at r \<noteq> None"
  shows "\<exists>r' \<in> set rows'. po_id r' = po_id r \<and> po_attempt_count r' = po_attempt_count r \<and> po_dead_lettered_at r' \<noteq> None"
  using assms(1,2)
proof (cases rule: step_cases)
  case (update P f)
  then show ?thesis using outbox_update.update_dead [OF update(1) assms(2-4)] by simp
qed (use assms(3,4) in auto)

lemma steps_ok: "outbox_step\<^sup>*\<^sup>* rows rows' \<Longrightarrow> outbox_ok rows \<Longrightarrow> outbox_ok rows'"
  by (induction rule: rtranclp_induct) (auto intro: step_ok)

lemma steps_final: "outbox_step\<^sup>*\<^sup>* rows rows' \<Longrightarrow> outbox_ok rows \<Longrightarrow> r \<in> set rows \<Longrightarrow> po_processed_at r \<noteq> None \<Longrightarrow> r \<in> set rows'"
  by (induction rule: rtranclp_induct) (auto intro: step_final steps_ok)

lemma steps_dead:
  assumes "outbox_step\<^sup>*\<^sup>* rows rows'" and "outbox_ok rows" and "r \<in> set rows" and "po_dead_lettered_at r \<noteq> None"
  shows "\<exists>r' \<in> set rows'. po_id r' = po_id r \<and> po_attempt_count r' = po_attempt_count r \<and> po_dead_lettered_at r' \<noteq> None"
  using assms(1)
proof (induction rule: rtranclp_induct)
  case (step ys zs)
  then obtain r1 where r1: "r1 \<in> set ys" "po_id r1 = po_id r" "po_attempt_count r1 = po_attempt_count r" "po_dead_lettered_at r1 \<noteq> None"
    by blast
  from step_dead [OF step.hyps(2) steps_ok [OF step.hyps(1) assms(2)] r1(1,4)] r1(2,3) show ?case by metis
qed (use assms in blast)

section \<open>Dispatcher and consumer refine the step relation\<close>

lemmas outbox_statements = outbox_step.claim outbox_step.dispatched outbox_step.release outbox_step.begin_attempt
  outbox_step.processed outbox_step.failed outbox_step.dead_letter

lemma two_steps: "outbox_step a b \<Longrightarrow> outbox_step b c \<Longrightarrow> outbox_step\<^sup>*\<^sup>* a c"
  by (meson converse_rtranclp_into_rtranclp r_into_rtranclp)

lemma dispatch_refines: "outbox_step\<^sup>*\<^sup>* rows (fst (fst (dispatchTenantProjectionOutbox env (rows, queue))))"
proof -
  obtain rows1 claimed where c: "claimProjectionOutboxRows (the_default 50 (de_limit env)) (de_now env)
      (de_now env - 300000) (de_locked env) rows = (rows1, claimed)" by (meson surj_pair)
  then have one: "outbox_step rows rows1" by (metis fst_conv outbox_step.claim)
  then have "outbox_step\<^sup>*\<^sup>* rows rows1" by (rule r_into_rtranclp)
  with c show ?thesis
    unfolding dispatchTenantProjectionOutbox_def release_after_def
    by (auto simp: Let_def intro: two_steps [OF one] outbox_statements split: option.splits prod.splits)
      (metis fst_conv one outbox_step.dispatched two_steps)
qed

lemma sel_acked [simp]: "cs_rows (acked s) = cs_rows s" "cs_graph (acked s) = cs_graph s" "cs_calls (acked s) = cs_calls s"
  by (simp_all add: acked_def)

lemma sel_dead_lettered [simp]: "cs_rows (dead_lettered s) = cs_rows s" "cs_graph (dead_lettered s) = cs_graph s"
  by (simp_all add: dead_lettered_def Let_def)

lemma sel_retried [simp]:
  "cs_rows (retried ws i err n s) = fst (markProjectionOutboxFailed ws i (safeErrorCode err) (cs_rows s))"
  "cs_graph (retried ws i err n s) = cs_graph s"
  by (simp_all add: retried_def)

lemma attempt_refines: "outbox_step\<^sup>*\<^sup>* (cs_rows s) (cs_rows (handle_attempt env m body now s))"
proof -
  obtain rows1 claimed where b: "beginProjectionOutboxAttempt (pm_workspace_id body) (pm_outbox_id body) now (cs_rows s) = (rows1, claimed)"
    by (meson surj_pair)
  then have one: "outbox_step (cs_rows s) rows1" by (metis fst_conv outbox_step.begin_attempt)
  then have "outbox_step\<^sup>*\<^sup>* (cs_rows s) rows1" by (rule r_into_rtranclp)
  with b show ?thesis
    unfolding handle_attempt_def
    by (auto simp: Let_def intro: two_steps [OF one] outbox_statements split: list.splits option.splits sum.splits)
qed

lemma consume_message_refines: "outbox_step\<^sup>*\<^sup>* (cs_rows s) (cs_rows (consume_message env s m))"
  using attempt_refines [of "s\<lparr>cs_calls := cs_calls s + 1\<rparr>" env m]
  by (auto simp: consume_message_def Let_def intro: outbox_step.dead_letter split: option.splits)

lemma consume_fold_refines: "outbox_step\<^sup>*\<^sup>* (cs_rows s) (cs_rows (foldl (consume_message env) s ms))"
proof (induction ms arbitrary: s)
  case (Cons m ms)
  then show ?case using consume_message_refines by (metis foldl_Cons rtranclp_trans)
qed simp

lemma consume_refines: "outbox_step\<^sup>*\<^sup>* rows (cs_rows (consumeTenantProjectionBatch env ms rows db))"
  using consume_fold_refines [of "consume_start rows db"] by (simp add: consumeTenantProjectionBatch_def consume_start_def)

section \<open>Runs of the whole queue\<close>

datatype queue_op =
    Enqueue projection_row
  | Dispatch "string option" bool dispatch_env
  | Deliver consume_env "queue_message list"

type_synonym queue_state = "projection_row list \<times> json list \<times> graph_db"

text \<open>The primary key of the table rejects a second row with the same identifier.\<close>

definition queue_exec :: "queue_state \<Rightarrow> queue_op \<Rightarrow> queue_state" where
  "queue_exec st op =
     (case st of (rows, queue, db) \<Rightarrow>
        case op of
          Enqueue r \<Rightarrow> if new_row r \<and> po_id r \<notin> set (map po_id rows) then (rows @ [r], queue, db) else st
        | Dispatch flag gateway env \<Rightarrow>
            let ((rows', queue'), _) = tenantProjectionDispatchCron flag gateway env (rows, queue) in (rows', queue', db)
        | Deliver env ms \<Rightarrow> let s = consumeTenantProjectionBatch env ms rows db in (cs_rows s, queue, cs_graph s))"

lemma queue_exec_refines: "outbox_step\<^sup>*\<^sup>* (fst st) (fst (queue_exec st op))"
proof (cases op)
  case (Enqueue r)
  then show ?thesis by (auto simp: queue_exec_def intro!: r_into_rtranclp outbox_step.insert split: prod.splits)
next
  case (Dispatch flag gateway env)
  obtain rows queue db where st: "st = (rows, queue, db)" by (metis prod_cases3)
  show ?thesis
    using dispatch_refines [of rows "env\<lparr>de_enabled := envFlagTrue flag, de_limit := None\<rparr>" queue]
    by (auto simp: st Dispatch queue_exec_def tenantProjectionDispatchCron_def Let_def split: prod.splits)
next
  case (Deliver env ms)
  then show ?thesis using consume_refines by (auto simp: queue_exec_def Let_def split: prod.splits)
qed

lemma queue_run_refines: "outbox_step\<^sup>*\<^sup>* (fst st) (fst (foldl queue_exec st ops))"
proof (induction ops arbitrary: st)
  case (Cons op ops)
  then show ?case using queue_exec_refines by (metis foldl_Cons rtranclp_trans)
qed simp

lemma outbox_ok_Nil [simp]: "outbox_ok []"
  by (simp add: outbox_ok_def)

lemma queue_run_ok: "outbox_ok (fst st) \<Longrightarrow> outbox_ok (fst (foldl queue_exec st ops))"
  using steps_ok queue_run_refines by blast

text \<open>
  C33. Processing is final. In any history of the outbox, with any interleaving of writers, dispatch runs,
  deliveries, duplicates, forged messages and faults, a row that was marked processed is never touched
  again; and a dead-lettered row is never attempted again and stays dead-lettered.
\<close>

theorem processed_is_final:
  assumes "st = foldl queue_exec ([], [], db) before" and "st' = foldl queue_exec st after" and "r \<in> set (fst st)"
  shows "(po_processed_at r \<noteq> None \<longrightarrow> r \<in> set (fst st')) \<and>
    (po_dead_lettered_at r \<noteq> None \<longrightarrow>
       (\<exists>r' \<in> set (fst st'). po_id r' = po_id r \<and> po_attempt_count r' = po_attempt_count r \<and> po_dead_lettered_at r' \<noteq> None))"
proof -
  have ok: "outbox_ok (fst st)" unfolding assms(1) by (rule queue_run_ok) simp
  have run: "outbox_step\<^sup>*\<^sup>* (fst st) (fst st')" unfolding assms(2) by (rule queue_run_refines)
  show ?thesis using steps_final [OF run ok assms(3)] steps_dead [OF run ok assms(3)] by blast
qed

definition demo_row :: projection_row where
  "demo_row = \<lparr>po_id = ''o1'', po_workspace_id = ''w'', po_event_type = ''governed_intake.executed'', po_aggregate_type = ''task_packet'',
     po_aggregate_id = ''p'', po_status = PO_pending, po_attempt_count = 0, po_created_at = 0, po_claimed_at = None,
     po_dispatched_at = None, po_processing_started_at = None, po_processed_at = None, po_dead_lettered_at = None, po_last_error_code = None\<rparr>"

definition demo_dlq_env :: consume_env where
  "demo_dlq_env = \<lparr>ce_queue = TENANT_PROJECTION_DLQ_NAME, ce_clock = (\<lambda>n. 9), ce_num = (\<lambda>_. []), ce_iso = (\<lambda>_. []),
     ce_include_documents = False, ce_db_error = None, ce_project_fault = (\<lambda>_. None), ce_mark_fault = (\<lambda>_. None)\<rparr>"

definition demo_history :: "queue_op list" where
  "demo_history = [Enqueue demo_row, Deliver demo_dlq_env [\<lparr>qm_body = message_body demo_row, qm_attempts = 4\<rparr>]]"

definition demo_dead_row :: projection_row where
  "demo_dead_row = demo_row\<lparr>po_status := PO_dead_letter, po_dead_lettered_at := Some 9,
     po_last_error_code := Some ''projection_queue_retries_exhausted''\<rparr>"

lemma demo_history_dead: "fst (foldl queue_exec ([], [], demo_graph_db) demo_history) = [demo_dead_row]"
  by code_simp

theorem processed_is_final_witness:
  "\<exists>r' \<in> set (fst (foldl queue_exec (foldl queue_exec ([], [], demo_graph_db) demo_history) demo_history)).
     po_id r' = ''o1'' \<and> po_attempt_count r' = 0 \<and> po_dead_lettered_at r' \<noteq> None"
  using processed_is_final [OF refl refl, of demo_dead_row demo_graph_db demo_history demo_history] demo_history_dead
  by (auto simp: demo_dead_row_def demo_row_def)

section \<open>Messages and rows\<close>

definition is_identifier :: "string \<Rightarrow> bool" where
  "is_identifier s \<longleftrightarrow> s \<noteq> [] \<and> length s \<le> 200 \<and> list_all identifier_char s"

lemma parse_message_body:
  "parseTenantProjectionMessage (message_body r) =
     (if is_identifier (po_id r) \<and> is_identifier (po_workspace_id r) \<and> po_event_type r = PROJECTED_EVENT_TYPE
      then Some \<lparr>pm_outbox_id = po_id r, pm_workspace_id = po_workspace_id r, pm_event_type = PROJECTED_EVENT_TYPE\<rparr> else None)"
  by (auto simp: parseTenantProjectionMessage_def message_body_def validIdentifier_def is_identifier_def)

definition row_at :: "string \<Rightarrow> projection_row list \<Rightarrow> projection_row option" where
  "row_at i rows = List.find (\<lambda>r. po_id r = i) rows"

lemma row_at_SomeD: "row_at i rows = Some r \<Longrightarrow> r \<in> set rows \<and> po_id r = i"
  by (auto simp: row_at_def dest: find_Some_in)

lemma row_at_member: "distinct (map po_id rows) \<Longrightarrow> r \<in> set rows \<Longrightarrow> row_at (po_id r) rows = Some r"
  unfolding row_at_def by (induction rows) auto

lemma row_at_update: "(\<And>r. po_id (f r) = po_id r) \<Longrightarrow> row_at i (fst (update_where P f rows)) = map_option (\<lambda>r. if P r then f r else r) (row_at i rows)"
  unfolding row_at_def update_where_def by (induction rows) auto

lemma filter_row_at:
  "distinct (map po_id rows) \<Longrightarrow> (\<And>r. P r \<Longrightarrow> po_id r = i) \<Longrightarrow>
   filter P rows = (case row_at i rows of None \<Rightarrow> [] | Some r \<Rightarrow> if P r then [r] else [])"
  unfolding row_at_def
proof (induction rows)
  case (Cons x xs)
  have "filter P xs = []" if "po_id x = i" using Cons.prems that by (auto simp: filter_empty_conv) (metis image_eqI)
  moreover have "\<not> P x" if "po_id x \<noteq> i" using Cons.prems(2) that by blast
  ultimately show ?case using Cons by (auto split: option.splits)
qed simp

lemma row_at_statements:
  "row_at i (fst (markProjectionOutboxProcessed ws j now rows)) = map_option (\<lambda>r. if addressed ws j r
     then r\<lparr>po_status := PO_processed, po_processed_at := Some now, po_processing_started_at := None, po_last_error_code := None\<rparr> else r) (row_at i rows)"
  "row_at i (fst (markProjectionOutboxFailed ws j err rows)) = map_option (\<lambda>r. if addressed ws j r \<and> po_dead_lettered_at r = None
     then r\<lparr>po_status := PO_dispatched, po_processing_started_at := None, po_last_error_code := Some (take 80 err)\<rparr> else r) (row_at i rows)"
  "row_at i (fst (markProjectionOutboxDeadLettered ws j now err rows)) = map_option (\<lambda>r. if addressed ws j r
     then r\<lparr>po_status := PO_dead_letter, po_dead_lettered_at := Some now, po_processing_started_at := None,
            po_last_error_code := Some (take 80 err)\<rparr> else r) (row_at i rows)"
  "row_at i (fst (beginProjectionOutboxAttempt ws j now rows)) = map_option (\<lambda>r. if addressed ws j r \<and> po_dead_lettered_at r = None \<and>
       po_status r \<in> {PO_dispatching, PO_dispatched, PO_processing}
     then r\<lparr>po_status := PO_processing, po_processing_started_at := Some now, po_attempt_count := po_attempt_count r + 1,
            po_last_error_code := None\<rparr> else r) (row_at i rows)"
  unfolding markProjectionOutboxProcessed_def markProjectionOutboxFailed_def markProjectionOutboxDeadLettered_def beginProjectionOutboxAttempt_def
  by (rule row_at_update, simp)+

lemma map_option_other: "row_at i rows = v \<Longrightarrow> i \<noteq> j \<Longrightarrow> map_option (\<lambda>r. if addressed ws j r \<and> Q r then f r else r) v = v"
  "row_at i rows = v \<Longrightarrow> i \<noteq> j \<Longrightarrow> map_option (\<lambda>r. if addressed ws j r then f r else r) v = v"
  by (auto simp: option.map_ident addressed_def dest!: row_at_SomeD intro!: option.map_ident_strong)

text \<open>A message for one row leaves the others alone.\<close>

lemma attempt_other:
  assumes "pm_outbox_id body \<noteq> i"
  shows "row_at i (cs_rows (handle_attempt env m body now s)) = row_at i (cs_rows s)"
proof -
  obtain rows1 claimed where b: "beginProjectionOutboxAttempt (pm_workspace_id body) (pm_outbox_id body) now (cs_rows s) = (rows1, claimed)"
    by (meson surj_pair)
  have "row_at i rows1 = row_at i (cs_rows s)"
    using row_at_statements(4) [of i "pm_workspace_id body" "pm_outbox_id body" now "cs_rows s"] assms
    by (simp add: b map_option_other(1) [OF refl])
  with b assms show ?thesis
    unfolding handle_attempt_def Let_def
    by (auto simp: row_at_statements map_option_other [OF refl] split: list.splits option.splits sum.splits)
qed

lemma consume_other:
  assumes "\<And>body. parseTenantProjectionMessage (qm_body m) = Some body \<Longrightarrow> pm_outbox_id body \<noteq> i"
  shows "row_at i (cs_rows (consume_message env s m)) = row_at i (cs_rows s)"
  using assms attempt_other [of _ i env m _ "s\<lparr>cs_calls := cs_calls s + 1\<rparr>"]
  by (auto simp: consume_message_def Let_def row_at_statements map_option_other [OF refl] split: option.splits)

section \<open>Rows of other event types\<close>

text \<open>A delivered message is genuine for a row when the dispatcher could have made it.\<close>

definition genuine :: "projection_row \<Rightarrow> queue_op \<Rightarrow> bool" where
  "genuine r op \<longleftrightarrow> (case op of
     Deliver env ms \<Rightarrow> list_all (\<lambda>m. \<exists>r0. qm_body m = message_body r0 \<and> (po_id r0 = po_id r \<longrightarrow> po_event_type r0 = po_event_type r)) ms
   | _ \<Rightarrow> True)"

lemma dispatch_leaves_dispatched:
  assumes "distinct (map po_id rows)" and "r \<in> set rows" and "po_status r = PO_dispatched"
  shows "r \<in> set (fst (fst (dispatchTenantProjectionOutbox env (rows, queue))))"
proof -
  obtain rows1 claimed where c: "claimProjectionOutboxRows (the_default 50 (de_limit env)) (de_now env)
      (de_now env - 300000) (de_locked env) rows = (rows1, claimed)" by (meson surj_pair)
  have keep: "r \<in> set (fst (update_where P f xs))" if "r \<in> set xs" "\<not> P r" for P f and xs :: "projection_row list"
    using that by (force simp: update_where_def)
  have "\<not> claimable stale locked r" for stale locked using assms(3) by (simp add: claimable_def)
  then have "r \<in> set (fst (claimProjectionOutboxRows limit now stale locked rows))" for limit now stale locked
    unfolding claim_as_update [OF assms(1)] by (intro keep assms(2)) simp
  then have "r \<in> set rows1" using c by (metis fst_conv)
  with c assms(2,3) show ?thesis
    unfolding dispatchTenantProjectionOutbox_def release_after_def
    by (auto simp: Let_def releaseProjectionOutboxDispatch_def markProjectionOutboxDispatched_def update_where_def
        split: option.splits prod.splits if_splits)
qed

lemma consume_fold_other:
  assumes "\<And>m body. m \<in> set ms \<Longrightarrow> parseTenantProjectionMessage (qm_body m) = Some body \<Longrightarrow> pm_outbox_id body \<noteq> i"
  shows "row_at i (cs_rows (foldl (consume_message env) s ms)) = row_at i (cs_rows s)"
  using assms
proof (induction ms arbitrary: s)
  case (Cons m ms)
  have "row_at i (cs_rows (consume_message env s m)) = row_at i (cs_rows s)"
    by (rule consume_other) (rule Cons.prems [of m], simp_all)
  moreover have "row_at i (cs_rows (foldl (consume_message env) (consume_message env s m) ms)) = row_at i (cs_rows (consume_message env s m))"
    by (rule Cons.IH) (rule Cons.prems, simp_all)
  ultimately show ?case by simp
qed simp

lemma foreign_exec:
  assumes ok: "outbox_ok (fst st)" and r: "r \<in> set (fst st)" "po_status r = PO_dispatched" "po_event_type r \<noteq> PROJECTED_EVENT_TYPE"
    and gen: "genuine r op"
  shows "r \<in> set (fst (queue_exec st op))"
proof -
  obtain rows queue db where st: "st = (rows, queue, db)" by (metis prod_cases3)
  have dist: "distinct (map po_id rows)" using ok by (simp add: outbox_ok_def st)
  show ?thesis
  proof (cases op)
    case (Enqueue x)
    then show ?thesis using r(1) by (simp add: st queue_exec_def)
  next
    case (Dispatch flag gateway env)
    then show ?thesis
      using dispatch_leaves_dispatched [OF dist, of r "env\<lparr>de_enabled := envFlagTrue flag, de_limit := None\<rparr>" queue] r
      by (auto simp: st queue_exec_def tenantProjectionDispatchCron_def Let_def split: prod.splits)
  next
    case (Deliver env ms)
    have "pm_outbox_id body \<noteq> po_id r" if "m \<in> set ms" "parseTenantProjectionMessage (qm_body m) = Some body" for m body
      using gen that r(3) by (auto simp: genuine_def Deliver list_all_iff parse_message_body split: if_splits dest!: bspec)
    then have "row_at (po_id r) (cs_rows (foldl (consume_message env) (consume_start rows db) ms)) = row_at (po_id r) rows"
      by (subst consume_fold_other) (auto simp: consume_start_def)
    also have "\<dots> = Some r" using row_at_member [OF dist] r(1) by (simp add: st)
    finally show ?thesis
      by (auto simp: st Deliver queue_exec_def Let_def consumeTenantProjectionBatch_def dest: row_at_SomeD)
  qed
qed

text \<open>
  C39. A dispatched outbox row whose event type is not the one the consumer accepts is stranded: whatever
  dispatch runs, deliveries of genuine messages (also from the dead-letter queue) and new rows follow,
  the row stays dispatched and unprocessed exactly as it is; it is neither retried nor dead-lettered.
\<close>

theorem foreign_event_stranded:
  assumes "st = foldl queue_exec ([], [], db) before" and "r \<in> set (fst st)" and "po_status r = PO_dispatched"
    and "po_event_type r \<noteq> ''governed_intake.executed''" and "list_all (genuine r) after"
  shows "r \<in> set (fst (foldl queue_exec st after))"
proof -
  have "outbox_ok (fst st)" unfolding assms(1) by (rule queue_run_ok) simp
  with assms(2-5) show ?thesis
  proof (induction after arbitrary: st)
    case (Cons op ops)
    have "outbox_ok (fst (queue_exec st op))" using steps_ok [OF queue_exec_refines] Cons.prems(5) by blast
    moreover have "r \<in> set (fst (queue_exec st op))"
      using Cons.prems by (intro foreign_exec) (auto simp: PROJECTED_EVENT_TYPE_def)
    ultimately show ?case using Cons by simp
  qed simp
qed

definition demo_member_row :: projection_row where
  "demo_member_row = demo_row\<lparr>po_event_type := ''workspace_member.removed''\<rparr>"

definition demo_dispatch_env :: dispatch_env where
  "demo_dispatch_env = \<lparr>de_enabled = True, de_queue_bound = True, de_now = 5, de_limit = None, de_locked = (\<lambda>_. False),
     de_send_fault = None, de_mark_fault = None\<rparr>"

definition demo_foreign_history :: "queue_op list" where
  "demo_foreign_history = [Enqueue demo_member_row, Dispatch (Some ''true'') True demo_dispatch_env]"

definition demo_stranded_row :: projection_row where
  "demo_stranded_row = demo_member_row\<lparr>po_status := PO_dispatched, po_dispatched_at := Some 5\<rparr>"

definition demo_delivery :: queue_op where
  "demo_delivery = Deliver demo_dlq_env [\<lparr>qm_body = message_body demo_stranded_row, qm_attempts = 1\<rparr>]"

lemma demo_foreign_dispatched: "fst (foldl queue_exec ([], [], demo_graph_db) demo_foreign_history) = [demo_stranded_row]"
  by code_simp

theorem foreign_event_stranded_witness:
  "demo_stranded_row \<in> set (fst (foldl queue_exec ([], [], demo_graph_db) (demo_foreign_history @ [demo_delivery])))"
proof -
  have "genuine demo_stranded_row demo_delivery"
    unfolding genuine_def demo_delivery_def queue_op.case list.pred_inject by (intro conjI TrueI exI [of _ demo_stranded_row]) simp_all
  then have "demo_stranded_row \<in> set (fst (foldl queue_exec (foldl queue_exec ([], [], demo_graph_db) demo_foreign_history) [demo_delivery]))"
    using demo_foreign_dispatched
    by (intro foreign_event_stranded [OF refl]) (simp_all add: demo_stranded_row_def demo_member_row_def)
  then show ?thesis by (simp only: foldl_append)
qed

section \<open>From the outbox to the graph\<close>

definition healthy :: "consume_env \<Rightarrow> bool" where
  "healthy env \<longleftrightarrow> ce_queue env \<noteq> TENANT_PROJECTION_DLQ_NAME \<and> \<not> ce_include_documents env \<and>
     (\<forall>k. ce_project_fault env k = None \<and> ce_mark_fault env k = None)"

definition waiting :: "string \<Rightarrow> string \<Rightarrow> nat \<Rightarrow> projection_row list \<Rightarrow> bool" where
  "waiting i w n rows \<longleftrightarrow> (\<exists>x. row_at i rows = Some x \<and> po_workspace_id x = w \<and> po_event_type x = PROJECTED_EVENT_TYPE \<and>
     po_processed_at x = None \<and> po_dead_lettered_at x = None \<and> po_status x = PO_dispatched \<and> po_attempt_count x = n)"

definition projected :: "string \<Rightarrow> nat \<Rightarrow> projection_row list \<Rightarrow> bool" where
  "projected i n rows \<longleftrightarrow> (\<exists>x. row_at i rows = Some x \<and> po_status x = PO_processed \<and> po_processed_at x \<noteq> None \<and> po_attempt_count x = n)"

definition timely :: "consume_env \<Rightarrow> string \<Rightarrow> graph_db \<Rightarrow> bool" where
  "timely env w db \<longleftrightarrow> up_to_date (ce_num env) (ce_iso env) False w db \<or>
     (\<forall>s \<in> set (gd_snapshots db). sr_workspace_id s = w \<longrightarrow> (\<forall>k. sr_generated_at s < ce_clock env k))"

lemma view_up_to_date: "graph_view w db = graph_view w db' \<Longrightarrow> up_to_date num to_iso docs w db \<longleftrightarrow> up_to_date num to_iso docs w db'"
  using view_latest [of w db db'] view_facts [of w db db' to_iso docs] by (simp add: up_to_date_def)

lemma persist_view:
  "persistDataGraph num to_iso docs ws now db = Inr (r, db') \<Longrightarrow> w \<noteq> ws \<Longrightarrow> graph_view w db' = graph_view w db"
  by (auto simp: persist_unfold dest: replace_frame split: if_splits sum.splits)

lemma persist_timely:
  assumes p: "persistDataGraph (ce_num env) (ce_iso env) False ws (ce_clock env k) db = Inr (r, db')" and t: "timely env w db"
  shows "timely env w db' \<and> (ws = w \<longrightarrow> up_to_date (ce_num env) (ce_iso env) False w db')"
proof (cases "ws = w")
  case True
  have "up_to_date (ce_num env) (ce_iso env) False w db'"
  proof (cases "up_to_date (ce_num env) (ce_iso env) False w db")
    case True
    with p \<open>ws = w\<close> show ?thesis by (auto simp: persist_plain)
  next
    case False
    with t have "\<forall>s \<in> set (gd_snapshots db). sr_workspace_id s = ws \<longrightarrow> sr_generated_at s < ce_clock env k"
      using True by (auto simp: timely_def)
    from persist_up_to_date [OF this p] True show ?thesis by simp
  qed
  then show ?thesis by (simp add: timely_def)
next
  case False
  then have v: "graph_view w db' = graph_view w db" by (intro persist_view [OF p]) simp
  then have same: "filter (\<lambda>s. sr_workspace_id s = w) (gd_snapshots db') = filter (\<lambda>s. sr_workspace_id s = w) (gd_snapshots db)"
    by (simp add: graph_view_def)
  have "s \<in> set (gd_snapshots db') \<and> sr_workspace_id s = w \<longleftrightarrow> s \<in> set (gd_snapshots db) \<and> sr_workspace_id s = w" for s
    using arg_cong [OF same, of "\<lambda>xs. s \<in> set xs"] by simp
  with t view_up_to_date [OF v] False show ?thesis unfolding timely_def by blast
qed

lemma attempt_claimed:
  "outbox_ok rows \<Longrightarrow> snd (beginProjectionOutboxAttempt ws i now rows) =
     (case row_at i rows of None \<Rightarrow> []
      | Some r \<Rightarrow> if addressed ws i r \<and> po_dead_lettered_at r = None \<and> po_status r \<in> {PO_dispatching, PO_dispatched, PO_processing}
          then [r\<lparr>po_status := PO_processing, po_processing_started_at := Some now, po_attempt_count := po_attempt_count r + 1,
                  po_last_error_code := None\<rparr>] else [])"
  unfolding beginProjectionOutboxAttempt_def update_where_def snd_conv
  by (subst filter_row_at [where i = i]) (auto simp: outbox_ok_def addressed_def split: option.splits)

lemma attempt_graph:
  assumes "healthy env"
  shows "cs_graph (handle_attempt env m body now s) = cs_graph s \<or>
    (\<exists>r. persistDataGraph (ce_num env) (ce_iso env) False (pm_workspace_id body) now (cs_graph s) =
      Inr (r, cs_graph (handle_attempt env m body now s)))"
  using assms unfolding handle_attempt_def Let_def healthy_def
  by (auto split: list.splits option.splits sum.splits prod.splits)

lemma attempt_projects:
  assumes env: "healthy env" and ok: "outbox_ok (cs_rows s)" and wait: "waiting i w n (cs_rows s)"
    and body: "body = \<lparr>pm_outbox_id = i, pm_workspace_id = w, pm_event_type = PROJECTED_EVENT_TYPE\<rparr>"
  shows "projected i (n + 1) (cs_rows (handle_attempt env m body now s)) \<and>
    (\<exists>r. persistDataGraph (ce_num env) (ce_iso env) False w now (cs_graph s) = Inr (r, cs_graph (handle_attempt env m body now s)))"
proof -
  from wait obtain x where x: "row_at i (cs_rows s) = Some x" "po_workspace_id x = w" "po_event_type x = PROJECTED_EVENT_TYPE"
    "po_processed_at x = None" "po_dead_lettered_at x = None" "po_status x = PO_dispatched" "po_attempt_count x = n"
    by (auto simp: waiting_def)
  have xi: "po_id x = i" using row_at_SomeD [OF x(1)] by simp
  let ?y = "x\<lparr>po_status := PO_processing, po_processing_started_at := Some now, po_attempt_count := po_attempt_count x + 1, po_last_error_code := None\<rparr>"
  obtain rows1 claimed where b: "beginProjectionOutboxAttempt w i now (cs_rows s) = (rows1, claimed)" by (meson surj_pair)
  have c: "claimed = [?y]" using attempt_claimed [OF ok, of w i now] x xi by (simp add: b addressed_def)
  have y: "row_at i rows1 = Some ?y"
    using row_at_statements(4) [of i w i now "cs_rows s"] x xi by (simp add: b addressed_def)
  obtain r db' where p: "persistDataGraph (ce_num env) (ce_iso env) False w now (cs_graph s) = Inr (r, db')" using persist_plain by blast
  have env': "ce_include_documents env = False" "ce_project_fault env k = None" "ce_mark_fault env k = None" for k
    using env by (simp_all add: healthy_def)
  let ?s = "handle_attempt env m body now s"
  have "cs_graph ?s = db'" "cs_rows ?s = fst (markProjectionOutboxProcessed w i (ce_clock env (cs_calls s)) rows1)"
    unfolding handle_attempt_def Let_def body projection_message.simps b c env'
    by (simp_all add: p x(3) env')
  with p y x xi show ?thesis by (simp add: projected_def row_at_statements addressed_def)
qed

lemma persist_keeps_up_to_date:
  assumes p: "persistDataGraph num to_iso False ws now db = Inr (r, db')" and u: "up_to_date num to_iso False w db"
  shows "up_to_date num to_iso False w db'"
proof (cases "ws = w")
  case True
  with p u show ?thesis by (auto simp: persist_plain)
next
  case False
  then have "graph_view w db' = graph_view w db" by (intro persist_view [OF p]) simp
  from view_up_to_date [OF this] u show ?thesis by simp
qed

definition landed :: "consume_env \<Rightarrow> string \<Rightarrow> string \<Rightarrow> nat \<Rightarrow> consume_state \<Rightarrow> bool" where
  "landed env i w n s \<longleftrightarrow> projected i (n + 1) (cs_rows s) \<and> up_to_date (ce_num env) (ce_iso env) False w (cs_graph s)"

definition on_track :: "consume_env \<Rightarrow> string \<Rightarrow> string \<Rightarrow> nat \<Rightarrow> consume_state \<Rightarrow> bool" where
  "on_track env i w n s \<longleftrightarrow> outbox_ok (cs_rows s) \<and> timely env w (cs_graph s) \<and> (waiting i w n (cs_rows s) \<or> landed env i w n s)"

lemma landed_again:
  assumes env: "healthy env" and ok: "outbox_ok (cs_rows s)" and l: "landed env i w n s"
  shows "landed env i w n (handle_attempt env m body now s)"
proof (cases "pm_outbox_id body = i")
  case True
  from l obtain x where x: "row_at i (cs_rows s) = Some x" "po_processed_at x \<noteq> None" by (auto simp: landed_def projected_def)
  obtain rows1 claimed where b: "beginProjectionOutboxAttempt (pm_workspace_id body) i now (cs_rows s) = (rows1, claimed)" by (meson surj_pair)
  have "claimed = []" using attempt_claimed [OF ok, of "pm_workspace_id body" i now] x by (simp add: b addressed_def)
  moreover have "row_at i rows1 = row_at i (cs_rows s)"
    using row_at_statements(4) [of i "pm_workspace_id body" i now "cs_rows s"] x by (simp add: b addressed_def)
  ultimately show ?thesis using l True b by (simp add: handle_attempt_def landed_def projected_def)
next
  case False
  from attempt_graph [OF env, of m body now s] l
  have "up_to_date (ce_num env) (ce_iso env) False w (cs_graph (handle_attempt env m body now s))"
    by (auto simp: landed_def dest: persist_keeps_up_to_date)
  with l attempt_other [OF False] show ?thesis by (simp add: landed_def projected_def)
qed

lemma consume_on_track:
  assumes env: "healthy env" and inv: "on_track env i w n s"
    and body: "\<And>body. parseTenantProjectionMessage (qm_body m) = Some body \<Longrightarrow> pm_outbox_id body = i \<Longrightarrow>
      body = \<lparr>pm_outbox_id = i, pm_workspace_id = w, pm_event_type = PROJECTED_EVENT_TYPE\<rparr>"
  shows "on_track env i w n (consume_message env s m) \<and>
    (map_option pm_outbox_id (parseTenantProjectionMessage (qm_body m)) = Some i \<longrightarrow> landed env i w n (consume_message env s m))"
proof (cases "parseTenantProjectionMessage (qm_body m)")
  case None
  with inv show ?thesis by (simp add: consume_message_def on_track_def landed_def Let_def)
next
  case (Some b)
  define s1 where "s1 = s\<lparr>cs_calls := cs_calls s + 1\<rparr>"
  define now where "now = ce_clock env (cs_calls s)"
  have sel: "cs_rows s1 = cs_rows s" "cs_graph s1 = cs_graph s" by (simp_all add: s1_def)
  let ?s = "handle_attempt env m b now s1"
  have s: "consume_message env s m = ?s"
    using Some env by (simp add: consume_message_def healthy_def s1_def now_def Let_def)
  have ok: "outbox_ok (cs_rows s1)" and ok': "outbox_ok (cs_rows ?s)" and t: "timely env w (cs_graph s1)"
    using inv steps_ok [OF attempt_refines] by (auto simp: on_track_def sel)
  have t': "timely env w (cs_graph ?s)"
    using attempt_graph [OF env, of m b now s1] t persist_timely unfolding now_def by metis
  show ?thesis
  proof (cases "landed env i w n s")
    case True
    then have "landed env i w n s1" by (simp add: landed_def sel)
    from landed_again [OF env ok this] ok' t' show ?thesis by (simp add: s on_track_def)
  next
    case False
    with inv have wait: "waiting i w n (cs_rows s1)" by (simp add: on_track_def sel)
    show ?thesis
    proof (cases "pm_outbox_id b = i")
      case True
      from attempt_projects [OF env ok wait body [OF Some True], of m now] persist_timely [OF _ t]
      have "landed env i w n ?s" unfolding landed_def now_def by metis
      with ok' t' show ?thesis by (simp add: s on_track_def)
    next
      case False
      with wait attempt_other [OF False, of env m now s1] have "waiting i w n (cs_rows ?s)" by (simp add: waiting_def)
      with ok' t' False Some show ?thesis by (simp add: s on_track_def)
    qed
  qed
qed

lemma consume_fold_on_track:
  assumes env: "healthy env" and "on_track env i w n s"
    and "\<And>m body. m \<in> set ms \<Longrightarrow> parseTenantProjectionMessage (qm_body m) = Some body \<Longrightarrow> pm_outbox_id body = i \<Longrightarrow>
      body = \<lparr>pm_outbox_id = i, pm_workspace_id = w, pm_event_type = PROJECTED_EVENT_TYPE\<rparr>"
  shows "on_track env i w n (foldl (consume_message env) s ms) \<and>
    ((\<exists>m \<in> set ms. map_option pm_outbox_id (parseTenantProjectionMessage (qm_body m)) = Some i) \<or> landed env i w n s \<longrightarrow>
      landed env i w n (foldl (consume_message env) s ms))"
  using assms(2,3)
proof (induction ms arbitrary: s)
  case (Cons m ms)
  have one: "on_track env i w n (consume_message env s m) \<and>
    (map_option pm_outbox_id (parseTenantProjectionMessage (qm_body m)) = Some i \<longrightarrow> landed env i w n (consume_message env s m))"
    by (rule consume_on_track [OF env Cons.prems(1)]) (rule Cons.prems(2), simp_all)
  have keep: "landed env i w n (consume_message env s m)" if "landed env i w n s"
    using that landed_again [OF env, of "s\<lparr>cs_calls := cs_calls s + 1\<rparr>" i w n m] Cons.prems(1) env
    by (auto simp: consume_message_def healthy_def Let_def landed_def on_track_def split: option.splits)
  have "on_track env i w n (foldl (consume_message env) (consume_message env s m) ms) \<and>
    ((\<exists>m \<in> set ms. map_option pm_outbox_id (parseTenantProjectionMessage (qm_body m)) = Some i) \<or> landed env i w n (consume_message env s m) \<longrightarrow>
      landed env i w n (foldl (consume_message env) (consume_message env s m) ms))"
    by (rule Cons.IH) (use one in blast, rule Cons.prems(2), simp_all)
  with one keep show ?case by auto
qed auto

text \<open>What a dispatch run without faults does to a row whose message it sent.\<close>

lemma dispatch_marks:
  assumes dist: "distinct (map po_id rows)" and env: "de_enabled env" "de_queue_bound env" "de_send_fault env = None" "de_mark_fault env = None"
    and run: "dispatchTenantProjectionOutbox env (rows, []) = ((rows', queue'), res)"
    and r: "r \<in> set rows" and sent: "message_body r \<in> set queue'"
  shows "row_at (po_id r) rows' = Some (r\<lparr>po_status := PO_dispatched, po_claimed_at := None, po_last_error_code := None,
      po_dispatched_at := Some (de_now env)\<rparr>) \<and> po_processed_at r = None \<and> po_dead_lettered_at r = None \<and>
    queue' = map message_body (filter (\<lambda>x. message_body x \<in> set queue') rows)"
proof -
  define C where "C = candidates (the_default 50 (de_limit env)) (de_now env - 300000) (de_locked env) rows"
  define P where "P = (\<lambda>r. po_id r \<in> set C \<and> claimable (de_now env - 300000) (de_locked env) r)"
  define f where "f = (\<lambda>r :: projection_row. r\<lparr>po_status := PO_dispatching, po_claimed_at := Some (de_now env), po_last_error_code := None\<rparr>)"
  define g where "g = (\<lambda>r :: projection_row. r\<lparr>po_status := PO_dispatched, po_dispatched_at := Some (de_now env), po_claimed_at := None\<rparr>)"
  have claim: "claimProjectionOutboxRows (the_default 50 (de_limit env)) (de_now env) (de_now env - 300000) (de_locked env) rows =
      update_where P f rows"
    unfolding P_def f_def C_def by (rule claim_as_update [OF dist])
  have fg: "po_id (f x) = po_id x" "po_id (g x) = po_id x" "message_body (f x) = message_body x" for x
    by (simp_all add: f_def g_def message_body_def)
  have P_id: "P x \<longleftrightarrow> P y" if "x \<in> set rows" "y \<in> set rows" "po_id x = po_id y" for x y
    using that dist by (metis distinct_map inj_onD)
  have claimed: "map message_body (map f xs) = map message_body xs" "map po_id (map f xs) = map po_id xs" for xs
    by (simp_all add: fg)
  have out: "rows' = fst (markProjectionOutboxDispatched (map po_id (filter P rows)) (de_now env) (fst (update_where P f rows))) \<and>
      queue' = map message_body (filter P rows)"
  proof (cases "filter P rows = []")
    case True
    with run env show ?thesis
      unfolding dispatchTenantProjectionOutbox_def prod.case by (simp add: claim update_where_def markProjectionOutboxDispatched_def)
  next
    case False
    then have "map f (filter P rows) \<noteq> []" by simp
    with run env show ?thesis
      unfolding dispatchTenantProjectionOutbox_def prod.case
      by (simp add: claim update_where_def [of P] Let_def claimed del: map_map split: prod.splits)
  qed
  then have queue: "queue' = map message_body (filter P rows)" by simp
  have mem: "message_body x \<in> set queue' \<longleftrightarrow> P x" if "x \<in> set rows" for x
  proof
    assume "message_body x \<in> set queue'"
    then obtain y where y: "y \<in> set rows" "P y" "message_body y = message_body x" by (auto simp: queue)
    then have "po_id y = po_id x" by (simp add: message_body_def)
    from P_id [OF y(1) that this] y(2) show "P x" by simp
  qed (use that in \<open>simp add: queue\<close>)
  have Pr: "P r" using mem [OF r] sent by simp
  then have "filter P rows \<noteq> []" using r by (auto simp: filter_empty_conv)
  then have rows': "rows' = fst (update_where (\<lambda>r. po_id r \<in> set (map po_id (filter P rows)) \<and> po_status r = PO_dispatching) g (fst (update_where P f rows)))"
    using out by (simp add: markProjectionOutboxDispatched_def g_def)
  have "row_at (po_id r) rows' = Some (g (f r))"
    using row_at_member [OF dist r] Pr r unfolding rows'
    by (subst row_at_update, simp add: fg, subst row_at_update, simp add: fg) (auto simp: f_def)
  moreover have "filter (\<lambda>x. message_body x \<in> set queue') rows = filter P rows" using mem by (auto cong: filter_cong)
  ultimately show ?thesis using Pr queue by (simp add: f_def g_def P_def claimable_def)
qed

text \<open>
  C32. End to end: when a dispatch run sends a governed row's message and a healthy consumer handles the
  batch, in whatever order and together with whatever other rows were claimed, the row ends processed
  after exactly one more attempt and the workspace's graph is fresh. (Documents off; the consumer's clock
  is past the workspace's earlier snapshots.)
\<close>

theorem dispatched_row_is_projected:
  assumes "(rows, q, db) = foldl queue_exec ([], [], db0) before"
    and "de_enabled env" "de_queue_bound env" "de_send_fault env = None" "de_mark_fault env = None"
    and "dispatchTenantProjectionOutbox env (rows, []) = ((rows', queue'), res)"
    and "r \<in> set rows" "message_body r \<in> set queue'" "po_event_type r = ''governed_intake.executed''"
    and "is_identifier (po_id r)" "is_identifier (po_workspace_id r)"
    and "mset (map qm_body ms) = mset queue'" and "healthy cenv"
    and "\<forall>s \<in> set (gd_snapshots db). \<forall>k. sr_generated_at s < ce_clock cenv k"
    and "final = consumeTenantProjectionBatch cenv ms rows' db"
  shows "(\<exists>x \<in> set (cs_rows final). po_id x = po_id r \<and> po_status x = PO_processed \<and> po_attempt_count x = po_attempt_count r + 1) \<and>
    dg_drift (checkGraphDrift (ce_num cenv) (ce_iso cenv) False (po_workspace_id r) (cs_graph final)) = Drift_fresh"
proof -
  let ?i = "po_id r" and ?w = "po_workspace_id r" and ?n = "po_attempt_count r"
  have ok: "outbox_ok rows" using queue_run_ok [of "([], [], db0)" before] assms(1) by (metis fst_conv outbox_ok_Nil)
  then have dist: "distinct (map po_id rows)" by (simp add: outbox_ok_def)
  note marks = dispatch_marks [OF dist assms(2-8)]
  have "outbox_ok rows'" using steps_ok [OF dispatch_refines ok, of env "[]"] assms(6) by simp
  moreover have "waiting ?i ?w ?n rows'" using marks assms(9) by (simp add: waiting_def PROJECTED_EVENT_TYPE_def)
  ultimately have track: "on_track cenv ?i ?w ?n (consume_start rows' db)"
    using assms(14) by (auto simp: on_track_def consume_start_def timely_def)
  have set: "set (map qm_body ms) = set queue'" using assms(12) by (metis set_mset_mset)
  have from_rows: "\<exists>x \<in> set rows. qm_body m = message_body x" if "m \<in> set ms" for m
  proof -
    from that set have "qm_body m \<in> set queue'" by auto
    with marks show ?thesis by (metis (no_types, lifting) filter_is_subset imageE list.set_map subsetD)
  qed
  have target: "body = \<lparr>pm_outbox_id = ?i, pm_workspace_id = ?w, pm_event_type = PROJECTED_EVENT_TYPE\<rparr>"
    if m: "m \<in> set ms" "parseTenantProjectionMessage (qm_body m) = Some body" "pm_outbox_id body = ?i" for m body
  proof -
    from from_rows [OF m(1)] obtain x where x: "x \<in> set rows" "qm_body m = message_body x" by blast
    with m(2,3) have "po_id x = ?i" by (auto simp: parse_message_body split: if_splits)
    with x(1) assms(7) dist have "x = r" by (metis distinct_map inj_onD)
    with x(2) m(2) show ?thesis by (auto simp: parse_message_body split: if_splits)
  qed
  from assms(8) set obtain m where m: "m \<in> set ms" "qm_body m = message_body r" by (metis imageE list.set_map)
  have hit: "map_option pm_outbox_id (parseTenantProjectionMessage (qm_body m)) = Some ?i"
    using assms(9-11) by (simp add: m(2) parse_message_body PROJECTED_EVENT_TYPE_def)
  have "on_track cenv ?i ?w ?n final \<and> ((\<exists>m \<in> set ms. map_option pm_outbox_id (parseTenantProjectionMessage (qm_body m)) = Some ?i) \<or>
      landed cenv ?i ?w ?n (consume_start rows' db) \<longrightarrow> landed cenv ?i ?w ?n final)"
    unfolding assms(15) consumeTenantProjectionBatch_def
    by (rule consume_fold_on_track [OF assms(13) track]) (rule target)
  with hit m(1) have "landed cenv ?i ?w ?n final" by blast
  then show ?thesis
    by (auto simp: landed_def projected_def checkGraphDrift_def up_to_date_def Let_def dest!: row_at_SomeD)
qed

definition demo_consume_env :: consume_env where
  "demo_consume_env = demo_dlq_env\<lparr>ce_queue := ''xlooop-tenant-projection''\<rparr>"

lemma demo_enqueued: "foldl queue_exec ([], [], demo_graph_db) [Enqueue demo_row] = ([demo_row], [], demo_graph_db)"
  by (simp add: queue_exec_def demo_row_def new_row_def)

lemma demo_dispatched:
  "dispatchTenantProjectionOutbox demo_dispatch_env ([demo_row], []) =
     (([demo_row\<lparr>po_status := PO_dispatched, po_dispatched_at := Some 5\<rparr>], [message_body demo_row]),
      \<lparr>dp_status = Dispatch_completed, dp_claimed = 1, dp_dispatched = 1, dp_error_code = None\<rparr>)"
  by code_simp

theorem dispatched_row_is_projected_witness:
  "\<exists>final. final = consumeTenantProjectionBatch demo_consume_env [\<lparr>qm_body = message_body demo_row, qm_attempts = 1\<rparr>]
       [demo_row\<lparr>po_status := PO_dispatched, po_dispatched_at := Some 5\<rparr>] demo_graph_db \<and>
     (\<exists>x \<in> set (cs_rows final). po_id x = ''o1'' \<and> po_status x = PO_processed \<and> po_attempt_count x = 1) \<and>
     dg_drift (checkGraphDrift (\<lambda>_. []) (\<lambda>_. []) False ''w'' (cs_graph final)) = Drift_fresh"
proof -
  have ids: "is_identifier (po_id demo_row)" "is_identifier (po_workspace_id demo_row)"
    by (simp_all add: demo_row_def is_identifier_def identifier_char_def is_word_char_def)
  have env: "de_enabled demo_dispatch_env" "de_queue_bound demo_dispatch_env" "de_send_fault demo_dispatch_env = None"
    "de_mark_fault demo_dispatch_env = None" "healthy demo_consume_env"
    by (simp_all add: demo_dispatch_env_def healthy_def demo_consume_env_def demo_dlq_env_def TENANT_PROJECTION_DLQ_NAME_def)
  have "\<forall>s \<in> set (gd_snapshots demo_graph_db). \<forall>k. sr_generated_at s < ce_clock demo_consume_env k"
    by (simp add: demo_graph_db_def)
  from dispatched_row_is_projected [OF demo_enqueued [symmetric] env(1-4) demo_dispatched _ _ _ ids _ env(5) this refl,
      of "[\<lparr>qm_body = message_body demo_row, qm_attempts = 1\<rparr>]"]
  show ?thesis by (simp add: demo_row_def demo_consume_env_def demo_dlq_env_def)
qed

section \<open>Retries\<close>

text \<open>The backoff doubles from 30 seconds and ends at 1920: the cap of an hour is never reached.\<close>

lemma retry_delay_bounds: "30 \<le> retry_delay n \<and> retry_delay n \<le> 1920"
proof -
  have e: "nat (max 0 (min (n - 1) 6)) \<le> 6" by simp
  have "(1 :: int) \<le> 2 ^ nat (max 0 (min (n - 1) 6))" by simp
  moreover have "(2 :: int) ^ nat (max 0 (min (n - 1) 6)) \<le> 2 ^ 6" using e by (rule power_increasing) simp
  ultimately show ?thesis by (simp add: retry_delay_def)
qed

end
