(* ===== verification/Histories.thy ===== *)
theory Histories
  imports Prelude
begin

text \<open>
  Histories of guarded commands. A component executes commands one after the other; a command is admitted in a state (its
  arguments were read from the component, its clock is fresh). \<open>reach_by\<close> is reachability under admitted commands, and the locale
  says once that what every admitted command keeps holds in every reachable state.
\<close>

inductive reach_by :: "('c \<Rightarrow> 's \<Rightarrow> 's) \<Rightarrow> ('c \<Rightarrow> 's \<Rightarrow> bool) \<Rightarrow> 's \<Rightarrow> 's \<Rightarrow> bool"
  for execute :: "'c \<Rightarrow> 's \<Rightarrow> 's" and admit :: "'c \<Rightarrow> 's \<Rightarrow> bool" and s0 :: 's where
  start: "reach_by execute admit s0 s0"
| step: "reach_by execute admit s0 s \<Longrightarrow> admit c s \<Longrightarrow> reach_by execute admit s0 (execute c s)"

lemma reach_by_one: "admit c s \<Longrightarrow> reach_by execute admit s (execute c s)"
  by (rule reach_by.step [OF reach_by.start])

lemma reach_by_trans: "reach_by execute admit s1 s2 \<Longrightarrow> reach_by execute admit s0 s1 \<Longrightarrow> reach_by execute admit s0 s2"
  by (induction rule: reach_by.induct) (auto intro: reach_by.intros)

locale guarded_history =
  fixes execute :: "'c \<Rightarrow> 's \<Rightarrow> 's" and admit :: "'c \<Rightarrow> 's \<Rightarrow> bool" and keeps :: "'s \<Rightarrow> bool"
  assumes step_keeps: "keeps s \<Longrightarrow> admit c s \<Longrightarrow> keeps (execute c s)"
begin

lemma history_keeps: "reach_by execute admit s0 s \<Longrightarrow> keeps s0 \<Longrightarrow> keeps s"
  by (induction rule: reach_by.induct) (auto intro: step_keeps)

end

end
