(* ===== verification/Plan_Commands.thy ===== *)
theory Plan_Commands
  imports Members "HOL-Library.Char_ord" "HOL-Library.List_Lexorder"
begin

text \<open>
  The customer plan: its reads (\<^verbatim>\<open>dal/plan-store.ts\<close>), the authority transaction of a plan command
  (\<^verbatim>\<open>dal/plan-command-store.ts\<close>) and the three commands (\<^verbatim>\<open>dal/plan-command-operations.ts\<close>), over the table of
  migrations 066 and 097.

  A command is one database transaction of ten or so statements; the model runs them in order and undoes everything but a
  drawn audit number when one fails. A unique index is checked row by row, as the database does, in a physical order \<open>ord\<close> the
  program does not control. Advisory locks order transactions and change no table. The timestamp of a command is a number of
  milliseconds, \<open>pn_iso\<close> renders it; \<open>pn_date\<close> is the database's reading of a date.
\<close>

section \<open>Tables\<close>

record plan_row =
  pe_id :: string
  pe_workspace_id :: string
  pe_scope_id :: "string option"
  pe_scope_type :: "string option"
  pe_parent_id :: "string option"
  pe_kind :: string
  pe_title :: string
  pe_summary :: "string option"
  pe_status :: string
  pe_position :: int
  pe_target_date :: "string option"
  pe_derived_from :: "string option"
  pe_promoted_to_intent_id :: "string option"
  pe_created_by :: string
  pe_updated_by :: string
  pe_created_at :: int
  pe_updated_at :: int
  pe_deleted_at :: "int option"

datatype plan_operation = Plan_create | Plan_update | Plan_delete

fun plan_op_str :: "plan_operation \<Rightarrow> string" where
  "plan_op_str Plan_create = ''create''"
| "plan_op_str Plan_update = ''update''"
| "plan_op_str Plan_delete = ''delete''"

record plan_receipt =
  pc_entity :: "plan_row option"
  pc_deleted :: "(string \<times> string) option"
  pc_plan_entity_id :: string
  pc_plan_revision_id :: string
  pc_operation :: plan_operation
  pc_receipt_id :: string
  pc_operation_event_id :: string
  pc_audit_event_id :: string
  pc_projection_outbox_id :: string
  pc_read_model_watermark :: string
  pc_replayed :: bool

record plan_event = member_event +
  pv_project_id :: "string option"

record plan_key =
  pk_workspace_id :: string
  pk_actor_user_id :: string
  pk_route :: string
  pk_key :: string
  pk_request_sha256 :: string
  pk_status :: "int option"
  pk_body :: "plan_receipt option"
  pk_completed_at :: "int option"

record plan_db =
  pd_rows :: "plan_row list"
  pd_keys :: "plan_key list"
  pd_events :: "plan_event list"
  pd_audit :: "audit_row list"
  pd_audit_seq :: nat
  pd_outbox :: "outbox_row list"

datatype plan_error = P_dal dal_error | P_db string

abbreviation plan_fail :: "string \<Rightarrow> string \<Rightarrow> int \<Rightarrow> plan_error" where
  "plan_fail code msg st \<equiv> P_dal (makeError code msg st)"

definition live_row :: "plan_row \<Rightarrow> bool" where
  "live_row r \<longleftrightarrow> pe_deleted_at r = None"

section \<open>Reads\<close>

definition listPlanEntitiesRow :: "string option \<Rightarrow> string \<Rightarrow> plan_row list \<Rightarrow> plan_error + plan_row list" where
  "listPlanEntitiesRow scopeId ws rows =
     (if ws = [] then Inl (plan_fail ''UNAUTHORIZED'' ''workspace scope required'' 401)
      else Inr (take 500 (sort_key pe_position (sort_key pe_created_at
        (filter (\<lambda>r. pe_workspace_id r = ws \<and> pe_scope_id r = scopeId \<and> live_row r) rows)))))"

definition getPlanEntityRow :: "string \<Rightarrow> string \<Rightarrow> plan_row list \<Rightarrow> plan_row option" where
  "getPlanEntityRow i ws rows =
     (if i = [] \<or> ws = [] then None else find (\<lambda>r. pe_id r = i \<and> pe_workspace_id r = ws \<and> live_row r) rows)"

section \<open>The authority transaction\<close>

record plan_env =
  pn_entity :: string
  pn_event :: string
  pn_outbox :: string
  pn_now :: int
  pn_iso :: "int \<Rightarrow> string"
  pn_ord :: "(string \<times> int) list \<Rightarrow> (string \<times> int) list"
  pn_date :: "string \<Rightarrow> string option"

record command_target =
  tg_id :: string
  tg_workspace_id :: string
  tg_scope_id :: "string option"
  tg_scope_type :: "string option"
  tg_parent_id :: "string option"
  tg_position :: int
  tg_updated_at :: int

type_synonym plan_statement = "plan_row list \<Rightarrow> plan_error + plan_row list"

text \<open>\<open>ps_mutation\<close> is told whether the command's claim is pending; the re-pack statements may be absent.\<close>

record plan_spec =
  ps_operation :: plan_operation
  ps_entity_id :: string
  ps_workspace_id :: string
  ps_actor_user_id :: string
  ps_idempotency :: idempotency_input
  ps_timestamp :: int
  ps_iso :: string
  ps_event_id :: string
  ps_outbox_id :: string
  ps_mutation :: "bool \<Rightarrow> plan_statement"
  ps_repack :: "plan_statement list"

definition validatePlanIdempotency :: "idempotency_input \<Rightarrow> string \<Rightarrow> plan_error + unit" where
  "validatePlanIdempotency i route =
     (if js_trim (ii_key i) = [] \<or> 200 < length (js_trim (ii_key i))
      then Inl (plan_fail ''IDEMPOTENCY_KEY_REQUIRED'' ''Idempotency-Key is required (1-200 chars)'' 428)
      else if \<not> (length (ii_request_sha256 i) = 64 \<and> list_all is_lower_hex (ii_request_sha256 i))
      then Inl (plan_fail ''VALIDATION_ERROR'' ''request_sha256 must be a lower-case SHA-256 value'' 400)
      else ensure (ii_route i = route) (plan_fail ''VALIDATION_ERROR'' ''strict plan route identity is invalid'' 400))"

definition receiptFromBody :: "plan_receipt \<Rightarrow> bool \<Rightarrow> plan_error + plan_receipt" where
  "receiptFromBody b replayed =
     (if pc_plan_entity_id b = [] \<or> pc_plan_revision_id b = [] \<or> pc_receipt_id b = [] \<or> pc_operation_event_id b = [] \<or>
         pc_audit_event_id b = [] \<or> pc_projection_outbox_id b = [] \<or> pc_read_model_watermark b = []
      then Inl (plan_fail ''PLAN_ATOMICITY_FAILED'' ''strict plan replay body is incomplete'' 500)
      else Inr (b\<lparr>pc_replayed := replayed\<rparr>))"

fun planRouteIdentity :: "plan_operation \<Rightarrow> string \<Rightarrow> string" where
  "planRouteIdentity Plan_create i = ''POST /api/v1/plan/entity''"
| "planRouteIdentity Plan_update i = ''PATCH /api/v1/plan/entity/'' @ i"
| "planRouteIdentity Plan_delete i = ''DELETE /api/v1/plan/entity/'' @ i"

fun eventSummary :: "plan_operation \<Rightarrow> string" where
  "eventSummary Plan_create = ''Plan entity created''"
| "eventSummary Plan_update = ''Plan entity updated''"
| "eventSummary Plan_delete = ''Plan entity deleted''"

definition plan_slot :: "plan_spec \<Rightarrow> plan_key \<Rightarrow> bool" where
  "plan_slot s k \<longleftrightarrow> pk_workspace_id k = ps_workspace_id s \<and> pk_actor_user_id k = ps_actor_user_id s \<and>
     pk_route k = ii_route (ps_idempotency s) \<and> pk_key k = ii_key (ps_idempotency s)"

definition plan_claim_of :: "plan_spec \<Rightarrow> plan_key \<Rightarrow> bool" where
  "plan_claim_of s k \<longleftrightarrow> plan_slot s k \<and> pk_request_sha256 k = ii_request_sha256 (ps_idempotency s)"

definition plan_pending :: "plan_spec \<Rightarrow> plan_key \<Rightarrow> bool" where
  "plan_pending s k \<longleftrightarrow> plan_claim_of s k \<and> pk_status k = None"

definition claim_statement :: "plan_spec \<Rightarrow> plan_db \<Rightarrow> plan_db" where
  "claim_statement s db =
     (if list_ex (plan_slot s) (pd_keys db) then db
      else db\<lparr>pd_keys := pd_keys db @ [\<lparr>pk_workspace_id = ps_workspace_id s, pk_actor_user_id = ps_actor_user_id s,
             pk_route = ii_route (ps_idempotency s), pk_key = ii_key (ps_idempotency s),
             pk_request_sha256 = ii_request_sha256 (ps_idempotency s), pk_status = None, pk_body = None, pk_completed_at = None\<rparr>]\<rparr>)"

definition touched :: "plan_spec \<Rightarrow> plan_row \<Rightarrow> bool" where
  "touched s r \<longleftrightarrow> pe_id r = ps_entity_id s \<and> pe_workspace_id r = ps_workspace_id s \<and> pe_updated_at r = ps_timestamp s"

definition project_scope :: "plan_row \<Rightarrow> string option" where
  "project_scope r = (if pe_scope_type r = Some ''project'' then pe_scope_id r else None)"

definition event_statement :: "plan_spec \<Rightarrow> plan_db \<Rightarrow> plan_db" where
  "event_statement s db =
     (case find (\<lambda>r. touched s r \<and> (if ps_operation s = Plan_delete then pe_deleted_at r = Some (ps_timestamp s) else pe_deleted_at r = None))
             (pd_rows db) of
        None \<Rightarrow> db
      | Some r \<Rightarrow>
          if \<not> list_ex (plan_pending s) (pd_keys db) \<or> list_ex (\<lambda>e. me_id e = ps_event_id s) (pd_events db) then db
          else db\<lparr>pd_events := pd_events db @
            [\<lparr>me_id = ps_event_id s, me_workspace_id = pe_workspace_id r, me_source_tool = ''xlooop'', me_agent_id = ps_actor_user_id s,
              me_status = ''completed'', me_summary = eventSummary (ps_operation s),
              me_body = ''Plan '' @ plan_op_str (ps_operation s) @ '' persisted with strict replay and canonical readback.'',
              me_visibility = ''internal_workspace'', me_occurred_at = ps_timestamp s, me_authorized_by_user_id = ps_actor_user_id s,
              me_instrument_kind = ''human'', me_authority_source = ''role'', me_request_id = ii_request_id (ps_idempotency s),
              pv_project_id = project_scope r\<rparr>]\<rparr>)"

definition plan_action :: "plan_spec \<Rightarrow> string" where
  "plan_action s = ''plan_entity_'' @ plan_op_str (ps_operation s)"

definition audit_statement :: "plan_spec \<Rightarrow> plan_db \<Rightarrow> plan_db" where
  "audit_statement s db =
     (case find (touched s) (pd_rows db) of
        None \<Rightarrow> db
      | Some r \<Rightarrow>
          if \<not> list_ex (\<lambda>e. me_id e = ps_event_id s) (pd_events db) then db
          else db\<lparr>pd_audit := pd_audit db @
              [\<lparr>al_id = pd_audit_seq db, al_actor_user_id = ps_actor_user_id s, al_action = plan_action s,
                al_target_type = (if project_scope r \<noteq> None then ''project'' else ''workspace''),
                al_target_id = the_default (pe_workspace_id r) (project_scope r), al_workspace_id = pe_workspace_id r,
                al_reason = ''customer plan '' @ plan_op_str (ps_operation s), al_causation_id = Some (ps_event_id s),
                al_metadata = JObj [(''plan_entity_id'', JStr (pe_id r)), (''request_id'', opt_str (ii_request_id (ps_idempotency s))),
                  (''request_sha256'', JStr (ii_request_sha256 (ps_idempotency s))), (''operation'', JStr (plan_op_str (ps_operation s)))]\<rparr>],
            pd_audit_seq := Suc (pd_audit_seq db)\<rparr>)"

definition caused_audits :: "plan_spec \<Rightarrow> plan_row \<Rightarrow> plan_db \<Rightarrow> audit_row list" where
  "caused_audits s r db = filter (\<lambda>a. al_causation_id a = Some (ps_event_id s) \<and> al_workspace_id a = pe_workspace_id r \<and>
     al_action a = plan_action s) (pd_audit db)"

text \<open>The join with the audit rows yields one outbox row each; a second one, or a known identifier, violates the primary key.\<close>

definition outbox_statement :: "plan_spec \<Rightarrow> plan_db \<Rightarrow> plan_error + plan_db" where
  "outbox_statement s db =
     (case find (touched s) (pd_rows db) of
        None \<Rightarrow> Inr db
      | Some r \<Rightarrow>
          if \<not> list_ex (\<lambda>e. me_id e = ps_event_id s) (pd_events db) then Inr db
          else case caused_audits s r db of
            [] \<Rightarrow> Inr db
          | [a] \<Rightarrow>
              if list_ex (\<lambda>q. ob_id q = ps_outbox_id s) (pd_outbox db) then Inl (P_db ''projection_outbox_pkey'')
              else Inr (db\<lparr>pd_outbox := pd_outbox db @
                [\<lparr>ob_id = ps_outbox_id s, ob_workspace_id = pe_workspace_id r, ob_event_type = ''plan.entity_'' @ plan_op_str (ps_operation s) @ ''d'',
                  ob_aggregate_type = ''plan_entity'', ob_aggregate_id = pe_id r,
                  ob_payload = JObj [(''plan_entity_id'', JStr (pe_id r)), (''scope_id'', opt_str (pe_scope_id r)),
                    (''operation_event_id'', JStr (ps_event_id s)), (''audit_event_id'', JStr (show_nat (al_id a))),
                    (''request_sha256'', JStr (ii_request_sha256 (ps_idempotency s)))],
                  ob_created_at = ps_timestamp s\<rparr>]\<rparr>)
          | _ \<Rightarrow> Inl (P_db ''projection_outbox_pkey''))"

definition command_receipt :: "plan_spec \<Rightarrow> plan_row \<Rightarrow> audit_row \<Rightarrow> plan_receipt" where
  "command_receipt s r a =
     (let op = plan_op_str (ps_operation s) in
      \<lparr>pc_entity = (if ps_operation s = Plan_delete then None else Some r),
       pc_deleted = (if ps_operation s = Plan_delete then Some (pe_id r, ps_iso s) else None),
       pc_plan_entity_id = pe_id r, pc_plan_revision_id = ''plan:'' @ op @ '':'' @ pe_id r @ '':'' @ ps_iso s, pc_operation = ps_operation s,
       pc_receipt_id = ''plan:'' @ op @ '':'' @ pe_id r @ '':'' @ ps_event_id s, pc_operation_event_id = ps_event_id s,
       pc_audit_event_id = show_nat (al_id a), pc_projection_outbox_id = ps_outbox_id s, pc_read_model_watermark = ps_iso s,
       pc_replayed = False\<rparr>)"

definition completion_of :: "plan_spec \<Rightarrow> plan_db \<Rightarrow> plan_receipt option" where
  "completion_of s db =
     (case find (touched s) (pd_rows db) of
        None \<Rightarrow> None
      | Some r \<Rightarrow>
          if \<not> list_ex (\<lambda>e. me_id e = ps_event_id s) (pd_events db) \<or> \<not> list_ex (\<lambda>q. ob_id q = ps_outbox_id s) (pd_outbox db) then None
          else case caused_audits s r db of [] \<Rightarrow> None | a # _ \<Rightarrow> Some (command_receipt s r a))"

text \<open>Returns whether a row was completed.\<close>

definition complete_statement :: "plan_spec \<Rightarrow> plan_db \<Rightarrow> plan_db \<times> bool" where
  "complete_statement s db =
     (case completion_of s db of
        None \<Rightarrow> (db, False)
      | Some rc \<Rightarrow>
          (db\<lparr>pd_keys := map (\<lambda>k. if plan_pending s k
                 then k\<lparr>pk_status := Some (if ps_operation s = Plan_create then 201 else 200), pk_body := Some rc,
                        pk_completed_at := Some (ps_timestamp s)\<rparr> else k) (pd_keys db)\<rparr>,
           list_ex (plan_pending s) (pd_keys db)))"

definition authority_complete :: "plan_db \<Rightarrow> plan_key \<Rightarrow> bool" where
  "authority_complete db k \<longleftrightarrow> pk_status k \<noteq> None \<and>
     (case pk_body k of None \<Rightarrow> False | Some b \<Rightarrow>
        list_ex (\<lambda>e. me_id e = pc_operation_event_id b \<and> me_workspace_id e = pk_workspace_id k) (pd_events db) \<and>
        list_ex (\<lambda>a. show_nat (al_id a) = pc_audit_event_id b \<and> al_workspace_id a = pk_workspace_id k) (pd_audit db) \<and>
        list_ex (\<lambda>q. ob_id q = pc_projection_outbox_id b \<and> ob_workspace_id q = pk_workspace_id k) (pd_outbox db))"

definition rolled_back :: "plan_db \<Rightarrow> plan_db \<Rightarrow> plan_db" where
  "rolled_back db s = db\<lparr>pd_audit_seq := pd_audit_seq s\<rparr>"

fun run_statements :: "plan_statement list \<Rightarrow> plan_row list \<Rightarrow> plan_error + plan_row list" where
  "run_statements [] rows = Inr rows"
| "run_statements (q # qs) rows = (case q rows of Inl e \<Rightarrow> Inl e | Inr rows' \<Rightarrow> run_statements qs rows')"

text \<open>The left summand of the result is a failed transaction: a database error, or the authority assertion (\<open>None\<close>).\<close>

definition plan_transaction :: "plan_spec \<Rightarrow> plan_db \<Rightarrow> plan_db \<times> (plan_error option + bool)" where
  "plan_transaction s db =
     (let db1 = claim_statement s db; pending = list_ex (plan_pending s) (pd_keys db1) in
      case run_statements (ps_mutation s pending # ps_repack s) (pd_rows db1) of
        Inl e \<Rightarrow> (db, Inl (Some e))
      | Inr rows \<Rightarrow>
          (let db2 = audit_statement s (event_statement s (db1\<lparr>pd_rows := rows\<rparr>)) in
           case outbox_statement s db2 of
             Inl e \<Rightarrow> (rolled_back db db2, Inl (Some e))
           | Inr db3 \<Rightarrow>
               (let (db4, completed) = complete_statement s db3 in
                if list_all (authority_complete db4) (filter (plan_claim_of s) (pd_keys db4)) then (db4, Inr completed)
                else (rolled_back db db4, Inl None))))"

definition plan_conflict :: plan_error where
  "plan_conflict = plan_fail ''CONFLICT'' ''plan target changed or hierarchy is invalid; refresh and retry'' 409"

definition executePlanEntityCommand :: "plan_spec \<Rightarrow> plan_db \<Rightarrow> plan_db \<times> (plan_error + plan_receipt)" where
  "executePlanEntityCommand s db =
     (case plan_transaction s db of
        (db', Inl None) \<Rightarrow> (db', Inl plan_conflict)
      | (db', Inl (Some e)) \<Rightarrow> (db', Inl e)
      | (db', Inr completed) \<Rightarrow>
          (case find (plan_slot s) (pd_keys db') of
             Some k \<Rightarrow>
               if pk_request_sha256 k \<noteq> [] \<and> pk_request_sha256 k \<noteq> ii_request_sha256 (ps_idempotency s)
               then (db', Inl (plan_fail ''IDEMPOTENCY_KEY_REUSED'' ''Idempotency-Key was already used with a different request'' 409))
               else (case (pk_status k, pk_body k) of
                   (Some st, Some b) \<Rightarrow> (db', receiptFromBody b (\<not> completed))
                 | _ \<Rightarrow> (db'\<lparr>pd_keys := filter (\<lambda>k. \<not> plan_pending s k) (pd_keys db')\<rparr>,
                     Inl (plan_fail ''PLAN_ATOMICITY_FAILED'' (''plan '' @ plan_op_str (ps_operation s) @ '' produced no complete authority result'') 409)))
           | None \<Rightarrow> (db'\<lparr>pd_keys := filter (\<lambda>k. \<not> plan_pending s k) (pd_keys db')\<rparr>,
               Inl (plan_fail ''PLAN_ATOMICITY_FAILED'' (''plan '' @ plan_op_str (ps_operation s) @ '' produced no complete authority result'') 409))))"

section \<open>Positions\<close>

definition REPACK_OFFSET :: int where
  "REPACK_OFFSET = 1000000"

text \<open>The partial unique index on (parent_id, position) of live rows, checked for the row just written; a missing parent is exempt.\<close>

definition index_ok :: "string \<Rightarrow> plan_row list \<Rightarrow> bool" where
  "index_ok i rows =
     (case find (\<lambda>r. pe_id r = i) rows of
        None \<Rightarrow> True
      | Some r \<Rightarrow> pe_parent_id r = None \<or> \<not> live_row r \<or>
          \<not> list_ex (\<lambda>q. pe_id q \<noteq> i \<and> live_row q \<and> pe_parent_id q = pe_parent_id r \<and> pe_position q = pe_position r) rows)"

definition set_position :: "string \<Rightarrow> int \<Rightarrow> plan_row list \<Rightarrow> plan_row list" where
  "set_position i p rows = map (\<lambda>r. if pe_id r = i then r\<lparr>pe_position := p\<rparr> else r) rows"

fun apply_positions :: "(string \<times> int) list \<Rightarrow> plan_statement" where
  "apply_positions [] rows = Inr rows"
| "apply_positions ((i, p) # as) rows =
     (if index_ok i (set_position i p rows) then apply_positions as (set_position i p rows)
      else Inl (P_db ''plan_entities_parent_position_idx''))"

definition siblings :: "string \<Rightarrow> string option \<Rightarrow> string option \<Rightarrow> plan_row list \<Rightarrow> plan_row list" where
  "siblings ws scope parent rows = filter (\<lambda>r. pe_workspace_id r = ws \<and> pe_scope_id r = scope \<and> pe_parent_id r = parent \<and> live_row r) rows"

text \<open>\<^verbatim>\<open>ORDER BY wanted position, target first, updated_at, id\<close>: the last key is sorted first, the sort being stable.\<close>

definition ranked :: "(plan_row \<Rightarrow> int) \<Rightarrow> string \<Rightarrow> plan_row list \<Rightarrow> plan_row list" where
  "ranked wanted target g =
     sort_key wanted (sort_key (\<lambda>r. if pe_id r = target then (0::int) else 1) (sort_key pe_updated_at (sort_key pe_id g)))"

definition shifted_positions :: "(plan_row \<Rightarrow> int) \<Rightarrow> string \<Rightarrow> plan_row list \<Rightarrow> (string \<times> int) list" where
  "shifted_positions wanted target g =
     zip (map pe_id (ranked wanted target g)) (map (\<lambda>n. int n + REPACK_OFFSET) [0..<length g])"

definition finished_positions :: "plan_row list \<Rightarrow> (string \<times> int) list" where
  "finished_positions g = map (\<lambda>r. (pe_id r, pe_position r - REPACK_OFFSET)) (filter (\<lambda>r. REPACK_OFFSET \<le> pe_position r) g)"

text \<open>\<open>hit\<close> recognises the command's own row after its mutation; without it the statements match nothing.\<close>

definition repackQueries ::
  "((string \<times> int) list \<Rightarrow> (string \<times> int) list) \<Rightarrow> (plan_row \<Rightarrow> bool) \<Rightarrow> (plan_row \<Rightarrow> int) \<Rightarrow> command_target \<Rightarrow> string option list
     \<Rightarrow> plan_statement list" where
  "repackQueries ord hit wanted t parents =
     [\<lambda>rows. if list_ex hit rows
        then apply_positions (ord (concat (map (\<lambda>p. shifted_positions wanted (tg_id t) (siblings (tg_workspace_id t) (tg_scope_id t) p rows)) parents))) rows
        else Inr rows,
      \<lambda>rows. if list_ex hit rows
        then apply_positions (ord (concat (map (\<lambda>p. finished_positions (siblings (tg_workspace_id t) (tg_scope_id t) p rows)) parents))) rows
        else Inr rows]"

section \<open>The commands\<close>

record plan_create_input =
  pi_workspace_id :: string
  pi_scope_id :: "string option"
  pi_scope_type :: "string option"
  pi_parent_id :: "string option"
  pi_kind :: string
  pi_title :: string
  pi_summary :: "string option"
  pi_target_date :: "string option"

text \<open>\<open>pp_parent_id\<close> is \<open>None\<close> when the patch does not mention the parent.\<close>

record plan_patch =
  pp_title :: "string option"
  pp_status :: "string option"
  pp_position :: "int option"
  pp_parent_id :: "string option option"

definition PLAN_KINDS :: "string list" where
  "PLAN_KINDS = [''goal'', ''milestone'', ''todo'', ''intent'', ''objective'', ''initiative'', ''work_item'', ''risk'', ''proposal'', ''roadmap'']"

definition PLAN_SCOPES :: "string list" where
  "PLAN_SCOPES = [''workspace'', ''domain'', ''project'', ''lens'']"

definition int4 :: "int \<Rightarrow> bool" where
  "int4 n \<longleftrightarrow> - (2 ^ 31) \<le> n \<and> n < 2 ^ 31"

definition next_position :: "plan_row list \<Rightarrow> int" where
  "next_position g = (if g = [] then 0 else Max (set (map pe_position g)) + 1)"

definition parent_in_scope :: "string \<Rightarrow> string option \<Rightarrow> string \<Rightarrow> plan_row \<Rightarrow> bool" where
  "parent_in_scope ws scope i r \<longleftrightarrow> pe_id r = i \<and> pe_workspace_id r = ws \<and> pe_scope_id r = scope \<and> live_row r"

definition created_row :: "plan_env \<Rightarrow> plan_create_input \<Rightarrow> string \<Rightarrow> plan_row list \<Rightarrow> plan_row" where
  "created_row env i actor rows =
     \<lparr>pe_id = ''ple_'' @ pn_entity env, pe_workspace_id = pi_workspace_id i, pe_scope_id = pi_scope_id i, pe_scope_type = pi_scope_type i,
      pe_parent_id = pi_parent_id i, pe_kind = pi_kind i, pe_title = pi_title i, pe_summary = pi_summary i, pe_status = ''open'',
      pe_position = next_position (siblings (pi_workspace_id i) (pi_scope_id i) (pi_parent_id i) rows),
      pe_target_date = Option.bind (pi_target_date i) (pn_date env), pe_derived_from = None, pe_promoted_to_intent_id = None, pe_created_by = actor, pe_updated_by = actor, pe_created_at = pn_now env,
      pe_updated_at = pn_now env, pe_deleted_at = None\<rparr>"

text \<open>The parameter is converted to a date when the statement is bound, before any row is looked at.\<close>

definition date_ok :: "plan_env \<Rightarrow> plan_create_input \<Rightarrow> bool" where
  "date_ok env i = (case pi_target_date i of None \<Rightarrow> True | Some v \<Rightarrow> pn_date env v \<noteq> None)"

definition parent_missing :: "plan_create_input \<Rightarrow> plan_row list \<Rightarrow> bool" where
  "parent_missing i rows =
     (case pi_parent_id i of None \<Rightarrow> False
      | Some p \<Rightarrow> \<not> list_ex (parent_in_scope (pi_workspace_id i) (pi_scope_id i) p) rows)"

definition create_statement :: "plan_env \<Rightarrow> plan_create_input \<Rightarrow> string \<Rightarrow> bool \<Rightarrow> plan_statement" where
  "create_statement env i actor pending rows =
     (let row = created_row env i actor rows
      in if \<not> date_ok env i then Inl (P_db ''invalid input syntax for type date'')
         else if \<not> pending \<or> parent_missing i rows then Inr rows
         else if \<not> int4 (pe_position row) then Inl (P_db ''integer out of range'')
         else if pi_kind i \<notin> set PLAN_KINDS then Inl (P_db ''plan_entities_kind_vocab_097'')
         else if (case pi_scope_type i of None \<Rightarrow> False | Some v \<Rightarrow> v \<notin> set PLAN_SCOPES) then Inl (P_db ''plan_entities_scope_type_vocab_097'')
         else if list_ex (\<lambda>r. pe_id r = pe_id row) rows then Inl (P_db ''plan_entities_pkey'')
         else if \<not> index_ok (pe_id row) (rows @ [row]) then Inl (P_db ''plan_entities_parent_position_idx'')
         else Inr (rows @ [row]))"

definition create_spec :: "plan_env \<Rightarrow> plan_create_input \<Rightarrow> string \<Rightarrow> idempotency_input \<Rightarrow> plan_spec" where
  "create_spec env i actor idem =
     \<lparr>ps_operation = Plan_create, ps_entity_id = ''ple_'' @ pn_entity env, ps_workspace_id = pi_workspace_id i, ps_actor_user_id = actor,
      ps_idempotency = idem, ps_timestamp = pn_now env, ps_iso = pn_iso env (pn_now env), ps_event_id = ''evt_'' @ pn_event env,
      ps_outbox_id = ''out_'' @ pn_outbox env, ps_mutation = create_statement env i actor, ps_repack = []\<rparr>"

definition createPlanEntityWithAuthorityRow ::
  "plan_env \<Rightarrow> plan_create_input \<Rightarrow> string \<Rightarrow> idempotency_input \<Rightarrow> plan_db \<Rightarrow> plan_db \<times> (plan_error + plan_receipt)" where
  "createPlanEntityWithAuthorityRow env i actor idem db =
     attempt db (validatePlanIdempotency idem (planRouteIdentity Plan_create [])) (\<lambda>_.
     attempt db (ensure (actor \<noteq> []) (plan_fail ''VALIDATION_ERROR'' ''actor required'' 400)) (\<lambda>_.
     attempt db (ensure (pi_workspace_id i \<noteq> []) (plan_fail ''VALIDATION_ERROR'' ''workspace_id required'' 400)) (\<lambda>_.
     attempt db (ensure (pi_title i \<noteq> [] \<and> length (pi_title i) \<le> 200) (plan_fail ''VALIDATION_ERROR'' ''title 1-200 chars required'' 400)) (\<lambda>_.
     executePlanEntityCommand (create_spec env i actor idem) db))))"

text \<open>The recursive query for the descendants of the target among the live rows of its scope.\<close>

definition in_scope :: "command_target \<Rightarrow> plan_row \<Rightarrow> bool" where
  "in_scope t r \<longleftrightarrow> pe_workspace_id r = tg_workspace_id t \<and> pe_scope_id r = tg_scope_id t \<and> live_row r"

definition children_of :: "command_target \<Rightarrow> string list \<Rightarrow> plan_row list \<Rightarrow> string list" where
  "children_of t ids rows = map pe_id (filter (\<lambda>r. in_scope t r \<and> (case pe_parent_id r of None \<Rightarrow> False | Some p \<Rightarrow> p \<in> set ids)) rows)"

definition descendants :: "command_target \<Rightarrow> plan_row list \<Rightarrow> string list" where
  "descendants t rows = ((\<lambda>ids. remdups (ids @ children_of t ids rows)) ^^ length rows) (children_of t [tg_id t] rows)"

definition admissible_parent :: "command_target \<Rightarrow> string option \<Rightarrow> plan_row list \<Rightarrow> bool" where
  "admissible_parent t parent rows =
     (case parent of None \<Rightarrow> True
      | Some p \<Rightarrow> p \<noteq> tg_id t \<and> list_ex (parent_in_scope (tg_workspace_id t) (tg_scope_id t) p) rows \<and> p \<notin> set (descendants t rows))"

definition current_target :: "command_target \<Rightarrow> plan_row \<Rightarrow> bool" where
  "current_target t r \<longleftrightarrow> pe_id r = tg_id t \<and> pe_workspace_id r = tg_workspace_id t \<and> pe_updated_at r = tg_updated_at t \<and> live_row r"

definition new_parent :: "command_target \<Rightarrow> plan_patch \<Rightarrow> string option" where
  "new_parent t patch = the_default (tg_parent_id t) (pp_parent_id patch)"

definition wanted_position :: "command_target \<Rightarrow> plan_patch \<Rightarrow> int" where
  "wanted_position t patch = the_default (tg_position t) (pp_position patch)"

definition moving :: "plan_patch \<Rightarrow> bool" where
  "moving patch \<longleftrightarrow> pp_parent_id patch \<noteq> None \<or> pp_position patch \<noteq> None"

definition patched :: "plan_env \<Rightarrow> command_target \<Rightarrow> plan_patch \<Rightarrow> string \<Rightarrow> plan_row \<Rightarrow> plan_row" where
  "patched env t patch actor r = r
     \<lparr>pe_title := the_default (pe_title r) (pp_title patch), pe_status := the_default (pe_status r) (pp_status patch),
      pe_position := (if moving patch then wanted_position t patch + 2 * REPACK_OFFSET else pe_position r),
      pe_parent_id := (if pp_parent_id patch \<noteq> None then new_parent t patch else pe_parent_id r),
      pe_updated_by := actor, pe_updated_at := pn_now env\<rparr>"

text \<open>\<open>snap\<close> is what the statement reads: under concurrency it may be older than the rows it writes.\<close>

definition update_statement :: "plan_env \<Rightarrow> command_target \<Rightarrow> plan_patch \<Rightarrow> string \<Rightarrow> plan_row list \<Rightarrow> bool \<Rightarrow> plan_statement" where
  "update_statement env t patch actor snap pending rows =
     (let written = map (\<lambda>r. if current_target t r then patched env t patch actor r else r) rows in
      if \<not> int4 (wanted_position t patch + 2 * REPACK_OFFSET) then Inl (P_db ''integer out of range'')
      else if \<not> pending \<or> \<not> admissible_parent t (new_parent t patch) snap \<or> \<not> list_ex (current_target t) rows then Inr rows
      else if \<not> index_ok (tg_id t) written then Inl (P_db ''plan_entities_parent_position_idx'')
      else Inr written)"

definition update_spec :: "plan_env \<Rightarrow> command_target \<Rightarrow> plan_patch \<Rightarrow> string \<Rightarrow> idempotency_input \<Rightarrow> plan_spec" where
  "update_spec env t patch actor idem =
     \<lparr>ps_operation = Plan_update, ps_entity_id = tg_id t, ps_workspace_id = tg_workspace_id t, ps_actor_user_id = actor,
      ps_idempotency = idem, ps_timestamp = pn_now env, ps_iso = pn_iso env (pn_now env), ps_event_id = ''evt_'' @ pn_event env,
      ps_outbox_id = ''out_'' @ pn_outbox env, ps_mutation = (\<lambda>pending rows. update_statement env t patch actor rows pending rows),
      ps_repack = (if moving patch
        then repackQueries (pn_ord env)
          (\<lambda>r. pe_id r = tg_id t \<and> pe_workspace_id r = tg_workspace_id t \<and> pe_updated_at r = pn_now env)
          (\<lambda>r. if pe_id r = tg_id t then wanted_position t patch else pe_position r) t (remdups [tg_parent_id t, new_parent t patch])
        else [])\<rparr>"

definition updatePlanEntityWithAuthorityRow ::
  "plan_env \<Rightarrow> command_target \<Rightarrow> plan_patch \<Rightarrow> string \<Rightarrow> idempotency_input \<Rightarrow> plan_db \<Rightarrow> plan_db \<times> (plan_error + plan_receipt)" where
  "updatePlanEntityWithAuthorityRow env t patch actor idem db =
     attempt db (validatePlanIdempotency idem (planRouteIdentity Plan_update (tg_id t))) (\<lambda>_.
     attempt db (ensure (case pp_title patch of None \<Rightarrow> True | Some v \<Rightarrow> v \<noteq> [] \<and> length v \<le> 200)
       (plan_fail ''VALIDATION_ERROR'' ''title 1-200 chars required'' 400)) (\<lambda>_.
     executePlanEntityCommand (update_spec env t patch actor idem) db))"

definition delete_statement :: "plan_env \<Rightarrow> command_target \<Rightarrow> string \<Rightarrow> bool \<Rightarrow> plan_statement" where
  "delete_statement env t actor pending rows =
     (if \<not> pending then Inr rows
      else Inr (map (\<lambda>r. if current_target t r
             then r\<lparr>pe_deleted_at := Some (pn_now env), pe_updated_at := pn_now env, pe_updated_by := actor\<rparr> else r) rows))"

definition delete_spec :: "plan_env \<Rightarrow> command_target \<Rightarrow> string \<Rightarrow> idempotency_input \<Rightarrow> plan_spec" where
  "delete_spec env t actor idem =
     \<lparr>ps_operation = Plan_delete, ps_entity_id = tg_id t, ps_workspace_id = tg_workspace_id t, ps_actor_user_id = actor,
      ps_idempotency = idem, ps_timestamp = pn_now env, ps_iso = pn_iso env (pn_now env), ps_event_id = ''evt_'' @ pn_event env,
      ps_outbox_id = ''out_'' @ pn_outbox env, ps_mutation = delete_statement env t actor,
      ps_repack = repackQueries (pn_ord env)
        (\<lambda>r. pe_id r = tg_id t \<and> pe_workspace_id r = tg_workspace_id t \<and> pe_deleted_at r = Some (pn_now env))
        pe_position t [tg_parent_id t]\<rparr>"

definition deletePlanEntityWithAuthorityRow ::
  "plan_env \<Rightarrow> command_target \<Rightarrow> string \<Rightarrow> idempotency_input \<Rightarrow> plan_db \<Rightarrow> plan_db \<times> (plan_error + plan_receipt)" where
  "deletePlanEntityWithAuthorityRow env t actor idem db =
     attempt db (validatePlanIdempotency idem (planRouteIdentity Plan_delete (tg_id t))) (\<lambda>_.
     executePlanEntityCommand (delete_spec env t actor idem) db)"

definition commandTargetFromEntity :: "plan_row \<Rightarrow> command_target" where
  "commandTargetFromEntity e =
     \<lparr>tg_id = pe_id e, tg_workspace_id = pe_workspace_id e, tg_scope_id = pe_scope_id e, tg_scope_type = pe_scope_type e,
      tg_parent_id = pe_parent_id e, tg_position = pe_position e, tg_updated_at = pe_updated_at e\<rparr>"

end
