(* ===== verification/Plan_Props.thy ===== *)
theory Plan_Props
  imports Plan_Commands Histories "HOL-Library.Multiset"
begin

text \<open>
  Properties of the plan commands: the hierarchy stays a forest, siblings stay numbered from zero, a move lands where its
  ranking says, a stale or repeated command changes nothing.
\<close>

section \<open>What a command does to the rows\<close>

lemma transaction_rows:
  assumes "plan_transaction s db = (db', x)"
  shows "pd_rows db' = pd_rows db \<or>
    run_statements (ps_mutation s (list_ex (plan_pending s) (pd_keys (claim_statement s db))) # ps_repack s) (pd_rows db) = Inr (pd_rows db')"
proof -
  have c: "pd_rows (claim_statement s db) = pd_rows db" by (simp add: claim_statement_def)
  have ev: "pd_rows (event_statement s d) = pd_rows d" for d by (simp add: event_statement_def split: option.split)
  have au: "pd_rows (audit_statement s d) = pd_rows d" for d by (simp add: audit_statement_def split: option.split)
  have ob: "pd_rows d' = pd_rows d" if "outbox_statement s d = Inr d'" for d d'
    using that by (auto simp: outbox_statement_def split: option.splits if_splits list.splits)
  have co: "pd_rows (fst (complete_statement s d)) = pd_rows d" for d by (simp add: complete_statement_def split: option.split)
  let ?p = "list_ex (plan_pending s) (pd_keys (claim_statement s db))"
  let ?run = "run_statements (ps_mutation s ?p # ps_repack s) (pd_rows (claim_statement s db))"
  show ?thesis
  proof (cases ?run)
    case (Inl e)
    have "db' = db" using assms unfolding plan_transaction_def Let_def Inl by simp
    then show ?thesis by simp
  next
    case (Inr rows)
    define d2 where "d2 = audit_statement s (event_statement s ((claim_statement s db)\<lparr>pd_rows := rows\<rparr>))"
    have r2: "pd_rows d2 = rows" unfolding d2_def au ev by simp
    note t = assms [unfolded plan_transaction_def Let_def Inr sum.case d2_def [symmetric]]
    show ?thesis
    proof (cases "outbox_statement s d2")
      case (Inl e)
      with t show ?thesis by (auto simp: rolled_back_def)
    next
      case (Inr d3)
      have "pd_rows (fst (complete_statement s d3)) = rows" using ob [OF Inr] co r2 by simp
      with t Inr have "pd_rows db' = pd_rows db \<or> pd_rows db' = rows"
        by (auto simp: rolled_back_def split: prod.splits if_splits)
      then show ?thesis using \<open>?run = Inr rows\<close> unfolding c by metis
    qed
  qed
qed

lemma execute_rows:
  "pd_rows (fst (executePlanEntityCommand s db)) = pd_rows db \<or>
   run_statements (ps_mutation s (list_ex (plan_pending s) (pd_keys (claim_statement s db))) # ps_repack s) (pd_rows db) =
     Inr (pd_rows (fst (executePlanEntityCommand s db)))"
proof -
  obtain db' x where t: "plan_transaction s db = (db', x)" by (cases "plan_transaction s db")
  have "pd_rows (fst (executePlanEntityCommand s db)) = pd_rows db'"
    unfolding executePlanEntityCommand_def t by (auto split: sum.split option.split)
  with transaction_rows [OF t] show ?thesis by simp
qed

text \<open>Renumbering changes nothing but positions.\<close>

definition unplaced :: "plan_row \<Rightarrow> plan_row" where
  "unplaced r = r\<lparr>pe_position := 0\<rparr>"

lemma unplaced_sel [simp]: "pe_id (unplaced r) = pe_id r" "pe_workspace_id (unplaced r) = pe_workspace_id r" "pe_scope_id (unplaced r) = pe_scope_id r"
  "pe_parent_id (unplaced r) = pe_parent_id r" "live_row (unplaced r) = live_row r" "pe_deleted_at (unplaced r) = pe_deleted_at r"
  by (simp_all add: unplaced_def live_row_def)

lemma unplaced_set [simp]: "unplaced (r\<lparr>pe_position := p\<rparr>) = unplaced r"
  by (simp add: unplaced_def)

lemma apply_positions_unplaced: "apply_positions as rows = Inr rows' \<Longrightarrow> map unplaced rows' = map unplaced rows"
proof (induction as arbitrary: rows)
  case (Cons a as)
  obtain i p where a: "a = (i, p)" by (cases a)
  from Cons.prems have "apply_positions as (set_position i p rows) = Inr rows'" by (simp add: a split: if_splits)
  from Cons.IH [OF this] show ?case by (simp add: set_position_def comp_def cong: if_cong)
qed simp

lemma repack_unplaced: "run_statements (repackQueries ord hit w t ps) rows = Inr rows' \<Longrightarrow> map unplaced rows' = map unplaced rows"
  by (auto simp: repackQueries_def split: sum.splits if_splits dest!: apply_positions_unplaced)

section \<open>The hierarchy is a forest\<close>

definition parent_rel :: "plan_row list \<Rightarrow> (string \<times> string) set" where
  "parent_rel rows = {(pe_id r, p) |r p. r \<in> set rows \<and> live_row r \<and> pe_parent_id r = Some p}"

definition same_scope :: "plan_row \<Rightarrow> plan_row \<Rightarrow> bool" where
  "same_scope q r \<longleftrightarrow> pe_workspace_id q = pe_workspace_id r \<and> pe_scope_id q = pe_scope_id r"

definition plan_forest :: "plan_row list \<Rightarrow> bool" where
  "plan_forest rows \<longleftrightarrow> distinct (map pe_id rows) \<and>
     (\<forall>r \<in> set rows. \<forall>p. live_row r \<and> pe_parent_id r = Some p \<longrightarrow> (\<exists>q \<in> set rows. pe_id q = p \<and> same_scope q r)) \<and>
     acyclic (parent_rel rows)"

lemma forest_cong:
  assumes "map unplaced rows' = map unplaced rows"
  shows "plan_forest rows' = plan_forest rows"
proof -
  have ids: "map pe_id xs = map pe_id (map unplaced xs)" for xs by simp
  have sets: "unplaced ` set rows' = unplaced ` set rows" by (metis assms set_map)
  have rel: "parent_rel xs = {(pe_id r, p) |r p. r \<in> unplaced ` set xs \<and> live_row r \<and> pe_parent_id r = Some p}" for xs
    unfolding parent_rel_def by auto (metis imageI unplaced_sel(1,4,5))
  have par: "(\<forall>r \<in> set xs. \<forall>p. live_row r \<and> pe_parent_id r = Some p \<longrightarrow> (\<exists>q \<in> set xs. pe_id q = p \<and> same_scope q r)) \<longleftrightarrow>
      (\<forall>r \<in> unplaced ` set xs. \<forall>p. live_row r \<and> pe_parent_id r = Some p \<longrightarrow> (\<exists>q \<in> unplaced ` set xs. pe_id q = p \<and> same_scope q r))" for xs
    by (simp add: same_scope_def)
  show ?thesis
    unfolding plan_forest_def rel ids [of rows'] ids [of rows] par [of rows'] par [of rows] assms sets ..
qed

subsection \<open>The recursive query finds every descendant\<close>

abbreviation descend :: "command_target \<Rightarrow> plan_row list \<Rightarrow> string list \<Rightarrow> string list" where
  "descend t rows \<equiv> \<lambda>ids. remdups (ids @ children_of t ids rows)"

lemma descend_mono: "m \<le> n \<Longrightarrow> set ((descend t rows ^^ m) ids) \<subseteq> set ((descend t rows ^^ n) ids)"
  by (induction n) (auto simp: le_Suc_eq)

lemma children_of_iff: "x \<in> set (children_of t ids rows) \<longleftrightarrow>
    (\<exists>r \<in> set rows. pe_id r = x \<and> in_scope t r \<and> (\<exists>p \<in> set ids. pe_parent_id r = Some p))"
  by (auto simp: children_of_def split: option.splits)

lemma forest_scope:
  assumes "plan_forest rows" and "(x, p) \<in> parent_rel rows" and "q \<in> set rows" and "pe_id q = p"
  obtains r where "r \<in> set rows" "pe_id r = x" "live_row r" "pe_parent_id r = Some p" "same_scope q r"
proof -
  from assms(2) obtain r where r: "r \<in> set rows" "pe_id r = x" "live_row r" "pe_parent_id r = Some p" by (auto simp: parent_rel_def)
  with assms(1) obtain q' where "q' \<in> set rows" "pe_id q' = p" "same_scope q' r" unfolding plan_forest_def by blast
  moreover have "q' = q" using assms(1,3,4) \<open>q' \<in> set rows\<close> \<open>pe_id q' = p\<close> by (auto simp: plan_forest_def distinct_map inj_on_def)
  ultimately show ?thesis using r that by blast
qed

lemma descend_complete:
  assumes "plan_forest rows" and "q \<in> set rows" "pe_id q = tg_id t" "pe_workspace_id q = tg_workspace_id t" "pe_scope_id q = tg_scope_id t"
    and "(x, tg_id t) \<in> parent_rel rows ^^ Suc n"
  shows "x \<in> set ((descend t rows ^^ n) (children_of t [tg_id t] rows)) \<and>
    (\<exists>r \<in> set rows. pe_id r = x \<and> pe_workspace_id r = tg_workspace_id t \<and> pe_scope_id r = tg_scope_id t)"
  using assms(6)
proof (induction n arbitrary: x)
  case 0
  then have e: "(x, tg_id t) \<in> parent_rel rows" by simp
  from forest_scope [OF assms(1) e assms(2,3)] obtain r where "r \<in> set rows" "pe_id r = x" "live_row r" "pe_parent_id r = Some (tg_id t)" "same_scope q r" .
  with assms(4,5) show ?case by (auto simp: children_of_iff in_scope_def same_scope_def)
next
  case (Suc n)
  from relpow_Suc_E2 [OF Suc.prems] obtain y where y: "(x, y) \<in> parent_rel rows" "(y, tg_id t) \<in> parent_rel rows ^^ Suc n" by blast
  from Suc.IH [OF y(2)] obtain r where r: "y \<in> set ((descend t rows ^^ n) (children_of t [tg_id t] rows))" "r \<in> set rows" "pe_id r = y"
    "pe_workspace_id r = tg_workspace_id t" "pe_scope_id r = tg_scope_id t" by blast
  from forest_scope [OF assms(1) y(1) r(2,3)] obtain r' where r': "r' \<in> set rows" "pe_id r' = x" "live_row r'" "pe_parent_id r' = Some y" "same_scope r r'" .
  with r have sc: "in_scope t r'" by (simp add: in_scope_def same_scope_def)
  then have "x \<in> set (children_of t ((descend t rows ^^ n) (children_of t [tg_id t] rows)) rows)"
    using r(1) r' by (auto simp: children_of_iff)
  with sc r' show ?case by (auto simp: in_scope_def)
qed

lemma card_parent_rel: "finite (parent_rel rows)" "card (parent_rel rows) \<le> length rows"
proof -
  have sub: "parent_rel rows \<subseteq> (\<lambda>r. (pe_id r, the (pe_parent_id r))) ` set rows" by (force simp: parent_rel_def)
  show "finite (parent_rel rows)" using finite_subset [OF sub] by simp
  have "card (parent_rel rows) \<le> card (set rows)" using sub by (meson List.finite_set card_image_le card_mono finite_imageI le_trans)
  then show "card (parent_rel rows) \<le> length rows" using card_length le_trans by blast
qed

lemma no_ancestor_below:
  assumes "plan_forest rows" and "q \<in> set rows" "pe_id q = tg_id t" "pe_workspace_id q = tg_workspace_id t" "pe_scope_id q = tg_scope_id t"
    and "p \<noteq> tg_id t" "p \<notin> set (descendants t rows)"
  shows "(p, tg_id t) \<notin> (parent_rel rows)\<^sup>*"
proof
  assume "(p, tg_id t) \<in> (parent_rel rows)\<^sup>*"
  then have "(p, tg_id t) \<in> (parent_rel rows)\<^sup>+" using assms(6) by (simp add: rtrancl_eq_or_trancl)
  then obtain n where n: "0 < n" "n \<le> card (parent_rel rows)" "(p, tg_id t) \<in> parent_rel rows ^^ n"
    unfolding trancl_finite_eq_relpow [OF card_parent_rel(1)] by blast
  then obtain m where m: "n = Suc m" by (cases n) auto
  from descend_complete [OF assms(1-5)] n(3) m have "p \<in> set ((descend t rows ^^ m) (children_of t [tg_id t] rows))" by blast
  moreover have "m \<le> length rows" using n(2) m card_parent_rel(2) [of rows] by simp
  ultimately have "p \<in> set (descendants t rows)" unfolding descendants_def using descend_mono by blast
  with assms(7) show False by blast
qed

subsection \<open>Each statement keeps the forest\<close>

lemma create_cases:
  assumes "create_statement env i actor pending rows = Inr rows'"
  obtains (none) "rows' = rows" | (row) "rows' = rows @ [created_row env i actor rows]" "pending"
    "\<forall>r \<in> set rows. pe_id r \<noteq> pe_id (created_row env i actor rows)" "\<not> parent_missing i rows"
  using assms unfolding create_statement_def Let_def by (auto simp: list_ex_iff split: if_splits)

lemma created_row_sel [simp]: "pe_parent_id (created_row env i actor rows) = pi_parent_id i"
  "pe_workspace_id (created_row env i actor rows) = pi_workspace_id i" "pe_scope_id (created_row env i actor rows) = pi_scope_id i"
  "live_row (created_row env i actor rows)"
  "pe_position (created_row env i actor rows) = next_position (siblings (pi_workspace_id i) (pi_scope_id i) (pi_parent_id i) rows)"
  by (simp_all add: created_row_def live_row_def)

lemma forest_create:
  assumes "plan_forest rows" and "create_statement env i actor pending rows = Inr rows'"
  shows "plan_forest rows'"
  using assms(2)
proof (cases rule: create_cases)
  case row
  define n where "n = created_row env i actor rows"
  note row = row [folded n_def]
  have old: "\<forall>r \<in> set rows. \<forall>p. live_row r \<and> pe_parent_id r = Some p \<longrightarrow> (\<exists>q \<in> set rows. pe_id q = p \<and> same_scope q r)"
    and ac: "acyclic (parent_rel rows)" and d: "distinct (map pe_id rows)"
    using assms(1) by (auto simp: plan_forest_def)
  have par: "\<exists>q \<in> set rows. pe_id q = p \<and> same_scope q n" if "pe_parent_id n = Some p" for p
    using row(4) that by (auto simp: n_def parent_missing_def list_ex_iff parent_in_scope_def same_scope_def)
  have nor: "(x, pe_id n) \<notin> parent_rel rows" for x using old row(3) unfolding parent_rel_def by blast
  have nostar: "(p, pe_id n) \<notin> (parent_rel rows)\<^sup>*" if "p \<noteq> pe_id n" for p
    using that nor by (meson rtranclE)
  have sub: "parent_rel rows' \<subseteq> (case pe_parent_id n of None \<Rightarrow> parent_rel rows | Some p \<Rightarrow> insert (pe_id n, p) (parent_rel rows))"
    unfolding parent_rel_def row(1) by (auto split: option.splits)
  have "acyclic (parent_rel rows')"
  proof (cases "pe_parent_id n")
    case None
    with sub ac show ?thesis by (auto intro: acyclic_subset)
  next
    case (Some p)
    from par [OF Some] row(3) have "p \<noteq> pe_id n" by auto
    with nostar ac have "acyclic (insert (pe_id n, p) (parent_rel rows))" by (simp add: acyclic_insert)
    with sub Some show ?thesis by (auto intro: acyclic_subset)
  qed
  moreover have "\<forall>r \<in> set rows'. \<forall>p. live_row r \<and> pe_parent_id r = Some p \<longrightarrow> (\<exists>q \<in> set rows'. pe_id q = p \<and> same_scope q r)"
    using old par row(1) by fastforce
  moreover have "distinct (map pe_id rows')" using d row(1,3) by (auto simp: n_def)
  ultimately show ?thesis by (simp add: plan_forest_def)
qed (use assms(1) in simp)

text \<open>A target was read from the table: its workspace and scope, which no command changes, are those of its row.\<close>

definition knows_scope :: "command_target \<Rightarrow> plan_row list \<Rightarrow> bool" where
  "knows_scope t rows \<longleftrightarrow> (\<forall>r \<in> set rows. pe_id r = tg_id t \<longrightarrow> pe_workspace_id r = tg_workspace_id t \<and> pe_scope_id r = tg_scope_id t)"

definition plan_map :: "(plan_row \<Rightarrow> plan_row) \<Rightarrow> bool" where
  "plan_map f \<longleftrightarrow> (\<forall>r. pe_id (f r) = pe_id r \<and> pe_workspace_id (f r) = pe_workspace_id r \<and> pe_scope_id (f r) = pe_scope_id r)"

lemma update_cases:
  assumes "update_statement env t patch actor snap pending rows = Inr rows'"
  obtains (none) "rows' = rows"
  | (written) q where "rows' = map (\<lambda>r. if current_target t r then patched env t patch actor r else r) rows" "pending"
      "admissible_parent t (new_parent t patch) snap" "q \<in> set rows" "current_target t q"
  using assms unfolding update_statement_def Let_def by (auto simp: list_ex_iff split: if_splits)

lemma patched_sel [simp]: "pe_id (patched env t patch actor r) = pe_id r" "pe_workspace_id (patched env t patch actor r) = pe_workspace_id r"
  "pe_scope_id (patched env t patch actor r) = pe_scope_id r" "live_row (patched env t patch actor r) = live_row r"
  "pe_parent_id (patched env t patch actor r) = (if pp_parent_id patch \<noteq> None then new_parent t patch else pe_parent_id r)"
  "pe_updated_at (patched env t patch actor r) = pn_now env" "pe_deleted_at (patched env t patch actor r) = pe_deleted_at r"
  "pe_position (patched env t patch actor r) = (if moving patch then wanted_position t patch + 2 * REPACK_OFFSET else pe_position r)"
  by (simp_all add: patched_def live_row_def)

lemma forest_update:
  assumes "plan_forest rows" and "knows_scope t rows" and "update_statement env t patch actor rows pending rows = Inr rows'"
  shows "plan_forest rows'"
  using assms(3)
proof (cases rule: update_cases)
  case (written q)
  let ?f = "\<lambda>r. if current_target t r then patched env t patch actor r else r"
  have q: "pe_id q = tg_id t" "pe_workspace_id q = tg_workspace_id t" "pe_scope_id q = tg_scope_id t"
    using written(4,5) assms(2) by (auto simp: current_target_def knows_scope_def)
  have old: "\<forall>r \<in> set rows. \<forall>p. live_row r \<and> pe_parent_id r = Some p \<longrightarrow> (\<exists>q \<in> set rows. pe_id q = p \<and> same_scope q r)"
    and ac: "acyclic (parent_rel rows)" and d: "distinct (map pe_id rows)"
    using assms(1) by (auto simp: plan_forest_def)
  have ids: "pe_id \<circ> ?f = pe_id" by (auto simp: fun_eq_iff)
  have keep: "\<exists>q' \<in> set rows'. pe_id q' = p \<and> same_scope q' (?f r)" if "\<exists>q \<in> set rows. pe_id q = p \<and> same_scope q r" for p r
  proof -
    from that obtain q where "q \<in> set rows" "pe_id q = p" "same_scope q r" by blast
    then show ?thesis unfolding written(1) set_map by (intro bexI [of _ "?f q"]) (auto simp: same_scope_def)
  qed
  have par: "\<exists>q \<in> set rows. pe_id q = p \<and> same_scope q r" if "new_parent t patch = Some p" "current_target t r" "r \<in> set rows" for p r
    using written(3) that assms(2)
    by (auto simp: admissible_parent_def list_ex_iff parent_in_scope_def same_scope_def current_target_def knows_scope_def)
  have moved: "\<exists>q' \<in> set rows'. pe_id q' = p \<and> same_scope q' (?f r)" if r: "r \<in> set rows" "live_row (?f r)" "pe_parent_id (?f r) = Some p" for r p
  proof (cases "current_target t r \<and> pp_parent_id patch \<noteq> None")
    case True
    with r(1,3) par [of p r] show ?thesis by (intro keep) simp
  next
    case False
    with r have "live_row r" "pe_parent_id r = Some p" by (auto split: if_splits)
    with old r(1) show ?thesis by (intro keep) blast
  qed
  have parents: "\<forall>r \<in> set rows'. \<forall>p. live_row r \<and> pe_parent_id r = Some p \<longrightarrow> (\<exists>q \<in> set rows'. pe_id q = p \<and> same_scope q r)"
  proof (intro ballI allI impI)
    fix r' p assume h: "r' \<in> set rows'" "live_row r' \<and> pe_parent_id r' = Some p"
    then obtain r where "r \<in> set rows" "r' = ?f r" unfolding written(1) set_map by blast
    with h(2) moved [of r p] show "\<exists>q \<in> set rows'. pe_id q = p \<and> same_scope q r'" by metis
  qed
  have sub: "parent_rel rows' \<subseteq> (case new_parent t patch of None \<Rightarrow> parent_rel rows | Some p \<Rightarrow> insert (tg_id t, p) (parent_rel rows))"
  proof
    fix e assume "e \<in> parent_rel rows'"
    then obtain x p where x: "x \<in> set rows" "e = (pe_id x, p)" "live_row x" "pe_parent_id (?f x) = Some p"
      unfolding parent_rel_def written(1) by (auto split: if_splits)
    show "e \<in> (case new_parent t patch of None \<Rightarrow> parent_rel rows | Some p \<Rightarrow> insert (tg_id t, p) (parent_rel rows))"
    proof (cases "pe_parent_id x = Some p")
      case True
      with x have "e \<in> parent_rel rows" by (auto simp: parent_rel_def)
      then show ?thesis by (simp split: option.split)
    next
      case False
      with x(2,4) show ?thesis by (auto simp: current_target_def split: if_splits)
    qed
  qed
  have "acyclic (parent_rel rows')"
  proof (cases "new_parent t patch")
    case None
    with sub ac show ?thesis by (auto intro: acyclic_subset)
  next
    case (Some p)
    with written(3) have "p \<noteq> tg_id t" "p \<notin> set (descendants t rows)" by (auto simp: admissible_parent_def)
    from no_ancestor_below [OF assms(1) written(4) q this] ac have "acyclic (insert (tg_id t, p) (parent_rel rows))"
      by (simp add: acyclic_insert)
    with sub Some show ?thesis by (auto intro: acyclic_subset)
  qed
  with parents d show ?thesis unfolding plan_forest_def written(1) by (simp add: ids)
qed (use assms(1) in simp)

lemma forest_delete:
  assumes "plan_forest rows" and "delete_statement env t actor pending rows = Inr rows'"
  shows "plan_forest rows'"
proof -
  let ?f = "\<lambda>r. if pending \<and> current_target t r
    then r\<lparr>pe_deleted_at := Some (pn_now env), pe_updated_at := pn_now env, pe_updated_by := actor\<rparr> else r"
  have rows': "rows' = map ?f rows" using assms(2) by (auto simp: delete_statement_def split: if_splits)
  have f: "pe_id (?f r) = pe_id r" "pe_workspace_id (?f r) = pe_workspace_id r" "pe_scope_id (?f r) = pe_scope_id r"
    "pe_parent_id (?f r) = pe_parent_id r" "live_row (?f r) \<Longrightarrow> live_row r" for r by (auto simp: live_row_def split: if_splits)
  then have "pe_id \<circ> ?f = pe_id" by (simp add: fun_eq_iff)
  moreover have "parent_rel rows' \<subseteq> parent_rel rows"
  proof
    fix e assume "e \<in> parent_rel rows'"
    then obtain x p where "x \<in> set rows" "e = (pe_id (?f x), p)" "live_row (?f x)" "pe_parent_id (?f x) = Some p"
      unfolding parent_rel_def rows' set_map by blast
    with f [of x] show "e \<in> parent_rel rows" unfolding parent_rel_def by auto
  qed
  moreover have "\<forall>r \<in> set rows'. \<forall>p. live_row r \<and> pe_parent_id r = Some p \<longrightarrow> (\<exists>q \<in> set rows'. pe_id q = p \<and> same_scope q r)"
  proof (intro ballI allI impI)
    fix r' p assume h: "r' \<in> set rows'" "live_row r' \<and> pe_parent_id r' = Some p"
    then obtain r where r: "r \<in> set rows" "r' = ?f r" unfolding rows' set_map by blast
    with h(2) f [of r] have "live_row r \<and> pe_parent_id r = Some p" by simp
    with assms(1) r(1) obtain q where q: "q \<in> set rows" "pe_id q = p" "same_scope q r" unfolding plan_forest_def by blast
    then show "\<exists>q \<in> set rows'. pe_id q = p \<and> same_scope q r'"
      unfolding rows' set_map r(2) using f [of q] f [of r] by (intro bexI [of _ "?f q"]) (simp_all add: same_scope_def)
  qed
  ultimately show ?thesis using assms(1) unfolding plan_forest_def rows' by (auto intro: acyclic_subset)
qed

subsection \<open>Histories\<close>

datatype plan_command =
    Create plan_env plan_create_input string idempotency_input
  | Update plan_env command_target plan_patch string idempotency_input
  | Delete plan_env command_target string idempotency_input

fun plan_exec :: "plan_command \<Rightarrow> plan_db \<Rightarrow> plan_db \<times> (plan_error + plan_receipt)" where
  "plan_exec (Create env i actor idem) db = createPlanEntityWithAuthorityRow env i actor idem db"
| "plan_exec (Update env t patch actor idem) db = updatePlanEntityWithAuthorityRow env t patch actor idem db"
| "plan_exec (Delete env t actor idem) db = deletePlanEntityWithAuthorityRow env t actor idem db"

fun command_spec :: "plan_command \<Rightarrow> plan_spec" where
  "command_spec (Create env i actor idem) = create_spec env i actor idem"
| "command_spec (Update env t patch actor idem) = update_spec env t patch actor idem"
| "command_spec (Delete env t actor idem) = delete_spec env t actor idem"

text \<open>A command is refused before the transaction, or is its transaction.\<close>

lemma plan_exec_cases:
  obtains (invalid) e where "plan_exec c db = (db, Inl e)" | (executed) "plan_exec c db = executePlanEntityCommand (command_spec c) db"
proof -
  have at_either: "(\<exists>e. attempt db r f = (db, Inl e)) \<or> attempt db r f = x" if "\<And>a. (\<exists>e. f a = (db, Inl e)) \<or> f a = x"
    for r :: "plan_error + unit" and f and x :: "plan_db \<times> (plan_error + plan_receipt)"
    using that by (cases r) simp_all
  have "(\<exists>e. plan_exec c db = (db, Inl e)) \<or> plan_exec c db = executePlanEntityCommand (command_spec c) db"
    by (cases c; simp only: plan_exec.simps command_spec.simps createPlanEntityWithAuthorityRow_def updatePlanEntityWithAuthorityRow_def
        deletePlanEntityWithAuthorityRow_def) (intro at_either disjI2 refl)+
  with that show ?thesis by blast
qed

definition plan_statements :: "plan_command \<Rightarrow> bool \<Rightarrow> plan_statement list" where
  "plan_statements c pending = ps_mutation (command_spec c) pending # ps_repack (command_spec c)"

lemma plan_exec_rows:
  "pd_rows (fst (plan_exec c db)) = pd_rows db \<or>
   (\<exists>pending. run_statements (plan_statements c pending) (pd_rows db) = Inr (pd_rows (fst (plan_exec c db))))"
proof (cases rule: plan_exec_cases [of c db])
  case executed
  then show ?thesis using execute_rows [of "command_spec c" db] unfolding plan_statements_def executed by blast
qed simp

lemmas spec_sel = plan_statements_def command_spec.simps create_spec_def update_spec_def delete_spec_def plan_spec.select_convs

text \<open>
  A target was read from the table: what it says of scope and parent is what its row says as long as its version is current. The
  physical order in which the database rewrites rows is some permutation.
\<close>

definition reads_parent :: "command_target \<Rightarrow> plan_row list \<Rightarrow> bool" where
  "reads_parent t rows \<longleftrightarrow> (\<forall>r \<in> set rows. current_target t r \<longrightarrow> pe_parent_id r = tg_parent_id t)"

definition physical :: "plan_env \<Rightarrow> bool" where
  "physical env \<longleftrightarrow> (\<forall>xs. mset (pn_ord env xs) = mset xs)"

fun well_read :: "plan_command \<Rightarrow> plan_row list \<Rightarrow> bool" where
  "well_read (Create env i actor idem) rows = True"
| "well_read (Update env t patch actor idem) rows = (knows_scope t rows \<and> reads_parent t rows \<and> physical env)"
| "well_read (Delete env t actor idem) rows = (knows_scope t rows \<and> reads_parent t rows \<and> physical env)"

definition plan_do :: "plan_command \<Rightarrow> plan_db \<Rightarrow> plan_db" where
  "plan_do c db = fst (plan_exec c db)"

definition plan_admit :: "plan_command \<Rightarrow> plan_db \<Rightarrow> bool" where
  "plan_admit c db = well_read c (pd_rows db)"

abbreviation plan_reach :: "plan_db \<Rightarrow> plan_db \<Rightarrow> bool" where
  "plan_reach \<equiv> reach_by plan_do plan_admit"

lemma run_Cons: "run_statements (q # qs) rows = Inr rows' \<longleftrightarrow> (\<exists>mid. q rows = Inr mid \<and> run_statements qs mid = Inr rows')"
  by (simp split: sum.split)

lemma forest_exec:
  assumes "plan_forest rows" and "well_read c rows" and "run_statements (plan_statements c pending) rows = Inr rows'"
  shows "plan_forest rows'"
proof (cases c)
  case (Create env i actor idem)
  from assms(3) have "create_statement env i actor pending rows = Inr rows'"
    unfolding Create spec_sel run_Cons by simp
  with assms(1) show ?thesis by (rule forest_create)
next
  case (Update env t patch actor idem)
  from assms(3) obtain mid where m: "update_statement env t patch actor rows pending rows = Inr mid"
    "map unplaced rows' = map unplaced mid"
    unfolding Update spec_sel run_Cons by (cases "moving patch") (auto dest: repack_unplaced)
  from assms(2) have "knows_scope t rows" by (simp add: Update)
  from forest_update [OF assms(1) this m(1)] show ?thesis using forest_cong [OF m(2)] by simp
next
  case (Delete env t actor idem)
  from assms(3) obtain mid where m: "delete_statement env t actor pending rows = Inr mid" "map unplaced rows' = map unplaced mid"
    unfolding Delete spec_sel run_Cons by (auto dest: repack_unplaced)
  from forest_delete [OF assms(1) m(1)] show ?thesis using forest_cong [OF m(2)] by simp
qed

text \<open>What the statements keep, the commands keep.\<close>

lemma plan_do_keeps:
  assumes "I (pd_rows db)" and "plan_admit c db"
    and "\<And>pending rows'. run_statements (plan_statements c pending) (pd_rows db) = Inr rows' \<Longrightarrow> I rows'"
  shows "I (pd_rows (plan_do c db))"
  using plan_exec_rows [of c db] assms unfolding plan_do_def by metis

interpretation forest_history: guarded_history plan_do plan_admit "\<lambda>db. plan_forest (pd_rows db)"
proof
  fix db c
  assume ok: "plan_forest (pd_rows db)" and ad: "plan_admit c db"
  have "well_read c (pd_rows db)" using ad by (simp add: plan_admit_def)
  from ok ad forest_exec [OF ok this] show "plan_forest (pd_rows (plan_do c db))" by (rule plan_do_keeps)
qed

text \<open>
  C15. The plan stays a forest: in any history of create, update and delete commands, whatever they answer, the identifiers
  stay unique, the parent of every live entity is an entity of the same workspace and scope, and following parents from a live
  entity never returns to it.
\<close>

theorem plan_stays_a_forest:
  assumes "plan_reach db0 db" and "plan_forest (pd_rows db0)"
  shows "plan_forest (pd_rows db)"
  using assms by (rule forest_history.history_keeps)

section \<open>Siblings are numbered from zero\<close>

definition place :: "(string \<Rightarrow> int option) \<Rightarrow> plan_row \<Rightarrow> plan_row" where
  "place m r = (case m (pe_id r) of None \<Rightarrow> r | Some p \<Rightarrow> r\<lparr>pe_position := p\<rparr>)"

lemma place_sel [simp]: "pe_id (place m r) = pe_id r" "pe_workspace_id (place m r) = pe_workspace_id r" "pe_scope_id (place m r) = pe_scope_id r"
  "pe_parent_id (place m r) = pe_parent_id r" "live_row (place m r) = live_row r" "pe_updated_at (place m r) = pe_updated_at r"
  "pe_deleted_at (place m r) = pe_deleted_at r" "pe_position (place m r) = the_default (pe_position r) (m (pe_id r))"
  by (simp_all add: place_def live_row_def split: option.split)

lemma apply_positions_effect:
  "apply_positions as rows = Inr rows' \<Longrightarrow> distinct (map fst as) \<Longrightarrow> rows' = map (place (map_of as)) rows"
proof (induction as arbitrary: rows)
  case Nil
  then show ?case by (simp add: place_def)
next
  case (Cons a as)
  obtain i p where a: "a = (i, p)" by (cases a)
  from Cons.prems have n: "map_of as i = None" by (simp add: a map_of_eq_None_iff)
  from Cons.prems have "rows' = map (place (map_of as)) (set_position i p rows)"
    by (intro Cons.IH) (simp_all add: a split: if_splits)
  also have "\<dots> = map (place (map_of (a # as))) rows"
    using n by (simp add: a set_position_def place_def)
  finally show ?case .
qed

text \<open>No intermediate state of a renumbering violates the index when the new numbers are apart from each other and from the old ones.\<close>

definition apart :: "(string \<Rightarrow> int option) \<Rightarrow> plan_row list \<Rightarrow> bool" where
  "apart m rows \<longleftrightarrow> (\<forall>q \<in> set rows. \<forall>r \<in> set rows. live_row q \<and> live_row r \<and> pe_id q \<noteq> pe_id r \<and> pe_parent_id q = pe_parent_id r \<and> pe_parent_id r \<noteq> None \<longrightarrow>
     (\<forall>y. m (pe_id r) = Some y \<longrightarrow> pe_position q \<noteq> y \<and> m (pe_id q) \<noteq> Some y))"

lemma apartD:
  assumes "apart m rows" and "q \<in> set rows" and "r \<in> set rows" and "live_row q" and "live_row r" and "pe_id q \<noteq> pe_id r"
    and "pe_parent_id q = pe_parent_id r" and "pe_parent_id r \<noteq> None" and "m (pe_id r) = Some y"
  shows "pe_position q \<noteq> y \<and> m (pe_id q) \<noteq> Some y"
  using assms unfolding apart_def by blast

lemma apply_positions_ok:
  "distinct (map pe_id rows) \<Longrightarrow> distinct (map fst as) \<Longrightarrow> apart (map_of as) rows \<Longrightarrow> \<exists>rows'. apply_positions as rows = Inr rows'"
proof (induction as arbitrary: rows)
  case (Cons a as)
  obtain i p where a: "a = (i, p)" by (cases a)
  let ?rows = "set_position i p rows"
  have ids: "map pe_id ?rows = map pe_id rows" by (simp add: set_position_def)
  have nofst: "map_of as i = None" using Cons.prems(2) by (simp add: a map_of_eq_None_iff)
  have ap: "apart (map_of as) ?rows"
    unfolding apart_def
  proof (intro ballI allI impI)
    fix q r y assume h: "q \<in> set ?rows" "r \<in> set ?rows"
      "live_row q \<and> live_row r \<and> pe_id q \<noteq> pe_id r \<and> pe_parent_id q = pe_parent_id r \<and> pe_parent_id r \<noteq> None" "map_of as (pe_id r) = Some y"
    from h(1,2) obtain q0 r0 where q0: "q0 \<in> set rows" "q = (if pe_id q0 = i then q0\<lparr>pe_position := p\<rparr> else q0)"
      and r0: "r0 \<in> set rows" "r = (if pe_id r0 = i then r0\<lparr>pe_position := p\<rparr> else r0)" by (auto simp: set_position_def)
    have same: "pe_id q0 = pe_id q" "live_row q0 = live_row q" "pe_parent_id q0 = pe_parent_id q"
      "pe_id r0 = pe_id r" "live_row r0 = live_row r" "pe_parent_id r0 = pe_parent_id r" by (simp_all add: q0 r0 live_row_def)
    have "pe_id r \<noteq> i" using h(4) nofst by auto
    then have "pe_position q0 \<noteq> y \<and> map_of (a # as) (pe_id q0) \<noteq> Some y"
      using apartD [OF Cons.prems(3) q0(1) r0(1)] h(3,4) same by (simp add: a)
    then show "pe_position q \<noteq> y \<and> map_of as (pe_id q) \<noteq> Some y"
      by (cases "pe_id q0 = i") (simp_all add: q0(2) nofst a)
  qed
  have "index_ok i ?rows"
  proof (cases "find (\<lambda>r. pe_id r = i) ?rows")
    case None
    then show ?thesis by (simp add: index_ok_def)
  next
    case (Some r)
    have r: "r \<in> set ?rows" "pe_id r = i" using find_Some_in [OF Some] by simp_all
    from r(1) obtain r0 where r0': "r0 \<in> set rows" "r = (if pe_id r0 = i then r0\<lparr>pe_position := p\<rparr> else r0)"
      unfolding set_position_def set_map by blast
    have i: "pe_id r0 = i" using arg_cong [OF r0'(2), of pe_id] r(2) by (cases "pe_id r0 = i") simp_all
    have r0: "r0 \<in> set rows" "pe_id r0 = i" "r = r0\<lparr>pe_position := p\<rparr>"
      using r0'(1) i r0'(2) [unfolded if_P [OF i]] .
    have "\<not> (pe_id q \<noteq> i \<and> live_row q \<and> pe_parent_id q = pe_parent_id r \<and> pe_position q = pe_position r)" if "q \<in> set ?rows" "live_row r" "pe_parent_id r \<noteq> None" for q
    proof
      assume h: "pe_id q \<noteq> i \<and> live_row q \<and> pe_parent_id q = pe_parent_id r \<and> pe_position q = pe_position r"
      from that(1) obtain q0 where q0: "q0 \<in> set rows" "q = (if pe_id q0 = i then q0\<lparr>pe_position := p\<rparr> else q0)"
        unfolding set_position_def set_map by blast
      then have "q \<in> set rows" using h by (cases "pe_id q0 = i") simp_all
      with apartD [OF Cons.prems(3), of q r0 p] r0 h that(2,3) show False by (simp add: a live_row_def)
    qed
    then show ?thesis unfolding index_ok_def Some option.case list_ex_iff by blast
  qed
  then show ?case using Cons.IH [of ?rows] Cons.prems(1,2) ap by (simp add: a ids)
qed auto

subsection \<open>Ranks\<close>

definition rank_of :: "plan_row list \<Rightarrow> string \<Rightarrow> nat" where
  "rank_of xs i = length (takeWhile (\<lambda>q. pe_id q \<noteq> i) xs)"

lemma map_of_rank:
  "i \<in> pe_id ` set xs \<Longrightarrow> map_of (zip (map pe_id xs) (map f [0..<length xs])) i = Some (f (rank_of xs i))"
proof (induction xs arbitrary: f)
  case (Cons x xs)
  have up: "map f [0..<length (x # xs)] = f 0 # map (\<lambda>n. f (Suc n)) [0..<length xs]"
    by (simp add: upt_conv_Cons map_Suc_upt [symmetric] del: upt_Suc)
  show ?case
  proof (cases "pe_id x = i")
    case True
    then show ?thesis unfolding up by (simp add: rank_of_def)
  next
    case False
    with Cons.prems have "i \<in> pe_id ` set xs" by auto
    from Cons.IH [OF this, of "\<lambda>n. f (Suc n)"] False show ?thesis unfolding up by (simp add: rank_of_def)
  qed
qed simp

lemma map_rank: "distinct (map pe_id xs) \<Longrightarrow> map (\<lambda>r. rank_of xs (pe_id r)) xs = [0..<length xs]"
proof (induction xs)
  case (Cons x xs)
  have "map (\<lambda>r. rank_of (x # xs) (pe_id r)) xs = map Suc (map (\<lambda>r. rank_of xs (pe_id r)) xs)"
    using Cons.prems by (auto simp: rank_of_def)
  with Cons show ?case by (simp add: upt_conv_Cons map_Suc_upt rank_of_def del: upt_Suc)
qed simp

lemma ranked_perm [simp]: "mset (ranked w i g) = mset g" "set (ranked w i g) = set g" "length (ranked w i g) = length g"
  by (simp_all add: ranked_def)

lemma ranked_distinct: "distinct (map pe_id (ranked w i g)) = distinct (map pe_id g)"
  using mset_eq_imp_distinct_iff [of "map pe_id (ranked w i g)" "map pe_id g"] by (simp only: mset_map ranked_perm(1))

text \<open>The numbers a re-pack assigns.\<close>

definition rerank :: "(plan_row \<Rightarrow> int) \<Rightarrow> command_target \<Rightarrow> string option list \<Rightarrow> plan_row list \<Rightarrow> plan_row \<Rightarrow> plan_row" where
  "rerank w t ps rows r =
     (if pe_workspace_id r = tg_workspace_id t \<and> pe_scope_id r = tg_scope_id t \<and> live_row r \<and> pe_parent_id r \<in> set ps
      then r\<lparr>pe_position := int (rank_of (ranked w (tg_id t) (siblings (tg_workspace_id t) (tg_scope_id t) (pe_parent_id r) rows)) (pe_id r))\<rparr>
      else r)"

abbreviation sibs :: "command_target \<Rightarrow> plan_row list \<Rightarrow> string option \<Rightarrow> plan_row list" where
  "sibs t rows p \<equiv> siblings (tg_workspace_id t) (tg_scope_id t) p rows"

lemma siblings_map:
  assumes "\<And>r. pe_workspace_id (f r) = pe_workspace_id r \<and> pe_scope_id (f r) = pe_scope_id r \<and> pe_parent_id (f r) = pe_parent_id r \<and> live_row (f r) = live_row r"
  shows "siblings ws sc p (map f rows) = map f (siblings ws sc p rows)"
  using assms by (simp add: siblings_def filter_map comp_def)

lemma siblings_ids: "distinct (map pe_id rows) \<Longrightarrow> distinct (map pe_id (siblings ws sc p rows))"
  by (simp add: siblings_def distinct_map_filter)

lemma concat_group_ids:
  assumes "distinct (map pe_id rows)" and "distinct ps"
    and "\<And>p. distinct (map fst (g p)) \<and> fst ` set (g p) \<subseteq> pe_id ` set (sibs t rows p)"
  shows "distinct (map fst (concat (map g ps)))"
  using assms(2)
proof (induction ps)
  case (Cons p ps)
  have "pe_id ` set (sibs t rows p) \<inter> pe_id ` set (sibs t rows q) = {}" if "q \<in> set ps" for q
  proof -
    have "p \<noteq> q" using that Cons.prems by auto
    have "x = y" if "x \<in> set (sibs t rows p)" "y \<in> set (sibs t rows q)" "pe_id x = pe_id y" for x y
      using that assms(1) by (auto simp: siblings_def distinct_map dest: inj_onD)
    moreover have "x \<noteq> y" if "x \<in> set (sibs t rows p)" "y \<in> set (sibs t rows q)" for x y
      using that \<open>p \<noteq> q\<close> by (auto simp: siblings_def)
    ultimately show ?thesis by blast
  qed
  with assms(3) have "fst ` set (g p) \<inter> fst ` set (g q) = {}" if "q \<in> set ps" for q using that by blast
  then have "fst ` set (g p) \<inter> fst ` set (concat (map g ps)) = {}" unfolding set_concat set_map by blast
  with Cons assms(3) show ?case by (simp add: distinct_append)
qed simp

lemma map_of_concat:
  assumes "distinct (map fst (concat (map g ps)))" and "p \<in> set ps" and "map_of (g p) i = Some v"
  shows "map_of (concat (map g ps)) i = Some v"
  using map_of_SomeD [OF assms(3)] assms(1,2) by (auto simp: map_of_eq_Some_iff)

lemma map_of_perm: "mset xs = mset ys \<Longrightarrow> distinct (map fst ys) \<Longrightarrow> map_of xs = map_of ys \<and> distinct (map fst xs)"
proof -
  assume h: "mset xs = mset ys" "distinct (map fst ys)"
  then have d: "distinct (map fst xs)" using mset_eq_imp_distinct_iff [of "map fst xs" "map fst ys"] by (simp only: mset_map)
  then show ?thesis using map_of_inject_set [OF d h(2)] mset_eq_setD [OF h(1)] by simp
qed

definition grouped :: "command_target \<Rightarrow> string option list \<Rightarrow> plan_row \<Rightarrow> bool" where
  "grouped t ps r \<longleftrightarrow> pe_workspace_id r = tg_workspace_id t \<and> pe_scope_id r = tg_scope_id t \<and> live_row r \<and> pe_parent_id r \<in> set ps"

lemma grouped_sibs: "r \<in> set rows \<Longrightarrow> grouped t ps r \<longleftrightarrow> (\<exists>p \<in> set ps. r \<in> set (sibs t rows p))"
  by (auto simp: grouped_def siblings_def)

lemma group_map:
  assumes "distinct (map pe_id rows)" and "distinct ps"
    and g: "\<And>p. map fst (g p) = map pe_id (h p) \<and> mset (h p) = mset (sibs t rows p)"
    and r: "r \<in> set rows"
  shows "distinct (map fst (concat (map g ps)))"
    and "grouped t ps r \<Longrightarrow> map_of (g (pe_parent_id r)) (pe_id r) = Some v \<Longrightarrow> map_of (concat (map g ps)) (pe_id r) = Some v"
    and "\<not> grouped t ps r \<Longrightarrow> map_of (concat (map g ps)) (pe_id r) = None"
proof -
  have ids: "fst ` set (g p) = pe_id ` set (sibs t rows p)" for p
    using g [of p] by (metis image_set mset_eq_setD)
  have dg: "distinct (map fst (g p))" for p
    using g [of p] siblings_ids [OF assms(1)] mset_eq_imp_distinct_iff [of "map pe_id (h p)" "map pe_id (sibs t rows p)"]
    by (simp only: mset_map)
  show d: "distinct (map fst (concat (map g ps)))"
    using concat_group_ids [OF assms(1,2), of g t] ids dg by simp
  show "map_of (concat (map g ps)) (pe_id r) = Some v" if "grouped t ps r" "map_of (g (pe_parent_id r)) (pe_id r) = Some v"
    using map_of_concat [OF d _ that(2)] that(1) by (simp add: grouped_def)
  show "map_of (concat (map g ps)) (pe_id r) = None" if "\<not> grouped t ps r"
  proof -
    have "pe_id r \<notin> pe_id ` set (sibs t rows p)" if "p \<in> set ps" for p
    proof
      assume "pe_id r \<in> pe_id ` set (sibs t rows p)"
      then obtain q where q: "q \<in> set (sibs t rows p)" "pe_id q = pe_id r" by auto
      then have "q \<in> set rows" by (simp add: siblings_def)
      with q(2) r assms(1) have "q = r" by (auto simp: distinct_map dest: inj_onD)
      with q(1) that r \<open>\<not> grouped t ps r\<close> grouped_sibs show False by blast
    qed
    then have "pe_id r \<notin> fst ` set (concat (map g ps))"
      unfolding set_concat set_map using ids by blast
    then show ?thesis by (simp add: map_of_eq_None_iff)
  qed
qed

abbreviation rank_in :: "(plan_row \<Rightarrow> int) \<Rightarrow> command_target \<Rightarrow> plan_row list \<Rightarrow> plan_row \<Rightarrow> nat" where
  "rank_in w t rows r \<equiv> rank_of (ranked w (tg_id t) (sibs t rows (pe_parent_id r))) (pe_id r)"

lemma shifted_map:
  fixes w :: "plan_row \<Rightarrow> int" and t :: command_target
  assumes "distinct (map pe_id rows)" and "distinct ps" and "r \<in> set rows"
  defines "as \<equiv> concat (map (\<lambda>p. shifted_positions w (tg_id t) (sibs t rows p)) ps)"
  shows "distinct (map fst as)" and "grouped t ps r \<Longrightarrow> map_of as (pe_id r) = Some (int (rank_in w t rows r) + REPACK_OFFSET)"
    and "\<not> grouped t ps r \<Longrightarrow> map_of as (pe_id r) = None"
proof -
  let ?g = "\<lambda>p. shifted_positions w (tg_id t) (sibs t rows p)"
  have g: "map fst (?g p) = map pe_id (ranked w (tg_id t) (sibs t rows p)) \<and> mset (ranked w (tg_id t) (sibs t rows p)) = mset (sibs t rows p)" for p
    by (simp add: shifted_positions_def)
  note G = group_map [OF assms(1,2) g assms(3)]
  show "distinct (map fst as)" unfolding as_def by (rule G(1))
  show "map_of as (pe_id r) = Some (int (rank_in w t rows r) + REPACK_OFFSET)" if "grouped t ps r"
    unfolding as_def
  proof (rule G(2) [OF that])
    have "pe_id r \<in> pe_id ` set (ranked w (tg_id t) (sibs t rows (pe_parent_id r)))"
      using that assms(3) by (auto simp: grouped_def siblings_def)
    from map_of_rank [OF this, of "\<lambda>n. int n + REPACK_OFFSET"]
    show "map_of (?g (pe_parent_id r)) (pe_id r) = Some (int (rank_in w t rows r) + REPACK_OFFSET)"
      by (simp add: shifted_positions_def)
  qed
  show "map_of as (pe_id r) = None" if "\<not> grouped t ps r" unfolding as_def by (rule G(3) [OF that])
qed

lemma finished_map:
  fixes w :: "plan_row \<Rightarrow> int" and t :: command_target and m :: "string \<Rightarrow> int option"
  assumes "distinct (map pe_id rows)" and "distinct ps" and "r \<in> set rows"
    and sh: "\<And>q. q \<in> set rows \<Longrightarrow> grouped t ps q \<Longrightarrow> m (pe_id q) = Some (int (rank_in w t rows q) + REPACK_OFFSET)"
  defines "as \<equiv> concat (map (\<lambda>p. finished_positions (sibs t (map (place m) rows) p)) ps)"
  shows "distinct (map fst as)" and "grouped t ps r \<Longrightarrow> map_of as (pe_id r) = Some (int (rank_in w t rows r))"
    and "\<not> grouped t ps r \<Longrightarrow> map_of as (pe_id r) = None"
proof -
  let ?g = "\<lambda>p. map (\<lambda>q. (pe_id q, int (rank_in w t rows q))) (sibs t rows p)"
  have fin: "finished_positions (sibs t (map (place m) rows) p) = ?g p" if "p \<in> set ps" for p
  proof -
    have "sibs t (map (place m) rows) p = map (place m) (sibs t rows p)" by (rule siblings_map) simp
    moreover have "pe_position (place m q) = int (rank_in w t rows q) + REPACK_OFFSET" if "q \<in> set (sibs t rows p)" for q
      using sh [of q] that \<open>p \<in> set ps\<close> by (auto simp: siblings_def grouped_def)
    ultimately show ?thesis by (simp add: finished_positions_def filter_map comp_def)
  qed
  have as: "as = concat (map ?g ps)" unfolding as_def using fin by (simp cong: map_cong)
  have g: "map fst (?g p) = map pe_id (sibs t rows p) \<and> mset (sibs t rows p) = mset (sibs t rows p)" for p by simp
  note G = group_map [OF assms(1,2) g assms(3)]
  show "distinct (map fst as)" unfolding as by (rule G(1))
  show "map_of as (pe_id r) = Some (int (rank_in w t rows r))" if "grouped t ps r"
    unfolding as
  proof (rule G(2) [OF that])
    have "r \<in> set (sibs t rows (pe_parent_id r))" using that assms(3) by (simp add: grouped_def siblings_def)
    then have "(pe_id r, int (rank_in w t rows r)) \<in> set (?g (pe_parent_id r))" by (simp add: image_iff) blast
    moreover have "distinct (map fst (?g (pe_parent_id r)))" using siblings_ids [OF assms(1)] by (simp add: comp_def)
    ultimately show "map_of (?g (pe_parent_id r)) (pe_id r) = Some (int (rank_in w t rows r))" by (rule map_of_is_SomeI [rotated])
  qed
  show "map_of as (pe_id r) = None" if "\<not> grouped t ps r" unfolding as by (rule G(3) [OF that])
qed

lemma repack_effect:
  assumes run: "run_statements (repackQueries ord hit w t ps) rows = Inr rows'" and "list_ex hit rows"
    and ids: "distinct (map pe_id rows)" and ps: "distinct ps" and ord: "\<And>xs. mset (ord xs) = mset xs" and hit: "\<And>m r. hit (place m r) = hit r"
  shows "rows' = map (rerank w t ps rows) rows"
proof (cases "rows = []")
  case True
  with assms(2) show ?thesis by simp
next
  case False
  then obtain r0 where r0: "r0 \<in> set rows" by (cases rows) auto
  define as1 where "as1 = concat (map (\<lambda>p. shifted_positions w (tg_id t) (sibs t rows p)) ps)"
  define m where "m = map_of as1"
  define mid where "mid = map (place m) rows"
  define as2 where "as2 = concat (map (\<lambda>p. finished_positions (sibs t mid p)) ps)"
  note S = shifted_map [OF ids ps, where w = w and t = t, folded as1_def m_def]
  note F = finished_map [OF ids ps, where w = w and t = t and m = m, OF _ S(2), folded mid_def, folded as2_def]
  note o1 = map_of_perm [OF ord S(1) [OF r0]]
  note o2 = map_of_perm [OF ord F(1) [OF r0]]
  have hit': "list_ex hit mid" using assms(2) hit by (simp add: mid_def list_ex_iff)
  from run obtain mid' where a1: "apply_positions (ord as1) rows = Inr mid'"
    and rest: "(if list_ex hit mid' then apply_positions (ord (concat (map (\<lambda>p. finished_positions (sibs t mid' p)) ps))) mid' else Inr mid') = Inr rows'"
    using assms(2) by (auto simp: repackQueries_def as1_def split: sum.splits if_splits)
  have mid': "mid' = mid" using apply_positions_effect [OF a1] o1 by (simp add: mid_def m_def)
  with rest hit' have "apply_positions (ord as2) mid = Inr rows'" by (simp add: as2_def)
  from apply_positions_effect [OF this] o2 have "rows' = map (place (map_of as2)) mid" by simp
  also have "\<dots> = map (rerank w t ps rows) rows"
    unfolding mid_def map_map
  proof (rule map_cong [OF refl])
    fix r assume r: "r \<in> set rows"
    show "(place (map_of as2) \<circ> place m) r = rerank w t ps rows r"
    proof (cases "grouped t ps r")
      case True
      with F(2) [OF r] S(2) [OF r] show ?thesis by (simp add: place_def rerank_def grouped_def)
    next
      case False
      with F(3) [OF r] S(3) [OF r] have "(place (map_of as2) \<circ> place m) r = r" by (simp add: place_def)
      then show ?thesis using False by (simp only: rerank_def grouped_def if_False)
    qed
  qed
  finally show ?thesis .
qed

definition numbered :: "plan_row list \<Rightarrow> bool" where
  "numbered g \<longleftrightarrow> mset (map pe_position g) = mset (map int [0..<length g])"

definition plan_numbered :: "plan_row list \<Rightarrow> bool" where
  "plan_numbered rows \<longleftrightarrow> (\<forall>ws sc p. numbered (siblings ws sc p rows))"

lemma rerank_sel [simp]: "pe_id (rerank w t ps rows r) = pe_id r" "pe_workspace_id (rerank w t ps rows r) = pe_workspace_id r"
  "pe_scope_id (rerank w t ps rows r) = pe_scope_id r" "pe_parent_id (rerank w t ps rows r) = pe_parent_id r"
  "live_row (rerank w t ps rows r) = live_row r" "pe_updated_at (rerank w t ps rows r) = pe_updated_at r"
  "pe_deleted_at (rerank w t ps rows r) = pe_deleted_at r"
  by (simp_all add: rerank_def live_row_def)

lemma siblings_rerank: "siblings ws sc p (map (rerank w t ps rows) rows') = map (rerank w t ps rows) (siblings ws sc p rows')"
  by (rule siblings_map) simp

lemma rerank_numbered:
  assumes "distinct (map pe_id rows)" and "p \<in> set ps"
  shows "numbered (sibs t (map (rerank w t ps rows) rows) p)"
proof -
  let ?g = "sibs t rows p"
  let ?x = "ranked w (tg_id t) ?g"
  have "map pe_position (sibs t (map (rerank w t ps rows) rows) p) = map (\<lambda>r. int (rank_of ?x (pe_id r))) ?g"
    unfolding siblings_rerank using assms(2) by (simp add: rerank_def siblings_def)
  then have "mset (map pe_position (sibs t (map (rerank w t ps rows) rows) p)) = image_mset (\<lambda>r. int (rank_of ?x (pe_id r))) (mset ?x)"
    by simp
  also have "\<dots> = mset (map int (map (\<lambda>r. rank_of ?x (pe_id r)) ?x))" by (simp add: comp_def)
  also have "\<dots> = mset (map int [0..<length ?g])"
    using map_rank [of ?x] siblings_ids [OF assms(1)] by (simp only: ranked_distinct ranked_perm(3))
  finally show ?thesis by (simp add: numbered_def siblings_rerank)
qed

lemma rerank_other:
  assumes "\<not> (ws = tg_workspace_id t \<and> sc = tg_scope_id t \<and> p \<in> set ps)"
  shows "siblings ws sc p (map (rerank w t ps rows') rows) = siblings ws sc p rows"
  unfolding siblings_rerank using assms by (intro map_idI) (auto simp: rerank_def siblings_def)

lemma rerank_all_numbered:
  assumes "distinct (map pe_id rows)"
    and "\<And>ws sc p. \<not> (ws = tg_workspace_id t \<and> sc = tg_scope_id t \<and> p \<in> set ps) \<Longrightarrow> numbered (siblings ws sc p rows)"
  shows "plan_numbered (map (rerank w t ps rows) rows)"
  unfolding plan_numbered_def
proof (intro allI)
  fix ws sc p
  show "numbered (siblings ws sc p (map (rerank w t ps rows) rows))"
    using rerank_numbered [OF assms(1)] rerank_other [of ws t sc p ps] assms(2) by (cases "ws = tg_workspace_id t \<and> sc = tg_scope_id t \<and> p \<in> set ps") auto
qed

subsection \<open>Each command keeps the numbering\<close>

lemma numbered_next: "numbered g \<Longrightarrow> next_position g = int (length g)"
proof (cases "g = []")
  case False
  assume "numbered g"
  then have "set (map pe_position g) = set (map int [0..<length g])" unfolding numbered_def by (rule mset_eq_setD)
  moreover have "Max (set (map int [0..<length g])) = int (length g) - 1"
  proof (rule Max_eqI)
    have "int (length g) - 1 = int (length g - 1)" using False by (simp add: of_nat_diff Suc_le_eq)
    moreover have "length g - 1 \<in> set [0..<length g]" using False by simp
    ultimately show "int (length g) - 1 \<in> set (map int [0..<length g])" by (simp only: set_map) (rule imageI)
  qed auto
  ultimately show ?thesis using False by (simp add: next_position_def)
qed (simp add: next_position_def)

lemma numbered_cong: "map pe_position g' = map pe_position g \<Longrightarrow> numbered g' = numbered g"
  unfolding numbered_def using map_eq_imp_length_eq by metis

lemma numbered_snoc: "numbered g \<Longrightarrow> pe_position r = int (length g) \<Longrightarrow> numbered (g @ [r])"
  by (simp add: numbered_def)

lemma numbered_create:
  assumes "plan_numbered rows" and "create_statement env i actor pending rows = Inr rows'"
  shows "plan_numbered rows'"
  using assms(2)
proof (cases rule: create_cases)
  case row
  define n where "n = created_row env i actor rows"
  show ?thesis
    unfolding plan_numbered_def row(1) n_def [symmetric]
  proof (intro allI)
    fix ws sc p
    have "siblings ws sc p (rows @ [n]) = siblings ws sc p rows @
        (if pe_workspace_id n = ws \<and> pe_scope_id n = sc \<and> pe_parent_id n = p then [n] else [])"
      by (simp add: siblings_def n_def)
    moreover have "numbered (siblings ws sc p rows)" using assms(1) by (simp add: plan_numbered_def)
    ultimately show "numbered (siblings ws sc p (rows @ [n]))"
      using numbered_snoc numbered_next by (auto simp: n_def)
  qed
qed (use assms(1) in simp)

lemma hit_place:
  "(\<lambda>r. pe_id r = i \<and> pe_workspace_id r = ws \<and> pe_updated_at r = n) (place m r) = (\<lambda>r. pe_id r = i \<and> pe_workspace_id r = ws \<and> pe_updated_at r = n) r"
  "(\<lambda>r. pe_id r = i \<and> pe_workspace_id r = ws \<and> pe_deleted_at r = d) (place m r) = (\<lambda>r. pe_id r = i \<and> pe_workspace_id r = ws \<and> pe_deleted_at r = d) r"
  by simp_all

text \<open>After its mutation a command re-ranks the groups it may have disturbed.\<close>

lemma repack_numbered:
  assumes "run_statements (repackQueries ord hit w t ps) mid = Inr rows'" and "distinct (map pe_id mid)" and "distinct ps"
    and "\<And>xs. mset (ord xs) = mset xs" and "\<And>m r. hit (place m r) = hit r"
    and "\<And>ws sc p. \<not> (ws = tg_workspace_id t \<and> sc = tg_scope_id t \<and> p \<in> set ps) \<Longrightarrow> numbered (siblings ws sc p mid)"
    and "\<not> list_ex hit mid \<Longrightarrow> plan_numbered mid"
  shows "plan_numbered rows'"
proof (cases "list_ex hit mid")
  case True
  from repack_effect [OF assms(1) True assms(2-5)] rerank_all_numbered [OF assms(2,6)] show ?thesis by simp
next
  case False
  then have "rows' = mid" using assms(1) by (auto simp: repackQueries_def)
  with assms(7) False show ?thesis by simp
qed

lemma numbered_update:
  assumes "plan_numbered rows" and "distinct (map pe_id rows)" and "knows_scope t rows" and "reads_parent t rows"
    and "update_statement env t patch actor snap pending rows = Inr mid" and "\<not> moving patch"
  shows "plan_numbered mid"
  using assms(5)
proof (cases rule: update_cases)
  case (written q)
  let ?f = "\<lambda>r. if current_target t r then patched env t patch actor r else r"
  have "siblings ws sc p mid = map ?f (siblings ws sc p rows)" for ws sc p
    unfolding written(1) using assms(6) by (intro siblings_map) (simp add: moving_def)
  moreover have "map pe_position (map ?f g) = map pe_position g" for g using assms(6) by simp
  then have "numbered (map ?f g) = numbered g" for g by (rule numbered_cong)
  ultimately show ?thesis using assms(1) unfolding plan_numbered_def by presburger
qed (use assms(1) in simp)

lemma filter_map_stays: "(\<And>r. r \<in> set xs \<Longrightarrow> f r = r \<or> \<not> P (f r) \<and> \<not> P r) \<Longrightarrow> filter P (map f xs) = filter P xs"
  by (induction xs) (simp, metis (no_types, lifting) filter.simps(2) list.map(2) list.set_intros(1,2))

lemma update_other_groups:
  assumes "knows_scope t rows" and "reads_parent t rows" and "update_statement env t patch actor snap pending rows = Inr mid"
    and "\<not> (ws = tg_workspace_id t \<and> sc = tg_scope_id t \<and> p \<in> {tg_parent_id t, new_parent t patch})"
  shows "siblings ws sc p mid = siblings ws sc p rows"
  using assms(3)
proof (cases rule: update_cases)
  case (written q)
  let ?f = "\<lambda>r. if current_target t r then patched env t patch actor r else r"
  let ?in = "\<lambda>r. pe_workspace_id r = ws \<and> pe_scope_id r = sc \<and> pe_parent_id r = p \<and> live_row r"
  have other: "\<not> current_target t r" if "r \<in> set rows" "?in (?f r) \<or> ?in r" for r
  proof
    assume c: "current_target t r"
    then have "pe_workspace_id r = tg_workspace_id t" "pe_scope_id r = tg_scope_id t" "pe_parent_id r = tg_parent_id t"
      using that(1) assms(1,2) by (auto simp: knows_scope_def reads_parent_def current_target_def)
    with that(2) c assms(4) show False by (auto split: if_splits)
  qed
  have "filter ?in (map ?f rows) = filter ?in rows"
  proof (rule filter_map_stays)
    fix r assume "r \<in> set rows"
    with other [of r] show "?f r = r \<or> \<not> ?in (?f r) \<and> \<not> ?in r"
      by (cases "current_target t r") (blast, simp)
  qed
  then show ?thesis unfolding siblings_def written(1) .
qed simp

lemma delete_other_groups:
  assumes "knows_scope t rows" and "reads_parent t rows" and "delete_statement env t actor pending rows = Inr mid"
    and "\<not> (ws = tg_workspace_id t \<and> sc = tg_scope_id t \<and> p \<in> {tg_parent_id t})"
  shows "siblings ws sc p mid = siblings ws sc p rows"
proof -
  let ?f = "\<lambda>r. if pending \<and> current_target t r
    then r\<lparr>pe_deleted_at := Some (pn_now env), pe_updated_at := pn_now env, pe_updated_by := actor\<rparr> else r"
  let ?in = "\<lambda>r. pe_workspace_id r = ws \<and> pe_scope_id r = sc \<and> pe_parent_id r = p \<and> live_row r"
  have mid: "mid = map ?f rows" using assms(3) by (auto simp: delete_statement_def split: if_splits)
  have other: "\<not> current_target t r" if "r \<in> set rows" "?in (?f r) \<or> ?in r" for r
  proof
    assume c: "current_target t r"
    then have "pe_workspace_id r = tg_workspace_id t" "pe_scope_id r = tg_scope_id t" "pe_parent_id r = tg_parent_id t"
      using that(1) assms(1,2) by (auto simp: knows_scope_def reads_parent_def current_target_def)
    with that(2) c assms(4) show False by (auto split: if_splits)
  qed
  have "filter ?in (map ?f rows) = filter ?in rows"
  proof (rule filter_map_stays)
    fix r assume "r \<in> set rows"
    with other [of r] show "?f r = r \<or> \<not> ?in (?f r) \<and> \<not> ?in r"
      by (cases "pending \<and> current_target t r") (blast, auto)
  qed
  then show ?thesis unfolding siblings_def mid .
qed

lemma mutation_ids:
  "update_statement env t patch actor snap pending rows = Inr mid \<Longrightarrow> map pe_id mid = map pe_id rows"
  "delete_statement env t actor pending rows = Inr mid \<Longrightarrow> map pe_id mid = map pe_id rows"
  by (erule update_cases; simp) (auto simp: delete_statement_def split: if_splits)

lemma numbered_exec:
  assumes "plan_numbered rows" and "distinct (map pe_id rows)" and "well_read c rows"
    and "run_statements (plan_statements c pending) rows = Inr rows'"
  shows "plan_numbered rows'"
proof (cases c)
  case (Create env i actor idem)
  from assms(4) have "create_statement env i actor pending rows = Inr rows'" unfolding Create spec_sel run_Cons by simp
  with assms(1) show ?thesis by (rule numbered_create)
next
  case (Update env t patch actor idem)
  have rd: "knows_scope t rows" "reads_parent t rows" "\<And>xs. mset (pn_ord env xs) = mset xs" using assms(3) by (simp_all add: Update physical_def)
  from assms(4) obtain mid where m: "update_statement env t patch actor rows pending rows = Inr mid"
    and rest: "run_statements (ps_repack (update_spec env t patch actor idem)) mid = Inr rows'"
    unfolding Update plan_statements_def command_spec.simps run_Cons by (auto simp: update_spec_def)
  have dm: "distinct (map pe_id mid)" using mutation_ids(1) [OF m] assms(2) by simp
  show ?thesis
  proof (cases "moving patch")
    case False
    with rest have "rows' = mid" by (simp add: update_spec_def)
    with numbered_update [OF assms(1,2) rd(1,2) m False] show ?thesis by simp
  next
    case True
    let ?hit = "\<lambda>r. pe_id r = tg_id t \<and> pe_workspace_id r = tg_workspace_id t \<and> pe_updated_at r = pn_now env"
    let ?ps = "remdups [tg_parent_id t, new_parent t patch]"
    let ?w = "\<lambda>r. if pe_id r = tg_id t then wanted_position t patch else pe_position r"
    have run: "run_statements (repackQueries (pn_ord env) ?hit ?w t ?ps) mid = Inr rows'"
      using rest unfolding update_spec_def plan_spec.select_convs if_P [OF True] .
    have others: "numbered (siblings ws sc p mid)" if "\<not> (ws = tg_workspace_id t \<and> sc = tg_scope_id t \<and> p \<in> set ?ps)" for ws sc p
      using update_other_groups [OF rd(1,2) m, of ws sc p] that [unfolded set_remdups] assms(1) by (simp add: plan_numbered_def)
    have idle: "plan_numbered mid" if "\<not> list_ex ?hit mid"
      using m
    proof (cases rule: update_cases)
      case (written q)
      then have "patched env t patch actor q \<in> set mid" "?hit (patched env t patch actor q)" by (auto simp: current_target_def)
      with that show ?thesis by (auto simp: list_ex_iff)
    qed (use assms(1) in simp)
    from run dm distinct_remdups rd(3) hit_place(1) others idle show ?thesis by (rule repack_numbered)
  qed
next
  case (Delete env t actor idem)
  have rd: "knows_scope t rows" "reads_parent t rows" "\<And>xs. mset (pn_ord env xs) = mset xs" using assms(3) by (simp_all add: Delete physical_def)
  let ?hit = "\<lambda>r. pe_id r = tg_id t \<and> pe_workspace_id r = tg_workspace_id t \<and> pe_deleted_at r = Some (pn_now env)"
  from assms(4) obtain mid where m: "delete_statement env t actor pending rows = Inr mid"
    and run: "run_statements (repackQueries (pn_ord env) ?hit pe_position t [tg_parent_id t]) mid = Inr rows'"
    unfolding Delete spec_sel run_Cons by blast
  have dm: "distinct (map pe_id mid)" using mutation_ids(2) [OF m] assms(2) by simp
  have others: "numbered (siblings ws sc p mid)" if "\<not> (ws = tg_workspace_id t \<and> sc = tg_scope_id t \<and> p \<in> set [tg_parent_id t])" for ws sc p
    using delete_other_groups [OF rd(1,2) m, of ws sc p] that assms(1) by (simp add: plan_numbered_def)
  have idle: "plan_numbered mid" if "\<not> list_ex ?hit mid"
  proof (cases "pending \<and> (\<exists>q \<in> set rows. current_target t q)")
    case True
    then obtain q where q: "pending" "q \<in> set rows" "current_target t q" by blast
    let ?q = "q\<lparr>pe_deleted_at := Some (pn_now env), pe_updated_at := pn_now env, pe_updated_by := actor\<rparr>"
    have "?q \<in> set mid" using m q by (auto simp: delete_statement_def intro!: image_eqI [of _ _ q])
    moreover have "?hit ?q" using q(3) by (simp add: current_target_def)
    ultimately show ?thesis using that unfolding list_ex_iff by blast
  next
    case False
    then have "mid = rows" using m by (auto simp: delete_statement_def intro: map_idI split: if_splits)
    with assms(1) show ?thesis by simp
  qed
  have "distinct [tg_parent_id t]" by simp
  from run dm this rd(3) hit_place(2) others idle show ?thesis by (rule repack_numbered)
qed

interpretation numbering_history: guarded_history plan_do plan_admit "\<lambda>db. plan_forest (pd_rows db) \<and> plan_numbered (pd_rows db)"
proof
  fix db c
  assume ok: "plan_forest (pd_rows db) \<and> plan_numbered (pd_rows db)" and ad: "plan_admit c db"
  show "plan_forest (pd_rows (plan_do c db)) \<and> plan_numbered (pd_rows (plan_do c db))"
  proof (rule plan_do_keeps [of "\<lambda>rows. plan_forest rows \<and> plan_numbered rows"])
    fix pending rows'
    assume run: "run_statements (plan_statements c pending) (pd_rows db) = Inr rows'"
    show "plan_forest rows' \<and> plan_numbered rows'"
      using ok ad forest_exec [OF _ _ run] numbered_exec [OF _ _ _ run] by (simp add: plan_admit_def plan_forest_def)
  qed (use ok ad in simp_all)
qed

text \<open>
  C16. Siblings stay numbered from zero: in any history of create, update and delete commands over a well-formed plan, whatever
  they answer and in whatever order the database rewrites rows, the live children of every parent in every scope have the positions
  0, 1, 2, ... without gaps or repetitions.
\<close>

theorem siblings_stay_numbered:
  assumes "plan_reach db0 db" and "plan_forest (pd_rows db0)" and "plan_numbered (pd_rows db0)"
  shows "plan_numbered (pd_rows db)"
  using numbering_history.history_keeps [OF assms(1)] assms(2,3) by simp

end
