(* ===== verification/Plan_Moves.thy ===== *)
theory Plan_Moves
  imports Plan_Props
begin

text \<open>
  The answers of the plan commands: what an executed command leaves behind and its retry reads, what a stale command is told,
  where a moved entity lands; and two observations about clocks and concurrency.
\<close>

section \<open>An executed command\<close>

definition fresh_ids :: "plan_spec \<Rightarrow> plan_db \<Rightarrow> bool" where
  "fresh_ids s db \<longleftrightarrow> \<not> list_ex (\<lambda>e. me_id e = ps_event_id s) (pd_events db) \<and>
     \<not> list_ex (\<lambda>a. al_causation_id a = Some (ps_event_id s)) (pd_audit db) \<and> \<not> list_ex (\<lambda>q. ob_id q = ps_outbox_id s) (pd_outbox db)"

definition fresh_claim :: "plan_spec \<Rightarrow> plan_key" where
  "fresh_claim s = \<lparr>pk_workspace_id = ps_workspace_id s, pk_actor_user_id = ps_actor_user_id s,
     pk_route = ii_route (ps_idempotency s), pk_key = ii_key (ps_idempotency s),
     pk_request_sha256 = ii_request_sha256 (ps_idempotency s), pk_status = None, pk_body = None, pk_completed_at = None\<rparr>"

lemma claim_free: "\<not> list_ex (plan_slot s) (pd_keys db) \<Longrightarrow> claim_statement s db = db\<lparr>pd_keys := pd_keys db @ [fresh_claim s]\<rparr>"
  by (simp add: claim_statement_def fresh_claim_def)

lemma fresh_claim_pending: "plan_pending s (fresh_claim s)" "plan_claim_of s (fresh_claim s)" "plan_slot s (fresh_claim s)"
  by (simp_all add: plan_pending_def plan_claim_of_def plan_slot_def fresh_claim_def)

lemma plan_claim_slot: "plan_claim_of s k \<Longrightarrow> plan_slot s k" "plan_pending s k \<Longrightarrow> plan_claim_of s k"
  by (simp_all add: plan_pending_def plan_claim_of_def)

definition settled_key :: "plan_spec \<Rightarrow> plan_receipt \<Rightarrow> plan_key \<Rightarrow> bool" where
  "settled_key s rc k \<longleftrightarrow> plan_claim_of s k \<and> pk_status k \<noteq> None \<and> pk_body k = Some rc"

lemma outbox_once:
  assumes "find (touched s) (pd_rows d) = Some r" and "list_ex (\<lambda>e. me_id e = ps_event_id s) (pd_events d)"
    and "caused_audits s r d = [a]" and "\<not> list_ex (\<lambda>q. ob_id q = ps_outbox_id s) (pd_outbox d)"
  shows "\<exists>q. outbox_statement s d = Inr (d\<lparr>pd_outbox := pd_outbox d @ [q]\<rparr>) \<and> ob_id q = ps_outbox_id s \<and> ob_workspace_id q = pe_workspace_id r"
  unfolding outbox_statement_def assms(1,3) option.case list.case if_not_P [OF assms(4)] using assms(2)
  by (subst if_not_P, blast) (intro exI conjI, rule refl, simp_all)

lemma execute_success:
  assumes free: "\<not> list_ex (plan_slot s) (pd_keys db)" and fresh: "fresh_ids s db"
    and run: "run_statements (ps_mutation s True # ps_repack s) (pd_rows db) = Inr rows"
    and ids: "distinct (map pe_id rows)" and r: "r \<in> set rows" "touched s r"
    and live: "if ps_operation s = Plan_delete then pe_deleted_at r = Some (ps_timestamp s) else pe_deleted_at r = None"
    and full: "ps_entity_id s \<noteq> []" "ps_iso s \<noteq> []" "ps_event_id s \<noteq> []" "ps_outbox_id s \<noteq> []"
  obtains db' a k where "executePlanEntityCommand s db = (db', Inr (command_receipt s r a))" "pd_rows db' = rows"
    "k \<in> set (pd_keys db')" "settled_key s (command_receipt s r a) k" "authority_complete db' k"
proof -
  have only: "q = r" if "q \<in> set rows" "touched s q" for q
    using that r ids by (metis touched_def distinct_map inj_onD)
  have find1: "find (\<lambda>q. touched s q \<and> (if ps_operation s = Plan_delete then pe_deleted_at q = Some (ps_timestamp s) else pe_deleted_at q = None)) rows = Some r"
    by (rule find_unique) (use r live only in blast)+
  have find2: "find (touched s) rows = Some r" by (rule find_unique) (use r only in blast)+
  define d0 where "d0 = db\<lparr>pd_keys := pd_keys db @ [fresh_claim s], pd_rows := rows\<rparr>"
  define d1 where "d1 = event_statement s d0"
  define d2 where "d2 = audit_statement s d1"
  have pend: "list_ex (plan_pending s) (pd_keys d0)" using fresh_claim_pending by (simp add: d0_def)
  have d1: "pd_rows d1 = rows" "pd_keys d1 = pd_keys d0" "pd_audit d1 = pd_audit db" "pd_outbox d1 = pd_outbox db" "pd_audit_seq d1 = pd_audit_seq db"
    "list_ex (\<lambda>e. me_id e = ps_event_id s) (pd_events d1)"
    "list_ex (\<lambda>e. me_id e = ps_event_id s \<and> me_workspace_id e = ps_workspace_id s) (pd_events d1)"
    using find1 pend fresh r(2) by (simp_all add: d1_def event_statement_def d0_def fresh_ids_def touched_def)
  have "\<exists>a. pd_audit d2 = pd_audit db @ [a] \<and> al_causation_id a = Some (ps_event_id s) \<and> al_workspace_id a = pe_workspace_id r \<and> al_action a = plan_action s"
    using find2 d1 by (simp add: d2_def audit_statement_def)
  then obtain a where a: "pd_audit d2 = pd_audit db @ [a]" "al_causation_id a = Some (ps_event_id s)" "al_workspace_id a = pe_workspace_id r"
    "al_action a = plan_action s" by blast
  have d2: "pd_rows d2 = rows" "pd_keys d2 = pd_keys d0" "pd_events d2 = pd_events d1" "pd_outbox d2 = pd_outbox db"
    using d1(1-4) by (auto simp: d2_def audit_statement_def split: option.splits)
  have ca: "caused_audits s r d2 = [a]"
    using fresh a unfolding caused_audits_def fresh_ids_def by (auto simp: list_ex_iff filter_empty_conv)
  have "\<exists>q. outbox_statement s d2 = Inr (d2\<lparr>pd_outbox := pd_outbox db @ [q]\<rparr>) \<and> ob_id q = ps_outbox_id s \<and> ob_workspace_id q = pe_workspace_id r"
    using outbox_once [of s d2 r a] find2 d1(6) fresh ca by (simp add: fresh_ids_def d2)
  then obtain q where q: "outbox_statement s d2 = Inr (d2\<lparr>pd_outbox := pd_outbox db @ [q]\<rparr>)" "ob_id q = ps_outbox_id s"
    "ob_workspace_id q = pe_workspace_id r" by blast
  define d3 where "d3 = d2\<lparr>pd_outbox := pd_outbox db @ [q]\<rparr>"
  define rc where "rc = command_receipt s r a"
  have comp: "completion_of s d3 = Some rc"
    using find2 d1(6) q(2) ca unfolding completion_of_def rc_def d3_def by (simp add: d2 caused_audits_def)
  define d4 where "d4 = fst (complete_statement s d3)"
  let ?done = "\<lambda>k. k\<lparr>pk_status := Some (if ps_operation s = Plan_create then 201 else 200), pk_body := Some rc, pk_completed_at := Some (ps_timestamp s)\<rparr>"
  have old: "\<not> plan_slot s k" if "k \<in> set (pd_keys db)" for k using free that by (auto simp: list_ex_iff)
  have "map (\<lambda>k. if plan_pending s k then ?done k else k) (pd_keys db) = pd_keys db"
    by (rule map_idI) (use old plan_claim_slot in \<open>simp only: if_False split: if_split, blast\<close>)
  then have keys: "pd_keys d4 = pd_keys db @ [?done (fresh_claim s)]"
    unfolding d4_def complete_statement_def comp using fresh_claim_pending by (simp add: d3_def d2 d0_def)
  have compl: "complete_statement s d3 = (d4, True)"
    unfolding d4_def complete_statement_def comp using pend by (simp add: d3_def d2)
  have d4: "pd_rows d4 = rows" "pd_events d4 = pd_events d1" "pd_audit d4 = pd_audit d2" "pd_outbox d4 = pd_outbox db @ [q]"
    unfolding d4_def complete_statement_def comp by (simp_all add: d3_def d2)
  have claimed: "plan_claim_of s (?done (fresh_claim s))" "plan_slot s (?done (fresh_claim s))"
    using fresh_claim_pending by (simp_all add: plan_claim_of_def plan_slot_def)
  have only_claim: "filter (plan_claim_of s) (pd_keys d4) = [?done (fresh_claim s)]"
    using old plan_claim_slot claimed unfolding keys by (auto simp: filter_empty_conv)
  have auth: "authority_complete d4 (?done (fresh_claim s))"
    unfolding authority_complete_def d4 a(1) using d1(7) a(3) q r(2)
    by (simp add: rc_def command_receipt_def Let_def fresh_claim_def touched_def)
  have "plan_transaction s db = (d4, Inr True)"
    using run compl only_claim auth q(1) pend unfolding plan_transaction_def Let_def claim_free [OF free]
    by (simp add: d0_def [symmetric] d1_def [symmetric] d2_def [symmetric] d3_def [symmetric] fresh_claim_pending)
  moreover have "find (plan_slot s) (pd_keys d4) = Some (?done (fresh_claim s))"
    using old claimed unfolding keys by (intro find_unique) auto
  moreover have "receiptFromBody rc False = Inr rc"
    using full r(2) by (simp add: receiptFromBody_def rc_def command_receipt_def Let_def touched_def)
  ultimately have "executePlanEntityCommand s db = (d4, Inr rc)"
    using claimed(1) by (simp add: executePlanEntityCommand_def plan_claim_of_def)
  moreover have "settled_key s rc (?done (fresh_claim s))" using claimed by (simp add: settled_key_def)
  ultimately show ?thesis using that [of d4 a "?done (fresh_claim s)"] d4(1) keys auth by (simp add: rc_def)
qed

section \<open>Completed commands settle\<close>

text \<open>No statement removes an event, an audit row, an outbox row or a completed key, and no slot is ever claimed twice.\<close>

definition key_slot :: "plan_key \<Rightarrow> string \<times> string \<times> string \<times> string" where
  "key_slot k = (pk_workspace_id k, pk_actor_user_id k, pk_route k, pk_key k)"

definition spec_slot :: "plan_spec \<Rightarrow> string \<times> string \<times> string \<times> string" where
  "spec_slot s = (ps_workspace_id s, ps_actor_user_id s, ii_route (ps_idempotency s), ii_key (ps_idempotency s))"

lemma plan_slot_iff: "plan_slot s k \<longleftrightarrow> key_slot k = spec_slot s"
  by (simp add: plan_slot_def key_slot_def spec_slot_def)

definition unique_slots :: "plan_db \<Rightarrow> bool" where
  "unique_slots db \<longleftrightarrow> distinct (map key_slot (pd_keys db))"

definition grows :: "plan_db \<Rightarrow> plan_db \<Rightarrow> bool" where
  "grows db db' \<longleftrightarrow> set (pd_events db) \<subseteq> set (pd_events db') \<and> set (pd_audit db) \<subseteq> set (pd_audit db') \<and>
     set (pd_outbox db) \<subseteq> set (pd_outbox db') \<and> {k \<in> set (pd_keys db). pk_status k \<noteq> None} \<subseteq> set (pd_keys db') \<and>
     (unique_slots db \<longrightarrow> unique_slots db')"

lemma grows_refl [simp]: "grows db db"
  by (simp add: grows_def)

lemma grows_trans [trans]: "grows a b \<Longrightarrow> grows b c \<Longrightarrow> grows a c"
  unfolding grows_def by blast

lemma grows_rows [simp]: "grows db (db'\<lparr>pd_rows := rows\<rparr>) = grows db db'" "grows db (db'\<lparr>pd_audit_seq := n\<rparr>) = grows db db'"
  by (simp_all add: grows_def unique_slots_def)

lemma grows_append: "grows db (db\<lparr>pd_events := pd_events db @ es\<rparr>)" "grows db (db\<lparr>pd_outbox := pd_outbox db @ qs\<rparr>)"
  "grows db (db\<lparr>pd_audit := pd_audit db @ as, pd_audit_seq := n\<rparr>)"
  by (auto simp: grows_def unique_slots_def)

lemma claim_grows: "grows db (claim_statement s db)"
  by (auto simp: claim_statement_def grows_def unique_slots_def list_ex_iff plan_slot_def key_slot_def)

lemma event_grows: "grows db (event_statement s db)"
  using grows_append(1) [of db] by (simp add: event_statement_def split: option.split)

lemma audit_grows: "grows db (audit_statement s db)"
  using grows_append(3) [of db] by (simp add: audit_statement_def split: option.split)

lemma outbox_grows: "outbox_statement s db = Inr db' \<Longrightarrow> grows db db'"
  using grows_append(2) [of db] by (auto simp: outbox_statement_def split: option.splits if_splits list.splits)

lemma complete_grows: "grows db (fst (complete_statement s db))"
proof (cases "completion_of s db")
  case (Some rc)
  define f where "f = (\<lambda>k. if plan_pending s k then k\<lparr>pk_status := Some (if ps_operation s = Plan_create then 201 else 200), pk_body := Some rc,
    pk_completed_at := Some (ps_timestamp s)\<rparr> else k)"
  have slot: "key_slot (f k) = key_slot k" for k by (simp add: f_def key_slot_def)
  have kept: "k = f k" if "pk_status k \<noteq> None" for k
  proof -
    have "\<not> plan_pending s k" using that by (simp add: plan_pending_def)
    then show ?thesis by (simp add: f_def)
  qed
  have "unique_slots (db\<lparr>pd_keys := map f (pd_keys db)\<rparr>) = unique_slots db" by (simp add: unique_slots_def comp_def slot)
  moreover have "{k \<in> set (pd_keys db). pk_status k \<noteq> None} \<subseteq> f ` set (pd_keys db)" using kept by blast
  moreover have "fst (complete_statement s db) = db\<lparr>pd_keys := map f (pd_keys db)\<rparr>" by (simp add: complete_statement_def Some f_def)
  ultimately show ?thesis unfolding grows_def by simp
qed (simp add: complete_statement_def)

lemma transaction_grows: "grows db (fst (plan_transaction s db))"
proof -
  let ?p = "list_ex (plan_pending s) (pd_keys (claim_statement s db))"
  show ?thesis
  proof (cases "run_statements (ps_mutation s ?p # ps_repack s) (pd_rows (claim_statement s db))")
    case (Inl e)
    then show ?thesis unfolding plan_transaction_def Let_def by simp
  next
    case run: (Inr rows)
    define d2 where "d2 = audit_statement s (event_statement s ((claim_statement s db)\<lparr>pd_rows := rows\<rparr>))"
    have "grows db ((claim_statement s db)\<lparr>pd_rows := rows\<rparr>)" using claim_grows by simp
    also note event_grows also note audit_grows
    finally have d2: "grows db d2" unfolding d2_def .
    show ?thesis
    proof (cases "outbox_statement s d2")
      case (Inl e)
      then show ?thesis unfolding plan_transaction_def Let_def run sum.case d2_def [symmetric] by (simp add: rolled_back_def)
    next
      case (Inr d3)
      from d2 outbox_grows [OF Inr] complete_grows [of d3 s] have "grows db (fst (complete_statement s d3))" by (blast intro: grows_trans)
      with Inr show ?thesis unfolding plan_transaction_def Let_def run sum.case d2_def [symmetric]
        by (auto simp: rolled_back_def split: prod.split)
    qed
  qed
qed

lemma release_grows: "grows db (db\<lparr>pd_keys := filter (\<lambda>k. \<not> plan_pending s k) (pd_keys db)\<rparr>)"
  by (auto simp: grows_def unique_slots_def plan_pending_def distinct_map_filter)

lemma execute_grows: "grows db (fst (executePlanEntityCommand s db))"
proof -
  obtain db' x where t: "plan_transaction s db = (db', x)" by (cases "plan_transaction s db")
  have "grows db db'" using transaction_grows [of db s] by (simp add: t)
  moreover have "grows db' (fst (executePlanEntityCommand s db))"
    unfolding executePlanEntityCommand_def t using release_grows [of db' s] by (auto split: sum.split option.split)
  ultimately show ?thesis by (rule grows_trans)
qed

lemma plan_do_grows: "grows db (plan_do c db)"
  unfolding plan_do_def using execute_grows by (cases rule: plan_exec_cases [of c db]) simp_all

definition settled :: "plan_key \<Rightarrow> plan_db \<Rightarrow> bool" where
  "settled k db \<longleftrightarrow> unique_slots db \<and> k \<in> set (pd_keys db) \<and> authority_complete db k"

lemma settled_grows: "grows db db' \<Longrightarrow> settled k db \<Longrightarrow> settled k db'"
  unfolding settled_def grows_def authority_complete_def list_ex_iff by (cases "pk_body k") auto

interpretation settled_history: guarded_history plan_do plan_admit "settled k" for k
  by unfold_locales (blast intro: settled_grows plan_do_grows)

section \<open>A retry reads the receipt\<close>

text \<open>A clock is fresh when no row carries its reading; the database can read what a command asks for.\<close>

definition fresh_clock :: "int \<Rightarrow> plan_row list \<Rightarrow> bool" where
  "fresh_clock now rows \<longleftrightarrow> (\<forall>r \<in> set rows. pe_updated_at r \<noteq> now \<and> pe_deleted_at r \<noteq> Some now)"

fun representable :: "plan_command \<Rightarrow> bool" where
  "representable (Update env t patch actor idem) = int4 (wanted_position t patch + 2 * REPACK_OFFSET)"
| "representable (Create env i actor idem) = date_ok env i"
| "representable _ = True"

fun same_request :: "plan_command \<Rightarrow> plan_command \<Rightarrow> bool" where
  "same_request (Create env i actor idem) (Create env' i' actor' idem') = (i' = i \<and> actor' = actor \<and> idem' = idem)"
| "same_request (Update env t patch actor idem) (Update env' t' patch' actor' idem') =
     (tg_id t' = tg_id t \<and> tg_workspace_id t' = tg_workspace_id t \<and> patch' = patch \<and> actor' = actor \<and> idem' = idem)"
| "same_request (Delete env t actor idem) (Delete env' t' actor' idem') =
     (tg_id t' = tg_id t \<and> tg_workspace_id t' = tg_workspace_id t \<and> actor' = actor \<and> idem' = idem)"
| "same_request _ _ = False"

lemma find_settled:
  assumes "unique_slots db" and "k \<in> set (pd_keys db)" and "plan_slot s k"
  shows "find (plan_slot s) (pd_keys db) = Some k" "filter (plan_claim_of s) (pd_keys db) = (if plan_claim_of s k then [k] else [])"
proof -
  have only: "q = k" if "q \<in> set (pd_keys db)" "plan_slot s q" for q
    using that assms by (metis plan_slot_iff unique_slots_def distinct_map inj_onD)
  from assms(2,3) only show "find (plan_slot s) (pd_keys db) = Some k" by (rule find_unique)
  have d: "distinct (pd_keys db)" using assms(1) by (simp add: unique_slots_def distinct_map)
  from split_list [OF assms(2)] obtain xs ys where sp: "pd_keys db = xs @ k # ys" by blast
  have no: "\<not> plan_claim_of s q" if "q \<in> set xs \<union> set ys" for q
  proof -
    have "q \<in> set (pd_keys db)" "q \<noteq> k" using d that unfolding sp by auto
    with only plan_claim_slot(1) show ?thesis by blast
  qed
  show "filter (plan_claim_of s) (pd_keys db) = (if plan_claim_of s k then [k] else [])" unfolding sp using no by (simp add: filter_empty_conv)
qed

text \<open>A command whose statements touch nothing writes nothing.\<close>

definition idle_rows :: "plan_spec \<Rightarrow> bool \<Rightarrow> plan_row list \<Rightarrow> bool" where
  "idle_rows s pending rows \<longleftrightarrow> run_statements (ps_mutation s pending # ps_repack s) rows = Inr rows \<and> \<not> list_ex (touched s) rows"

lemma idle_transaction:
  assumes "idle_rows s (list_ex (plan_pending s) (pd_keys (claim_statement s db))) (pd_rows db)"
  shows "plan_transaction s db =
    (if list_all (authority_complete (claim_statement s db)) (filter (plan_claim_of s) (pd_keys (claim_statement s db)))
     then (claim_statement s db, Inr False) else (db, Inl None))"
proof -
  define d where "d = claim_statement s db"
  have d: "pd_rows d = pd_rows db" "pd_audit_seq d = pd_audit_seq db" by (simp_all add: d_def claim_statement_def)
  have nt: "\<not> list_ex (touched s) (pd_rows d)" using assms by (simp add: idle_rows_def d)
  then have "find (touched s) (pd_rows d) = None" by (auto simp: find_None_iff list_ex_iff)
  moreover have "find (\<lambda>r. touched s r \<and> X r) (pd_rows d) = None" for X using nt by (auto simp: find_None_iff list_ex_iff)
  ultimately have "event_statement s d = d" "audit_statement s d = d" "outbox_statement s d = Inr d" "complete_statement s d = (d, False)"
    by (simp_all add: event_statement_def audit_statement_def outbox_statement_def complete_statement_def completion_of_def)
  moreover have "run_statements (ps_mutation s (list_ex (plan_pending s) (pd_keys d)) # ps_repack s) (pd_rows d) = Inr (pd_rows d)"
    using assms unfolding idle_rows_def d d_def [symmetric] by blast
  moreover have "d\<lparr>pd_rows := pd_rows d\<rparr> = d" "rolled_back db d = db" by (simp_all add: rolled_back_def d)
  ultimately show ?thesis unfolding plan_transaction_def Let_def d_def [symmetric] by (simp only: sum.case prod.case)
qed

lemma settled_execute:
  assumes "settled k db" and "plan_claim_of s k" and "pk_body k = Some b" and "idle_rows s False (pd_rows db)"
  shows "executePlanEntityCommand s db = (db, receiptFromBody b True)"
proof -
  have k: "unique_slots db" "k \<in> set (pd_keys db)" "authority_complete db k" "plan_slot s k"
    using assms(1,2) plan_claim_slot by (auto simp: settled_def)
  note fk = find_settled [OF k(1,2,4)]
  have st: "\<exists>st. pk_status k = Some st" using k(3) by (simp add: authority_complete_def)
  have "list_ex (plan_slot s) (pd_keys db)" using k(2,4) by (auto simp: list_ex_iff)
  then have cl: "claim_statement s db = db" by (simp add: claim_statement_def)
  have "\<not> list_ex (plan_pending s) (pd_keys db)"
  proof
    assume "list_ex (plan_pending s) (pd_keys db)"
    then obtain q where "q \<in> set (pd_keys db)" "plan_pending s q" by (auto simp: list_ex_iff)
    then have "q \<in> set (filter (plan_claim_of s) (pd_keys db))" using plan_claim_slot(2) by auto
    with fk(2) assms(2) have "q = k" by simp
    with \<open>plan_pending s q\<close> st show False by (simp add: plan_pending_def)
  qed
  then have "list_ex (plan_pending s) (pd_keys db) = False" by simp
  with idle_transaction [of s db] assms(2,4) fk(2) k(3) have "plan_transaction s db = (db, Inr False)" unfolding cl by simp
  with fk(1) st assms(2,3) show ?thesis unfolding executePlanEntityCommand_def by (auto simp: plan_claim_of_def)
qed

lemma transaction_completed:
  assumes "plan_transaction s db = (db', Inr True)"
  shows "list_ex (plan_claim_of s) (pd_keys db')" "list_all (authority_complete db') (filter (plan_claim_of s) (pd_keys db'))"
proof -
  have fin: "list_ex (plan_claim_of s) (pd_keys d')" if "complete_statement s d = (d', True)" for d d'
  proof (cases "completion_of s d")
    case (Some rc)
    define f where "f = (\<lambda>k. if plan_pending s k then k\<lparr>pk_status := Some (if ps_operation s = Plan_create then 201 else 200),
      pk_body := Some rc, pk_completed_at := Some (ps_timestamp s)\<rparr> else k)"
    have d': "pd_keys d' = map f (pd_keys d)" "list_ex (plan_pending s) (pd_keys d)"
      using that by (auto simp: complete_statement_def Some f_def)
    then obtain k where "k \<in> set (pd_keys d)" "plan_pending s k" by (auto simp: list_ex_iff)
    moreover have "plan_claim_of s (f k) = plan_claim_of s k" by (simp add: f_def plan_claim_of_def plan_slot_def)
    ultimately show ?thesis using plan_claim_slot(2) by (auto simp: d' list_ex_iff)
  qed (use that in \<open>simp add: complete_statement_def\<close>)
  show "list_ex (plan_claim_of s) (pd_keys db')" "list_all (authority_complete db') (filter (plan_claim_of s) (pd_keys db'))"
    using assms unfolding plan_transaction_def Let_def by (auto split: sum.splits prod.splits if_splits dest: fin)
qed

lemma execute_completed:
  assumes "executePlanEntityCommand s db = (db1, Inr rc)" and "\<not> pc_replayed rc"
  obtains k b where "plan_transaction s db = (db1, Inr True)" "find (plan_slot s) (pd_keys db1) = Some k" "pk_body k = Some b"
    "receiptFromBody b True = Inr (rc\<lparr>pc_replayed := True\<rparr>)"
proof -
  have rb: "receiptFromBody b v = Inr rc \<Longrightarrow> pc_replayed rc = v \<and> receiptFromBody b True = Inr (rc\<lparr>pc_replayed := True\<rparr>)" for b v
    by (auto simp: receiptFromBody_def split: if_splits)
  obtain d x where t: "plan_transaction s db = (d, x)" by (cases "plan_transaction s db")
  from assms(1) obtain completed k b where c: "x = Inr completed" "find (plan_slot s) (pd_keys d) = Some k" "pk_body k = Some b" "db1 = d"
    "receiptFromBody b (\<not> completed) = Inr rc"
    unfolding executePlanEntityCommand_def t by (auto split: sum.splits option.splits if_splits)
  from rb [OF c(5)] assms(2) t c that show ?thesis by simp
qed

lemma execute_first:
  assumes "executePlanEntityCommand s db = (db1, Inr rc)" and "\<not> pc_replayed rc" and "unique_slots db"
  obtains k b where "settled k db1" "plan_claim_of s k" "pk_body k = Some b" "receiptFromBody b True = Inr (rc\<lparr>pc_replayed := True\<rparr>)"
proof -
  from execute_completed [OF assms(1,2)] obtain k b where c: "plan_transaction s db = (db1, Inr True)"
    "find (plan_slot s) (pd_keys db1) = Some k" "pk_body k = Some b" "receiptFromBody b True = Inr (rc\<lparr>pc_replayed := True\<rparr>)" .
  note fin = transaction_completed [OF c(1)]
  have k: "k \<in> set (pd_keys db1)" "plan_slot s k" using find_Some_in [OF c(2)] by simp_all
  have u: "unique_slots db1" using transaction_grows [of db s] assms(3) by (simp add: c(1) grows_def)
  note fk = find_settled [OF u k]
  from fin(1) fk(2) have "plan_claim_of s k" by (auto simp: list_ex_iff filter_empty_conv split: if_splits)
  with fin(2) fk(2) k u c(3,4) that show ?thesis by (simp add: settled_def)
qed

lemma idle_retry:
  assumes "fresh_clock (ps_timestamp (command_spec c)) rows" and "representable c"
  shows "idle_rows (command_spec c) False rows"
proof -
  have "\<not> list_ex (touched (command_spec c)) rows" using assms(1) by (auto simp: list_ex_iff touched_def fresh_clock_def)
  moreover have "run_statements (ps_mutation (command_spec c) False # ps_repack (command_spec c)) rows = Inr rows"
  proof (cases c)
    case (Create env i actor idem)
    then show ?thesis using assms(2) by (simp add: create_spec_def create_statement_def Let_def)
  next
    case (Update env t patch actor idem)
    have "\<not> list_ex (\<lambda>r. pe_id r = tg_id t \<and> pe_workspace_id r = tg_workspace_id t \<and> pe_updated_at r = pn_now env) rows"
      using assms(1) by (auto simp: Update update_spec_def fresh_clock_def list_ex_iff)
    then show ?thesis using assms(2) by (simp add: Update update_spec_def update_statement_def repackQueries_def)
  next
    case (Delete env t actor idem)
    have "\<not> list_ex (\<lambda>r. pe_id r = tg_id t \<and> pe_workspace_id r = tg_workspace_id t \<and> pe_deleted_at r = Some (pn_now env)) rows"
      using assms(1) by (auto simp: Delete delete_spec_def fresh_clock_def list_ex_iff)
    then show ?thesis by (simp add: Delete delete_spec_def delete_statement_def repackQueries_def)
  qed
  ultimately show ?thesis by (simp add: idle_rows_def)
qed

lemma valid_retry:
  assumes "plan_exec c db = (db1, Inr rc)" and "same_request c c'"
  shows "plan_exec c' db2 = executePlanEntityCommand (command_spec c') db2" "plan_exec c db = executePlanEntityCommand (command_spec c) db"
    "plan_claim_of (command_spec c') = plan_claim_of (command_spec c)"
proof -
  have at: "attempt d r f = (d', Inr y) \<longleftrightarrow> (\<exists>a. r = Inr a \<and> f a = (d', Inr y))"
    for d d' :: plan_db and r :: "plan_error + unit" and f and y :: plan_receipt by (cases r) auto
  show "plan_exec c' db2 = executePlanEntityCommand (command_spec c') db2"
    using assms by (cases c; cases c') (auto simp: createPlanEntityWithAuthorityRow_def updatePlanEntityWithAuthorityRow_def
        deletePlanEntityWithAuthorityRow_def at)
  show "plan_exec c db = executePlanEntityCommand (command_spec c) db"
    using assms(1) by (cases rule: plan_exec_cases [of c db]) simp_all
  show "plan_claim_of (command_spec c') = plan_claim_of (command_spec c)"
    using assms(2) by (cases c; cases c') (auto simp: fun_eq_iff plan_claim_of_def plan_slot_def create_spec_def update_spec_def delete_spec_def)
qed

text \<open>
  C18. A retry reads the receipt: once a plan command has succeeded, whatever plan commands follow, the same request under the same
  key answers the recorded receipt marked as replayed and changes nothing, whatever the identifiers, the clock and the version of
  the target the retry comes with (its clock being fresh, the position it asks for representable and its date readable).
\<close>

theorem plan_command_replays:
  assumes "plan_exec c db = (db1, Inr rc)" and "\<not> pc_replayed rc" and "unique_slots db" and "plan_reach db1 db2"
    and "same_request c c'" and "representable c'" and "fresh_clock (ps_timestamp (command_spec c')) (pd_rows db2)"
  shows "plan_exec c' db2 = (db2, Inr (rc\<lparr>pc_replayed := True\<rparr>))"
proof -
  note v = valid_retry [OF assms(1,5)]
  from assms(1) v(2) have "executePlanEntityCommand (command_spec c) db = (db1, Inr rc)" by simp
  from execute_first [OF this assms(2,3)] obtain k b where k: "settled k db1" "plan_claim_of (command_spec c) k" "pk_body k = Some b"
    "receiptFromBody b True = Inr (rc\<lparr>pc_replayed := True\<rparr>)" .
  from settled_history.history_keeps [OF assms(4) k(1)] have "settled k db2" .
  from settled_execute [OF this _ k(3) idle_retry [OF assms(7,6)]] k(2,4) v(3) show ?thesis unfolding v(1) by simp
qed

section \<open>Refused commands\<close>

fun refused :: "plan_command \<Rightarrow> plan_row list \<Rightarrow> bool" where
  "refused (Create env i actor idem) rows = parent_missing i rows"
| "refused (Update env t patch actor idem) rows = (\<not> list_ex (current_target t) rows \<or> \<not> admissible_parent t (new_parent t patch) rows)"
| "refused (Delete env t actor idem) rows = (\<not> list_ex (current_target t) rows)"

lemma idle_refused:
  assumes "fresh_clock (ps_timestamp (command_spec c)) rows" and "representable c" and "refused c rows"
  shows "idle_rows (command_spec c) True rows"
proof -
  have "run_statements (ps_repack (command_spec c)) rows = Inr rows"
    using idle_retry [OF assms(1,2)] assms(2) unfolding idle_rows_def by (cases c) (auto simp: run_Cons create_spec_def
        update_spec_def update_statement_def delete_spec_def delete_statement_def split: if_splits)
  moreover have "ps_mutation (command_spec c) True rows = Inr rows"
  proof (cases c)
    case (Delete env t actor idem)
    then have "\<not> current_target t r" if "r \<in> set rows" for r using assms(3) that by (auto simp: list_ex_iff)
    then show ?thesis by (simp add: Delete delete_spec_def delete_statement_def map_idI)
  qed (use assms(2,3) in \<open>auto simp: create_spec_def create_statement_def update_spec_def update_statement_def Let_def\<close>)
  ultimately show ?thesis using idle_retry [OF assms(1,2)] by (simp add: idle_rows_def)
qed

lemma idle_conflict:
  assumes "idle_rows s True (pd_rows db)" and "\<not> list_ex (plan_slot s) (pd_keys db)"
  shows "executePlanEntityCommand s db = (db, Inl plan_conflict)"
proof -
  note c = claim_free [OF assms(2)]
  have "list_ex (plan_pending s) (pd_keys (claim_statement s db)) = True" using fresh_claim_pending by (simp add: c)
  moreover have "\<not> list_all (authority_complete (claim_statement s db)) (filter (plan_claim_of s) (pd_keys (claim_statement s db)))"
    using fresh_claim_pending by (simp add: c authority_complete_def plan_pending_def)
  ultimately have "plan_transaction s db = (db, Inl None)" using idle_transaction [of s db] assms(1) by simp
  then show ?thesis by (simp add: executePlanEntityCommand_def)
qed


subsection \<open>The children of a deleted entity\<close>

definition dead :: "string \<Rightarrow> plan_row list \<Rightarrow> bool" where
  "dead i rows \<longleftrightarrow> (\<exists>r \<in> set rows. pe_id r = i) \<and> (\<forall>r \<in> set rows. pe_id r = i \<longrightarrow> \<not> live_row r)"

lemma dead_cong:
  assumes "map unplaced rows' = map unplaced rows"
  shows "dead i rows' = dead i rows"
proof -
  have sets: "unplaced ` set rows' = unplaced ` set rows" by (metis assms set_map)
  have d: "dead i xs \<longleftrightarrow> (\<exists>r \<in> unplaced ` set xs. pe_id r = i) \<and> (\<forall>r \<in> unplaced ` set xs. pe_id r = i \<longrightarrow> \<not> live_row r)" for xs
    by (simp add: dead_def)
  show ?thesis unfolding d [of rows'] d [of rows] sets ..
qed

lemma dead_map:
  assumes "dead i rows" and "\<And>r. r \<in> set rows \<Longrightarrow> pe_id (f r) = pe_id r" and "\<And>r. r \<in> set rows \<Longrightarrow> live_row (f r) \<Longrightarrow> live_row r"
  shows "dead i (map f rows)"
  using assms unfolding dead_def by auto

lemma dead_exec:
  assumes "dead i rows" and "run_statements (plan_statements c pending) rows = Inr rows'"
  shows "dead i rows'"
proof (cases c)
  case (Create env inp actor idem)
  from assms(2) have "create_statement env inp actor pending rows = Inr rows'" unfolding Create spec_sel run_Cons by simp
  then show ?thesis using assms(1) by (cases rule: create_cases) (auto simp: dead_def)
next
  case (Update env t patch actor idem)
  from assms(2) obtain mid where m: "update_statement env t patch actor rows pending rows = Inr mid" "map unplaced rows' = map unplaced mid"
    unfolding Update spec_sel run_Cons by (cases "moving patch") (auto dest: repack_unplaced)
  have "dead i mid" using m(1) by (cases rule: update_cases) (use assms(1) in \<open>auto intro!: dead_map split: if_splits\<close>)
  with dead_cong [OF m(2)] show ?thesis by simp
next
  case (Delete env t actor idem)
  from assms(2) obtain mid where m: "delete_statement env t actor pending rows = Inr mid" "map unplaced rows' = map unplaced mid"
    unfolding Delete spec_sel run_Cons by (auto dest: repack_unplaced)
  have "dead i mid" using m(1) assms(1) by (auto simp: delete_statement_def live_row_def intro!: dead_map split: if_splits)
  with dead_cong [OF m(2)] show ?thesis by simp
qed

interpretation dead_history: guarded_history plan_do plan_admit "\<lambda>db. dead i (pd_rows db)" for i
proof
  fix db c
  assume d: "dead i (pd_rows db)" and ad: "plan_admit c db"
  from d ad dead_exec [OF d] show "dead i (pd_rows (plan_do c db))" by (rule plan_do_keeps)
qed

text \<open>
  C21. The children of a deleted entity are frozen: from the moment an entity is deleted, whatever plan commands follow, every update
  of a child that does not move it elsewhere is answered with the conflict error and changes nothing, although the child is live and
  the caller has just read it.
\<close>

theorem orphan_is_frozen:
  assumes "dead p (pd_rows db)" and "plan_reach db db'" and "tg_parent_id t = Some p" and "pp_parent_id patch = None"
    and "\<not> list_ex (plan_slot (update_spec env t patch actor idem)) (pd_keys db')"
    and "fresh_clock (pn_now env) (pd_rows db')" and "representable (Update env t patch actor idem)"
  shows "executePlanEntityCommand (update_spec env t patch actor idem) db' = (db', Inl plan_conflict)"
proof -
  have "dead p (pd_rows db')" using dead_history.history_keeps [OF assms(2,1)] .
  then have "\<not> list_ex (parent_in_scope (tg_workspace_id t) (tg_scope_id t) p) (pd_rows db')"
    by (auto simp: dead_def list_ex_iff parent_in_scope_def)
  then have ref: "refused (Update env t patch actor idem) (pd_rows db')"
    using assms(3,4) by (simp add: admissible_parent_def new_parent_def)
  have "fresh_clock (ps_timestamp (command_spec (Update env t patch actor idem))) (pd_rows db')" using assms(6) by (simp add: update_spec_def)
  from idle_conflict [OF idle_refused [OF this assms(7) ref]] assms(5) show ?thesis by simp
qed

section \<open>Two commands in one millisecond\<close>

lemma stale_rename_idle:
  assumes "distinct (map pe_id rows)" and "e \<in> set rows" and "pe_id e = tg_id t" and "pe_updated_at e \<noteq> tg_updated_at t" and "\<not> moving patch"
    and "int4 (wanted_position t patch + 2 * REPACK_OFFSET)"
  shows "run_statements (ps_mutation (update_spec env t patch actor idem) True # ps_repack (update_spec env t patch actor idem)) rows = Inr rows"
proof -
  have "\<not> current_target t r" if "r \<in> set rows" for r
    using assms(1-4) that by (metis current_target_def distinct_map inj_onD)
  then have "\<not> list_ex (current_target t) rows" by (auto simp: list_ex_iff)
  with assms(5,6) show ?thesis by (simp add: update_spec_def update_statement_def Let_def)
qed

text \<open>
  C22. A lost update is acknowledged: when another command wrote the entity in the millisecond the command runs in, a rename or status
  change that was prepared against the older version writes nothing and is answered with a fresh receipt carrying the other
  command's row, instead of the conflict error.
\<close>

theorem lost_update_is_acknowledged:
  assumes "distinct (map pe_id (pd_rows db))" and "e \<in> set (pd_rows db)" and "live_row e" and "pe_id e = tg_id t" and "pe_workspace_id e = tg_workspace_id t"
    and "pe_updated_at e = pn_now env" and "tg_updated_at t \<noteq> pn_now env" and "\<not> moving patch" and "int4 (wanted_position t patch + 2 * REPACK_OFFSET)"
    and "validatePlanIdempotency idem (planRouteIdentity Plan_update (tg_id t)) = Inr ()" and "\<forall>v. pp_title patch = Some v \<longrightarrow> v \<noteq> [] \<and> length v \<le> 200"
    and "fresh_ids (update_spec env t patch actor idem) db" and "\<not> list_ex (plan_slot (update_spec env t patch actor idem)) (pd_keys db)"
    and "tg_id t \<noteq> []" and "pn_iso env (pn_now env) \<noteq> []"
  shows "\<exists>db' rc. updatePlanEntityWithAuthorityRow env t patch actor idem db = (db', Inr rc) \<and> pd_rows db' = pd_rows db \<and>
    pc_entity rc = Some e \<and> \<not> pc_replayed rc"
proof -
  define s where "s = update_spec env t patch actor idem"
  have run: "run_statements (ps_mutation s True # ps_repack s) (pd_rows db) = Inr (pd_rows db)"
    unfolding s_def using stale_rename_idle [OF assms(1,2,4) _ assms(8,9)] assms(6,7) by simp
  have e: "touched s e" using assms(4-6) by (simp add: touched_def s_def update_spec_def)
  have op: "ps_operation s = Plan_update" by (simp add: s_def update_spec_def)
  have live: "if ps_operation s = Plan_delete then pe_deleted_at e = Some (ps_timestamp s) else pe_deleted_at e = None"
    using assms(3) by (simp add: op live_row_def)
  have full: "ps_entity_id s \<noteq> []" "ps_iso s \<noteq> []" "ps_event_id s \<noteq> []" "ps_outbox_id s \<noteq> []"
    using assms(14,15) by (simp_all add: s_def update_spec_def)
  from execute_success [OF assms(13) [folded s_def] assms(12) [folded s_def] run assms(1,2) e live full]
  obtain db' a where "executePlanEntityCommand s db = (db', Inr (command_receipt s e a))" "pd_rows db' = pd_rows db" by metis
  moreover have "updatePlanEntityWithAuthorityRow env t patch actor idem db = executePlanEntityCommand s db"
    using assms(10,11) unfolding updatePlanEntityWithAuthorityRow_def s_def by (auto split: option.split)
  ultimately show ?thesis by (simp add: command_receipt_def op)
qed

end
