(* ===== verification/Plan_Landing.thy ===== *)
theory Plan_Landing
  imports Plan_Moves
begin

text \<open>
  Where a moved entity lands. Abstractly the children of a parent are a list of identifiers, and a move takes an identifier out of
  every list and puts it in front of what stood at the requested position. The move statements, with their intermediate numbers
  and the unique index checked row by row, implement that list operation and never fail.
\<close>

section \<open>The order of siblings\<close>

definition ordered :: "string \<Rightarrow> string option \<Rightarrow> string option \<Rightarrow> plan_row list \<Rightarrow> string list" where
  "ordered ws sc p rows = map pe_id (sort_key pe_position (siblings ws sc p rows))"

definition insert_before :: "string \<Rightarrow> nat \<Rightarrow> string list \<Rightarrow> string list" where
  "insert_before i w xs = removeAll i (take w xs) @ i # removeAll i (drop w xs)"

lemma insort_key_split:
  "sorted (map f xs) \<Longrightarrow> insort_key f x xs = filter (\<lambda>y. f y < f x) xs @ x # filter (\<lambda>y. \<not> f y < f x) xs"
proof (induction xs)
  case (Cons y ys)
  show ?case
  proof (cases "f x \<le> f y")
    case True
    then have "\<not> f z < f x" if "z \<in> set (y # ys)" for z using Cons.prems that by force
    then have "filter (\<lambda>z. f z < f x) (y # ys) = []" "filter (\<lambda>z. \<not> f z < f x) (y # ys) = y # ys"
      by (simp_all add: filter_empty_conv)
    then show ?thesis using True by simp
  next
    case False
    then have "f y < f x" by simp
    with False Cons show ?thesis by simp
  qed
qed simp

lemma numbered_positions:
  assumes "numbered g"
  shows "map pe_position (sort_key pe_position g) = map int [0..<length g]" "inj_on pe_position (set g)"
proof -
  have m: "mset (map pe_position g) = mset (map int [0..<length g])" using assms by (simp add: numbered_def)
  have "sorted (map pe_position (sort_key pe_position g))" by simp
  moreover have "sorted (map int [0..<length g])" by (simp add: sorted_map)
  moreover have "mset (map pe_position (sort_key pe_position g)) = mset (map int [0..<length g])" using m by simp
  ultimately show "map pe_position (sort_key pe_position g) = map int [0..<length g]"
    by (metis sort_key_id_if_sorted sorted_sort_id properties_for_sort)
  have "distinct (map int [0..<length g])" by (simp add: distinct_map)
  then have "distinct (map pe_position g)" using m mset_eq_imp_distinct_iff by blast
  then show "inj_on pe_position (set g)" by (simp add: distinct_map)
qed

lemma filter_positions:
  assumes "map pe_position xs = map int [0..<length xs]" and "0 \<le> w"
  shows "filter (\<lambda>r. pe_position r < w) xs = take (nat w) xs" "filter (\<lambda>r. \<not> pe_position r < w) xs = drop (nat w) xs"
proof -
  have pos: "pe_position (xs ! k) = int k" if "k < length xs" for k
    using arg_cong [OF assms(1), of "\<lambda>l. l ! k"] that by simp
  have lo: "pe_position r < w" if "r \<in> set (take (nat w) xs)" for r
    using that assms(2) pos by (auto simp: in_set_conv_nth)
  have hi: "\<not> pe_position r < w" if "r \<in> set (drop (nat w) xs)" for r
    using that assms(2) pos by (auto simp: in_set_conv_nth)
  have sp: "xs = take (nat w) xs @ drop (nat w) xs" by simp
  show "filter (\<lambda>r. pe_position r < w) xs = take (nat w) xs"
    by (subst sp, unfold filter_append) (use lo hi in \<open>simp add: filter_empty_conv filter_id_conv\<close>)
  show "filter (\<lambda>r. \<not> pe_position r < w) xs = drop (nat w) xs"
    by (subst sp, unfold filter_append) (use lo hi in \<open>simp add: filter_empty_conv filter_id_conv\<close>)
qed

section \<open>Ranking\<close>

lemma target_first:
  assumes "distinct (map pe_id L)" and "e \<in> set L" and "pe_id e = i"
  obtains L' where "sort_key (\<lambda>r. if pe_id r = i then (0::int) else 1) L = e # L'" "mset L' = mset (filter (\<lambda>r. pe_id r \<noteq> i) L)"
proof -
  let ?k = "\<lambda>r. if pe_id r = i then (0::int) else 1"
  let ?L = "sort_key ?k L"
  have d: "distinct (map pe_id ?L)" using assms(1) mset_eq_imp_distinct_iff [of "map pe_id ?L" "map pe_id L"] by simp
  have uniq: "r = e" if "r \<in> set L" "pe_id r = i" for r using that assms by (metis distinct_map inj_onD)
  have "e \<in> set ?L" using assms(2) by simp
  from split_list [OF this] obtain xs ys where sp: "?L = xs @ e # ys" by blast
  have "xs = []"
  proof (rule ccontr)
    assume "xs \<noteq> []"
    then obtain x xs' where x: "xs = x # xs'" by (cases xs) auto
    have "sorted (map ?k ?L)" by simp
    then have "?k x \<le> ?k e" unfolding sp x by simp
    then have "pe_id x = i" using assms(3) by (simp split: if_splits)
    with d show False unfolding sp x using assms(3) by simp
  qed
  with sp have s: "?L = e # ys" by simp
  have "mset (filter (\<lambda>r. pe_id r \<noteq> i) ?L) = mset (filter (\<lambda>r. pe_id r \<noteq> i) L)" by (simp add: mset_filter)
  moreover have "filter (\<lambda>r. pe_id r \<noteq> i) ?L = ys" using d assms(3) unfolding s by (auto simp: filter_id_conv image_iff)
  ultimately show ?thesis using that [OF s] by simp
qed

text \<open>\<open>others\<close> are the siblings without the target.\<close>

abbreviation others :: "string \<Rightarrow> plan_row list \<Rightarrow> plan_row list" where
  "others i g \<equiv> filter (\<lambda>r. pe_id r \<noteq> i) g"

lemma sorted_others:
  assumes "mset L = mset (others i g)" and "numbered g" and "\<And>r. r \<in> set (others i g) \<Longrightarrow> w r = pe_position r"
  shows "sort_key w L = others i (sort_key pe_position g)"
proof (rule sort_key_inj_key_eq)
  show "mset L = mset (others i (sort_key pe_position g))" using assms(1) by (simp add: mset_filter)
  have s: "set L = set (others i g)" using assms(1) by (rule mset_eq_setD)
  have "inj_on pe_position (set L)" using numbered_positions(2) [OF assms(2)] unfolding s by (auto intro: inj_on_subset)
  then show "inj_on w (set L)" using inj_on_cong [of "set (others i g)" w pe_position] assms(3) unfolding s by blast
  have eq: "map w (others i (sort_key pe_position g)) = map pe_position (others i (sort_key pe_position g))" using assms(3) by simp
  show "sorted (map w (others i (sort_key pe_position g)))" unfolding eq by (rule sorted_filter) simp
qed

lemma ranked_with:
  assumes "distinct (map pe_id h)" and "e \<in> set h" and "pe_id e = i" and "others i h = others i g" and "numbered g"
    and "\<And>r. r \<in> set (others i g) \<Longrightarrow> W r = pe_position r" and "0 \<le> W e"
  shows "map pe_id (ranked W i h) = insert_before i (nat (W e)) (map pe_id (sort_key pe_position g))"
proof -
  let ?B = "sort_key pe_updated_at (sort_key pe_id h)"
  have "distinct (map pe_id ?B)" using assms(1) mset_eq_imp_distinct_iff [of "map pe_id ?B" "map pe_id h"] by simp
  from target_first [OF this _ assms(3)] assms(2) obtain L' where
    L: "sort_key (\<lambda>r. if pe_id r = i then (0::int) else 1) ?B = e # L'" "mset L' = mset (others i ?B)" by auto
  have mL: "mset L' = mset (others i g)" using L(2) arg_cong [OF assms(4), of mset] by (simp add: mset_filter)
  let ?xs = "sort_key pe_position g"
  note so = sorted_others [OF mL assms(5,6)]
  have Wx: "W r = pe_position r" if "r \<in> set (others i ?xs)" for r using assms(6) that by simp
  have pos: "map pe_position ?xs = map int [0..<length ?xs]" using numbered_positions(1) [OF assms(5)] by simp
  have "ranked W i h = insort_key W e (others i ?xs)" unfolding ranked_def L(1) using so by simp
  also have "\<dots> = filter (\<lambda>r. W r < W e) (others i ?xs) @ e # filter (\<lambda>r. \<not> W r < W e) (others i ?xs)"
    by (rule insort_key_split) (metis so sorted_sort_key)
  also have "\<dots> = others i (take (nat (W e)) ?xs) @ e # others i (drop (nat (W e)) ?xs)"
  proof -
    have "filter (\<lambda>r. W r < W e) (others i ?xs) = filter (\<lambda>r. pe_position r < W e) (others i ?xs)"
      using Wx by (intro filter_cong) auto
    also have "\<dots> = others i (filter (\<lambda>r. pe_position r < W e) ?xs)" by (simp add: conj_commute)
    finally have lo: "filter (\<lambda>r. W r < W e) (others i ?xs) = others i (take (nat (W e)) ?xs)"
      unfolding filter_positions(1) [OF pos assms(7)] .
    have "filter (\<lambda>r. \<not> W r < W e) (others i ?xs) = filter (\<lambda>r. \<not> pe_position r < W e) (others i ?xs)"
      using Wx by (intro filter_cong) auto
    also have "\<dots> = others i (filter (\<lambda>r. \<not> pe_position r < W e) ?xs)" by (simp add: conj_commute)
    finally show ?thesis unfolding lo filter_positions(2) [OF pos assms(7)] by simp
  qed
  finally show ?thesis
    by (simp add: insert_before_def removeAll_filter_not_eq filter_map comp_def take_map drop_map assms(3) eq_commute)
qed

lemma ranked_without:
  assumes "i \<notin> pe_id ` set h" and "h = others i g" and "numbered g" and "\<And>r. r \<in> set (others i g) \<Longrightarrow> W r = pe_position r"
  shows "map pe_id (ranked W i h) = removeAll i (map pe_id (sort_key pe_position g))"
proof -
  have "ranked W i h = others i (sort_key pe_position g)"
    unfolding ranked_def by (rule sorted_others [OF _ assms(3,4)]) (simp_all add: assms(2))
  then show ?thesis by (simp add: removeAll_filter_not_eq filter_map comp_def eq_commute)
qed

text \<open>After a re-pack the rows of a group are ordered as they were ranked.\<close>

lemma ordered_rerank:
  assumes "distinct (map pe_id rows)" and "p \<in> set ps"
  shows "ordered (tg_workspace_id t) (tg_scope_id t) p (map (rerank w t ps rows) rows) = map pe_id (ranked w (tg_id t) (sibs t rows p))"
proof -
  let ?g = "sibs t rows p" and ?f = "rerank w t ps rows"
  let ?x = "ranked w (tg_id t) ?g"
  have pos: "pe_position (?f r) = int (rank_of ?x (pe_id r))" if "r \<in> set ?x" for r
    using that assms(2) by (simp add: rerank_def siblings_def)
  have "map pe_position (map ?f ?x) = map int (map (\<lambda>r. rank_of ?x (pe_id r)) ?x)" using pos by simp
  also have "\<dots> = map int [0..<length ?x]" using map_rank [of ?x] siblings_ids [OF assms(1)] by (simp only: ranked_distinct)
  finally have mp: "map pe_position (map ?f ?x) = map int [0..<length ?x]" .
  have "sort_key pe_position (map ?f ?g) = map ?f ?x"
  proof (rule sort_key_inj_key_eq)
    show "mset (map ?f ?g) = mset (map ?f ?x)" by simp
    have "distinct (map pe_position (map ?f ?x))" unfolding mp by (simp add: distinct_map)
    then have "inj_on pe_position (set (map ?f ?x))" by (simp only: distinct_map)
    then show "inj_on pe_position (set (map ?f ?g))" by simp
    show "sorted (map pe_position (map ?f ?x))" unfolding mp by (simp add: sorted_map)
  qed
  then show ?thesis unfolding ordered_def siblings_rerank by simp
qed

section \<open>A re-pack never violates the index\<close>

lemma rank_nth: "i \<in> pe_id ` set xs \<Longrightarrow> rank_of xs i < length xs \<and> pe_id (xs ! rank_of xs i) = i"
proof -
  assume "i \<in> pe_id ` set xs"
  then have "dropWhile (\<lambda>q. pe_id q \<noteq> i) xs \<noteq> []" by (auto simp: dropWhile_eq_Nil_conv)
  moreover have "length xs = length (takeWhile (\<lambda>q. pe_id q \<noteq> i) xs) + length (dropWhile (\<lambda>q. pe_id q \<noteq> i) xs)"
    by (metis length_append takeWhile_dropWhile_id)
  ultimately have lt: "length (takeWhile (\<lambda>q. pe_id q \<noteq> i) xs) < length xs" by simp
  from nth_length_takeWhile [OF lt] lt show ?thesis by (simp add: rank_of_def)
qed

lemma forest_siblings:
  assumes "plan_forest rows" and "q \<in> set rows" "r \<in> set rows" "live_row q" "live_row r" "pe_parent_id q = pe_parent_id r" "pe_parent_id r \<noteq> None"
  shows "same_scope q r"
proof -
  from assms obtain p where p: "pe_parent_id q = Some p" "pe_parent_id r = Some p" by auto
  with assms obtain a b where ab: "a \<in> set rows" "pe_id a = p" "same_scope a q" "b \<in> set rows" "pe_id b = p" "same_scope b r"
    unfolding plan_forest_def by meson
  then have "a = b" using assms(1) by (metis plan_forest_def distinct_map inj_onD)
  with ab show ?thesis by (simp add: same_scope_def)
qed

lemma rank_in_bounds:
  assumes "distinct (map pe_id rows)" and "r \<in> set rows" and "grouped t ps r"
  shows "rank_in w t rows r < length rows"
    and "q \<in> set rows \<Longrightarrow> grouped t ps q \<Longrightarrow> pe_parent_id q = pe_parent_id r \<Longrightarrow> pe_id q \<noteq> pe_id r \<Longrightarrow> rank_in w t rows q \<noteq> rank_in w t rows r"
proof -
  let ?x = "ranked w (tg_id t) (sibs t rows (pe_parent_id r))"
  have mem: "pe_id a \<in> pe_id ` set ?x" if "a \<in> set rows" "grouped t ps a" "pe_parent_id a = pe_parent_id r" for a
    using that by (auto simp: grouped_def siblings_def)
  have "length ?x \<le> length rows" by (simp add: siblings_def)
  with rank_nth [OF mem [OF assms(2,3) refl]] show "rank_in w t rows r < length rows" by simp
  show "rank_in w t rows q \<noteq> rank_in w t rows r"
    if h: "q \<in> set rows" "grouped t ps q" "pe_parent_id q = pe_parent_id r" "pe_id q \<noteq> pe_id r"
    using rank_nth [OF mem [OF assms(2,3) refl]] rank_nth [OF mem [OF h(1-3)]] h(3,4) by metis
qed

lemma repack_succeeds:
  assumes forest: "plan_forest rows" and ps: "distinct ps" and ord: "\<And>xs. mset (ord xs) = mset xs" and hit: "\<And>m r. hit (place m r) = hit r"
    and small: "int (length rows) < REPACK_OFFSET"
    and clear: "\<And>q. q \<in> set rows \<Longrightarrow> live_row q \<Longrightarrow> pe_position q < REPACK_OFFSET \<or> 2 * REPACK_OFFSET \<le> pe_position q"
  shows "\<exists>rows'. run_statements (repackQueries ord hit w t ps) rows = Inr rows'"
proof (cases "list_ex hit rows")
  case True
  then obtain r0 where r0: "r0 \<in> set rows" by (auto simp: list_ex_iff)
  have ids: "distinct (map pe_id rows)" using forest by (simp add: plan_forest_def)
  define as1 where "as1 = concat (map (\<lambda>p. shifted_positions w (tg_id t) (sibs t rows p)) ps)"
  define m where "m = map_of as1"
  define mid where "mid = map (place m) rows"
  define as2 where "as2 = concat (map (\<lambda>p. finished_positions (sibs t mid p)) ps)"
  note S = shifted_map [OF ids ps, where w = w and t = t, folded as1_def m_def]
  note F = finished_map [OF ids ps, where w = w and t = t and m = m, OF _ S(2), folded mid_def, folded as2_def]
  have F2: "\<And>r. r \<in> set rows \<Longrightarrow> grouped t ps r \<Longrightarrow> map_of as2 (pe_id r) = Some (int (rank_in w t rows r))" using F(2) by blast
  note o1 = map_of_perm [OF ord S(1) [OF r0]] and o2 = map_of_perm [OF ord F(1) [OF r0]]
  note B = rank_in_bounds [OF ids]
  have grp: "grouped t ps q" if "grouped t ps r" "q \<in> set rows" "r \<in> set rows" "live_row q" "pe_parent_id q = pe_parent_id r" "pe_parent_id r \<noteq> None" for q r
    using forest_siblings [OF forest that(2,3,4) _ that(5,6)] that by (simp add: grouped_def same_scope_def)
  have "apart m rows"
    unfolding apart_def
  proof (intro ballI allI impI)
    fix q r y
    assume qr: "q \<in> set rows" "r \<in> set rows" and m: "m (pe_id r) = Some y"
      and h: "live_row q \<and> live_row r \<and> pe_id q \<noteq> pe_id r \<and> pe_parent_id q = pe_parent_id r \<and> pe_parent_id r \<noteq> None"
    have gr: "grouped t ps r" using S(3) [OF qr(2)] m by (cases "grouped t ps r") auto
    then have gq: "grouped t ps q" using grp [OF gr qr] h by blast
    have y: "y = int (rank_in w t rows r) + REPACK_OFFSET" using S(2) [OF qr(2) gr] m by simp
    have "pe_position q \<noteq> y" using clear [OF qr(1)] h B(1) [OF qr(2) gr, of w] small unfolding y by linarith
    moreover have "m (pe_id q) \<noteq> Some y" using S(2) [OF qr(1) gq] B(2) [OF qr(2) gr qr(1) gq] h unfolding y by simp
    ultimately show "pe_position q \<noteq> y \<and> m (pe_id q) \<noteq> Some y" by blast
  qed
  then have "\<exists>mid'. apply_positions (ord as1) rows = Inr mid'" using apply_positions_ok [OF ids] o1 by (simp add: m_def)
  then have a1: "apply_positions (ord as1) rows = Inr mid" using apply_positions_effect o1 by (fastforce simp: mid_def m_def)
  have "apart (map_of as2) mid"
    unfolding apart_def
  proof (intro ballI allI impI)
    fix q' r' y
    assume "q' \<in> set mid" "r' \<in> set mid" and m2: "map_of as2 (pe_id r') = Some y"
      and h': "live_row q' \<and> live_row r' \<and> pe_id q' \<noteq> pe_id r' \<and> pe_parent_id q' = pe_parent_id r' \<and> pe_parent_id r' \<noteq> None"
    then obtain q r where qr: "q \<in> set rows" "r \<in> set rows" "q' = place m q" "r' = place m r" by (auto simp: mid_def)
    have h: "live_row q" "live_row r" "pe_id q \<noteq> pe_id r" "pe_parent_id q = pe_parent_id r" "pe_parent_id r \<noteq> None"
      using h' by (simp_all add: qr)
    have gr: "grouped t ps r" using F(3) [OF qr(2)] m2 by (cases "grouped t ps r") (auto simp: qr)
    have gq: "grouped t ps q" using grp [OF gr qr(1,2) h(1,4,5)] .
    have y: "y = int (rank_in w t rows r)" using F2 [OF qr(2) gr] m2 by (simp add: qr)
    have "pe_position q' = int (rank_in w t rows q) + REPACK_OFFSET" using S(2) [OF qr(1) gq] by (simp add: qr)
    then have "pe_position q' \<noteq> y" using B(1) [OF qr(2) gr, of w] small unfolding y by linarith
    moreover have "map_of as2 (pe_id q') \<noteq> Some y" using F2 [OF qr(1) gq] B(2) [OF qr(2) gr qr(1) gq h(4,3)] unfolding y by (simp add: qr)
    ultimately show "pe_position q' \<noteq> y \<and> map_of as2 (pe_id q') \<noteq> Some y" by blast
  qed
  moreover have "distinct (map pe_id mid)" using ids by (simp add: mid_def comp_def)
  ultimately have "\<exists>rows'. apply_positions (ord as2) mid = Inr rows'" using apply_positions_ok o2 by simp
  moreover have "list_ex hit mid" using True hit by (simp add: mid_def list_ex_iff)
  ultimately show ?thesis using True a1 by (auto simp: repackQueries_def as1_def [symmetric] as2_def [symmetric])
qed (auto simp: repackQueries_def)

section \<open>Moves\<close>

lemma numbered_bound:
  assumes "plan_numbered rows" and "r \<in> set rows" and "live_row r"
  shows "0 \<le> pe_position r" "pe_position r < int (length rows)"
proof -
  let ?g = "siblings (pe_workspace_id r) (pe_scope_id r) (pe_parent_id r) rows"
  have "numbered ?g" using assms(1) by (simp add: plan_numbered_def)
  then have "set (map pe_position ?g) = set (map int [0..<length ?g])" unfolding numbered_def by (rule mset_eq_setD)
  moreover have "pe_position r \<in> set (map pe_position ?g)" using assms(2,3) by (auto simp: siblings_def)
  moreover have "length ?g \<le> length rows" by (simp add: siblings_def)
  ultimately show "0 \<le> pe_position r" "pe_position r < int (length rows)" by auto
qed

text \<open>A move of the entity \<open>e\<close> that the hierarchy admits, on a plan of fewer than a million entities.\<close>

definition valid_move :: "plan_env \<Rightarrow> plan_row \<Rightarrow> plan_patch \<Rightarrow> plan_row list \<Rightarrow> bool" where
  "valid_move env e patch rows \<longleftrightarrow>
     (let t = commandTargetFromEntity e; w = wanted_position t patch in
      e \<in> set rows \<and> live_row e \<and> moving patch \<and> admissible_parent t (new_parent t patch) rows \<and> 0 \<le> w \<and>
      int4 (w + 2 * REPACK_OFFSET) \<and> int (length rows) < REPACK_OFFSET \<and> physical env)"

lemma target_of_entity:
  assumes "distinct (map pe_id rows)" and "e \<in> set rows" and "live_row e"
  shows "r \<in> set rows \<Longrightarrow> current_target (commandTargetFromEntity e) r \<longleftrightarrow> pe_id r = pe_id e"
    "r \<in> set rows \<Longrightarrow> pe_id r = pe_id e \<Longrightarrow> r = e"
    "knows_scope (commandTargetFromEntity e) rows" "reads_parent (commandTargetFromEntity e) rows"
proof -
  show u: "r = e" if "r \<in> set rows" "pe_id r = pe_id e" for r using that assms by (metis distinct_map inj_onD)
  show c: "current_target (commandTargetFromEntity e) r \<longleftrightarrow> pe_id r = pe_id e" if "r \<in> set rows" for r
    using u [OF that] assms(3) by (auto simp: current_target_def commandTargetFromEntity_def)
  show "knows_scope (commandTargetFromEntity e) rows" "reads_parent (commandTargetFromEntity e) rows"
    using u c unfolding knows_scope_def reads_parent_def by (auto simp: commandTargetFromEntity_def)
qed

definition moved_rows :: "plan_env \<Rightarrow> plan_row \<Rightarrow> plan_patch \<Rightarrow> string \<Rightarrow> plan_row list \<Rightarrow> plan_row list" where
  "moved_rows env e patch actor rows =
     map (\<lambda>r. if pe_id r = pe_id e then patched env (commandTargetFromEntity e) patch actor r else r) rows"

lemma move_mutation:
  assumes "plan_forest rows" and "plan_numbered rows" and "valid_move env e patch rows"
  defines "t \<equiv> commandTargetFromEntity e"
  shows "update_statement env t patch actor rows True rows = Inr (moved_rows env e patch actor rows)"
    and "q \<in> set (moved_rows env e patch actor rows) \<Longrightarrow> live_row q \<Longrightarrow> pe_position q < REPACK_OFFSET \<or> 2 * REPACK_OFFSET \<le> pe_position q"
proof -
  define mid where "mid = moved_rows env e patch actor rows"
  note mid_eq = mid_def
  note mid_def = mid_def [unfolded moved_rows_def, folded t_def]
  have v: "e \<in> set rows" "live_row e" "moving patch" "admissible_parent t (new_parent t patch) rows" "0 \<le> wanted_position t patch"
    "int4 (wanted_position t patch + 2 * REPACK_OFFSET)" "int (length rows) < REPACK_OFFSET"
    using assms(3) by (simp_all add: valid_move_def Let_def t_def)
  have ids: "distinct (map pe_id rows)" using assms(1) by (simp add: plan_forest_def)
  note T = target_of_entity [OF ids v(1,2), folded t_def]
  have pos: "pe_position q < REPACK_OFFSET" if "q \<in> set rows" "live_row q" for q
    using numbered_bound [OF assms(2) that] v(7) by simp
  have written: "map (\<lambda>r. if current_target t r then patched env t patch actor r else r) rows = mid"
    unfolding mid_def using T(1) by (intro map_cong) auto
  have old: "q \<in> set rows" if "q \<in> set mid" "pe_id q \<noteq> pe_id e" for q
    using that unfolding mid_def set_map by (auto split: if_splits)
  have new: "pe_position q = wanted_position t patch + 2 * REPACK_OFFSET" if "q \<in> set mid" "pe_id q = pe_id e" for q
    using that v(3) unfolding mid_def set_map by (auto simp: patched_def split: if_splits)
  have "index_ok (tg_id t) mid"
  proof (cases "find (\<lambda>r. pe_id r = tg_id t) mid")
    case (Some r)
    have r: "r \<in> set mid" "pe_id r = pe_id e" using find_Some_in [OF Some] by (simp_all add: t_def commandTargetFromEntity_def)
    have "pe_position q \<noteq> pe_position r" if "q \<in> set mid" "pe_id q \<noteq> tg_id t" "live_row q" for q
    proof -
      have "pe_id q \<noteq> pe_id e" using that(2) by (simp add: t_def commandTargetFromEntity_def)
      with old [OF that(1)] pos [of q] that(3) new [OF r] v(5) show ?thesis by (simp add: REPACK_OFFSET_def)
    qed
    then show ?thesis unfolding index_ok_def Some option.case list_ex_iff by blast
  qed (simp add: index_ok_def)
  moreover have "list_ex (current_target t) rows" using v(1) T(1) by (auto simp: list_ex_iff)
  ultimately show "update_statement env t patch actor rows True rows = Inr (moved_rows env e patch actor rows)"
    unfolding update_statement_def Let_def written mid_eq [symmetric] using v(4,6) by simp
  show "pe_position q < REPACK_OFFSET \<or> 2 * REPACK_OFFSET \<le> pe_position q" if q: "q \<in> set (moved_rows env e patch actor rows)" "live_row q"
    using old [OF q(1) [folded mid_eq]] new [OF q(1) [folded mid_eq]] pos [of q] q(2) v(5) by (cases "pe_id q = pe_id e") simp_all
qed

lemma others_kept:
  assumes "\<And>r. r \<in> set rows \<Longrightarrow> pe_id (f r) = pe_id r" and "\<And>r. r \<in> set rows \<Longrightarrow> pe_id r \<noteq> i \<Longrightarrow> f r = r"
  shows "others i (siblings ws sc p (map f rows)) = others i (siblings ws sc p rows)"
  unfolding siblings_def filter_filter by (rule filter_map_stays) (use assms in metis)

lemma others_id: "i \<notin> pe_id ` set g \<Longrightarrow> others i g = g"
  by (auto simp: filter_id_conv)

definition order_after_move :: "plan_row \<Rightarrow> plan_patch \<Rightarrow> string \<Rightarrow> string option \<Rightarrow> string option \<Rightarrow> string list \<Rightarrow> string list" where
  "order_after_move e patch ws sc p xs =
     (let t = commandTargetFromEntity e in
      if ws = pe_workspace_id e \<and> sc = pe_scope_id e \<and> p = new_parent t patch then insert_before (pe_id e) (nat (wanted_position t patch)) xs
      else removeAll (pe_id e) xs)"

lemma order_moved:
  fixes actor :: string
  assumes forest: "plan_forest rows" and num: "plan_numbered rows" and v: "valid_move env e patch rows"
  defines "t \<equiv> commandTargetFromEntity e" and "mid \<equiv> moved_rows env e patch actor rows"
  defines "W \<equiv> \<lambda>r. if pe_id r = tg_id t then wanted_position t patch else pe_position r"
  defines "ps \<equiv> remdups [tg_parent_id t, new_parent t patch]"
  shows "ordered ws sc p (map (rerank W t ps mid) mid) = order_after_move e patch ws sc p (ordered ws sc p rows)"
proof -
  let ?i = "pe_id e"
  have tg: "tg_id t = ?i" "tg_workspace_id t = pe_workspace_id e" "tg_scope_id t = pe_scope_id e" "tg_parent_id t = pe_parent_id e"
    by (simp_all add: t_def commandTargetFromEntity_def)
  have e: "e \<in> set rows" "live_row e" "0 \<le> wanted_position t patch" using v by (simp_all add: valid_move_def Let_def t_def)
  have ids: "distinct (map pe_id rows)" using forest by (simp add: plan_forest_def)
  note T = target_of_entity [OF ids e(1,2), folded t_def]
  note upd = move_mutation(1) [OF forest num v, of actor, folded t_def mid_def]
  have dm: "distinct (map pe_id mid)" using mutation_ids(1) [OF upd] ids by simp
  have oth: "others ?i (siblings ws sc p mid) = others ?i (siblings ws sc p rows)" for ws sc p
    unfolding mid_def moved_rows_def by (rule others_kept) simp_all
  have numg: "numbered (siblings ws sc p rows)" for ws sc p using num by (simp add: plan_numbered_def)
  have Wo: "\<And>r. r \<in> set (others ?i (siblings ws sc p rows)) \<Longrightarrow> W r = pe_position r" by (simp add: W_def tg)
  define e' where "e' = patched env t patch actor e"
  have e': "e' \<in> set mid" "pe_id e' = ?i" "pe_parent_id e' = new_parent t patch" "live_row e'"
    "pe_workspace_id e' = pe_workspace_id e" "pe_scope_id e' = pe_scope_id e"
    using e(1,2) by (auto simp: e'_def mid_def moved_rows_def t_def new_parent_def commandTargetFromEntity_def)
  have only: "r = e'" if "r \<in> set mid" "pe_id r = ?i" for r using that e'(1,2) dm by (metis distinct_map inj_onD)
  have away: "?i \<notin> pe_id ` set (siblings ws sc p mid)" if "\<not> (ws = pe_workspace_id e \<and> sc = pe_scope_id e \<and> p = new_parent t patch)" for ws sc p
    using that only e'(3,5,6) unfolding siblings_def by force
  show ?thesis
  proof (cases "ws = pe_workspace_id e \<and> sc = pe_scope_id e \<and> p \<in> set ps")
    case True
    have r: "ordered ws sc p (map (rerank W t ps mid) mid) = map pe_id (ranked W ?i (siblings ws sc p mid))"
      using ordered_rerank [OF dm, of p ps t W] True by (simp add: tg)
    show ?thesis
    proof (cases "p = new_parent t patch")
      case here: True
      have "e' \<in> set (siblings ws sc p mid)" using e' here True by (simp add: siblings_def)
      moreover have "W e' = wanted_position t patch" by (simp add: W_def tg e'(2))
      ultimately have "map pe_id (ranked W ?i (siblings ws sc p mid)) = insert_before ?i (nat (wanted_position t patch)) (ordered ws sc p rows)"
        using ranked_with [OF siblings_ids [OF dm] _ e'(2) oth numg Wo] e(3) unfolding ordered_def by simp
      with r here True show ?thesis by (simp add: order_after_move_def Let_def t_def)
    next
      case False
      have "siblings ws sc p mid = others ?i (siblings ws sc p rows)" using others_id [OF away] oth False by metis
      from ranked_without [OF away this numg Wo] False r show ?thesis by (simp add: order_after_move_def Let_def t_def [symmetric] ordered_def)
    qed
  next
    case False
    then have out: "\<not> (ws = tg_workspace_id t \<and> sc = tg_scope_id t \<and> p \<in> {tg_parent_id t, new_parent t patch})" unfolding ps_def set_remdups by (simp add: tg)
    have "siblings ws sc p (map (rerank W t ps mid) mid) = siblings ws sc p mid" by (rule rerank_other) (use False tg in auto)
    also have same: "siblings ws sc p mid = siblings ws sc p rows" by (rule update_other_groups [OF T(3,4) upd out])
    finally have "ordered ws sc p (map (rerank W t ps mid) mid) = ordered ws sc p rows" by (simp add: ordered_def)
    moreover have "?i \<notin> set (ordered ws sc p rows)" using away [of ws sc p] out unfolding same by (simp add: ordered_def tg)
    ultimately show ?thesis using out by (auto simp: order_after_move_def Let_def t_def [symmetric] tg removeAll_id)
  qed
qed

text \<open>
  C17. A move lands in front of what stood at the requested position: an admitted move of a live entity succeeds, whatever order the
  database rewrites rows in, and its effect is that of a list operation: the entity is taken out of every list of siblings and put
  into the list of its new parent, after the other entities that were in front of the requested position and before the rest, all
  in their old order.
\<close>

theorem moved_entity_lands:
  assumes "plan_forest (pd_rows db)" and "plan_numbered (pd_rows db)" and "valid_move env e patch (pd_rows db)"
    and "validatePlanIdempotency idem (planRouteIdentity Plan_update (pe_id e)) = Inr ()" and "\<forall>v. pp_title patch = Some v \<longrightarrow> v \<noteq> [] \<and> length v \<le> 200"
    and "fresh_ids (update_spec env (commandTargetFromEntity e) patch actor idem) db"
    and "\<not> list_ex (plan_slot (update_spec env (commandTargetFromEntity e) patch actor idem)) (pd_keys db)"
    and "pe_id e \<noteq> []" and "pn_iso env (pn_now env) \<noteq> []"
  shows "\<exists>db' rc. updatePlanEntityWithAuthorityRow env (commandTargetFromEntity e) patch actor idem db = (db', Inr rc) \<and>
    (\<forall>ws sc p. ordered ws sc p (pd_rows db') = order_after_move e patch ws sc p (ordered ws sc p (pd_rows db)))"
proof -
  define t where "t = commandTargetFromEntity e"
  define s where "s = update_spec env t patch actor idem"
  define mid where "mid = moved_rows env e patch actor (pd_rows db)"
  define W where "W = (\<lambda>r :: plan_row. if pe_id r = tg_id t then wanted_position t patch else pe_position r)"
  define ps where "ps = remdups [tg_parent_id t, new_parent t patch]"
  define hit where "hit = (\<lambda>r :: plan_row. pe_id r = tg_id t \<and> pe_workspace_id r = tg_workspace_id t \<and> pe_updated_at r = pn_now env)"
  have v: "e \<in> set (pd_rows db)" "live_row e" "moving patch" "int (length (pd_rows db)) < REPACK_OFFSET" "physical env"
    using assms(3) by (simp_all add: valid_move_def Let_def)
  have ids: "distinct (map pe_id (pd_rows db))" using assms(1) by (simp add: plan_forest_def)
  note T = target_of_entity [OF ids v(1,2), folded t_def]
  note M = move_mutation [OF assms(1-3), where actor = actor, folded t_def mid_def]
  have fm: "plan_forest mid" using forest_update [OF assms(1) T(3) M(1)] .
  have dm: "distinct (map pe_id mid)" using fm by (simp add: plan_forest_def)
  have ord: "\<And>xs. mset (pn_ord env xs) = mset xs" using v(5) by (simp add: physical_def)
  have hp: "\<And>m r. hit (place m r) = hit r" by (simp add: hit_def)
  have psd: "distinct ps" by (simp add: ps_def)
  have small: "int (length mid) < REPACK_OFFSET" using v(4) by (simp add: mid_def moved_rows_def)
  from repack_succeeds [OF fm psd ord hp small M(2), of W t] obtain rows' where
    run: "run_statements (repackQueries (pn_ord env) hit W t ps) mid = Inr rows'" by blast
  define e' where "e' = patched env t patch actor e"
  have e': "e' \<in> set mid" "hit e'" "pe_id e' = tg_id t" "pe_workspace_id e' = tg_workspace_id t" "live_row e'"
    using v(1,2) by (auto simp: e'_def mid_def moved_rows_def hit_def t_def commandTargetFromEntity_def)
  then have "list_ex hit mid" by (auto simp: list_ex_iff)
  from repack_effect [OF run this dm psd ord hp] have rows': "rows' = map (rerank W t ps mid) mid" .
  have all: "run_statements (ps_mutation s True # ps_repack s) (pd_rows db) = Inr rows'"
    using M(1) run v(3) unfolding run_Cons s_def update_spec_def plan_spec.select_convs if_P [OF v(3)] hit_def W_def ps_def by blast
  have r: "rerank W t ps mid e' \<in> set rows'" "touched s (rerank W t ps mid e')"
    using e' by (auto simp: rows' touched_def s_def update_spec_def hit_def)
  have live: "if ps_operation s = Plan_delete then pe_deleted_at (rerank W t ps mid e') = Some (ps_timestamp s)
      else pe_deleted_at (rerank W t ps mid e') = None"
    using e'(5) by (simp add: s_def update_spec_def live_row_def)
  have d': "distinct (map pe_id rows')" using dm by (simp add: rows' comp_def)
  have full: "ps_entity_id s \<noteq> []" "ps_iso s \<noteq> []" "ps_event_id s \<noteq> []" "ps_outbox_id s \<noteq> []"
    using assms(8,9) by (simp_all add: s_def update_spec_def t_def commandTargetFromEntity_def)
  from execute_success [OF assms(7) [folded t_def, folded s_def] assms(6) [folded t_def, folded s_def] all d' r live full]
  obtain db' a where x: "executePlanEntityCommand s db = (db', Inr (command_receipt s (rerank W t ps mid e') a))" "pd_rows db' = rows'" by metis
  have "updatePlanEntityWithAuthorityRow env t patch actor idem db = executePlanEntityCommand s db"
    using assms(4,5) unfolding updatePlanEntityWithAuthorityRow_def s_def
    by (auto simp: t_def commandTargetFromEntity_def split: option.split)
  moreover have "ordered ws sc p rows' = order_after_move e patch ws sc p (ordered ws sc p (pd_rows db))" for ws sc p
    unfolding rows' W_def ps_def mid_def t_def by (rule order_moved [OF assms(1-3)])
  ultimately show ?thesis using x unfolding t_def [symmetric] by simp
qed

end
