(* ===== verification/Plan_Routes.thy ===== *)
theory Plan_Routes
  imports Plan_Moves Permissions Data_Graph
begin

text \<open>
  The HTTP surface of the plan (\<^verbatim>\<open>routes/plan.ts\<close>) over its store and commands, and the error envelope every route answers
  through (\<^verbatim>\<open>middleware/error.ts\<close>). The request carries what the handlers read of it; \<open>rq_parse\<close> is \<^verbatim>\<open>JSON.parse\<close> (\<open>None\<close> when it
  throws) and \<open>rq_sha256\<close> the hexadecimal SHA-256 of Web Crypto. A JSON number is finite, objects have no repeated names.
  The capture of server errors by the telemetry service is left out: it changes neither the answer nor a table.
\<close>

section \<open>Errors\<close>

record thrown =
  th_message :: string
  th_code :: "string option"
  th_status :: "int option"

definition CODE_TO_STATUS :: "(string \<times> int) list" where
  "CODE_TO_STATUS = [(''VALIDATION_ERROR'', 400), (''UNAUTHORIZED'', 401), (''FORBIDDEN'', 403), (''NOT_FOUND'', 404), (''CONFLICT'', 409),
     (''INTAKE_REQUEST_ID_CONFLICT'', 409), (''UNPROCESSABLE'', 422), (''RATE_LIMITED'', 429), (''INTERNAL_ERROR'', 500),
     (''READINESS_PERSISTENCE_FAILED'', 500), (''SERVICE_UNAVAILABLE'', 503), (''PROVIDER_UNAVAILABLE'', 503), (''RELAY_REQUIRED'', 503),
     (''ADAPTER_UNAVAILABLE'', 503), (''RUNTIME_PREFERENCE_INVALID'', 422), (''MODEL_NOT_AVAILABLE'', 422),
     (''SOURCE_WORKSPACE_BINDING_REQUIRED'', 409), (''SOURCE_SCOPE_MISSING'', 422)]"

record api_error =
  ae_error :: string
  ae_code :: string
  ae_request_id :: string
  ae_status :: int

definition errorEnvelope :: "string \<Rightarrow> thrown \<Rightarrow> api_error" where
  "errorEnvelope requestId e =
     (let code = (case th_code e of None \<Rightarrow> ''INTERNAL_ERROR'' | Some c \<Rightarrow> if c = [] then ''INTERNAL_ERROR'' else c);
          known = the_default 500 (map_of CODE_TO_STATUS code);
          status = (case th_status e of None \<Rightarrow> known | Some s \<Rightarrow> if 400 \<le> s \<and> s < 600 then s else known);
          message = (if 500 \<le> status then ''internal error'' else if th_message e = [] then code else th_message e)
      in \<lparr>ae_error = message, ae_code = code, ae_request_id = requestId, ae_status = status\<rparr>)"

section \<open>Requests and replies\<close>

record plan_request =
  rq_flag :: "string option"
  rq_auth :: "auth_context option"
  rq_request_id :: "string option"
  rq_cf_ray :: "string option"
  rq_key :: "string option"
  rq_body :: string
  rq_parse :: "string \<Rightarrow> json option"
  rq_sha256 :: "string \<Rightarrow> string"
  rq_num :: "real \<Rightarrow> string"

datatype plan_reply =
    Failed api_error
  | Entities string "plan_row list"
  | Receipt int bool plan_receipt

definition reply_error :: "plan_request \<Rightarrow> thrown \<Rightarrow> plan_reply" where
  "reply_error rq e = Failed (errorEnvelope (or_else (rq_request_id rq) (or_else (rq_cf_ray rq) [])) e)"

abbreviation refuse :: "plan_request \<Rightarrow> int \<Rightarrow> string \<Rightarrow> string \<Rightarrow> plan_reply" where
  "refuse rq st code msg \<equiv> reply_error rq \<lparr>th_message = msg, th_code = Some code, th_status = Some st\<rparr>"

text \<open>The SQLSTATE a database error carries as its code; it has no status.\<close>

definition sqlstate :: "string \<Rightarrow> string" where
  "sqlstate c = (if c = ''integer out of range'' then ''22003'' else if c = ''invalid input syntax for type date'' then ''22007''
     else if c \<in> {''plan_entities_kind_vocab_097'', ''plan_entities_scope_type_vocab_097''} then ''23514'' else ''23505'')"

fun thrown_of :: "plan_error \<Rightarrow> thrown" where
  "thrown_of (P_dal e) = \<lparr>th_message = err_message e, th_code = Some (err_code e), th_status = Some (err_status e)\<rparr>"
| "thrown_of (P_db c) = \<lparr>th_message = c, th_code = Some (sqlstate c), th_status = None\<rparr>"

definition planDisabledResponse :: "plan_request \<Rightarrow> plan_reply option" where
  "planDisabledResponse rq =
     (if envFlagTrue (rq_flag rq) then None
      else Some (refuse rq 404 ''NOT_FOUND'' ''plan surface is not enabled for this deployment yet''))"

definition resolveActor :: "plan_request \<Rightarrow> plan_reply + string \<times> string" where
  "resolveActor rq =
     (case rq_auth rq of
        None \<Rightarrow> Inl (refuse rq 401 ''UNAUTHORIZED'' ''auth required'')
      | Some auth \<Rightarrow>
          if \<not> truthy (au_user_id auth) then Inl (refuse rq 401 ''UNAUTHORIZED'' ''auth required'')
          else if au_role auth = Some ''client'' then Inl (refuse rq 403 ''FORBIDDEN'' ''client role cannot access the plan surface'')
          else if \<not> truthy (au_workspace_id auth) then Inl (refuse rq 403 ''NO_WORKSPACE'' ''no workspace in session'')
          else Inr (the (au_user_id auth), the (au_workspace_id auth)))"

definition strictCommand :: "plan_request \<Rightarrow> string \<Rightarrow> string \<Rightarrow> plan_error + idempotency_input" where
  "strictCommand rq route rawBody =
     (let key = js_trim (or_else (rq_key rq) []) in
      if key = [] \<or> 200 < length key
      then Inl (plan_fail ''IDEMPOTENCY_KEY_REQUIRED'' ''Idempotency-Key is required (1-200 chars)'' 428)
      else Inr \<lparr>ii_key = key, ii_request_sha256 = rq_sha256 rq rawBody, ii_route = route, ii_request_id = rq_request_id rq\<rparr>)"

text \<open>A handler runs when the surface is enabled and the caller is a member.\<close>

definition as_member :: "plan_request \<Rightarrow> plan_db \<Rightarrow> (string \<Rightarrow> string \<Rightarrow> plan_db \<times> plan_reply) \<Rightarrow> plan_db \<times> plan_reply" where
  "as_member rq db h =
     (case planDisabledResponse rq of
        Some res \<Rightarrow> (db, res)
      | None \<Rightarrow> (case resolveActor rq of Inl res \<Rightarrow> (db, res) | Inr (userId, workspaceId) \<Rightarrow> h userId workspaceId))"

definition answered :: "plan_request \<Rightarrow> int \<Rightarrow> plan_db \<times> (plan_error + plan_receipt) \<Rightarrow> plan_db \<times> plan_reply" where
  "answered rq st r =
     (case r of (db, Inl e) \<Rightarrow> (db, reply_error rq (thrown_of e)) | (db, Inr receipt) \<Rightarrow> (db, Receipt st (pc_replayed receipt) receipt))"

text \<open>The named values of a request body: \<open>None\<close> unless it is an object; an array is one, without the names asked for.\<close>

definition body_fields :: "plan_request \<Rightarrow> (string \<times> json) list option" where
  "body_fields rq = (case rq_parse rq (rq_body rq) of Some (JObj kvs) \<Rightarrow> Some kvs | Some (JArr vs) \<Rightarrow> Some [] | _ \<Rightarrow> None)"

definition falsy :: "json option \<Rightarrow> bool" where
  "falsy v \<longleftrightarrow> v \<in> {None, Some JNull, Some (JBool False), Some (JNum 0), Some (JStr [])}"

definition text_field :: "(string \<times> json) list \<Rightarrow> string \<Rightarrow> string option" where
  "text_field body k = (case map_of body k of Some (JStr s) \<Rightarrow> Some s | _ \<Rightarrow> None)"

definition nonempty_text :: "string option \<Rightarrow> string option" where
  "nonempty_text v = (if truthy v then v else None)"

definition math_trunc :: "real \<Rightarrow> int" where
  "math_trunc v = (if 0 \<le> v then \<lfloor>v\<rfloor> else \<lceil>v\<rceil>)"

section \<open>Handlers\<close>

definition VALID_KINDS :: "string list" where
  "VALID_KINDS = [''goal'', ''milestone'', ''todo'', ''intent'']"

definition plan_get :: "plan_request \<Rightarrow> string \<Rightarrow> plan_db \<Rightarrow> plan_db \<times> plan_reply" where
  "plan_get rq scopeId db = as_member rq db (\<lambda>userId workspaceId.
     if scopeId = [] then (db, refuse rq 400 ''INVALID_SCOPE'' ''scopeId path param required'')
     else case listPlanEntitiesRow (Some scopeId) workspaceId (pd_rows db) of
       Inl e \<Rightarrow> (db, reply_error rq (thrown_of e))
     | Inr entities \<Rightarrow> (db, Entities scopeId entities))"

definition plan_post :: "plan_env \<Rightarrow> plan_request \<Rightarrow> plan_db \<Rightarrow> plan_db \<times> plan_reply" where
  "plan_post env rq db = as_member rq db (\<lambda>userId workspaceId.
     case body_fields rq of
       None \<Rightarrow> (db, refuse rq 400 ''VALIDATION_ERROR'' ''request body must be a JSON object'')
     | Some body \<Rightarrow>
         (let kind = (if falsy (map_of body ''kind'') then [] else js_string (rq_num rq) (the (map_of body ''kind'')));
              title = (case text_field body ''title'' of Some v \<Rightarrow> js_trim v | None \<Rightarrow> [])
          in if kind \<notin> set VALID_KINDS
             then (db, refuse rq 400 ''VALIDATION_ERROR'' (''kind must be one of: '' @ js_join '', '' VALID_KINDS))
             else if title = [] \<or> 200 < length title
             then (db, refuse rq 400 ''VALIDATION_ERROR'' ''title is required (1-200 chars)'')
             else case strictCommand rq ''POST /api/v1/plan/entity'' (rq_body rq) of
               Inl e \<Rightarrow> (db, reply_error rq (thrown_of e))
             | Inr idem \<Rightarrow> answered rq 201 (createPlanEntityWithAuthorityRow env
                 \<lparr>pi_workspace_id = workspaceId, pi_scope_id = text_field body ''scope_id'', pi_scope_type = text_field body ''scope_type'',
                  pi_parent_id = nonempty_text (text_field body ''parent_id''), pi_kind = kind, pi_title = title, pi_summary = None,
                  pi_target_date = text_field body ''target_date''\<rparr> userId idem db)))"

definition patch_of :: "(string \<times> json) list \<Rightarrow> plan_patch" where
  "patch_of body =
     \<lparr>pp_title = map_option js_trim (text_field body ''title''), pp_status = text_field body ''status'',
      pp_position = (case map_of body ''position'' of Some (JNum v) \<Rightarrow> Some (math_trunc v) | _ \<Rightarrow> None),
      pp_parent_id = (if map_of body ''parent_id'' = None then None else Some (nonempty_text (text_field body ''parent_id'')))\<rparr>"

definition plan_patch_route :: "plan_env \<Rightarrow> plan_request \<Rightarrow> string \<Rightarrow> plan_db \<Rightarrow> plan_db \<times> plan_reply" where
  "plan_patch_route env rq i db = as_member rq db (\<lambda>userId workspaceId.
     if i = [] then (db, refuse rq 400 ''INVALID_ID'' ''id path param required'')
     else case body_fields rq of
       None \<Rightarrow> (db, refuse rq 400 ''VALIDATION_ERROR'' ''request body must be a JSON object'')
     | Some body \<Rightarrow>
         (let patch = patch_of body
          in if patch = \<lparr>pp_title = None, pp_status = None, pp_position = None, pp_parent_id = None\<rparr>
             then (db, refuse rq 400 ''VALIDATION_ERROR'' ''no updatable fields (title, status, position, parent_id)'')
             else if (case pp_title patch of None \<Rightarrow> False | Some v \<Rightarrow> v = [] \<or> 200 < length v)
             then (db, refuse rq 400 ''VALIDATION_ERROR'' ''title must be 1-200 chars'')
             else if (case pp_position patch of None \<Rightarrow> False | Some n \<Rightarrow> n < 0)
             then (db, refuse rq 400 ''VALIDATION_ERROR'' ''position must be >= 0'')
             else case getPlanEntityRow i workspaceId (pd_rows db) of
               None \<Rightarrow> (db, refuse rq 404 ''NOT_FOUND'' (''plan entity '' @ i @ '' not found''))
             | Some existing \<Rightarrow>
                 (case strictCommand rq (''PATCH /api/v1/plan/entity/'' @ i) (rq_body rq) of
                    Inl e \<Rightarrow> (db, reply_error rq (thrown_of e))
                  | Inr idem \<Rightarrow> answered rq 200 (updatePlanEntityWithAuthorityRow env (commandTargetFromEntity existing) patch userId idem db))))"

definition plan_delete_route :: "plan_env \<Rightarrow> plan_request \<Rightarrow> string \<Rightarrow> plan_db \<Rightarrow> plan_db \<times> plan_reply" where
  "plan_delete_route env rq i db = as_member rq db (\<lambda>userId workspaceId.
     if i = [] then (db, refuse rq 400 ''INVALID_ID'' ''id path param required'')
     else case getPlanEntityRow i workspaceId (pd_rows db) of
       None \<Rightarrow> (db, refuse rq 404 ''NOT_FOUND'' (''plan entity '' @ i @ '' not found''))
     | Some existing \<Rightarrow>
         (case strictCommand rq (''DELETE /api/v1/plan/entity/'' @ i) [] of
            Inl e \<Rightarrow> (db, reply_error rq (thrown_of e))
          | Inr idem \<Rightarrow> answered rq 200 (deletePlanEntityWithAuthorityRow env (commandTargetFromEntity existing) userId idem db)))"

section \<open>A retried delete\<close>

lemma transaction_done_rows:
  assumes "plan_transaction s db = (d, Inr True)"
  shows "run_statements (ps_mutation s True # ps_repack s) (pd_rows db) = Inr (pd_rows d)"
proof -
  have c: "pd_rows (claim_statement s db) = pd_rows db" by (simp add: claim_statement_def)
  have ev: "pd_rows (event_statement s x) = pd_rows x \<and> pd_keys (event_statement s x) = pd_keys x" for x
    by (simp add: event_statement_def split: option.split)
  have au: "pd_rows (audit_statement s x) = pd_rows x \<and> pd_keys (audit_statement s x) = pd_keys x" for x
    by (simp add: audit_statement_def split: option.split)
  have ob: "pd_rows y = pd_rows x \<and> pd_keys y = pd_keys x" if "outbox_statement s x = Inr y" for x y
    using that by (auto simp: outbox_statement_def split: option.splits if_splits list.splits)
  have co: "pd_rows y = pd_rows x \<and> list_ex (plan_pending s) (pd_keys x)" if "complete_statement s x = (y, True)" for x y
    using that by (auto simp: complete_statement_def split: option.splits)
  let ?p = "list_ex (plan_pending s) (pd_keys (claim_statement s db))"
  obtain rows where run: "run_statements (ps_mutation s ?p # ps_repack s) (pd_rows (claim_statement s db)) = Inr rows"
    using assms unfolding plan_transaction_def Let_def
    by (cases "run_statements (ps_mutation s ?p # ps_repack s) (pd_rows (claim_statement s db))") simp_all
  define d2 where "d2 = audit_statement s (event_statement s ((claim_statement s db)\<lparr>pd_rows := rows\<rparr>))"
  note t = assms [unfolded plan_transaction_def Let_def run sum.case d2_def [symmetric]]
  from t obtain d3 where o: "outbox_statement s d2 = Inr d3" by (cases "outbox_statement s d2") simp_all
  from t o have fin: "complete_statement s d3 = (d, True)" by (auto split: prod.splits if_splits)
  have "pd_rows d2 = rows" "pd_keys d2 = pd_keys (claim_statement s db)" unfolding d2_def using au ev by simp_all
  with co [OF fin] ob [OF o] have "pd_rows d = rows" "?p = True" by simp_all
  with run show ?thesis unfolding c by simp
qed

lemma delete_is_final:
  assumes "plan_forest (pd_rows db)" and "e \<in> set (pd_rows db)" and "live_row e"
    and "deletePlanEntityWithAuthorityRow env (commandTargetFromEntity e) actor idem db = (db1, Inr rc)" and "\<not> pc_replayed rc"
  shows "dead (pe_id e) (pd_rows db1)"
proof -
  let ?t = "commandTargetFromEntity e"
  define s where "s = delete_spec env ?t actor idem"
  have "executePlanEntityCommand s db = (db1, Inr rc)"
    using assms(4) unfolding deletePlanEntityWithAuthorityRow_def s_def attempt_def by (simp split: sum.splits)
  from execute_completed [OF this assms(5)] have "plan_transaction s db = (db1, Inr True)" .
  from transaction_done_rows [OF this] obtain mid where mid: "delete_statement env ?t actor True (pd_rows db) = Inr mid"
    and rest: "run_statements (ps_repack s) mid = Inr (pd_rows db1)" unfolding run_Cons s_def delete_spec_def by auto
  from rest have un: "map unplaced (pd_rows db1) = map unplaced mid" unfolding s_def delete_spec_def by (auto dest: repack_unplaced)
  have cur: "current_target ?t e" using assms(3) by (simp add: current_target_def commandTargetFromEntity_def)
  have only: "r = e" if "r \<in> set (pd_rows db)" "pe_id r = pe_id e" for r using that assms(1,2) by (metis plan_forest_def distinct_map inj_onD)
  define f where "f = (\<lambda>r. if current_target ?t r then r\<lparr>pe_deleted_at := Some (pn_now env), pe_updated_at := pn_now env, pe_updated_by := actor\<rparr> else r)"
  have f: "pe_id (f r) = pe_id r" "\<not> live_row (f e)" for r using cur by (simp_all add: f_def live_row_def)
  have m: "set mid = f ` set (pd_rows db)" using mid by (auto simp: delete_statement_def f_def)
  have fe: "f e \<in> f ` set (pd_rows db)" using assms(2) by (rule imageI)
  have gone: "\<not> live_row r" if "r \<in> f ` set (pd_rows db)" "pe_id r = pe_id e" for r
  proof -
    from that(1) obtain q where q: "q \<in> set (pd_rows db)" "r = f q" by blast
    with that(2) f(1) only have "q = e" by simp
    with q(2) f(2) show ?thesis by simp
  qed
  have "dead (pe_id e) mid" unfolding dead_def m by (intro conjI ballI impI bexI [OF _ fe] f(1)) (rule gone)
  with dead_cong [OF un] show ?thesis by simp
qed

lemma resolveActor_refuses: "resolveActor rq = Inl r \<Longrightarrow> \<exists>e. r = Failed e"
  by (auto simp: resolveActor_def reply_error_def split: option.splits if_splits)

lemma dead_unread: "dead i rows \<Longrightarrow> getPlanEntityRow i ws rows = None"
  by (auto simp: getPlanEntityRow_def dead_def find_None_iff)

text \<open>
  The handler of a DELETE looks the entity up before it looks for the replay of the command: run again after a delete it has
  answered with a receipt, whatever plan commands follow, it does not find the entity. What the caller of the mounted route sees is
  the guard's affair (\<^verbatim>\<open>Plan_Guarded\<close>).
\<close>

lemma handler_forgets_the_deleted:
  assumes "plan_forest (pd_rows db)" and "plan_delete_route env rq i db = (db1, Receipt 200 False rc)" and "plan_reach db1 db2"
    and "envFlagTrue (rq_flag rq')" and "resolveActor rq' = Inr (u, w)"
  shows "plan_delete_route env' rq' i db2 = (db2, refuse rq' 404 ''NOT_FOUND'' (''plan entity '' @ i @ '' not found''))"
proof -
  from assms(2) obtain u0 w0 e idem where e: "i \<noteq> []" "getPlanEntityRow i w0 (pd_rows db) = Some e"
    and x: "answered rq 200 (deletePlanEntityWithAuthorityRow env (commandTargetFromEntity e) u0 idem db) = (db1, Receipt 200 False rc)"
    unfolding plan_delete_route_def as_member_def
    by (auto simp: reply_error_def planDisabledResponse_def split: option.splits sum.splits if_splits prod.splits dest: resolveActor_refuses)
  from x have d: "deletePlanEntityWithAuthorityRow env (commandTargetFromEntity e) u0 idem db = (db1, Inr rc)" "\<not> pc_replayed rc"
    unfolding answered_def reply_error_def by (auto split: prod.splits sum.splits)
  have mem: "e \<in> set (pd_rows db)" "pe_id e = i" "live_row e"
    using find_Some_in [of _ "pd_rows db" e] e unfolding getPlanEntityRow_def by (auto split: if_splits)
  from delete_is_final [OF assms(1) mem(1,3) d] have "dead i (pd_rows db1)" by (simp add: mem(2))
  from dead_history.history_keeps [OF assms(3) this] have "getPlanEntityRow i w (pd_rows db2) = None" by (rule dead_unread)
  with assms(4,5) e(1) show ?thesis by (simp add: plan_delete_route_def as_member_def planDisabledResponse_def)
qed

section \<open>Workspaces\<close>

text \<open>What the tables hold of the other workspaces.\<close>

definition foreign_rows :: "string \<Rightarrow> plan_row list \<Rightarrow> plan_row list" where
  "foreign_rows w rows = filter (\<lambda>r. pe_workspace_id r \<noteq> w) rows"

definition foreign :: "string \<Rightarrow> plan_db \<Rightarrow> plan_row list \<times> plan_key list \<times> plan_event list \<times> audit_row list \<times> outbox_row list" where
  "foreign w db = (foreign_rows w (pd_rows db), filter (\<lambda>k. pk_workspace_id k \<noteq> w) (pd_keys db),
     filter (\<lambda>e. me_workspace_id e \<noteq> w) (pd_events db), filter (\<lambda>a. al_workspace_id a \<noteq> w) (pd_audit db),
     filter (\<lambda>q. ob_workspace_id q \<noteq> w) (pd_outbox db))"

lemma foreign_map: "(\<And>r. r \<in> set rows \<Longrightarrow> pe_workspace_id (f r) = pe_workspace_id r \<and> (pe_workspace_id r = w \<or> f r = r)) \<Longrightarrow>
    foreign_rows w (map f rows) = foreign_rows w rows"
  unfolding foreign_rows_def by (rule filter_map_stays) metis

lemma repack_foreign:
  assumes "run_statements (repackQueries ord hit w t ps) mid = Inr rows'" and "distinct (map pe_id mid)" and "distinct ps"
    and "\<And>xs. mset (ord xs) = mset xs" and "\<And>m r. hit (place m r) = hit r"
  shows "foreign_rows (tg_workspace_id t) rows' = foreign_rows (tg_workspace_id t) mid"
proof (cases "list_ex hit mid")
  case True
  from repack_effect [OF assms(1) True assms(2-5)] have rows': "rows' = map (rerank w t ps mid) mid" .
  show ?thesis unfolding rows' by (rule foreign_map) (auto simp: rerank_def)
next
  case False
  then show ?thesis using assms(1) by (auto simp: repackQueries_def)
qed

lemma target_foreign:
  assumes "\<And>r. pe_workspace_id (f r) = pe_workspace_id r"
  shows "foreign_rows (tg_workspace_id t) (map (\<lambda>r. if current_target t r then f r else r) rows) = foreign_rows (tg_workspace_id t) rows"
  by (rule foreign_map) (auto simp: assms current_target_def)

fun command_env :: "plan_command \<Rightarrow> plan_env" where
  "command_env (Create env i actor idem) = env"
| "command_env (Update env t patch actor idem) = env"
| "command_env (Delete env t actor idem) = env"

lemma exec_foreign_rows:
  assumes "run_statements (plan_statements c pending) rows = Inr rows'" and "distinct (map pe_id rows)" and "physical (command_env c)"
  shows "foreign_rows (ps_workspace_id (command_spec c)) rows' = foreign_rows (ps_workspace_id (command_spec c)) rows"
proof (cases c)
  case (Create env i actor idem)
  from assms(1) have "create_statement env i actor pending rows = Inr rows'" unfolding Create spec_sel run_Cons by simp
  then show ?thesis by (cases rule: create_cases) (simp_all add: Create create_spec_def foreign_rows_def)
next
  case (Update env t patch actor idem)
  have ord: "\<And>xs. mset (pn_ord env xs) = mset xs" using assms(3) by (simp add: Update physical_def)
  from assms(1) obtain mid where m: "update_statement env t patch actor rows pending rows = Inr mid"
    and rest: "run_statements (ps_repack (update_spec env t patch actor idem)) mid = Inr rows'"
    unfolding Update plan_statements_def command_spec.simps run_Cons by (auto simp: update_spec_def)
  have dm: "distinct (map pe_id mid)" using mutation_ids(1) [OF m] assms(2) by simp
  have "foreign_rows (tg_workspace_id t) mid = foreign_rows (tg_workspace_id t) rows"
    using m by (cases rule: update_cases) (simp_all add: target_foreign)
  moreover have "foreign_rows (tg_workspace_id t) rows' = foreign_rows (tg_workspace_id t) mid"
  proof (cases "moving patch")
    case True
    have run: "run_statements (repackQueries (pn_ord env) (\<lambda>r. pe_id r = tg_id t \<and> pe_workspace_id r = tg_workspace_id t \<and> pe_updated_at r = pn_now env)
      (\<lambda>r. if pe_id r = tg_id t then wanted_position t patch else pe_position r) t (remdups [tg_parent_id t, new_parent t patch])) mid = Inr rows'"
      using rest unfolding update_spec_def plan_spec.select_convs if_P [OF True] .
    from run dm distinct_remdups ord hit_place(1) show ?thesis by (rule repack_foreign)
  qed (use rest in \<open>simp add: update_spec_def\<close>)
  ultimately show ?thesis by (simp add: Update update_spec_def)
next
  case (Delete env t actor idem)
  have ord: "\<And>xs. mset (pn_ord env xs) = mset xs" using assms(3) by (simp add: Delete physical_def)
  from assms(1) obtain mid where m: "delete_statement env t actor pending rows = Inr mid"
    and run: "run_statements (repackQueries (pn_ord env) (\<lambda>r. pe_id r = tg_id t \<and> pe_workspace_id r = tg_workspace_id t \<and> pe_deleted_at r = Some (pn_now env))
      pe_position t [tg_parent_id t]) mid = Inr rows'"
    unfolding Delete spec_sel run_Cons by blast
  have dm: "distinct (map pe_id mid)" using mutation_ids(2) [OF m] assms(2) by simp
  have "foreign_rows (tg_workspace_id t) mid = foreign_rows (tg_workspace_id t) rows"
    using m by (auto simp: delete_statement_def target_foreign split: if_splits)
  moreover have "distinct [tg_parent_id t]" by simp
  from run dm this ord hit_place(2) have "foreign_rows (tg_workspace_id t) rows' = foreign_rows (tg_workspace_id t) mid" by (rule repack_foreign)
  ultimately show ?thesis by (simp add: Delete delete_spec_def)
qed

subsection \<open>The statements of the transaction\<close>

lemma foreign_rows_update: "foreign w (db\<lparr>pd_rows := rows\<rparr>) = foreign w db \<longleftrightarrow> foreign_rows w rows = foreign_rows w (pd_rows db)"
  "foreign w (db\<lparr>pd_audit_seq := n\<rparr>) = foreign w db"
  by (simp_all add: foreign_def)

lemma claim_foreign: "foreign (ps_workspace_id s) (claim_statement s db) = foreign (ps_workspace_id s) db"
  by (simp add: claim_statement_def foreign_def)

lemma find_touched: "find (\<lambda>r. touched s r \<and> Q r) rows = Some r \<Longrightarrow> pe_workspace_id r = ps_workspace_id s"
  "find (touched s) rows = Some r \<Longrightarrow> pe_workspace_id r = ps_workspace_id s"
  by (auto simp: touched_def dest: find_Some_in)

lemma event_foreign: "foreign (ps_workspace_id s) (event_statement s db) = foreign (ps_workspace_id s) db"
proof (cases "find (\<lambda>r. touched s r \<and> (if ps_operation s = Plan_delete then pe_deleted_at r = Some (ps_timestamp s) else pe_deleted_at r = None)) (pd_rows db)")
  case None
  show ?thesis unfolding event_statement_def None option.case ..
next
  case (Some r)
  show ?thesis unfolding event_statement_def Some option.case using find_touched(1) [OF Some] by (simp add: foreign_def)
qed

lemma audit_foreign: "foreign (ps_workspace_id s) (audit_statement s db) = foreign (ps_workspace_id s) db"
  unfolding audit_statement_def by (auto simp: foreign_def split: option.split dest!: find_touched(2))

lemma outbox_foreign: "outbox_statement s db = Inr db' \<Longrightarrow> foreign (ps_workspace_id s) db' = foreign (ps_workspace_id s) db"
  unfolding outbox_statement_def by (auto simp: foreign_def split: option.splits if_splits list.splits dest!: find_touched(2))

lemma complete_foreign: "foreign (ps_workspace_id s) (fst (complete_statement s db)) = foreign (ps_workspace_id s) db"
proof (cases "completion_of s db")
  case (Some rc)
  define f where "f = (\<lambda>k. if plan_pending s k then k\<lparr>pk_status := Some (if ps_operation s = Plan_create then 201 else 200), pk_body := Some rc,
    pk_completed_at := Some (ps_timestamp s)\<rparr> else k)"
  have "filter (\<lambda>k. pk_workspace_id k \<noteq> ps_workspace_id s) (map f (pd_keys db)) = filter (\<lambda>k. pk_workspace_id k \<noteq> ps_workspace_id s) (pd_keys db)"
    by (rule filter_map_stays) (simp add: f_def plan_pending_def plan_claim_of_def plan_slot_def)
  moreover have "fst (complete_statement s db) = db\<lparr>pd_keys := map f (pd_keys db)\<rparr>" by (simp add: complete_statement_def Some f_def)
  ultimately show ?thesis by (simp add: foreign_def)
qed (simp add: complete_statement_def)

lemma release_foreign: "foreign (ps_workspace_id s) (db\<lparr>pd_keys := filter (\<lambda>k. \<not> plan_pending s k) (pd_keys db)\<rparr>) = foreign (ps_workspace_id s) db"
proof -
  have "filter (\<lambda>k. pk_workspace_id k \<noteq> ps_workspace_id s) (filter (\<lambda>k. \<not> plan_pending s k) ks) = filter (\<lambda>k. pk_workspace_id k \<noteq> ps_workspace_id s) ks" for ks
    unfolding filter_filter by (rule filter_cong) (auto simp: plan_pending_def plan_claim_of_def plan_slot_def)
  then show ?thesis by (simp add: foreign_def)
qed

lemma execute_foreign:
  assumes "\<And>pending rows'. run_statements (ps_mutation s pending # ps_repack s) (pd_rows db) = Inr rows' \<Longrightarrow>
    foreign_rows (ps_workspace_id s) rows' = foreign_rows (ps_workspace_id s) (pd_rows db)"
  shows "foreign (ps_workspace_id s) (fst (executePlanEntityCommand s db)) = foreign (ps_workspace_id s) db"
proof -
  let ?w = "ps_workspace_id s" and ?p = "list_ex (plan_pending s) (pd_keys (claim_statement s db))"
  have c: "pd_rows (claim_statement s db) = pd_rows db" by (simp add: claim_statement_def)
  have tr: "foreign ?w (fst (plan_transaction s db)) = foreign ?w db"
  proof (cases "run_statements (ps_mutation s ?p # ps_repack s) (pd_rows (claim_statement s db))")
    case (Inl e)
    then show ?thesis unfolding plan_transaction_def Let_def by simp
  next
    case run: (Inr rows)
    define d2 where "d2 = audit_statement s (event_statement s ((claim_statement s db)\<lparr>pd_rows := rows\<rparr>))"
    have "foreign_rows ?w rows = foreign_rows ?w (pd_rows (claim_statement s db))" using assms run unfolding c by blast
    then have d2: "foreign ?w d2 = foreign ?w db"
      unfolding d2_def audit_foreign event_foreign claim_foreign [symmetric, of s db] foreign_rows_update(1) .
    show ?thesis
    proof (cases "outbox_statement s d2")
      case (Inl e)
      then show ?thesis unfolding plan_transaction_def Let_def run sum.case d2_def [symmetric] by (simp add: rolled_back_def foreign_rows_update)
    next
      case (Inr d3)
      have "foreign ?w (fst (complete_statement s d3)) = foreign ?w db" using complete_foreign outbox_foreign [OF Inr] d2 by metis
      with Inr show ?thesis unfolding plan_transaction_def Let_def run sum.case d2_def [symmetric]
        by (auto simp: rolled_back_def foreign_rows_update split: prod.split)
    qed
  qed
  obtain db' x where t: "plan_transaction s db = (db', x)" by (cases "plan_transaction s db")
  have "foreign ?w (fst (executePlanEntityCommand s db)) = foreign ?w db'"
    unfolding executePlanEntityCommand_def t using release_foreign [of s db'] by (auto split: sum.split option.split)
  with tr t show ?thesis by simp
qed

lemma plan_do_foreign:
  assumes "distinct (map pe_id (pd_rows db))" and "physical (command_env c)"
  shows "foreign (ps_workspace_id (command_spec c)) (fst (plan_exec c db)) = foreign (ps_workspace_id (command_spec c)) db"
proof (cases rule: plan_exec_cases [of c db])
  case executed
  show ?thesis unfolding executed
    by (rule execute_foreign) (use exec_foreign_rows [OF _ assms] in \<open>simp add: plan_statements_def\<close>)
qed simp

subsection \<open>Requests\<close>

datatype plan_call = Get string | Post plan_env | Patch plan_env string | Remove plan_env string

fun plan_route :: "plan_call \<Rightarrow> plan_request \<Rightarrow> plan_db \<Rightarrow> plan_db \<times> plan_reply" where
  "plan_route (Get scopeId) rq db = plan_get rq scopeId db"
| "plan_route (Post env) rq db = plan_post env rq db"
| "plan_route (Patch env i) rq db = plan_patch_route env rq i db"
| "plan_route (Remove env i) rq db = plan_delete_route env rq i db"

fun call_physical :: "plan_call \<Rightarrow> bool" where
  "call_physical (Get scopeId) = True"
| "call_physical (Post env) = physical env"
| "call_physical (Patch env i) = physical env"
| "call_physical (Remove env i) = physical env"

lemma answered_fst [simp]: "fst (answered rq st r) = fst r"
  by (cases r; cases "snd r") (auto simp: answered_def)

text \<open>Every request leaves the tables alone or is one plan command of the caller's workspace on a target just read.\<close>

lemma route_is_a_command:
  assumes "resolveActor rq = Inr (u, w)" and "distinct (map pe_id (pd_rows db))" and "call_physical call"
  obtains "fst (plan_route call rq db) = db"
  | c where "fst (plan_route call rq db) = fst (plan_exec c db)" "ps_workspace_id (command_spec c) = w" "physical (command_env c)"
      "plan_admit c db"
proof -
  let ?P = "\<lambda>db'. db' = db \<or> (\<exists>c. db' = fst (plan_exec c db) \<and> ps_workspace_id (command_spec c) = w \<and> physical (command_env c) \<and> plan_admit c db)"
  have ent: "e \<in> set (pd_rows db) \<and> live_row e \<and> pe_workspace_id e = w" if "getPlanEntityRow i w (pd_rows db) = Some e" for i e
    using that find_Some_in [of _ "pd_rows db" e] unfolding getPlanEntityRow_def by (auto split: if_splits)
  have known: "knows_scope (commandTargetFromEntity e) (pd_rows db) \<and> reads_parent (commandTargetFromEntity e) (pd_rows db)"
    if "getPlanEntityRow i w (pd_rows db) = Some e" for i e
  proof -
    have only: "r = e" if "r \<in> set (pd_rows db)" "pe_id r = pe_id e" for r
      using that assms(2) ent [OF \<open>getPlanEntityRow i w (pd_rows db) = Some e\<close>] by (metis distinct_map inj_onD)
    then show ?thesis unfolding knows_scope_def reads_parent_def current_target_def commandTargetFromEntity_def by auto
  qed
  have tws: "tg_workspace_id (commandTargetFromEntity e) = pe_workspace_id e" for e by (simp add: commandTargetFromEntity_def)
  have mem: "?P (fst (as_member rq db h))" if "?P (fst (h u w))" for h
    using that assms(1) by (auto simp: as_member_def split: option.splits)
  have "?P (fst (plan_route call rq db))"
  proof (cases call)
    case (Get scopeId)
    show ?thesis unfolding Get plan_route.simps plan_get_def by (rule mem) (auto split: sum.splits)
  next
    case (Post env)
    have cr: "?P (fst (createPlanEntityWithAuthorityRow env inp u idem db))" if "pi_workspace_id inp = w" for inp idem
      using that assms(3) by (intro disjI2 exI [of _ "Create env inp u idem"]) (simp add: Post create_spec_def plan_admit_def)
    show ?thesis unfolding Post plan_route.simps plan_post_def
      by (rule mem) (use cr in \<open>simp add: Let_def split: option.split sum.split\<close>)
  next
    case (Patch env i)
    have up: "?P (fst (updatePlanEntityWithAuthorityRow env (commandTargetFromEntity e) patch u idem db))"
      if "getPlanEntityRow i w (pd_rows db) = Some e" for e patch idem
      using ent [OF that] known [OF that] assms(3)
      by (intro disjI2 exI [of _ "Update env (commandTargetFromEntity e) patch u idem"]) (simp add: Patch update_spec_def plan_admit_def tws)
    show ?thesis unfolding Patch plan_route.simps plan_patch_route_def
      by (rule mem) (use up in \<open>simp add: Let_def split: option.split sum.split\<close>)
  next
    case (Remove env i)
    have de: "?P (fst (deletePlanEntityWithAuthorityRow env (commandTargetFromEntity e) u idem db))"
      if "getPlanEntityRow i w (pd_rows db) = Some e" for e idem
      using ent [OF that] known [OF that] assms(3)
      by (intro disjI2 exI [of _ "Delete env (commandTargetFromEntity e) u idem"]) (simp add: Remove delete_spec_def plan_admit_def tws)
    show ?thesis unfolding Remove plan_route.simps plan_delete_route_def
      by (rule mem) (use de in \<open>simp add: Let_def split: option.split sum.split\<close>)
  qed
  with that show ?thesis by blast
qed

text \<open>
  C20. A plan request stays in its workspace: whatever a member of a workspace requests, the rows, keys, events, audit rows and outbox
  rows of the other workspaces are what they were, and every member of another workspace reads the same plan.
\<close>

theorem plan_requests_stay_in_their_workspace:
  assumes "resolveActor rq = Inr (u, w)" and "distinct (map pe_id (pd_rows db))" and "call_physical call"
  shows "foreign w (fst (plan_route call rq db)) = foreign w db \<and>
    (\<forall>rq' u' w' scopeId. resolveActor rq' = Inr (u', w') \<and> w' \<noteq> w \<longrightarrow>
       snd (plan_get rq' scopeId (fst (plan_route call rq db))) = snd (plan_get rq' scopeId db))"
proof -
  have f: "foreign w (fst (plan_route call rq db)) = foreign w db"
    by (rule route_is_a_command [OF assms]) (use plan_do_foreign [OF assms(2)] in auto)
  have view: "listPlanEntitiesRow sc w' rows' = listPlanEntitiesRow sc w' rows" if "foreign_rows w rows' = foreign_rows w rows" "w' \<noteq> w" for sc w' rows rows'
  proof -
    have flt: "filter (\<lambda>r. pe_workspace_id r = w' \<and> pe_scope_id r = sc \<and> live_row r) xs =
        filter (\<lambda>r. pe_workspace_id r = w' \<and> pe_scope_id r = sc \<and> live_row r) (foreign_rows w xs)" for xs
      unfolding foreign_rows_def filter_filter using that(2) by (intro filter_cong) auto
    show ?thesis unfolding listPlanEntitiesRow_def flt [of rows'] flt [of rows] that(1) ..
  qed
  have "snd (plan_get rq' scopeId (fst (plan_route call rq db))) = snd (plan_get rq' scopeId db)"
    if "resolveActor rq' = Inr (u', w')" "w' \<noteq> w" for rq' u' w' scopeId
  proof -
    have "listPlanEntitiesRow (Some scopeId) w' (pd_rows (fst (plan_route call rq db))) = listPlanEntitiesRow (Some scopeId) w' (pd_rows db)"
      using f that(2) by (intro view) (simp_all add: foreign_def)
    with that(1) show ?thesis by (simp add: plan_get_def as_member_def split: option.split sum.split)
  qed
  with f show ?thesis by blast
qed

section \<open>Histories of requests\<close>

text \<open>
  Requests handled one after the other read the targets of their commands themselves, so nothing has to be assumed of what they
  carry: the plan stays a forest with numbered siblings.
\<close>

definition request_do :: "plan_call \<times> plan_request \<Rightarrow> plan_db \<Rightarrow> plan_db" where
  "request_do cr db = fst (plan_route (fst cr) (snd cr) db)"

definition request_admit :: "plan_call \<times> plan_request \<Rightarrow> plan_db \<Rightarrow> bool" where
  "request_admit cr db = call_physical (fst cr)"

lemma unauthenticated_request: "resolveActor rq = Inl r \<Longrightarrow> fst (plan_route call rq db) = db"
  by (cases call) (auto simp: plan_get_def plan_post_def plan_patch_route_def plan_delete_route_def as_member_def split: option.split)

interpretation request_history: guarded_history request_do request_admit "\<lambda>db. plan_forest (pd_rows db) \<and> plan_numbered (pd_rows db)"
proof
  fix db cr
  assume ok: "plan_forest (pd_rows db) \<and> plan_numbered (pd_rows db)" and ad: "request_admit cr db"
  obtain call rq where cr: "cr = (call, rq)" by (cases cr)
  have ids: "distinct (map pe_id (pd_rows db))" using ok by (simp add: plan_forest_def)
  show "plan_forest (pd_rows (request_do cr db)) \<and> plan_numbered (pd_rows (request_do cr db))"
  proof (cases "resolveActor rq")
    case (Inl r)
    with ok show ?thesis by (simp add: request_do_def cr unauthenticated_request)
  next
    case (Inr uw)
    obtain u w where uw: "resolveActor rq = Inr (u, w)" using Inr by (cases uw) auto
    have ph: "call_physical call" using ad by (simp add: request_admit_def cr)
    show ?thesis
      by (rule route_is_a_command [OF uw ids ph])
        (use ok numbering_history.step_keeps in \<open>auto simp: request_do_def cr plan_do_def\<close>)
  qed
qed

lemmas plan_requests_keep_the_plan = request_history.history_keeps

end
