(* ===== verification/Plan_Examples.thy ===== *)
theory Plan_Examples
  imports Plan_Landing Plan_Routes
begin

text \<open>
  A small plan on which the plan theorems are instantiated: a goal with three children, commands on it and what they leave behind;
  and two concurrent moves.
\<close>

section \<open>A goal with three children\<close>

definition demo_row :: "string \<Rightarrow> string option \<Rightarrow> int \<Rightarrow> plan_row" where
  "demo_row i p n = \<lparr>pe_id = i, pe_workspace_id = ''w'', pe_scope_id = Some ''s'', pe_scope_type = Some ''project'', pe_parent_id = p,
     pe_kind = ''goal'', pe_title = i, pe_summary = None, pe_status = ''open'', pe_position = n, pe_target_date = None, pe_derived_from = None, pe_promoted_to_intent_id = None,
     pe_created_by = ''u'', pe_updated_by = ''u'', pe_created_at = 1, pe_updated_at = 1, pe_deleted_at = None\<rparr>"

definition demo_rows :: "plan_row list" where
  "demo_rows = [demo_row ''g'' None 0, demo_row ''x'' (Some ''g'') 0, demo_row ''y'' (Some ''g'') 1, demo_row ''z'' (Some ''g'') 2]"

definition demo_db :: plan_db where
  "demo_db = \<lparr>pd_rows = demo_rows, pd_keys = [], pd_events = [], pd_audit = [], pd_audit_seq = 1, pd_outbox = []\<rparr>"

definition demo_env :: "string \<Rightarrow> int \<Rightarrow> plan_env" where
  "demo_env n now = \<lparr>pn_entity = n, pn_event = n, pn_outbox = n, pn_now = now, pn_iso = (\<lambda>_. ''iso''), pn_ord = rev, pn_date = Some\<rparr>"

definition demo_idem :: "string \<Rightarrow> string \<Rightarrow> idempotency_input" where
  "demo_idem key route = \<lparr>ii_key = key, ii_request_sha256 = replicate 64 (CHR ''a''), ii_route = route, ii_request_id = None\<rparr>"

definition demo_move :: "string \<Rightarrow> int \<Rightarrow> plan_row \<Rightarrow> plan_patch \<Rightarrow> plan_command" where
  "demo_move n now e patch =
     Update (demo_env n now) (commandTargetFromEntity e) patch ''u'' (demo_idem n (planRouteIdentity Plan_update (pe_id e)))"

definition demo_delete :: "string \<Rightarrow> int \<Rightarrow> plan_row \<Rightarrow> plan_command" where
  "demo_delete n now e = Delete (demo_env n now) (commandTargetFromEntity e) ''u'' (demo_idem n (planRouteIdentity Plan_delete (pe_id e)))"

abbreviation to_position :: "int \<Rightarrow> plan_patch" where
  "to_position n \<equiv> \<lparr>pp_title = None, pp_status = None, pp_position = Some n, pp_parent_id = None\<rparr>"

abbreviation rename :: "string \<Rightarrow> plan_patch" where
  "rename v \<equiv> \<lparr>pp_title = Some v, pp_status = None, pp_position = None, pp_parent_id = None\<rparr>"

abbreviation under :: "string \<Rightarrow> plan_patch" where
  "under p \<equiv> \<lparr>pp_title = None, pp_status = None, pp_position = None, pp_parent_id = Some (Some p)\<rparr>"

abbreviation z_first :: plan_command where
  "z_first \<equiv> demo_move ''n1'' 10 (demo_row ''z'' (Some ''g'') 2) (to_position 0)"

lemma demo_physical: "physical (demo_env n now)"
  by (simp add: physical_def demo_env_def)

lemma demo_forest: "plan_forest demo_rows"
proof -
  have "distinct (map pe_id demo_rows)" by code_simp
  moreover have "parent_rel demo_rows \<subseteq> measure (\<lambda>i. if i = ''g'' then 1 else 0)"
    by (auto simp: parent_rel_def demo_rows_def demo_row_def)
  then have "acyclic (parent_rel demo_rows)" using wf_acyclic [OF wf_measure] acyclic_subset by blast
  ultimately show ?thesis by (auto simp: plan_forest_def demo_rows_def demo_row_def same_scope_def live_row_def)
qed

lemma demo_numbered: "plan_numbered demo_rows"
  unfolding plan_numbered_def numbered_def
  by (auto simp: siblings_def demo_rows_def demo_row_def live_row_def upt_rec)

lemma demo_admit: "plan_admit z_first demo_db"
  unfolding plan_admit_def demo_move_def well_read.simps using demo_physical
  by (auto simp: knows_scope_def reads_parent_def current_target_def demo_db_def demo_rows_def demo_row_def commandTargetFromEntity_def)

section \<open>Witnesses\<close>

theorem plan_stays_a_forest_witness:
  "plan_reach demo_db (plan_do z_first demo_db) \<and> plan_forest (pd_rows demo_db) \<and> plan_forest (pd_rows (plan_do z_first demo_db))"
proof -
  have r: "plan_reach demo_db (plan_do z_first demo_db)" using demo_admit by (rule reach_by_one)
  have f: "plan_forest (pd_rows demo_db)" using demo_forest by (simp add: demo_db_def)
  from plan_stays_a_forest [OF r f] r f show ?thesis by blast
qed

theorem siblings_stay_numbered_witness:
  "plan_reach demo_db (plan_do z_first demo_db) \<and> plan_forest (pd_rows demo_db) \<and> plan_numbered (pd_rows demo_db) \<and>
   plan_numbered (pd_rows (plan_do z_first demo_db))"
proof -
  have r: "plan_reach demo_db (plan_do z_first demo_db)" using demo_admit by (rule reach_by_one)
  have f: "plan_forest (pd_rows demo_db)" "plan_numbered (pd_rows demo_db)" using demo_forest demo_numbered by (simp_all add: demo_db_def)
  from siblings_stay_numbered [OF r f] r f show ?thesis by blast
qed

abbreviation z_again :: plan_command where
  "z_again \<equiv> Update (demo_env ''n2'' 20) (commandTargetFromEntity (demo_row ''z'' (Some ''g'') 2)) (to_position 0) ''u''
     (demo_idem ''n1'' (planRouteIdentity Plan_update ''z''))"

lemma z_first_done: "case snd (plan_exec z_first demo_db) of Inl _ \<Rightarrow> False | Inr rc \<Rightarrow> \<not> pc_replayed rc"
  by code_simp

theorem plan_command_replays_witness:
  "\<exists>db1 rc. plan_exec z_first demo_db = (db1, Inr rc) \<and> plan_exec z_again db1 = (db1, Inr (rc\<lparr>pc_replayed := True\<rparr>))"
proof -
  obtain db1 rc where x: "plan_exec z_first demo_db = (db1, Inr rc)" "\<not> pc_replayed rc"
    using z_first_done by (cases "plan_exec z_first demo_db") (auto split: sum.splits)
  have db1: "db1 = plan_do z_first demo_db" by (simp add: plan_do_def x)
  have u: "unique_slots demo_db" by code_simp
  have r: "plan_reach db1 db1" by (rule reach_by.start)
  have s: "same_request z_first z_again" "representable z_again" by code_simp+
  have f: "fresh_clock (ps_timestamp (command_spec z_again)) (pd_rows db1)" unfolding db1 by code_simp
  from plan_command_replays [OF x u r s f] x(1) show ?thesis by blast
qed



abbreviation g_gone :: plan_db where
  "g_gone \<equiv> plan_do (demo_delete ''n4'' 10 (demo_row ''g'' None 0)) demo_db"

theorem orphan_is_frozen_witness:
  "dead ''g'' (pd_rows g_gone) \<and>
   executePlanEntityCommand (update_spec (demo_env ''n5'' 20) (commandTargetFromEntity (demo_row ''x'' (Some ''g'') 0)) (rename ''t'') ''u''
     (demo_idem ''n5'' (planRouteIdentity Plan_update ''x''))) g_gone = (g_gone, Inl plan_conflict)"
proof -
  let ?t = "commandTargetFromEntity (demo_row ''x'' (Some ''g'') 0)" and ?idem = "demo_idem ''n5'' (planRouteIdentity Plan_update ''x'')"
  have d: "dead ''g'' (pd_rows g_gone)" by code_simp
  have r: "plan_reach g_gone g_gone" by (rule reach_by.start)
  have p: "tg_parent_id ?t = Some ''g''" "pp_parent_id (rename ''t'') = None" by (simp_all add: commandTargetFromEntity_def demo_row_def)
  have s: "\<not> list_ex (plan_slot (update_spec (demo_env ''n5'' 20) ?t (rename ''t'') ''u'' ?idem)) (pd_keys g_gone)" by code_simp
  have f: "fresh_clock (pn_now (demo_env ''n5'' 20)) (pd_rows g_gone)" by code_simp
  have i: "representable (Update (demo_env ''n5'' 20) ?t (rename ''t'') ''u'' ?idem)" by code_simp
  from orphan_is_frozen [OF d r p s f i] d show ?thesis by blast
qed

abbreviation x_renamed :: plan_db where
  "x_renamed \<equiv> plan_do (demo_move ''n6'' 10 (demo_row ''x'' (Some ''g'') 0) (rename ''first'')) demo_db"

theorem lost_update_is_acknowledged_witness:
  "\<exists>db' rc. updatePlanEntityWithAuthorityRow (demo_env ''n7'' 10) (commandTargetFromEntity (demo_row ''x'' (Some ''g'') 0)) (rename ''second'') ''u''
     (demo_idem ''n7'' (planRouteIdentity Plan_update ''x'')) x_renamed = (db', Inr rc) \<and> pd_rows db' = pd_rows x_renamed \<and>
     pc_entity rc = Some ((demo_row ''x'' (Some ''g'') 0)\<lparr>pe_title := ''first'', pe_updated_at := 10\<rparr>) \<and> \<not> pc_replayed rc"
proof (rule lost_update_is_acknowledged)
  show "distinct (map pe_id (pd_rows x_renamed))" by code_simp
  show "(demo_row ''x'' (Some ''g'') 0)\<lparr>pe_title := ''first'', pe_updated_at := 10\<rparr> \<in> set (pd_rows x_renamed)" by code_simp
  show "validatePlanIdempotency (demo_idem ''n7'' (planRouteIdentity Plan_update ''x''))
      (planRouteIdentity Plan_update (tg_id (commandTargetFromEntity (demo_row ''x'' (Some ''g'') 0)))) = Inr ()" by code_simp
  show "fresh_ids (update_spec (demo_env ''n7'' 10) (commandTargetFromEntity (demo_row ''x'' (Some ''g'') 0)) (rename ''second'') ''u''
      (demo_idem ''n7'' (planRouteIdentity Plan_update ''x''))) x_renamed" by code_simp
  show "\<not> list_ex (plan_slot (update_spec (demo_env ''n7'' 10) (commandTargetFromEntity (demo_row ''x'' (Some ''g'') 0)) (rename ''second'') ''u''
      (demo_idem ''n7'' (planRouteIdentity Plan_update ''x'')))) (pd_keys x_renamed)" by code_simp
qed (simp_all add: commandTargetFromEntity_def demo_row_def demo_env_def moving_def wanted_position_def REPACK_OFFSET_def int4_def live_row_def)

theorem moved_entity_lands_witness:
  "\<exists>db' rc. updatePlanEntityWithAuthorityRow (demo_env ''n8'' 10) (commandTargetFromEntity (demo_row ''x'' (Some ''g'') 0)) (to_position 2) ''u''
     (demo_idem ''n8'' (planRouteIdentity Plan_update ''x'')) demo_db = (db', Inr rc) \<and>
     ordered ''w'' (Some ''s'') (Some ''g'') (pd_rows db') = [''y'', ''x'', ''z'']"
proof -
  let ?e = "demo_row ''x'' (Some ''g'') 0" and ?idem = "demo_idem ''n8'' (planRouteIdentity Plan_update ''x'')"
  let ?s = "update_spec (demo_env ''n8'' 10) (commandTargetFromEntity ?e) (to_position 2) ''u'' ?idem"
  have f: "plan_forest (pd_rows demo_db)" "plan_numbered (pd_rows demo_db)" using demo_forest demo_numbered by (simp_all add: demo_db_def)
  have "?e \<in> set (pd_rows demo_db)" "live_row ?e" "moving (to_position 2)"
    "admissible_parent (commandTargetFromEntity ?e) (new_parent (commandTargetFromEntity ?e) (to_position 2)) (pd_rows demo_db)"
    "0 \<le> wanted_position (commandTargetFromEntity ?e) (to_position 2)"
    "int4 (wanted_position (commandTargetFromEntity ?e) (to_position 2) + 2 * REPACK_OFFSET)"
    "int (length (pd_rows demo_db)) < REPACK_OFFSET" by code_simp+
  then have v: "valid_move (demo_env ''n8'' 10) ?e (to_position 2) (pd_rows demo_db)"
    unfolding valid_move_def Let_def using demo_physical by blast
  have i: "validatePlanIdempotency ?idem (planRouteIdentity Plan_update (pe_id ?e)) = Inr ()" by code_simp
  have t: "\<forall>v. pp_title (to_position 2) = Some v \<longrightarrow> v \<noteq> [] \<and> length v \<le> 200" by simp
  have n: "fresh_ids ?s demo_db" "\<not> list_ex (plan_slot ?s) (pd_keys demo_db)" by code_simp+
  have e: "pe_id ?e \<noteq> []" "pn_iso (demo_env ''n8'' 10) (pn_now (demo_env ''n8'' 10)) \<noteq> []" by (simp_all add: demo_row_def demo_env_def)
  have o: "order_after_move ?e (to_position 2) ''w'' (Some ''s'') (Some ''g'') (ordered ''w'' (Some ''s'') (Some ''g'') (pd_rows demo_db)) = [''y'', ''x'', ''z'']"
    by code_simp
  from moved_entity_lands [OF f v i t n e] o show ?thesis by metis
qed

definition demo_request :: "string \<Rightarrow> plan_request" where
  "demo_request ws = \<lparr>rq_flag = Some ''true'', rq_auth = Some (empty_auth\<lparr>au_user_id := Some ''u'', au_workspace_id := Some ws\<rparr>),
     rq_request_id = None, rq_cf_ray = None, rq_key = Some ''k'', rq_body = [], rq_parse = (\<lambda>_. None),
     rq_sha256 = (\<lambda>_. replicate 64 (CHR ''a'')), rq_num = (\<lambda>_. [])\<rparr>"

lemma demo_actor: "ws \<noteq> [] \<Longrightarrow> resolveActor (demo_request ws) = Inr (''u'', ws)"
  by (simp add: resolveActor_def demo_request_def empty_auth_def)

lemma demo_deleted: "case snd (plan_delete_route (demo_env ''n9'' 10) (demo_request ''w'') ''y'' demo_db) of Receipt st b rc \<Rightarrow> st = 200 \<and> \<not> b | _ \<Rightarrow> False"
  by code_simp

theorem plan_requests_stay_in_their_workspace_witness:
  "foreign ''w'' (fst (plan_route (Remove (demo_env ''n9'' 10) ''y'') (demo_request ''w'') demo_db)) = foreign ''w'' demo_db \<and>
   snd (plan_get (demo_request ''v'') ''s'' (fst (plan_route (Remove (demo_env ''n9'' 10) ''y'') (demo_request ''w'') demo_db))) =
     snd (plan_get (demo_request ''v'') ''s'' demo_db)"
proof -
  have a: "resolveActor (demo_request ''w'') = Inr (''u'', ''w'')" "resolveActor (demo_request ''v'') = Inr (''u'', ''v'')"
    by (rule demo_actor, simp)+
  have d: "distinct (map pe_id (pd_rows demo_db))" by code_simp
  have p: "call_physical (Remove (demo_env ''n9'' 10) ''y'')" using demo_physical by simp
  from plan_requests_stay_in_their_workspace [OF a(1) d p] a(2) show ?thesis by simp
qed

section \<open>Two observations\<close>

text \<open>Asking for the next place down moves nothing: the entity is put in front of its old successor, where it was.\<close>

lemma next_place_is_the_same:
  assumes "distinct xs" and "k < length xs"
  shows "insert_before (xs ! k) (Suc k) xs = xs"
proof -
  have sp: "xs = take k xs @ xs ! k # drop (Suc k) xs" using assms(2) by (rule id_take_nth_drop)
  have "distinct (take k xs @ xs ! k # drop (Suc k) xs)" using assms(1) sp by simp
  then have "xs ! k \<notin> set (take k xs)" "xs ! k \<notin> set (drop (Suc k) xs)" by auto
  then show ?thesis unfolding insert_before_def using sp assms(2) by (simp add: take_Suc_conv_app_nth removeAll_id)
qed

text \<open>
  Two moves of entities of different parents under each other lock disjoint sets of siblings. When both read the hierarchy before
  either has committed, both are admitted and the hierarchy has a cycle.
\<close>

definition two_goals :: "plan_row list" where
  "two_goals = [demo_row ''p'' None 0, demo_row ''q'' None 1, demo_row ''a'' (Some ''p'') 0, demo_row ''b'' (Some ''q'') 0]"

definition crossing_moves :: "plan_error + plan_row list" where
  "crossing_moves =
     (case update_statement (demo_env ''n1'' 10) (commandTargetFromEntity (demo_row ''a'' (Some ''p'') 0)) (under ''b'') ''u'' two_goals True two_goals of
        Inl e \<Rightarrow> Inl e
      | Inr mid \<Rightarrow> update_statement (demo_env ''n2'' 11) (commandTargetFromEntity (demo_row ''b'' (Some ''q'') 0)) (under ''a'') ''u'' two_goals True mid)"

lemma crossing_moves_form_a_cycle:
  "\<exists>rows. crossing_moves = Inr rows \<and> map (\<lambda>r. (pe_id r, pe_parent_id r)) (filter live_row rows) =
     [(''p'', None), (''q'', None), (''a'', Some ''b''), (''b'', Some ''a'')]"
proof (cases crossing_moves)
  case (Inl e)
  have "\<not> isl crossing_moves" by code_simp
  with Inl show ?thesis unfolding Inl sum.disc by simp
next
  case (Inr rows)
  have "map (\<lambda>r. (pe_id r, pe_parent_id r)) (filter live_row (projr crossing_moves)) =
      [(''p'', None), (''q'', None), (''a'', Some ''b''), (''b'', Some ''a'')]" by code_simp
  from this [unfolded Inr sum.sel] show ?thesis unfolding Inr by (intro exI [of _ rows] conjI refl)
qed

end
