(* ===== verification/Plan_Guarded.thy ===== *)
theory Plan_Guarded
  imports Idempotency Plan_Examples
begin

text \<open>
  The plan routes behind the retry guard. \<^verbatim>\<open>index.ts\<close> mounts the route groups of \<^verbatim>\<open>/api/v1\<close> as siblings, and the
  \<^verbatim>\<open>use('*', idempotencyMiddleware())\<close> of the groups mounted before \<^verbatim>\<open>routes/plan.ts\<close> (\<^verbatim>\<open>routes/operational-spine.ts\<close>,
  \<^verbatim>\<open>routes/customer-chat.ts\<close>) matches plan requests too: the first of them reserves the key and marks the request, the
  others let it pass, so the chain is one guard around the handler. The handler catches every error, so it never throws.

  The guard's own rows (\<^verbatim>\<open>ordinary_retry_guard\<close>) and the replay rows of the plan commands (\<^verbatim>\<open>authority_strict\<close>) are the two
  modes of the table \<^verbatim>\<open>idempotency_keys\<close>; no statement of either mode touches a row of the other, so they are the two fields of
  \<open>idem_world\<close>. How \<^verbatim>\<open>to_jsonb\<close> prints an entity row is the parameter \<open>pr\<close>.
\<close>

section \<open>Responses\<close>

definition json_option :: "('a \<Rightarrow> json) \<Rightarrow> 'a option \<Rightarrow> json" where
  "json_option f v = (case v of None \<Rightarrow> JNull | Some x \<Rightarrow> f x)"

definition receipt_json :: "(plan_row \<Rightarrow> json) \<Rightarrow> plan_receipt \<Rightarrow> json" where
  "receipt_json pr rc = JObj
     [(''entity'', json_option pr (pc_entity rc)),
      (''deleted'', json_option (\<lambda>(i, stamp). JObj [(''id'', JStr i), (''updated_at'', JStr stamp)]) (pc_deleted rc)),
      (''plan_entity_id'', JStr (pc_plan_entity_id rc)),
      (''plan_revision_id'', JStr (pc_plan_revision_id rc)),
      (''operation'', JStr (plan_op_str (pc_operation rc))),
      (''receipt_id'', JStr (pc_receipt_id rc)),
      (''operation_event_id'', JStr (pc_operation_event_id rc)),
      (''audit_event_id'', JStr (pc_audit_event_id rc)),
      (''projection_outbox_id'', JStr (pc_projection_outbox_id rc)),
      (''read_model_watermark'', JStr (pc_read_model_watermark rc)),
      (''replayed'', JBool (pc_replayed rc))]"

definition api_error_json :: "api_error \<Rightarrow> json" where
  "api_error_json e = JObj [(''error'', JStr (ae_error e)), (''code'', JStr (ae_code e)), (''request_id'', JStr (ae_request_id e))]"

fun render :: "(plan_row \<Rightarrow> json) \<Rightarrow> plan_reply \<Rightarrow> response" where
  "render pr (Failed e) = \<lparr>rs_status = ae_status e, rs_body = Some (api_error_json e), rs_replayed = False\<rparr>"
| "render pr (Entities scope es) = \<lparr>rs_status = 200,
     rs_body = Some (JObj [(''scope_id'', JStr scope), (''entities'', JArr (map pr es)), (''data_class'', JStr ''live'')]), rs_replayed = False\<rparr>"
| "render pr (Receipt st replayed rc) = \<lparr>rs_status = st, rs_body = Some (receipt_json pr rc), rs_replayed = replayed\<rparr>"

section \<open>The guarded routes\<close>

fun call_method :: "plan_call \<Rightarrow> string" where
  "call_method (Get s) = ''GET''"
| "call_method (Post env) = ''POST''"
| "call_method (Patch env i) = ''PATCH''"
| "call_method (Remove env i) = ''DELETE''"

fun call_path :: "plan_call \<Rightarrow> string" where
  "call_path (Get s) = ''/api/v1/plan/'' @ s"
| "call_path (Post env) = ''/api/v1/plan/entity''"
| "call_path (Patch env i) = ''/api/v1/plan/entity/'' @ i"
| "call_path (Remove env i) = ''/api/v1/plan/entity/'' @ i"

text \<open>What the guard reads of a plan request; \<open>flag\<close> is \<^verbatim>\<open>IDEMPOTENCY_ENABLED\<close>. No guard has marked the request yet.\<close>

definition guard_request :: "string option \<Rightarrow> plan_call \<Rightarrow> plan_request \<Rightarrow> idem_request" where
  "guard_request flag call rq = idem_request.make (call_method call) (Some (call_path call)) (rq_key rq)
     (case rq_auth rq of None \<Rightarrow> None | Some auth \<Rightarrow> au_workspace_id auth) flag None"

definition plan_handler :: "(plan_row \<Rightarrow> json) \<Rightarrow> plan_call \<Rightarrow> plan_request \<Rightarrow> (plan_db, unit) handler" where
  "plan_handler pr call rq db = (case plan_route call rq db of (db', reply) \<Rightarrow> (Inr (render pr reply), db'))"

definition guarded_plan ::
  "(plan_row \<Rightarrow> json) \<Rightarrow> idem_faults \<Rightarrow> (idem_table \<Rightarrow> idem_table) \<Rightarrow> string option \<Rightarrow> plan_call \<Rightarrow> plan_request \<Rightarrow> plan_db idem_world
     \<Rightarrow> (unit + response) \<times> plan_db idem_world" where
  "guarded_plan pr ft interfere flag call rq w = idempotencyMiddleware ft interfere (guard_request flag call rq) (plan_handler pr call rq) w"

section \<open>Histories of the guard's table\<close>

text \<open>Any requests' guards may run between an attempt and its retry: statements on any key, in any order.\<close>

datatype guard_statement =
    Reserve string string string
  | Complete "string \<times> string" int json
  | Release "string \<times> string"

fun guard_do :: "guard_statement \<Rightarrow> idem_table \<Rightarrow> idem_table" where
  "guard_do (Reserve ws k route) t = fst (insert_reservation ws k route t)"
| "guard_do (Complete key st b) t = complete_rows key st b t"
| "guard_do (Release key) t = release_rows key t"

abbreviation guard_reach :: "idem_table \<Rightarrow> idem_table \<Rightarrow> bool" where
  "guard_reach \<equiv> reach_by guard_do (\<lambda>_ _. True)"

interpretation recorded: guarded_history guard_do "\<lambda>_ _. True" "\<lambda>t. idem_wf t \<and> idem_slot t key = Completed st b" for key st b
proof
  fix t c
  assume t: "idem_wf t \<and> idem_slot t key = Completed st b"
  show "idem_wf (guard_do c t) \<and> idem_slot (guard_do c t) key = Completed st b"
  proof (cases c)
    case (Reserve ws k route)
    with t idem.completed_is_final(1) [where t = t and k = key and st = st and b = b and k' = "(ws, k)" and route = route] claim_wf [of t ws k route] show ?thesis by simp
  next
    case (Complete k st' b')
    with t idem.completed_is_final(2) [where t = t and k = key and st = st and b = b and k' = k and st' = st' and b' = b'] idem.invar_complete [where t = t and k = k and st = st' and b = b'] show ?thesis by simp
  next
    case (Release k)
    with t idem.completed_is_final(3) [where t = t and k = key and st = st and b = b and k' = k] idem.invar_release [where t = t and k = k] show ?thesis by simp
  qed
qed

section \<open>A retried delete\<close>

lemma delete_is_guarded_method: "map upper_char ''DELETE'' \<in> IDEMPOTENT_METHODS"
  by code_simp

lemma guard_method [simp]: "rq_method (guard_request flag (Remove env i) rq) = ''DELETE''"
  by (simp add: guard_request_def idem_request.defs)

text \<open>The guard of a DELETE on a free key, on a pending one and on a completed one.\<close>

lemma guard_on_free:
  assumes "guarded (guard_request flag (Remove env i) rq)" and "slot_of_request (guard_request flag (Remove env i) rq) (iw_table w) = Free"
    and "plan_delete_route env rq i (iw_app w) = (db1, reply)"
  defines "g \<equiv> guard_request flag (Remove env i) rq"
  shows "\<exists>route. guarded_plan pr ft f flag (Remove env i) rq w = (Inr (render pr reply),
    \<lparr>iw_table = settle ft (request_workspace g) (request_key g) (Inr (render pr reply) :: unit + response)
       (if ft_insert_up ft then fst (insert_reservation (request_workspace g) (request_key g) route (iw_table w)) else iw_table w),
     iw_app = db1\<rparr>)"
proof -
  let ?ws = "request_workspace g" and ?k = "request_key g"
  have g: "idempotencyEnabled (idem_request.rq_flag g)" "?k \<noteq> []" "?ws \<noteq> []" "rq_marker g \<noteq> Some ?k"
    using assms(1) unfolding g_def guarded_def by blast+
  have won: "snd (insert_reservation ?ws ?k route (iw_table w))" for route
    using assms(2) unfolding g_def slot_of_request_def claim_won_iff .
  have res: "reserveIdempotencyKey ft f ?ws ?k route (iw_table w) =
      (if ft_insert_up ft then fst (insert_reservation ?ws ?k route (iw_table w)) else iw_table w, Owned)" for route
    using won [of route] g(2,3) by (simp add: reserveIdempotencyKey_def case_prod_unfold)
  have h: "run_handler (plan_handler pr (Remove env i) rq) (w\<lparr>iw_table := t\<rparr>) = (Inr (render pr reply), \<lparr>iw_table = t, iw_app = db1\<rparr>)" for t
    using assms(3) by (simp add: run_handler_def plan_handler_def)
  have m: "map upper_char (rq_method g) \<in> IDEMPOTENT_METHODS" unfolding g_def guard_method by (rule delete_is_guarded_method)
  show ?thesis
    unfolding guarded_plan_def g_def [symmetric] idempotencyMiddleware_def Let_def
    using m g by (simp add: res h) blast
qed

lemma guard_on_taken:
  assumes "guarded (guard_request flag (Remove env i) rq)"
  defines "g \<equiv> guard_request flag (Remove env i) rq"
  shows "slot_of_request g (iw_table w) = Pending \<Longrightarrow>
      guarded_plan pr all_up id flag (Remove env i) rq w = (Inr in_progress_response, w)"
    and "slot_of_request g (iw_table w) = Completed st b \<Longrightarrow> st \<noteq> 0 \<Longrightarrow>
      guarded_plan pr all_up id flag (Remove env i) rq w = (Inr \<lparr>rs_status = st, rs_body = Some b, rs_replayed = True\<rparr>, w)"
proof -
  let ?ws = "request_workspace g" and ?k = "request_key g"
  have g: "guarded g" "idempotencyEnabled (idem_request.rq_flag g)" "?k \<noteq> []" "?ws \<noteq> []" "rq_marker g \<noteq> Some ?k"
    using assms(1) unfolding g_def guarded_def by blast+
  have m: "map upper_char (rq_method g) \<in> IDEMPOTENT_METHODS" unfolding g_def guard_method by (rule delete_is_guarded_method)
  show "guarded_plan pr all_up id flag (Remove env i) rq w = (Inr in_progress_response, w)"
    if p: "slot_of_request g (iw_table w) = Pending"
  proof -
    have "reserveIdempotencyKey all_up id ?ws ?k route (iw_table w) = (iw_table w, In_progress)" for route
      using reserve_taken [OF g(1)] p
      by (auto simp: slot_of_request_def idem_slot_def read_reservation_def split: option.splits)
    then show ?thesis unfolding guarded_plan_def g_def [symmetric] idempotencyMiddleware_def Let_def using m g by simp
  qed
  show "guarded_plan pr all_up id flag (Remove env i) rq w = (Inr \<lparr>rs_status = st, rs_body = Some b, rs_replayed = True\<rparr>, w)"
    if c: "slot_of_request g (iw_table w) = Completed st b" "st \<noteq> 0"
    unfolding guarded_plan_def g_def [symmetric] idempotencyMiddleware_def Let_def
    using m g by (simp add: reserve_completed [OF g(1) c])
qed

text \<open>What a delete's receipt leaves in the slot of its key, by the statements of the guard that threw.\<close>

lemma slot_after_receipt:
  assumes "guarded g" and "idem_wf t" and "slot_of_request g t = Free"
  shows "slot_of_request g (settle ft (request_workspace g) (request_key g) (Inr (render pr (Receipt 200 False rc)) :: unit + response)
      (if ft_insert_up ft then fst (insert_reservation (request_workspace g) (request_key g) route t) else t)) =
    (if \<not> ft_insert_up ft then Free else if ft_complete_up ft then Completed 200 (receipt_json pr rc) else Pending)" (is "_ (settle ft ?ws ?k ?r ?t) = _")
proof -
  have ne: "?ws \<noteq> []" "?k \<noteq> []" using assms(1) by (auto simp: guarded_def)
  have st: "settle ft ?ws ?k ?r t' = (if ft_complete_up ft then complete_rows (?ws, ?k) 200 (receipt_json pr rc) t' else t')" for t'
    using ne by (simp add: settle_def replayable_body_def receipt_json_def completeIdempotencyKey_def complete_rows_def)
  have fr: "idem_slot t (?ws, ?k) = Free" using assms(3) unfolding slot_of_request_def .
  then show ?thesis unfolding slot_of_request_def st by (simp add: claim_slot complete_slot)
qed

lemma recorded_wf:
  assumes "idem_wf t"
  shows "idem_wf (settle ft (request_workspace g) (request_key g) (Inr (render pr (Receipt 200 False rc)) :: unit + response)
      (if ft_insert_up ft then fst (insert_reservation (request_workspace g) (request_key g) route t) else t))"
proof -
  have c: "idem_wf (completeIdempotencyKey ft ws k st b t')" if "idem_wf t'" for ws k st b t'
    using that unfolding completeIdempotencyKey_def Let_def by (simp add: idem_wf_map)
  show ?thesis using assms claim_wf [OF assms] by (simp add: settle_def replayable_body_def receipt_json_def c)
qed

lemma receipt_actor:
  assumes "plan_delete_route env rq i db = (db1, Receipt st b rc)"
  obtains x where "resolveActor rq = Inr x"
  using assms by (cases "resolveActor rq")
    (auto simp: plan_delete_route_def as_member_def planDisabledResponse_def reply_error_def split: if_splits dest: resolveActor_refuses)

lemma same_actor: "rq_auth rq' = rq_auth rq \<Longrightarrow> resolveActor rq = Inr x \<Longrightarrow> resolveActor rq' = Inr x"
  by (auto simp: resolveActor_def split: option.splits if_splits)

text \<open>
  C23. A retried delete, guard switched on: a DELETE on a free key of a sound plan has been answered with its receipt, any admitted
  plan commands have followed, and the same caller retries with the same key while the guard's own statements work. The retry leaves
  the plan as it is. Where the first attempt's reservation and completion both went through, it is answered with the recorded
  receipt, whatever statements of other requests the guard's table has seen since. The guard is the only replay a delete has: its
  handler does not find the entity any more and never reaches the command's own replay row. So where the first reservation threw and
  the slot is still free, the retry is answered 404; and where the completion threw and the slot is still pending, 409.
\<close>

theorem retried_delete:
  assumes "plan_forest (pd_rows (iw_app w))" and "idem_wf (iw_table w)"
    and "guarded (guard_request flag (Remove env i) rq)" and "slot_of_request (guard_request flag (Remove env i) rq) (iw_table w) = Free"
    and "plan_delete_route env rq i (iw_app w) = (db1, Receipt 200 False rc)"
    and "guarded_plan pr ft f flag (Remove env i) rq w = (r1, w1)"
    and "plan_reach db1 (iw_app w2)"
    and "guarded (guard_request flag' (Remove env' i) rq')" and "rq_key rq' = rq_key rq" and "rq_auth rq' = rq_auth rq"
    and "envFlagTrue (plan_request.rq_flag rq')"
  shows "r1 = Inr (render pr (Receipt 200 False rc)) \<and> iw_app w1 = db1 \<and>
    slot_of_request (guard_request flag (Remove env i) rq) (iw_table w1) =
      (if \<not> ft_insert_up ft then Free else if ft_complete_up ft then Completed 200 (receipt_json pr rc) else Pending) \<and>
    (ft_insert_up ft \<and> ft_complete_up ft \<and> guard_reach (iw_table w1) (iw_table w2) \<longrightarrow>
       guarded_plan pr all_up id flag' (Remove env' i) rq' w2 =
         (Inr \<lparr>rs_status = 200, rs_body = Some (receipt_json pr rc), rs_replayed = True\<rparr>, w2)) \<and>
    (slot_of_request (guard_request flag (Remove env i) rq) (iw_table w2) = Pending \<longrightarrow>
       guarded_plan pr all_up id flag' (Remove env' i) rq' w2 = (Inr in_progress_response, w2)) \<and>
    (slot_of_request (guard_request flag (Remove env i) rq) (iw_table w2) = Free \<longrightarrow>
       (\<exists>t. guarded_plan pr all_up id flag' (Remove env' i) rq' w2 =
         (Inr (render pr (refuse rq' 404 ''NOT_FOUND'' (''plan entity '' @ i @ '' not found''))), w2\<lparr>iw_table := t\<rparr>)))"
proof -
  define g where "g = guard_request flag (Remove env i) rq"
  define g' where "g' = guard_request flag' (Remove env' i) rq'"
  have same: "slot_of_request g' t = slot_of_request g t" for t
    using assms(9,10) unfolding g_def g'_def slot_of_request_def request_key_def request_workspace_def
    by (simp add: guard_request_def idem_request.defs)
  note gd = assms(3) [folded g_def] and gd' = assms(8) [folded g'_def]
  have fr: "slot_of_request g (iw_table w) = Free" using assms(4) unfolding g_def .
  from guard_on_free [OF assms(3,4,5), of pr ft f] obtain route where
    w1: "r1 = Inr (render pr (Receipt 200 False rc))" "iw_app w1 = db1"
      "iw_table w1 = settle ft (request_workspace g) (request_key g) (Inr (render pr (Receipt 200 False rc)) :: unit + response)
         (if ft_insert_up ft then fst (insert_reservation (request_workspace g) (request_key g) route (iw_table w)) else iw_table w)"
    unfolding assms(6) g_def by auto
  note slot1 = slot_after_receipt [OF gd assms(2) fr, of ft pr rc route, folded w1(3)]
  note wf1 = recorded_wf [OF assms(2), of ft g pr rc route, folded w1(3)]
  have replay: "guarded_plan pr all_up id flag' (Remove env' i) rq' w2 =
      (Inr \<lparr>rs_status = 200, rs_body = Some (receipt_json pr rc), rs_replayed = True\<rparr>, w2)"
    if "ft_insert_up ft" "ft_complete_up ft" "guard_reach (iw_table w1) (iw_table w2)"
  proof -
    have "slot_of_request g (iw_table w2) = Completed 200 (receipt_json pr rc)"
      using recorded.history_keeps [OF that(3)] slot1 wf1 that(1,2) unfolding slot_of_request_def by simp
    then show ?thesis by (intro guard_on_taken(2) [OF assms(8)]) (simp_all add: same [unfolded g'_def])
  qed
  have pending: "guarded_plan pr all_up id flag' (Remove env' i) rq' w2 = (Inr in_progress_response, w2)"
    if "slot_of_request g (iw_table w2) = Pending"
    using that by (intro guard_on_taken(1) [OF assms(8)]) (simp add: same [unfolded g'_def])
  obtain x where "resolveActor rq = Inr x" by (rule receipt_actor [OF assms(5)])
  then obtain u0 ws0 where actor: "resolveActor rq' = Inr (u0, ws0)" using same_actor [OF assms(10)] by (cases x) auto
  have free: "\<exists>t. guarded_plan pr all_up id flag' (Remove env' i) rq' w2 =
      (Inr (render pr (refuse rq' 404 ''NOT_FOUND'' (''plan entity '' @ i @ '' not found''))), w2\<lparr>iw_table := t\<rparr>)"
    if "slot_of_request g (iw_table w2) = Free"
  proof -
    note nf = handler_forgets_the_deleted [OF assms(1,5,7,11) actor, of env']
    have fr': "slot_of_request (guard_request flag' (Remove env' i) rq') (iw_table w2) = Free" using that same unfolding g'_def by simp
    from guard_on_free [OF assms(8) fr' nf, of pr all_up id] obtain route where
      out: "guarded_plan pr all_up id flag' (Remove env' i) rq' w2 = (Inr (render pr (refuse rq' 404 ''NOT_FOUND'' (''plan entity '' @ i @ '' not found''))),
        \<lparr>iw_table = settle all_up (request_workspace g') (request_key g') (Inr (render pr (refuse rq' 404 ''NOT_FOUND'' (''plan entity '' @ i @ '' not found''))) :: unit + response)
           (if ft_insert_up all_up then fst (insert_reservation (request_workspace g') (request_key g') route (iw_table w2)) else iw_table w2),
         iw_app = iw_app w2\<rparr>)" unfolding g'_def by blast
    have "w2\<lparr>iw_table := t\<rparr> = \<lparr>iw_table = t, iw_app = iw_app w2\<rparr>" for t by simp
    with out show ?thesis by metis
  qed
  from w1(1,2) slot1 replay pending free show ?thesis unfolding g_def by blast
qed

theorem retried_delete_witness:
  "\<exists>w1 rc. guarded_plan (\<lambda>_. JNull) all_up id (Some ''true'') (Remove (demo_env ''n9'' 10) ''y'') (demo_request ''w'') \<lparr>iw_table = [], iw_app = demo_db\<rparr> =
       (Inr (render (\<lambda>_. JNull) (Receipt 200 False rc)), w1) \<and>
     guarded_plan (\<lambda>_. JNull) all_up id (Some ''true'') (Remove (demo_env ''n10'' 20) ''y'') (demo_request ''w'') w1 =
       (Inr \<lparr>rs_status = 200, rs_body = Some (receipt_json (\<lambda>_. JNull) rc), rs_replayed = True\<rparr>, w1)"
proof -
  let ?w = "\<lparr>iw_table = [], iw_app = demo_db\<rparr>" and ?p = "\<lambda>_ :: plan_row. JNull"
  have f: "plan_forest (pd_rows (iw_app ?w))" "idem_wf (iw_table ?w)" using demo_forest by (simp_all add: demo_db_def idem_wf_def)
  have g: "guarded (guard_request (Some ''true'') (Remove e ''y'') (demo_request ''w''))" for e
    by (simp add: guarded_def guard_request_def idem_request.defs idempotencyEnabled_def request_key_def request_workspace_def demo_request_def empty_auth_def)
      code_simp
  have s: "slot_of_request (guard_request (Some ''true'') (Remove e ''y'') (demo_request ''w'')) (iw_table ?w) = Free" for e
    by (simp add: slot_of_request_def idem_slot_def select_reservation_def)
  obtain db1 rc where d: "plan_delete_route (demo_env ''n9'' 10) (demo_request ''w'') ''y'' (iw_app ?w) = (db1, Receipt 200 False rc)"
    using demo_deleted by (cases "plan_delete_route (demo_env ''n9'' 10) (demo_request ''w'') ''y'' demo_db") (auto split: plan_reply.splits)
  obtain r1 w1 where x: "guarded_plan ?p all_up id (Some ''true'') (Remove (demo_env ''n9'' 10) ''y'') (demo_request ''w'') ?w = (r1, w1)"
    by (cases "guarded_plan ?p all_up id (Some ''true'') (Remove (demo_env ''n9'' 10) ''y'') (demo_request ''w'') ?w")
  have on: "envFlagTrue (plan_request.rq_flag (demo_request ''w''))" by code_simp
  note retry = retried_delete [OF f g s d x _ g refl refl on, of _ "demo_env ''n10'' 20"]
  have p0: "plan_reach db1 (iw_app \<lparr>iw_table = [], iw_app = db1\<rparr>)" unfolding idem_world.simps by (rule reach_by.start)
  note first = retry [OF p0]
  have app: "iw_app w1 = db1" using first by (rule conjunct1 [OF conjunct2])
  have p1: "plan_reach db1 (iw_app w1)" unfolding app by (rule reach_by.start)
  have "guard_reach (iw_table w1) (iw_table w1)" by (rule reach_by.start)
  with conjunct1 [OF conjunct2 [OF conjunct2 [OF conjunct2 [OF retry [OF p1]]]]]
  have "guarded_plan ?p all_up id (Some ''true'') (Remove (demo_env ''n10'' 20) ''y'') (demo_request ''w'') w1 =
      (Inr \<lparr>rs_status = 200, rs_body = Some (receipt_json ?p rc), rs_replayed = True\<rparr>, w1)" by (simp only: all_up_sel simp_thms)
  with x conjunct1 [OF first] show ?thesis by blast
qed

end
