(* ===== verification/Connector_Grants.thy ===== *)
theory Connector_Grants
  imports Members Histories "HOL-Library.Char_ord" "HOL-Library.List_Lexorder"
begin

text \<open>
  Connector grants: the dedicated OAuth credentials of a workspace's Google sources (\<^verbatim>\<open>dal/connector-oauth-store.ts\<close>, migration
  101), the token adapter that refreshes them (\<^verbatim>\<open>dal/connector-oauth-adapter.ts\<close>) and the disconnect handler
  (\<^verbatim>\<open>routes/sources.ts\<close>). Instants are numbers of milliseconds. The provider's endpoints and the encryption of tokens are
  parameters; while a handler waits for the provider, other statements may run (\<open>gap\<close>).
\<close>

section \<open>Tables\<close>

datatype grant_status = Grant_active | Grant_refresh_required | Grant_revoked | Grant_error

record connector_grant =
  cg_id :: string
  cg_workspace_id :: string
  cg_user_id :: string
  cg_authority_provider :: string
  cg_provider_account_id :: string
  cg_provider_label :: "string option"
  cg_scopes :: "string list"
  cg_access_expires_at :: "int option"
  cg_status :: grant_status
  cg_last_refresh_at :: "int option"
  cg_last_refresh_error :: "string option"
  cg_revocation_verified_at :: "int option"
  cg_created_at :: int
  cg_updated_at :: int

record grant_secret = connector_grant +
  cg_token_ciphertext :: string
  cg_token_iv :: string

record source_connection =
  sc_id :: string
  sc_workspace_id :: "string option"
  sc_user_id :: string
  sc_provider :: string
  sc_provider_user_id :: "string option"
  sc_provider_username :: "string option"
  sc_oauth_grant_id :: "string option"
  sc_scopes :: "string list"
  sc_contract :: json
  sc_status :: string
  sc_read_policy :: string
  sc_connected_at :: int
  sc_last_sync_at :: "int option"
  sc_last_sync_error :: "string option"
  sc_disconnected_at :: "int option"
  sc_created_at :: int
  sc_updated_at :: int

record state_nonce =
  sn_nonce_hash :: string
  sn_workspace_id :: string
  sn_user_id :: string
  sn_provider :: string
  sn_expires_at :: int
  sn_consumed_at :: "int option"
  sn_created_at :: int

record grant_db =
  gd_grants :: "grant_secret list"
  gd_sources :: "source_connection list"
  gd_nonces :: "state_nonce list"
  gd_audit :: "audit_row list"
  gd_audit_seq :: nat

text \<open>A plain error has no status, a coded one has a code only, a DAL error both; a constraint violation names the constraint.\<close>

datatype grant_error = G_plain string | G_coded string string | G_dal dal_error | G_db string

section \<open>State nonces\<close>

record nonce_input =
  ni_nonce_hash :: string
  ni_workspace_id :: string
  ni_user_id :: string
  ni_provider :: string

definition registerConnectorOAuthStateNonceRow :: "int \<Rightarrow> int \<Rightarrow> nonce_input \<Rightarrow> grant_db \<Rightarrow> grant_db \<times> (grant_error + unit)" where
  "registerConnectorOAuthStateNonceRow now expires_at i db =
     (if ni_nonce_hash i = [] \<or> ni_workspace_id i = [] \<or> ni_user_id i = []
      then (db, Inl (G_plain ''connector OAuth state nonce identity is incomplete''))
      else if ni_provider i \<notin> {''google_drive'', ''gmail''} \<or> expires_at \<le> now then (db, Inl (G_db ''connector_oauth_state_nonces_check''))
      else if list_ex (\<lambda>n. sn_nonce_hash n = ni_nonce_hash i) (gd_nonces db) then (db, Inr ())
      else (db\<lparr>gd_nonces := gd_nonces db @ [\<lparr>sn_nonce_hash = ni_nonce_hash i, sn_workspace_id = ni_workspace_id i, sn_user_id = ni_user_id i,
          sn_provider = ni_provider i, sn_expires_at = expires_at, sn_consumed_at = None, sn_created_at = now\<rparr>]\<rparr>, Inr ()))"

definition claimable_nonce :: "int \<Rightarrow> nonce_input \<Rightarrow> state_nonce \<Rightarrow> bool" where
  "claimable_nonce now i n \<longleftrightarrow> sn_nonce_hash n = ni_nonce_hash i \<and> sn_workspace_id n = ni_workspace_id i \<and> sn_user_id n = ni_user_id i \<and>
     sn_provider n = ni_provider i \<and> sn_consumed_at n = None \<and> now < sn_expires_at n"

definition claimConnectorOAuthStateNonceRow :: "int \<Rightarrow> nonce_input \<Rightarrow> grant_db \<Rightarrow> grant_db \<times> bool" where
  "claimConnectorOAuthStateNonceRow now i db =
     (db\<lparr>gd_nonces := map (\<lambda>n. if claimable_nonce now i n then n\<lparr>sn_consumed_at := Some now\<rparr> else n) (gd_nonces db)\<rparr>,
      length (filter (claimable_nonce now i) (gd_nonces db)) = 1)"

section \<open>Connecting a source\<close>

record grant_input =
  gi_id :: string
  gi_workspace_id :: string
  gi_user_id :: string
  gi_authority_provider :: string
  gi_provider_account_id :: string
  gi_provider_label :: "string option"
  gi_scopes :: "string list"
  gi_token_ciphertext :: string
  gi_token_iv :: string
  gi_access_expires_at :: "int option"

record connect_receipt =
  cn_grant :: connector_grant
  cn_source :: source_connection
  cn_source_binding_id :: string
  cn_connector_grant_receipt_id :: string
  cn_audit_event_id :: string

definition same_account :: "grant_input \<Rightarrow> grant_secret \<Rightarrow> bool" where
  "same_account i g \<longleftrightarrow> cg_workspace_id g = gi_workspace_id i \<and> cg_user_id g = gi_user_id i \<and>
     cg_authority_provider g = gi_authority_provider i \<and> cg_provider_account_id g = gi_provider_account_id i"

definition new_grant :: "int \<Rightarrow> grant_input \<Rightarrow> grant_secret" where
  "new_grant now i = \<lparr>cg_id = gi_id i, cg_workspace_id = gi_workspace_id i, cg_user_id = gi_user_id i,
     cg_authority_provider = gi_authority_provider i, cg_provider_account_id = gi_provider_account_id i, cg_provider_label = gi_provider_label i,
     cg_scopes = gi_scopes i, cg_access_expires_at = gi_access_expires_at i, cg_status = Grant_active, cg_last_refresh_at = None,
     cg_last_refresh_error = None, cg_revocation_verified_at = None, cg_created_at = now, cg_updated_at = now,
     cg_token_ciphertext = gi_token_ciphertext i, cg_token_iv = gi_token_iv i\<rparr>"

definition renewed_grant :: "int \<Rightarrow> grant_input \<Rightarrow> grant_secret \<Rightarrow> grant_secret" where
  "renewed_grant now i g = g\<lparr>cg_provider_label := gi_provider_label i, cg_scopes := gi_scopes i, cg_token_ciphertext := gi_token_ciphertext i,
     cg_token_iv := gi_token_iv i, cg_access_expires_at := gi_access_expires_at i, cg_status := Grant_active, cg_last_refresh_error := None,
     cg_revocation_verified_at := None, cg_updated_at := now\<rparr>"

definition grant_written :: "int \<Rightarrow> grant_input \<Rightarrow> grant_secret list \<Rightarrow> grant_error + grant_secret list \<times> grant_secret" where
  "grant_written now i gs =
     (if gi_authority_provider i \<noteq> ''google'' then Inl (G_db ''connector_oauth_grants_authority_provider_check'')
      else case find (same_account i) gs of
        Some g \<Rightarrow> Inr (map (\<lambda>h. if same_account i h then renewed_grant now i h else h) gs, renewed_grant now i g)
      | None \<Rightarrow> if list_ex (\<lambda>g. cg_id g = gi_id i) gs then Inl (G_db ''connector_oauth_grants_pkey'')
          else Inr (gs @ [new_grant now i], new_grant now i))"

definition SOURCE_CONTRACT :: json where
  "SOURCE_CONTRACT = JObj [(''version'', JNum 1), (''ingestion_mode'', JStr ''reflection_only''),
     (''allowed_fields'', JArr [JStr ''title'', JStr ''subject'', JStr ''timestamp'', JStr ''author_login'']), (''max_body_bytes'', JNum 200),
     (''rate_limit'', JObj [(''per_hour'', JNum 5000)])]"

definition tenant_source :: "grant_secret \<Rightarrow> string \<Rightarrow> source_connection \<Rightarrow> bool" where
  "tenant_source g provider s \<longleftrightarrow> sc_workspace_id s = Some (cg_workspace_id g) \<and> sc_user_id s = cg_user_id g \<and> sc_provider s = provider \<and>
     sc_oauth_grant_id s \<noteq> None"

definition new_source :: "int \<Rightarrow> string \<Rightarrow> grant_secret \<Rightarrow> string \<Rightarrow> source_connection" where
  "new_source now sid g provider = \<lparr>sc_id = sid, sc_workspace_id = Some (cg_workspace_id g), sc_user_id = cg_user_id g, sc_provider = provider,
     sc_provider_user_id = Some (cg_provider_account_id g), sc_provider_username = cg_provider_label g, sc_oauth_grant_id = Some (cg_id g),
     sc_scopes = cg_scopes g, sc_contract = SOURCE_CONTRACT, sc_status = ''connected'', sc_read_policy = ''metadata_only'', sc_connected_at = now,
     sc_last_sync_at = None, sc_last_sync_error = None, sc_disconnected_at = None, sc_created_at = now, sc_updated_at = now\<rparr>"

definition reconnected :: "int \<Rightarrow> grant_secret \<Rightarrow> source_connection \<Rightarrow> source_connection" where
  "reconnected now g s = s\<lparr>sc_workspace_id := Some (cg_workspace_id g), sc_provider_user_id := Some (cg_provider_account_id g),
     sc_provider_username := cg_provider_label g, sc_oauth_grant_id := Some (cg_id g), sc_scopes := cg_scopes g, sc_status := ''connected'',
     sc_disconnected_at := None, sc_updated_at := now\<rparr>"

definition source_written ::
  "int \<Rightarrow> string \<Rightarrow> grant_secret \<Rightarrow> string \<Rightarrow> source_connection list \<Rightarrow> grant_error + source_connection list \<times> source_connection" where
  "source_written now sid g provider ss =
     (case find (tenant_source g provider) ss of
        Some s \<Rightarrow> Inr (map (\<lambda>r. if tenant_source g provider r then reconnected now g r else r) ss, reconnected now g s)
      | None \<Rightarrow> if list_ex (\<lambda>s. sc_id s = sid) ss then Inl (G_db ''user_source_connections_pkey'')
          else Inr (ss @ [new_source now sid g provider], new_source now sid g provider))"

definition source_audit :: "grant_db \<Rightarrow> string \<Rightarrow> string \<Rightarrow> string \<Rightarrow> string \<Rightarrow> json \<Rightarrow> audit_row" where
  "source_audit db user action ws reason meta = \<lparr>al_id = gd_audit_seq db, al_actor_user_id = user, al_action = action, al_target_type = ''workspace'',
     al_target_id = ws, al_workspace_id = ws, al_reason = reason, al_causation_id = None, al_metadata = meta\<rparr>"

definition add_audit :: "audit_row \<Rightarrow> grant_db \<Rightarrow> grant_db" where
  "add_audit a db = db\<lparr>gd_audit := gd_audit db @ [a], gd_audit_seq := Suc (gd_audit_seq db)\<rparr>"

definition connectConnectorOAuthSourceRow ::
  "int \<Rightarrow> string \<Rightarrow> string \<Rightarrow> grant_input \<Rightarrow> grant_db \<Rightarrow> grant_db \<times> (grant_error + connect_receipt)" where
  "connectConnectorOAuthSourceRow now nano provider i db =
     (if gi_workspace_id i = [] \<or> gi_user_id i = [] \<or> gi_id i = [] \<or> gi_provider_account_id i = []
      then (db, Inl (G_plain ''connector OAuth grant identity is incomplete''))
      else if provider \<notin> {''google_drive'', ''gmail''} then (db, Inl (G_plain (''dedicated connector OAuth is unavailable for '' @ provider)))
      else case grant_written now i (gd_grants db) of
        Inl e \<Rightarrow> (db, Inl e)
      | Inr (gs, g) \<Rightarrow>
          (case source_written now (''usc_'' @ nano) g provider (gd_sources db) of
             Inl e \<Rightarrow> (db, Inl e)
           | Inr (ss, s) \<Rightarrow>
               (let a = source_audit db (sc_user_id s) ''source_connect'' (cg_workspace_id g) ''dedicated connector OAuth source connect''
                      (JObj [(''source_id'', JStr (sc_id s)), (''provider'', JStr (sc_provider s)),
                        (''credential_authority'', JStr ''xlooop_connector_grant''), (''oauth_grant_id'', opt_str (sc_oauth_grant_id s))])
                in (add_audit a (db\<lparr>gd_grants := gs, gd_sources := ss\<rparr>),
                    Inr \<lparr>cn_grant = connector_grant.truncate g, cn_source = s, cn_source_binding_id = sc_id s,
                      cn_connector_grant_receipt_id = ''connector-grant:'' @ cg_id g @ '':'' @ show_nat (al_id a),
                      cn_audit_event_id = show_nat (al_id a)\<rparr>))))"

section \<open>Reading and refreshing a grant\<close>

definition owned_grant :: "string \<Rightarrow> string \<Rightarrow> string \<Rightarrow> 'a connector_grant_scheme \<Rightarrow> bool" where
  "owned_grant ws user i g \<longleftrightarrow> cg_id g = i \<and> cg_workspace_id g = ws \<and> cg_user_id g = user"

definition getConnectorOAuthGrantSecretRow :: "string \<Rightarrow> string \<Rightarrow> string \<Rightarrow> grant_secret list \<Rightarrow> grant_secret option" where
  "getConnectorOAuthGrantSecretRow ws user i gs = find (owned_grant ws user i) gs"

definition refreshable :: "grant_input \<Rightarrow> grant_secret \<Rightarrow> bool" where
  "refreshable i g \<longleftrightarrow> owned_grant (gi_workspace_id i) (gi_user_id i) (gi_id i) g \<and> cg_status g \<in> {Grant_active, Grant_refresh_required}"

definition updateConnectorOAuthGrantTokensRow :: "int \<Rightarrow> grant_input \<Rightarrow> grant_db \<Rightarrow> grant_db \<times> bool" where
  "updateConnectorOAuthGrantTokensRow now i db =
     (db\<lparr>gd_grants := map (\<lambda>g. if refreshable i g then g\<lparr>cg_token_ciphertext := gi_token_ciphertext i, cg_token_iv := gi_token_iv i,
          cg_scopes := gi_scopes i, cg_access_expires_at := gi_access_expires_at i, cg_last_refresh_at := Some now, cg_last_refresh_error := None,
          cg_status := Grant_active, cg_updated_at := now\<rparr> else g) (gd_grants db)\<rparr>,
      length (filter (refreshable i) (gd_grants db)) = 1)"

definition markConnectorOAuthGrantRefreshErrorRow :: "int \<Rightarrow> string \<Rightarrow> string \<Rightarrow> string \<Rightarrow> string \<Rightarrow> grant_db \<Rightarrow> grant_db" where
  "markConnectorOAuthGrantRefreshErrorRow now ws user i err db =
     db\<lparr>gd_grants := map (\<lambda>g. if owned_grant ws user i g \<and> cg_status g \<noteq> Grant_revoked
          then g\<lparr>cg_status := Grant_refresh_required, cg_last_refresh_error := Some (take 500 err), cg_updated_at := now\<rparr> else g) (gd_grants db)\<rparr>"

section \<open>Disconnecting a source\<close>

definition live_ref :: "string \<Rightarrow> string \<Rightarrow> string \<Rightarrow> source_connection \<Rightarrow> bool" where
  "live_ref ws user i s \<longleftrightarrow> sc_workspace_id s = Some ws \<and> sc_user_id s = user \<and> sc_oauth_grant_id s = Some i \<and> sc_disconnected_at s = None"

definition countActiveConnectorGrantSourcesRow :: "string \<Rightarrow> string \<Rightarrow> string \<Rightarrow> source_connection list \<Rightarrow> nat" where
  "countActiveConnectorGrantSourcesRow ws user i ss = length (filter (live_ref ws user i) ss)"

datatype upstream_status = Retained_shared | Upstream_revoked | Already_absent

fun upstream_str :: "upstream_status \<Rightarrow> string" where
  "upstream_str Retained_shared = ''retained_shared''"
| "upstream_str Upstream_revoked = ''revoked''"
| "upstream_str Already_absent = ''already_absent''"

record disconnect_authority =
  da_oauth_grant_id :: string
  da_upstream_status :: upstream_status
  da_identity_preserved :: bool
  da_upstream_verified_at :: int
  da_request_id :: "string option"

record disconnect_receipt =
  dr_id :: string
  dr_provider :: string
  dr_disconnected_source_ids :: "string list"
  dr_grant_status :: grant_status
  dr_source_disconnect_receipt_id :: string
  dr_audit_event_id :: string

definition authority_json :: "(int \<Rightarrow> string) \<Rightarrow> disconnect_authority \<Rightarrow> json" where
  "authority_json isof a = JObj [(''authority'', JStr ''xlooop_connector_grant''), (''authority_mode'', JStr ''dedicated_connector''),
     (''oauth_grant_id'', JStr (da_oauth_grant_id a)), (''upstream_status'', JStr (upstream_str (da_upstream_status a))),
     (''identity_preserved'', JBool (da_identity_preserved a)), (''upstream_verified_at'', JStr (isof (da_upstream_verified_at a))),
     (''request_id'', opt_str (da_request_id a))]"

definition off :: "int \<Rightarrow> source_connection \<Rightarrow> source_connection" where
  "off now s = s\<lparr>sc_status := ''disconnected'', sc_disconnected_at := Some now, sc_updated_at := now\<rparr>"

text \<open>
  Each branch is one statement, whose parts read the same snapshot \<open>snap\<close>: under concurrency the count of references may be older
  than the row that is written.
\<close>

definition disconnect_shared ::
  "(int \<Rightarrow> string) \<Rightarrow> int \<Rightarrow> string \<Rightarrow> string \<Rightarrow> string \<Rightarrow> disconnect_authority \<Rightarrow> source_connection list \<Rightarrow> grant_db
     \<Rightarrow> grant_db \<times> (grant_error + disconnect_receipt)" where
  "disconnect_shared isof now ws user sid au snap db =
     (let hit = (\<lambda>s. sc_id s = sid \<and> live_ref ws user (da_oauth_grant_id au) s)
      in case find hit (gd_sources db) of
        Some s \<Rightarrow>
          if countActiveConnectorGrantSourcesRow ws user (da_oauth_grant_id au) snap \<le> 1
          then (db, Inl (G_dal (makeError ''SOURCE_GRANT_CARDINALITY_CHANGED'' ''shared connector grant state changed; retry disconnect'' 409)))
          else
            (let a = source_audit db user ''source_disconnect'' ws ''source disconnect; shared connector grant retained''
                   (JObj [(''source_id'', JStr (sc_id s)), (''provider'', JStr (sc_provider s)), (''upstream_revocation'', authority_json isof au)])
             in (add_audit a (db\<lparr>gd_sources := map (\<lambda>r. if hit r then off now r else r) (gd_sources db)\<rparr>),
                 Inr \<lparr>dr_id = sc_id s, dr_provider = sc_provider s, dr_disconnected_source_ids = [sc_id s], dr_grant_status = Grant_active,
                   dr_source_disconnect_receipt_id = ''source-disconnect:'' @ sc_id s @ '':'' @ show_nat (al_id a),
                   dr_audit_event_id = show_nat (al_id a)\<rparr>))
      | None \<Rightarrow> (db, Inl (G_dal (makeError ''SOURCE_GRANT_CARDINALITY_CHANGED'' ''shared connector grant state changed; retry disconnect'' 409))))"

definition revocable :: "string \<Rightarrow> string \<Rightarrow> string \<Rightarrow> grant_secret \<Rightarrow> bool" where
  "revocable ws user i g \<longleftrightarrow> owned_grant ws user i g \<and> cg_status g \<noteq> Grant_revoked"

definition revoked_grant :: "int \<Rightarrow> int \<Rightarrow> grant_secret \<Rightarrow> grant_secret" where
  "revoked_grant now verified g = g\<lparr>cg_status := Grant_revoked, cg_token_ciphertext := [], cg_token_iv := [], cg_access_expires_at := None,
     cg_last_refresh_error := None, cg_revocation_verified_at := Some verified, cg_updated_at := now\<rparr>"

definition disconnect_last ::
  "(int \<Rightarrow> string) \<Rightarrow> int \<Rightarrow> string \<Rightarrow> string \<Rightarrow> string \<Rightarrow> disconnect_authority \<Rightarrow> grant_db \<Rightarrow> grant_db \<times> (grant_error + disconnect_receipt)" where
  "disconnect_last isof now ws user sid au db =
     (let gid = da_oauth_grant_id au;
          conflict = Inl (G_dal (makeError ''SOURCE_GRANT_CARDINALITY_CHANGED'' ''connector grant state changed; retry disconnect'' 409))
      in if \<not> list_ex (revocable ws user gid) (gd_grants db) then (db, conflict)
         else
           (let ended = filter (live_ref ws user gid) (gd_sources db);
                db1 = db\<lparr>gd_grants := map (\<lambda>g. if revocable ws user gid g then revoked_grant now (da_upstream_verified_at au) g else g) (gd_grants db),
                         gd_sources := map (\<lambda>s. if live_ref ws user gid s then off now s else s) (gd_sources db)\<rparr>;
                ids = sort (map sc_id ended)
            in case find (\<lambda>s. sc_id s = sid) ended of
                 None \<Rightarrow> (db1, conflict)
               | Some s \<Rightarrow>
                   (let a = source_audit db user ''source_disconnect'' ws ''last connector source disconnected; upstream grant revoked''
                          (JObj [(''source_id'', JStr (sc_id s)), (''provider'', JStr (sc_provider s)),
                            (''disconnected_source_ids'', JArr (map JStr ids)), (''upstream_revocation'', authority_json isof au)])
                    in (add_audit a db1,
                        Inr \<lparr>dr_id = sc_id s, dr_provider = sc_provider s, dr_disconnected_source_ids = ids, dr_grant_status = Grant_revoked,
                          dr_source_disconnect_receipt_id = ''source-disconnect:'' @ sc_id s @ '':'' @ show_nat (al_id a),
                          dr_audit_event_id = show_nat (al_id a)\<rparr>))))"

definition disconnectConnectorOAuthSourceRow ::
  "(int \<Rightarrow> string) \<Rightarrow> int \<Rightarrow> string \<Rightarrow> string \<Rightarrow> string \<Rightarrow> disconnect_authority \<Rightarrow> grant_db \<Rightarrow> grant_db \<times> (grant_error + disconnect_receipt)" where
  "disconnectConnectorOAuthSourceRow isof now ws user sid au db =
     (if da_oauth_grant_id au = [] \<or> \<not> da_identity_preserved au then (db, Inl (G_plain ''verified dedicated connector authority is required''))
      else if da_upstream_status au = Retained_shared then disconnect_shared isof now ws user sid au (gd_sources db) db
      else disconnect_last isof now ws user sid au db)"

section \<open>The token adapter\<close>

text \<open>\<open>kp_expires_at\<close> is the parsed expiry, \<open>None\<close> when it does not parse.\<close>

record token_payload =
  kp_access_token :: string
  kp_refresh_token :: string
  kp_token_type :: string
  kp_expires_at :: "int option"
  kp_scopes :: "string list"

record grant_env =
  ge_open :: "string \<times> string \<Rightarrow> string \<times> string \<times> string \<Rightarrow> token_payload option"
  ge_seal :: "token_payload \<Rightarrow> string \<times> string \<times> string \<Rightarrow> string + string \<times> string"
  ge_refresh :: "token_payload \<Rightarrow> string + token_payload"
  ge_revoke :: "token_payload \<Rightarrow> string + upstream_status \<times> int"
  ge_iso :: "int \<Rightarrow> string"
  ge_now :: int
  ge_later :: int
  ge_gap :: "grant_db \<Rightarrow> grant_db"
  ge_request_id :: "string option"
  ge_date_error :: string

record token_snapshot =
  ts_provider :: string
  ts_token :: string
  ts_external_account_id :: string
  ts_scopes :: "string list"
  ts_label :: "string option"
  ts_fetched_at :: int

definition needs_refresh :: "int \<Rightarrow> bool \<Rightarrow> token_payload \<Rightarrow> bool" where
  "needs_refresh now force t \<longleftrightarrow> force \<or> (case kp_expires_at t of None \<Rightarrow> True | Some e \<Rightarrow> e \<le> now + 60000)"

text \<open>
  The refresh: provider, sealing, persistence; every failure is recorded on the grant. \<open>ge_date_error\<close> is the database's refusal of
  an expiry that does not parse.
\<close>

definition refresh_tokens :: "grant_env \<Rightarrow> string \<Rightarrow> string \<Rightarrow> grant_secret \<Rightarrow> token_payload \<Rightarrow> grant_db \<Rightarrow> grant_db \<times> (grant_error + token_payload)" where
  "refresh_tokens env ws owner g tokens db0 =
     (let db = ge_gap env db0;
          failed = (\<lambda>d msg. (markConnectorOAuthGrantRefreshErrorRow (ge_later env) ws owner (cg_id g)
            (if msg = [] then ''connector OAuth refresh failed'' else msg) d,
            Inl (G_coded ''OAUTH_REFRESH_FAILED'' ''connector access could not be refreshed'')))
      in case ge_refresh env tokens of
        Inl e \<Rightarrow> failed db e
      | Inr t \<Rightarrow>
          (case ge_seal env t (ws, owner, cg_id g) of
             Inl e \<Rightarrow> failed db e
           | Inr (ciphertext, iv) \<Rightarrow>
               if kp_expires_at t = None then failed db (ge_date_error env)
               else
               (let (db', persisted) = updateConnectorOAuthGrantTokensRow (ge_later env)
                      \<lparr>gi_id = cg_id g, gi_workspace_id = ws, gi_user_id = owner, gi_authority_provider = [], gi_provider_account_id = [],
                       gi_provider_label = None, gi_scopes = kp_scopes t, gi_token_ciphertext = ciphertext, gi_token_iv = iv,
                       gi_access_expires_at = kp_expires_at t\<rparr> db
                in if persisted then (db', Inr t) else failed db' ''grant changed during refresh'')))"

definition getAccessToken ::
  "grant_env \<Rightarrow> string \<Rightarrow> string \<Rightarrow> string \<Rightarrow> string \<Rightarrow> string \<Rightarrow> bool \<Rightarrow> grant_db \<Rightarrow> grant_db \<times> (grant_error + token_snapshot)" where
  "getAccessToken env ws owner gid user provider force db =
     (if user \<noteq> owner then (db, Inl (G_coded ''OAUTH_GRANT_OWNER_MISMATCH'' ''connector grant owner does not match the request identity''))
      else if provider \<noteq> ''google_drive'' \<and> provider \<noteq> ''gmail''
      then (db, Inl (G_coded ''OAUTH_INVALID_PROVIDER'' (''dedicated Google connector grant cannot serve '' @ provider)))
      else case getConnectorOAuthGrantSecretRow ws owner gid (gd_grants db) of
        None \<Rightarrow> (db, Inl (G_coded ''OAUTH_REVOKED'' ''connector grant is absent or revoked''))
      | Some g \<Rightarrow>
          if cg_status g = Grant_revoked then (db, Inl (G_coded ''OAUTH_REVOKED'' ''connector grant is absent or revoked''))
          else case ge_open env (cg_token_ciphertext g, cg_token_iv g) (ws, owner, gid) of
            None \<Rightarrow> (db, Inl (G_coded ''OAUTH_TOKEN_DECRYPTION_FAILED'' ''connector credential could not be opened''))
          | Some tokens \<Rightarrow>
              (let (db', r) = (if needs_refresh (ge_now env) force tokens then refresh_tokens env ws owner g tokens db else (db, Inr tokens))
               in (db', case r of Inl e \<Rightarrow> Inl e
                    | Inr t \<Rightarrow> Inr \<lparr>ts_provider = provider, ts_token = kp_access_token t, ts_external_account_id = cg_id g, ts_scopes = kp_scopes t,
                        ts_label = cg_provider_label g, ts_fetched_at = ge_later env\<rparr>)))"

section \<open>The disconnect handler\<close>

datatype source_reply = Source_error int string string | Source_failed grant_error | Source_done disconnect_receipt disconnect_authority

definition getUserSourceRow :: "string \<Rightarrow> string \<Rightarrow> source_connection list \<Rightarrow> source_connection option" where
  "getUserSourceRow user i ss = (if i = [] then None else find (\<lambda>s. sc_id s = i \<and> sc_user_id s = user) ss)"

definition sourceMatchesActiveWorkspace :: "source_connection \<Rightarrow> string option \<Rightarrow> bool" where
  "sourceMatchesActiveWorkspace s ws = (if truthy ws then sc_workspace_id s = ws else sc_workspace_id s = None)"

definition write_disconnect ::
  "grant_env \<Rightarrow> string \<Rightarrow> string \<Rightarrow> string \<Rightarrow> disconnect_authority \<Rightarrow> grant_db \<Rightarrow> grant_db \<times> source_reply" where
  "write_disconnect env ws user i au db =
     (case disconnectConnectorOAuthSourceRow (ge_iso env) (ge_later env) ws user i au db of
        (db', Inl e) \<Rightarrow> (db', Source_failed e) | (db', Inr w) \<Rightarrow> (db', Source_done w au))"

text \<open>The branch for a source with a dedicated grant; the legacy branch, through the identity provider, is a parameter.\<close>

definition delete_dedicated ::
  "grant_env \<Rightarrow> string \<Rightarrow> string \<Rightarrow> source_connection \<Rightarrow> string \<Rightarrow> grant_db \<Rightarrow> grant_db \<times> source_reply" where
  "delete_dedicated env user i existing gid db =
     (if \<not> truthy (sc_workspace_id existing) \<or> sc_provider existing \<notin> {''google_drive'', ''gmail''}
      then (db, Source_error 409 ''OAUTH_GRANT_BINDING_INVALID'' ''Dedicated connector grant binding is incomplete; no source state was changed.'')
      else
        (let ws = the (sc_workspace_id existing); refs = countActiveConnectorGrantSourcesRow ws user gid (gd_sources db);
             au = (\<lambda>st verified. \<lparr>da_oauth_grant_id = gid, da_upstream_status = st, da_identity_preserved = True,
               da_upstream_verified_at = verified, da_request_id = (if truthy (ge_request_id env) then ge_request_id env else None)\<rparr>)
         in if 1 < refs then write_disconnect env ws user i (au Retained_shared (ge_now env)) (ge_gap env db)
            else if refs \<noteq> 1
            then (db, Source_error 409 ''SOURCE_GRANT_CARDINALITY_CHANGED'' ''Connector grant state changed; retry disconnect.'')
            else case getConnectorOAuthGrantSecretRow ws user gid (gd_grants db) of
              None \<Rightarrow> (db, Source_error 409 ''SOURCE_GRANT_RECONNECT_REQUIRED''
                ''Connector grant is absent or already revoked; reconnect before changing source state.'')
            | Some g \<Rightarrow>
                if cg_status g = Grant_revoked
                then (db, Source_error 409 ''SOURCE_GRANT_RECONNECT_REQUIRED''
                  ''Connector grant is absent or already revoked; reconnect before changing source state.'')
                else case ge_open env (cg_token_ciphertext g, cg_token_iv g) (ws, user, gid) of
                  None \<Rightarrow> (db, Source_error 502 ''OAUTH_TOKEN_DECRYPTION_FAILED'' ''Connector grant could not be opened; no source state was changed.'')
                | Some tokens \<Rightarrow>
                    (case ge_revoke env tokens of
                       Inl e \<Rightarrow> (db, Source_error 502 ''CONNECTOR_OAUTH_REVOCATION_FAILED'' (e @ ''. No source state was changed.''))
                     | Inr (st, verified) \<Rightarrow> write_disconnect env ws user i (au st verified) (ge_gap env db))))"

definition delete_source ::
  "(source_connection \<Rightarrow> grant_db \<Rightarrow> grant_db \<times> source_reply) \<Rightarrow> grant_env \<Rightarrow> string option \<Rightarrow> string option \<Rightarrow> string \<Rightarrow> grant_db
     \<Rightarrow> grant_db \<times> source_reply" where
  "delete_source legacy env user ws i db =
     (if \<not> truthy user then (db, Source_error 401 ''UNAUTHORIZED'' ''auth required'')
      else if i = [] then (db, Source_error 400 ''INVALID_ID'' ''id path param required'')
      else case getUserSourceRow (the user) i (gd_sources db) of
        None \<Rightarrow> (db, Source_error 404 ''NOT_FOUND'' (''source '' @ i @ '' not found''))
      | Some existing \<Rightarrow>
          if \<not> sourceMatchesActiveWorkspace existing ws then (db, Source_error 404 ''NOT_FOUND'' (''source '' @ i @ '' not found''))
          else if truthy (sc_oauth_grant_id existing) then delete_dedicated env (the user) i existing (the (sc_oauth_grant_id existing)) db
          else legacy existing db)"

end
