(* ===== verification/Grant_Props.thy ===== *)
theory Grant_Props
  imports Connector_Grants
begin

text \<open>
  Properties of the connector grants over arbitrary histories of their statements: a state nonce is claimed once, a revoked grant
  holds no credentials and carries no live source, what was sealed is what is read, a refresh never revives a revoked grant; and
  what a second disconnect does to the other source of a shared grant.
\<close>

section \<open>Statements and histories\<close>

datatype grant_command =
    Register int int nonce_input
  | Claim int nonce_input
  | Connect int string string grant_input
  | Refreshed int grant_input
  | Refresh_error int string string string string
  | Disconnect int string string string disconnect_authority

fun grant_do :: "grant_command \<Rightarrow> grant_db \<Rightarrow> grant_db" where
  "grant_do (Register now e i) db = fst (registerConnectorOAuthStateNonceRow now e i db)"
| "grant_do (Claim now i) db = fst (claimConnectorOAuthStateNonceRow now i db)"
| "grant_do (Connect now nano provider i) db = fst (connectConnectorOAuthSourceRow now nano provider i db)"
| "grant_do (Refreshed now i) db = fst (updateConnectorOAuthGrantTokensRow now i db)"
| "grant_do (Refresh_error now ws user i err) db = markConnectorOAuthGrantRefreshErrorRow now ws user i err db"
| "grant_do (Disconnect now ws user sid au) db = fst (disconnectConnectorOAuthSourceRow (\<lambda>_. []) now ws user sid au db)"

abbreviation any_command :: "grant_command \<Rightarrow> grant_db \<Rightarrow> bool" where
  "any_command \<equiv> \<lambda>_ _. True"

lemma add_audit_sel [simp]: "gd_grants (add_audit a db) = gd_grants db" "gd_sources (add_audit a db) = gd_sources db"
  "gd_nonces (add_audit a db) = gd_nonces db"
  by (simp_all add: add_audit_def)

text \<open>What each statement does to the grants and sources, without its answer and its audit row.\<close>

definition renew_grants :: "int \<Rightarrow> grant_input \<Rightarrow> grant_secret list \<Rightarrow> grant_secret list" where
  "renew_grants now i gs = map (\<lambda>h. if same_account i h then renewed_grant now i h else h) gs"

definition renew_sources :: "int \<Rightarrow> grant_secret \<Rightarrow> string \<Rightarrow> source_connection list \<Rightarrow> source_connection list" where
  "renew_sources now g provider ss = map (\<lambda>r. if tenant_source g provider r then reconnected now g r else r) ss"

lemma grant_written_cases:
  assumes "grant_written now i gs = Inr (gs', g)"
  obtains (renewed) h where "h \<in> set gs" "same_account i h" "g = renewed_grant now i h" "gs' = renew_grants now i gs"
  | (new) "\<forall>h \<in> set gs. \<not> same_account i h" "\<forall>h \<in> set gs. cg_id h \<noteq> gi_id i" "g = new_grant now i" "gs' = gs @ [new_grant now i]"
proof (cases "find (same_account i) gs")
  case None
  from assms [unfolded grant_written_def None option.case] new None show ?thesis by (auto simp: find_None_iff list_ex_iff split: if_splits)
next
  case (Some h)
  from assms [unfolded grant_written_def Some option.case] renewed find_Some_in [OF Some] show ?thesis by (auto simp: renew_grants_def split: if_splits)
qed

lemma source_written_cases:
  assumes "source_written now sid g provider ss = Inr (ss', s)"
  obtains (renewed) r where "r \<in> set ss" "tenant_source g provider r" "s = reconnected now g r" "ss' = renew_sources now g provider ss"
  | (new) "\<forall>r \<in> set ss. \<not> tenant_source g provider r" "\<forall>r \<in> set ss. sc_id r \<noteq> sid" "s = new_source now sid g provider"
      "ss' = ss @ [new_source now sid g provider]"
proof (cases "find (tenant_source g provider) ss")
  case None
  from assms [unfolded source_written_def None option.case] new None show ?thesis by (auto simp: find_None_iff list_ex_iff split: if_splits)
next
  case (Some r)
  from assms [unfolded source_written_def Some option.case] renewed find_Some_in [OF Some] show ?thesis by (auto simp: renew_sources_def split: if_splits)
qed

lemma connect_cases:
  obtains (refused) e where "connectConnectorOAuthSourceRow now nano provider i db = (db, Inl e)"
  | (written) gs g ss s db' rc where "connectConnectorOAuthSourceRow now nano provider i db = (db', Inr rc)"
      "grant_written now i (gd_grants db) = Inr (gs, g)" "source_written now (''usc_'' @ nano) g provider (gd_sources db) = Inr (ss, s)"
      "gd_grants db' = gs" "gd_sources db' = ss" "gd_nonces db' = gd_nonces db" "cn_grant rc = connector_grant.truncate g" "cn_source rc = s"
proof (cases "gi_workspace_id i = [] \<or> gi_user_id i = [] \<or> gi_id i = [] \<or> gi_provider_account_id i = []")
  case True
  show ?thesis by (rule refused) (unfold connectConnectorOAuthSourceRow_def if_P [OF True], rule refl)
next
  case ident: False
  show ?thesis
  proof (cases "provider \<notin> {''google_drive'', ''gmail''}")
    case True
    show ?thesis by (rule refused) (unfold connectConnectorOAuthSourceRow_def if_not_P [OF ident] if_P [OF True], rule refl)
  next
    case prov: False
    note c = connectConnectorOAuthSourceRow_def [of now nano provider i db, unfolded if_not_P [OF ident] if_not_P [OF prov]]
    show ?thesis
    proof (cases "grant_written now i (gd_grants db)")
      case (Inl e)
      show ?thesis by (rule refused) (unfold c Inl sum.case, rule refl)
    next
      case w: (Inr p)
      obtain gs g where p: "p = (gs, g)" by (cases p)
      show ?thesis
      proof (cases "source_written now (''usc_'' @ nano) g provider (gd_sources db)")
        case (Inl e)
        show ?thesis by (rule refused) (unfold c w p Inl sum.case prod.case, rule refl)
      next
        case v: (Inr q)
        obtain ss s where q: "q = (ss, s)" by (cases q)
        show ?thesis
          by (rule written [OF _ w [unfolded p] v [unfolded q]]) (unfold c w p v q sum.case prod.case Let_def, rule refl, simp_all)
      qed
    qed
  qed
qed

section \<open>A state nonce is claimed once\<close>

definition spent :: "string \<Rightarrow> grant_db \<Rightarrow> bool" where
  "spent h db \<longleftrightarrow> distinct (map sn_nonce_hash (gd_nonces db)) \<and> (\<exists>n \<in> set (gd_nonces db). sn_nonce_hash n = h \<and> sn_consumed_at n \<noteq> None)"

lemma disconnect_nonces: "gd_nonces (fst (disconnectConnectorOAuthSourceRow f now ws user sid au db)) = gd_nonces db"
  by (simp add: disconnectConnectorOAuthSourceRow_def disconnect_shared_def disconnect_last_def Let_def split: option.split)

lemma connect_nonces: "gd_nonces (fst (connectConnectorOAuthSourceRow now nano provider i db)) = gd_nonces db"
  by (cases rule: connect_cases [of now nano provider i db]) simp_all

lemma claim_effect:
  "map sn_nonce_hash (gd_nonces (fst (claimConnectorOAuthStateNonceRow now i db))) = map sn_nonce_hash (gd_nonces db)"
  "n \<in> set (gd_nonces db) \<Longrightarrow>
     (if claimable_nonce now i n then n\<lparr>sn_consumed_at := Some now\<rparr> else n) \<in> set (gd_nonces (fst (claimConnectorOAuthStateNonceRow now i db)))"
proof -
  define f where "f = (\<lambda>n. if claimable_nonce now i n then n\<lparr>sn_consumed_at := Some now\<rparr> else n)"
  have c: "gd_nonces (fst (claimConnectorOAuthStateNonceRow now i db)) = map f (gd_nonces db)" by (simp add: claimConnectorOAuthStateNonceRow_def f_def)
  have "sn_nonce_hash (f n) = sn_nonce_hash n" for n by (simp add: f_def)
  then show "map sn_nonce_hash (gd_nonces (fst (claimConnectorOAuthStateNonceRow now i db))) = map sn_nonce_hash (gd_nonces db)"
    unfolding c by simp
  show "(if claimable_nonce now i n then n\<lparr>sn_consumed_at := Some now\<rparr> else n) \<in> set (gd_nonces (fst (claimConnectorOAuthStateNonceRow now i db)))"
    if "n \<in> set (gd_nonces db)" using imageI [OF that, of f] unfolding c set_map by (simp only: f_def)
qed

lemma spent_step: "spent h db \<Longrightarrow> spent h (grant_do c db)"
proof (cases c)
  case (Register now e i)
  assume "spent h db"
  then show ?thesis by (auto simp: Register registerConnectorOAuthStateNonceRow_def spent_def list_ex_iff)
next
  case (Claim now i)
  assume s: "spent h db"
  then obtain n where n: "n \<in> set (gd_nonces db)" "sn_nonce_hash n = h" "sn_consumed_at n \<noteq> None" by (auto simp: spent_def)
  have "\<not> claimable_nonce now i n" using n(3) by (simp add: claimable_nonce_def)
  with claim_effect(2) [OF n(1), of now i] have "n \<in> set (gd_nonces (grant_do c db))" by (simp add: Claim)
  with s n(2,3) show ?thesis unfolding spent_def by (auto simp: Claim claim_effect(1))
qed (simp_all add: spent_def connect_nonces disconnect_nonces updateConnectorOAuthGrantTokensRow_def markConnectorOAuthGrantRefreshErrorRow_def)

interpretation spent_history: guarded_history grant_do any_command "spent h" for h
  by unfold_locales (rule spent_step)

text \<open>
  C25. A state nonce is claimed once: after a claim has succeeded, whatever statements follow, registrations of the same nonce and
  claims by anyone included, every further claim of that nonce answers false.
\<close>

theorem nonce_claimed_once:
  assumes "claimConnectorOAuthStateNonceRow now i db = (db1, True)" and "distinct (map sn_nonce_hash (gd_nonces db))"
    and "reach_by grant_do any_command db1 db2" and "ni_nonce_hash j = ni_nonce_hash i"
  shows "\<not> snd (claimConnectorOAuthStateNonceRow later j db2)"
proof -
  from assms(1) have "length (filter (claimable_nonce now i) (gd_nonces db)) = 1"
    and db1: "db1 = grant_do (Claim now i) db" by (simp_all add: claimConnectorOAuthStateNonceRow_def)
  then have "filter (claimable_nonce now i) (gd_nonces db) \<noteq> []" by (intro notI) simp
  then obtain n where "n \<in> set (gd_nonces db)" "claimable_nonce now i n" by (auto simp: filter_empty_conv)
  with claim_effect(2) [of n db now i] have "n\<lparr>sn_consumed_at := Some now\<rparr> \<in> set (gd_nonces db1)" by (simp add: db1)
  with assms(2) \<open>claimable_nonce now i n\<close> have "spent (ni_nonce_hash i) db1"
    unfolding spent_def db1 grant_do.simps claim_effect(1) by (intro conjI bexI [of _ "n\<lparr>sn_consumed_at := Some now\<rparr>"]) (simp_all add: claimable_nonce_def)
  from spent_history.history_keeps [OF assms(3) this] have s: "spent (ni_nonce_hash j) db2" by (simp add: assms(4))
  have "\<not> claimable_nonce later j n" if n: "n \<in> set (gd_nonces db2)" for n
  proof
    assume c: "claimable_nonce later j n"
    from s obtain m where m: "m \<in> set (gd_nonces db2)" "sn_nonce_hash m = ni_nonce_hash j" "sn_consumed_at m \<noteq> None" by (auto simp: spent_def)
    have "m = n" using s m(1,2) n c unfolding spent_def claimable_nonce_def by (metis distinct_map inj_onD)
    with m(3) c show False by (simp add: claimable_nonce_def)
  qed
  then have "filter (claimable_nonce later j) (gd_nonces db2) = []" by (simp add: filter_empty_conv)
  then show ?thesis by (simp add: claimConnectorOAuthStateNonceRow_def)
qed

section \<open>Revoked grants\<close>

definition live :: "source_connection \<Rightarrow> bool" where
  "live s \<longleftrightarrow> sc_disconnected_at s = None"

text \<open>A source of a grant belongs to the grant's owner; while it is live its grant is not revoked; a revoked grant holds no credentials.\<close>

definition backed :: "grant_secret list \<Rightarrow> source_connection \<Rightarrow> bool" where
  "backed gs s \<longleftrightarrow> (\<forall>i. sc_oauth_grant_id s = Some i \<longrightarrow>
     (\<exists>g \<in> set gs. cg_id g = i \<and> sc_workspace_id s = Some (cg_workspace_id g) \<and> sc_user_id s = cg_user_id g \<and>
        (live s \<longrightarrow> cg_status g \<noteq> Grant_revoked)))"

definition emptied :: "grant_secret \<Rightarrow> bool" where
  "emptied g \<longleftrightarrow> (cg_status g = Grant_revoked \<longrightarrow> cg_token_ciphertext g = [] \<and> cg_token_iv g = [])"

definition grants_wf :: "grant_db \<Rightarrow> bool" where
  "grants_wf db \<longleftrightarrow> distinct (map cg_id (gd_grants db)) \<and> (\<forall>g \<in> set (gd_grants db). emptied g) \<and>
     (\<forall>s \<in> set (gd_sources db). backed (gd_grants db) s)"

lemma grants_wfI:
  assumes "gd_grants d = gs" and "gd_sources d = ss" and "distinct (map cg_id gs)" and "\<And>g. g \<in> set gs \<Longrightarrow> emptied g"
    and "\<And>s. s \<in> set ss \<Longrightarrow> backed gs s"
  shows "grants_wf d"
  using assms by (simp add: grants_wf_def)

text \<open>A change of grants that keeps identity and owner and revokes none keeps every source backed.\<close>

lemma backed_map:
  assumes "backed gs s" and "\<And>g. g \<in> set gs \<Longrightarrow> cg_id (f g) = cg_id g \<and> cg_workspace_id (f g) = cg_workspace_id g \<and> cg_user_id (f g) = cg_user_id g \<and>
    (cg_status g \<noteq> Grant_revoked \<longrightarrow> cg_status (f g) \<noteq> Grant_revoked)"
  shows "backed (map f gs) s"
  using assms unfolding backed_def by fastforce

lemma backed_more: "backed gs s \<Longrightarrow> set gs \<subseteq> set gs' \<Longrightarrow> backed gs' s"
  unfolding backed_def by blast

lemma backed_by:
  assumes "g \<in> set gs" and "sc_oauth_grant_id s = Some (cg_id g)" and "sc_workspace_id s = Some (cg_workspace_id g)" and "sc_user_id s = cg_user_id g"
    and "cg_status g \<noteq> Grant_revoked"
  shows "backed gs s"
  using assms unfolding backed_def by auto

lemma grants_wf_map:
  assumes "grants_wf db" and "\<And>g. g \<in> set (gd_grants db) \<Longrightarrow> cg_id (f g) = cg_id g \<and> cg_workspace_id (f g) = cg_workspace_id g \<and>
    cg_user_id (f g) = cg_user_id g \<and> (cg_status g \<noteq> Grant_revoked \<longrightarrow> cg_status (f g) \<noteq> Grant_revoked) \<and> (emptied g \<longrightarrow> emptied (f g))"
  shows "grants_wf (db\<lparr>gd_grants := map f (gd_grants db)\<rparr>)"
proof -
  have ids: "map cg_id (map f (gd_grants db)) = map cg_id (gd_grants db)" using assms(2) by simp
  have "backed (map f (gd_grants db)) s" if "s \<in> set (gd_sources db)" for s
    using assms that by (intro backed_map) (auto simp: grants_wf_def)
  then show ?thesis using assms by (intro grants_wfI [of _ "map f (gd_grants db)" "gd_sources db"]) (auto simp: ids grants_wf_def simp del: map_map)
qed

lemma wf_connect: "grants_wf db \<Longrightarrow> grants_wf (fst (connectConnectorOAuthSourceRow now nano provider i db))"
proof (cases rule: connect_cases [of now nano provider i db])
  case (written gs g ss s db' rc)
  assume wf: "grants_wf db"
  have g: "distinct (map cg_id gs) \<and> (\<forall>h \<in> set gs. emptied h) \<and> g \<in> set gs \<and> cg_status g = Grant_active \<and> (\<forall>r \<in> set (gd_sources db). backed gs r)"
    using written(2)
  proof (cases rule: grant_written_cases)
    case (renewed h)
    let ?f = "\<lambda>h. if same_account i h then renewed_grant now i h else h"
    have w: "grants_wf (db\<lparr>gd_grants := gs\<rparr>)" unfolding renewed(4) renew_grants_def
      by (rule grants_wf_map [OF wf]) (simp add: renewed_grant_def emptied_def)
    have m: "g \<in> set gs"
      using imageI [OF renewed(1), of ?f] unfolding if_P [OF renewed(2)] renewed(3,4) renew_grants_def set_map .
    have "cg_status g = Grant_active" by (simp add: renewed(3) renewed_grant_def)
    with w m show ?thesis by (simp add: grants_wf_def)
  next
    case new
    have b: "backed gs r" if "r \<in> set (gd_sources db)" for r
      by (rule backed_more [of "gd_grants db"]) (use wf that in \<open>auto simp: grants_wf_def new(4)\<close>)
    have n: "cg_id g = gi_id i" "cg_status g = Grant_active" "emptied g" "gs = gd_grants db @ [g]"
      by (simp_all add: new(3,4) new_grant_def emptied_def)
    have "distinct (map cg_id gs)" using wf new(2) n(1) by (auto simp: n(4) grants_wf_def)
    moreover have "\<forall>h \<in> set gs. emptied h" using wf n(3) by (auto simp: n(4) grants_wf_def)
    ultimately show ?thesis using b n(2) by (simp add: n(4))
  qed
  have "backed gs r" if "r \<in> set ss" for r
    using written(3)
  proof (cases rule: source_written_cases)
    case (renewed q)
    from that consider "r \<in> set (gd_sources db)" | q' where "tenant_source g provider q'" "r = reconnected now g q'"
      unfolding renewed(4) renew_sources_def by (auto split: if_splits)
    then show ?thesis
    proof cases
      case 2
      with g show ?thesis by (intro backed_by [of g]) (auto simp: reconnected_def tenant_source_def)
    qed (use g in blast)
  next
    case new
    have "backed gs s" by (rule backed_by [of g]) (use g in \<open>simp_all add: new(3) new_source_def\<close>)
    moreover have "r = s \<or> r \<in> set (gd_sources db)" using that by (auto simp: new(3,4))
    ultimately show ?thesis using g by blast
  qed
  with g show ?thesis unfolding written(1) fst_conv grants_wf_def written(4,5) by blast
qed simp

lemma wf_disconnect: "grants_wf db \<Longrightarrow> grants_wf (fst (disconnectConnectorOAuthSourceRow f now ws user sid au db))"
proof -
  assume wf: "grants_wf db"
  have off_backed: "backed gs s \<Longrightarrow> backed gs (off n s)" for gs s n unfolding backed_def by (auto simp: off_def live_def)
  have shared: "grants_wf (db\<lparr>gd_sources := map (\<lambda>r. if hit r then off now r else r) (gd_sources db)\<rparr>)" for hit
    using wf off_backed by (auto simp: grants_wf_def)
  let ?i = "da_oauth_grant_id au"
  let ?r = "\<lambda>g. if revocable ws user ?i g then revoked_grant now (da_upstream_verified_at au) g else g"
  let ?o = "\<lambda>s. if live_ref ws user ?i s then off now s else s"
  have ids: "map cg_id (map ?r gs) = map cg_id gs" for gs by (simp add: revoked_grant_def)
  have last: "grants_wf (db\<lparr>gd_grants := map ?r (gd_grants db), gd_sources := map ?o (gd_sources db)\<rparr>)"
  proof (rule grants_wfI [of _ "map ?r (gd_grants db)" "map ?o (gd_sources db)"])
    show "distinct (map cg_id (map ?r (gd_grants db)))" using wf unfolding ids by (simp add: grants_wf_def)
    fix g assume "g \<in> set (map ?r (gd_grants db))"
    then show "emptied g" using wf by (auto simp: grants_wf_def revoked_grant_def emptied_def split: if_splits)
  next
    fix s assume "s \<in> set (map ?o (gd_sources db))"
    then obtain q where q: "q \<in> set (gd_sources db)" "s = ?o q" by auto
    have b: "backed (gd_grants db) q" using wf q(1) by (simp add: grants_wf_def)
    show "backed (map ?r (gd_grants db)) s"
      unfolding backed_def
    proof (intro allI impI)
      fix i assume i: "sc_oauth_grant_id s = Some i"
      then have "sc_oauth_grant_id q = Some i" by (simp add: q(2) off_def split: if_splits)
      with b obtain g where g: "g \<in> set (gd_grants db)" "cg_id g = i" "sc_workspace_id q = Some (cg_workspace_id g)" "sc_user_id q = cg_user_id g"
        "live q \<longrightarrow> cg_status g \<noteq> Grant_revoked" unfolding backed_def by blast
      have "live s \<longrightarrow> cg_status (?r g) \<noteq> Grant_revoked"
        using g(2-5) i q(2) by (auto simp: live_def off_def live_ref_def revocable_def owned_grant_def split: if_splits)
      moreover have "?r g \<in> set (map ?r (gd_grants db))" using g(1) by simp
      ultimately show "\<exists>g \<in> set (map ?r (gd_grants db)). cg_id g = i \<and> sc_workspace_id s = Some (cg_workspace_id g) \<and> sc_user_id s = cg_user_id g \<and>
          (live s \<longrightarrow> cg_status g \<noteq> Grant_revoked)"
        using g(2-4) q(2) by (intro bexI [of _ "?r g"]) (auto simp: revoked_grant_def off_def)
    qed
  qed simp_all
  have aud: "grants_wf (add_audit a d) = grants_wf d" for a d by (simp add: grants_wf_def)
  show ?thesis
    using wf shared last unfolding disconnectConnectorOAuthSourceRow_def disconnect_shared_def disconnect_last_def Let_def
    by (simp add: aud split: option.split)
qed

lemma wf_step: "grants_wf db \<Longrightarrow> grants_wf (grant_do c db)"
proof (cases c)
  case (Register now e i)
  assume "grants_wf db"
  then show ?thesis by (simp add: Register registerConnectorOAuthStateNonceRow_def grants_wf_def)
next
  case (Claim now i)
  assume "grants_wf db"
  then show ?thesis by (simp add: Claim claimConnectorOAuthStateNonceRow_def grants_wf_def)
next
  case (Refreshed now i)
  assume "grants_wf db"
  then show ?thesis unfolding Refreshed grant_do.simps updateConnectorOAuthGrantTokensRow_def fst_conv
    by (rule grants_wf_map) (auto simp: refreshable_def emptied_def)
next
  case (Refresh_error now ws user i err)
  assume "grants_wf db"
  then show ?thesis unfolding Refresh_error grant_do.simps markConnectorOAuthGrantRefreshErrorRow_def
    by (rule grants_wf_map) (auto simp: emptied_def)
qed (simp_all add: wf_connect wf_disconnect)

interpretation wf_history: guarded_history grant_do any_command grants_wf
  by unfold_locales (rule wf_step)

text \<open>
  C24. A revoked grant is empty and idle: in any history of connects, refreshes, refresh failures and disconnects, of all users and in
  any order, a revoked grant holds no credentials, every source with a grant belongs to the owner of that grant, and no live source
  hangs on a revoked grant.
\<close>

theorem revoked_grants_are_empty:
  assumes "reach_by grant_do any_command db0 db" and "grants_wf db0"
  shows "grants_wf db"
  using wf_history.history_keeps [OF assms] .

section \<open>Owners\<close>

fun command_owner :: "grant_command \<Rightarrow> string \<times> string" where
  "command_owner (Register now e i) = (ni_workspace_id i, ni_user_id i)"
| "command_owner (Claim now i) = (ni_workspace_id i, ni_user_id i)"
| "command_owner (Connect now nano provider i) = (gi_workspace_id i, gi_user_id i)"
| "command_owner (Refreshed now i) = (gi_workspace_id i, gi_user_id i)"
| "command_owner (Refresh_error now ws user i err) = (ws, user)"
| "command_owner (Disconnect now ws user sid au) = (ws, user)"

definition of_owner :: "string \<times> string \<Rightarrow> grant_secret \<Rightarrow> bool" where
  "of_owner o' g \<longleftrightarrow> (cg_workspace_id g, cg_user_id g) = o'"

lemma owned_map:
  assumes "\<And>g. f g = g \<or> \<not> of_owner o' g \<and> \<not> of_owner o' (f g)"
  shows "filter (of_owner o') (map f gs) = filter (of_owner o') gs"
  using assms by (induction gs) (simp, metis (no_types, lifting) filter.simps(2) list.map(2))

lemma grants_set: "gd_grants (db\<lparr>gd_grants := gs\<rparr>) = gs"
  by simp

lemma foreign_grant_step:
  assumes "command_owner c \<noteq> o'"
  shows "filter (of_owner o') (gd_grants (grant_do c db)) = filter (of_owner o') (gd_grants db)"
proof (cases c)
  case (Register now e i)
  show ?thesis by (simp add: Register registerConnectorOAuthStateNonceRow_def)
next
  case (Claim now i)
  show ?thesis by (simp add: Claim claimConnectorOAuthStateNonceRow_def)
next
  case (Connect now nano provider i)
  have n: "\<not> of_owner o' (new_grant now i)" using assms by (simp add: Connect of_owner_def new_grant_def)
  have r: "filter (of_owner o') (renew_grants now i gs) = filter (of_owner o') gs" for gs
    unfolding renew_grants_def
    by (rule owned_map) (use assms in \<open>auto simp: Connect of_owner_def same_account_def renewed_grant_def\<close>)
  show ?thesis
  proof (cases rule: connect_cases [of now nano provider i db])
    case (written gs g ss s db' rc)
    have "filter (of_owner o') gs = filter (of_owner o') (gd_grants db)"
      using written(2) by (cases rule: grant_written_cases) (simp_all add: r n)
    then show ?thesis by (simp add: Connect written(1,4))
  qed (simp add: Connect)
next
  case (Refreshed now i)
  show ?thesis unfolding Refreshed grant_do.simps updateConnectorOAuthGrantTokensRow_def fst_conv grants_set
    by (rule owned_map) (use assms in \<open>auto simp: Refreshed of_owner_def refreshable_def owned_grant_def\<close>)
next
  case (Refresh_error now ws user i err)
  show ?thesis unfolding Refresh_error grant_do.simps markConnectorOAuthGrantRefreshErrorRow_def grants_set
    by (rule owned_map) (use assms in \<open>auto simp: Refresh_error of_owner_def owned_grant_def\<close>)
next
  case (Disconnect now ws user sid au)
  have "filter (of_owner o') (map (\<lambda>g. if revocable ws user i g then revoked_grant now v g else g) gs) = filter (of_owner o') gs" for i v gs
    by (rule owned_map) (use assms in \<open>auto simp: Disconnect of_owner_def revocable_def owned_grant_def revoked_grant_def\<close>)
  then show ?thesis
    by (simp add: Disconnect disconnectConnectorOAuthSourceRow_def disconnect_shared_def disconnect_last_def Let_def split: option.split)
qed

interpretation owner_history: guarded_history grant_do "\<lambda>c _. command_owner c \<noteq> o'" "\<lambda>db. filter (of_owner o') (gd_grants db) = gs" for o' gs
  by unfold_locales (simp add: foreign_grant_step)

lemma secret_of_owner: "getConnectorOAuthGrantSecretRow ws user i gs = find (owned_grant ws user i) (filter (of_owner (ws, user)) gs)"
  unfolding getConnectorOAuthGrantSecretRow_def by (induction gs) (auto simp: owned_grant_def of_owner_def)

lemma written_grant:
  assumes "grant_written now i gs0 = Inr (gs, g)"
  shows "g \<in> set gs" "cg_workspace_id g = gi_workspace_id i" "cg_user_id g = gi_user_id i" "cg_token_ciphertext g = gi_token_ciphertext i"
    "cg_token_iv g = gi_token_iv i" "cg_status g = Grant_active"
proof -
  have "g \<in> set gs \<and> cg_workspace_id g = gi_workspace_id i \<and> cg_user_id g = gi_user_id i \<and> cg_token_ciphertext g = gi_token_ciphertext i \<and>
    cg_token_iv g = gi_token_iv i \<and> cg_status g = Grant_active"
    using assms
  proof (cases rule: grant_written_cases)
    case (renewed h)
    have "g \<in> set gs"
      using imageI [OF renewed(1), of "\<lambda>h. if same_account i h then renewed_grant now i h else h"]
      unfolding if_P [OF renewed(2)] renewed(3,4) renew_grants_def set_map .
    moreover have "cg_workspace_id h = gi_workspace_id i" "cg_user_id h = gi_user_id i" using renewed(2) by (simp_all add: same_account_def)
    ultimately show ?thesis by (simp add: renewed(3) renewed_grant_def)
  next
    case new
    then show ?thesis by (simp add: new_grant_def)
  qed
  then show "g \<in> set gs" "cg_workspace_id g = gi_workspace_id i" "cg_user_id g = gi_user_id i" "cg_token_ciphertext g = gi_token_ciphertext i"
    "cg_token_iv g = gi_token_iv i" "cg_status g = Grant_active" by blast+
qed

text \<open>
  What was sealed is read back: after a connect, whatever statements other owners issue, the owner reads under the answered
  grant exactly the sealed credentials of the connect, and the grant is active.
\<close>

theorem sealed_is_read_back:
  assumes "connectConnectorOAuthSourceRow now nano provider i db = (db1, Inr rc)" and "grants_wf db"
    and "reach_by grant_do (\<lambda>c _. command_owner c \<noteq> (gi_workspace_id i, gi_user_id i)) db1 db2"
  shows "\<exists>g. getConnectorOAuthGrantSecretRow (gi_workspace_id i) (gi_user_id i) (cg_id (cn_grant rc)) (gd_grants db2) = Some g \<and>
    cg_token_ciphertext g = gi_token_ciphertext i \<and> cg_token_iv g = gi_token_iv i \<and> cg_status g = Grant_active"
proof (cases rule: connect_cases [of now nano provider i db])
  case (refused e)
  with assms(1) show ?thesis by simp
next
  case (written gs g ss s db' rc')
  have eq: "db' = db1" "rc' = rc" using assms(1) written(1) by simp_all
  have d: "distinct (map cg_id gs)" using wf_connect [OF assms(2), of now nano provider i] written(4) by (simp add: written(1) grants_wf_def)
  note g = written_grant [OF written(2)]
  have "getConnectorOAuthGrantSecretRow (gi_workspace_id i) (gi_user_id i) (cg_id g) gs = Some g"
    unfolding getConnectorOAuthGrantSecretRow_def
  proof (rule find_unique)
    show "owned_grant (gi_workspace_id i) (gi_user_id i) (cg_id g) g" using g by (simp add: owned_grant_def)
    show "h = g" if "h \<in> set gs" "owned_grant (gi_workspace_id i) (gi_user_id i) (cg_id g) h" for h
      using that g(1) d by (metis owned_grant_def distinct_map inj_onD)
  qed (rule g(1))
  moreover have "filter (of_owner (gi_workspace_id i, gi_user_id i)) (gd_grants db2) = filter (of_owner (gi_workspace_id i, gi_user_id i)) gs"
    using owner_history.history_keeps [OF assms(3)] written(4) eq by simp
  moreover have "cg_id (cn_grant rc) = cg_id g" using written(7) eq by (simp add: connector_grant.truncate_def)
  ultimately show ?thesis using g(4-6) by (metis secret_of_owner)
qed

section \<open>A refresh never revives a revoked grant\<close>

lemma refresh_idle:
  assumes "distinct (map cg_id (gd_grants d))" and "h \<in> set (gd_grants d)" and "owned_grant ws owner i h" and "cg_status h = Grant_revoked"
  shows "markConnectorOAuthGrantRefreshErrorRow now ws owner i err d = d"
    and "gi_id inp = i \<Longrightarrow> gi_workspace_id inp = ws \<Longrightarrow> gi_user_id inp = owner \<Longrightarrow> updateConnectorOAuthGrantTokensRow now inp d = (d, False)"
proof -
  have only: "cg_status g = Grant_revoked" if "g \<in> set (gd_grants d)" "owned_grant ws owner i g" for g
    using that assms by (metis owned_grant_def distinct_map inj_onD)
  have "map (\<lambda>g. if owned_grant ws owner i g \<and> cg_status g \<noteq> Grant_revoked
      then g\<lparr>cg_status := Grant_refresh_required, cg_last_refresh_error := Some (take 500 err), cg_updated_at := now\<rparr> else g) (gd_grants d) = gd_grants d"
    by (rule map_idI, rule if_not_P) (blast dest: only)
  then show "markConnectorOAuthGrantRefreshErrorRow now ws owner i err d = d" unfolding markConnectorOAuthGrantRefreshErrorRow_def by simp
  assume i: "gi_id inp = i" "gi_workspace_id inp = ws" "gi_user_id inp = owner"
  have no: "\<not> refreshable inp g" if "g \<in> set (gd_grants d)" for g using only [OF that] by (auto simp: refreshable_def i)
  then have "filter (refreshable inp) (gd_grants d) = []" by (simp add: filter_empty_conv)
  moreover have "map (\<lambda>g. if refreshable inp g then g\<lparr>cg_token_ciphertext := gi_token_ciphertext inp, cg_token_iv := gi_token_iv inp,
      cg_scopes := gi_scopes inp, cg_access_expires_at := gi_access_expires_at inp, cg_last_refresh_at := Some now, cg_last_refresh_error := None,
      cg_status := Grant_active, cg_updated_at := now\<rparr> else g) (gd_grants d) = gd_grants d"
    by (rule map_idI, rule if_not_P) (rule no)
  ultimately show "updateConnectorOAuthGrantTokensRow now inp d = (d, False)" unfolding updateConnectorOAuthGrantTokensRow_def by simp
qed

text \<open>
  Revocation beats refresh: when a grant is revoked while its tokens are being refreshed, the caller gets no token but the
  refresh error, whatever the provider answered, and the revoked grant is left as it is.
\<close>

theorem revocation_beats_refresh:
  assumes "getConnectorOAuthGrantSecretRow ws owner gid (gd_grants db) = Some g" and "cg_status g \<noteq> Grant_revoked"
    and "ge_open env (cg_token_ciphertext g, cg_token_iv g) (ws, owner, gid) = Some tokens" and "needs_refresh (ge_now env) force tokens"
    and "grants_wf (ge_gap env db)" and "h \<in> set (gd_grants (ge_gap env db))" and "owned_grant ws owner gid h" and "cg_status h = Grant_revoked"
    and "provider = ''google_drive'' \<or> provider = ''gmail''"
  shows "getAccessToken env ws owner gid owner provider force db =
    (ge_gap env db, Inl (G_coded ''OAUTH_REFRESH_FAILED'' ''connector access could not be refreshed''))"
proof -
  have gid: "cg_id g = gid" using find_Some_in [OF assms(1) [unfolded getConnectorOAuthGrantSecretRow_def]] by (simp add: owned_grant_def)
  have d: "distinct (map cg_id (gd_grants (ge_gap env db)))" using assms(5) by (simp add: grants_wf_def)
  note idle = refresh_idle [OF d assms(6-8)]
  have "refresh_tokens env ws owner g tokens db = (ge_gap env db, Inl (G_coded ''OAUTH_REFRESH_FAILED'' ''connector access could not be refreshed''))"
    unfolding refresh_tokens_def Let_def gid idle(1) by (simp add: idle split: sum.split)
  moreover have "\<not> (provider \<noteq> ''google_drive'' \<and> provider \<noteq> ''gmail'')" using assms(9) by blast
  ultimately show ?thesis using assms(2,4) unfolding getAccessToken_def by (simp add: assms(1,3))
qed

section \<open>A repeated disconnect\<close>

text \<open>The write of the revoking branch when the named source is not one of the live sources of the grant.\<close>

lemma disconnect_last_missed:
  assumes "da_oauth_grant_id au = gid" and "da_upstream_status au \<noteq> Retained_shared" and "da_identity_preserved au" and "gid \<noteq> []"
    and "g \<in> set (gd_grants db)" and "revocable ws user gid g" and "\<forall>s \<in> set (gd_sources db). sc_id s = sid \<longrightarrow> \<not> live_ref ws user gid s"
  shows "disconnectConnectorOAuthSourceRow f now ws user sid au db =
    (db\<lparr>gd_grants := map (\<lambda>g. if revocable ws user gid g then revoked_grant now (da_upstream_verified_at au) g else g) (gd_grants db),
        gd_sources := map (\<lambda>s. if live_ref ws user gid s then off now s else s) (gd_sources db)\<rparr>,
     Inl (G_dal (makeError ''SOURCE_GRANT_CARDINALITY_CHANGED'' ''connector grant state changed; retry disconnect'' 409)))"
proof -
  have a: "\<not> (gid = [] \<or> \<not> da_identity_preserved au)" using assms(3,4) by simp
  have r: "\<not> \<not> list_ex (revocable ws user gid) (gd_grants db)" using assms(5,6) by (auto simp: list_ex_iff)
  have n: "find (\<lambda>s. sc_id s = sid) (filter (live_ref ws user gid) (gd_sources db)) = None" using assms(7) by (auto simp: find_None_iff)
  show ?thesis
    unfolding disconnectConnectorOAuthSourceRow_def if_not_P [OF a] if_not_P [OF assms(2)] disconnect_last_def Let_def assms(1) if_not_P [OF r] n option.case
    by (rule refl)
qed

lemma off_not_live: "\<not> live_ref ws user gid (if live_ref ws user gid s then off now s else s)"
  by (simp add: live_ref_def off_def)

text \<open>
  C26. A repeated disconnect takes the other source along: when a source of a shared grant has been disconnected already and one other
  live source remains, deleting the first again revokes the grant upstream, empties it and disconnects the other source, yet the
  caller is told that nothing more than the state changed (409) and no audit row records what was done.
\<close>

theorem second_disconnect_revokes_the_other:
  assumes row: "getUserSourceRow user i (gd_sources db) = Some s" "sc_oauth_grant_id s = Some gid" "sc_workspace_id s = Some ws"
      "sc_provider s = ''google_drive'' \<or> sc_provider s = ''gmail''" "sc_disconnected_at s = Some earlier"
    and ids: "user \<noteq> []" "gid \<noteq> []" "ws \<noteq> []" "distinct (map sc_id (gd_sources db))"
    and other: "countActiveConnectorGrantSourcesRow ws user gid (gd_sources db) = 1"
    and grant: "getConnectorOAuthGrantSecretRow ws user gid (gd_grants db) = Some g" "cg_status g \<noteq> Grant_revoked"
    and upstream: "ge_open env (cg_token_ciphertext g, cg_token_iv g) (ws, user, gid) = Some tokens" "ge_revoke env tokens = Inr (st, verified)"
      "st \<noteq> Retained_shared" "ge_gap env db = db"
  shows "\<exists>db'. delete_source legacy env (Some user) (Some ws) i db = (db', Source_failed (G_dal
      (makeError ''SOURCE_GRANT_CARDINALITY_CHANGED'' ''connector grant state changed; retry disconnect'' 409))) \<and>
    countActiveConnectorGrantSourcesRow ws user gid (gd_sources db') = 0 \<and>
    (\<exists>h. getConnectorOAuthGrantSecretRow ws user gid (gd_grants db') = Some h \<and> cg_status h = Grant_revoked \<and> cg_token_ciphertext h = []) \<and>
    gd_audit db' = gd_audit db"
proof -
  let ?r = "\<lambda>g. if revocable ws user gid g then revoked_grant (ge_later env) verified g else g"
  let ?o = "\<lambda>s. if live_ref ws user gid s then off (ge_later env) s else s"
  let ?db' = "db\<lparr>gd_grants := map ?r (gd_grants db), gd_sources := map ?o (gd_sources db)\<rparr>"
  have i: "i \<noteq> []" and s: "s \<in> set (gd_sources db)" "sc_id s = i" using row(1) find_Some_in unfolding getUserSourceRow_def
    by (auto split: if_splits dest!: find_Some_in)
  have g: "g \<in> set (gd_grants db)" "revocable ws user gid g"
    using find_Some_in [OF grant(1) [unfolded getConnectorOAuthGrantSecretRow_def]] grant(2) by (simp_all add: revocable_def)
  have "\<not> live_ref ws user gid r" if "r \<in> set (gd_sources db)" "sc_id r = i" for r
  proof -
    have "r = s" using that s ids(4) by (metis distinct_map inj_onD)
    then show ?thesis using row(5) by (simp add: live_ref_def)
  qed
  then have missed: "\<forall>r \<in> set (gd_sources db). sc_id r = i \<longrightarrow> \<not> live_ref ws user gid r" by blast
  have w: "write_disconnect env ws user i \<lparr>da_oauth_grant_id = gid, da_upstream_status = st, da_identity_preserved = True,
      da_upstream_verified_at = verified, da_request_id = q\<rparr> db = (?db', Source_failed (G_dal
      (makeError ''SOURCE_GRANT_CARDINALITY_CHANGED'' ''connector grant state changed; retry disconnect'' 409)))" for q
    unfolding write_disconnect_def
    by (subst disconnect_last_missed [OF _ _ _ ids(2) g missed]) (simp_all add: upstream(3))
  have bound: "\<not> (\<not> truthy (Some ws) \<or> sc_provider s \<notin> {''google_drive'', ''gmail''})" using row(4) ids(3) by auto
  have last: "\<not> 1 < (1::nat)" "\<not> (1::nat) \<noteq> 1" by simp_all
  have d: "delete_dedicated env user i s gid db = (?db', Source_failed (G_dal
      (makeError ''SOURCE_GRANT_CARDINALITY_CHANGED'' ''connector grant state changed; retry disconnect'' 409)))"
    unfolding delete_dedicated_def if_not_P [OF bound] Let_def row(3) option.sel other if_not_P [OF last(1)] if_not_P [OF last(2)] grant(1)
      option.case if_not_P [OF grant(2)] upstream(1,2,4) sum.case prod.case by (rule w)
  have "sourceMatchesActiveWorkspace s (Some ws)" using row(3) ids(3) by (simp add: sourceMatchesActiveWorkspace_def)
  with i have d: "delete_source legacy env (Some user) (Some ws) i db = (?db', Source_failed (G_dal
      (makeError ''SOURCE_GRANT_CARDINALITY_CHANGED'' ''connector grant state changed; retry disconnect'' 409)))"
    using ids(1,2) row(2) unfolding delete_source_def option.sel row(1) option.case by (simp add: d)
  have "filter (live_ref ws user gid) (map ?o (gd_sources db)) = []" unfolding filter_empty_conv set_map by (intro ballI) (auto simp only: image_iff off_not_live)
  then have c: "countActiveConnectorGrantSourcesRow ws user gid (gd_sources ?db') = 0" by (simp add: countActiveConnectorGrantSourcesRow_def)
  have owned: "owned_grant ws user gid (?r h) = owned_grant ws user gid h" for h by (simp add: owned_grant_def revoked_grant_def)
  have "find (owned_grant ws user gid) (map ?r gs) = map_option ?r (find (owned_grant ws user gid) gs)" for gs
    by (induction gs) (simp_all add: owned)
  then have "getConnectorOAuthGrantSecretRow ws user gid (gd_grants ?db') = Some (?r g)"
    using grant(1) by (simp add: getConnectorOAuthGrantSecretRow_def)
  then have h: "\<exists>h. getConnectorOAuthGrantSecretRow ws user gid (gd_grants ?db') = Some h \<and> cg_status h = Grant_revoked \<and> cg_token_ciphertext h = []"
    using g(2) by (simp add: revoked_grant_def)
  show ?thesis using d c h by (intro exI [of _ ?db']) simp
qed

section \<open>Witnesses\<close>

definition demo_input :: "string \<Rightarrow> grant_input" where
  "demo_input i = \<lparr>gi_id = i, gi_workspace_id = ''ws1'', gi_user_id = ''u1'', gi_authority_provider = ''google'', gi_provider_account_id = ''acct'',
     gi_provider_label = None, gi_scopes = [''drive''], gi_token_ciphertext = ''sealed'', gi_token_iv = ''iv'', gi_access_expires_at = Some 100\<rparr>"

definition demo_empty :: grant_db where
  "demo_empty = \<lparr>gd_grants = [], gd_sources = [], gd_nonces = [], gd_audit = [], gd_audit_seq = 1\<rparr>"

definition demo_nonce :: nonce_input where
  "demo_nonce = \<lparr>ni_nonce_hash = ''h'', ni_workspace_id = ''ws1'', ni_user_id = ''u1'', ni_provider = ''gmail''\<rparr>"

definition demo_token :: token_payload where
  "demo_token = \<lparr>kp_access_token = ''at'', kp_refresh_token = ''rt'', kp_token_type = ''Bearer'', kp_expires_at = Some 100, kp_scopes = [''drive'']\<rparr>"

text \<open>The provider answers at once; while a refresh waits, \<open>during\<close> happens.\<close>

definition demo_env :: "(grant_db \<Rightarrow> grant_db) \<Rightarrow> grant_env" where
  "demo_env during = \<lparr>ge_open = (\<lambda>sealed who. if fst sealed = [] then None else Some demo_token), ge_seal = (\<lambda>t who. Inr (''sealed2'', ''iv2'')),
     ge_refresh = (\<lambda>t. Inr t), ge_revoke = (\<lambda>t. Inr (Upstream_revoked, 9)), ge_iso = (\<lambda>_. []), ge_now = 50, ge_later = 60, ge_gap = during,
     ge_request_id = None, ge_date_error = []\<rparr>"

text \<open>One account connected for Drive and for Gmail: two sources on one grant.\<close>

definition demo_connected :: grant_db where
  "demo_connected = fst (connectConnectorOAuthSourceRow 11 ''b'' ''gmail'' (demo_input ''g2'')
     (fst (connectConnectorOAuthSourceRow 10 ''a'' ''google_drive'' (demo_input ''g1'') demo_empty)))"

definition demo_authority :: "upstream_status \<Rightarrow> disconnect_authority" where
  "demo_authority st = \<lparr>da_oauth_grant_id = ''g1'', da_upstream_status = st, da_identity_preserved = True, da_upstream_verified_at = 9, da_request_id = None\<rparr>"

definition demo_revoke :: "grant_db \<Rightarrow> grant_db" where
  "demo_revoke db = fst (disconnectConnectorOAuthSourceRow (\<lambda>_. []) 55 ''ws1'' ''u1'' ''usc_a'' (demo_authority Upstream_revoked) db)"

definition demo_disconnected :: grant_db where
  "demo_disconnected = fst (delete_source (\<lambda>_ db. (db, Source_error 409 [] [])) (demo_env id) (Some ''u1'') (Some ''ws1'') ''usc_a'' demo_connected)"

lemma nonce_claimed_once_witness:
  "\<not> snd (claimConnectorOAuthStateNonceRow 3 demo_nonce
     (grant_do (Register 2 9 demo_nonce) (fst (claimConnectorOAuthStateNonceRow 2 demo_nonce (fst (registerConnectorOAuthStateNonceRow 1 9 demo_nonce demo_empty))))))"
proof -
  let ?d = "fst (registerConnectorOAuthStateNonceRow 1 9 demo_nonce demo_empty)"
  have "claimConnectorOAuthStateNonceRow 2 demo_nonce ?d = (fst (claimConnectorOAuthStateNonceRow 2 demo_nonce ?d), True)" by code_simp
  moreover have "distinct (map sn_nonce_hash (gd_nonces ?d))" by code_simp
  ultimately show ?thesis by (rule nonce_claimed_once [OF _ _ reach_by_one]) (rule TrueI, rule refl)
qed

lemma wf_empty: "grants_wf demo_empty"
  by (simp add: grants_wf_def demo_empty_def)

lemma revoked_grants_are_empty_witness: "grants_wf (grant_do (Connect 10 ''a'' ''gmail'' (demo_input ''g1'')) demo_empty)"
  by (rule revoked_grants_are_empty [OF reach_by_one wf_empty]) (rule TrueI)

lemma sealed_is_read_back_witness:
  "\<exists>g. getConnectorOAuthGrantSecretRow ''ws1'' ''u1'' ''g1'' (gd_grants (grant_do (Refresh_error 20 ''ws1'' ''u2'' ''g1'' ''x'')
       (fst (connectConnectorOAuthSourceRow 10 ''a'' ''gmail'' (demo_input ''g1'') demo_empty)))) = Some g \<and>
     cg_token_ciphertext g = ''sealed'' \<and> cg_token_iv g = ''iv'' \<and> cg_status g = Grant_active"
proof -
  let ?c = "connectConnectorOAuthSourceRow 10 ''a'' ''gmail'' (demo_input ''g1'') demo_empty"
  have i: "gi_workspace_id (demo_input ''g1'') = ''ws1''" "gi_user_id (demo_input ''g1'') = ''u1''" "gi_token_ciphertext (demo_input ''g1'') = ''sealed''"
    "gi_token_iv (demo_input ''g1'') = ''iv''" by (simp_all add: demo_input_def)
  have c: "?c = (fst ?c, Inr (projr (snd ?c)))" by code_simp
  have n: "cg_id (cn_grant (projr (snd ?c))) = ''g1''" by code_simp
  have a: "command_owner (Refresh_error 20 ''ws1'' ''u2'' ''g1'' ''x'') \<noteq> (gi_workspace_id (demo_input ''g1''), gi_user_id (demo_input ''g1''))"
    by (simp add: i)
  from sealed_is_read_back [OF c wf_empty reach_by_one, of "Refresh_error 20 ''ws1'' ''u2'' ''g1'' ''x''", OF a] show ?thesis
    unfolding i n .
qed

lemma revocation_beats_refresh_witness:
  "getAccessToken (demo_env demo_revoke) ''ws1'' ''u1'' ''g1'' ''u1'' ''gmail'' False demo_connected =
     (demo_revoke demo_connected, Inl (G_coded ''OAUTH_REFRESH_FAILED'' ''connector access could not be refreshed''))"
proof -
  have e: "ge_gap (demo_env demo_revoke) = demo_revoke" "ge_now (demo_env demo_revoke) = 50" by (simp_all add: demo_env_def)
  have g: "getConnectorOAuthGrantSecretRow ''ws1'' ''u1'' ''g1'' (gd_grants demo_connected) = Some (hd (gd_grants demo_connected))"
    "cg_status (hd (gd_grants demo_connected)) \<noteq> Grant_revoked" by code_simp+
  have o: "ge_open (demo_env demo_revoke) (cg_token_ciphertext (hd (gd_grants demo_connected)), cg_token_iv (hd (gd_grants demo_connected))) (''ws1'', ''u1'', ''g1'')
    = Some demo_token" by code_simp
  have n: "needs_refresh (ge_now (demo_env demo_revoke)) False demo_token" by code_simp
  have wf: "grants_wf (ge_gap (demo_env demo_revoke) demo_connected)"
    unfolding e demo_revoke_def demo_connected_def by (intro wf_disconnect wf_connect wf_empty)
  have m: "gd_grants (ge_gap (demo_env demo_revoke) demo_connected) = [hd (gd_grants (demo_revoke demo_connected))]" unfolding e by code_simp
  have r: "hd (gd_grants (demo_revoke demo_connected)) \<in> set (gd_grants (ge_gap (demo_env demo_revoke) demo_connected))"
    unfolding m by simp
  have w: "owned_grant ''ws1'' ''u1'' ''g1'' (hd (gd_grants (demo_revoke demo_connected)))" "cg_status (hd (gd_grants (demo_revoke demo_connected))) = Grant_revoked"
    by code_simp+
  from revocation_beats_refresh [OF g o n wf r w, of "''gmail''"] show ?thesis unfolding e by simp
qed

lemma second_disconnect_revokes_the_other_witness:
  "\<exists>db'. delete_source (\<lambda>_ db. (db, Source_error 409 [] [])) (demo_env id) (Some ''u1'') (Some ''ws1'') ''usc_a'' demo_disconnected =
      (db', Source_failed (G_dal (makeError ''SOURCE_GRANT_CARDINALITY_CHANGED'' ''connector grant state changed; retry disconnect'' 409))) \<and>
    countActiveConnectorGrantSourcesRow ''ws1'' ''u1'' ''g1'' (gd_sources db') = 0 \<and>
    (\<exists>h. getConnectorOAuthGrantSecretRow ''ws1'' ''u1'' ''g1'' (gd_grants db') = Some h \<and> cg_status h = Grant_revoked \<and> cg_token_ciphertext h = []) \<and>
    gd_audit db' = gd_audit demo_disconnected"
proof (rule second_disconnect_revokes_the_other)
  show "getUserSourceRow ''u1'' ''usc_a'' (gd_sources demo_disconnected) = Some (hd (gd_sources demo_disconnected))" by code_simp
  show "getConnectorOAuthGrantSecretRow ''ws1'' ''u1'' ''g1'' (gd_grants demo_disconnected) = Some (hd (gd_grants demo_disconnected))" by code_simp
  show "sc_provider (hd (gd_sources demo_disconnected)) = ''google_drive'' \<or> sc_provider (hd (gd_sources demo_disconnected)) = ''gmail''" by code_simp
  show "distinct (map sc_id (gd_sources demo_disconnected))" by code_simp
  show "countActiveConnectorGrantSourcesRow ''ws1'' ''u1'' ''g1'' (gd_sources demo_disconnected) = 1" by code_simp
  show "ge_open (demo_env id) (cg_token_ciphertext (hd (gd_grants demo_disconnected)), cg_token_iv (hd (gd_grants demo_disconnected))) (''ws1'', ''u1'', ''g1'')
    = Some demo_token" by code_simp
  show "ge_revoke (demo_env id) demo_token = Inr (Upstream_revoked, 9)" by code_simp
  show "sc_disconnected_at (hd (gd_sources demo_disconnected)) = Some 60" by code_simp
  show "cg_status (hd (gd_grants demo_disconnected)) \<noteq> Grant_revoked" by code_simp
  show "sc_oauth_grant_id (hd (gd_sources demo_disconnected)) = Some ''g1''" "sc_workspace_id (hd (gd_sources demo_disconnected)) = Some ''ws1''" by code_simp+
qed (simp_all add: demo_env_def)

text \<open>
  Two disconnects of the two sources of a grant, both deciding on the count of references from before: each retains the grant, and
  the grant ends up active, with its credentials, and without a live source.
\<close>

lemma stale_counts_leave_the_grant_active:
  "(let snap = gd_sources demo_connected;
        d1 = fst (disconnect_shared (\<lambda>_. []) 60 ''ws1'' ''u1'' ''usc_a'' (demo_authority Retained_shared) snap demo_connected);
        d2 = fst (disconnect_shared (\<lambda>_. []) 60 ''ws1'' ''u1'' ''usc_b'' (demo_authority Retained_shared) snap d1)
    in countActiveConnectorGrantSourcesRow ''ws1'' ''u1'' ''g1'' (gd_sources d2) = 0 \<and> map cg_status (gd_grants d2) = [Grant_active])"
  by code_simp

end
