(* ===== verification/Spec2Isabelle.thy ===== *)
theory Spec2Isabelle
  imports Identity Permissions Spine_Authority Access_Rules Idempotency Rate_Limit Completion
    Spine_Store Spine_Props Spine_Lifecycle Members Member_Props Request_Auth Invitations Invite_Props
    Signals Evidence Detector Detector_Props Suppression Policy Json_Text Skill_Resolver Skill_Receipts Skill_Evidence
    Data_Graph Cause_Trace Graph_Store Graph_Props Graph_Persist Projection_Outbox Projection_Props
    Histories Plan_Commands Plan_Props Plan_Moves Plan_Landing Plan_Routes Plan_Examples Plan_Guarded
    Connector_Grants Grant_Props
begin

text \<open>
  A verification development for the Xlooop backend: a Cloudflare Worker in TypeScript (\<^verbatim>\<open>src/src/workers\<close>) over PostgreSQL.

  \<^bold>\<open>The program.\<close> A request passes the middleware (rate limit, authentication), is handled by a route, and the route asks a gate
  whether the caller may act and a store to act. Stores are SQL statements, most of them grouped into one transaction that writes the
  business row, an event, an audit row and an outbox row together. A dispatcher sends outbox rows to a queue; its consumer rebuilds the
  workspace's data graph. Beside that an inference engine scores recommendations from workspace events, and a role and skill resolver
  leaves signed evidence of what each decision and each assistant run was allowed to use.

  \<^bold>\<open>How it is modelled.\<close> A table is a list of records with the columns the code reads and writes; a statement is a function on tables, with
  the keys, references and checks of the migrations as error values; a transaction runs its statements in order and undoes them when
  one fails. Every throw is a value of a sum type with the source's code, message and status. Clocks, random identifiers, cryptography
  and the services the worker calls are parameters, so that theorems hold for all of them; where one needs a property of such a
  parameter (a permutation, a collision-free hash, a fresh clock) it is a named hypothesis, and the theorem's witness shows it can
  hold. Where the code runs concurrently the model either makes the statements the steps of a relation and quantifies over histories
  (idempotency keys, invitations, outbox, plan), or lets a statement read an older snapshot than it writes.

  \<^bold>\<open>The theories\<close>, in the order they build on each other, with the files under \<^verbatim>\<open>src/src/workers\<close> they model:

  \<^item> \<open>Prelude\<close>: strings, numbers, JSON values and errors of the source language, list lemmas, and the interface \<open>tenant_store\<close> (what a
    store must promise for workspaces not to see each other). \<open>Histories\<close>: reachability under admitted commands and the interface
    \<open>guarded_history\<close>, interpreted for every invariant of the plan.
  \<^item> \<open>Identity\<close>, \<open>Permissions\<close>, \<open>Spine_Authority\<close>, \<open>Access_Rules\<close>: \<^verbatim>\<open>dal/principal-adapter.ts\<close>, \<^verbatim>\<open>dal/entitlement-store.ts\<close>,
    \<^verbatim>\<open>lib/permissions.ts\<close>, \<^verbatim>\<open>lib/spine-authority.ts\<close>, \<^verbatim>\<open>lib/allowed-actions.ts\<close>, \<^verbatim>\<open>dal/visibility.ts\<close>, \<^verbatim>\<open>middleware/admin.ts\<close>. The decision
    on a governed write is characterised exactly, with its reason, and fails closed while enforcement is on; four deciders meet the interface \<open>spine_decider\<close>.
  \<^item> \<open>Request_Auth\<close>: \<^verbatim>\<open>middleware/auth.ts\<close>, \<^verbatim>\<open>dal/customer-token-store.ts\<close>. A request is authenticated through exactly one of three doors;
    revocation and removal of the delegating member end a token for ever. The Clerk SDK (\<open>verifyToken\<close>) and SHA-256 are parameters.
  \<^item> \<open>Idempotency\<close>: \<^verbatim>\<open>dal/idempotency-store.ts\<close>, \<^verbatim>\<open>lib/idempotency.ts\<close>. Any interleaving of requests on a key runs one handler to
    success; the interface \<open>reservation_store\<close> is interpreted on the table. \<open>Rate_Limit\<close>: \<^verbatim>\<open>middleware/rate-limit.ts\<close>, bounds of the
    fallback bucket for callers of several configurations; the native binding is a parameter.
  \<^item> \<open>Completion\<close>, \<open>Spine_Store\<close>, \<open>Spine_Props\<close>, \<open>Spine_Lifecycle\<close>: \<^verbatim>\<open>lib/completion-contract.ts\<close>, \<^verbatim>\<open>dal/operational-spine-store.ts\<close>. The
    operations refine an abstract step relation, from which integrity (all references but a packet's project
    stay in their tenant), tenant isolation and single decisions follow; the data
    lifecycle requests on every branch.
  \<^item> \<open>Members\<close>, \<open>Member_Props\<close>, \<open>Invitations\<close>, \<open>Invite_Props\<close>: \<^verbatim>\<open>dal/workspace-member-store.ts\<close>, \<^verbatim>\<open>dal/workspace-member-removal-store.ts\<close>,
    \<^verbatim>\<open>dal/customer-invite-store.ts\<close>, \<^verbatim>\<open>dal/invite-membership-store.ts\<close>. A workspace keeps an owner, a removed member is powerless (enforcement on), a
    delivery is attested once, a superseded lease is dead, an accepted invitation grants no more than it says. Between two statements
    of an operation other operations may run (\<open>i1\<close>, \<open>i2\<close>, \<open>gap\<close>).
  \<^item> \<open>Signals\<close>, \<open>Evidence\<close>, \<open>Detector\<close>, \<open>Detector_Props\<close>, \<open>Suppression\<close>: \<^verbatim>\<open>inference/\<close>, \<^verbatim>\<open>dal/inference-store.ts\<close>,
    \<^verbatim>\<open>crons/permanent-suppress.ts\<close>. Fourteen signals behind one interface, the evidence score, the detector's tick as a refinement of its
    gates, and the permanence of suppression. Real arithmetic stands for floating point.
  \<^item> \<open>Policy\<close>: \<^verbatim>\<open>services/policy-engine.ts\<close>, \<^verbatim>\<open>lib/policy-shadow.ts\<close>. The decision is the most severe outcome of
    the policies as coded.
  \<^item> \<open>Json_Text\<close>, \<open>Skill_Resolver\<close>, \<open>Skill_Receipts\<close>, \<open>Skill_Evidence\<close>: \<^verbatim>\<open>lib/role-skill-resolver.ts\<close>, \<^verbatim>\<open>lib/role-skill-catalog-loader.ts\<close>,
    \<^verbatim>\<open>dal/role-skill-resolution-store.ts\<close>, \<^verbatim>\<open>lib/context-packet.ts\<close>, \<^verbatim>\<open>lib/assistant-context-lineage.ts\<close>. The signed text determines the
    signed fields, the 32-bit fingerprint (words, with wrap-around) detects a changed character, every decision is receipted.
  \<^item> \<open>Data_Graph\<close>, \<open>Cause_Trace\<close>, \<open>Graph_Props\<close>, \<open>Graph_Store\<close>, \<open>Graph_Persist\<close>: \<^verbatim>\<open>graph/data-graph.ts\<close>, \<^verbatim>\<open>dal/graph-store.ts\<close>,
    \<^verbatim>\<open>graph/persist-data-graph.ts\<close>. The builder's phases keep one invariant (interface \<open>graph_phase\<close>), the graph is well-formed, a rebuild
    converges where no document is read and otherwise fails on a check, the traversal returns and is correct.
  \<^item> \<open>Projection_Outbox\<close>, \<open>Projection_Props\<close>: \<^verbatim>\<open>dal/projection-outbox-store.ts\<close>, \<^verbatim>\<open>services/tenant-projection-queue.ts\<close>. The outbox as a state
    machine; dispatcher and consumer refine it; a dispatched row is projected, a processed row is final. The queue's delivery and the
    faults of every call are parameters.
  \<^item> \<open>Plan_Commands\<close>, \<open>Plan_Props\<close>, \<open>Plan_Moves\<close>, \<open>Plan_Landing\<close>, \<open>Plan_Routes\<close>, \<open>Plan_Examples\<close>, \<open>Plan_Guarded\<close>: \<^verbatim>\<open>dal/plan-store.ts\<close>,
    \<^verbatim>\<open>dal/plan-command-store.ts\<close>, \<^verbatim>\<open>dal/plan-command-operations.ts\<close>, \<^verbatim>\<open>routes/plan.ts\<close>, \<^verbatim>\<open>middleware/error.ts\<close>. The hierarchy stays a forest
    with numbered siblings, a move refines a list operation and never trips over the unique index, a retry reads the receipt, a
    refused command leaves no trace, requests stay in their workspace, the routes behind the retry guard of the groups mounted before them
    (\<^verbatim>\<open>lib/idempotency.ts\<close>) replay a delete as long as the guard's statements go through; and three cases in which the code does not do
    what it means to.
  \<^item> \<open>Connector_Grants\<close>, \<open>Grant_Props\<close>: \<^verbatim>\<open>dal/connector-oauth-store.ts\<close>, \<^verbatim>\<open>dal/connector-oauth-adapter.ts\<close>, the DELETE handler of
    \<^verbatim>\<open>routes/sources.ts\<close>. A state nonce is claimed once; a revoked grant is empty and idle in every history, also when a refresh races
    the revocation; what was sealed is read back; and a repeated delete that revokes the other source's grant.

  \<^bold>\<open>Bounds.\<close> The recursion of the cause traversal is bounded by the number of edges plus two, and \<open>walk_total\<close> shows that this is enough on
  every graph. The recursive query for descendants is iterated as often as there are rows, which reaches every descendant
  (\<open>descend_complete\<close>). The row caps of the graph reads (5000, 2000) and of the plan (500) are the source's. A plan of fewer than a
  million entities is assumed where the re-pack offset has to keep numbers apart; positions are checked against the 32-bit column. Strings are
  lists of code units below 256; the source's UTF-16 code units above that, which the graph hash and the fingerprint would also read, do not
  occur in the model.

  \<^bold>\<open>Not modelled.\<close> The other routes and the adapter that delegates to the stores, whose decisions are those of the components above;
  services that call model providers, mail and storage; source translators, the OAuth callback and the capability worker, which translate between external
  formats; timers other than suppression and dispatch; the remaining stores, which repeat the statement patterns modelled here; build
  and verification scripts. Of the database, indexes and locks appear only where they decide an outcome; row-level security is a second
  barrier behind the workspace conditions of the statements and is not relied on.
\<close>

end
